(* ===== verification/Prelude.thy ===== *)
theory Prelude
  imports Complex_Main "HOL-Library.AList" "HOL-Library.Sublist"
begin

section \<open>Shared vocabulary and lemmas\<close>

text \<open>
  What every component of the model shares: the C++ integer division, the
  rounding functions of \<open><cmath>\<close>, decimal text for integers and for
  \<open>%f\<close> doubles, the possibly non-finite double of an interface, the association
  lists that stand for \<open>std::unordered_map\<close>, and a generic run of a machine over
  a list of events.

  IEEE doubles are modelled by the real number they denote: arithmetic is exact, the
  rounding of individual operations is not modelled.  An argument that the code tests
  with \<open>std::isfinite\<close> has type \<open>fp\<close>; one that is tested with \<open>std::isnan\<close>
  only has type \<open>real option\<close>, with \<open>None\<close> for NaN.
\<close>

named_theorems om_frame \<open>which fields an order manager operation leaves alone\<close>
named_theorems risk_simps \<open>effect of the risk operations on the fields\<close>

subsection \<open>Numbers of the source language\<close>

datatype fp = Fin real | PInf | NInf | NaN

definition is_fin :: "fp \<Rightarrow> bool" where
  "is_fin x = (case x of Fin _ \<Rightarrow> True | _ \<Rightarrow> False)"

lemma is_fin_simps [simp]:
  "is_fin (Fin r)" "\<not> is_fin PInf" "\<not> is_fin NInf" "\<not> is_fin NaN"
  by (simp_all add: is_fin_def)

text \<open>Integer division and remainder truncate towards zero.\<close>

definition cdiv :: "int \<Rightarrow> int \<Rightarrow> int" where
  "cdiv a b = sgn a * sgn b * (\<bar>a\<bar> div \<bar>b\<bar>)"

definition cmod :: "int \<Rightarrow> int \<Rightarrow> int" where
  "cmod a b = a - b * cdiv a b"

lemma cdiv_nonneg [simp]: "0 \<le> a \<Longrightarrow> 0 < b \<Longrightarrow> cdiv a b = a div b"
  by (cases "a = 0") (simp_all add: cdiv_def)

lemma cmod_nonneg [simp]: "0 \<le> a \<Longrightarrow> 0 < b \<Longrightarrow> cmod a b = a mod b"
  by (simp add: cmod_def minus_mult_div_eq_mod)

lemma cdiv_neg: "a < 0 \<Longrightarrow> 0 < b \<Longrightarrow> cdiv a b = - ((- a) div b)"
  by (simp add: cdiv_def)

lemma cmod_bounds:
  assumes "0 < b"
  shows "\<bar>cmod a b\<bar> < b"
proof (cases "0 \<le> a")
  case True
  with assms show ?thesis by simp
next
  case False
  with assms have "cmod a b = - ((- a) mod b)"
    by (simp add: cmod_def cdiv_neg minus_div_mult_eq_mod [symmetric] algebra_simps)
  with assms show ?thesis by (simp add: abs_less_iff)
qed

text \<open>\<open>std::round\<close> and \<open>std::lround\<close>: half away from zero.\<close>

definition c_round :: "real \<Rightarrow> int" where
  "c_round x = (if 0 \<le> x then \<lfloor>x + 1/2\<rfloor> else - \<lfloor>1/2 - x\<rfloor>)"

lemma c_round_nonneg: "0 \<le> x \<Longrightarrow> 0 \<le> c_round x"
  by (simp add: c_round_def)

lemma c_round_of_int [simp]: "c_round (of_int n) = n"
proof (cases "0 \<le> n")
  case True
  have "\<lfloor>real_of_int n + 1/2\<rfloor> = n" by linarith
  with True show ?thesis by (simp add: c_round_def)
next
  case False
  then have "\<lfloor>1/2 - real_of_int n\<rfloor> = - n" by linarith
  with False show ?thesis by (simp add: c_round_def)
qed

lemma c_round_close: "\<bar>of_int (c_round x) - x\<bar> \<le> 1/2"
proof (cases "0 \<le> x")
  case True
  then have "c_round x = \<lfloor>x + 1/2\<rfloor>" by (simp add: c_round_def)
  then show ?thesis by linarith
next
  case False
  then have "c_round x = - \<lfloor>1/2 - x\<rfloor>" by (simp add: c_round_def)
  then show ?thesis by linarith
qed

subsection \<open>Decimal text\<close>

text \<open>Decimal digits of a natural number: \<open>std::to_string\<close> of an integer.\<close>

definition digit_char :: "nat \<Rightarrow> char" where
  "digit_char d = char_of (48 + d)"

definition is_digit :: "char \<Rightarrow> bool" where
  "is_digit c = (48 \<le> (of_char c :: nat) \<and> (of_char c :: nat) \<le> 57)"

definition digit_val :: "char \<Rightarrow> nat" where
  "digit_val c = of_char c - 48"

lemma digit_char_val [simp]: "d < 10 \<Longrightarrow> digit_val (digit_char d) = d"
  by (simp add: digit_val_def digit_char_def)

lemma digit_char_is_digit [simp]: "d < 10 \<Longrightarrow> is_digit (digit_char d)"
  by (simp add: is_digit_def digit_char_def)

fun nat_str :: "nat \<Rightarrow> string" where
  "nat_str n = (if n < 10 then [digit_char n] else nat_str (n div 10) @ [digit_char (n mod 10)])"

declare nat_str.simps [simp del]

fun digits_val :: "nat \<Rightarrow> string \<Rightarrow> nat" where
  "digits_val acc [] = acc"
| "digits_val acc (c # cs) = digits_val (10 * acc + digit_val c) cs"

lemma digits_val_append: "digits_val a (xs @ ys) = digits_val (digits_val a xs) ys"
  by (induction xs arbitrary: a) auto

lemma nat_str_digits: "list_all is_digit (nat_str n)"
proof (induction n rule: nat_str.induct)
  case (1 n)
  then show ?case by (cases "n < 10") (simp_all add: nat_str.simps [of n])
qed

lemma nat_str_nonempty [simp]: "nat_str n \<noteq> []"
  by (simp add: nat_str.simps [of n])

lemma digits_val_nat_str: "digits_val 0 (nat_str n) = n"
proof (induction n rule: nat_str.induct)
  case (1 n)
  then show ?case
    by (cases "n < 10") (simp_all add: nat_str.simps [of n] digits_val_append)
qed

lemma nat_str_inj: "nat_str m = nat_str n \<Longrightarrow> m = n"
  using digits_val_nat_str by metis

definition int_str :: "int \<Rightarrow> string" where
  "int_str i = (if i < 0 then ''-'' @ nat_str (nat (- i)) else nat_str (nat i))"

lemma int_str_nonempty [simp]: "int_str i \<noteq> []"
  by (simp add: int_str_def)

text \<open>\<open>printf "%.6f"\<close> and \<open>std::to_string(double)\<close>: round half to even at the sixth decimal.\<close>

definition round_half_even :: "real \<Rightarrow> int" where
  "round_half_even x =
     (let f = \<lfloor>x\<rfloor>; r = x - of_int f
      in if r < 1/2 then f else if r > 1/2 then f + 1 else if even f then f else f + 1)"

lemma round_half_even_of_int [simp]: "round_half_even (of_int n) = n"
  by (simp add: round_half_even_def)

definition pad6 :: "nat \<Rightarrow> string" where
  "pad6 n = [digit_char (n div 100000 mod 10), digit_char (n div 10000 mod 10),
             digit_char (n div 1000 mod 10), digit_char (n div 100 mod 10),
             digit_char (n div 10 mod 10), digit_char (n mod 10)]"

definition f6_str :: "real \<Rightarrow> string" where
  "f6_str x =
     (let n = nat (round_half_even (\<bar>x\<bar> * 1000000))
      in (if x < 0 then ''-'' else []) @ nat_str (n div 1000000) @ ''.'' @ pad6 (n mod 1000000))"

lemma pad6_digits: "list_all is_digit (pad6 n)"
  by (simp add: pad6_def)

lemma pad6_length [simp]: "length (pad6 n) = 6"
  by (simp add: pad6_def)

lemma div10_step: "10 * (n div (10 * k)) + n div k mod 10 = n div (k::nat)"
  by (metis div_mult2_eq mult.commute mult_div_mod_eq)

lemma digits_val_pad6:
  assumes "n < 1000000"
  shows "digits_val 0 (pad6 n) = n"
proof -
  have top: "n div 100000 mod 10 = n div 100000"
    using assms by (simp add: less_mult_imp_div_less)
  have "digits_val 0 (pad6 n) = 10 * (10 * (10 * (10 * (10 * (n div 100000 mod 10)
      + n div 10000 mod 10) + n div 1000 mod 10) + n div 100 mod 10) + n div 10 mod 10) + n mod 10"
    by (simp add: pad6_def)
  also have "\<dots> = n"
    unfolding top
    using div10_step [of n 1] div10_step [of n 10] div10_step [of n 100]
      div10_step [of n 1000] div10_step [of n 10000]
    by simp
  finally show ?thesis .
qed

subsection \<open>Association lists as unordered maps\<close>

text \<open>
  A \<open>std::unordered_map\<close> is an association list: the order of the list is one
  admissible iteration order.  \<open>operator[]\<close> assignment is \<open>AList.update\<close>,
  \<open>erase\<close> is \<open>AList.delete\<close>, \<open>find\<close> is \<open>map_of\<close> and \<open>size\<close> is the length.
\<close>

definition has_key :: "('k \<times> 'v) list \<Rightarrow> 'k \<Rightarrow> bool" where
  "has_key m k = (map_of m k \<noteq> None)"

definition erase_value :: "'v \<Rightarrow> ('k \<times> 'v) list \<Rightarrow> ('k \<times> 'v) list" where
  "erase_value v m = filter (\<lambda>(k, w). w \<noteq> v) m"

definition has_value :: "'v \<Rightarrow> ('k \<times> 'v) list \<Rightarrow> bool" where
  "has_value v m = list_ex (\<lambda>(k, w). w = v) m"

lemma map_of_AList_update [simp]: "map_of (AList.update k v m) k' = (if k' = k then Some v else map_of m k')"
  by (simp add: update_conv')

lemma map_of_AList_delete [simp]: "map_of (AList.delete k m) k' = (if k' = k then None else map_of m k')"
  by (simp add: delete_conv')

lemma has_key_update [simp]: "has_key (AList.update k v m) k' = (k' = k \<or> has_key m k')"
  by (simp add: has_key_def)

lemma has_key_delete [simp]: "has_key (AList.delete k m) k' = (k' \<noteq> k \<and> has_key m k')"
  by (simp add: has_key_def)

lemma has_key_Nil [simp]: "\<not> has_key [] k"
  by (simp add: has_key_def)

lemma erase_value_none [simp]: "\<not> has_value v (erase_value v m)"
  by (auto simp: has_value_def erase_value_def list_ex_iff)

lemma set_erase_value: "set (erase_value v m) = {x \<in> set m. snd x \<noteq> v}"
  by (auto simp: erase_value_def)

subsection \<open>Runs of a machine\<close>

text \<open>A deterministic machine run over a list of events, and the lifting of one-step facts to runs.\<close>

fun run :: "('s \<Rightarrow> 'e \<Rightarrow> 's) \<Rightarrow> 's \<Rightarrow> 'e list \<Rightarrow> 's" where
  "run f s [] = s"
| "run f s (e # es) = run f (f s e) es"

lemma run_append: "run f s (xs @ ys) = run f (run f s xs) ys"
  by (induction xs arbitrary: s) auto

lemma run_invariant:
  assumes "I s" and "\<And>s e. I s \<Longrightarrow> I (f s e)"
  shows "I (run f s es)"
  using assms(1) by (induction es arbitrary: s) (auto intro: assms(2))

lemma run_invariant_on:
  assumes "I s" and "\<And>s e. I s \<Longrightarrow> Q e \<Longrightarrow> I (f s e)" and "list_all Q es"
  shows "I (run f s es)"
  using assms(1,3) by (induction es arbitrary: s) (auto intro: assms(2))

lemma run_frame:
  assumes "\<And>s e. g (f s e) = g s"
  shows "g (run f s es) = g s"
  by (induction es arbitrary: s) (auto simp: assms)

end
