(* ===== verification/Text_Parse.thy ===== *)
theory Text_Parse
  imports Prelude
begin

section \<open>Parsing text: numbers, JSON fields, escapes\<close>

text \<open>
  The standard library's \<open>std::stoi\<close>, \<open>std::stoll\<close> and \<open>std::stod\<close> as far as the
  source uses them (a failed or out-of-range conversion throws, here \<open>None\<close>; hexadecimal,
  infinite and NaN spellings of \<open>stod\<close> and its overflow are not modelled), and the text
  functions of \<open>src/src/execution/orb_config.hpp\<close>: \<open>find_top_key\<close>, the \<open>json_*\<close>
  extractors, \<open>pg_escape_kv\<close> and \<open>trim\<close>.
\<close>

subsection \<open>Standard library conversions\<close>

definition is_space :: "char \<Rightarrow> bool" where
  "is_space c = (let n = (of_char c :: nat) in n = 32 \<or> (9 \<le> n \<and> n \<le> 13))"

fun take_sign :: "string \<Rightarrow> bool \<times> string" where
  "take_sign [] = (False, [])"
| "take_sign (c # cs) =
     (if c = CHR ''-'' then (True, cs) else if c = CHR ''+'' then (False, cs) else (False, c # cs))"

definition parse_int :: "string \<Rightarrow> int option" where
  "parse_int s =
     (let (neg, t) = take_sign (dropWhile is_space s);
          ds = takeWhile is_digit t
      in if ds = [] then None
         else Some (if neg then - int (digits_val 0 ds) else int (digits_val 0 ds)))"

definition stoi :: "string \<Rightarrow> int option" where
  "stoi s = (case parse_int s of None \<Rightarrow> None
     | Some v \<Rightarrow> if - (2 ^ 31) \<le> v \<and> v < 2 ^ 31 then Some v else None)"

definition stoll :: "string \<Rightarrow> int option" where
  "stoll s = (case parse_int s of None \<Rightarrow> None
     | Some v \<Rightarrow> if - (2 ^ 63) \<le> v \<and> v < 2 ^ 63 then Some v else None)"

definition take_exponent :: "string \<Rightarrow> int" where
  "take_exponent s =
     (case s of [] \<Rightarrow> 0
      | c # cs \<Rightarrow>
          if c = CHR ''e'' \<or> c = CHR ''E'' then
            (let (neg, t) = take_sign cs; ds = takeWhile is_digit t
             in if ds = [] then 0
                else if neg then - int (digits_val 0 ds) else int (digits_val 0 ds))
          else 0)"

definition stod :: "string \<Rightarrow> real option" where
  "stod s =
     (let (neg, t) = take_sign (dropWhile is_space s);
          ip = takeWhile is_digit t;
          r1 = dropWhile is_digit t;
          (fp, r2) = (case r1 of [] \<Rightarrow> ([], [])
            | c # cs \<Rightarrow> if c = CHR ''.'' then (takeWhile is_digit cs, dropWhile is_digit cs)
                         else ([], r1))
      in if ip = [] \<and> fp = [] then None
         else
           (let m = real (digits_val 0 ip) + real (digits_val 0 fp) / 10 ^ length fp;
                ex = take_exponent r2;
                v = (if 0 \<le> ex then m * 10 ^ nat ex else m / 10 ^ nat (- ex))
            in Some (if neg then - v else v)))"

subsection \<open>JSON fields at the top level of an object\<close>

definition json_ws :: "char \<Rightarrow> bool" where
  "json_ws c = (c = CHR '' '' \<or> c = CHR 0x09 \<or> c = CHR 0x0D \<or> c = CHR 0x0A)"

definition is_open :: "char \<Rightarrow> bool" where
  "is_open c = (c = CHR 0x7B \<or> c = CHR 0x5B)"

definition is_close :: "char \<Rightarrow> bool" where
  "is_close c = (c = CHR 0x7D \<or> c = CHR 0x5D)"

text \<open>
  The scan of \<open>find_top_key\<close>: the position, the brace depth, whether inside a string,
  and the text still ahead.  \<open>needle\<close> is the quoted key.
\<close>

definition key_here :: "string \<Rightarrow> string \<Rightarrow> bool" where
  "key_here needle rest =
     (take (length needle) rest = needle \<and>
      (case dropWhile json_ws (drop (length needle) rest) of
         [] \<Rightarrow> False | c # _ \<Rightarrow> c = CHR '':''))"

fun scan_key :: "string \<Rightarrow> nat \<Rightarrow> int \<Rightarrow> bool \<Rightarrow> string \<Rightarrow> nat option" where
  "scan_key needle i depth in_str [] = None"
| "scan_key needle i depth in_str (c # cs) =
     (if in_str then
        (if c = CHR 0x5C then scan_key needle (i + 2) depth True (tl cs)
         else if c = CHR 0x22 then scan_key needle (i + 1) depth False cs
         else scan_key needle (i + 1) depth True cs)
      else if c = CHR 0x22 then
        (if depth = 1 \<and> key_here needle (c # cs) then Some i
         else scan_key needle (i + 1) depth True cs)
      else if is_open c then scan_key needle (i + 1) (depth + 1) False cs
      else if is_close c then scan_key needle (i + 1) (depth - 1) False cs
      else scan_key needle (i + 1) depth False cs)"

definition quoted :: "string \<Rightarrow> string" where
  "quoted key = CHR 0x22 # key @ [CHR 0x22]"

definition find_top_key :: "string \<Rightarrow> string \<Rightarrow> nat option" where
  "find_top_key s key = scan_key (quoted key) 0 0 False s"

text \<open>The text of a field's value: after the first colon at or behind the key, white space skipped.\<close>

definition value_text :: "string \<Rightarrow> string \<Rightarrow> string option" where
  "value_text s key =
     (case find_top_key s key of None \<Rightarrow> None
      | Some pos \<Rightarrow>
          (case dropWhile (\<lambda>c. c \<noteq> CHR '':'') (drop pos s) of [] \<Rightarrow> None
           | _ # rest \<Rightarrow> (case dropWhile json_ws rest of [] \<Rightarrow> None | v \<Rightarrow> Some v)))"

definition json_int :: "string \<Rightarrow> string \<Rightarrow> int \<Rightarrow> int" where
  "json_int s key def =
     (case value_text s key of None \<Rightarrow> def
      | Some v \<Rightarrow> (case stoi v of None \<Rightarrow> def | Some n \<Rightarrow> n))"

definition json_dbl :: "string \<Rightarrow> string \<Rightarrow> real \<Rightarrow> real" where
  "json_dbl s key def =
     (case value_text s key of None \<Rightarrow> def
      | Some v \<Rightarrow> (case stod v of None \<Rightarrow> def | Some n \<Rightarrow> n))"

definition json_bool :: "string \<Rightarrow> string \<Rightarrow> bool \<Rightarrow> bool" where
  "json_bool s key def =
     (case value_text s key of None \<Rightarrow> def
      | Some v \<Rightarrow> if take 4 v = ''true'' then True
                   else if take 5 v = ''false'' then False else def)"

text \<open>A string value, honouring backslash escapes; \<open>None\<close> when it is not terminated.\<close>

fun read_string :: "string \<Rightarrow> string \<Rightarrow> string option" where
  "read_string out [] = None"
| "read_string out (c # cs) =
     (if c = CHR 0x5C \<and> cs \<noteq> [] then read_string (out @ [hd cs]) (tl cs)
      else if c = CHR 0x22 then Some out
      else read_string (out @ [c]) cs)"

definition json_str :: "string \<Rightarrow> string \<Rightarrow> string \<Rightarrow> string" where
  "json_str s key def =
     (case value_text s key of None \<Rightarrow> def
      | Some v \<Rightarrow> if hd v \<noteq> CHR 0x22 then def
                   else (case read_string [] (tl v) of None \<Rightarrow> def | Some t \<Rightarrow> t))"

subsection \<open>Escaping of connection-string values, trimming\<close>

fun escape_chars :: "string \<Rightarrow> string" where
  "escape_chars [] = []"
| "escape_chars (c # cs) =
     (if c = CHR 0x27 then CHR 0x5C # CHR 0x27 # escape_chars cs
      else if c = CHR 0x5C then CHR 0x5C # CHR 0x5C # escape_chars cs
      else c # escape_chars cs)"

definition pg_escape_kv :: "string \<Rightarrow> string" where
  "pg_escape_kv v = CHR 0x27 # escape_chars v @ [CHR 0x27]"

text \<open>
  How a quoted connection value is read (libpq's documented rule): a backslash takes the
  next character literally and an unescaped quote ends the value; the rest is returned.
\<close>

fun read_quoted :: "string \<Rightarrow> string \<Rightarrow> (string \<times> string) option" where
  "read_quoted out [] = None"
| "read_quoted out (c # cs) =
     (if c = CHR 0x5C then (case cs of [] \<Rightarrow> None | d # ds \<Rightarrow> read_quoted (out @ [d]) ds)
      else if c = CHR 0x27 then Some (out, cs)
      else read_quoted (out @ [c]) cs)"

definition read_kv :: "string \<Rightarrow> (string \<times> string) option" where
  "read_kv s = (case s of [] \<Rightarrow> None | c # cs \<Rightarrow> if c = CHR 0x27 then read_quoted [] cs else None)"

subsection \<open>Lemmas on numbers\<close>

lemma digit_not_special:
  assumes "is_digit c"
  shows "\<not> is_space c" "c \<noteq> CHR ''-''" "c \<noteq> CHR ''+''" "c \<noteq> CHR ''.''" "c \<noteq> CHR '',''"
    "c \<noteq> CHR 0x0A" "c \<noteq> CHR 0x0D"
  using assms by (auto simp: is_digit_def is_space_def Let_def)

lemma nat_str_hd: "\<exists>c cs. nat_str n = c # cs \<and> is_digit c"
  using nat_str_digits [of n] by (cases "nat_str n") auto

lemma take_sign_nat_str [simp]:
  "take_sign (dropWhile is_space (nat_str n @ r)) = (False, nat_str n @ r)"
  using nat_str_hd [of n] by (auto dest: digit_not_special)

lemma takeWhile_nat_str:
  assumes "r = [] \<or> \<not> is_digit (hd r)"
  shows "takeWhile is_digit (nat_str n @ r) = nat_str n" "dropWhile is_digit (nat_str n @ r) = r"
proof -
  have d: "\<And>c. c \<in> set (nat_str n) \<Longrightarrow> is_digit c"
    using nat_str_digits [of n] by (simp add: list_all_iff)
  from assms have "takeWhile is_digit r = []" "dropWhile is_digit r = r"
    by (cases r; simp)+
  with d show "takeWhile is_digit (nat_str n @ r) = nat_str n" "dropWhile is_digit (nat_str n @ r) = r"
    by simp_all
qed

lemma take_sign_int_str:
  "take_sign (dropWhile is_space (int_str i @ r)) = (i < 0, nat_str (nat \<bar>i\<bar>) @ r)"
  by (auto simp: int_str_def is_space_def Let_def)

lemma parse_int_int_str:
  assumes "r = [] \<or> \<not> is_digit (hd r)"
  shows "parse_int (int_str i @ r) = Some i"
  by (cases "i < 0")
    (simp_all add: parse_int_def take_sign_int_str digits_val_nat_str Let_def takeWhile_nat_str [OF assms])

lemma stoll_int_str: "- (2 ^ 63) \<le> i \<Longrightarrow> i < 2 ^ 63 \<Longrightarrow> stoll (int_str i) = Some i"
  using parse_int_int_str [of "[]" i] by (simp add: stoll_def)

lemma stoi_int_str: "- (2 ^ 31) \<le> i \<Longrightarrow> i < 2 ^ 31 \<Longrightarrow> stoi (int_str i) = Some i"
  using parse_int_int_str [of "[]" i] by (simp add: stoi_def)

text \<open>A value on the grid of the sixth decimal is read back exactly from its \<open>%f\<close> text.\<close>

definition on_f6_grid :: "real \<Rightarrow> bool" where
  "on_f6_grid x = (of_int \<lfloor>x * 1000000\<rfloor> = x * 1000000)"

lemma on_f6_gridI: "x * 1000000 = of_int k \<Longrightarrow> on_f6_grid x"
  by (simp add: on_f6_grid_def)

lemma round_half_even_grid:
  assumes "on_f6_grid x"
  shows "real (nat (round_half_even (\<bar>x\<bar> * 1000000))) = \<bar>x\<bar> * 1000000"
proof -
  obtain k :: int where k: "x * 1000000 = of_int k"
    using assms by (metis on_f6_grid_def)
  then have "\<bar>x\<bar> * 1000000 = of_int \<bar>k\<bar>" by (simp add: abs_mult flip: k)
  then show ?thesis unfolding \<open>\<bar>x\<bar> * 1000000 = of_int \<bar>k\<bar>\<close> round_half_even_of_int by simp
qed

lemma stod_f6_str:
  assumes "on_f6_grid x"
  shows "stod (f6_str x) = Some x"
proof -
  define n where "n = nat (round_half_even (\<bar>x\<bar> * 1000000))"
  have n: "real n = \<bar>x\<bar> * 1000000" unfolding n_def by (rule round_half_even_grid [OF assms])
  let ?ip = "nat_str (n div 1000000)" and ?fp = "pad6 (n mod 1000000)"
  have text_eq: "f6_str x = (if x < 0 then ''-'' else []) @ ?ip @ CHR ''.'' # ?fp"
    by (simp add: f6_str_def Let_def n_def)
  have dot: "CHR ''.'' # ?fp = [] \<or> \<not> is_digit (hd (CHR ''.'' # ?fp))"
    by (simp add: is_digit_def)
  have sign: "take_sign (dropWhile is_space (f6_str x)) = (x < 0, ?ip @ CHR ''.'' # ?fp)"
    by (auto simp: text_eq is_space_def Let_def)
  have fp: "takeWhile is_digit ?fp = ?fp" "dropWhile is_digit ?fp = []"
    using pad6_digits [of "n mod 1000000"] by (simp_all add: list_all_iff)
  have "real (n div 1000000) + real (n mod 1000000) / 1000000 = \<bar>x\<bar>"
  proof -
    have "real (n div 1000000) * 1000000 + real (n mod 1000000) = real n"
      by (metis of_nat_add of_nat_mult of_nat_numeral div_mult_mod_eq)
    with n show ?thesis by (simp add: field_simps)
  qed
  then show ?thesis
    by (simp add: stod_def sign takeWhile_nat_str [OF dot] fp digits_val_nat_str digits_val_pad6
        take_exponent_def Let_def)
qed

subsection \<open>Lemmas on escaping and JSON\<close>

lemma read_quoted_escape: "read_quoted out (escape_chars v @ CHR 0x27 # r) = Some (out @ v, r)"
  by (induction v arbitrary: out) auto

lemma read_kv_escape: "read_kv (pg_escape_kv v @ r) = Some (v, r)"
  using read_quoted_escape [of "[]" v r] by (simp add: read_kv_def pg_escape_kv_def)

text \<open>Inside a string literal the scan never reports a key before the literal ends.\<close>

fun plain_string :: "string \<Rightarrow> bool" where
  "plain_string s = list_all (\<lambda>c. c \<noteq> CHR 0x22 \<and> c \<noteq> CHR 0x5C) s"

lemma scan_in_string:
  "plain_string t \<Longrightarrow> scan_key needle i d True (t @ CHR 0x22 # r) = scan_key needle (i + length t + 1) d False r"
  by (induction t arbitrary: i) auto

end
