(* ===== verification/Civil_Time.thy ===== *)
theory Civil_Time
  imports Prelude
begin

section \<open>Eastern time and trading dates\<close>

text \<open>
  \<open>us_et_offset\<close> and \<open>trading_date_str\<close> of \<open>src/src/execution/orb_config.hpp\<close>,
  \<open>et_trade_date\<close> and \<open>et_day_start_us\<close> of \<open>src/src/paper/paper_engine.hpp\<close> and
  the ET clock of the strategies and paper brokers.  \<open>gmtime_r\<close> is the C library's
  conversion of a Unix time to a UTC calendar date, written with the usual era
  arithmetic on the proleptic Gregorian calendar.
\<close>

record tm =
  tm_year :: int   \<comment> \<open>full year, not years since 1900\<close>
  tm_mon :: int    \<comment> \<open>1 to 12\<close>
  tm_mday :: int
  tm_hour :: int
  tm_min :: int
  tm_sec :: int

definition civil_of_days :: "int \<Rightarrow> int \<times> int \<times> int" where
  "civil_of_days days =
     (let z = days + 719468;
          era = z div 146097;
          doe = z mod 146097;
          yoe = (doe - doe div 1460 + doe div 36524 - doe div 146096) div 365;
          doy = doe - (365 * yoe + yoe div 4 - yoe div 100);
          mp = (5 * doy + 2) div 153;
          d = doy - (153 * mp + 2) div 5 + 1;
          m = (if mp < 10 then mp + 3 else mp - 9);
          y = yoe + era * 400 + (if m \<le> 2 then 1 else 0)
      in (y, m, d))"

definition gmtime :: "int \<Rightarrow> tm" where
  "gmtime t =
     (let days = t div 86400; sod = t mod 86400; (y, m, d) = civil_of_days days
      in \<lparr>tm_year = y, tm_mon = m, tm_mday = d,
          tm_hour = sod div 3600, tm_min = sod mod 3600 div 60, tm_sec = sod mod 60\<rparr>)"

text \<open>Sakamoto's day of the week of the first of a month, 0 for Sunday.\<close>

definition first_dow :: "int \<Rightarrow> int \<Rightarrow> int" where
  "first_dow y0 m =
     (let y = y0 - (if m < 3 then 1 else 0);
          t = [0, 3, 2, 5, 0, 3, 5, 1, 4, 6, 2, 4] ! nat (m - 1)
      in cmod (y + cdiv y 4 - cdiv y 100 + cdiv y 400 + t + 1) 7)"

definition us_et_offset :: "tm \<Rightarrow> int" where
  "us_et_offset u =
     (let year = tm_year u; month = tm_mon u; mday = tm_mday u; hour = tm_hour u in
      if month < 3 \<or> month > 11 then 5
      else if month > 3 \<and> month < 11 then 4
      else if month = 3 then
        (let fd = first_dow year 3;
             first_sun = (if fd = 0 then 1 else 8 - fd);
             second_sun = first_sun + 7
         in if mday < second_sun then 5
            else if mday > second_sun then 4
            else if hour \<ge> 7 then 4 else 5)
      else
        (let fd = first_dow year 11;
             first_sun = (if fd = 0 then 1 else 8 - fd)
         in if mday < first_sun then 4
            else if mday > first_sun then 5
            else if hour < 6 then 4 else 5))"

text \<open>\<open>strftime "%Y-%m-%d"\<close>.\<close>

definition two_digits :: "int \<Rightarrow> string" where
  "two_digits n = (if n < 10 then ''0'' else []) @ int_str n"

definition date_str :: "tm \<Rightarrow> string" where
  "date_str t = int_str (tm_year t) @ ''-'' @ two_digits (tm_mon t) @ ''-'' @ two_digits (tm_mday t)"

definition trading_date_str :: "int \<Rightarrow> string" where
  "trading_date_str tt =
     (let et_t = tt - us_et_offset (gmtime tt) * 3600;
          et_t' = (if tm_hour (gmtime et_t) \<ge> 18 then et_t + 24 * 3600 else et_t)
      in date_str (gmtime et_t'))"

definition et_trade_date :: "int \<Rightarrow> string" where
  "et_trade_date ts_us =
     (let ts_sec = cdiv ts_us 1000000;
          et = ts_sec - us_et_offset (gmtime ts_sec) * 3600;
          h0 = cmod (cdiv et 3600) 24;
          et_hour = (if h0 < 0 then h0 + 24 else h0);
          et' = (if et_hour \<ge> 18 then et + 86400 else et)
      in date_str (gmtime et'))"

definition et_day_start_us :: "int \<Rightarrow> int" where
  "et_day_start_us ts_us =
     (let ts_sec = cdiv ts_us 1000000;
          off = us_et_offset (gmtime ts_sec);
          et = ts_sec - off * 3600;
          et_midnight = cdiv et 86400 * 86400;
          boundary0 = et_midnight + 18 * 3600;
          boundary = (if et < boundary0 then boundary0 - 86400 else boundary0)
      in (boundary + off * 3600) * 1000000)"

text \<open>
  The ET wall clock of a tick: \<open>utc_micros_to_et\<close> of the ORB strategy (with seconds) and
  \<open>utc_to_et\<close> of both paper brokers (hour and minute).
\<close>

definition utc_micros_to_et :: "int \<Rightarrow> int \<times> int \<times> int" where
  "utc_micros_to_et ts_us =
     (let ts_sec = cdiv ts_us 1000000;
          et_sec = ts_sec - us_et_offset (gmtime ts_sec) * 3600;
          h = cmod (cdiv et_sec 3600) 24;
          m = cdiv (cmod et_sec 3600) 60;
          s = cmod et_sec 60
      in (if h < 0 then h + 24 else h, m, s))"

definition utc_to_et :: "int \<Rightarrow> int \<times> int" where
  "utc_to_et ts_us =
     (let ts_sec = cdiv ts_us 1000000;
          et = ts_sec - us_et_offset (gmtime ts_sec) * 3600;
          h = cmod (cdiv et 3600) 24
      in (if h < 0 then h + 24 else h, cdiv (cmod et 3600) 60))"

subsection \<open>Lemmas\<close>

lemma us_et_offset_cases: "us_et_offset u = 4 \<or> us_et_offset u = 5"
  by (simp add: us_et_offset_def Let_def)

lemma us_et_offset_bounds: "4 \<le> us_et_offset u" "us_et_offset u \<le> 5"
  using us_et_offset_cases [of u] by auto

lemma gmtime_fields: "tm_hour (gmtime t) = t mod 86400 div 3600" "tm_min (gmtime t) = t mod 86400 mod 3600 div 60"
  by (simp_all add: gmtime_def Let_def split: prod.splits)

lemma hour_of_day: "t mod 86400 div 3600 = t div 3600 mod (24::int)"
proof -
  have "t mod (3600 * 24) = 3600 * (t div 3600 mod 24) + t mod 3600"
    by (rule zmod_zmult2_eq) simp
  then have "t mod 86400 = 3600 * (t div 3600 mod 24) + t mod 3600" by simp
  then show ?thesis by simp
qed

lemma gmtime_hour_bounds: "0 \<le> tm_hour (gmtime t)" "tm_hour (gmtime t) < 24"
proof -
  have "0 \<le> t mod 86400" "t mod 86400 < 86400" by simp_all
  then show "0 \<le> tm_hour (gmtime t)" "tm_hour (gmtime t) < 24"
    by (simp_all add: gmtime_fields)
qed

lemma et_clock_agree: "utc_to_et ts = (fst (utc_micros_to_et ts), fst (snd (utc_micros_to_et ts)))"
  by (simp add: utc_to_et_def utc_micros_to_et_def Let_def)

lemma et_sec_nonneg:
  assumes "18000000000 \<le> ts"
  shows "0 \<le> cdiv ts 1000000 - us_et_offset u * 3600"
proof -
  have "18000 \<le> ts div 1000000" using assms by linarith
  with assms us_et_offset_bounds [of u] show ?thesis by simp
qed

lemma utc_to_et_bounds:
  assumes "18000000000 \<le> ts"
  shows "0 \<le> fst (utc_to_et ts) \<and> fst (utc_to_et ts) < 24 \<and>
    0 \<le> snd (utc_to_et ts) \<and> snd (utc_to_et ts) < 60"
proof -
  define et where "et = cdiv ts 1000000 - us_et_offset (gmtime (cdiv ts 1000000)) * 3600"
  have et: "0 \<le> et" unfolding et_def by (rule et_sec_nonneg [OF assms])
  then have "utc_to_et ts = (et div 3600 mod 24, et mod 3600 div 60)"
    by (simp add: utc_to_et_def Let_def et_def [symmetric])
  moreover have "et mod 3600 < 3600" "0 \<le> et mod 3600" by simp_all
  ultimately show ?thesis by auto
qed

lemma et_day_start_le:
  assumes "18000000000 \<le> ts"
  shows "et_day_start_us ts \<le> ts \<and> ts < et_day_start_us ts + 86400 * 1000000"
proof -
  have sec: "cdiv ts 1000000 = ts div 1000000" using assms by simp
  define off where "off = us_et_offset (gmtime (ts div 1000000))"
  define et where "et = ts div 1000000 - off * 3600"
  have et: "0 \<le> et" using et_sec_nonneg [OF assms] by (simp add: sec et_def off_def)
  have day: "et div 86400 * 86400 \<le> et" "et < et div 86400 * 86400 + 86400" by linarith+
  have start: "et_day_start_us ts =
      ((if et < et div 86400 * 86400 + 64800 then et div 86400 * 86400 - 21600
        else et div 86400 * 86400 + 64800) + off * 3600) * 1000000"
    using et by (simp add: et_day_start_us_def Let_def sec flip: off_def et_def)
  have "et + off * 3600 = ts div 1000000" by (simp add: et_def)
  moreover have "ts div 1000000 * 1000000 \<le> ts" "ts < ts div 1000000 * 1000000 + 1000000" by linarith+
  ultimately show ?thesis using day unfolding start by (simp split: if_splits)
qed

text \<open>C36. The paper engine's trade date and the executor's trading date are the same function of the
  time, at every instant from the fifth hour of the epoch on.\<close>

theorem trade_dates_agree:
  assumes "18000000000 \<le> ts"
  shows "et_trade_date ts = trading_date_str (ts div 1000000)"
proof -
  have sec: "cdiv ts 1000000 = ts div 1000000" using assms by simp
  define et where "et = ts div 1000000 - us_et_offset (gmtime (ts div 1000000)) * 3600"
  have et: "0 \<le> et" using et_sec_nonneg [OF assms] by (simp add: sec et_def)
  have hour: "tm_hour (gmtime et) = et div 3600 mod 24"
    by (simp add: gmtime_fields hour_of_day)
  have nonneg: "(et div 3600 mod 24 < 0) = False" by (simp add: not_less)
  have "et_trade_date ts = date_str (gmtime (if et div 3600 mod 24 \<ge> 18 then et + 86400 else et))"
    using et by (simp add: et_trade_date_def Let_def sec nonneg flip: et_def)
  moreover have "trading_date_str (ts div 1000000) =
      date_str (gmtime (if tm_hour (gmtime et) \<ge> 18 then et + 86400 else et))"
    by (simp add: trading_date_str_def Let_def flip: et_def)
  ultimately show ?thesis by (simp add: hour)
qed

theorem trade_dates_agree_witness:
  "et_trade_date 1790000000123456 = trading_date_str 1790000000"
  using trade_dates_agree [of 1790000000123456] by simp

end
