(* ===== verification/Config.thy ===== *)
theory Config
  imports Prelude
begin

section \<open>Executor configuration\<close>

text \<open>
  \<open>OrbConfig\<close> of \<open>src/src/execution/orb_config.hpp\<close>: the parameters the strategies,
  the risk manager, the order manager and the paper brokers read, their defaults, the
  load-time validation, the dry-run label, the escaping of connection-string values and
  the hand-written JSON field extractors.  A field \<open>f\<close> of the struct is \<open>c_f\<close> here.
  Credentials and connection settings that no decision reads have no field.
\<close>

record orb_config =
  c_orb_minutes :: int
  c_sl_points :: real
  c_trail_be_trigger :: real
  c_trail_step :: real
  c_trail_delay_secs :: int
  c_trail_be_offset :: real
  c_breakout_buffer :: real
  c_max_daily_trades :: int
  c_last_entry_hour :: int
  c_last_entry_min :: int
  c_eod_flatten_hour :: int
  c_eod_flatten_min :: int
  c_news_blackout_min :: int
  c_stop_cooldown_secs :: int
  c_sl_fire_timeout_ms :: int
  c_net_mismatch_grace_ms :: int
  c_qty :: int
  c_session_open_hour :: int
  c_session_open_min :: int
  c_trailing_drawdown_cap :: real
  c_consistency_cap_pct :: real
  c_daily_loss_limit :: real
  c_commission_rt :: real
  c_symbol :: string
  c_exchange :: string
  c_point_value :: real
  c_fill_model :: string
  c_spread_gate_ticks :: real
  c_spread_gate_rel :: real
  c_imbalance_min :: real
  c_microprice_lead :: bool
  c_imbalance_max :: real
  c_book_exit_flip :: real
  c_book_be_on_flip :: bool
  c_book_tp_imbalance :: real
  c_book_tp_min_pts :: real
  c_book_size_agree :: int
  c_fill_wait_secs :: int
  c_tp_points :: real
  c_tp_r :: real
  c_rvol_min :: real
  c_rvol_max :: real
  c_rvol_bars :: int
  c_vt_risk_usd :: real
  c_vt_qty_max :: int
  c_regime_exit_min_eff :: real
  c_trail_step_trend :: real
  c_trail_step_range :: real
  c_tp_r_range :: real
  c_regime_min_range_atr :: real
  c_regime_max_range_atr :: real
  c_regime_min_eff :: real
  c_regime_max_eff :: real
  c_regime_min_move_atr :: real
  c_regime_max_move_atr :: real
  c_regime_with_move :: int
  c_regime_min_minutes :: int
  c_account_label :: string
  c_strategy :: string
  c_engine :: string
  c_starting_balance :: real
  c_cycle_mode :: bool
  c_dry_run :: bool
  c_dry_label_forced :: bool

definition default_config :: orb_config where
  "default_config = \<lparr>
     c_orb_minutes = 15, c_sl_points = 15, c_trail_be_trigger = 3, c_trail_step = 10,
     c_trail_delay_secs = 300, c_trail_be_offset = 1, c_breakout_buffer = 0,
     c_max_daily_trades = 3, c_last_entry_hour = 13, c_last_entry_min = 0,
     c_eod_flatten_hour = 15, c_eod_flatten_min = 55, c_news_blackout_min = 5,
     c_stop_cooldown_secs = 5, c_sl_fire_timeout_ms = 3000, c_net_mismatch_grace_ms = 5000,
     c_qty = 1, c_session_open_hour = 9, c_session_open_min = 30,
     c_trailing_drawdown_cap = 2500, c_consistency_cap_pct = 3/10, c_daily_loss_limit = -1000,
     c_commission_rt = 1, c_symbol = ''MNQ'', c_exchange = ''CME'', c_point_value = 2,
     c_fill_model = ''last_slip'', c_spread_gate_ticks = 0, c_spread_gate_rel = 0,
     c_imbalance_min = 0, c_microprice_lead = False, c_imbalance_max = 0, c_book_exit_flip = 0,
     c_book_be_on_flip = False, c_book_tp_imbalance = 0, c_book_tp_min_pts = 1,
     c_book_size_agree = 0, c_fill_wait_secs = 0, c_tp_points = 0, c_tp_r = 0,
     c_rvol_min = 0, c_rvol_max = 0, c_rvol_bars = 20, c_vt_risk_usd = 0, c_vt_qty_max = 5,
     c_regime_exit_min_eff = 0, c_trail_step_trend = 0, c_trail_step_range = 0, c_tp_r_range = 0,
     c_regime_min_range_atr = 0, c_regime_max_range_atr = 0, c_regime_min_eff = 0,
     c_regime_max_eff = 0, c_regime_min_move_atr = 0, c_regime_max_move_atr = 0,
     c_regime_with_move = 0, c_regime_min_minutes = 15, c_account_label = ''legends'',
     c_strategy = ''ORB'', c_engine = ''orb'', c_starting_balance = 50000,
     c_cycle_mode = False, c_dry_run = True, c_dry_label_forced = False\<rparr>"

definition take_profit_pts :: "orb_config \<Rightarrow> real" where
  "take_profit_pts c =
     (if c_tp_points c > 0 then c_tp_points c
      else if c_tp_r c > 0 then c_tp_r c * c_sl_points c else 0)"

subsection \<open>Dry-run label\<close>

definition ends_with :: "string \<Rightarrow> string \<Rightarrow> bool" where
  "ends_with sfx s = (length s \<ge> length sfx \<and> drop (length s - length sfx) s = sfx)"

definition apply_dry_run_label :: "orb_config \<Rightarrow> orb_config \<times> bool" where
  "apply_dry_run_label c =
     (if \<not> c_dry_run c then (c, False)
      else if ends_with ''_dry'' (c_account_label c) then (c, False)
      else (c\<lparr>c_account_label := c_account_label c @ ''_dry'', c_dry_label_forced := True\<rparr>, True))"

definition base_label :: "string \<Rightarrow> string" where
  "base_label l =
     (if length l > length ''_dry'' \<and> drop (length l - length ''_dry'') l = ''_dry''
      then take (length l - length ''_dry'') l else l)"

subsection \<open>Validation\<close>

definition in_range_ch :: "char \<Rightarrow> char \<Rightarrow> char \<Rightarrow> bool" where
  "in_range_ch lo hi c = ((of_char lo :: nat) \<le> of_char c \<and> (of_char c :: nat) \<le> of_char hi)"

definition label_char :: "char \<Rightarrow> bool" where
  "label_char c = (in_range_ch CHR ''a'' CHR ''z'' c \<or> in_range_ch CHR ''0'' CHR ''9'' c \<or> c = CHR ''_'')"

definition tag_char :: "char \<Rightarrow> bool" where
  "tag_char c = (label_char c \<or> in_range_ch CHR ''A'' CHR ''Z'' c)"

text \<open>The keys of the exceptions \<open>validate\<close> throws, in the order it checks them.\<close>

datatype config_error =
    NotPositive string
  | BadLabel
  | BadStrategy
  | BadEngine
  | EngineNeedsTag

definition validate :: "orb_config \<Rightarrow> config_error option" where
  "validate c =
     (if c_qty c \<le> 0 then Some (NotPositive ''qty'')
      else if c_orb_minutes c \<le> 0 then Some (NotPositive ''orb_minutes'')
      else if c_trail_step c \<le> 0 then Some (NotPositive ''trail_step'')
      else if c_sl_points c \<le> 0 then Some (NotPositive ''sl_points'')
      else if c_trailing_drawdown_cap c \<le> 0 then Some (NotPositive ''trailing_drawdown_cap'')
      else if c_account_label c = [] \<or> \<not> list_all label_char (c_account_label c) then Some BadLabel
      else if c_strategy c = [] \<or> \<not> list_all tag_char (c_strategy c) then Some BadStrategy
      else if c_engine c \<noteq> ''orb'' \<and> c_engine c \<noteq> ''trend'' \<and> c_engine c \<noteq> ''mtf_scalper''
        then Some BadEngine
      else if (c_engine c = ''trend'' \<or> c_engine c = ''mtf_scalper'') \<and> c_strategy c = ''ORB''
        then Some EngineNeedsTag
      else None)"

end
