(* ===== verification/Risk.thy ===== *)
theory Risk
  imports Config
begin

section \<open>Risk: the strategy's risk manager and the account envelope\<close>

text \<open>
  \<open>RiskManager\<close> of \<open>src/src/execution/risk_manager.hpp\<close> and \<open>AccountEnvelope\<close> of
  \<open>src/src/paper/paper_engine.hpp\<close>.  Both keep an equity with its rolling peak and a
  daily P&L; the common contract is the locale \<open>pnl_ledger\<close>, interpreted for both.
  Every public method takes the manager's mutex for its whole body, so a method is one
  atomic step of the model.  Log lines are left out.
\<close>

subsection \<open>RiskManager\<close>

record risk =
  rk_cfg :: orb_config
  rk_equity :: real
  rk_peak :: real
  rk_total :: real
  rk_daily :: real
  rk_unreal :: real
  rk_halted :: bool
  rk_reason :: string

definition risk_new :: "orb_config \<Rightarrow> real \<Rightarrow> risk" where
  "risk_new cfg start = \<lparr>rk_cfg = cfg, rk_equity = start, rk_peak = start, rk_total = 0,
     rk_daily = 0, rk_unreal = 0, rk_halted = False, rk_reason = []\<rparr>"

definition risk_seed_total :: "real \<Rightarrow> risk \<Rightarrow> risk" where
  "risk_seed_total x r = r\<lparr>rk_total := x\<rparr>"

definition risk_seed_daily :: "real \<Rightarrow> risk \<Rightarrow> risk" where
  "risk_seed_daily x r = r\<lparr>rk_daily := x\<rparr>"

definition risk_reset_daily :: "risk \<Rightarrow> risk" where
  "risk_reset_daily r =
     (let r1 = r\<lparr>rk_daily := 0\<rparr> in
      if rk_halted r1 \<and> prefix ''daily_loss_limit'' (rk_reason r1)
      then r1\<lparr>rk_halted := False, rk_reason := []\<rparr> else r1)"

definition risk_clear_halt :: "risk \<Rightarrow> risk" where
  "risk_clear_halt r = (if \<not> rk_halted r then r else r\<lparr>rk_halted := False, rk_reason := []\<rparr>)"

definition risk_halt :: "string \<Rightarrow> risk \<Rightarrow> risk" where
  "risk_halt reason r = r\<lparr>rk_halted := True, rk_reason := reason\<rparr>"

definition fp_str :: "fp \<Rightarrow> string" where
  "fp_str x = (case x of Fin r \<Rightarrow> f6_str r | PInf \<Rightarrow> ''inf'' | NInf \<Rightarrow> ''-inf'' | NaN \<Rightarrow> ''nan'')"

definition daily_breach :: "risk \<Rightarrow> bool" where
  "daily_breach r = (c_daily_loss_limit (rk_cfg r) < 0 \<and> rk_daily r \<le> c_daily_loss_limit (rk_cfg r))"

definition drawdown_breach :: "risk \<Rightarrow> bool" where
  "drawdown_breach r = (rk_peak r - rk_equity r \<ge> c_trailing_drawdown_cap (rk_cfg r))"

definition consistency_breach :: "risk \<Rightarrow> bool" where
  "consistency_breach r =
     (let prior = rk_total r - rk_daily r in
      \<not> c_cycle_mode (rk_cfg r) \<and> prior \<ge> 500 \<and> rk_daily r > 0 \<and>
      rk_daily r / prior > c_consistency_cap_pct (rk_cfg r))"

definition risk_book :: "real \<Rightarrow> risk \<Rightarrow> risk" where
  "risk_book x r =
     (let e = rk_equity r + x in
      r\<lparr>rk_equity := e, rk_daily := rk_daily r + x, rk_total := rk_total r + x,
        rk_peak := (if e > rk_peak r then e else rk_peak r)\<rparr>)"

definition risk_on_trade_pnl :: "fp \<Rightarrow> risk \<Rightarrow> risk" where
  "risk_on_trade_pnl p r =
     (case p of
        Fin x \<Rightarrow>
          (let r1 = risk_book x r; c = rk_cfg r1; dd = rk_peak r1 - rk_equity r1;
               prior = rk_total r1 - rk_daily r1
           in if daily_breach r1 then
                risk_halt (''daily_loss_limit: daily_pnl $'' @ f6_str (rk_daily r1) @ '' <= limit $''
                           @ f6_str (c_daily_loss_limit c)) r1
              else if drawdown_breach r1 then
                risk_halt (''trailing_drawdown_cap: drawdown $'' @ f6_str dd @ '' >= cap $''
                           @ f6_str (c_trailing_drawdown_cap c)) r1
              else if consistency_breach r1 then
                risk_halt (''consistency_cap: today='' @ f6_str (rk_daily r1) @ '' / prior=''
                           @ f6_str prior @ '' = '' @ f6_str (rk_daily r1 / prior * 100)
                           @ ''% (cap '' @ f6_str (c_consistency_cap_pct c * 100) @ ''%)'') r1
              else r1)
      | _ \<Rightarrow> risk_halt (''non_finite_pnl: '' @ fp_str p) r)"

text \<open>\<open>can_trade\<close>: \<open>None\<close> when trading is permitted, else the reason it reports.\<close>

definition risk_can_trade :: "risk \<Rightarrow> string option" where
  "risk_can_trade r =
     (if rk_halted r then Some (rk_reason r)
      else if daily_breach r then Some ''daily_loss_limit active''
      else if rk_peak r - (rk_equity r + rk_unreal r) \<ge> c_trailing_drawdown_cap (rk_cfg r)
        then Some ''trailing_drawdown_cap active''
      else None)"

definition risk_update_unrealized :: "fp \<Rightarrow> risk \<Rightarrow> risk" where
  "risk_update_unrealized p r = (case p of Fin x \<Rightarrow> r\<lparr>rk_unreal := x\<rparr> | _ \<Rightarrow> r)"

definition risk_set_equity :: "real \<Rightarrow> risk \<Rightarrow> risk" where
  "risk_set_equity e r = r\<lparr>rk_equity := e, rk_peak := (if e > rk_peak r then e else rk_peak r)\<rparr>"

definition risk_halt_external :: "string \<Rightarrow> risk \<Rightarrow> risk" where
  "risk_halt_external reason r = risk_halt reason r"

text \<open>Every call the executor and the paper brokers make, as one step.\<close>

datatype risk_event =
    TradePnl fp
  | Unrealized fp
  | ResetDaily
  | ClearHalt
  | HaltExternal string
  | SetEquity real
  | SeedTotal real
  | SeedDaily real

fun risk_step :: "risk \<Rightarrow> risk_event \<Rightarrow> risk" where
  "risk_step r (TradePnl p) = risk_on_trade_pnl p r"
| "risk_step r (Unrealized p) = risk_update_unrealized p r"
| "risk_step r ResetDaily = risk_reset_daily r"
| "risk_step r ClearHalt = risk_clear_halt r"
| "risk_step r (HaltExternal why) = risk_halt_external why r"
| "risk_step r (SetEquity e) = risk_set_equity e r"
| "risk_step r (SeedTotal x) = risk_seed_total x r"
| "risk_step r (SeedDaily x) = risk_seed_daily x r"

subsection \<open>AccountEnvelope\<close>

record envelope =
  ae_start :: real
  ae_daily_limit :: real
  ae_dd_cap :: real
  ae_total :: real
  ae_day :: real
  ae_peak :: real
  ae_day_start :: real
  ae_reason :: string

definition ae_new :: "real \<Rightarrow> real \<Rightarrow> real \<Rightarrow> envelope" where
  "ae_new start daily cap = \<lparr>ae_start = start, ae_daily_limit = daily, ae_dd_cap = cap,
     ae_total = 0, ae_day = 0, ae_peak = start, ae_day_start = 0, ae_reason = []\<rparr>"

definition ae_equity :: "envelope \<Rightarrow> real" where
  "ae_equity a = ae_start a + ae_total a"

definition ae_seed :: "real \<Rightarrow> real \<Rightarrow> real \<Rightarrow> envelope \<Rightarrow> envelope" where
  "ae_seed tot d pk a =
     (let a1 = a\<lparr>ae_total := tot, ae_day := d,
                 ae_peak := (if pk > ae_start a then pk else ae_start a)\<rparr>
      in if ae_equity a1 > ae_peak a1 then a1\<lparr>ae_peak := ae_equity a1\<rparr> else a1)"

definition ae_check_limits :: "envelope \<Rightarrow> string" where
  "ae_check_limits a =
     (if ae_daily_limit a < 0 \<and> ae_day a \<le> ae_daily_limit a then ''account_daily_loss''
      else if ae_dd_cap a > 0 \<and> ae_equity a < ae_peak a - ae_dd_cap a then ''account_trailing_dd''
      else [])"

definition ae_book :: "real \<Rightarrow> envelope \<Rightarrow> envelope" where
  "ae_book x a =
     (let a1 = a\<lparr>ae_total := ae_total a + x, ae_day := ae_day a + x\<rparr>
      in if ae_equity a1 > ae_peak a1 then a1\<lparr>ae_peak := ae_equity a1\<rparr> else a1)"

definition ae_on_trade_close :: "real \<Rightarrow> envelope \<Rightarrow> envelope \<times> string" where
  "ae_on_trade_close x a = (let a1 = ae_book x a in (a1, ae_check_limits a1))"

definition ae_reset_day :: "envelope \<Rightarrow> envelope" where
  "ae_reset_day a =
     (let a1 = a\<lparr>ae_day_start := ae_equity a, ae_day := 0\<rparr>
      in if ae_reason a1 = ''account_daily_loss'' then a1\<lparr>ae_reason := []\<rparr> else a1)"

definition ae_set_halt :: "string \<Rightarrow> envelope \<Rightarrow> envelope" where
  "ae_set_halt reason a = a\<lparr>ae_reason := reason\<rparr>"

definition ae_halted :: "envelope \<Rightarrow> bool" where
  "ae_halted a = (ae_reason a \<noteq> [])"

subsection \<open>The contract they share\<close>

text \<open>A ledger books realised P&L, tracks the peak of its equity and starts trading days.\<close>

locale pnl_ledger =
  fixes book :: "real \<Rightarrow> 's \<Rightarrow> 's"
    and new_day :: "'s \<Rightarrow> 's"
    and equity :: "'s \<Rightarrow> real"
    and peak :: "'s \<Rightarrow> real"
    and day :: "'s \<Rightarrow> real"
  assumes equity_book: "equity (book x s) = equity s + x"
    and peak_book: "peak (book x s) = max (peak s) (equity s + x)"
    and day_book: "day (book x s) = day s + x"
    and equity_new_day: "equity (new_day s) = equity s"
    and peak_new_day: "peak (new_day s) = peak s"
    and day_new_day: "day (new_day s) = 0"
begin

lemmas ledger_simps = equity_book peak_book day_book equity_new_day peak_new_day day_new_day

fun book_all :: "'s \<Rightarrow> real list \<Rightarrow> 's" where
  "book_all s [] = s"
| "book_all s (x # xs) = book_all (book x s) xs"

lemma book_all_equity: "equity (book_all s xs) = equity s + sum_list xs"
  by (induction xs arbitrary: s) (simp_all add: ledger_simps)

lemma book_all_day: "day (book_all s xs) = day s + sum_list xs"
  by (induction xs arbitrary: s) (simp_all add: ledger_simps)

lemma book_all_peak:
  "peak (book_all s xs) = fold max (map (\<lambda>n. equity s + sum_list (take n xs)) [1..<Suc (length xs)]) (peak s)"
proof (induction xs arbitrary: s)
  case Nil
  then show ?case by simp
next
  case (Cons x xs)
  have idx: "[1..<Suc (length (x # xs))] = 1 # map Suc [1..<Suc (length xs)]"
    by (subst upt_conv_Cons) (simp_all add: map_Suc_upt del: upt_Suc)
  have "map (\<lambda>n. equity s + sum_list (take n (x # xs))) [1..<Suc (length (x # xs))] =
      (equity s + x) # map (\<lambda>n. equity (book x s) + sum_list (take n xs)) [1..<Suc (length xs)]"
    unfolding idx by (simp add: ledger_simps comp_def add.assoc)
  then show ?case by (simp add: Cons.IH ledger_simps max.commute)
qed

lemma book_all_peak_ge: "equity s \<le> peak s \<Longrightarrow> equity (book_all s xs) \<le> peak (book_all s xs) \<and> peak s \<le> peak (book_all s xs)"
proof (induction xs arbitrary: s)
  case Nil
  then show ?case by simp
next
  case (Cons x xs)
  have "equity (book x s) \<le> peak (book x s)" and ge: "peak s \<le> peak (book x s)"
    by (simp_all add: ledger_simps)
  then show ?case using Cons.IH [of "book x s"] by simp
qed

lemma book_all_append: "book_all s (xs @ ys) = book_all (book_all s xs) ys"
  by (induction xs arbitrary: s) simp_all

lemma day_since_reset: "day (book_all (new_day (book_all s xs)) ys) = sum_list ys"
  by (simp add: book_all_day day_new_day)

end

lemma risk_book_fields [risk_simps]:
  "rk_cfg (risk_book x r) = rk_cfg r" "rk_equity (risk_book x r) = rk_equity r + x"
  "rk_peak (risk_book x r) = max (rk_peak r) (rk_equity r + x)"
  "rk_daily (risk_book x r) = rk_daily r + x" "rk_total (risk_book x r) = rk_total r + x"
  "rk_unreal (risk_book x r) = rk_unreal r" "rk_halted (risk_book x r) = rk_halted r"
  "rk_reason (risk_book x r) = rk_reason r"
  by (simp_all add: risk_book_def Let_def max_def)

lemma risk_halt_fields [risk_simps]:
  "rk_cfg (risk_halt w r) = rk_cfg r" "rk_equity (risk_halt w r) = rk_equity r"
  "rk_peak (risk_halt w r) = rk_peak r" "rk_daily (risk_halt w r) = rk_daily r"
  "rk_total (risk_halt w r) = rk_total r" "rk_unreal (risk_halt w r) = rk_unreal r"
  "rk_halted (risk_halt w r)" "rk_reason (risk_halt w r) = w"
  by (simp_all add: risk_halt_def)

text \<open>Whatever it reports, a finite P&L is booked in full.\<close>

lemma risk_pnl_fields [risk_simps]:
  "rk_cfg (risk_on_trade_pnl (Fin x) r) = rk_cfg r"
  "rk_equity (risk_on_trade_pnl (Fin x) r) = rk_equity r + x"
  "rk_peak (risk_on_trade_pnl (Fin x) r) = max (rk_peak r) (rk_equity r + x)"
  "rk_daily (risk_on_trade_pnl (Fin x) r) = rk_daily r + x"
  "rk_total (risk_on_trade_pnl (Fin x) r) = rk_total r + x"
  "rk_unreal (risk_on_trade_pnl (Fin x) r) = rk_unreal r"
  by (simp_all add: risk_on_trade_pnl_def Let_def risk_simps)

lemma risk_reset_fields [risk_simps]:
  "rk_cfg (risk_reset_daily r) = rk_cfg r" "rk_equity (risk_reset_daily r) = rk_equity r"
  "rk_peak (risk_reset_daily r) = rk_peak r" "rk_daily (risk_reset_daily r) = 0"
  "rk_total (risk_reset_daily r) = rk_total r" "rk_unreal (risk_reset_daily r) = rk_unreal r"
  by (simp_all add: risk_reset_daily_def Let_def)

interpretation rm: pnl_ledger "\<lambda>x. risk_on_trade_pnl (Fin x)" risk_reset_daily rk_equity rk_peak rk_daily
  by unfold_locales (simp_all add: risk_simps)

lemma ae_book_fields [risk_simps]:
  "ae_start (ae_book x a) = ae_start a" "ae_total (ae_book x a) = ae_total a + x"
  "ae_day (ae_book x a) = ae_day a + x" "ae_dd_cap (ae_book x a) = ae_dd_cap a"
  "ae_daily_limit (ae_book x a) = ae_daily_limit a" "ae_reason (ae_book x a) = ae_reason a"
  "ae_equity (ae_book x a) = ae_equity a + x"
  "ae_peak (ae_book x a) = max (ae_peak a) (ae_equity a + x)"
  by (simp_all add: ae_book_def ae_equity_def Let_def max_def)

lemma ae_reset_fields [risk_simps]:
  "ae_equity (ae_reset_day a) = ae_equity a" "ae_peak (ae_reset_day a) = ae_peak a"
  "ae_day (ae_reset_day a) = 0"
  by (simp_all add: ae_reset_day_def ae_equity_def Let_def)

interpretation ae: pnl_ledger "\<lambda>x a. fst (ae_on_trade_close x a)" ae_reset_day ae_equity ae_peak ae_day
  by unfold_locales (simp_all add: ae_on_trade_close_def Let_def risk_simps)

end
