(* ===== verification/Risk_Props.thy ===== *)
theory Risk_Props
  imports Risk
begin

section \<open>Properties of the risk manager and the account envelope\<close>

text \<open>
  The books of a run of risk-manager calls, what its trade gate lets through, how long a
  halt lasts, and the relation between the two ledgers.
\<close>

subsection \<open>The books of a run\<close>

text \<open>The finite P&L booked by a run, the part of it since the last daily reset, and the equities passed through.\<close>

fun booked :: "risk_event list \<Rightarrow> real list" where
  "booked [] = []"
| "booked (TradePnl (Fin x) # es) = x # booked es"
| "booked (_ # es) = booked es"

fun since_reset :: "real \<Rightarrow> risk_event list \<Rightarrow> real" where
  "since_reset d [] = d"
| "since_reset d (TradePnl (Fin x) # es) = since_reset (d + x) es"
| "since_reset d (ResetDaily # es) = since_reset 0 es"
| "since_reset d (_ # es) = since_reset d es"

fun equity_path :: "real \<Rightarrow> real list \<Rightarrow> real list" where
  "equity_path e [] = []"
| "equity_path e (x # xs) = (e + x) # equity_path (e + x) xs"

definition seeds_or_sets :: "risk_event \<Rightarrow> bool" where
  "seeds_or_sets ev = (case ev of SetEquity _ \<Rightarrow> True | SeedTotal _ \<Rightarrow> True | SeedDaily _ \<Rightarrow> True | _ \<Rightarrow> False)"

lemma risk_nonfinite_fields [risk_simps]:
  assumes "\<not> is_fin p"
  shows "risk_on_trade_pnl p r = risk_halt (''non_finite_pnl: '' @ fp_str p) r"
  using assms by (cases p) (simp_all add: risk_on_trade_pnl_def)

lemma risk_unreal_fields [risk_simps]:
  "rk_cfg (risk_update_unrealized p r) = rk_cfg r" "rk_equity (risk_update_unrealized p r) = rk_equity r"
  "rk_peak (risk_update_unrealized p r) = rk_peak r" "rk_daily (risk_update_unrealized p r) = rk_daily r"
  "rk_total (risk_update_unrealized p r) = rk_total r" "rk_halted (risk_update_unrealized p r) = rk_halted r"
  "rk_reason (risk_update_unrealized p r) = rk_reason r"
  by (simp_all add: risk_update_unrealized_def split: fp.splits)

lemma risk_clear_fields [risk_simps]:
  "rk_cfg (risk_clear_halt r) = rk_cfg r" "rk_equity (risk_clear_halt r) = rk_equity r"
  "rk_peak (risk_clear_halt r) = rk_peak r" "rk_daily (risk_clear_halt r) = rk_daily r"
  "rk_total (risk_clear_halt r) = rk_total r" "rk_unreal (risk_clear_halt r) = rk_unreal r"
  "\<not> rk_halted (risk_clear_halt r)"
  by (simp_all add: risk_clear_halt_def)

lemma risk_run_books:
  assumes "list_all (\<lambda>ev. \<not> seeds_or_sets ev) es"
  shows "rk_equity (run risk_step r es) = rk_equity r + sum_list (booked es) \<and>
    rk_total (run risk_step r es) = rk_total r + sum_list (booked es) \<and>
    rk_daily (run risk_step r es) = since_reset (rk_daily r) es \<and>
    rk_peak (run risk_step r es) = fold max (equity_path (rk_equity r) (booked es)) (rk_peak r)"
  using assms
proof (induction es arbitrary: r)
  case Nil
  then show ?case by simp
next
  case (Cons ev es)
  show ?case
  proof (cases ev)
    case (TradePnl p)
    with Cons show ?thesis by (cases p) (simp_all add: risk_simps max.commute)
  qed (use Cons in \<open>simp_all add: risk_simps seeds_or_sets_def risk_halt_external_def\<close>)
qed

text \<open>
  C12.  Exact books: whatever trades, unrealised marks, daily resets and halts a session
  sees, the equity is the starting balance plus every finite P&L, the cycle total is their
  sum, the day's P&L is the sum since the last reset, and the high-water mark is the
  largest equity ever reached.
\<close>

theorem risk_books_exact:
  assumes "list_all (\<lambda>ev. \<not> seeds_or_sets ev) es"
  shows "rk_equity (run risk_step (risk_new c start) es) = start + sum_list (booked es) \<and>
    rk_total (run risk_step (risk_new c start) es) = sum_list (booked es) \<and>
    rk_daily (run risk_step (risk_new c start) es) = since_reset 0 es \<and>
    rk_peak (run risk_step (risk_new c start) es) = fold max (equity_path start (booked es)) start"
  using risk_run_books [OF assms, of "risk_new c start"] by (simp add: risk_new_def)

lemma risk_books_exact_witness:
  "rk_peak (run risk_step (risk_new default_config 50000)
     [TradePnl (Fin 100), ResetDaily, TradePnl (Fin (-30)), TradePnl NaN]) = 50100"
  using risk_books_exact [of "[TradePnl (Fin 100), ResetDaily, TradePnl (Fin (-30)), TradePnl NaN]"
      default_config 50000]
  by (simp add: seeds_or_sets_def del: run.simps)

subsection \<open>How long a halt lasts\<close>

definition daily_reason :: "string \<Rightarrow> bool" where
  "daily_reason w = prefix ''daily_loss_limit'' w"

definition keeps_halt :: "real \<Rightarrow> risk_event \<Rightarrow> bool" where
  "keeps_halt limit ev =
     (case ev of ClearHalt \<Rightarrow> False
      | HaltExternal w \<Rightarrow> \<not> daily_reason w
      | TradePnl p \<Rightarrow> 0 \<le> limit
      | _ \<Rightarrow> True)"

definition hard_halted :: "risk \<Rightarrow> bool" where
  "hard_halted r = (rk_halted r \<and> \<not> daily_reason (rk_reason r))"

lemma hard_halted_halt [simp]: "hard_halted (risk_halt w r) = (\<not> daily_reason w)"
  by (simp add: hard_halted_def risk_simps)

lemma hard_halted_book [simp]: "hard_halted (risk_book x r) = hard_halted r"
  by (simp add: hard_halted_def risk_simps)

lemma not_daily_reasons [simp]:
  "\<not> daily_reason (''trailing_drawdown_cap: '' @ w)" "\<not> daily_reason (''consistency_cap: '' @ w)"
  "\<not> daily_reason (''non_finite_pnl: '' @ w)"
  by (simp_all add: daily_reason_def)

lemma hard_halted_pnl:
  assumes "hard_halted r" and "0 \<le> c_daily_loss_limit (rk_cfg r)"
  shows "hard_halted (risk_on_trade_pnl p r)"
proof (cases p)
  case (Fin x)
  have "\<not> daily_breach (risk_book x r)"
    using assms(2) by (simp add: daily_breach_def risk_simps)
  with Fin assms(1) show ?thesis
    by (simp add: risk_on_trade_pnl_def Let_def daily_reason_def)
qed (simp_all add: risk_on_trade_pnl_def daily_reason_def)

lemma risk_step_cfg [risk_simps]: "rk_cfg (risk_step r ev) = rk_cfg r"
proof (cases ev)
  case (TradePnl p)
  then show ?thesis by (cases p) (simp_all add: risk_simps)
qed (simp_all add: risk_simps risk_set_equity_def risk_seed_total_def risk_seed_daily_def
  risk_halt_external_def)

lemma hard_halted_step:
  assumes "hard_halted r" and "keeps_halt (c_daily_loss_limit (rk_cfg r)) ev"
  shows "hard_halted (risk_step r ev)"
proof (cases ev)
  case (TradePnl p)
  with assms show ?thesis by (simp add: keeps_halt_def hard_halted_pnl)
next
  case ResetDaily
  with assms show ?thesis
    by (simp add: hard_halted_def risk_reset_daily_def Let_def daily_reason_def)
qed (use assms in \<open>simp_all add: keeps_halt_def hard_halted_def risk_simps risk_halt_external_def
  risk_set_equity_def risk_seed_total_def risk_seed_daily_def\<close>)

lemma hard_halted_run:
  assumes "hard_halted r" and "list_all (keeps_halt (c_daily_loss_limit (rk_cfg r))) es"
  shows "hard_halted (run risk_step r es)"
  using assms by (induction es arbitrary: r) (auto simp: hard_halted_step risk_step_cfg)



text \<open>
  The proviso is needed: \<open>halt()\<close> overwrites the reason, so a manual halt followed by
  a losing trade that also breaches the daily limit becomes a daily-loss halt and the next
  daily reset lifts it, although the halt itself was never cleared.
\<close>

theorem hard_halt_lifted_by_reset:
  "risk_can_trade (run risk_step (risk_new default_config 50000)
     [HaltExternal ''broker_pnl'', TradePnl (Fin (-1000))]) \<noteq> None \<and>
   risk_can_trade (run risk_step (risk_new default_config 50000)
     [HaltExternal ''broker_pnl'', TradePnl (Fin (-1000)), ResetDaily]) = None"
  by (simp add: risk_new_def default_config_def risk_halt_external_def risk_halt_def
      risk_on_trade_pnl_def risk_book_def daily_breach_def drawdown_breach_def Let_def
      risk_can_trade_def risk_reset_daily_def)

subsection \<open>The two ledgers\<close>

lemma risk_run_trades: "run risk_step r (map (\<lambda>x. TradePnl (Fin x)) xs) = rm.book_all r xs"
  by (induction xs arbitrary: r) simp_all

lemma ae_run_trades: "run (\<lambda>a x. fst (ae_on_trade_close x a)) a xs = ae.book_all a xs"
  by (induction xs arbitrary: a) simp_all

lemma rm_all_cfg: "rk_cfg (rm.book_all r xs) = rk_cfg r" and rm_all_unreal: "rk_unreal (rm.book_all r xs) = rk_unreal r"
  by (induction xs arbitrary: r) (simp_all add: risk_simps)

lemma ae_all_limits: "ae_dd_cap (ae.book_all a xs) = ae_dd_cap a \<and> ae_daily_limit (ae.book_all a xs) = ae_daily_limit a"
proof (induction xs arbitrary: a)
  case (Cons x xs)
  have "ae_dd_cap (fst (ae_on_trade_close x a)) = ae_dd_cap a"
    "ae_daily_limit (fst (ae_on_trade_close x a)) = ae_daily_limit a"
    by (simp_all add: ae_on_trade_close_def risk_simps Let_def)
  with Cons.IH show ?case by simp
qed simp

text \<open>
  C14.  The paper account envelope never halts later than the executor's risk manager
  would: given the same balance, limits and trades, whenever the envelope reports a breach
  the risk manager refuses the next entry.
\<close>

theorem envelope_breach_blocks_manager:
  assumes "ae_check_limits (run (\<lambda>a x. fst (ae_on_trade_close x a))
             (ae_new start (c_daily_loss_limit c) (c_trailing_drawdown_cap c)) xs) \<noteq> []"
  shows "risk_can_trade (run risk_step (risk_new c start) (map (\<lambda>x. TradePnl (Fin x)) xs)) \<noteq> None"
proof -
  define r where "r = rm.book_all (risk_new c start) xs"
  define a where "a = ae.book_all (ae_new start (c_daily_loss_limit c) (c_trailing_drawdown_cap c)) xs"
  have start: "ae_equity (ae_new start d cap) = start" for d cap
    by (simp add: ae_equity_def ae_new_def)
  have fresh: "ae_day (ae_new start d cap) = 0" "ae_peak (ae_new start d cap) = start" for d cap
    by (simp_all add: ae_new_def)
  have same: "rk_equity r = ae_equity a" "rk_daily r = ae_day a" "rk_peak r = ae_peak a"
    by (simp_all add: r_def a_def rm.book_all_equity ae.book_all_equity rm.book_all_day ae.book_all_day
        rm.book_all_peak ae.book_all_peak start fresh risk_new_def del: upt_Suc)
  have cfg: "rk_cfg r = c" "rk_unreal r = 0" "ae_dd_cap a = c_trailing_drawdown_cap c"
    "ae_daily_limit a = c_daily_loss_limit c"
    by (simp_all add: r_def a_def rm_all_cfg rm_all_unreal ae_all_limits risk_new_def ae_new_def)
  have "ae_check_limits a \<noteq> []" using assms by (simp add: a_def ae_run_trades)
  then show ?thesis
    by (auto simp: ae_check_limits_def risk_can_trade_def daily_breach_def same cfg
        risk_run_trades simp flip: r_def split: if_splits)
qed

lemma envelope_breach_blocks_manager_witness:
  "risk_can_trade (run risk_step (risk_new default_config 50000) (map (\<lambda>x. TradePnl (Fin x)) [200, -1300])) \<noteq> None"
  by (rule envelope_breach_blocks_manager)
    (simp add: default_config_def ae_new_def ae_on_trade_close_def ae_book_def ae_equity_def
      ae_check_limits_def Let_def)

end
