(* ===== verification/Quote.thy ===== *)
theory Quote
  imports Config
begin

section \<open>Top of book and session regime\<close>

text \<open>
  \<open>src/src/paper/paper_quote.hpp\<close>: the quote with its derived readings, the state of the
  book with the entry gates, the in-position book exits and the honest market fill, and the
  regime of the session (opening range of the day, relative volume) with the exit-side knobs
  and the volatility-targeted size.  A gate returns the blocking reason, the empty string
  when the entry is allowed.
\<close>

subsection \<open>Quotes\<close>

record quote =
  q_ts_us :: int
  q_bid :: real
  q_ask :: real
  q_bid_sz :: int
  q_ask_sz :: int

definition quote_new :: quote where
  "quote_new = \<lparr>q_ts_us = 0, q_bid = 0, q_ask = 0, q_bid_sz = 0, q_ask_sz = 0\<rparr>"

definition quote_valid :: "quote \<Rightarrow> bool" where
  "quote_valid q = (q_bid q > 0 \<and> q_ask q \<ge> q_bid q)"

definition quote_mid :: "quote \<Rightarrow> real" where
  "quote_mid q = (q_bid q + q_ask q) / 2"

definition spread_ticks :: "quote \<Rightarrow> real \<Rightarrow> real" where
  "spread_ticks q tick = (if tick > 0 then (q_ask q - q_bid q) / tick else 0)"

definition imbalance :: "quote \<Rightarrow> real" where
  "imbalance q = (let n = q_bid_sz q + q_ask_sz q in
     if n > 0 then of_int (q_bid_sz q) / of_int n else 1/2)"

definition microprice :: "quote \<Rightarrow> real" where
  "microprice q = (let n = q_bid_sz q + q_ask_sz q in
     if n > 0 then (q_bid q * of_int (q_ask_sz q) + q_ask q * of_int (q_bid_sz q)) / of_int n
     else quote_mid q)"

subsection \<open>The state of the book\<close>

record quote_state =
  qs_q :: quote
  qs_ema :: real

definition qs_new :: quote_state where
  "qs_new = \<lparr>qs_q = quote_new, qs_ema = 0\<rparr>"

definition qs_on_quote :: "quote \<Rightarrow> real \<Rightarrow> quote_state \<Rightarrow> quote_state" where
  "qs_on_quote n tick b =
     (let s = spread_ticks n tick
      in \<lparr>qs_q = n, qs_ema = (if qs_ema b \<le> 0 then s else qs_ema b + 2/100 * (s - qs_ema b))\<rparr>)"

definition fresh_us :: int where
  "fresh_us = 5000000"

definition qs_fresh :: "quote_state \<Rightarrow> int \<Rightarrow> bool" where
  "qs_fresh b ts = (quote_valid (qs_q b) \<and> ts - q_ts_us (qs_q b) \<le> fresh_us \<and> q_ts_us (qs_q b) - ts \<le> fresh_us)"

definition qs_any_gate :: "orb_config \<Rightarrow> bool" where
  "qs_any_gate c = (c_spread_gate_ticks c > 0 \<or> c_spread_gate_rel c > 0 \<or> c_imbalance_min c > 0 \<or>
     c_microprice_lead c \<or> c_imbalance_max c > 0)"

definition qs_agrees :: "quote_state \<Rightarrow> int \<Rightarrow> bool" where
  "qs_agrees b dir = (let im = imbalance (qs_q b) in if dir > 0 then im \<ge> 55/100 else im \<le> 45/100)"

definition qs_fill_ready :: "quote_state \<Rightarrow> int \<Rightarrow> int \<Rightarrow> real \<Rightarrow> bool" where
  "qs_fill_ready b dir ts tick =
     (if \<not> qs_fresh b ts then True
      else if spread_ticks (qs_q b) tick \<le> 1 + 1/1000000000 then True
      else (let d = microprice (qs_q b) - quote_mid (qs_q b) in if dir > 0 then d > 0 else d < 0))"

definition qs_book_exit :: "quote_state \<Rightarrow> orb_config \<Rightarrow> int \<Rightarrow> int \<Rightarrow> real \<Rightarrow> string" where
  "qs_book_exit b c pos_dir ts pnl_pts =
     (if \<not> qs_fresh b ts then []
      else (let im = imbalance (qs_q b) in
        if c_book_exit_flip c > 0 \<and>
           ((pos_dir > 0 \<and> im \<le> c_book_exit_flip c) \<or> (pos_dir < 0 \<and> im \<ge> 1 - c_book_exit_flip c))
        then ''book_flip''
        else if c_book_tp_imbalance c > 0 \<and> pnl_pts \<ge> c_book_tp_min_pts c \<and>
           ((pos_dir > 0 \<and> im \<ge> c_book_tp_imbalance c) \<or> (pos_dir < 0 \<and> im \<le> 1 - c_book_tp_imbalance c))
        then ''book_tp''
        else []))"

definition qs_flipped_against :: "quote_state \<Rightarrow> int \<Rightarrow> int \<Rightarrow> bool" where
  "qs_flipped_against b pos_dir ts =
     (if \<not> qs_fresh b ts then False
      else (let im = imbalance (qs_q b) in if pos_dir > 0 then im \<le> 45/100 else im \<ge> 55/100))"

definition qs_gate :: "quote_state \<Rightarrow> orb_config \<Rightarrow> int \<Rightarrow> int \<Rightarrow> real \<Rightarrow> string" where
  "qs_gate b c dir ts tick =
     (let sp = spread_ticks (qs_q b) tick; im = imbalance (qs_q b);
          d = microprice (qs_q b) - quote_mid (qs_q b)
      in if \<not> qs_any_gate c then []
         else if \<not> qs_fresh b ts then ''no_quote''
         else if c_spread_gate_ticks c > 0 \<and> sp > c_spread_gate_ticks c then ''spread_ticks''
         else if c_spread_gate_rel c > 0 \<and> qs_ema b > 0 \<and> sp > c_spread_gate_rel c * qs_ema b
           then ''spread_rel''
         else if c_imbalance_min c > 0 \<and>
           ((dir > 0 \<and> im < c_imbalance_min c) \<or> (dir < 0 \<and> im > 1 - c_imbalance_min c)) then ''imbalance''
         else if c_microprice_lead c \<and> ((dir > 0 \<and> d < 0) \<or> (dir < 0 \<and> d > 0)) then ''microprice''
         else if c_imbalance_max c > 0 \<and>
           ((dir > 0 \<and> im > c_imbalance_max c) \<or> (dir < 0 \<and> im < 1 - c_imbalance_max c)) then ''imbalance_inv''
         else [])"

definition qs_market_fill :: "quote_state \<Rightarrow> int \<Rightarrow> int \<Rightarrow> real \<Rightarrow> real \<Rightarrow> real" where
  "qs_market_fill b dir ts fallback adverse_vs =
     (if \<not> qs_fresh b ts then fallback
      else (let f = (if dir > 0 then q_ask (qs_q b) else q_bid (qs_q b))
            in if adverse_vs > 0 then (if dir > 0 then max f adverse_vs else min f adverse_vs) else f))"

subsection \<open>The session's regime\<close>

record regime =
  rg_date :: string
  rg_atr :: real
  rg_open :: real
  rg_high :: real
  rg_low :: real
  rg_last :: real
  rg_open_us :: int
  rg_minutes :: int
  rg_last_us :: int
  rg_vol_hist :: "real list"
  rg_vol_cur :: real
  rg_vol_cur_min :: int

definition rg_new :: regime where
  "rg_new = \<lparr>rg_date = [], rg_atr = 0, rg_open = 0, rg_high = 0, rg_low = 0, rg_last = 0,
     rg_open_us = 0, rg_minutes = 0, rg_last_us = 0, rg_vol_hist = [], rg_vol_cur = 0, rg_vol_cur_min = -1\<rparr>"

definition rg_reset :: "string \<Rightarrow> regime \<Rightarrow> regime" where
  "rg_reset d r = r\<lparr>rg_date := d, rg_open := 0, rg_high := 0, rg_low := 0, rg_last := 0,
     rg_open_us := 0, rg_minutes := 0, rg_last_us := 0\<rparr>"

definition rg_set_atr :: "string \<Rightarrow> real \<Rightarrow> regime \<Rightarrow> regime" where
  "rg_set_atr d atr r = (if d \<noteq> rg_date r then rg_reset d r else r)\<lparr>rg_atr := atr\<rparr>"

text \<open>The closed-minute volume tape of \<open>on_tick\<close>, and its session readings.\<close>

definition rg_volume :: "int \<Rightarrow> real \<Rightarrow> regime \<Rightarrow> regime" where
  "rg_volume key sz r =
     (let r1 = (if key \<noteq> rg_vol_cur_min r then
                  (let h = (if rg_vol_cur_min r \<ge> 0 then
                              (let h1 = rg_vol_hist r @ [rg_vol_cur r]
                               in if length h1 > 120 then tl h1 else h1)
                            else rg_vol_hist r)
                   in r\<lparr>rg_vol_hist := h, rg_vol_cur := 0, rg_vol_cur_min := key\<rparr>)
                else r)
      in r1\<lparr>rg_vol_cur := rg_vol_cur r1 + sz\<rparr>)"

definition rg_session :: "int \<Rightarrow> int \<Rightarrow> real \<Rightarrow> regime \<Rightarrow> regime" where
  "rg_session hhmm ts price r =
     (if hhmm < 930 \<or> hhmm \<ge> 1600 then r
      else
       (let r1 = (if rg_open_us r = 0
                  then r\<lparr>rg_open := price, rg_high := price, rg_low := price, rg_open_us := ts\<rparr> else r);
            r2 = (if price > rg_high r1 then r1\<lparr>rg_high := price\<rparr> else r1);
            r3 = (if price < rg_low r2 then r2\<lparr>rg_low := price\<rparr> else r2)
        in r3\<lparr>rg_last := price, rg_last_us := ts, rg_minutes := cdiv (ts - rg_open_us r3) 60000000\<rparr>))"

definition rg_on_tick :: "string \<Rightarrow> int \<Rightarrow> int \<Rightarrow> int \<Rightarrow> real \<Rightarrow> real \<Rightarrow> regime \<Rightarrow> regime" where
  "rg_on_tick d et_hour et_min ts price sz r =
     (let r1 = (if d \<noteq> rg_date r then (rg_reset d r)\<lparr>rg_atr := 0\<rparr> else r)
      in rg_session (et_hour * 100 + et_min) ts price (rg_volume (et_hour * 60 + et_min) sz r1))"

definition rg_has_open :: "regime \<Rightarrow> bool" where
  "rg_has_open r = (rg_open_us r \<noteq> 0)"

definition rg_range_pts :: "regime \<Rightarrow> real" where
  "rg_range_pts r = (if rg_has_open r then rg_high r - rg_low r else 0)"

definition rg_range_atr :: "regime \<Rightarrow> real" where
  "rg_range_atr r = (if rg_atr r > 0 \<and> rg_has_open r then (rg_high r - rg_low r) / rg_atr r else 0)"

definition rg_eff :: "regime \<Rightarrow> real" where
  "rg_eff r = (let g = rg_range_pts r in if g > 0 then \<bar>rg_last r - rg_open r\<bar> / g else 0)"

definition rg_move_atr :: "regime \<Rightarrow> real" where
  "rg_move_atr r = (if rg_atr r > 0 \<and> rg_has_open r then (rg_last r - rg_open r) / rg_atr r else 0)"

text \<open>The exit-side readings take the host's pointer, null when no regime is wired.\<close>

definition rg_exit_active :: "orb_config \<Rightarrow> regime option \<Rightarrow> bool" where
  "rg_exit_active c ro = (c_regime_exit_min_eff c > 0 \<and> (case ro of None \<Rightarrow> False | Some r \<Rightarrow> rg_has_open r))"

definition rg_exit_trend :: "orb_config \<Rightarrow> regime option \<Rightarrow> bool" where
  "rg_exit_trend c ro = (c_regime_exit_min_eff c > 0 \<and>
     (case ro of None \<Rightarrow> False | Some r \<Rightarrow> rg_has_open r \<and> rg_eff r \<ge> c_regime_exit_min_eff c))"

definition trail_step_for :: "orb_config \<Rightarrow> regime option \<Rightarrow> real" where
  "trail_step_for c ro =
     (let v = (if rg_exit_trend c ro then c_trail_step_trend c else c_trail_step_range c)
      in if rg_exit_active c ro \<and> v > 0 then v else c_trail_step c)"

definition take_profit_for :: "orb_config \<Rightarrow> regime option \<Rightarrow> real" where
  "take_profit_for c ro =
     (if rg_exit_active c ro then
        (if rg_exit_trend c ro then 0
         else if c_tp_r_range c > 0 then c_tp_r_range c * c_sl_points c
         else take_profit_pts c)
      else take_profit_pts c)"

definition rg_rvol :: "int \<Rightarrow> regime \<Rightarrow> real" where
  "rg_rvol bars r =
     (let h = rg_vol_hist r; n = int (length h) in
      if bars \<le> 0 \<or> n < bars + 1 then -1
      else (let avg = sum_list (take (nat bars) (drop (nat (n - 1 - bars)) h)) / of_int bars
            in if avg > 0 then h ! nat (n - 1) / avg else -1))"

definition qty_for :: "orb_config \<Rightarrow> regime option \<Rightarrow> int" where
  "qty_for c ro =
     (case ro of None \<Rightarrow> c_qty c
      | Some r \<Rightarrow>
          if c_vt_risk_usd c \<le> 0 \<or> rg_atr r \<le> 0 \<or> c_point_value c \<le> 0 then c_qty c
          else max 1 (min (max 1 (c_vt_qty_max c))
                          (c_round (c_vt_risk_usd c / (rg_atr r * c_point_value c)))))"

definition rg_session_gate :: "orb_config \<Rightarrow> bool" where
  "rg_session_gate c = (c_regime_min_range_atr c > 0 \<or> c_regime_max_range_atr c > 0 \<or>
     c_regime_min_eff c > 0 \<or> c_regime_max_eff c > 0 \<or>
     c_regime_min_move_atr c > 0 \<or> c_regime_max_move_atr c > 0 \<or> c_regime_with_move c \<noteq> 0)"

definition rg_any_gate :: "orb_config \<Rightarrow> bool" where
  "rg_any_gate c = (rg_session_gate c \<or> c_rvol_min c > 0 \<or> c_rvol_max c > 0)"

definition rg_needs_atr :: "orb_config \<Rightarrow> bool" where
  "rg_needs_atr c = (c_regime_min_range_atr c > 0 \<or> c_regime_max_range_atr c > 0 \<or>
     c_regime_min_move_atr c > 0 \<or> c_regime_max_move_atr c > 0)"

text \<open>The relative-volume stage of the gate, and the session stage after it.\<close>

definition rvol_stage :: "regime \<Rightarrow> orb_config \<Rightarrow> string" where
  "rvol_stage r c =
     (if c_rvol_min c > 0 \<or> c_rvol_max c > 0 then
        (let rv = rg_rvol (c_rvol_bars c) r in
         if rv < 0 then ''rvol_warmup''
         else if c_rvol_min c > 0 \<and> rv < c_rvol_min c then ''rvol_low''
         else if c_rvol_max c > 0 \<and> rv > c_rvol_max c then ''rvol_high''
         else [])
      else [])"

definition session_stage :: "regime \<Rightarrow> orb_config \<Rightarrow> int \<Rightarrow> string" where
  "session_stage r c dir =
     (let ra = rg_range_atr r; e = rg_eff r; mv = rg_move_atr r;
          side = (if rg_last r > rg_open r then 1 else if rg_last r < rg_open r then -1 else (0::int))
      in if \<not> rg_has_open r then ''regime_no_open''
         else if rg_minutes r < c_regime_min_minutes c then ''regime_warmup''
         else if rg_needs_atr c \<and> rg_atr r \<le> 0 then ''regime_no_atr''
         else if c_regime_min_range_atr c > 0 \<and> ra < c_regime_min_range_atr c then ''regime_range_low''
         else if c_regime_max_range_atr c > 0 \<and> ra > c_regime_max_range_atr c then ''regime_range_high''
         else if c_regime_min_eff c > 0 \<and> e < c_regime_min_eff c then ''regime_eff_low''
         else if c_regime_max_eff c > 0 \<and> e > c_regime_max_eff c then ''regime_eff_high''
         else if c_regime_min_move_atr c > 0 \<and> \<bar>mv\<bar> < c_regime_min_move_atr c then ''regime_move_small''
         else if c_regime_max_move_atr c > 0 \<and> \<bar>mv\<bar> > c_regime_max_move_atr c then ''regime_move_extended''
         else if c_regime_with_move c \<noteq> 0 \<and> side = 0 then ''regime_no_move''
         else if c_regime_with_move c > 0 \<and> side \<noteq> dir then ''regime_against_move''
         else if c_regime_with_move c < 0 \<and> side = dir then ''regime_with_move''
         else [])"

definition rg_gate :: "regime \<Rightarrow> orb_config \<Rightarrow> int \<Rightarrow> string" where
  "rg_gate r c dir =
     (if \<not> rg_any_gate c then []
      else if rvol_stage r c \<noteq> [] then rvol_stage r c
      else if \<not> rg_session_gate c then []
      else session_stage r c dir)"

subsection \<open>Lemmas\<close>

lemma market_fill_not_better:
  assumes "qs_fresh b ts" and "0 < print"
  shows "if 0 < dir then print \<le> qs_market_fill b dir ts fb print \<and> q_ask (qs_q b) \<le> qs_market_fill b dir ts fb print
         else qs_market_fill b dir ts fb print \<le> print \<and> qs_market_fill b dir ts fb print \<le> q_bid (qs_q b)"
  using assms by (simp add: qs_market_fill_def Let_def)

lemma qty_for_bounds:
  assumes "1 \<le> c_qty c"
  shows "1 \<le> qty_for c ro" and "qty_for c ro \<le> max (c_qty c) (max 1 (c_vt_qty_max c))"
  using assms by (auto simp: qty_for_def split: option.split)

lemma trail_step_for_pos: "0 < c_trail_step c \<Longrightarrow> 0 < trail_step_for c ro"
  by (simp add: trail_step_for_def Let_def)

lemma exit_trend_active: "rg_exit_trend c ro \<Longrightarrow> rg_exit_active c ro"
  by (auto simp: rg_exit_trend_def rg_exit_active_def split: option.splits)

lemma rg_gate_off: "\<not> rg_any_gate c \<Longrightarrow> rg_gate r c dir = []"
  by (simp add: rg_gate_def)

text \<open>What the session readings keep while ticks come in.\<close>

definition rg_ok :: "regime \<Rightarrow> bool" where
  "rg_ok r = (length (rg_vol_hist r) \<le> 120 \<and>
     (rg_has_open r \<longrightarrow> rg_low r \<le> rg_open r \<and> rg_open r \<le> rg_high r \<and>
        rg_low r \<le> rg_last r \<and> rg_last r \<le> rg_high r))"

lemma rg_ok_new [simp]: "rg_ok rg_new"
  by (simp add: rg_ok_def rg_new_def rg_has_open_def)

lemma rg_ok_reset: "rg_ok r \<Longrightarrow> rg_ok (rg_reset d r)"
  by (simp add: rg_ok_def rg_reset_def rg_has_open_def)

lemma rg_ok_atr: "rg_ok (r\<lparr>rg_atr := a\<rparr>) = rg_ok r"
  by (simp add: rg_ok_def rg_has_open_def)

lemma rg_ok_volume: "rg_ok r \<Longrightarrow> rg_ok (rg_volume key sz r)"
  by (auto simp: rg_ok_def rg_volume_def rg_has_open_def Let_def)

lemma rg_ok_session: "rg_ok r \<Longrightarrow> rg_ok (rg_session hhmm ts price r)"
  by (auto simp: rg_ok_def rg_session_def rg_has_open_def Let_def)

lemma rg_ok_tick: "rg_ok r \<Longrightarrow> rg_ok (rg_on_tick d h m ts price sz r)"
  by (simp add: rg_on_tick_def Let_def rg_ok_session rg_ok_volume rg_ok_atr rg_ok_reset)

lemma rg_ok_eff: "rg_ok r \<Longrightarrow> 0 \<le> rg_eff r \<and> rg_eff r \<le> 1"
  by (auto simp: rg_eff_def rg_ok_def rg_range_pts_def Let_def split: if_splits)

text \<open>An entry that passes the book gate satisfies every reading the configuration asks for.\<close>

lemma qs_gate_passed:
  assumes "qs_gate b c dir ts tick = []" and "qs_any_gate c"
  shows "qs_fresh b ts"
    and "0 < c_spread_gate_ticks c \<Longrightarrow> spread_ticks (qs_q b) tick \<le> c_spread_gate_ticks c"
    and "0 < c_imbalance_min c \<Longrightarrow> 0 < dir \<Longrightarrow> c_imbalance_min c \<le> imbalance (qs_q b)"
    and "0 < c_imbalance_min c \<Longrightarrow> dir < 0 \<Longrightarrow> imbalance (qs_q b) \<le> 1 - c_imbalance_min c"
  using assms by (auto simp: qs_gate_def Let_def not_less split: if_splits)

end
