(* ===== verification/Latency.thy ===== *)
theory Latency
  imports Config
begin

section \<open>Latency and slippage records\<close>

text \<open>
  \<open>src/src/execution/latency_logger.hpp\<close>: a pending record per order id, created at the
  signal, stamped at submission, finalised and removed at the fill.  The wall clock in
  nanoseconds is an argument.  \<open>NQ_TICK_SIZE\<close> is a quarter point.
\<close>

record trade_latency =
  lt_id :: string
  lt_signal_ns :: int
  lt_submit_ns :: int
  lt_fill_ns :: int
  lt_signal_px :: real
  lt_submit_px :: real
  lt_fill_px :: real
  lt_is_entry :: bool
  lt_boundary :: real
  lt_signal_to_submit_us :: int
  lt_submit_to_fill_ms :: int
  lt_slippage_ticks :: int
  lt_slippage_usd :: real
  lt_chase_ticks :: int
  lt_true_slip_ticks :: int

definition lt_new :: trade_latency where
  "lt_new = \<lparr>lt_id = [], lt_signal_ns = 0, lt_submit_ns = 0, lt_fill_ns = 0, lt_signal_px = 0,
     lt_submit_px = 0, lt_fill_px = 0, lt_is_entry = True, lt_boundary = 0,
     lt_signal_to_submit_us = 0, lt_submit_to_fill_ms = 0, lt_slippage_ticks = 0,
     lt_slippage_usd = 0, lt_chase_ticks = 0, lt_true_slip_ticks = 0\<rparr>"

definition nq_tick_size :: real where
  "nq_tick_size = 1/4"

record lat_log =
  ll_tick_value :: real
  ll_pending :: "(string \<times> trade_latency) list"
  ll_last :: trade_latency

definition ll_new :: "real \<Rightarrow> lat_log" where
  "ll_new tv = \<lparr>ll_tick_value = tv, ll_pending = [], ll_last = lt_new\<rparr>"

definition ll_on_signal :: "int \<Rightarrow> string \<Rightarrow> real \<Rightarrow> bool \<Rightarrow> real \<Rightarrow> lat_log \<Rightarrow> lat_log" where
  "ll_on_signal ns i px is_entry boundary l =
     l\<lparr>ll_pending := AList.update i (lt_new\<lparr>lt_id := i, lt_signal_ns := ns, lt_signal_px := px,
         lt_is_entry := is_entry, lt_boundary := boundary\<rparr>) (ll_pending l)\<rparr>"

definition ll_on_submit :: "int \<Rightarrow> string \<Rightarrow> real \<Rightarrow> lat_log \<Rightarrow> lat_log" where
  "ll_on_submit ns i px l =
     (case map_of (ll_pending l) i of None \<Rightarrow> l
      | Some r \<Rightarrow> l\<lparr>ll_pending := AList.update i (r\<lparr>lt_submit_ns := ns, lt_submit_px := px\<rparr>) (ll_pending l)\<rparr>)"

definition lt_finalize :: "real \<Rightarrow> trade_latency \<Rightarrow> trade_latency" where
  "lt_finalize tv r =
     (let r1 = (if lt_submit_ns r > lt_signal_ns r
                then r\<lparr>lt_signal_to_submit_us := cdiv (lt_submit_ns r - lt_signal_ns r) 1000\<rparr> else r);
          r2 = (if lt_fill_ns r1 > lt_submit_ns r1
                then r1\<lparr>lt_submit_to_fill_ms := cdiv (lt_fill_ns r1 - lt_submit_ns r1) 1000000\<rparr> else r1);
          ticks = c_round (\<bar>lt_fill_px r2 - lt_signal_px r2\<bar> / nq_tick_size);
          r3 = r2\<lparr>lt_slippage_ticks := ticks, lt_slippage_usd := of_int ticks * tv,
                  lt_true_slip_ticks := ticks\<rparr>
      in if lt_boundary r3 \<noteq> 0 then
           r3\<lparr>lt_chase_ticks := c_round (\<bar>lt_signal_px r3 - lt_boundary r3\<bar> / nq_tick_size),
              lt_true_slip_ticks := c_round (\<bar>lt_fill_px r3 - lt_signal_px r3\<bar> / nq_tick_size)\<rparr>
         else r3)"

definition ll_on_fill :: "int \<Rightarrow> string \<Rightarrow> real \<Rightarrow> lat_log \<Rightarrow> trade_latency \<times> lat_log" where
  "ll_on_fill ns i px l =
     (case map_of (ll_pending l) i of None \<Rightarrow> (lt_new, l)
      | Some r \<Rightarrow>
          (let rec = lt_finalize (ll_tick_value l) (r\<lparr>lt_fill_ns := ns, lt_fill_px := px\<rparr>)
           in (rec, l\<lparr>ll_pending := AList.delete i (ll_pending l), ll_last := rec\<rparr>)))"

subsection \<open>Lemmas\<close>

lemma lt_finalize_slip:
  "lt_slippage_ticks (lt_finalize tv r) = c_round (\<bar>lt_fill_px r - lt_signal_px r\<bar> / nq_tick_size)"
  "lt_true_slip_ticks (lt_finalize tv r) = lt_slippage_ticks (lt_finalize tv r)"
  "lt_slippage_usd (lt_finalize tv r) = of_int (lt_slippage_ticks (lt_finalize tv r)) * tv"
  "lt_fill_px (lt_finalize tv r) = lt_fill_px r" "lt_signal_px (lt_finalize tv r) = lt_signal_px r"
proof -
  define r1 where "r1 = (if lt_submit_ns r > lt_signal_ns r
    then r\<lparr>lt_signal_to_submit_us := cdiv (lt_submit_ns r - lt_signal_ns r) 1000\<rparr> else r)"
  define r2 where "r2 = (if lt_fill_ns r1 > lt_submit_ns r1
    then r1\<lparr>lt_submit_to_fill_ms := cdiv (lt_fill_ns r1 - lt_submit_ns r1) 1000000\<rparr> else r1)"
  have "lt_fill_px r2 = lt_fill_px r" "lt_signal_px r2 = lt_signal_px r" by (simp_all add: r2_def r1_def)
  then show "lt_slippage_ticks (lt_finalize tv r) = c_round (\<bar>lt_fill_px r - lt_signal_px r\<bar> / nq_tick_size)"
    "lt_true_slip_ticks (lt_finalize tv r) = lt_slippage_ticks (lt_finalize tv r)"
    "lt_slippage_usd (lt_finalize tv r) = of_int (lt_slippage_ticks (lt_finalize tv r)) * tv"
    "lt_fill_px (lt_finalize tv r) = lt_fill_px r" "lt_signal_px (lt_finalize tv r) = lt_signal_px r"
    unfolding lt_finalize_def r1_def [symmetric] r2_def [symmetric] Let_def by simp_all
qed

lemma ll_pending_keys:
  "has_key (ll_pending (ll_on_signal ns i px en b l)) k = (k = i \<or> has_key (ll_pending l) k)"
  "has_key (ll_pending (ll_on_submit ns i px l)) k = has_key (ll_pending l) k"
  "has_key (ll_pending (snd (ll_on_fill ns i px l))) k = (k \<noteq> i \<and> has_key (ll_pending l) k)"
  by (auto simp: ll_on_signal_def ll_on_submit_def ll_on_fill_def Let_def has_key_def split: option.splits)

end
