(* ===== verification/Order_State.thy ===== *)
theory Order_State
  imports Quote Latency Risk
begin

section \<open>Order manager: state and internal operations\<close>

text \<open>
  The data of \<open>OrderManager\<close> in \<open>src/src/execution/order_manager.hpp\<close> and its private
  operations: order ids, stop prices, the cancel and submission of the exchange stop, and
  the guards kept for cancelled stops.  All methods run under \<open>state_mu_\<close>, so each is one
  atomic step.

  What a method asks of its surroundings is the record \<open>om_env\<close>: the steady clock and the
  wall clock in nanoseconds, which callbacks are wired, the answer of the order callback
  (order ids are unique, so a function of the request is any answer at all) and the host's
  regime pointer.  What it sends out is appended to \<open>om_out\<close> in order.  The latency logger
  and the risk manager it holds by reference are fields of the state.
\<close>

subsection \<open>Data\<close>

datatype pos_state = FLAT | PENDING_ENTRY | LONG | SHORT | PENDING_EXIT

datatype orb_signal = NONE | BUY | SELL | FLATTEN_EOD

record position =
  p_state :: pos_state
  p_dir :: orb_signal
  p_entry_id :: string
  p_exit_id :: string
  p_stop_id :: string
  p_entry_price :: real
  p_exit_price :: real
  p_sl_price :: real
  p_trigger_price :: real
  p_fill_price_actual :: real
  p_mfe :: real
  p_mae :: real
  p_qty :: int
  p_be_triggered :: bool
  p_be_sl_price :: real
  p_trailing_active :: bool
  p_fill_time :: int
  p_exit_reason :: string
  p_pnl_points :: real
  p_pnl_usd :: real

definition pos0 :: position where
  "pos0 = \<lparr>p_state = FLAT, p_dir = NONE, p_entry_id = [], p_exit_id = [], p_stop_id = [],
     p_entry_price = 0, p_exit_price = 0, p_sl_price = 0, p_trigger_price = 0,
     p_fill_price_actual = 0, p_mfe = 0, p_mae = 0, p_qty = 1, p_be_triggered = False,
     p_be_sl_price = 0, p_trailing_active = False, p_fill_time = 0, p_exit_reason = [],
     p_pnl_points = 0, p_pnl_usd = 0\<rparr>"

text \<open>A request to the order callback; \<open>rq_type\<close> is 1 for a limit and 4 for a stop-market order.\<close>

record order_req =
  rq_id :: string
  rq_symbol :: string
  rq_exchange :: string
  rq_qty :: int
  rq_type :: int
  rq_buy :: bool
  rq_price :: real
  rq_tag :: string

datatype om_effect =
    SendOrder order_req
  | CancelReq string
  | PersistCancel string bool
  | RemoveCancel string
  | PersistServerId string string

record om_env =
  e_now :: int
  e_wall :: int
  e_order_cb :: bool
  e_cancel_cb :: bool
  e_persist_cb :: bool
  e_remove_cb :: bool
  e_server_cb :: bool
  e_accepts :: "order_req \<Rightarrow> bool"
  e_regime :: "regime option"

record om =
  om_cfg :: orb_config
  om_risk :: risk
  om_lat :: lat_log
  om_pos :: position
  om_completed :: position
  om_trade_completed :: bool
  om_last_entry_lat :: trade_latency
  om_last_exit_lat :: trade_latency
  om_stop_server :: string
  om_stop_submit_time :: int
  om_srv_orders :: "(string \<times> string) list"
  om_processed :: "(string \<times> int) list"
  om_fill_acc :: "(string \<times> int \<times> real) list"
  om_trade_seq :: nat
  om_cs_trade :: "(string \<times> nat) list"
  om_unmapped :: "string set"
  om_last_unwind :: string
  om_last_was_buy :: bool
  om_cstops :: "(string \<times> bool) list"
  om_srv_cancelled :: "(string \<times> string) list"
  om_client_only :: "string set"
  om_cs_levels :: "(string \<times> real) list"
  om_unwinds :: "string set"
  om_pend_cancel :: string
  om_pend_cancel_buy :: bool
  om_rej_exit :: int
  om_entry_halted :: bool
  om_ghost_halted :: bool
  om_last_exch_sl :: real
  om_pend_sl_dist :: real
  om_breach_time :: int
  om_resubmit :: bool
  om_seq :: nat
  om_out :: "om_effect list"

definition om_new :: "orb_config \<Rightarrow> risk \<Rightarrow> lat_log \<Rightarrow> om" where
  "om_new cfg r l = \<lparr>om_cfg = cfg, om_risk = r, om_lat = l, om_pos = pos0, om_completed = pos0,
     om_trade_completed = False, om_last_entry_lat = lt_new, om_last_exit_lat = lt_new,
     om_stop_server = [], om_stop_submit_time = 0, om_srv_orders = [], om_processed = [],
     om_fill_acc = [], om_trade_seq = 0, om_cs_trade = [], om_unmapped = {},
     om_last_unwind = [], om_last_was_buy = False, om_cstops = [], om_srv_cancelled = [],
     om_client_only = {}, om_cs_levels = [], om_unwinds = {}, om_pend_cancel = [],
     om_pend_cancel_buy = False, om_rej_exit = 0, om_entry_halted = False,
     om_ghost_halted = False, om_last_exch_sl = 0, om_pend_sl_dist = 0, om_breach_time = 0,
     om_resubmit = False, om_seq = 0, om_out = []\<rparr>"

subsection \<open>Output\<close>

definition emit :: "om_effect \<Rightarrow> om \<Rightarrow> om" where
  "emit x s = s\<lparr>om_out := om_out s @ [x]\<rparr>"

definition emit_persist :: "om_env \<Rightarrow> string \<Rightarrow> bool \<Rightarrow> om \<Rightarrow> om" where
  "emit_persist e i was_buy s = (if e_persist_cb e then emit (PersistCancel i was_buy) s else s)"

definition emit_remove :: "om_env \<Rightarrow> string \<Rightarrow> om \<Rightarrow> om" where
  "emit_remove e i s = (if e_remove_cb e then emit (RemoveCancel i) s else s)"

definition emit_server :: "om_env \<Rightarrow> string \<Rightarrow> string \<Rightarrow> om \<Rightarrow> om" where
  "emit_server e cid sid s = (if e_server_cb e then emit (PersistServerId cid sid) s else s)"

text \<open>A call of the order callback: the request goes out and the callback's answer comes back.\<close>

definition send_order :: "om_env \<Rightarrow> order_req \<Rightarrow> om \<Rightarrow> bool \<times> om" where
  "send_order e rq s = (e_accepts e rq, emit (SendOrder rq) s)"

subsection \<open>Order ids and prices\<close>

definition new_basket_id :: "om_env \<Rightarrow> om \<Rightarrow> string \<times> om" where
  "new_basket_id e s =
     (c_symbol (om_cfg s) @ ''-'' @ int_str (cdiv (e_wall e) 1000000) @ ''-'' @ nat_str (om_seq s),
      s\<lparr>om_seq := Suc (om_seq s)\<rparr>)"

definition compute_sl :: "orb_config \<Rightarrow> real \<Rightarrow> orb_signal \<Rightarrow> real" where
  "compute_sl c px d = (case d of BUY \<Rightarrow> px - c_sl_points c | SELL \<Rightarrow> px + c_sl_points c | _ \<Rightarrow> px)"

definition snap_stop :: "real \<Rightarrow> orb_signal \<Rightarrow> real" where
  "snap_stop px d =
     (let t = px / (1/4)
      in (if d = BUY then of_int \<lfloor>t + 1/1000000000\<rfloor> else of_int \<lceil>t - 1/1000000000\<rceil>) * (1/4))"

definition compute_sl_dist :: "real \<Rightarrow> orb_signal \<Rightarrow> real \<Rightarrow> real" where
  "compute_sl_dist px d len =
     (case d of BUY \<Rightarrow> snap_stop (px - len) d | SELL \<Rightarrow> snap_stop (px + len) d | _ \<Rightarrow> px)"

definition offset_px :: "bool \<Rightarrow> real \<Rightarrow> int \<Rightarrow> real" where
  "offset_px buy px ticks = (if buy then px + of_int ticks * (1/4) else px - of_int ticks * (1/4))"

subsection \<open>Cancelling\<close>

text \<open>\<open>cancel_id_for_locked\<close>: the server id an order was mapped to, else the client id.\<close>

definition cancel_id_for :: "om \<Rightarrow> string \<Rightarrow> string" where
  "cancel_id_for s cid =
     (case find (\<lambda>(sid, c). c = cid) (om_srv_orders s) of None \<Rightarrow> cid | Some (sid, _) \<Rightarrow> sid)"

definition cancel_order :: "om_env \<Rightarrow> string \<Rightarrow> om \<Rightarrow> om" where
  "cancel_order e cid s =
     (if cid = [] \<or> \<not> e_cancel_cb e then s
      else (let i = cancel_id_for s cid;
                s1 = (if i = cid then s\<lparr>om_unmapped := insert cid (om_unmapped s)\<rparr> else s)
            in emit (CancelReq i) s1))"

definition cancel_stop :: "om_env \<Rightarrow> om \<Rightarrow> om" where
  "cancel_stop e s =
     (let p = om_pos s; cid = p_stop_id p; sid = om_stop_server s; was_buy = (p_dir p = SELL) in
      if cid = [] \<or> \<not> e_cancel_cb e then s
      else
       (let s1 = s\<lparr>om_last_unwind := cid, om_last_was_buy := was_buy,
                   om_cstops := AList.update cid was_buy (om_cstops s),
                   om_cs_trade := AList.update cid (om_trade_seq s) (om_cs_trade s)\<rparr>;
            s2 = emit_persist e cid was_buy s1;
            s3 = (if sid \<noteq> [] then
                    emit_server e cid sid (s2\<lparr>om_srv_cancelled := AList.update sid cid (om_srv_cancelled s2)\<rparr>)
                  else s2);
            level = (if om_last_exch_sl s3 \<noteq> 0 then om_last_exch_sl s3 else p_sl_price p);
            s4 = s3\<lparr>om_cs_levels := AList.update cid level (om_cs_levels s3)\<rparr>;
            s5 = (if sid = [] then s4\<lparr>om_client_only := insert cid (om_client_only s4)\<rparr> else s4);
            s6 = emit (CancelReq (if sid = [] then cid else sid)) s5
        in s6\<lparr>om_pos := p\<lparr>p_stop_id := []\<rparr>, om_stop_server := []\<rparr>))"

definition erase_server_cancel :: "string \<Rightarrow> om \<Rightarrow> om" where
  "erase_server_cancel cid s = s\<lparr>om_srv_cancelled := erase_value cid (om_srv_cancelled s),
     om_client_only := om_client_only s - {cid}, om_cs_levels := AList.delete cid (om_cs_levels s)\<rparr>"

subsection \<open>The exchange stop\<close>

definition submit_stop :: "om_env \<Rightarrow> real \<Rightarrow> om \<Rightarrow> om" where
  "submit_stop e sl s =
     (if c_dry_run (om_cfg s) \<or> \<not> e_order_cb e then s
      else
       (let is_long = (p_state (om_pos s) = LONG);
            (cid, s1) = new_basket_id e s;
            s2 = s1\<lparr>om_pos := (om_pos s1)\<lparr>p_stop_id := cid\<rparr>, om_stop_server := [],
                    om_stop_submit_time := e_now e,
                    om_lat := ll_on_submit (e_wall e) cid sl (ll_on_signal (e_wall e) cid sl False 0 (om_lat s1))\<rparr>;
            q = (if p_qty (om_pos s2) > 0 then p_qty (om_pos s2) else c_qty (om_cfg s2));
            rq = \<lparr>rq_id = cid, rq_symbol = c_symbol (om_cfg s2), rq_exchange = c_exchange (om_cfg s2),
                  rq_qty = q, rq_type = 4, rq_buy = \<not> is_long, rq_price = sl, rq_tag = ''stop_loss''\<rparr>;
            (ok, s3) = send_order e rq s2
        in if \<not> ok then s3\<lparr>om_pos := (om_pos s3)\<lparr>p_stop_id := []\<rparr>\<rparr>
           else emit_persist e cid (\<not> is_long) (s3\<lparr>om_last_exch_sl := sl\<rparr>)))"

definition update_stop :: "om_env \<Rightarrow> real \<Rightarrow> bool \<Rightarrow> om \<Rightarrow> om" where
  "update_stop e new_sl force s =
     (if c_dry_run (om_cfg s) then s
      else if \<not> force \<and> om_last_exch_sl s \<noteq> 0 \<and>
        \<bar>new_sl - om_last_exch_sl s\<bar> < trail_step_for (om_cfg s) (e_regime e) - 1/1000000000 then s
      else if p_stop_id (om_pos s) = [] then submit_stop e new_sl s
      else submit_stop e new_sl (cancel_stop e (s\<lparr>om_resubmit := True\<rparr>)))"

end
