(* ===== verification/Order_Fill.thy ===== *)
theory Order_Fill
  imports Order_State
begin

section \<open>Order manager: fills, exits and entries\<close>

text \<open>
  \<open>on_fill_notification_locked\<close> of \<open>src/src/execution/order_manager.hpp\<close> in the order of
  its parts: the quantity-weighted price of partial fills, the entry fill, the guards for a
  fill that arrives while flat, the exit fill that books the trade; then
  \<open>send_market_order\<close> and \<open>initiate_exit_locked\<close>, which in dry-run mode deliver the fill
  themselves.
\<close>

subsection \<open>Partial fills\<close>

text \<open>The fill price becomes the quantity-weighted average of the partial fills seen so far.\<close>

definition accumulate_fill :: "string \<Rightarrow> real \<Rightarrow> int \<Rightarrow> om \<Rightarrow> real \<times> om" where
  "accumulate_fill i px q s =
     (let p = om_pos s in
      if q > 0 \<and> (i = p_entry_id p \<or> i = p_stop_id p \<or> i = p_exit_id p) then
       (let acc0 = (case map_of (om_fill_acc s) i of None \<Rightarrow> (0, 0) | Some a \<Rightarrow> a);
            inc = q - fst acc0;
            acc = (if inc > 0 then (q, snd acc0 + of_int inc * px) else acc0);
            px' = (if fst acc > 0 then snd acc / of_int (fst acc) else px);
            m = (if q \<ge> p_qty p then AList.delete i (om_fill_acc s)
                 else AList.update i acc (om_fill_acc s))
        in (px', s\<lparr>om_fill_acc := m\<rparr>))
      else (px, s))"

subsection \<open>Unwinding a position nobody owns\<close>

text \<open>
  The order three paths send to reverse an unexpected fill: a limit four ticks through the
  fill price, for the configured quantity.  The two stale-stop paths remember its id, the
  late-entry path does not.
\<close>

definition send_unwind :: "om_env \<Rightarrow> bool \<Rightarrow> real \<Rightarrow> string \<Rightarrow> bool \<Rightarrow> om \<Rightarrow> om" where
  "send_unwind e buy px tag remember s =
     (if \<not> e_order_cb e then s
      else
       (let (cid, s1) = new_basket_id e s;
            s2 = s1\<lparr>om_lat := ll_on_signal (e_wall e) cid px False 0 (om_lat s1)\<rparr>;
            rq = \<lparr>rq_id = cid, rq_symbol = c_symbol (om_cfg s2), rq_exchange = c_exchange (om_cfg s2),
                  rq_qty = c_qty (om_cfg s2), rq_type = 1, rq_buy = buy,
                  rq_price = offset_px buy px 4, rq_tag = tag\<rparr>;
            (ok, s3) = send_order e rq s2
        in if \<not> ok then s3
           else (let s4 = s3\<lparr>om_lat := ll_on_submit (e_wall e) cid px (om_lat s3)\<rparr>
                 in if remember then s4\<lparr>om_unwinds := insert cid (om_unwinds s4)\<rparr> else s4)))"

subsection \<open>Entry fill\<close>

definition late_entry_fill :: "om_env \<Rightarrow> string \<Rightarrow> real \<Rightarrow> om \<Rightarrow> om" where
  "late_entry_fill e i px s =
     (if om_pend_cancel s \<noteq> [] \<and> i = om_pend_cancel s
      then send_unwind e (\<not> om_pend_cancel_buy s) px ''eod_cancel_race_unwind'' False
             (s\<lparr>om_pend_cancel := []\<rparr>)
      else s)"

definition book_entry_fill :: "om_env \<Rightarrow> string \<Rightarrow> real \<Rightarrow> om \<Rightarrow> om" where
  "book_entry_fill e i px s =
     (let p = om_pos s;
          sl = (if om_pend_sl_dist s > 0 then compute_sl_dist px (p_dir p) (om_pend_sl_dist s)
                else compute_sl (om_cfg s) px (p_dir p));
          p1 = p\<lparr>p_entry_price := px, p_fill_price_actual := px, p_fill_time := e_now e,
                 p_state := (if p_dir p = BUY then LONG else SHORT), p_sl_price := sl\<rparr>;
          (rec, l) = ll_on_fill (e_wall e) i px (om_lat s);
          s1 = s\<lparr>om_pos := p1, om_pend_cancel := [], om_pend_cancel_buy := False,
                 om_pend_sl_dist := 0, om_lat := l, om_last_entry_lat := rec\<rparr>
      in submit_stop e sl s1)"

definition entry_fill :: "om_env \<Rightarrow> string \<Rightarrow> real \<Rightarrow> int \<Rightarrow> om \<Rightarrow> om" where
  "entry_fill e i px q s =
     (if p_state (om_pos s) \<noteq> PENDING_ENTRY then late_entry_fill e i px s
      else if p_entry_id (om_pos s) \<noteq> i then s
      else if q > 0 \<and> q < p_qty (om_pos s) then s
      else book_entry_fill e i px s)"

subsection \<open>A fill while no trade is open\<close>

definition flat_fill :: "om_env \<Rightarrow> string \<Rightarrow> real \<Rightarrow> om \<Rightarrow> om" where
  "flat_fill e i px s =
     (if om_last_unwind s \<noteq> [] \<and> i = om_last_unwind s then
        (let s1 = emit_remove e i (erase_server_cancel i
                    (s\<lparr>om_last_unwind := [], om_cstops := AList.delete i (om_cstops s)\<rparr>))
         in send_unwind e (\<not> om_last_was_buy s) px ''stale_stop_unwind'' True s1)
      else
        (case map_of (om_cstops s) i of
           Some was_buy \<Rightarrow>
             (let s1 = emit_remove e i (erase_server_cancel i
                         (s\<lparr>om_cstops := AList.delete i (om_cstops s)\<rparr>))
              in send_unwind e (\<not> was_buy) px ''stale_cancel_unwind'' True s1)
         | None \<Rightarrow>
             if i \<in> om_unwinds s then
               s\<lparr>om_unwinds := om_unwinds s - {i}, om_ghost_halted := False\<rparr>
             else if om_ghost_halted s then s
             else s\<lparr>om_ghost_halted := True\<rparr>))"

subsection \<open>Exit fill\<close>

definition prune_processed :: "om \<Rightarrow> om" where
  "prune_processed s = (if length (om_processed s) > 512 then s\<lparr>om_processed := []\<rparr> else s)"

text \<open>A replaced stop of this trade that filled before its cancel landed is the exit: drop its guard.\<close>

definition drop_filled_guard :: "om_env \<Rightarrow> string \<Rightarrow> om \<Rightarrow> om" where
  "drop_filled_guard e i s =
     (if has_key (om_cstops s) i then
        emit_remove e i
          (s\<lparr>om_cstops := AList.delete i (om_cstops s), om_client_only := om_client_only s - {i},
             om_cs_levels := AList.delete i (om_cs_levels s), om_cs_trade := AList.delete i (om_cs_trade s),
             om_srv_cancelled := erase_value i (om_srv_cancelled s),
             om_last_unwind := (if om_last_unwind s = i then [] else om_last_unwind s)\<rparr>)
      else s)"

text \<open>A guard whose cancel was neither confirmed nor left unroutable stays; the others go.\<close>

definition guard_pending :: "om \<Rightarrow> string \<Rightarrow> bool" where
  "guard_pending s i = (has_value i (om_srv_cancelled s) \<or> i \<in> om_client_only s)"

definition purge_guards :: "om_env \<Rightarrow> om \<Rightarrow> om" where
  "purge_guards e s =
     (let gone = map fst (filter (\<lambda>(i, b). \<not> guard_pending s i) (om_cstops s))
      in fold (emit_remove e) gone (s\<lparr>om_cstops := filter (\<lambda>(i, b). guard_pending s i) (om_cstops s)\<rparr>))"

definition pnl_points :: "position \<Rightarrow> real \<Rightarrow> real" where
  "pnl_points p px = (if p_dir p = BUY then px - p_entry_price p else p_entry_price p - px)"

definition pnl_usd :: "orb_config \<Rightarrow> position \<Rightarrow> real \<Rightarrow> real" where
  "pnl_usd c p px = pnl_points p px * c_point_value c * of_int (p_qty p) - c_commission_rt c * of_int (p_qty p)"

text \<open>The position record at its exit; a stop that fired while the trade was open names the reason.\<close>

definition mark_exit :: "orb_config \<Rightarrow> string \<Rightarrow> real \<Rightarrow> position \<Rightarrow> position" where
  "mark_exit c i px p =
     (let p1 = (if p_state p = LONG \<or> p_state p = SHORT
                then p\<lparr>p_exit_reason := (if i = p_stop_id p then ''exchange_stop'' else ''unknown_exit''),
                       p_state := PENDING_EXIT\<rparr> else p)
      in p1\<lparr>p_exit_price := px, p_pnl_points := pnl_points p1 px, p_pnl_usd := pnl_usd c p1 px\<rparr>)"

text \<open>Cancel the protective stop unless it is the order that filled; then only its row goes.\<close>

definition settle_stop :: "om_env \<Rightarrow> string \<Rightarrow> om \<Rightarrow> om" where
  "settle_stop e i s =
     (if p_stop_id (om_pos s) \<noteq> [] then
        (if p_stop_id (om_pos s) \<noteq> i then cancel_stop e s else emit_remove e i s)
      else s)"

definition drop_stale_guard :: "om_env \<Rightarrow> string \<Rightarrow> om \<Rightarrow> om" where
  "drop_stale_guard e i s =
     (if has_key (om_cstops s) i
      then erase_server_cancel i (emit_remove e i (s\<lparr>om_cstops := AList.delete i (om_cstops s)\<rparr>))
      else s)"

definition close_trade :: "real \<Rightarrow> trade_latency \<Rightarrow> om \<Rightarrow> om" where
  "close_trade px rec s =
     s\<lparr>om_last_exit_lat := rec, om_completed := (om_pos s)\<lparr>p_exit_price := px\<rparr>,
       om_risk := risk_on_trade_pnl (Fin (p_pnl_usd (om_pos s))) (om_risk s),
       om_rej_exit := 0, om_entry_halted := False, om_last_exch_sl := 0,
       om_breach_time := 0, om_resubmit := False, om_pos := pos0,
       om_trade_completed := True, om_srv_orders := []\<rparr>"

definition book_exit_fill :: "om_env \<Rightarrow> string \<Rightarrow> real \<Rightarrow> om \<Rightarrow> om" where
  "book_exit_fill e i px s0 =
     (let s = drop_filled_guard e i s0;
          s1 = settle_stop e i (s\<lparr>om_pos := mark_exit (om_cfg s) i px (om_pos s)\<rparr>);
          (rec, l) = ll_on_fill (e_wall e) i px (om_lat s1);
          s2 = drop_stale_guard e i (s1\<lparr>om_lat := l\<rparr>);
          s3 = purge_guards e (prune_processed (close_trade px rec s2))
      in s3\<lparr>om_unwinds := {}\<rparr>)"

definition exit_fill :: "om_env \<Rightarrow> string \<Rightarrow> real \<Rightarrow> int \<Rightarrow> om \<Rightarrow> om" where
  "exit_fill e i px q s =
     (let st = p_state (om_pos s) in
      if st \<noteq> PENDING_EXIT \<and> st \<noteq> LONG \<and> st \<noteq> SHORT then flat_fill e i px s
      else if q > 0 \<and> q < p_qty (om_pos s) then s
      else book_exit_fill e i px s)"

definition on_fill :: "om_env \<Rightarrow> string \<Rightarrow> real \<Rightarrow> int \<Rightarrow> bool \<Rightarrow> om \<Rightarrow> om" where
  "on_fill e i px q is_entry s =
     (let (px', s1) = accumulate_fill i px q s
      in if is_entry then entry_fill e i px' q s1 else exit_fill e i px' q s1)"

subsection \<open>Sending the entry and the exit\<close>

definition send_market_order :: "om_env \<Rightarrow> string \<Rightarrow> bool \<Rightarrow> real \<Rightarrow> string \<Rightarrow> om \<Rightarrow> om" where
  "send_market_order e cid buy px tag s =
     (let s1 = s\<lparr>om_lat := ll_on_submit (e_wall e) cid px (om_lat s)\<rparr> in
      if c_dry_run (om_cfg s1) then on_fill e cid px (p_qty (om_pos s1)) True s1
      else if \<not> e_order_cb e then s1
      else
       (let rq = \<lparr>rq_id = cid, rq_symbol = c_symbol (om_cfg s1), rq_exchange = c_exchange (om_cfg s1),
                  rq_qty = p_qty (om_pos s1), rq_type = 1, rq_buy = buy,
                  rq_price = offset_px buy px 4, rq_tag = tag\<rparr>;
            (ok, s2) = send_order e rq s1
        in if \<not> ok then s2\<lparr>om_pos := pos0\<rparr> else s2))"

definition exit_limit_px :: "position \<Rightarrow> string \<Rightarrow> real \<Rightarrow> real" where
  "exit_limit_px p reason px =
     (let buy = (p_dir p = SELL); ticks = (if px > 0 \<and> reason \<noteq> ''kill_signal'' then 4 else 50)
      in if px \<le> 0 then offset_px buy (p_sl_price p) ticks else offset_px buy px ticks)"

text \<open>The failed send of an exit: back in the trade, counted, the protective stop restored.\<close>

definition exit_send_failed :: "om_env \<Rightarrow> om \<Rightarrow> om" where
  "exit_send_failed e s =
     (let p = om_pos s;
          p1 = p\<lparr>p_exit_id := [], p_state := (if p_dir p = BUY then LONG else SHORT)\<rparr>;
          s1 = s\<lparr>om_pos := p1, om_rej_exit := om_rej_exit s + 1\<rparr>;
          s2 = (if om_rej_exit s1 > 3 then s1\<lparr>om_entry_halted := True\<rparr> else s1)
      in submit_stop e (p_sl_price (om_pos s2)) s2)"

text \<open>Cancel the stop first, then \<open>PENDING_EXIT\<close> under a fresh order id.\<close>

definition begin_exit :: "om_env \<Rightarrow> string \<Rightarrow> real \<Rightarrow> om \<Rightarrow> om" where
  "begin_exit e reason px s =
     (let s1 = cancel_stop e (s\<lparr>om_breach_time := 0, om_resubmit := False\<rparr>);
          (cid, s2) = new_basket_id e s1
      in s2\<lparr>om_pos := (om_pos s2)\<lparr>p_state := PENDING_EXIT, p_exit_reason := reason, p_exit_id := cid\<rparr>,
            om_lat := ll_on_signal (e_wall e) cid px False 0 (om_lat s2)\<rparr>)"

definition send_exit :: "om_env \<Rightarrow> string \<Rightarrow> real \<Rightarrow> om \<Rightarrow> om" where
  "send_exit e reason px s =
     (let p = om_pos s; cid = p_exit_id p;
          s1 = s\<lparr>om_lat := ll_on_submit (e_wall e) cid (if px > 0 then px else p_sl_price p) (om_lat s)\<rparr>;
          rq = \<lparr>rq_id = cid, rq_symbol = c_symbol (om_cfg s1), rq_exchange = c_exchange (om_cfg s1),
                rq_qty = p_qty p, rq_type = 1, rq_buy = (p_dir p = SELL),
                rq_price = exit_limit_px p reason px, rq_tag = reason\<rparr>;
          (ok, s2) = send_order e rq s1
      in if \<not> ok then exit_send_failed e s2 else s2)"

definition initiate_exit :: "om_env \<Rightarrow> string \<Rightarrow> real \<Rightarrow> om \<Rightarrow> om" where
  "initiate_exit e reason px s =
     (if p_state (om_pos s) \<noteq> LONG \<and> p_state (om_pos s) \<noteq> SHORT then s
      else
       (let s1 = begin_exit e reason px s
        in if c_dry_run (om_cfg s1)
           then on_fill e (p_exit_id (om_pos s1)) px (p_qty (om_pos s1)) False s1
           else if \<not> e_order_cb e then s1
           else send_exit e reason px s1))"

end
