(* ===== verification/Order_Ops.thy ===== *)
theory Order_Ops
  imports Order_Fill
begin

section \<open>Order manager: the public operations\<close>

text \<open>
  Every public method of \<open>OrderManager\<close> that changes its state, the queries the executor
  routes notifications with, and \<open>NetReconciler\<close>.  The two per-tick checks share their
  breach detection, which the source repeats in both; the bool they return says whether the
  stop price moved.
\<close>

subsection \<open>Cancel bookkeeping\<close>

definition recancel_pending_stops :: "om_env \<Rightarrow> om \<Rightarrow> om" where
  "recancel_pending_stops e s =
     (if \<not> e_cancel_cb e then s
      else
       (let by_server = map fst (om_srv_cancelled s);
            by_client = map fst (filter (\<lambda>(c, b). \<not> has_value c (om_srv_cancelled s)) (om_cstops s))
        in fold (\<lambda>i. emit (CancelReq i)) (by_server @ by_client) s))"

definition clear_post_close_recancels :: "om \<Rightarrow> om" where
  "clear_post_close_recancels s = s\<lparr>om_last_unwind := [], om_last_was_buy := False\<rparr>"

definition register_unwind_basket :: "string \<Rightarrow> om \<Rightarrow> om" where
  "register_unwind_basket i s = s\<lparr>om_unwinds := insert i (om_unwinds s)\<rparr>"

definition confirm_exchange_flat :: "om \<Rightarrow> om" where
  "confirm_exchange_flat s = (if om_ghost_halted s then s\<lparr>om_ghost_halted := False\<rparr> else s)"

definition is_entry_halted :: "om \<Rightarrow> bool" where
  "is_entry_halted s = (om_entry_halted s \<or> om_ghost_halted s)"

definition seed_cancelled_stops :: "string \<Rightarrow> bool \<Rightarrow> om \<Rightarrow> om" where
  "seed_cancelled_stops i was_buy s = s\<lparr>om_cstops := AList.update i was_buy (om_cstops s)\<rparr>"

definition seed_server_stop_cancel :: "string \<Rightarrow> string \<Rightarrow> om \<Rightarrow> om" where
  "seed_server_stop_cancel sid cid s = s\<lparr>om_srv_cancelled := AList.update sid cid (om_srv_cancelled s)\<rparr>"

definition on_stop_server_mapped :: "om_env \<Rightarrow> string \<Rightarrow> string \<Rightarrow> om \<Rightarrow> om" where
  "on_stop_server_mapped e cid sid s =
     (if cid = [] \<or> sid = [] then s
      else if p_stop_id (om_pos s) \<noteq> [] \<and> cid = p_stop_id (om_pos s) then
        (if om_stop_server s \<noteq> sid then emit_server e cid sid (s\<lparr>om_stop_server := sid\<rparr>) else s)
      else if \<not> has_key (om_cstops s) cid then s
      else if list_ex (\<lambda>(a, b). b = cid \<and> a = sid) (om_srv_cancelled s) then s
      else
       (let s1 = emit_server e cid sid
                   (s\<lparr>om_srv_cancelled := AList.update sid cid (om_srv_cancelled s),
                      om_client_only := om_client_only s - {cid}\<rparr>)
        in if e_cancel_cb e then emit (CancelReq sid) s1 else s1))"

text \<open>\<open>on_cancel_failed\<close>: the stop is still working on the exchange.\<close>

definition readopt_stop :: "om_env \<Rightarrow> string \<Rightarrow> string \<Rightarrow> om \<Rightarrow> om" where
  "readopt_stop e cid sid s =
     (let s1 = (if p_stop_id (om_pos s) \<noteq> [] \<and> p_stop_id (om_pos s) \<noteq> cid then cancel_stop e s else s);
          level = (case map_of (om_cs_levels s1) cid of None \<Rightarrow> 0 | Some l \<Rightarrow> l);
          s2 = emit_remove e cid
                 (s1\<lparr>om_cstops := AList.delete cid (om_cstops s1), om_client_only := om_client_only s1 - {cid},
                    om_cs_levels := AList.delete cid (om_cs_levels s1),
                    om_last_unwind := (if om_last_unwind s1 = cid then [] else om_last_unwind s1),
                    om_srv_cancelled := (if sid \<noteq> [] then AList.delete sid (om_srv_cancelled s1)
                                         else om_srv_cancelled s1)\<rparr>)
      in s2\<lparr>om_pos := (om_pos s2)\<lparr>p_stop_id := cid\<rparr>, om_stop_server := sid,
            om_last_exch_sl := (if level \<noteq> 0 then level else om_last_exch_sl s2)\<rparr>)"

definition on_cancel_failed :: "om_env \<Rightarrow> string \<Rightarrow> om \<Rightarrow> om" where
  "on_cancel_failed e i s =
     (let (cid, sid) = (case map_of (om_srv_cancelled s) i of Some c \<Rightarrow> (c, i) | None \<Rightarrow> (i, []));
          in_trade = (p_state (om_pos s) = LONG \<or> p_state (om_pos s) = SHORT)
      in if \<not> has_key (om_cstops s) cid then s
         else if sid = [] \<and> has_value cid (om_srv_cancelled s) then s
         else if in_trade \<and> map_of (om_cs_trade s) cid \<noteq> Some (om_trade_seq s) then s
         else if \<not> in_trade then s\<lparr>om_resubmit := False\<rparr>
         else readopt_stop e cid sid (s\<lparr>om_resubmit := False\<rparr>))"

definition on_cancel_confirmed :: "om_env \<Rightarrow> string \<Rightarrow> om \<Rightarrow> om" where
  "on_cancel_confirmed e i s =
     (let s1 = emit_remove e i
                 (s\<lparr>om_cstops := AList.delete i (om_cstops s),
                    om_srv_cancelled := erase_value i (om_srv_cancelled s),
                    om_client_only := om_client_only s - {i},
                    om_cs_levels := AList.delete i (om_cs_levels s)\<rparr>)
      in if om_last_unwind s1 = i then s1\<lparr>om_last_unwind := []\<rparr> else s1)"

definition on_cancel_confirmed_by_server :: "om_env \<Rightarrow> string \<Rightarrow> om \<Rightarrow> om" where
  "on_cancel_confirmed_by_server e sid s =
     (case map_of (om_srv_cancelled s) sid of
        None \<Rightarrow> s
      | Some cid \<Rightarrow>
          (let s1 = emit_remove e cid
                      (s\<lparr>om_srv_cancelled := AList.delete sid (om_srv_cancelled s),
                         om_cstops := AList.delete cid (om_cstops s),
                         om_client_only := om_client_only s - {cid},
                         om_cs_levels := AList.delete cid (om_cs_levels s)\<rparr>)
           in if om_last_unwind s1 = cid then s1\<lparr>om_last_unwind := []\<rparr> else s1))"

definition unconfirmed_server_cancels :: "om \<Rightarrow> nat" where
  "unconfirmed_server_cancels s = length (om_srv_cancelled s)"

definition pending_cancelled_stop_count :: "om \<Rightarrow> nat" where
  "pending_cancelled_stop_count s = length (om_cstops s)"

subsection \<open>External closes and the exchange's net position\<close>

definition adopt_external_close :: "om_env \<Rightarrow> real \<Rightarrow> string \<Rightarrow> om \<Rightarrow> om" where
  "adopt_external_close e ref_price reason s =
     (let st = p_state (om_pos s) in
      if st \<noteq> LONG \<and> st \<noteq> SHORT \<and> st \<noteq> PENDING_EXIT then s
      else
       (let s1 = (if p_stop_id (om_pos s) \<noteq> [] then cancel_stop e s else s);
            p = om_pos s1;
            px = (if ref_price > 0 then ref_price else p_entry_price p);
            p1 = p\<lparr>p_exit_price := px, p_exit_reason := reason,
                   p_pnl_points := pnl_points p px, p_pnl_usd := pnl_usd (om_cfg s1) p px\<rparr>
        in prune_processed
             (s1\<lparr>om_completed := p1, om_trade_completed := True,
                 om_risk := risk_on_trade_pnl (Fin (p_pnl_usd p1)) (om_risk s1),
                 om_pos := pos0, om_srv_orders := []\<rparr>)))"

definition net_qty_consistent :: "int \<Rightarrow> om \<Rightarrow> bool" where
  "net_qty_consistent net s =
     (let p = om_pos s; held = (if p_qty p > 0 then p_qty p else c_qty (om_cfg s));
          dir = (if p_dir p = BUY then held else if p_dir p = SELL then - held else 0)
      in case p_state p of
           FLAT \<Rightarrow> net = 0
         | LONG \<Rightarrow> net = held
         | SHORT \<Rightarrow> net = - held
         | _ \<Rightarrow> if dir \<ge> 0 then net \<ge> 0 \<and> net \<le> dir else net \<le> 0 \<and> net \<ge> dir)"

subsection \<open>Entries, flattening, watchdogs\<close>

definition flatten_now :: "om_env \<Rightarrow> string \<Rightarrow> real \<Rightarrow> om \<Rightarrow> om" where
  "flatten_now e reason px s =
     (case p_state (om_pos s) of
        FLAT \<Rightarrow> s
      | PENDING_ENTRY \<Rightarrow>
          (let p = om_pos s;
               s1 = s\<lparr>om_pend_cancel := p_entry_id p, om_pend_cancel_buy := (p_dir p = BUY)\<rparr>
           in (cancel_order e (p_entry_id p) s1)\<lparr>om_pos := pos0\<rparr>)
      | PENDING_EXIT \<Rightarrow> s
      | _ \<Rightarrow> initiate_exit e reason px s)"

definition on_signal :: "om_env \<Rightarrow> orb_signal \<Rightarrow> real \<Rightarrow> real \<Rightarrow> real \<Rightarrow> om \<Rightarrow> om" where
  "on_signal e sig px boundary sl_dist s =
     (if sig = FLATTEN_EOD then flatten_now e ''eod_flatten'' px s
      else if sig \<noteq> BUY \<and> sig \<noteq> SELL then s
      else if om_entry_halted s \<or> om_ghost_halted s then s
      else if risk_can_trade (om_risk s) \<noteq> None then s
      else if p_state (om_pos s) \<noteq> FLAT then s
      else
       (let (cid, s1) = new_basket_id e s;
            s2 = s1\<lparr>om_lat := ll_on_signal (e_wall e) cid px True boundary (om_lat s1),
                    om_trade_seq := Suc (om_trade_seq s1),
                    om_pos := pos0\<lparr>p_state := PENDING_ENTRY, p_dir := sig, p_entry_id := cid,
                                   p_qty := qty_for (om_cfg s1) (e_regime e),
                                   p_trigger_price := px, p_fill_time := e_now e\<rparr>,
                    om_pend_sl_dist := sl_dist\<rparr>
        in send_market_order e cid (sig = BUY) px ''entry'' s2))"

text \<open>The old exit order is cancelled and guarded like a cancelled stop before the exit is sent again.\<close>

definition guard_old_exit :: "om_env \<Rightarrow> string \<Rightarrow> bool \<Rightarrow> om \<Rightarrow> om" where
  "guard_old_exit e old exit_buy s =
     (let sid = cancel_id_for s old;
          a = (if sid \<noteq> old then s\<lparr>om_srv_cancelled := AList.update sid old (om_srv_cancelled s)\<rparr>
               else s\<lparr>om_client_only := insert old (om_client_only s)\<rparr>);
          b = cancel_order e old (a\<lparr>om_cs_trade := AList.update old (om_trade_seq a) (om_cs_trade a)\<rparr>);
          c = emit_persist e old exit_buy (b\<lparr>om_cstops := AList.update old exit_buy (om_cstops b)\<rparr>)
      in c\<lparr>om_last_unwind := old, om_last_was_buy := exit_buy\<rparr>)"

definition retry_stuck_exit :: "om_env \<Rightarrow> real \<Rightarrow> om \<Rightarrow> om" where
  "retry_stuck_exit e px s =
     (if p_state (om_pos s) \<noteq> PENDING_EXIT then s
      else if c_dry_run (om_cfg s) then s
      else
       (let old = p_exit_id (om_pos s);
            s1 = (if old \<noteq> [] then guard_old_exit e old (p_dir (om_pos s) = SELL) s else s);
            p = om_pos s1
        in initiate_exit e ''stuck_exit_retry'' px
             (s1\<lparr>om_pos := p\<lparr>p_exit_id := [], p_state := (if p_dir p = BUY then LONG else SHORT)\<rparr>\<rparr>)))"

definition on_order_rejected :: "om_env \<Rightarrow> string \<Rightarrow> om \<Rightarrow> om" where
  "on_order_rejected e i s =
     (let resolved = (case map_of (om_srv_orders s) i of None \<Rightarrow> i | Some c \<Rightarrow> c); p = om_pos s in
      if p_entry_id p = resolved \<and> p_state p = PENDING_ENTRY then s\<lparr>om_pos := pos0\<rparr>
      else if p_exit_id p = resolved \<and> p_state p = PENDING_EXIT then
       (let s1 = s\<lparr>om_pos := p\<lparr>p_state := (if p_dir p = BUY then LONG else SHORT), p_exit_id := []\<rparr>,
                   om_rej_exit := om_rej_exit s + 1\<rparr>
        in if om_rej_exit s1 \<le> 3 then initiate_exit e ''rejected_exit_retry'' 0 s1
           else s1\<lparr>om_entry_halted := True\<rparr>)
      else if p_stop_id p = resolved \<or> (om_stop_server s \<noteq> [] \<and> om_stop_server s = i) then
       (let s1 = emit_remove e (p_stop_id p) s
        in s1\<lparr>om_pos := (om_pos s1)\<lparr>p_stop_id := []\<rparr>, om_stop_server := []\<rparr>)
      else s)"

definition pending_entry_timeout_check :: "om_env \<Rightarrow> int \<Rightarrow> om \<Rightarrow> bool \<times> om" where
  "pending_entry_timeout_check e timeout_secs s =
     (let p = om_pos s in
      if p_state p \<noteq> PENDING_ENTRY then (False, s)
      else if c_dry_run (om_cfg s) then (False, s)
      else if cdiv (e_now e - p_fill_time p) 1000000000 < timeout_secs then (False, s)
      else
       (let s1 = s\<lparr>om_pend_cancel := p_entry_id p, om_pend_cancel_buy := (p_dir p = BUY)\<rparr>
        in (True, (cancel_order e (p_entry_id p) s1)\<lparr>om_pos := pos0\<rparr>)))"

subsection \<open>The per-tick checks\<close>

definition track_excursion :: "real \<Rightarrow> position \<Rightarrow> position" where
  "track_excursion px p =
     (let is_long = (p_state p = LONG);
          mfe = (if is_long then px - p_entry_price p else p_entry_price p - px);
          mae = (if is_long then p_entry_price p - px else px - p_entry_price p)
      in p\<lparr>p_mfe := (if mfe > p_mfe p then mfe else p_mfe p),
           p_mae := (if mae > p_mae p then mae else p_mae p)\<rparr>)"

definition effective_sl :: "om \<Rightarrow> real" where
  "effective_sl s = (if p_stop_id (om_pos s) \<noteq> [] \<and> om_last_exch_sl s \<noteq> 0
     then om_last_exch_sl s else p_sl_price (om_pos s))"

text \<open>The software stop; the bool says that an exit was started and the check is over.\<close>

definition breach_check :: "om_env \<Rightarrow> real \<Rightarrow> om \<Rightarrow> bool \<times> om" where
  "breach_check e px s =
     (let is_long = (p_state (om_pos s) = LONG);
          breached = (if is_long then px \<le> effective_sl s else px \<ge> effective_sl s)
      in if breached then
           (if p_stop_id (om_pos s) = [] then
              (True, initiate_exit e ''stop_loss'' px (s\<lparr>om_breach_time := 0\<rparr>))
            else if om_resubmit s then
              (True, initiate_exit e ''stop_loss_resubmit'' px (s\<lparr>om_resubmit := False, om_breach_time := 0\<rparr>))
            else if om_breach_time s = 0 then (False, s\<lparr>om_breach_time := e_now e\<rparr>)
            else if cdiv (e_now e - om_breach_time s) 1000000 \<ge> c_sl_fire_timeout_ms (om_cfg s) then
              (True, initiate_exit e ''stop_loss_timeout'' px (s\<lparr>om_breach_time := 0\<rparr>))
            else (False, s))
         else (False, s\<lparr>om_breach_time := 0, om_resubmit := False\<rparr>))"

definition take_profit_check :: "om_env \<Rightarrow> real \<Rightarrow> om \<Rightarrow> bool \<times> om" where
  "take_profit_check e px s =
     (let tp = take_profit_for (om_cfg s) (e_regime e); p = om_pos s; is_long = (p_state p = LONG);
          target = (if is_long then p_entry_price p + tp else p_entry_price p - tp)
      in if tp > 0 \<and> (if is_long then px \<ge> target else px \<le> target)
         then (True, initiate_exit e ''take_profit'' px (s\<lparr>om_breach_time := 0\<rparr>))
         else (False, s))"

definition tightens :: "position \<Rightarrow> real \<Rightarrow> bool" where
  "tightens p sl = (if p_state p = LONG then sl > p_sl_price p else sl < p_sl_price p)"

definition break_even_step :: "om_env \<Rightarrow> om \<Rightarrow> bool \<times> om" where
  "break_even_step e s =
     (let p = om_pos s; c = om_cfg s in
      if \<not> p_be_triggered p \<and> p_mfe p \<ge> c_trail_be_trigger c then
       (let be = (if p_state p = LONG then p_entry_price p + c_trail_be_offset c
                  else p_entry_price p - c_trail_be_offset c);
            p1 = p\<lparr>p_be_triggered := True\<rparr>
        in if tightens p be then
             (True, update_stop e be True (s\<lparr>om_pos := p1\<lparr>p_sl_price := be, p_be_sl_price := be\<rparr>\<rparr>))
           else (False, s\<lparr>om_pos := p1\<rparr>))
      else (False, s))"

definition trail_activation :: "om_env \<Rightarrow> om \<Rightarrow> om" where
  "trail_activation e s =
     (let p = om_pos s; c = om_cfg s in
      if \<not> p_trailing_active p \<and> cdiv (e_now e - p_fill_time p) 1000000000 \<ge> c_trail_delay_secs c \<and>
         p_mfe p \<ge> c_trail_be_trigger c
      then s\<lparr>om_pos := p\<lparr>p_trailing_active := True\<rparr>\<rparr> else s)"

definition trail_step_update :: "om_env \<Rightarrow> real \<Rightarrow> om \<Rightarrow> bool \<times> om" where
  "trail_step_update e px s =
     (let p = om_pos s; step = trail_step_for (om_cfg s) (e_regime e);
          sl = (if p_state p = LONG then px - step else px + step)
      in if p_trailing_active p \<and> tightens p sl
         then (True, update_stop e sl False (s\<lparr>om_pos := p\<lparr>p_sl_price := sl\<rparr>\<rparr>))
         else (False, s))"

definition check_trail_and_stop :: "om_env \<Rightarrow> real \<Rightarrow> om \<Rightarrow> bool \<times> om" where
  "check_trail_and_stop e px s =
     (if p_state (om_pos s) \<noteq> LONG \<and> p_state (om_pos s) \<noteq> SHORT then (False, s)
      else
       (let (exited, s1) = breach_check e px (s\<lparr>om_pos := track_excursion px (om_pos s)\<rparr>)
        in if exited then (False, s1)
           else
            (let (exited, s2) = take_profit_check e px s1
             in if exited then (False, s2)
                else
                 (let (moved1, s3) = break_even_step e s2;
                      (moved2, s4) = trail_step_update e px (trail_activation e s3)
                  in (moved1 \<or> moved2, s4)))))"

definition check_external_stop :: "om_env \<Rightarrow> real \<Rightarrow> real option \<Rightarrow> om \<Rightarrow> bool \<times> om" where
  "check_external_stop e px strat_stop s =
     (if p_state (om_pos s) \<noteq> LONG \<and> p_state (om_pos s) \<noteq> SHORT then (False, s)
      else
       (let (exited, s1) = breach_check e px (s\<lparr>om_pos := track_excursion px (om_pos s)\<rparr>)
        in if exited then (False, s1)
           else
            (case strat_stop of
               None \<Rightarrow> (False, s1)
             | Some v \<Rightarrow>
                 if v > 0 then
                  (let sl = snap_stop v (if p_state (om_pos s1) = LONG then BUY else SELL)
                   in if tightens (om_pos s1) sl
                      then (True, update_stop e sl False (s1\<lparr>om_pos := (om_pos s1)\<lparr>p_sl_price := sl\<rparr>\<rparr>))
                      else (False, s1))
                 else (False, s1))))"

subsection \<open>Server ids, dedupe, queries\<close>

definition set_stop_server_basket :: "string \<Rightarrow> om \<Rightarrow> om" where
  "set_stop_server_basket sid s = s\<lparr>om_stop_server := sid\<rparr>"

definition map_server_basket :: "om_env \<Rightarrow> string \<Rightarrow> string \<Rightarrow> om \<Rightarrow> om" where
  "map_server_basket e cid sid s =
     (if cid = [] \<or> sid = [] then s
      else
       (let s1 = s\<lparr>om_srv_orders := AList.update sid cid (om_srv_orders s)\<rparr>
        in if cid \<in> om_unmapped s1 then
            (let s2 = s1\<lparr>om_unmapped := om_unmapped s1 - {cid}\<rparr>;
                 s3 = (if has_key (om_cstops s2) cid
                       then s2\<lparr>om_srv_cancelled := AList.update sid cid (om_srv_cancelled s2),
                               om_client_only := om_client_only s2 - {cid}\<rparr>
                       else s2)
             in if e_cancel_cb e then emit (CancelReq sid) s3 else s3)
           else s1))"

definition fill_already_processed :: "string \<Rightarrow> int \<Rightarrow> om \<Rightarrow> bool \<times> om" where
  "fill_already_processed i q s =
     (let seen = (case map_of (om_processed s) i of None \<Rightarrow> 0 | Some n \<Rightarrow> n)
      in if seen \<ge> q then (True, s\<lparr>om_processed := AList.update i seen (om_processed s)\<rparr>)
         else (False, s\<lparr>om_processed := AList.update i q (om_processed s)\<rparr>))"

definition is_flat :: "om \<Rightarrow> bool" where
  "is_flat s = (p_state (om_pos s) = FLAT)"

definition is_entry_basket :: "om \<Rightarrow> string \<Rightarrow> bool" where
  "is_entry_basket s i = (p_entry_id (om_pos s) = i)"

definition is_stop_basket :: "om \<Rightarrow> string \<Rightarrow> bool" where
  "is_stop_basket s i =
     (if p_stop_id (om_pos s) \<noteq> [] \<and> p_stop_id (om_pos s) = i then True
      else if p_state (om_pos s) = LONG \<or> p_state (om_pos s) = SHORT then
        map_of (om_cs_trade s) i = Some (om_trade_seq s) \<and> has_key (om_cstops s) i
      else False)"

definition is_exit_basket :: "om \<Rightarrow> string \<Rightarrow> bool" where
  "is_exit_basket s i = (p_exit_id (om_pos s) \<noteq> [] \<and> p_exit_id (om_pos s) = i)"

definition pop_trade_completed :: "om \<Rightarrow> position option \<times> om" where
  "pop_trade_completed s =
     (if \<not> om_trade_completed s then (None, s)
      else (Some (om_completed s), s\<lparr>om_trade_completed := False\<rparr>))"

definition exchange_stop :: "om \<Rightarrow> real" where
  "exchange_stop s = (if om_last_exch_sl s \<noteq> 0 then om_last_exch_sl s else p_sl_price (om_pos s))"

subsection \<open>Net reconciliation\<close>

datatype verdict = RecOK | MismatchWait | MismatchAct

record reconciler =
  nr_since :: int
  nr_acted :: bool
  nr_acted_ms :: int

definition nr_new :: reconciler where
  "nr_new = \<lparr>nr_since = 0, nr_acted = False, nr_acted_ms = 0\<rparr>"

definition nr_observe :: "bool \<Rightarrow> int \<Rightarrow> int \<Rightarrow> int \<Rightarrow> reconciler \<Rightarrow> verdict \<times> reconciler" where
  "nr_observe consistent now grace retry r =
     (if consistent then (RecOK, nr_new)
      else
       (let r1 = (if nr_since r = 0 then r\<lparr>nr_since := now\<rparr> else r)
        in if nr_acted r1 then
             (if retry > 0 \<and> now - nr_acted_ms r1 \<ge> retry
              then (MismatchAct, r1\<lparr>nr_acted_ms := now\<rparr>) else (MismatchWait, r1))
           else if now - nr_since r1 < grace then (MismatchWait, r1)
           else (MismatchAct, r1\<lparr>nr_acted := True, nr_acted_ms := now\<rparr>)))"

end
