(* ===== verification/Order_Steps.thy ===== *)
theory Order_Steps
  imports Order_Ops
begin

section \<open>Order manager: runs\<close>

text \<open>
  The calls the executor makes as one datatype, the step they cause, and the invariants that
  every step keeps: the shape of the position record and the account kept of every
  protective stop that may still be working at the exchange.
\<close>

subsection \<open>Steps\<close>

datatype om_call =
    Signal orb_signal real real real
  | FillNote string real int bool
  | TrailTick real
  | StopTick real "real option"
  | Flatten string real
  | RetryExit real
  | RejectNote string
  | CancelFailed string
  | CancelAck string
  | CancelAckServer string
  | StopMapped string string
  | MapServer string string
  | Recancel
  | ClearRecancels
  | RegisterUnwind string
  | ConfirmFlat
  | SeedStop string bool
  | SeedServer string string
  | AdoptClose real string
  | EntryTimeout int
  | DedupeFill string int
  | PopTrade

fun om_step :: "om_env \<Rightarrow> om_call \<Rightarrow> om \<Rightarrow> om" where
  "om_step e (Signal sig px b d) s = on_signal e sig px b d s"
| "om_step e (FillNote i px q is_entry) s = on_fill e i px q is_entry s"
| "om_step e (TrailTick px) s = snd (check_trail_and_stop e px s)"
| "om_step e (StopTick px v) s = snd (check_external_stop e px v s)"
| "om_step e (Flatten why px) s = flatten_now e why px s"
| "om_step e (RetryExit px) s = retry_stuck_exit e px s"
| "om_step e (RejectNote i) s = on_order_rejected e i s"
| "om_step e (CancelFailed i) s = on_cancel_failed e i s"
| "om_step e (CancelAck i) s = on_cancel_confirmed e i s"
| "om_step e (CancelAckServer i) s = on_cancel_confirmed_by_server e i s"
| "om_step e (StopMapped c i) s = on_stop_server_mapped e c i s"
| "om_step e (MapServer c i) s = map_server_basket e c i s"
| "om_step e Recancel s = recancel_pending_stops e s"
| "om_step e ClearRecancels s = clear_post_close_recancels s"
| "om_step e (RegisterUnwind i) s = register_unwind_basket i s"
| "om_step e ConfirmFlat s = confirm_exchange_flat s"
| "om_step e (SeedStop i b) s = seed_cancelled_stops i b s"
| "om_step e (SeedServer i c) s = seed_server_stop_cancel i c s"
| "om_step e (AdoptClose px why) s = adopt_external_close e px why s"
| "om_step e (EntryTimeout n) s = snd (pending_entry_timeout_check e n s)"
| "om_step e (DedupeFill i q) s = snd (fill_already_processed i q s)"
| "om_step e PopTrade s = snd (pop_trade_completed s)"

text \<open>A run: each call comes with the clock, callbacks and regime it sees.\<close>

definition om_run :: "om \<Rightarrow> (om_env \<times> om_call) list \<Rightarrow> om" where
  "om_run = run (\<lambda>s (e, c). om_step e c s)"

subsection \<open>Shape of the position\<close>

definition in_trade :: "om \<Rightarrow> bool" where
  "in_trade s = (p_state (om_pos s) = LONG \<or> p_state (om_pos s) = SHORT)"

fun pos_wf :: "position \<Rightarrow> bool" where
  "pos_wf p = (case p_state p of
      FLAT \<Rightarrow> p = pos0
    | PENDING_ENTRY \<Rightarrow> (p_dir p = BUY \<or> p_dir p = SELL) \<and> p_entry_id p \<noteq> [] \<and> p_exit_id p = [] \<and> p_stop_id p = []
    | LONG \<Rightarrow> p_dir p = BUY \<and> p_exit_id p = []
    | SHORT \<Rightarrow> p_dir p = SELL \<and> p_exit_id p = []
    | PENDING_EXIT \<Rightarrow> (p_dir p = BUY \<or> p_dir p = SELL) \<and> p_exit_id p \<noteq> [])"

declare pos_wf.simps [simp del]

subsection \<open>Stops that may still be working\<close>

text \<open>The protective stops handed to the exchange so far: sent as stop-market and accepted.\<close>

fun sent_stops :: "(order_req \<Rightarrow> bool) \<Rightarrow> om_effect list \<Rightarrow> string list" where
  "sent_stops A [] = []"
| "sent_stops A (SendOrder rq # xs) =
     (if rq_type rq = 4 \<and> A rq then [rq_id rq] else []) @ sent_stops A xs"
| "sent_stops A (_ # xs) = sent_stops A xs"

lemma sent_stops_append [simp]: "sent_stops A (xs @ ys) = sent_stops A xs @ sent_stops A ys"
  by (induction A xs rule: sent_stops.induct) auto

text \<open>
  A stop is accounted for when it is the tracked stop of the position, or a cancelled stop
  whose guard is kept at least until its cancel is resolved.
\<close>

definition tracked :: "om \<Rightarrow> string \<Rightarrow> bool" where
  "tracked s i = (p_stop_id (om_pos s) = i \<or> (has_key (om_cstops s) i \<and> guard_pending s i))"

definition covered :: "(order_req \<Rightarrow> bool) \<Rightarrow> string set \<Rightarrow> om \<Rightarrow> bool" where
  "covered A D s = (\<forall>i \<in> set (sent_stops A (om_out s)). i \<in> D \<or> (i \<noteq> [] \<and> tracked s i))"

text \<open>\<open>own\<close> is the exchange's assignment: the client id of the order a server id belongs to.\<close>

definition owned :: "(string \<Rightarrow> string) \<Rightarrow> om \<Rightarrow> bool" where
  "owned own s =
     (list_all (\<lambda>(sid, c). own sid = c) (om_srv_cancelled s) \<and>
      list_all (\<lambda>(sid, c). own sid = c) (om_srv_orders s) \<and>
      (om_stop_server s \<noteq> [] \<and> p_stop_id (om_pos s) \<noteq> [] \<longrightarrow> own (om_stop_server s) = p_stop_id (om_pos s)))"

definition om_core :: "(string \<Rightarrow> string) \<Rightarrow> (order_req \<Rightarrow> bool) \<Rightarrow> string set \<Rightarrow> om \<Rightarrow> bool" where
  "om_core own A D s =
     (owned own s \<and> covered A D s \<and> (c_dry_run (om_cfg s) \<longrightarrow> sent_stops A (om_out s) = []))"

definition om_inv :: "(string \<Rightarrow> string) \<Rightarrow> (order_req \<Rightarrow> bool) \<Rightarrow> string set \<Rightarrow> om \<Rightarrow> bool" where
  "om_inv own A D s =
     (pos_wf (om_pos s) \<and> (\<not> in_trade s \<longrightarrow> p_stop_id (om_pos s) = []) \<and> om_core own A D s)"

lemma om_inv_new: "om_inv own A D (om_new c r l)"
  by (simp add: om_inv_def om_core_def pos_wf.simps om_new_def pos0_def owned_def covered_def)

subsection \<open>Frame lemmas\<close>

lemmas inv_unfold = om_inv_def om_core_def in_trade_def owned_def covered_def tracked_def guard_pending_def

lemma om_inv_irrelevant [simp]:
  "om_inv own A D (s\<lparr>om_risk := v0\<rparr>) = om_inv own A D s"
  "om_inv own A D (s\<lparr>om_lat := v1\<rparr>) = om_inv own A D s"
  "om_inv own A D (s\<lparr>om_completed := v2\<rparr>) = om_inv own A D s"
  "om_inv own A D (s\<lparr>om_trade_completed := v3\<rparr>) = om_inv own A D s"
  "om_inv own A D (s\<lparr>om_last_entry_lat := v4\<rparr>) = om_inv own A D s"
  "om_inv own A D (s\<lparr>om_last_exit_lat := v5\<rparr>) = om_inv own A D s"
  "om_inv own A D (s\<lparr>om_stop_submit_time := v6\<rparr>) = om_inv own A D s"
  "om_inv own A D (s\<lparr>om_processed := v7\<rparr>) = om_inv own A D s"
  "om_inv own A D (s\<lparr>om_fill_acc := v8\<rparr>) = om_inv own A D s"
  "om_inv own A D (s\<lparr>om_trade_seq := v9\<rparr>) = om_inv own A D s"
  "om_inv own A D (s\<lparr>om_cs_trade := v10\<rparr>) = om_inv own A D s"
  "om_inv own A D (s\<lparr>om_unmapped := v11\<rparr>) = om_inv own A D s"
  "om_inv own A D (s\<lparr>om_last_unwind := v12\<rparr>) = om_inv own A D s"
  "om_inv own A D (s\<lparr>om_last_was_buy := v13\<rparr>) = om_inv own A D s"
  "om_inv own A D (s\<lparr>om_cs_levels := v14\<rparr>) = om_inv own A D s"
  "om_inv own A D (s\<lparr>om_unwinds := v15\<rparr>) = om_inv own A D s"
  "om_inv own A D (s\<lparr>om_pend_cancel := v16\<rparr>) = om_inv own A D s"
  "om_inv own A D (s\<lparr>om_pend_cancel_buy := v17\<rparr>) = om_inv own A D s"
  "om_inv own A D (s\<lparr>om_rej_exit := v18\<rparr>) = om_inv own A D s"
  "om_inv own A D (s\<lparr>om_entry_halted := v19\<rparr>) = om_inv own A D s"
  "om_inv own A D (s\<lparr>om_ghost_halted := v20\<rparr>) = om_inv own A D s"
  "om_inv own A D (s\<lparr>om_last_exch_sl := v21\<rparr>) = om_inv own A D s"
  "om_inv own A D (s\<lparr>om_pend_sl_dist := v22\<rparr>) = om_inv own A D s"
  "om_inv own A D (s\<lparr>om_breach_time := v23\<rparr>) = om_inv own A D s"
  "om_inv own A D (s\<lparr>om_resubmit := v24\<rparr>) = om_inv own A D s"
  "om_inv own A D (s\<lparr>om_seq := v25\<rparr>) = om_inv own A D s"
  by (simp_all add: inv_unfold)

lemma om_core_irrelevant [simp]:
  "om_core own A D (s\<lparr>om_risk := v0\<rparr>) = om_core own A D s"
  "om_core own A D (s\<lparr>om_lat := v1\<rparr>) = om_core own A D s"
  "om_core own A D (s\<lparr>om_completed := v2\<rparr>) = om_core own A D s"
  "om_core own A D (s\<lparr>om_trade_completed := v3\<rparr>) = om_core own A D s"
  "om_core own A D (s\<lparr>om_last_entry_lat := v4\<rparr>) = om_core own A D s"
  "om_core own A D (s\<lparr>om_last_exit_lat := v5\<rparr>) = om_core own A D s"
  "om_core own A D (s\<lparr>om_stop_submit_time := v6\<rparr>) = om_core own A D s"
  "om_core own A D (s\<lparr>om_processed := v7\<rparr>) = om_core own A D s"
  "om_core own A D (s\<lparr>om_fill_acc := v8\<rparr>) = om_core own A D s"
  "om_core own A D (s\<lparr>om_trade_seq := v9\<rparr>) = om_core own A D s"
  "om_core own A D (s\<lparr>om_cs_trade := v10\<rparr>) = om_core own A D s"
  "om_core own A D (s\<lparr>om_unmapped := v11\<rparr>) = om_core own A D s"
  "om_core own A D (s\<lparr>om_last_unwind := v12\<rparr>) = om_core own A D s"
  "om_core own A D (s\<lparr>om_last_was_buy := v13\<rparr>) = om_core own A D s"
  "om_core own A D (s\<lparr>om_cs_levels := v14\<rparr>) = om_core own A D s"
  "om_core own A D (s\<lparr>om_unwinds := v15\<rparr>) = om_core own A D s"
  "om_core own A D (s\<lparr>om_pend_cancel := v16\<rparr>) = om_core own A D s"
  "om_core own A D (s\<lparr>om_pend_cancel_buy := v17\<rparr>) = om_core own A D s"
  "om_core own A D (s\<lparr>om_rej_exit := v18\<rparr>) = om_core own A D s"
  "om_core own A D (s\<lparr>om_entry_halted := v19\<rparr>) = om_core own A D s"
  "om_core own A D (s\<lparr>om_ghost_halted := v20\<rparr>) = om_core own A D s"
  "om_core own A D (s\<lparr>om_last_exch_sl := v21\<rparr>) = om_core own A D s"
  "om_core own A D (s\<lparr>om_pend_sl_dist := v22\<rparr>) = om_core own A D s"
  "om_core own A D (s\<lparr>om_breach_time := v23\<rparr>) = om_core own A D s"
  "om_core own A D (s\<lparr>om_resubmit := v24\<rparr>) = om_core own A D s"
  "om_core own A D (s\<lparr>om_seq := v25\<rparr>) = om_core own A D s"
  by (simp_all add: inv_unfold)

lemma emit_fields [simp]:
  "om_pos (emit x s) = om_pos s"
  "om_cfg (emit x s) = om_cfg s"
  "om_cstops (emit x s) = om_cstops s"
  "om_srv_cancelled (emit x s) = om_srv_cancelled s"
  "om_client_only (emit x s) = om_client_only s"
  "om_srv_orders (emit x s) = om_srv_orders s"
  "om_stop_server (emit x s) = om_stop_server s"
  "om_risk (emit x s) = om_risk s"
  "om_seq (emit x s) = om_seq s"
  "om_lat (emit x s) = om_lat s"
  "om_trade_seq (emit x s) = om_trade_seq s"
  "om_last_exch_sl (emit x s) = om_last_exch_sl s"
  "om_cs_levels (emit x s) = om_cs_levels s"
  "om_cs_trade (emit x s) = om_cs_trade s"
  "om_unwinds (emit x s) = om_unwinds s"
  "om_last_unwind (emit x s) = om_last_unwind s"
  "om_unmapped (emit x s) = om_unmapped s"
  "om_ghost_halted (emit x s) = om_ghost_halted s"
  "om_entry_halted (emit x s) = om_entry_halted s"
  "om_rej_exit (emit x s) = om_rej_exit s"
  "om_fill_acc (emit x s) = om_fill_acc s"
  "om_processed (emit x s) = om_processed s"
  "om_pend_sl_dist (emit x s) = om_pend_sl_dist s"
  "om_completed (emit x s) = om_completed s"
  "om_trade_completed (emit x s) = om_trade_completed s"
  "om_breach_time (emit x s) = om_breach_time s"
  "om_resubmit (emit x s) = om_resubmit s"
  "om_out (emit x s) = om_out s @ [x]"
  by (simp_all add: emit_def)

definition quiet :: "om_effect \<Rightarrow> bool" where
  "quiet x = (case x of SendOrder rq \<Rightarrow> rq_type rq \<noteq> 4 | _ \<Rightarrow> True)"

lemma quiet_simps [simp]:
  "quiet (CancelReq i)" "quiet (PersistCancel i b)" "quiet (RemoveCancel i)" "quiet (PersistServerId i j)"
  "quiet (SendOrder rq) = (rq_type rq \<noteq> 4)"
  by (simp_all add: quiet_def)

lemma sent_stops_quiet: "quiet x \<Longrightarrow> sent_stops A [x] = []"
  by (cases x) simp_all

lemma om_inv_emit [simp]: "quiet x \<Longrightarrow> om_inv own A D (emit x s) = om_inv own A D s"
  by (simp add: inv_unfold sent_stops_quiet)

lemma om_inv_emits [simp]:
  "om_inv own A D (emit_persist e i b s) = om_inv own A D s"
  "om_inv own A D (emit_remove e i s) = om_inv own A D s"
  "om_inv own A D (emit_server e i j s) = om_inv own A D s"
  by (simp_all add: emit_persist_def emit_remove_def emit_server_def)

lemma om_core_emit [simp]: "quiet x \<Longrightarrow> om_core own A D (emit x s) = om_core own A D s"
  by (simp add: inv_unfold sent_stops_quiet)

lemma om_core_emits [simp]:
  "om_core own A D (emit_persist e i b s) = om_core own A D s"
  "om_core own A D (emit_remove e i s) = om_core own A D s"
  "om_core own A D (emit_server e i j s) = om_core own A D s"
  by (simp_all add: emit_persist_def emit_remove_def emit_server_def)

lemma emits_fields [simp]:
  "om_pos (emit_persist e i b s) = om_pos s" "om_pos (emit_remove e i s) = om_pos s" "om_pos (emit_server e i j s) = om_pos s"
  "om_cfg (emit_persist e i b s) = om_cfg s" "om_cfg (emit_remove e i s) = om_cfg s" "om_cfg (emit_server e i j s) = om_cfg s"
  "om_cstops (emit_persist e i b s) = om_cstops s" "om_cstops (emit_remove e i s) = om_cstops s" "om_cstops (emit_server e i j s) = om_cstops s"
  "om_srv_cancelled (emit_persist e i b s) = om_srv_cancelled s" "om_srv_cancelled (emit_remove e i s) = om_srv_cancelled s" "om_srv_cancelled (emit_server e i j s) = om_srv_cancelled s"
  "om_client_only (emit_persist e i b s) = om_client_only s" "om_client_only (emit_remove e i s) = om_client_only s" "om_client_only (emit_server e i j s) = om_client_only s"
  "om_srv_orders (emit_persist e i b s) = om_srv_orders s" "om_srv_orders (emit_remove e i s) = om_srv_orders s" "om_srv_orders (emit_server e i j s) = om_srv_orders s"
  "om_stop_server (emit_persist e i b s) = om_stop_server s" "om_stop_server (emit_remove e i s) = om_stop_server s" "om_stop_server (emit_server e i j s) = om_stop_server s"
  "om_last_exch_sl (emit_persist e i b s) = om_last_exch_sl s" "om_last_exch_sl (emit_remove e i s) = om_last_exch_sl s" "om_last_exch_sl (emit_server e i j s) = om_last_exch_sl s"
  "om_seq (emit_persist e i b s) = om_seq s" "om_seq (emit_remove e i s) = om_seq s" "om_seq (emit_server e i j s) = om_seq s"
  "om_risk (emit_persist e i b s) = om_risk s" "om_risk (emit_remove e i s) = om_risk s" "om_risk (emit_server e i j s) = om_risk s"
  "om_trade_seq (emit_persist e i b s) = om_trade_seq s" "om_trade_seq (emit_remove e i s) = om_trade_seq s" "om_trade_seq (emit_server e i j s) = om_trade_seq s"
  "om_last_unwind (emit_persist e i b s) = om_last_unwind s" "om_last_unwind (emit_remove e i s) = om_last_unwind s" "om_last_unwind (emit_server e i j s) = om_last_unwind s"
  by (simp_all add: emit_persist_def emit_remove_def emit_server_def)

lemma om_core_pos [simp]:
  "p_stop_id p = p_stop_id (om_pos s) \<Longrightarrow> om_core own A D (s\<lparr>om_pos := p\<rparr>) = om_core own A D s"
  by (simp add: inv_unfold)

lemma om_inv_core: "om_inv own A D s \<Longrightarrow> om_core own A D s"
  by (simp add: om_inv_def)

lemma om_inv_mono: "om_inv own A D s \<Longrightarrow> D \<subseteq> D' \<Longrightarrow> om_inv own A D' s"
  by (auto simp: om_inv_def om_core_def covered_def)

lemma om_inv_dry: "om_inv own A D s \<Longrightarrow> c_dry_run (om_cfg s) \<Longrightarrow> om_inv own A D' s"
  by (simp add: om_inv_def om_core_def covered_def)

end
