(* ===== verification/Order_Inv.thy ===== *)
theory Order_Inv
  imports Order_Steps
begin

section \<open>Order manager: every step keeps the invariants\<close>

text \<open>
  One preservation lemma per operation of the order manager, for an environment whose
  cancel callback is wired and whose order callback answers \<open>A\<close>; then the lemma for a
  step and for a run.
\<close>

lemma list_all_update:
  "list_all P m \<Longrightarrow> P (k, v) \<Longrightarrow> list_all P (AList.update k v m)"
  by (induction m) auto

lemma list_all_delete: "list_all P m \<Longrightarrow> list_all P (AList.delete k m)"
  by (auto simp: list_all_iff AList.delete_eq)

lemma list_all_erase_value: "list_all P m \<Longrightarrow> list_all P (erase_value v m)"
  by (auto simp: list_all_iff set_erase_value)

lemma has_value_update:
  assumes "list_all (\<lambda>(sid, c). own sid = c) m" and "has_value v m" and "own k = w"
  shows "has_value v (AList.update k w m)"
  using assms by (induction m) (auto simp: has_value_def)

lemma has_value_update_self: "has_value w (AList.update k w m)"
  by (induction m) (auto simp: has_value_def)

lemma has_value_delete:
  assumes "list_all (\<lambda>(sid, c). own sid = c) m" and "has_value v m" and "own k \<noteq> v"
  shows "has_value v (AList.delete k m)"
  using assms by (auto simp: has_value_def list_ex_iff list_all_iff AList.delete_eq)

lemma has_value_erase: "has_value v m \<Longrightarrow> v \<noteq> w \<Longrightarrow> has_value v (erase_value w m)"
  by (auto simp: has_value_def list_ex_iff set_erase_value)

lemmas alist_rules = list_all_update list_all_delete list_all_erase_value
  has_value_update has_value_update_self has_value_delete has_value_erase

subsection \<open>Cancelling and submitting the stop\<close>

text \<open>Cancelling the tracked stop turns it into a pending guard.\<close>

lemma om_core_cancel_stop:
  assumes inv: "om_core own A D s" and cb: "e_cancel_cb e"
  shows "om_core own A D (cancel_stop e s) \<and> p_stop_id (om_pos (cancel_stop e s)) = []"
proof (cases "p_stop_id (om_pos s) = []")
  case True
  then show ?thesis using inv by (simp add: cancel_stop_def)
next
  case False
  show ?thesis
  proof (cases "om_stop_server s = []")
    case True
    then show ?thesis using inv False cb
      by (auto simp: cancel_stop_def Let_def emit_def emit_persist_def inv_unfold)
  next
    case sid: False
    have own: "own (om_stop_server s) = p_stop_id (om_pos s)"
      using inv False sid by (simp add: om_core_def owned_def)
    show ?thesis using inv False cb sid own
      by (auto simp: cancel_stop_def Let_def emit_def emit_persist_def emit_server_def inv_unfold
          has_value_update_self intro: alist_rules)
  qed
qed

lemma cancel_stop_fields [simp]:
  "om_cfg (cancel_stop e s) = om_cfg s" "p_state (om_pos (cancel_stop e s)) = p_state (om_pos s)"
  "p_dir (om_pos (cancel_stop e s)) = p_dir (om_pos s)" "p_exit_id (om_pos (cancel_stop e s)) = p_exit_id (om_pos s)"
  "p_sl_price (om_pos (cancel_stop e s)) = p_sl_price (om_pos s)"
  "p_entry_price (om_pos (cancel_stop e s)) = p_entry_price (om_pos s)"
  "p_qty (om_pos (cancel_stop e s)) = p_qty (om_pos s)"
  "p_pnl_usd (om_pos (cancel_stop e s)) = p_pnl_usd (om_pos s)"
  "p_mfe (om_pos (cancel_stop e s)) = p_mfe (om_pos s)"
  "om_risk (cancel_stop e s) = om_risk s" "om_seq (cancel_stop e s) = om_seq s"
  "om_trade_seq (cancel_stop e s) = om_trade_seq s"
  by (simp_all add: cancel_stop_def Let_def)

lemma cancel_stop_pos:
  "om_pos (cancel_stop e s) = om_pos s \<or> om_pos (cancel_stop e s) = (om_pos s)\<lparr>p_stop_id := []\<rparr>"
  by (simp add: cancel_stop_def Let_def)

lemma om_inv_cancel_stop:
  assumes inv: "om_inv own A D s" and cb: "e_cancel_cb e"
  shows "om_inv own A D (cancel_stop e s) \<and> p_stop_id (om_pos (cancel_stop e s)) = []"
proof -
  have none: "p_stop_id (om_pos (cancel_stop e s)) = []" and core: "om_core own A D (cancel_stop e s)"
    using om_core_cancel_stop [OF om_inv_core [OF inv] cb] by simp_all
  have "pos_wf ((om_pos s)\<lparr>p_stop_id := []\<rparr>)" and "pos_wf (om_pos s)"
    using inv by (auto simp: om_inv_def pos_wf.simps pos0_def split: pos_state.splits)
  then have "pos_wf (om_pos (cancel_stop e s))"
    using cancel_stop_pos [of e s] by auto
  with none core show ?thesis by (simp add: om_inv_def)
qed

lemma new_basket_nonempty [simp]: "fst (new_basket_id e s) \<noteq> []"
  by (simp add: new_basket_id_def)

lemma new_basket_state: "snd (new_basket_id e s) = s\<lparr>om_seq := Suc (om_seq s)\<rparr>"
  by (simp add: new_basket_id_def)

lemma new_basket_split: "new_basket_id e s = (fst (new_basket_id e s), s\<lparr>om_seq := Suc (om_seq s)\<rparr>)"
  by (simp add: new_basket_id_def)

lemma om_inv_submit_stop:
  assumes inv: "om_inv own A D s" and acc: "e_accepts e = A"
    and tr: "in_trade s" and none: "p_stop_id (om_pos s) = []"
  shows "om_inv own A D (submit_stop e sl s)"
proof -
  obtain cid where cid: "new_basket_id e s = (cid, s\<lparr>om_seq := Suc (om_seq s)\<rparr>)" "cid \<noteq> []"
    using new_basket_split new_basket_nonempty by metis
  have wf: "pos_wf (om_pos s \<lparr>p_stop_id := i\<rparr>)" for i
    using inv tr by (auto simp: om_inv_def om_core_def in_trade_def pos_wf.simps)
  show ?thesis
    using inv tr none cid wf [of cid] wf [of "[]"]
    by (auto simp: submit_stop_def send_order_def emit_def emit_persist_def inv_unfold acc Let_def)
qed

lemma submit_stop_fields [simp]:
  "om_cfg (submit_stop e sl s) = om_cfg s" "p_state (om_pos (submit_stop e sl s)) = p_state (om_pos s)"
  "p_dir (om_pos (submit_stop e sl s)) = p_dir (om_pos s)"
  "p_sl_price (om_pos (submit_stop e sl s)) = p_sl_price (om_pos s)"
  "p_entry_price (om_pos (submit_stop e sl s)) = p_entry_price (om_pos s)"
  "p_qty (om_pos (submit_stop e sl s)) = p_qty (om_pos s)"
  "p_mfe (om_pos (submit_stop e sl s)) = p_mfe (om_pos s)"
  "p_exit_id (om_pos (submit_stop e sl s)) = p_exit_id (om_pos s)"
  "om_risk (submit_stop e sl s) = om_risk s" "om_trade_seq (submit_stop e sl s) = om_trade_seq s"
  by (simp_all add: submit_stop_def case_prod_beta new_basket_state Let_def send_order_def)

lemma update_stop_fields [simp]:
  "om_cfg (update_stop e sl f s) = om_cfg s" "p_state (om_pos (update_stop e sl f s)) = p_state (om_pos s)"
  "p_dir (om_pos (update_stop e sl f s)) = p_dir (om_pos s)"
  "p_sl_price (om_pos (update_stop e sl f s)) = p_sl_price (om_pos s)"
  "p_entry_price (om_pos (update_stop e sl f s)) = p_entry_price (om_pos s)"
  "p_qty (om_pos (update_stop e sl f s)) = p_qty (om_pos s)"
  "p_mfe (om_pos (update_stop e sl f s)) = p_mfe (om_pos s)"
  "om_risk (update_stop e sl f s) = om_risk s"
  by (simp_all add: update_stop_def)

lemma om_inv_update_stop:
  assumes inv: "om_inv own A D s" and acc: "e_accepts e = A" and cb: "e_cancel_cb e" and tr: "in_trade s"
  shows "om_inv own A D (update_stop e sl force s)"
proof (cases "p_stop_id (om_pos s) = []")
  case True
  then show ?thesis using inv tr acc by (simp add: update_stop_def om_inv_submit_stop)
next
  case False
  let ?s = "cancel_stop e (s\<lparr>om_resubmit := True\<rparr>)"
  have "om_inv own A D ?s \<and> p_stop_id (om_pos ?s) = []"
    by (rule om_inv_cancel_stop [OF _ cb]) (simp add: inv)
  moreover have "in_trade ?s" using tr by (simp add: in_trade_def)
  ultimately have "om_inv own A D (submit_stop e sl ?s)"
    using acc by (intro om_inv_submit_stop) auto
  then show ?thesis using inv False by (simp add: update_stop_def)
qed

subsection \<open>Unwinds and entries\<close>

lemma om_inv_send_unwind:
  assumes "om_inv own A D s"
  shows "om_inv own A D (send_unwind e buy px tag rem s)"
  using assms by (simp add: send_unwind_def send_order_def new_basket_id_def Let_def)

lemma om_inv_pos:
  assumes "om_inv own A D s" and "pos_wf p" and "p_stop_id p = p_stop_id (om_pos s)"
    and "p_state p = LONG \<or> p_state p = SHORT \<or> p_stop_id p = []"
  shows "om_inv own A D (s\<lparr>om_pos := p\<rparr>)"
  using assms by (auto simp: inv_unfold)

lemma om_inv_flatten:
  assumes "om_inv own A D s" and "p_stop_id (om_pos s) = []"
  shows "om_inv own A D (s\<lparr>om_pos := pos0\<rparr>)"
  by (rule om_inv_pos [OF assms(1)]) (simp_all add: assms(2) pos_wf.simps pos0_def)

lemma om_inv_book_entry:
  assumes inv: "om_inv own A D s" and acc: "e_accepts e = A" and st: "p_state (om_pos s) = PENDING_ENTRY"
  shows "om_inv own A D (book_entry_fill e i px s)"
proof -
  have none: "p_stop_id (om_pos s) = []" and dir: "p_dir (om_pos s) = BUY \<or> p_dir (om_pos s) = SELL"
    and ex: "p_exit_id (om_pos s) = []"
    using inv st by (auto simp: om_inv_def om_core_def in_trade_def pos_wf.simps)
  define sl where "sl = (if om_pend_sl_dist s > 0 then compute_sl_dist px (p_dir (om_pos s)) (om_pend_sl_dist s)
                else compute_sl (om_cfg s) px (p_dir (om_pos s)))"
  define p1 where "p1 = (om_pos s)\<lparr>p_entry_price := px, p_fill_price_actual := px, p_fill_time := e_now e,
                 p_state := (if p_dir (om_pos s) = BUY then LONG else SHORT), p_sl_price := sl\<rparr>"
  have p1: "pos_wf p1" "p_stop_id p1 = []" "p_state p1 = LONG \<or> p_state p1 = SHORT"
    using none dir ex by (auto simp: p1_def pos_wf.simps)
  have "om_inv own A D (s\<lparr>om_pos := p1\<rparr>)"
    using p1 none by (intro om_inv_pos [OF inv]) auto
  moreover obtain rec l where rl: "ll_on_fill (e_wall e) i px (om_lat s) = (rec, l)" by force
  define s1 where "s1 = s\<lparr>om_pos := p1, om_pend_cancel := [], om_pend_cancel_buy := False,
                 om_pend_sl_dist := 0, om_lat := l, om_last_entry_lat := rec\<rparr>"
  ultimately have "om_inv own A D s1" by (simp add: s1_def)
  then have "om_inv own A D (submit_stop e sl s1)"
    using p1 acc by (intro om_inv_submit_stop) (auto simp: s1_def in_trade_def)
  then show ?thesis
    by (simp add: book_entry_fill_def Let_def rl s1_def p1_def flip: sl_def)
qed

subsection \<open>Fills\<close>

lemma accumulate_fill_state:
  "\<exists>m. snd (accumulate_fill i px q s) = s\<lparr>om_fill_acc := m\<rparr>"
proof (cases "0 < q \<and> (i = p_entry_id (om_pos s) \<or> i = p_stop_id (om_pos s) \<or> i = p_exit_id (om_pos s))")
  case False
  then have "snd (accumulate_fill i px q s) = s\<lparr>om_fill_acc := om_fill_acc s\<rparr>"
    by (auto simp: accumulate_fill_def Let_def)
  then show ?thesis by blast
qed (auto simp: accumulate_fill_def Let_def)

lemma om_inv_late_entry: "om_inv own A D s \<Longrightarrow> om_inv own A D (late_entry_fill e i px s)"
  by (simp add: late_entry_fill_def om_inv_send_unwind)

lemma om_inv_entry_fill:
  assumes "om_inv own A D s" and "e_accepts e = A"
  shows "om_inv own A D (entry_fill e i px q s)"
  using assms by (simp add: entry_fill_def om_inv_late_entry om_inv_book_entry)

text \<open>Forgetting every trace of an order that is known to be dead.\<close>

lemma om_inv_resolve:
  assumes inv: "om_inv own A D s"
    and sub: "\<And>j. j \<noteq> i \<Longrightarrow> has_value j (om_srv_cancelled s) \<Longrightarrow> has_value j sc"
    and own: "list_all (\<lambda>(sid, c). own sid = c) sc"
    and co: "co = om_client_only s - {i}"
  shows "om_inv own A (insert i D)
    (s\<lparr>om_cstops := AList.delete i (om_cstops s), om_srv_cancelled := sc, om_client_only := co\<rparr>)"
  using inv sub own co by (auto simp: inv_unfold)

lemma om_inv_resolve_erase:
  assumes "om_inv own A D s"
  shows "om_inv own A (insert i D)
    (s\<lparr>om_cstops := AList.delete i (om_cstops s), om_srv_cancelled := erase_value i (om_srv_cancelled s),
       om_client_only := om_client_only s - {i}\<rparr>)"
  by (rule om_inv_resolve [OF assms])
    (use assms in \<open>auto simp: om_inv_def om_core_def owned_def intro: list_all_erase_value has_value_erase\<close>)

lemma om_inv_erase_server_cancel:
  assumes "om_inv own A D s"
  shows "om_inv own A (insert i D) (erase_server_cancel i (s\<lparr>om_cstops := AList.delete i (om_cstops s)\<rparr>))"
  using om_inv_resolve_erase [OF assms, of i] by (simp add: erase_server_cancel_def)

lemma om_inv_flat_fill:
  assumes inv: "om_inv own A D s"
  shows "om_inv own A (insert i D) (flat_fill e i px s)"
proof -
  have "om_inv own A (insert i D) (send_unwind e b px t True (emit_remove e i (erase_server_cancel i
        (s\<lparr>om_cstops := AList.delete i (om_cstops s)\<rparr>))))" for b t
    by (rule om_inv_send_unwind) (simp add: om_inv_erase_server_cancel [OF inv])
  moreover have "om_inv own A (insert i D) (send_unwind e b px t True (emit_remove e i (erase_server_cancel i
        (s\<lparr>om_last_unwind := [], om_cstops := AList.delete i (om_cstops s)\<rparr>))))" for b t
  proof (rule om_inv_send_unwind)
    have "om_inv own A D (s\<lparr>om_last_unwind := []\<rparr>)" using inv by simp
    from om_inv_erase_server_cancel [OF this, of i]
    show "om_inv own A (insert i D) (emit_remove e i (erase_server_cancel i
        (s\<lparr>om_last_unwind := [], om_cstops := AList.delete i (om_cstops s)\<rparr>)))" by simp
  qed
  moreover have "om_inv own A (insert i D) s" by (rule om_inv_mono [OF inv]) blast
  ultimately show ?thesis by (auto simp: flat_fill_def Let_def split: option.split)
qed

lemma drop_filled_guard_fields [simp]:
  "om_pos (drop_filled_guard e i s) = om_pos s" "om_cfg (drop_filled_guard e i s) = om_cfg s"
  "om_risk (drop_filled_guard e i s) = om_risk s"
  by (simp_all add: drop_filled_guard_def)

lemma om_inv_drop_filled_guard:
  assumes inv: "om_inv own A D s"
  shows "om_inv own A (insert i D) (drop_filled_guard e i s)"
proof (cases "has_key (om_cstops s) i")
  case False
  have "om_inv own A (insert i D) s" by (rule om_inv_mono [OF inv]) blast
  then show ?thesis using False by (simp add: drop_filled_guard_def)
next
  case True
  have "om_inv own A (insert i D)
    (s\<lparr>om_cstops := AList.delete i (om_cstops s), om_client_only := om_client_only s - {i},
       om_cs_levels := l, om_cs_trade := t, om_srv_cancelled := erase_value i (om_srv_cancelled s),
       om_last_unwind := u\<rparr>)" for l t u
    using om_inv_resolve_erase [OF inv, of i] by (simp add: inv_unfold)
  then show ?thesis using True by (simp add: drop_filled_guard_def)
qed

lemma fold_emit_remove_inv:
  "om_inv own A D s \<Longrightarrow> om_inv own A D (fold (emit_remove e) xs s)"
  by (induction xs arbitrary: s) simp_all

lemma fold_emit_cancel_inv:
  "om_inv own A D s \<Longrightarrow> om_inv own A D (fold (\<lambda>i. emit (CancelReq i)) xs s)"
  by (induction xs arbitrary: s) simp_all

text \<open>The purge at flat keeps every guard that is still pending.\<close>

lemma has_key_filter_pending:
  "has_key m i \<Longrightarrow> P i \<Longrightarrow> has_key (filter (\<lambda>(k, b). P k) m) i"
  by (induction m) (auto simp: has_key_def)

lemma om_inv_purge:
  assumes inv: "om_inv own A D s"
  shows "om_inv own A D (purge_guards e s)"
proof -
  have "om_inv own A D (s\<lparr>om_cstops := filter (\<lambda>(i, b). guard_pending s i) (om_cstops s)\<rparr>)"
    (is "om_inv own A D ?s")
  proof -
    have "tracked ?s i" if "tracked s i" for i
      using that has_key_filter_pending [of "om_cstops s" i "guard_pending s"]
      by (auto simp: tracked_def guard_pending_def)
    then show ?thesis using inv by (auto simp: om_inv_def om_core_def in_trade_def owned_def covered_def)
  qed
  then show ?thesis by (simp add: purge_guards_def Let_def fold_emit_remove_inv)
qed

lemma om_inv_close_trade:
  assumes "om_core own A D s" and "p_stop_id (om_pos s) = [] \<or> p_stop_id (om_pos s) \<in> D"
  shows "om_inv own A D (close_trade px rec s)"
  using assms by (auto simp: close_trade_def inv_unfold pos_wf.simps pos0_def)

lemma prune_processed_inv [simp]: "om_inv own A D (prune_processed s) = om_inv own A D s"
  by (simp add: prune_processed_def)

lemma om_core_erase_server_cancel:
  assumes "om_core own A D s" and "i \<in> D"
  shows "om_core own A D (erase_server_cancel i (s\<lparr>om_cstops := AList.delete i (om_cstops s)\<rparr>))"
  using assms
  by (auto simp: erase_server_cancel_def inv_unfold intro: list_all_erase_value has_value_erase)

lemma erase_server_cancel_pos [simp]: "om_pos (erase_server_cancel i s) = om_pos s"
  by (simp add: erase_server_cancel_def)

lemma erase_server_cancel_emit:
  "erase_server_cancel i (emit_remove e i s) = emit_remove e i (erase_server_cancel i s)"
  by (simp add: erase_server_cancel_def emit_remove_def emit_def)

lemma mark_exit_fields [simp]:
  "p_stop_id (mark_exit c i px p) = p_stop_id p" "p_pnl_usd (mark_exit c i px p) = pnl_usd c p px"
  "p_dir (mark_exit c i px p) = p_dir p" "p_entry_price (mark_exit c i px p) = p_entry_price p"
  "p_qty (mark_exit c i px p) = p_qty p" "p_exit_price (mark_exit c i px p) = px"
  "p_pnl_points (mark_exit c i px p) = pnl_points p px"
  by (simp_all add: mark_exit_def Let_def pnl_usd_def pnl_points_def)

lemma om_core_settle_stop:
  assumes "om_core own A D s" and "e_cancel_cb e" and "i \<in> D"
  shows "om_core own A D (settle_stop e i s) \<and>
    (p_stop_id (om_pos (settle_stop e i s)) = [] \<or> p_stop_id (om_pos (settle_stop e i s)) \<in> D)"
  using om_core_cancel_stop [OF assms(1,2)] assms by (auto simp: settle_stop_def)

lemma om_core_drop_stale_guard:
  assumes "om_core own A D s" and "i \<in> D"
  shows "om_core own A D (drop_stale_guard e i s)"
  using om_core_erase_server_cancel [OF assms] assms
  by (simp add: drop_stale_guard_def erase_server_cancel_emit)

lemma drop_stale_guard_fields [simp]:
  "om_pos (drop_stale_guard e i s) = om_pos s" "om_cfg (drop_stale_guard e i s) = om_cfg s"
  "om_risk (drop_stale_guard e i s) = om_risk s"
  by (simp_all add: drop_stale_guard_def erase_server_cancel_def)

lemma settle_stop_fields [simp]:
  "om_cfg (settle_stop e i s) = om_cfg s" "om_risk (settle_stop e i s) = om_risk s"
  "p_pnl_usd (om_pos (settle_stop e i s)) = p_pnl_usd (om_pos s)"
  "p_dir (om_pos (settle_stop e i s)) = p_dir (om_pos s)"
  by (simp_all add: settle_stop_def)

lemma close_trade_fields [simp]:
  "om_cfg (close_trade px rec s) = om_cfg s" "om_pos (close_trade px rec s) = pos0"
  "om_risk (close_trade px rec s) = risk_on_trade_pnl (Fin (p_pnl_usd (om_pos s))) (om_risk s)"
  by (simp_all add: close_trade_def)

lemma om_inv_book_exit:
  assumes inv: "om_inv own A D s0" and cb: "e_cancel_cb e"
  shows "om_inv own A (insert i D) (book_exit_fill e i px s0)"
proof -
  let ?D = "insert i D"
  define s where "s = drop_filled_guard e i s0"
  define s1 where "s1 = settle_stop e i (s\<lparr>om_pos := mark_exit (om_cfg s) i px (om_pos s)\<rparr>)"
  obtain rec l where rl: "ll_on_fill (e_wall e) i px (om_lat s1) = (rec, l)" by force
  define s2 where "s2 = drop_stale_guard e i (s1\<lparr>om_lat := l\<rparr>)"
  have "om_core own A ?D s"
    unfolding s_def by (rule om_inv_core [OF om_inv_drop_filled_guard [OF inv]])
  then have "om_core own A ?D s1 \<and> (p_stop_id (om_pos s1) = [] \<or> p_stop_id (om_pos s1) \<in> ?D)"
    unfolding s1_def by (intro om_core_settle_stop cb) simp_all
  then have "om_core own A ?D s2" "p_stop_id (om_pos s2) = [] \<or> p_stop_id (om_pos s2) \<in> ?D"
    by (simp_all add: s2_def om_core_drop_stale_guard)
  then have "om_inv own A ?D (purge_guards e (prune_processed (close_trade px rec s2)))"
    by (simp add: om_inv_purge om_inv_close_trade)
  then show ?thesis
    by (simp add: book_exit_fill_def Let_def rl flip: s_def s1_def s2_def)
qed

lemma om_inv_exit_fill:
  assumes inv: "om_inv own A D s" and cb: "e_cancel_cb e"
  shows "om_inv own A (insert i D) (exit_fill e i px q s)"
  using om_inv_flat_fill [OF inv] om_inv_book_exit [OF inv cb] om_inv_mono [OF inv, of "insert i D"]
  by (auto simp: exit_fill_def Let_def)

text \<open>A fill resolves the order it reports, an entry fill resolves no stop.\<close>

lemma om_inv_on_fill:
  assumes inv: "om_inv own A D s" and cb: "e_cancel_cb e" and acc: "e_accepts e = A"
  shows "om_inv own A (if is_entry then D else insert i D) (on_fill e i px q is_entry s)"
proof -
  obtain px' s1 where a: "accumulate_fill i px q s = (px', s1)" by force
  obtain m where "s1 = s\<lparr>om_fill_acc := m\<rparr>"
    using accumulate_fill_state [of i px q s] a by auto
  then have "om_inv own A D s1" using inv by simp
  then show ?thesis
    using a cb acc by (simp add: on_fill_def om_inv_entry_fill om_inv_exit_fill)
qed

lemma fold_emit_remove_fields [simp]:
  "om_cfg (fold (emit_remove e) xs s) = om_cfg s" "om_pos (fold (emit_remove e) xs s) = om_pos s"
  "om_risk (fold (emit_remove e) xs s) = om_risk s"
  by (induction xs arbitrary: s) simp_all

lemma purge_guards_fields [simp]:
  "om_cfg (purge_guards e s) = om_cfg s" "om_pos (purge_guards e s) = om_pos s"
  "om_risk (purge_guards e s) = om_risk s"
  by (simp_all add: purge_guards_def Let_def)

lemma prune_processed_fields [simp]:
  "om_cfg (prune_processed s) = om_cfg s" "om_pos (prune_processed s) = om_pos s"
  "om_risk (prune_processed s) = om_risk s"
  by (simp_all add: prune_processed_def)

lemma send_unwind_fields [simp]:
  "om_cfg (send_unwind e b px t r s) = om_cfg s" "om_pos (send_unwind e b px t r s) = om_pos s"
  "om_risk (send_unwind e b px t r s) = om_risk s"
  by (simp_all add: send_unwind_def case_prod_beta new_basket_state Let_def send_order_def)

lemma erase_server_cancel_fields [simp]:
  "om_cfg (erase_server_cancel i s) = om_cfg s" "om_risk (erase_server_cancel i s) = om_risk s"
  by (simp_all add: erase_server_cancel_def)

lemma flat_fill_fields [simp]:
  "om_cfg (flat_fill e i px s) = om_cfg s" "om_pos (flat_fill e i px s) = om_pos s"
  "om_risk (flat_fill e i px s) = om_risk s"
  by (simp_all add: flat_fill_def Let_def split: option.split)

text \<open>What closing a trade leaves behind, whatever the guards were.\<close>

lemma book_exit_result:
  "om_cfg (book_exit_fill e i px s) = om_cfg s"
  "om_pos (book_exit_fill e i px s) = pos0"
  "om_risk (book_exit_fill e i px s) = risk_on_trade_pnl (Fin (pnl_usd (om_cfg s) (om_pos s) px)) (om_risk s)"
  by (simp_all add: book_exit_fill_def Let_def case_prod_beta)

lemma entry_fill_cfg [simp]: "om_cfg (entry_fill e i px q s) = om_cfg s"
  by (simp add: entry_fill_def late_entry_fill_def book_entry_fill_def Let_def split: prod.split)

lemma exit_fill_cfg [simp]: "om_cfg (exit_fill e i px q s) = om_cfg s"
  by (simp add: exit_fill_def Let_def book_exit_result)

lemma accumulate_fill_fields [simp]:
  "om_cfg (snd (accumulate_fill i px q s)) = om_cfg s" "om_pos (snd (accumulate_fill i px q s)) = om_pos s"
  "om_risk (snd (accumulate_fill i px q s)) = om_risk s"
  using accumulate_fill_state [of i px q s] by auto

lemma on_fill_cfg [simp]: "om_cfg (on_fill e i px q en s) = om_cfg s"
  by (simp add: on_fill_def case_prod_beta)

subsection \<open>Entries and exits\<close>

lemma om_inv_send_market:
  assumes inv: "om_inv own A D s" and cb: "e_cancel_cb e" and acc: "e_accepts e = A"
    and none: "p_stop_id (om_pos s) = []"
  shows "om_inv own A D (send_market_order e cid buy px tag s)"
proof -
  let ?s1 = "s\<lparr>om_lat := ll_on_submit (e_wall e) cid px (om_lat s)\<rparr>"
  have "om_inv own A D (on_fill e cid px (p_qty (om_pos s)) True ?s1)"
    using om_inv_on_fill [of own A D ?s1 e True cid] inv cb acc by simp
  moreover have "om_inv own A D ((emit (SendOrder rq) ?s1)\<lparr>om_pos := pos0\<rparr>)" if "rq_type rq = 1" for rq
    by (rule om_inv_flatten) (use inv none that in simp_all)
  ultimately show ?thesis
    using inv by (simp add: send_market_order_def Let_def send_order_def)
qed

lemma om_inv_exit_send_failed:
  assumes inv: "om_inv own A D s" and acc: "e_accepts e = A"
    and st: "p_state (om_pos s) = PENDING_EXIT" and none: "p_stop_id (om_pos s) = []"
  shows "om_inv own A D (exit_send_failed e s)"
proof -
  define p1 where "p1 = (om_pos s)\<lparr>p_exit_id := [], p_state := (if p_dir (om_pos s) = BUY then LONG else SHORT)\<rparr>"
  define s1 where "s1 = s\<lparr>om_pos := p1, om_rej_exit := om_rej_exit s + 1\<rparr>"
  define s2 where "s2 = (if om_rej_exit s1 > 3 then s1\<lparr>om_entry_halted := True\<rparr> else s1)"
  have "om_inv own A D (s\<lparr>om_pos := p1\<rparr>)"
    using inv st none by (intro om_inv_pos [OF inv]) (auto simp: p1_def om_inv_def pos_wf.simps)
  then have "om_inv own A D s2" by (simp add: s1_def s2_def)
  then have "om_inv own A D (submit_stop e (p_sl_price (om_pos s2)) s2)"
    using acc none by (intro om_inv_submit_stop) (auto simp: s1_def s2_def p1_def in_trade_def)
  then show ?thesis
    unfolding exit_send_failed_def Let_def p1_def [symmetric]
    unfolding s1_def [symmetric] unfolding s2_def [symmetric] .
qed

lemma begin_exit_fields [simp]:
  "om_cfg (begin_exit e w px s) = om_cfg s" "om_risk (begin_exit e w px s) = om_risk s"
  "p_state (om_pos (begin_exit e w px s)) = PENDING_EXIT"
  "p_dir (om_pos (begin_exit e w px s)) = p_dir (om_pos s)"
  "p_entry_price (om_pos (begin_exit e w px s)) = p_entry_price (om_pos s)"
  "p_sl_price (om_pos (begin_exit e w px s)) = p_sl_price (om_pos s)"
  "p_qty (om_pos (begin_exit e w px s)) = p_qty (om_pos s)"
  by (simp_all add: begin_exit_def case_prod_beta new_basket_state Let_def)

lemma om_inv_begin_exit:
  assumes inv: "om_inv own A D s" and cb: "e_cancel_cb e" and tr: "in_trade s"
  shows "om_inv own A D (begin_exit e w px s) \<and> p_stop_id (om_pos (begin_exit e w px s)) = []"
proof -
  define s1 where "s1 = cancel_stop e (s\<lparr>om_breach_time := 0, om_resubmit := False\<rparr>)"
  have i1: "om_inv own A D s1" "p_stop_id (om_pos s1) = []"
    using om_inv_cancel_stop [OF _ cb, of own A D "s\<lparr>om_breach_time := 0, om_resubmit := False\<rparr>"] inv
    by (simp_all add: s1_def)
  have dir: "p_dir (om_pos s1) = BUY \<or> p_dir (om_pos s1) = SELL"
    using inv tr by (auto simp: s1_def om_inv_def om_core_def in_trade_def pos_wf.simps)
  obtain cid where cid: "new_basket_id e s1 = (cid, s1\<lparr>om_seq := Suc (om_seq s1)\<rparr>)" "cid \<noteq> []"
    using new_basket_split new_basket_nonempty by metis
  have "om_inv own A D (s1\<lparr>om_seq := Suc (om_seq s1)\<rparr>)" using i1 by simp
  then have "om_inv own A D (s1\<lparr>om_seq := Suc (om_seq s1),
      om_pos := (om_pos s1)\<lparr>p_state := PENDING_EXIT, p_exit_reason := w, p_exit_id := cid\<rparr>\<rparr>)"
    by (rule om_inv_pos) (use dir cid i1 in \<open>simp_all add: pos_wf.simps\<close>)
  then show ?thesis using i1 by (simp add: begin_exit_def cid flip: s1_def)
qed

lemma om_inv_send_exit:
  assumes inv: "om_inv own A D s" and acc: "e_accepts e = A"
    and st: "p_state (om_pos s) = PENDING_EXIT" and none: "p_stop_id (om_pos s) = []"
  shows "om_inv own A D (send_exit e w px s)"
proof -
  have "om_inv own A D (exit_send_failed e (emit (SendOrder rq) (s\<lparr>om_lat := l\<rparr>)))" if "rq_type rq = 1" for rq l
    using that acc st none inv by (intro om_inv_exit_send_failed) auto
  then show ?thesis using inv by (simp add: send_exit_def Let_def send_order_def)
qed

lemma om_inv_initiate_exit:
  assumes inv: "om_inv own A D s" and cb: "e_cancel_cb e" and acc: "e_accepts e = A"
  shows "om_inv own A D (initiate_exit e w px s)"
proof (cases "in_trade s")
  case False
  then show ?thesis using inv by (simp add: initiate_exit_def in_trade_def)
next
  case tr: True
  define s1 where "s1 = begin_exit e w px s"
  have i1: "om_inv own A D s1" and st: "p_state (om_pos s1) = PENDING_EXIT" "p_stop_id (om_pos s1) = []"
    using om_inv_begin_exit [OF inv cb tr] by (simp_all add: s1_def)
  have "om_inv own A D (on_fill e i px q False s1)" if "c_dry_run (om_cfg s1)" for i q
    using om_inv_dry [OF om_inv_on_fill [OF i1 cb acc, of False i]] that by simp
  then show ?thesis
    using i1 inv om_inv_send_exit [OF i1 acc st] by (simp add: initiate_exit_def Let_def flip: s1_def)
qed

end
