(* ===== verification/Order_Cover.thy ===== *)
theory Order_Cover
  imports Order_Inv
begin

section \<open>Order manager: no stop is ever forgotten\<close>

text \<open>
  The preservation lemmas of the public operations, the lemma for a step, and the
  property they serve: over any run, a protective stop the exchange accepted and whose end
  (fill, cancel confirmation or rejection) was never reported is either the tracked stop of
  the open position or guarded, so that a late fill of it is unwound.
\<close>

subsection \<open>Cancel bookkeeping\<close>

lemma om_inv_recancel: "om_inv own A D s \<Longrightarrow> om_inv own A D (recancel_pending_stops e s)"
  by (simp add: recancel_pending_stops_def Let_def fold_emit_cancel_inv)

lemma om_inv_clear_recancels: "om_inv own A D s \<Longrightarrow> om_inv own A D (clear_post_close_recancels s)"
  by (simp add: clear_post_close_recancels_def)

lemma om_inv_register: "om_inv own A D s \<Longrightarrow> om_inv own A D (register_unwind_basket i s)"
  by (simp add: register_unwind_basket_def)

lemma om_inv_confirm_flat: "om_inv own A D s \<Longrightarrow> om_inv own A D (confirm_exchange_flat s)"
  by (simp add: confirm_exchange_flat_def)

lemma om_inv_guard_update:
  "om_inv own A D s \<Longrightarrow> om_inv own A D (s\<lparr>om_cstops := AList.update i b (om_cstops s)\<rparr>)"
  by (auto simp: inv_unfold)

lemma om_inv_map_server_cancel:
  assumes "om_inv own A D s" and "own sid = c"
  shows "om_inv own A D (s\<lparr>om_srv_cancelled := AList.update sid c (om_srv_cancelled s)\<rparr>)"
  using assms by (auto simp: inv_unfold intro: alist_rules)

lemma om_inv_map_server_cancel':
  assumes "om_inv own A D s" and "own sid = c"
  shows "om_inv own A D (s\<lparr>om_srv_cancelled := AList.update sid c (om_srv_cancelled s),
                          om_client_only := om_client_only s - {c}\<rparr>)"
  using assms by (auto simp: inv_unfold has_value_update_self intro: alist_rules)

lemma om_inv_client_only:
  "om_inv own A D s \<Longrightarrow> om_inv own A D (s\<lparr>om_client_only := insert c (om_client_only s)\<rparr>)"
  by (auto simp: inv_unfold)

lemma om_inv_srv_order:
  assumes "om_inv own A D s" and "own sid = c"
  shows "om_inv own A D (s\<lparr>om_srv_orders := AList.update sid c (om_srv_orders s)\<rparr>)"
  using assms by (auto simp: inv_unfold intro: alist_rules)

lemma om_inv_stop_mapped:
  assumes inv: "om_inv own A D s" and own: "own sid = c"
  shows "om_inv own A D (on_stop_server_mapped e c sid s)"
proof -
  have "om_inv own A D (s\<lparr>om_stop_server := sid\<rparr>)" if "c = p_stop_id (om_pos s)"
    using inv own that by (auto simp: inv_unfold)
  then show ?thesis
    using inv om_inv_map_server_cancel' [OF inv own]
    by (simp add: on_stop_server_mapped_def Let_def)
qed

lemma om_inv_map_server:
  assumes inv: "om_inv own A D s" and own: "own sid = c"
  shows "om_inv own A D (map_server_basket e c sid s)"
proof -
  let ?s1 = "s\<lparr>om_srv_orders := AList.update sid c (om_srv_orders s)\<rparr>"
  let ?s2 = "?s1\<lparr>om_unmapped := om_unmapped s - {c}\<rparr>"
  have s1: "om_inv own A D ?s1" by (rule om_inv_srv_order [OF inv own])
  then have "om_inv own A D ?s2" by simp
  from om_inv_map_server_cancel' [OF this own] this s1 inv show ?thesis
    by (simp add: map_server_basket_def Let_def)
qed

lemma om_inv_cancel_confirmed:
  assumes "om_inv own A D s"
  shows "om_inv own A (insert i D) (on_cancel_confirmed e i s)"
proof -
  have "om_inv own A (insert i D)
      (s\<lparr>om_cstops := AList.delete i (om_cstops s), om_srv_cancelled := erase_value i (om_srv_cancelled s),
         om_client_only := om_client_only s - {i}, om_cs_levels := l\<rparr>)" for l
    using om_inv_resolve_erase [OF assms, of i] by simp
  then show ?thesis by (simp add: on_cancel_confirmed_def Let_def)
qed

lemma om_inv_delete_server:
  assumes inv: "om_inv own A D s" and own: "own sid = c"
  shows "om_inv own A (insert c D) (s\<lparr>om_srv_cancelled := AList.delete sid (om_srv_cancelled s),
     om_cstops := AList.delete c (om_cstops s), om_client_only := om_client_only s - {c}\<rparr>)"
  using assms by (auto simp: inv_unfold intro: alist_rules)

lemma om_inv_cancel_confirmed_server:
  assumes inv: "om_inv own A D s"
  shows "om_inv own A (insert (own sid) D) (on_cancel_confirmed_by_server e sid s)"
proof (cases "map_of (om_srv_cancelled s) sid")
  case None
  then show ?thesis using om_inv_mono [OF inv] by (auto simp: on_cancel_confirmed_by_server_def)
next
  case (Some c)
  then have "(sid, c) \<in> set (om_srv_cancelled s)" by (rule map_of_SomeD)
  then have o: "own sid = c" using inv by (auto simp: om_inv_def om_core_def owned_def list_all_iff)
  have "om_inv own A (insert (own sid) D) (s\<lparr>om_srv_cancelled := AList.delete sid (om_srv_cancelled s),
     om_cstops := AList.delete c (om_cstops s), om_client_only := om_client_only s - {c}, om_cs_levels := l\<rparr>)" for l
    using om_inv_delete_server [OF inv o] by (simp add: o)
  then show ?thesis using Some by (simp add: on_cancel_confirmed_by_server_def Let_def)
qed

subsection \<open>A failed cancel\<close>

lemma om_core_readopt:
  assumes core: "om_core own A D s" and own: "sid \<noteq> [] \<Longrightarrow> own sid = c"
    and stop: "p_stop_id (om_pos s) = [] \<or> p_stop_id (om_pos s) = c"
  shows "om_core own A D (s\<lparr>om_cstops := AList.delete c (om_cstops s),
     om_client_only := om_client_only s - {c},
     om_srv_cancelled := (if sid \<noteq> [] then AList.delete sid (om_srv_cancelled s) else om_srv_cancelled s),
     om_pos := (om_pos s)\<lparr>p_stop_id := c\<rparr>, om_stop_server := sid\<rparr>)"
  using assms by (auto simp: inv_unfold intro: alist_rules)

lemma om_inv_readopt:
  assumes inv: "om_inv own A D s" and cb: "e_cancel_cb e" and own: "sid \<noteq> [] \<Longrightarrow> own sid = c"
    and tr: "in_trade s"
  shows "om_inv own A D (readopt_stop e c sid s)"
proof -
  define s1 where "s1 = (if p_stop_id (om_pos s) \<noteq> [] \<and> p_stop_id (om_pos s) \<noteq> c then cancel_stop e s else s)"
  have s1: "om_inv own A D s1" "p_stop_id (om_pos s1) = [] \<or> p_stop_id (om_pos s1) = c" "in_trade s1"
    using inv tr om_inv_cancel_stop [OF inv cb] by (auto simp: s1_def in_trade_def)
  have "pos_wf ((om_pos s1)\<lparr>p_stop_id := c\<rparr>)"
    using s1 by (auto simp: om_inv_def in_trade_def pos_wf.simps)
  then show ?thesis
    using om_core_readopt [OF om_inv_core [OF s1(1)] own s1(2)] s1(3)
    by (auto simp: readopt_stop_def Let_def inv_unfold emit_remove_def emit_def simp flip: s1_def)
qed

lemma om_inv_cancel_failed:
  assumes inv: "om_inv own A D s" and cb: "e_cancel_cb e"
  shows "om_inv own A D (on_cancel_failed e i s)"
proof -
  obtain c sid where cs: "(case map_of (om_srv_cancelled s) i of Some c \<Rightarrow> (c, i) | None \<Rightarrow> (i, [])) = (c, sid)"
    by force
  have "own sid = c" if "sid \<noteq> []"
  proof -
    have "(sid, c) \<in> set (om_srv_cancelled s)"
      using cs that by (auto split: option.splits dest: map_of_SomeD)
    then show ?thesis using inv by (auto simp: om_inv_def om_core_def owned_def list_all_iff)
  qed
  then have "om_inv own A D (readopt_stop e c sid (s\<lparr>om_resubmit := False\<rparr>))" if "in_trade s"
    using inv cb that by (intro om_inv_readopt) (auto simp: in_trade_def)
  then show ?thesis
    using inv by (auto simp: on_cancel_failed_def cs Let_def in_trade_def)
qed

subsection \<open>Closes, entries, rejections\<close>

lemma om_inv_adopt:
  assumes inv: "om_inv own A D s" and cb: "e_cancel_cb e"
  shows "om_inv own A D (adopt_external_close e px why s)"
proof -
  define s1 where "s1 = (if p_stop_id (om_pos s) \<noteq> [] then cancel_stop e s else s)"
  have s1: "om_inv own A D s1" "p_stop_id (om_pos s1) = []"
    using inv om_inv_cancel_stop [OF inv cb] by (auto simp: s1_def)
  have "om_inv own A D (s1\<lparr>om_pos := pos0\<rparr>)"
    by (rule om_inv_flatten [OF s1])
  then have "om_inv own A D (prune_processed (s1\<lparr>om_completed := p, om_trade_completed := True,
      om_risk := r, om_pos := pos0, om_srv_orders := []\<rparr>))" for p r
    by (simp add: prune_processed_def inv_unfold)
  then show ?thesis using inv by (simp add: adopt_external_close_def Let_def flip: s1_def)
qed

lemma om_inv_cancel_order: "om_inv own A D s \<Longrightarrow> om_inv own A D (cancel_order e i s)"
  by (simp add: cancel_order_def Let_def)

lemma cancel_order_fields [simp]:
  "om_pos (cancel_order e i s) = om_pos s" "om_cfg (cancel_order e i s) = om_cfg s"
  "om_risk (cancel_order e i s) = om_risk s"
  by (simp_all add: cancel_order_def Let_def)

lemma om_inv_cancel_entry:
  assumes inv: "om_inv own A D s" and st: "p_state (om_pos s) = PENDING_ENTRY"
  shows "om_inv own A D ((cancel_order e (p_entry_id (om_pos s))
     (s\<lparr>om_pend_cancel := i, om_pend_cancel_buy := b\<rparr>))\<lparr>om_pos := pos0\<rparr>)"
proof (rule om_inv_flatten)
  have "om_inv own A D (s\<lparr>om_pend_cancel := i, om_pend_cancel_buy := b\<rparr>)" using inv by simp
  then show "om_inv own A D (cancel_order e (p_entry_id (om_pos s)) (s\<lparr>om_pend_cancel := i, om_pend_cancel_buy := b\<rparr>))"
    by (rule om_inv_cancel_order)
qed (use inv st in \<open>auto simp: om_inv_def in_trade_def\<close>)

lemma om_inv_flatten_now:
  assumes inv: "om_inv own A D s" and cb: "e_cancel_cb e" and acc: "e_accepts e = A"
  shows "om_inv own A D (flatten_now e why px s)"
  using inv om_inv_cancel_entry [OF inv] om_inv_initiate_exit [OF inv cb acc]
  by (simp add: flatten_now_def Let_def split: pos_state.split)

lemma om_inv_entry_timeout:
  assumes inv: "om_inv own A D s"
  shows "om_inv own A D (snd (pending_entry_timeout_check e n s))"
  using inv om_inv_cancel_entry [OF inv] by (simp add: pending_entry_timeout_check_def Let_def)

lemma om_inv_on_signal:
  assumes inv: "om_inv own A D s" and cb: "e_cancel_cb e" and acc: "e_accepts e = A"
  shows "om_inv own A D (on_signal e sig px b d s)"
proof (cases "sig \<noteq> FLATTEN_EOD \<and> (sig = BUY \<or> sig = SELL) \<and> \<not> (om_entry_halted s \<or> om_ghost_halted s) \<and>
    risk_can_trade (om_risk s) = None \<and> p_state (om_pos s) = FLAT")
  case False
  then show ?thesis using inv om_inv_flatten_now [OF inv cb acc] by (auto simp: on_signal_def)
next
  case go: True
  obtain cid where cid: "new_basket_id e s = (cid, s\<lparr>om_seq := Suc (om_seq s)\<rparr>)" "cid \<noteq> []"
    using new_basket_split new_basket_nonempty by metis
  define p where "p = pos0\<lparr>p_state := PENDING_ENTRY, p_dir := sig, p_entry_id := cid,
      p_qty := qty_for (om_cfg s) (e_regime e), p_trigger_price := px, p_fill_time := e_now e\<rparr>"
  define s2 where "s2 = s\<lparr>om_seq := Suc (om_seq s), om_lat := ll_on_signal (e_wall e) cid px True b (om_lat s),
      om_trade_seq := Suc (om_trade_seq s), om_pos := p, om_pend_sl_dist := d\<rparr>"
  have none: "p_stop_id (om_pos s) = []" using inv go by (simp add: om_inv_def in_trade_def)
  have "om_inv own A D (s\<lparr>om_pos := p\<rparr>)"
    by (rule om_inv_pos [OF inv]) (use none cid go in \<open>auto simp: p_def pos0_def pos_wf.simps\<close>)
  then have "om_inv own A D s2" by (simp add: s2_def inv_unfold)
  then have "om_inv own A D (send_market_order e cid (sig = BUY) px ''entry'' s2)"
    by (rule om_inv_send_market [OF _ cb acc]) (simp add: s2_def p_def pos0_def)
  moreover have "on_signal e sig px b d s = send_market_order e cid (sig = BUY) px ''entry'' s2"
    using go cid by (auto simp: on_signal_def s2_def p_def)
  ultimately show ?thesis by simp
qed

lemma om_inv_back_in_trade:
  assumes inv: "om_inv own A D s" and st: "p_state (om_pos s) = PENDING_EXIT"
  shows "om_inv own A D (s\<lparr>om_pos := (om_pos s)\<lparr>p_exit_id := [],
     p_state := (if p_dir (om_pos s) = BUY then LONG else SHORT)\<rparr>\<rparr>)"
  by (rule om_inv_pos [OF inv]) (use inv st in \<open>auto simp: om_inv_def pos_wf.simps in_trade_def\<close>)

lemma find_own:
  "list_all (\<lambda>(sid, c). own sid = c) m \<Longrightarrow> find (\<lambda>(sid, c). c = i) m = Some (a, b) \<Longrightarrow> own a = i"
  by (induction m) (auto split: if_splits)

lemma om_inv_guard_old_exit:
  assumes inv: "om_inv own A D s"
  shows "om_inv own A D (guard_old_exit e old buy s)"
proof -
  define a where "a = (if cancel_id_for s old \<noteq> old
      then s\<lparr>om_srv_cancelled := AList.update (cancel_id_for s old) old (om_srv_cancelled s)\<rparr>
      else s\<lparr>om_client_only := insert old (om_client_only s)\<rparr>)"
  define b where "b = cancel_order e old (a\<lparr>om_cs_trade := AList.update old (om_trade_seq a) (om_cs_trade a)\<rparr>)"
  have "list_all (\<lambda>(sid, c). own sid = c) (om_srv_orders s)"
    using inv by (simp add: om_inv_def om_core_def owned_def)
  then have "own (cancel_id_for s old) = old" if "cancel_id_for s old \<noteq> old"
    using that by (auto simp: cancel_id_for_def dest: find_own split: option.splits)
  then have "om_inv own A D a"
    using inv by (simp add: a_def om_inv_map_server_cancel om_inv_client_only)
  then have "om_inv own A D b" by (simp add: b_def om_inv_cancel_order)
  then have "om_inv own A D (emit_persist e old buy (b\<lparr>om_cstops := AList.update old buy (om_cstops b)\<rparr>))"
    by (simp add: om_inv_guard_update)
  then show ?thesis
    unfolding guard_old_exit_def Let_def unfolding a_def [symmetric] unfolding b_def [symmetric] by simp
qed

lemma guard_old_exit_fields [simp]:
  "om_pos (guard_old_exit e old buy s) = om_pos s" "om_cfg (guard_old_exit e old buy s) = om_cfg s"
  "om_risk (guard_old_exit e old buy s) = om_risk s" "om_completed (guard_old_exit e old buy s) = om_completed s"
  by (simp_all add: guard_old_exit_def Let_def cancel_order_def emit_persist_def)

lemma om_inv_retry:
  assumes inv: "om_inv own A D s" and cb: "e_cancel_cb e" and acc: "e_accepts e = A"
  shows "om_inv own A D (retry_stuck_exit e px s)"
proof (cases "p_state (om_pos s) = PENDING_EXIT")
  case False
  then show ?thesis using inv by (simp add: retry_stuck_exit_def)
next
  case st: True
  define s1 where "s1 = (if p_exit_id (om_pos s) \<noteq> []
      then guard_old_exit e (p_exit_id (om_pos s)) (p_dir (om_pos s) = SELL) s else s)"
  have "om_inv own A D s1" "p_state (om_pos s1) = PENDING_EXIT"
    using inv st by (simp_all add: s1_def om_inv_guard_old_exit)
  then have "om_inv own A D (s1\<lparr>om_pos := (om_pos s1)\<lparr>p_exit_id := [],
     p_state := (if p_dir (om_pos s1) = BUY then LONG else SHORT)\<rparr>\<rparr>)"
    by (rule om_inv_back_in_trade)
  then show ?thesis
    unfolding retry_stuck_exit_def Let_def s1_def [symmetric]
    using inv st by (simp add: om_inv_initiate_exit [OF _ cb acc])
qed

lemma om_core_drop_stop:
  assumes "om_core own A D s" and "p_stop_id (om_pos s) = [] \<or> p_stop_id (om_pos s) \<in> D"
  shows "om_core own A D (s\<lparr>om_pos := (om_pos s)\<lparr>p_stop_id := []\<rparr>, om_stop_server := []\<rparr>)"
  using assms by (auto simp: inv_unfold)

lemma om_inv_drop_stop:
  assumes "om_inv own A D s" and "p_stop_id (om_pos s) = [] \<or> p_stop_id (om_pos s) \<in> D"
  shows "om_inv own A D (s\<lparr>om_pos := (om_pos s)\<lparr>p_stop_id := []\<rparr>, om_stop_server := []\<rparr>)"
  using assms om_core_drop_stop [OF om_inv_core [OF assms(1)] assms(2)]
  by (auto simp: om_inv_def in_trade_def pos_wf.simps pos0_def split: pos_state.splits)

lemma om_inv_rejected:
  assumes inv0: "om_inv own A D0 s" and cb: "e_cancel_cb e" and acc: "e_accepts e = A"
    and D: "D = insert i (insert (own i) D0)"
  shows "om_inv own A D (on_order_rejected e i s)"
proof -
  have inv: "om_inv own A D s" by (rule om_inv_mono [OF inv0]) (auto simp: D)
  define r where "r = (case map_of (om_srv_orders s) i of None \<Rightarrow> i | Some c \<Rightarrow> c)"
  have r: "r \<in> D"
    using inv D by (auto simp: r_def om_inv_def om_core_def owned_def list_all_iff
        split: option.split dest: map_of_SomeD)
  have entry: "om_inv own A D (s\<lparr>om_pos := pos0\<rparr>)" if "p_state (om_pos s) = PENDING_ENTRY"
    by (rule om_inv_flatten [OF inv]) (use inv that in \<open>auto simp: om_inv_def in_trade_def\<close>)
  have bk: "om_inv own A D (s\<lparr>om_pos := (om_pos s)\<lparr>p_state := (if p_dir (om_pos s) = BUY then LONG else SHORT),
      p_exit_id := []\<rparr>, om_rej_exit := k\<rparr>)" if "p_state (om_pos s) = PENDING_EXIT" for k
  proof -
    have "om_inv own A D (s\<lparr>om_pos := (om_pos s)\<lparr>p_state := (if p_dir (om_pos s) = BUY then LONG else SHORT),
        p_exit_id := []\<rparr>\<rparr>)"
      by (rule om_inv_pos [OF inv]) (use inv that in \<open>auto simp: om_inv_def pos_wf.simps in_trade_def\<close>)
    then show ?thesis by simp
  qed
  have stop: "om_inv own A D ((emit_remove e j s)\<lparr>om_pos := (om_pos s)\<lparr>p_stop_id := []\<rparr>, om_stop_server := []\<rparr>)"
    if "p_stop_id (om_pos s) = r \<or> om_stop_server s \<noteq> [] \<and> om_stop_server s = i" for j
  proof -
    have "p_stop_id (om_pos s) = [] \<or> p_stop_id (om_pos s) \<in> D"
      using that r inv D by (auto simp: om_inv_def om_core_def owned_def)
    with om_inv_drop_stop [of own A D "emit_remove e j s"] inv show ?thesis by simp
  qed
  have ex: "om_inv own A D (initiate_exit e w 0 (s\<lparr>om_pos := (om_pos s)\<lparr>p_state := (if p_dir (om_pos s) = BUY
      then LONG else SHORT), p_exit_id := []\<rparr>, om_rej_exit := k\<rparr>))" if "p_state (om_pos s) = PENDING_EXIT" for k w
    by (rule om_inv_initiate_exit [OF bk [OF that] cb acc])
  show ?thesis
    using inv entry bk ex stop
    unfolding on_order_rejected_def Let_def r_def [symmetric]
    by (auto split del: if_split split: if_splits)
qed

subsection \<open>The per-tick checks\<close>

lemma om_inv_in_trade_pos:
  assumes "om_inv own A D s" and "in_trade s"
    and "p_state p = p_state (om_pos s)" "p_dir p = p_dir (om_pos s)" "p_exit_id p = p_exit_id (om_pos s)"
      "p_stop_id p = p_stop_id (om_pos s)"
  shows "om_inv own A D (s\<lparr>om_pos := p\<rparr>)"
  by (rule om_inv_pos) (use assms in \<open>auto simp: om_inv_def in_trade_def pos_wf.simps\<close>)

lemma track_excursion_fields [simp]:
  "p_state (track_excursion px p) = p_state p" "p_dir (track_excursion px p) = p_dir p"
  "p_exit_id (track_excursion px p) = p_exit_id p" "p_stop_id (track_excursion px p) = p_stop_id p"
  "p_sl_price (track_excursion px p) = p_sl_price p" "p_entry_price (track_excursion px p) = p_entry_price p"
  "p_qty (track_excursion px p) = p_qty p"
  by (simp_all add: track_excursion_def Let_def)

lemma om_inv_breach:
  assumes inv: "om_inv own A D s" and cb: "e_cancel_cb e" and acc: "e_accepts e = A"
  shows "om_inv own A D (snd (breach_check e px s))"
  using inv by (simp add: breach_check_def Let_def om_inv_initiate_exit [OF _ cb acc])

lemma breach_stays: "breach_check e px s = (False, s1) \<Longrightarrow> om_pos s1 = om_pos s \<and> om_cfg s1 = om_cfg s \<and>
    om_last_exch_sl s1 = om_last_exch_sl s \<and> om_risk s1 = om_risk s"
  by (auto simp: breach_check_def Let_def split: if_splits)

lemma om_inv_take_profit:
  assumes inv: "om_inv own A D s" and cb: "e_cancel_cb e" and acc: "e_accepts e = A"
  shows "om_inv own A D (snd (take_profit_check e px s))"
  using inv by (simp add: take_profit_check_def Let_def om_inv_initiate_exit [OF _ cb acc])

lemma take_profit_stays: "take_profit_check e px s = (False, s1) \<Longrightarrow> s1 = s"
  by (simp add: take_profit_check_def Let_def split: if_splits)

lemma om_inv_break_even:
  assumes inv: "om_inv own A D s" and cb: "e_cancel_cb e" and acc: "e_accepts e = A" and tr: "in_trade s"
  shows "om_inv own A D (snd (break_even_step e s)) \<and> in_trade (snd (break_even_step e s))"
proof -
  have pos: "om_inv own A D (s\<lparr>om_pos := p\<rparr>) \<and> in_trade (s\<lparr>om_pos := p\<rparr>)"
    if "p_state p = p_state (om_pos s)" "p_dir p = p_dir (om_pos s)" "p_exit_id p = p_exit_id (om_pos s)"
      "p_stop_id p = p_stop_id (om_pos s)" for p
    using om_inv_in_trade_pos [OF inv tr that] tr that by (simp add: in_trade_def)
  moreover from this have "om_inv own A D (update_stop e sl f (s\<lparr>om_pos := p\<rparr>)) \<and>
      in_trade (update_stop e sl f (s\<lparr>om_pos := p\<rparr>))"
    if "p_state p = p_state (om_pos s)" "p_dir p = p_dir (om_pos s)" "p_exit_id p = p_exit_id (om_pos s)"
      "p_stop_id p = p_stop_id (om_pos s)" for p sl f
    using om_inv_update_stop [OF _ acc cb, of own D "s\<lparr>om_pos := p\<rparr>"] that by (simp add: in_trade_def)
  ultimately show ?thesis using inv tr by (simp add: break_even_step_def Let_def)
qed

lemma om_inv_trail_activation:
  assumes "om_inv own A D s" and "in_trade s"
  shows "om_inv own A D (trail_activation e s) \<and> in_trade (trail_activation e s)"
  using assms om_inv_in_trade_pos [OF assms]
  by (simp add: trail_activation_def Let_def in_trade_def)

lemma om_inv_trail_step:
  assumes inv: "om_inv own A D s" and cb: "e_cancel_cb e" and acc: "e_accepts e = A" and tr: "in_trade s"
  shows "om_inv own A D (snd (trail_step_update e px s))"
proof -
  have "om_inv own A D (update_stop e sl f (s\<lparr>om_pos := (om_pos s)\<lparr>p_sl_price := sl\<rparr>\<rparr>))" for sl f
    by (rule om_inv_update_stop [OF om_inv_in_trade_pos [OF inv tr] acc cb])
      (use tr in \<open>simp_all add: in_trade_def\<close>)
  then show ?thesis using inv by (simp add: trail_step_update_def Let_def)
qed

lemma om_inv_check_trail:
  assumes inv: "om_inv own A D s" and cb: "e_cancel_cb e" and acc: "e_accepts e = A"
  shows "om_inv own A D (snd (check_trail_and_stop e px s))"
proof (cases "in_trade s")
  case False
  then show ?thesis using inv by (simp add: check_trail_and_stop_def in_trade_def)
next
  case tr: True
  let ?s = "s\<lparr>om_pos := track_excursion px (om_pos s)\<rparr>"
  have i0: "om_inv own A D ?s" by (rule om_inv_in_trade_pos [OF inv tr]) simp_all
  obtain x1 s1 where b: "breach_check e px ?s = (x1, s1)" by force
  have i1: "om_inv own A D s1" using om_inv_breach [OF i0 cb acc, of px] b by simp
  obtain x2 s2 where t: "take_profit_check e px s1 = (x2, s2)" by force
  have i2: "om_inv own A D s2" using om_inv_take_profit [OF i1 cb acc, of px] t by simp
  obtain m3 s3 where be: "break_even_step e s2 = (m3, s3)" by force
  obtain m4 s4 where ts: "trail_step_update e px (trail_activation e s3) = (m4, s4)" by force
  have "om_inv own A D s4" if "\<not> x1" "\<not> x2"
  proof -
    have "in_trade s2"
      using breach_stays [of e px ?s s1] take_profit_stays [of e px s1 s2] b t that tr
      by (simp add: in_trade_def)
    then have "om_inv own A D s3 \<and> in_trade s3" using om_inv_break_even [OF i2 cb acc] be by simp
    then have "om_inv own A D (trail_activation e s3) \<and> in_trade (trail_activation e s3)"
      by (intro om_inv_trail_activation) auto
    then show ?thesis using om_inv_trail_step [OF _ cb acc, of own D _ px] ts by (metis snd_conv)
  qed
  then show ?thesis using tr i1 i2
    by (auto simp: check_trail_and_stop_def Let_def b t be ts in_trade_def)
qed

lemma om_inv_check_external:
  assumes inv: "om_inv own A D s" and cb: "e_cancel_cb e" and acc: "e_accepts e = A"
  shows "om_inv own A D (snd (check_external_stop e px v s))"
proof (cases "in_trade s")
  case False
  then show ?thesis using inv by (simp add: check_external_stop_def in_trade_def)
next
  case tr: True
  let ?s = "s\<lparr>om_pos := track_excursion px (om_pos s)\<rparr>"
  have i0: "om_inv own A D ?s" by (rule om_inv_in_trade_pos [OF inv tr]) simp_all
  obtain x1 s1 where b: "breach_check e px ?s = (x1, s1)" by force
  have i1: "om_inv own A D s1" using om_inv_breach [OF i0 cb acc, of px] b by simp
  have "om_inv own A D (update_stop e sl False (s1\<lparr>om_pos := (om_pos s1)\<lparr>p_sl_price := sl\<rparr>\<rparr>))"
    if "\<not> x1" for sl
  proof -
    have "in_trade s1" using breach_stays [of e px ?s s1] b that tr by (simp add: in_trade_def)
    then show ?thesis
      by (intro om_inv_update_stop [OF om_inv_in_trade_pos [OF i1] acc cb]) (simp_all add: in_trade_def)
  qed
  then show ?thesis using tr i1
    by (auto simp: check_external_stop_def Let_def b in_trade_def split: option.split)
qed

subsection \<open>Steps and runs\<close>

text \<open>The orders a call reports dead: filled, confirmed cancelled or rejected.\<close>

fun reported_dead :: "(string \<Rightarrow> string) \<Rightarrow> om_call \<Rightarrow> string set" where
  "reported_dead own (FillNote i px q is_entry) = (if is_entry then {} else {i})"
| "reported_dead own (RejectNote i) = {i, own i}"
| "reported_dead own (CancelAck i) = {i}"
| "reported_dead own (CancelAckServer sid) = {own sid}"
| "reported_dead own _ = {}"

text \<open>
  What a run assumes of its surroundings: the cancel callback is wired, the order callback
  answers \<open>A\<close> (order ids never repeat, so that is any answer), and the server ids in
  notifications and seeded rows are truthful.
\<close>

fun truthful :: "(string \<Rightarrow> string) \<Rightarrow> om_call \<Rightarrow> bool" where
  "truthful own (StopMapped c sid) = (own sid = c)"
| "truthful own (MapServer c sid) = (own sid = c)"
| "truthful own (SeedServer sid c) = (own sid = c)"
| "truthful own _ = True"

definition wired :: "(string \<Rightarrow> string) \<Rightarrow> (order_req \<Rightarrow> bool) \<Rightarrow> om_env \<times> om_call \<Rightarrow> bool" where
  "wired own A ec = (e_cancel_cb (fst ec) \<and> e_accepts (fst ec) = A \<and> truthful own (snd ec))"

definition all_dead :: "(string \<Rightarrow> string) \<Rightarrow> (om_env \<times> om_call) list \<Rightarrow> string set" where
  "all_dead own steps = (\<Union>ec \<in> set steps. reported_dead own (snd ec))"

lemma om_inv_step:
  assumes inv: "om_inv own A D s" and w: "wired own A (e, c)"
  shows "om_inv own A (D \<union> reported_dead own c) (om_step e c s)"
proof -
  have cb: "e_cancel_cb e" and acc: "e_accepts e = A" and t: "truthful own c"
    using w by (simp_all add: wired_def)
  show ?thesis
  proof (cases c)
    case (FillNote i px q en)
    then show ?thesis
      using om_inv_on_fill [OF inv cb acc, of True i] om_inv_on_fill [OF inv cb acc, of False i]
      by (cases en) simp_all
  next
    case (RejectNote i)
    then show ?thesis using om_inv_rejected [OF inv cb acc refl, of i]
      by (simp add: insert_commute)
  next
    case (DedupeFill i q)
    then show ?thesis using inv by (simp add: fill_already_processed_def Let_def)
  next
    case PopTrade
    then show ?thesis using inv by (simp add: pop_trade_completed_def)
  qed (use inv t in \<open>simp_all add: om_inv_on_signal [OF _ cb acc] om_inv_check_trail [OF _ cb acc]
    om_inv_check_external [OF _ cb acc] om_inv_flatten_now [OF _ cb acc] om_inv_retry [OF _ cb acc]
    om_inv_cancel_failed [OF _ cb] om_inv_cancel_confirmed om_inv_cancel_confirmed_server
    om_inv_stop_mapped om_inv_map_server om_inv_recancel om_inv_clear_recancels om_inv_register
    om_inv_confirm_flat seed_cancelled_stops_def seed_server_stop_cancel_def om_inv_guard_update
    om_inv_map_server_cancel om_inv_adopt [OF _ cb] om_inv_entry_timeout\<close>)
qed

lemma om_inv_run:
  assumes "om_inv own A D s" and "list_all (wired own A) steps"
  shows "om_inv own A (D \<union> all_dead own steps) (om_run s steps)"
  using assms
proof (induction steps arbitrary: s D)
  case Nil
  then show ?case by (simp add: om_run_def all_dead_def)
next
  case (Cons ec steps)
  obtain e c where ec: "ec = (e, c)" by force
  have "om_inv own A (D \<union> reported_dead own c) (om_step e c s)"
    using Cons.prems by (intro om_inv_step) (simp_all add: ec)
  from Cons.IH [OF this] Cons.prems(2) show ?case
    by (simp add: om_run_def all_dead_def ec Un_assoc)
qed

end
