(* ===== verification/Order_Books.thy ===== *)
theory Order_Books
  imports Order_Cover
begin

section \<open>Order manager: every closed trade is booked once\<close>

text \<open>
  Whatever call is made, the risk manager and the record of the last completed trade are
  either both untouched, or the position went flat and exactly that trade's P&L, computed
  from its entry, exit, direction and quantity, was booked.
\<close>

definition kept :: "om \<Rightarrow> om \<Rightarrow> bool" where
  "kept s s' = (om_risk s' = om_risk s \<and> om_completed s' = om_completed s \<and> om_cfg s' = om_cfg s)"

definition same_trade :: "position \<Rightarrow> position \<Rightarrow> bool" where
  "same_trade p q = (p_entry_price q = p_entry_price p \<and> p_dir q = p_dir p \<and> p_qty q = p_qty p)"

definition closes :: "om \<Rightarrow> om \<Rightarrow> bool" where
  "closes s s' =
     (om_pos s' = pos0 \<and> om_trade_completed s' \<and> same_trade (om_pos s) (om_completed s') \<and>
      p_pnl_usd (om_completed s') = pnl_usd (om_cfg s) (om_pos s) (p_exit_price (om_completed s')) \<and>
      om_risk s' = risk_on_trade_pnl (Fin (p_pnl_usd (om_completed s'))) (om_risk s) \<and>
      om_cfg s' = om_cfg s)"

definition books :: "om \<Rightarrow> om \<Rightarrow> bool" where
  "books s s' = (kept s s' \<or> closes s s')"

lemma kept_refl [simp]: "kept s s"
  by (simp add: kept_def)

lemma kept_trans: "kept s t \<Longrightarrow> kept t u \<Longrightarrow> kept s u"
  by (simp add: kept_def)

lemma pnl_usd_same: "same_trade p q \<Longrightarrow> pnl_usd c q x = pnl_usd c p x"
  by (simp add: same_trade_def pnl_usd_def pnl_points_def)

lemma closes_from:
  "kept s t \<Longrightarrow> same_trade (om_pos s) (om_pos t) \<Longrightarrow> closes t u \<Longrightarrow> closes s u"
  by (auto simp: kept_def closes_def same_trade_def pnl_usd_def pnl_points_def)

lemma books_from:
  "kept s t \<Longrightarrow> same_trade (om_pos s) (om_pos t) \<Longrightarrow> books t u \<Longrightarrow> books s u"
  using closes_from kept_trans by (auto simp: books_def)

lemma kept_books: "kept s s' \<Longrightarrow> books s s'"
  by (simp add: books_def)

lemma same_trade_refl [simp]: "same_trade p p"
  by (simp add: same_trade_def)

subsection \<open>Operations that book nothing\<close>

lemma emits_completed [simp]:
  "om_completed (emit_persist e i b s) = om_completed s" "om_completed (emit_remove e i s) = om_completed s"
  "om_completed (emit_server e i j s) = om_completed s"
  by (simp_all add: emit_persist_def emit_remove_def emit_server_def)

lemma cancel_stop_completed [simp]: "om_completed (cancel_stop e s) = om_completed s"
  by (simp add: cancel_stop_def Let_def)

lemma submit_stop_completed [simp]: "om_completed (submit_stop e sl s) = om_completed s"
  by (simp add: submit_stop_def case_prod_beta new_basket_state Let_def send_order_def)

lemma update_stop_completed [simp]: "om_completed (update_stop e sl f s) = om_completed s"
  by (simp add: update_stop_def)

lemma send_unwind_completed [simp]: "om_completed (send_unwind e b px t r s) = om_completed s"
  by (simp add: send_unwind_def case_prod_beta new_basket_state Let_def send_order_def)

lemma kept_cancel_stop [simp]: "kept s (cancel_stop e s)"
  by (simp add: kept_def)

lemma kept_submit_stop [simp]: "kept s (submit_stop e sl s)"
  by (simp add: kept_def)

lemma kept_update_stop [simp]: "kept s (update_stop e sl f s)"
  by (simp add: kept_def)

lemma book_entry_fill_kept [simp]:
  "om_risk (book_entry_fill e i px s) = om_risk s" "om_completed (book_entry_fill e i px s) = om_completed s"
  "om_cfg (book_entry_fill e i px s) = om_cfg s"
  by (simp_all add: book_entry_fill_def case_prod_beta Let_def)

lemma kept_entry_fill: "kept s (entry_fill e i px q s)"
  by (simp add: kept_def entry_fill_def late_entry_fill_def)

lemma flat_fill_completed [simp]: "om_completed (flat_fill e i px s) = om_completed s"
  by (simp add: flat_fill_def Let_def erase_server_cancel_def split: option.split)

lemma exit_send_failed_fields [simp]:
  "om_risk (exit_send_failed e s) = om_risk s" "om_completed (exit_send_failed e s) = om_completed s"
  "om_cfg (exit_send_failed e s) = om_cfg s"
  by (simp_all add: exit_send_failed_def Let_def)

lemma kept_cancel_order: "kept s (cancel_order e i s)"
  by (simp add: kept_def cancel_order_def Let_def)

lemma fold_emits_completed [simp]:
  "om_completed (fold (emit_remove e) xs s) = om_completed s"
  "om_trade_completed (fold (emit_remove e) xs s) = om_trade_completed s"
  by (induction xs arbitrary: s) (simp_all add: emit_remove_def)

lemma purge_completed [simp]:
  "om_completed (purge_guards e s) = om_completed s" "om_trade_completed (purge_guards e s) = om_trade_completed s"
  by (simp_all add: purge_guards_def Let_def)

subsection \<open>Closing a trade\<close>

lemma same_trade_mark [simp]: "same_trade p (mark_exit c i px p)"
  by (simp add: same_trade_def)

lemma settle_stop_trade [simp]:
  "p_entry_price (om_pos (settle_stop e i s)) = p_entry_price (om_pos s)"
  "p_qty (om_pos (settle_stop e i s)) = p_qty (om_pos s)"
  by (simp_all add: settle_stop_def)

lemma prune_processed_completed [simp]:
  "om_completed (prune_processed s) = om_completed s" "om_trade_completed (prune_processed s) = om_trade_completed s"
  by (simp_all add: prune_processed_def)

lemma closes_book_exit: "closes s (book_exit_fill e i px s)"
  by (simp add: closes_def book_exit_result book_exit_fill_def case_prod_beta Let_def close_trade_def
      same_trade_def)

lemma books_exit_fill: "books s (exit_fill e i px q s)"
  using closes_book_exit [of s e i px]
  by (simp add: exit_fill_def Let_def books_def kept_def)

lemma accumulate_fill_kept: "kept s (snd (accumulate_fill i px q s))"
  using accumulate_fill_state [of i px q s] by (auto simp: kept_def)

lemma books_on_fill: "books s (on_fill e i px q en s)"
proof (rule books_from)
  let ?s1 = "snd (accumulate_fill i px q s)"
  show "kept s ?s1" by (rule accumulate_fill_kept)
  show "same_trade (om_pos s) (om_pos ?s1)" by simp
  show "books ?s1 (on_fill e i px q en s)"
    by (simp add: on_fill_def case_prod_beta books_exit_fill kept_books kept_entry_fill)
qed

lemma begin_exit_completed [simp]: "om_completed (begin_exit e w px s) = om_completed s"
  by (simp add: begin_exit_def case_prod_beta new_basket_state Let_def)

lemma kept_send_exit: "kept s (send_exit e w px s)"
  by (simp add: send_exit_def Let_def send_order_def kept_def)

lemma books_initiate_exit: "books s (initiate_exit e w px s)"
proof -
  let ?s1 = "begin_exit e w px s"
  have s1: "kept s ?s1" "same_trade (om_pos s) (om_pos ?s1)" by (simp_all add: kept_def same_trade_def)
  have "books s (on_fill e i px q False ?s1)" for i q by (rule books_from [OF s1 books_on_fill])
  moreover have "books s (send_exit e w px ?s1)" by (rule books_from [OF s1 kept_books [OF kept_send_exit]])
  ultimately show ?thesis using s1 by (simp add: initiate_exit_def Let_def kept_books)
qed

subsection \<open>The public operations\<close>

lemma books_send_market:
  "books s (send_market_order e cid buy px tag s)"
proof -
  have "books s (on_fill e cid px q True (s\<lparr>om_lat := l\<rparr>))" for q l
    by (rule books_from [OF _ _ books_on_fill]) (simp_all add: kept_def)
  then show ?thesis
    by (simp add: send_market_order_def Let_def send_order_def kept_books kept_def)
qed

lemma books_flatten_now: "books s (flatten_now e why px s)"
proof -
  have "kept s ((cancel_order e i (s\<lparr>om_pend_cancel := a, om_pend_cancel_buy := b\<rparr>))\<lparr>om_pos := p\<rparr>)" for i a b p
    by (simp add: kept_def cancel_order_def Let_def)
  then show ?thesis
    by (simp add: flatten_now_def Let_def kept_books books_initiate_exit split: pos_state.split)
qed

lemma entry_fill_only: "kept s (on_fill e i px q True s)"
  using kept_entry_fill kept_trans accumulate_fill_kept
  by (simp add: on_fill_def case_prod_beta) (metis kept_trans)

lemma kept_send_market: "kept s (send_market_order e cid buy px tag s)"
proof -
  have "kept s (on_fill e cid px q True (s\<lparr>om_lat := l\<rparr>))" for q l
    using entry_fill_only [of "s\<lparr>om_lat := l\<rparr>" e cid px q] by (simp add: kept_def)
  then show ?thesis
    by (simp add: send_market_order_def Let_def send_order_def) (simp add: kept_def)
qed

lemma books_on_signal: "books s (on_signal e sig px b d s)"
proof -
  have "kept s (send_market_order e cid buy px t (s\<lparr>om_seq := n, om_lat := l, om_trade_seq := k, om_pos := p,
      om_pend_sl_dist := x\<rparr>))" for cid buy t n l k p x
    by (rule kept_trans [OF _ kept_send_market]) (simp add: kept_def)
  then show ?thesis
    by (simp add: on_signal_def case_prod_beta new_basket_state Let_def books_flatten_now kept_books)
qed

lemma books_retry: "books s (retry_stuck_exit e px s)"
proof -
  have "books s (initiate_exit e w px (t\<lparr>om_pos := (om_pos t)\<lparr>p_exit_id := [], p_state := st\<rparr>\<rparr>))"
    if "kept s t" "om_pos t = om_pos s" for t w st
    by (rule books_from [OF _ _ books_initiate_exit]) (use that in \<open>simp_all add: kept_def same_trade_def\<close>)
  then show ?thesis
    by (simp add: retry_stuck_exit_def Let_def kept_books kept_def)
qed

lemma books_rejected: "books s (on_order_rejected e i s)"
proof -
  have "books s (initiate_exit e w px (s\<lparr>om_pos := (om_pos s)\<lparr>p_state := st, p_exit_id := []\<rparr>, om_rej_exit := k\<rparr>))" for w px st k
    by (rule books_from [OF _ _ books_initiate_exit]) (simp_all add: kept_def same_trade_def)
  moreover have "kept s (s\<lparr>om_pos := p\<rparr>)" "kept s (s\<lparr>om_pos := p, om_rej_exit := k, om_entry_halted := True\<rparr>)"
    "kept s ((emit_remove e j s)\<lparr>om_pos := p, om_stop_server := []\<rparr>)" for p k j
    by (simp_all add: kept_def)
  ultimately show ?thesis
    by (simp add: on_order_rejected_def Let_def kept_books)
qed

lemma books_adopt: "books s (adopt_external_close e px why s)"
proof -
  have "closes s (adopt_external_close e px why s)"
    if "in_trade s \<or> p_state (om_pos s) = PENDING_EXIT"
    using that by (auto simp: adopt_external_close_def Let_def closes_def same_trade_def in_trade_def
        pnl_usd_def pnl_points_def)
  then show ?thesis
    by (cases "in_trade s \<or> p_state (om_pos s) = PENDING_EXIT")
      (auto simp: books_def adopt_external_close_def Let_def in_trade_def)
qed

lemma books_breach: "books s (snd (breach_check e px s))"
proof -
  have "books s (initiate_exit e w px (s\<lparr>om_breach_time := 0\<rparr>))"
    "books s (initiate_exit e w px (s\<lparr>om_resubmit := False, om_breach_time := 0\<rparr>))" for w
    by (rule books_from [OF _ _ books_initiate_exit], simp_all add: kept_def)+
  then show ?thesis by (simp add: breach_check_def Let_def kept_books) (simp add: kept_def books_def)
qed

lemma books_take_profit: "books s (snd (take_profit_check e px s))"
proof -
  have "books s (initiate_exit e w px (s\<lparr>om_breach_time := 0\<rparr>))" for w
    by (rule books_from [OF _ _ books_initiate_exit]) (simp_all add: kept_def)
  then show ?thesis by (simp add: take_profit_check_def Let_def kept_books)
qed

lemma kept_break_even: "kept s (snd (break_even_step e s))"
  by (simp add: break_even_step_def Let_def kept_def)

lemma kept_activation: "kept s (trail_activation e s)"
  by (simp add: trail_activation_def Let_def kept_def)

lemma kept_trail_step: "kept s (snd (trail_step_update e px s))"
  by (simp add: trail_step_update_def Let_def kept_def)

lemma kept_trail: "kept s (snd (trail_step_update e px (trail_activation e s)))"
  by (rule kept_trans [OF kept_activation kept_trail_step])

lemma kept_breach: "breach_check e px s = (False, s1) \<Longrightarrow> kept s s1 \<and> om_pos s1 = om_pos s"
  by (auto simp: breach_check_def Let_def kept_def split: if_splits)

lemma books_check_trail: "books s (snd (check_trail_and_stop e px s))"
proof -
  let ?s = "s\<lparr>om_pos := track_excursion px (om_pos s)\<rparr>"
  obtain x1 s1 where b: "breach_check e px ?s = (x1, s1)" by force
  obtain x2 s2 where t: "take_profit_check e px s1 = (x2, s2)" by force
  have s: "kept s ?s" "same_trade (om_pos s) (om_pos ?s)" by (simp_all add: kept_def same_trade_def)
  have b1: "books ?s s1" using books_breach [of ?s e px] b by simp
  have t1: "books s1 s2" using books_take_profit [of s1 e px] t by simp
  have k1: "kept ?s s1 \<and> om_pos s1 = om_pos ?s" if "\<not> x1" using kept_breach b that by simp
  have "books ?s s2" if "\<not> x1" using books_from [OF _ _ t1] k1 that by simp
  moreover have "kept ?s (snd (trail_step_update e px (trail_activation e (snd (break_even_step e s2)))))"
    if "\<not> x1" "\<not> x2"
  proof -
    have "s2 = s1" using take_profit_stays t that by simp
    with k1 that show ?thesis using kept_trans kept_break_even kept_trail by metis
  qed
  ultimately have "books ?s (snd (if x1 then (False, s1) else if x2 then (False, s2)
      else (m, snd (trail_step_update e px (trail_activation e (snd (break_even_step e s2)))))))" for m
    using b1 by (auto simp: kept_books)
  then have "books s (snd (if x1 then (False, s1) else if x2 then (False, s2)
      else (m, snd (trail_step_update e px (trail_activation e (snd (break_even_step e s2)))))))" for m
    by (rule books_from [OF s])
  then show ?thesis
    by (auto simp: check_trail_and_stop_def b t case_prod_beta kept_books split: if_splits)
qed

lemma books_check_external: "books s (snd (check_external_stop e px v s))"
proof -
  let ?s = "s\<lparr>om_pos := track_excursion px (om_pos s)\<rparr>"
  obtain x1 s1 where b: "breach_check e px ?s = (x1, s1)" by force
  have s: "kept s ?s" "same_trade (om_pos s) (om_pos ?s)" by (simp_all add: kept_def same_trade_def)
  have b1: "books ?s s1" using books_breach [of ?s e px] b by simp
  have "kept ?s (update_stop e sl f (s1\<lparr>om_pos := p\<rparr>))" if "\<not> x1" for sl f p
    using kept_breach [of e px ?s s1] b that by (simp add: kept_def)
  then have upd: "books s (update_stop e sl f (s1\<lparr>om_pos := p\<rparr>))" if "\<not> x1" for sl f p
    using that books_from [OF s kept_books] by blast
  have b0: "books s s1" by (rule books_from [OF s b1])
  show ?thesis
    using upd b0 by (simp add: check_external_stop_def b Let_def kept_books split: option.split)
qed

lemma kept_cancel_failed: "kept s (on_cancel_failed e i s)"
proof -
  have "kept t (readopt_stop e c sid t)" for t c sid
    by (simp add: readopt_stop_def Let_def kept_def)
  from this [of "s\<lparr>om_resubmit := False\<rparr>"] have "kept s (readopt_stop e c sid (s\<lparr>om_resubmit := False\<rparr>))" for c sid
    by (simp add: kept_def)
  then show ?thesis by (simp add: on_cancel_failed_def case_prod_beta Let_def) (simp add: kept_def)
qed

lemma fold_cancel_fields [simp]:
  "om_risk (fold (\<lambda>i. emit (CancelReq i)) xs s) = om_risk s"
  "om_completed (fold (\<lambda>i. emit (CancelReq i)) xs s) = om_completed s"
  "om_cfg (fold (\<lambda>i. emit (CancelReq i)) xs s) = om_cfg s"
  "om_pos (fold (\<lambda>i. emit (CancelReq i)) xs s) = om_pos s"
  by (induction xs arbitrary: s) simp_all

text \<open>
  C3.  Every step of the order manager either leaves the risk manager and the last completed
  trade untouched, or takes the position flat and books exactly that trade once: the record
  of the trade has the position's entry price, direction and size, its P&L is the signed
  points times point value and size less the commission, and the risk manager is called with
  that P&L and nothing else.
\<close>

theorem trade_booked_exactly:
  "(om_risk (om_step e c s) = om_risk s \<and> om_completed (om_step e c s) = om_completed s \<and>
    om_cfg (om_step e c s) = om_cfg s) \<or>
   (om_pos (om_step e c s) = pos0 \<and> om_trade_completed (om_step e c s) \<and>
    same_trade (om_pos s) (om_completed (om_step e c s)) \<and>
    p_pnl_usd (om_completed (om_step e c s)) =
      pnl_usd (om_cfg s) (om_pos s) (p_exit_price (om_completed (om_step e c s))) \<and>
    om_risk (om_step e c s) =
      risk_on_trade_pnl (Fin (p_pnl_usd (om_completed (om_step e c s)))) (om_risk s) \<and>
    om_cfg (om_step e c s) = om_cfg s)"
proof -
  have "books s (om_step e c s)"
  proof (cases c)
    case (EntryTimeout n)
    have "kept s ((cancel_order e i (s\<lparr>om_pend_cancel := a, om_pend_cancel_buy := b\<rparr>))\<lparr>om_pos := p\<rparr>)" for i a b p
      by (simp add: kept_def cancel_order_def Let_def)
    then show ?thesis
      by (simp add: EntryTimeout pending_entry_timeout_check_def Let_def kept_books)
  next
    case (DedupeFill i q)
    then show ?thesis by (simp add: fill_already_processed_def Let_def kept_books) (simp add: books_def kept_def)
  next
    case PopTrade
    then show ?thesis by (simp add: pop_trade_completed_def kept_books) (simp add: books_def kept_def)
  qed (simp_all add: books_on_signal books_on_fill books_check_trail books_check_external
      books_flatten_now books_retry books_rejected books_adopt kept_cancel_failed kept_books,
      simp_all add: books_def kept_def on_cancel_confirmed_def on_cancel_confirmed_by_server_def
      on_stop_server_mapped_def map_server_basket_def recancel_pending_stops_def
      clear_post_close_recancels_def register_unwind_basket_def confirm_exchange_flat_def
      seed_cancelled_stops_def seed_server_stop_cancel_def Let_def split: option.split)
  then show ?thesis by (simp add: books_def kept_def closes_def)
qed

end
