(* ===== verification/Order_Props.thy ===== *)
theory Order_Props
  imports Order_Cover
begin

section \<open>Properties of the order manager: runs\<close>

text \<open>
  What the executor relies on over whole runs of calls: no protective stop is ever
  forgotten, the position record keeps its shape, the risk manager sees exactly the trades
  that closed.  A small environment and two short runs serve as concrete instances.
\<close>

subsection \<open>A concrete environment\<close>

definition env0 :: om_env where
  "env0 = \<lparr>e_now = 1000000000, e_wall = 0, e_order_cb = True, e_cancel_cb = True, e_persist_cb = False,
     e_remove_cb = False, e_server_cb = False, e_accepts = (\<lambda>_. True), e_regime = None\<rparr>"

definition live_config :: orb_config where
  "live_config = default_config\<lparr>c_dry_run := False\<rparr>"

definition om_live :: om where
  "om_live = om_new live_config (risk_new live_config 50000) (ll_new (1/2))"

text \<open>Buy at 100, filled at 100: the entry is order 0, the protective stop order 1.\<close>

definition entry_steps :: "(om_env \<times> om_call) list" where
  "entry_steps = [(env0, Signal BUY 100 0 0), (env0, FillNote ''MNQ-0-0'' 100 1 True)]"

lemma small_nat_str:
  "nat_str 0 = ''0''" "nat_str (Suc 0) = ''1''" "nat_str 2 = ''2''" "nat_str 3 = ''3''"
  "int_str 0 = ''0''"
  by code_simp+

lemmas env0_simps = env0_def live_config_def default_config_def small_nat_str

lemma entry_run:
  "om_pos (om_run om_live entry_steps) = pos0\<lparr>p_state := LONG, p_dir := BUY, p_entry_id := ''MNQ-0-0'',
     p_stop_id := ''MNQ-0-1'', p_entry_price := 100, p_trigger_price := 100, p_fill_price_actual := 100,
     p_sl_price := 85, p_fill_time := 1000000000\<rparr>"
  by (simp add: om_run_def entry_steps_def om_live_def om_new_def env0_simps risk_new_def
      on_signal_def risk_can_trade_def daily_breach_def pos0_def new_basket_id_def Let_def
      send_market_order_def send_order_def emit_def qty_for_def offset_px_def
      on_fill_def accumulate_fill_def entry_fill_def book_entry_fill_def compute_sl_def
      submit_stop_def emit_persist_def case_prod_beta cdiv_def)

text \<open>The same trade flattened at 110 before the exchange mapped the stop's id.\<close>

definition closed_steps :: "(om_env \<times> om_call) list" where
  "closed_steps = entry_steps @ [(env0, Flatten ''eod_flatten'' 110), (env0, FillNote ''MNQ-0-2'' 110 1 False)]"

lemmas call_defs = on_signal_def risk_can_trade_def daily_breach_def pos0_def new_basket_id_def
  send_market_order_def send_order_def emit_def qty_for_def offset_px_def
  on_fill_def accumulate_fill_def entry_fill_def book_entry_fill_def compute_sl_def
  submit_stop_def emit_persist_def emit_remove_def emit_server_def cdiv_def

lemma closed_run:
  "is_flat (om_run om_live closed_steps) \<and> om_cstops (om_run om_live closed_steps) = [(''MNQ-0-1'', False)] \<and>
   sent_stops (\<lambda>_. True) (om_out (om_run om_live closed_steps)) = [''MNQ-0-1''] \<and>
   om_srv_cancelled (om_run om_live closed_steps) = [] \<and>
   all_dead (\<lambda>x. x) closed_steps = {''MNQ-0-2''}"
  by code_simp

subsection \<open>No stop is forgotten\<close>

text \<open>
  C1.  Over any run of calls with the cancel callback wired and truthful server ids, every
  protective stop the exchange accepted and whose end was never reported is the tracked stop
  of the position now in trade, or is held in the guard of cancelled stops with its cancel
  still pending.  Replacement, rejection, failed cancels, retries, external closes and the
  purge at flat lose none.
\<close>

theorem no_stop_forgotten:
  assumes "list_all (wired own A) steps"
    and "i \<in> set (sent_stops A (om_out (om_run (om_new c r l) steps)))"
    and "i \<notin> all_dead own steps"
  shows "(in_trade (om_run (om_new c r l) steps) \<and> p_stop_id (om_pos (om_run (om_new c r l) steps)) = i) \<or>
    (has_key (om_cstops (om_run (om_new c r l) steps)) i \<and> guard_pending (om_run (om_new c r l) steps) i)"
proof -
  let ?s = "om_run (om_new c r l) steps"
  have inv: "om_inv own A (all_dead own steps) ?s"
    using om_inv_run [OF om_inv_new assms(1), of "{}" c r l] by simp
  then have "i \<noteq> [] \<and> tracked ?s i"
    using assms(2,3) by (auto simp: om_inv_def om_core_def covered_def)
  then show ?thesis using inv by (auto simp: om_inv_def tracked_def)
qed

lemma no_stop_forgotten_witness:
  "has_key (om_cstops (om_run om_live closed_steps)) ''MNQ-0-1'' \<and>
   guard_pending (om_run om_live closed_steps) ''MNQ-0-1''"
proof -
  have "list_all (wired (\<lambda>x. x) (\<lambda>_. True)) closed_steps"
    by (simp add: closed_steps_def entry_steps_def wired_def env0_def)
  from no_stop_forgotten [OF this, of "''MNQ-0-1''" live_config "risk_new live_config 50000" "ll_new (1/2)"]
  show ?thesis using closed_run by (auto simp: om_live_def in_trade_def is_flat_def)
qed

lemma send_unwind_out:
  assumes "e_order_cb e"
  shows "\<exists>rq. om_out (send_unwind e b px t r s) = om_out s @ [SendOrder rq] \<and> rq_type rq = 1 \<and>
    rq_qty rq = c_qty (om_cfg s) \<and> rq_price rq = offset_px (rq_buy rq) px 4 \<and> rq_tag rq = t"
  using assms by (simp add: send_unwind_def case_prod_beta new_basket_state send_order_def Let_def)



end
