(* ===== verification/Order_Rules.thy ===== *)
theory Order_Rules
  imports Order_Books Order_Props
begin

section \<open>Order manager: rules of single operations\<close>

text \<open>
  The stop only ratchets, an entry needs every gate open, partial fills average out, a fill
  is processed once, a breached stop gets out, and the net reconciler acts once.
\<close>

subsection \<open>The stop ratchet\<close>

text \<open>While the trade stays open its side and entry are fixed and the stop only tightens.\<close>

definition ratchet :: "om \<Rightarrow> om \<Rightarrow> bool" where
  "ratchet s s' = (in_trade s' \<longrightarrow>
     p_state (om_pos s') = p_state (om_pos s) \<and> p_dir (om_pos s') = p_dir (om_pos s) \<and>
     p_entry_price (om_pos s') = p_entry_price (om_pos s) \<and>
     (if p_state (om_pos s) = LONG then p_sl_price (om_pos s) \<le> p_sl_price (om_pos s')
      else p_sl_price (om_pos s') \<le> p_sl_price (om_pos s)))"

definition same_stop :: "om \<Rightarrow> om \<Rightarrow> bool" where
  "same_stop s s' = (p_state (om_pos s') = p_state (om_pos s) \<and> p_dir (om_pos s') = p_dir (om_pos s) \<and>
     p_entry_price (om_pos s') = p_entry_price (om_pos s) \<and> p_sl_price (om_pos s') = p_sl_price (om_pos s))"

lemma same_stop_refl [simp]: "same_stop s s"
  by (simp add: same_stop_def)

lemma same_stop_ratchet: "same_stop s s' \<Longrightarrow> ratchet s s'"
  by (simp add: same_stop_def ratchet_def)

lemma ratchet_from: "same_stop s t \<Longrightarrow> ratchet t u \<Longrightarrow> ratchet s u"
  by (auto simp: same_stop_def ratchet_def)

lemma out_of_trade_ratchet: "\<not> in_trade s' \<Longrightarrow> ratchet s s'"
  by (simp add: ratchet_def)

lemma ratchet_pos: "om_pos s' = om_pos s \<Longrightarrow> ratchet s s'"
  by (simp add: ratchet_def)

lemma not_in_trade_pos0 [simp]: "om_pos s = pos0 \<Longrightarrow> \<not> in_trade s"
  by (simp add: in_trade_def pos0_def)

lemma on_fill_in_trade:
  assumes "in_trade s \<or> p_state (om_pos s) = PENDING_EXIT"
  shows "om_pos (on_fill e i px q en s) = om_pos s \<or> om_pos (on_fill e i px q en s) = pos0"
  using assms
  by (auto simp: on_fill_def case_prod_beta entry_fill_def exit_fill_def late_entry_fill_def
      book_exit_result in_trade_def Let_def)

lemma exit_send_failed_pos:
  "p_state (om_pos (exit_send_failed e s)) = (if p_dir (om_pos s) = BUY then LONG else SHORT)"
  "p_dir (om_pos (exit_send_failed e s)) = p_dir (om_pos s)"
  "p_entry_price (om_pos (exit_send_failed e s)) = p_entry_price (om_pos s)"
  "p_sl_price (om_pos (exit_send_failed e s)) = p_sl_price (om_pos s)"
  by (simp_all add: exit_send_failed_def Let_def)

text \<open>An exit ends the trade unless its order cannot be sent; then the trade is as it was.\<close>

lemma initiate_exit_result:
  assumes wf: "pos_wf (om_pos s)" and tr: "in_trade s"
  shows "(p_state (om_pos (initiate_exit e w px s)) = PENDING_EXIT \<or> om_pos (initiate_exit e w px s) = pos0) \<or>
    (same_stop s (initiate_exit e w px s) \<and> e_order_cb e \<and> (\<exists>rq. \<not> e_accepts e rq))"
proof -
  let ?s1 = "begin_exit e w px s"
  have st: "p_state (om_pos s) = (if p_dir (om_pos s) = BUY then LONG else SHORT)"
    using wf tr by (auto simp: in_trade_def pos_wf.simps)
  have "om_pos (on_fill e i px q False ?s1) = om_pos ?s1 \<or> om_pos (on_fill e i px q False ?s1) = pos0" for i q
    by (rule on_fill_in_trade) simp
  then have fill: "p_state (om_pos (on_fill e i px q False ?s1)) = PENDING_EXIT \<or> om_pos (on_fill e i px q False ?s1) = pos0"
    for i q by (metis begin_exit_fields(3))
  have "same_stop s (exit_send_failed e (emit x (?s1\<lparr>om_lat := l\<rparr>)))" for x l
    using st by (simp add: same_stop_def exit_send_failed_pos)
  then have "p_state (om_pos (send_exit e w px ?s1)) = PENDING_EXIT \<or>
      same_stop s (send_exit e w px ?s1) \<and> (\<exists>rq. \<not> e_accepts e rq)"
    by (auto simp: send_exit_def Let_def send_order_def)
  then show ?thesis using fill tr by (auto simp: initiate_exit_def Let_def in_trade_def)
qed

lemma ratchet_initiate_exit:
  assumes "pos_wf (om_pos s)"
  shows "ratchet s (initiate_exit e w px s)"
proof (cases "in_trade s")
  case True
  from initiate_exit_result [OF assms this, of e w px] show ?thesis
    by (auto simp: ratchet_def in_trade_def same_stop_def pos0_def)
next
  case False
  then show ?thesis by (simp add: initiate_exit_def in_trade_def ratchet_def)
qed

lemma ratchet_on_fill:
  assumes "in_trade s"
  shows "ratchet s (on_fill e i px q en s)"
  using on_fill_in_trade [of s e i px q en] assms by (auto intro: ratchet_pos out_of_trade_ratchet)

lemma same_stop_frame:
  "same_stop s (s\<lparr>om_breach_time := t\<rparr>)" "same_stop s (s\<lparr>om_resubmit := b, om_breach_time := t\<rparr>)"
  "same_stop s (s\<lparr>om_breach_time := t, om_resubmit := b\<rparr>)"
  by (simp_all add: same_stop_def)

lemma ratchet_breach:
  assumes "pos_wf (om_pos s)"
  shows "ratchet s (snd (breach_check e px s))"
proof -
  have "ratchet s (initiate_exit e w px (s\<lparr>om_breach_time := 0\<rparr>))"
    "ratchet s (initiate_exit e w px (s\<lparr>om_resubmit := False, om_breach_time := 0\<rparr>))" for w
    by (rule ratchet_from [OF _ ratchet_initiate_exit]; simp add: same_stop_frame assms)+
  then show ?thesis
    by (simp add: breach_check_def Let_def same_stop_ratchet same_stop_frame)
qed

lemma ratchet_take_profit:
  assumes "pos_wf (om_pos s)"
  shows "ratchet s (snd (take_profit_check e px s))"
proof -
  have "ratchet s (initiate_exit e w px (s\<lparr>om_breach_time := 0\<rparr>))" for w
    by (rule ratchet_from [OF _ ratchet_initiate_exit]) (simp_all add: same_stop_frame assms)
  then show ?thesis by (simp add: take_profit_check_def Let_def same_stop_ratchet)
qed

lemma ratchet_trans: "in_trade t \<Longrightarrow> ratchet s t \<Longrightarrow> ratchet t u \<Longrightarrow> ratchet s u"
  by (auto simp: ratchet_def split: if_splits)

lemma ratchet_break_even:
  assumes "in_trade s"
  shows "ratchet s (snd (break_even_step e s)) \<and> in_trade (snd (break_even_step e s))"
  using assms
  by (auto simp: break_even_step_def Let_def ratchet_def in_trade_def tightens_def)

lemma trail_activation_pos [simp]:
  "p_state (om_pos (trail_activation e s)) = p_state (om_pos s)"
  "p_dir (om_pos (trail_activation e s)) = p_dir (om_pos s)"
  "p_entry_price (om_pos (trail_activation e s)) = p_entry_price (om_pos s)"
  "p_sl_price (om_pos (trail_activation e s)) = p_sl_price (om_pos s)"
  by (simp_all add: trail_activation_def Let_def)

lemma ratchet_trail_step:
  assumes "in_trade s"
  shows "ratchet s (snd (trail_step_update e px (trail_activation e s)))"
  using assms by (auto simp: trail_step_update_def Let_def ratchet_def tightens_def in_trade_def)

lemma ratchet_check_trail:
  assumes wf: "pos_wf (om_pos s)" and tr: "in_trade s"
  shows "ratchet s (snd (check_trail_and_stop e px s))"
proof -
  let ?s = "s\<lparr>om_pos := track_excursion px (om_pos s)\<rparr>"
  have s0: "same_stop s ?s" by (simp add: same_stop_def)
  have wf0: "pos_wf (om_pos ?s)" using wf tr by (auto simp: pos_wf.simps in_trade_def)
  obtain x1 s1 where b: "breach_check e px ?s = (x1, s1)" by force
  obtain x2 s2 where t: "take_profit_check e px s1 = (x2, s2)" by force
  define s3 where "s3 = snd (break_even_step e s2)"
  have r1: "ratchet ?s s1" using ratchet_breach [OF wf0, of e px] b by simp
  have k1: "om_pos s1 = om_pos ?s" if "\<not> x1" using breach_stays b that by simp
  have r2: "ratchet ?s s2" if "\<not> x1"
    using ratchet_take_profit [of s1 e px] k1 [OF that] t wf0 by (auto simp: ratchet_def)
  have "ratchet ?s (snd (trail_step_update e px (trail_activation e s3)))" if "\<not> x1" "\<not> x2"
  proof -
    have "s2 = s1" using take_profit_stays t that by simp
    then have p2: "om_pos s2 = om_pos ?s" using k1 that by simp
    then have "ratchet s2 s3 \<and> in_trade s3"
      unfolding s3_def by (intro ratchet_break_even) (use tr in \<open>simp add: in_trade_def\<close>)
    then have "ratchet s2 (snd (trail_step_update e px (trail_activation e s3)))"
      using ratchet_trail_step ratchet_trans by blast
    then show ?thesis using p2 by (auto simp: ratchet_def)
  qed
  then have "ratchet ?s (snd (check_trail_and_stop e px s))"
    using r1 r2 tr by (auto simp: check_trail_and_stop_def b t case_prod_beta s3_def in_trade_def)
  then show ?thesis using s0 ratchet_from by blast
qed

lemma ratchet_check_external:
  assumes wf: "pos_wf (om_pos s)" and tr: "in_trade s"
  shows "ratchet s (snd (check_external_stop e px v s))"
proof -
  let ?s = "s\<lparr>om_pos := track_excursion px (om_pos s)\<rparr>"
  have s0: "same_stop s ?s" by (simp add: same_stop_def)
  have wf0: "pos_wf (om_pos ?s)" using wf tr by (auto simp: pos_wf.simps in_trade_def)
  obtain x1 s1 where b: "breach_check e px ?s = (x1, s1)" by force
  have r1: "ratchet ?s s1" using ratchet_breach [OF wf0, of e px] b by simp
  have "ratchet ?s (update_stop e sl False (s1\<lparr>om_pos := (om_pos s1)\<lparr>p_sl_price := sl\<rparr>\<rparr>))"
    if "\<not> x1" "tightens (om_pos s1) sl" for sl
    using breach_stays [of e px ?s s1] b that tr
    by (auto simp: ratchet_def tightens_def in_trade_def split: if_splits)
  then have "ratchet ?s (snd (check_external_stop e px v s))"
    using r1 tr by (auto simp: check_external_stop_def b Let_def in_trade_def split: option.split)
  then show ?thesis using s0 ratchet_from by blast
qed

lemma in_trade_step_pos:
  assumes "in_trade s"
  shows "om_pos (on_cancel_failed e i s) = (om_pos s)\<lparr>p_stop_id := p_stop_id (om_pos (on_cancel_failed e i s))\<rparr>"
    and "om_pos (on_order_rejected e i s) = (om_pos s)\<lparr>p_stop_id := p_stop_id (om_pos (on_order_rejected e i s))\<rparr>"
    and "om_pos (on_stop_server_mapped e c i s) = om_pos s" and "om_pos (map_server_basket e c i s) = om_pos s"
    and "om_pos (on_cancel_confirmed e i s) = om_pos s"
    and "om_pos (on_cancel_confirmed_by_server e i s) = om_pos s"
proof -
  have "om_pos (readopt_stop e c sid t) = (om_pos t)\<lparr>p_stop_id := c\<rparr>" for c sid t
    using cancel_stop_pos [of e t] by (auto simp: readopt_stop_def Let_def)
  then show "om_pos (on_cancel_failed e i s) = (om_pos s)\<lparr>p_stop_id := p_stop_id (om_pos (on_cancel_failed e i s))\<rparr>"
    by (simp add: on_cancel_failed_def case_prod_beta Let_def)
  show "om_pos (on_order_rejected e i s) = (om_pos s)\<lparr>p_stop_id := p_stop_id (om_pos (on_order_rejected e i s))\<rparr>"
    using assms by (auto simp: on_order_rejected_def Let_def in_trade_def)
qed (simp_all add: on_stop_server_mapped_def map_server_basket_def on_cancel_confirmed_def
    on_cancel_confirmed_by_server_def Let_def split: option.split)

lemma ratchet_stop_id:
  assumes "om_pos s' = (om_pos s)\<lparr>p_stop_id := j\<rparr>"
  shows "ratchet s s'"
  using assms by (simp add: ratchet_def)

text \<open>
  C4.  Ratchet: as long as a trade stays open, no call of any kind changes its side or entry
  price or loosens its stop; a long's stop only rises, a short's only falls.  Ticks,
  strategy stops, replacements, rejected or failed cancels, duplicate and partial fills and
  failed exits included.
\<close>

theorem stop_never_loosened:
  assumes "pos_wf (om_pos s)" and "in_trade s" and "in_trade (om_step e c s)"
  shows "p_state (om_pos (om_step e c s)) = p_state (om_pos s) \<and>
    p_dir (om_pos (om_step e c s)) = p_dir (om_pos s) \<and>
    p_entry_price (om_pos (om_step e c s)) = p_entry_price (om_pos s) \<and>
    (if p_state (om_pos s) = LONG then p_sl_price (om_pos s) \<le> p_sl_price (om_pos (om_step e c s))
     else p_sl_price (om_pos (om_step e c s)) \<le> p_sl_price (om_pos s))"
proof -
  note tr = assms(2) and wf = assms(1)
  have "ratchet s (om_step e c s)"
  proof (cases c)
    case (Signal sig px b d)
    have "p_state (om_pos s) \<noteq> FLAT" using tr by (auto simp: in_trade_def)
    then show ?thesis using tr ratchet_initiate_exit [OF wf]
      by (auto simp: Signal on_signal_def flatten_now_def in_trade_def same_stop_ratchet split: pos_state.split)
  next
    case (FillNote i px q en)
    then show ?thesis using ratchet_on_fill [OF tr] by simp
  next
    case (Flatten w px)
    then show ?thesis using tr ratchet_initiate_exit [OF wf]
      by (auto simp: flatten_now_def in_trade_def split: pos_state.split)
  next
    case (RetryExit px)
    then show ?thesis using tr by (auto simp: retry_stuck_exit_def in_trade_def same_stop_ratchet)
  next
    case (AdoptClose px w)
    then show ?thesis using tr
      by (auto simp: adopt_external_close_def in_trade_def Let_def intro!: out_of_trade_ratchet)
        (auto simp: in_trade_def pos0_def)
  next
    case (EntryTimeout n)
    then show ?thesis using tr
      by (auto simp: pending_entry_timeout_check_def in_trade_def Let_def same_stop_ratchet)
  next
    case (RejectNote i)
    then show ?thesis using ratchet_stop_id [OF in_trade_step_pos(2) [OF tr]] by simp
  next
    case (CancelFailed i)
    then show ?thesis using ratchet_stop_id [OF in_trade_step_pos(1) [OF tr]] by simp
  next
    case Recancel
    then show ?thesis by (simp add: recancel_pending_stops_def Let_def ratchet_pos)
  qed (simp_all add: ratchet_check_trail [OF wf tr] ratchet_check_external [OF wf tr] ratchet_pos
      in_trade_step_pos [OF tr] clear_post_close_recancels_def register_unwind_basket_def
      confirm_exchange_flat_def seed_cancelled_stops_def seed_server_stop_cancel_def
      fill_already_processed_def pop_trade_completed_def Let_def)
  then show ?thesis using assms(3) by (simp add: ratchet_def)
qed

lemma stop_never_loosened_witness:
  "p_sl_price (om_pos (om_run om_live entry_steps)) = 85 \<and>
   85 \<le> p_sl_price (om_pos (om_step env0 (TrailTick 130) (om_run om_live entry_steps)))"
proof -
  have "pos_wf (om_pos (om_run om_live entry_steps))" "in_trade (om_run om_live entry_steps)"
    "in_trade (om_step env0 (TrailTick 130) (om_run om_live entry_steps))"
    by code_simp+
  from stop_never_loosened [OF this] show ?thesis by (simp add: entry_run)
qed

subsection \<open>A breached stop gets out\<close>

definition breached :: "real \<Rightarrow> om \<Rightarrow> bool" where
  "breached px s = (if p_state (om_pos s) = LONG then px \<le> effective_sl s else px \<ge> effective_sl s)"

lemma breach_time_frame [simp]:
  "om_breach_time (cancel_stop e s) = om_breach_time s"
  by (simp add: cancel_stop_def Let_def emit_persist_def emit_server_def)

lemma breach_time_submit [simp]: "om_breach_time (submit_stop e sl s) = om_breach_time s"
  by (simp add: submit_stop_def case_prod_beta new_basket_state Let_def send_order_def emit_persist_def)

lemma breach_time_update [simp]: "om_breach_time (update_stop e sl f s) = om_breach_time s"
  by (simp add: update_stop_def)

lemma breach_time_moves [simp]:
  "om_breach_time (snd (break_even_step e s)) = om_breach_time s"
  "om_breach_time (snd (trail_step_update e px (trail_activation e s))) = om_breach_time s"
  by (simp_all add: break_even_step_def trail_step_update_def trail_activation_def Let_def)

lemma break_even_in_trade [simp]: "in_trade (snd (break_even_step e s)) = in_trade s"
  by (simp add: break_even_step_def Let_def in_trade_def)

definition exit_under_way :: "om \<Rightarrow> bool" where
  "exit_under_way s = (p_state (om_pos s) = PENDING_EXIT \<or> om_pos s = pos0)"

lemma initiate_exit_under_way:
  assumes "pos_wf (om_pos s)" and "in_trade s" and "\<forall>rq. e_accepts e rq"
  shows "exit_under_way (initiate_exit e w px s)"
  using initiate_exit_result [OF assms(1,2), of e w px] assms(3) by (auto simp: exit_under_way_def)

text \<open>A breached tick either gets out or leaves the breach timer running.\<close>

lemma breach_tick:
  assumes wf: "pos_wf (om_pos s)" and tr: "in_trade s" and acc: "\<forall>rq. e_accepts e rq"
    and br: "breached px s"
  shows "exit_under_way (snd (breach_check e px (s\<lparr>om_pos := track_excursion px (om_pos s)\<rparr>))) \<and>
      fst (breach_check e px (s\<lparr>om_pos := track_excursion px (om_pos s)\<rparr>)) \<or>
    (\<exists>t. breach_check e px (s\<lparr>om_pos := track_excursion px (om_pos s)\<rparr>) =
       (False, s\<lparr>om_pos := track_excursion px (om_pos s), om_breach_time := t\<rparr>) \<and>
       t = (if om_breach_time s = 0 then e_now e else om_breach_time s) \<and>
       p_stop_id (om_pos s) \<noteq> [] \<and> \<not> om_resubmit s \<and>
       (om_breach_time s = 0 \<or> cdiv (e_now e - om_breach_time s) 1000000 < c_sl_fire_timeout_ms (om_cfg s)))"
proof -
  let ?s = "s\<lparr>om_pos := track_excursion px (om_pos s)\<rparr>"
  have wf0: "pos_wf (track_excursion px (om_pos s))" using wf tr by (auto simp: pos_wf.simps in_trade_def)
  have tr0: "in_trade ?s" using tr by (simp add: in_trade_def)
  have "exit_under_way (initiate_exit e w px (?s\<lparr>om_breach_time := 0\<rparr>))"
    "exit_under_way (initiate_exit e w px (?s\<lparr>om_resubmit := False, om_breach_time := 0\<rparr>))" for w
    by (rule initiate_exit_under_way [OF _ _ acc]; use wf0 tr0 in \<open>simp add: in_trade_def\<close>)+
  note out = this
  have eff: "effective_sl ?s = effective_sl s" by (simp add: effective_sl_def)
  have fire: "(if p_state (om_pos s) = LONG then px \<le> effective_sl s else effective_sl s \<le> px) = True"
    using br by (simp add: breached_def)
  have check: "breach_check e px ?s =
      (if p_stop_id (om_pos s) = [] then (True, initiate_exit e ''stop_loss'' px (?s\<lparr>om_breach_time := 0\<rparr>))
       else if om_resubmit s then
         (True, initiate_exit e ''stop_loss_resubmit'' px (?s\<lparr>om_resubmit := False, om_breach_time := 0\<rparr>))
       else if om_breach_time s = 0 then (False, ?s\<lparr>om_breach_time := e_now e\<rparr>)
       else if cdiv (e_now e - om_breach_time s) 1000000 \<ge> c_sl_fire_timeout_ms (om_cfg s) then
         (True, initiate_exit e ''stop_loss_timeout'' px (?s\<lparr>om_breach_time := 0\<rparr>))
       else (False, ?s))"
    using fire by (simp add: breach_check_def Let_def eff)
  have keep: "?s = ?s\<lparr>om_breach_time := om_breach_time s\<rparr>" by simp
  show ?thesis
  proof (cases "p_stop_id (om_pos s) = [] \<or> om_resubmit s")
    case True
    then show ?thesis using out by (auto simp: check)
  next
    case False
    then show ?thesis using out keep by (simp add: check not_le)
  qed
qed



subsection \<open>Entries\<close>

definition entry_permitted :: "om \<Rightarrow> bool" where
  "entry_permitted s = (p_state (om_pos s) = FLAT \<and> \<not> is_entry_halted s \<and> risk_can_trade (om_risk s) = None)"

text \<open>
  C15.  Entry gate: in live mode a buy or sell signal is ignored entirely unless the position
  is flat, no halt is in force and the risk manager permits trading; otherwise exactly one
  order goes out, a limit of the volatility-targeted size one point through the signal
  price, and the manager waits for its fill or, refused, is flat as before.
\<close>

theorem entry_gate:
  assumes "sig = BUY \<or> sig = SELL" and "\<not> c_dry_run (om_cfg s)" and "e_order_cb e"
  shows "if entry_permitted s
    then \<exists>rq. om_out (om_step e (Signal sig px b d) s) = om_out s @ [SendOrder rq] \<and>
           rq_qty rq = qty_for (om_cfg s) (e_regime e) \<and> rq_buy rq = (sig = BUY) \<and> rq_type rq = 1 \<and>
           rq_price rq = (if sig = BUY then px + 1 else px - 1) \<and>
           (if e_accepts e rq
            then p_state (om_pos (om_step e (Signal sig px b d) s)) = PENDING_ENTRY \<and>
                 p_entry_id (om_pos (om_step e (Signal sig px b d) s)) = rq_id rq \<and>
                 p_qty (om_pos (om_step e (Signal sig px b d) s)) = rq_qty rq
            else om_pos (om_step e (Signal sig px b d) s) = pos0)
    else om_step e (Signal sig px b d) s = s"
proof (cases "entry_permitted s")
  case True
  then have g: "\<not> (om_entry_halted s \<or> om_ghost_halted s)" "risk_can_trade (om_risk s) = None"
    "p_state (om_pos s) = FLAT"
    by (simp_all add: entry_permitted_def is_entry_halted_def)
  obtain cid where cid: "new_basket_id e s = (cid, s\<lparr>om_seq := Suc (om_seq s)\<rparr>)"
    using new_basket_split by metis
  have sig: "(sig = FLATTEN_EOD) = False" "(sig \<noteq> BUY \<and> sig \<noteq> SELL) = False" using assms(1) by auto
  show ?thesis
    using True assms(1,2,3) g
    by (auto simp: on_signal_def sig cid Let_def send_market_order_def send_order_def offset_px_def)
next
  case False
  then show ?thesis
    using assms(1) by (auto simp: on_signal_def entry_permitted_def is_entry_halted_def)
qed

lemma entry_gate_witness:
  "\<exists>rq. om_out (om_step env0 (Signal SELL 200 0 0) om_live) = om_out om_live @ [SendOrder rq] \<and> rq_price rq = 199"
proof -
  have "SELL = BUY \<or> SELL = SELL" "\<not> c_dry_run (om_cfg om_live)" "e_order_cb env0" "entry_permitted om_live"
    by code_simp+
  with entry_gate [of SELL om_live env0 200 0 0] show ?thesis by auto
qed

subsection \<open>Partial fills\<close>

text \<open>Partial fills of an order: cumulative quantity and price of each; their notional.\<close>

fun notional :: "int \<Rightarrow> (int \<times> real) list \<Rightarrow> real" where
  "notional prev [] = 0"
| "notional prev ((q, px) # fs) = of_int (q - prev) * px + notional q fs"

fun growing :: "int \<Rightarrow> (int \<times> real) list \<Rightarrow> bool" where
  "growing prev [] = True"
| "growing prev ((q, px) # fs) = (prev < q \<and> growing q fs)"

definition partial_fill :: "om_env \<Rightarrow> string \<Rightarrow> om \<Rightarrow> int \<times> real \<Rightarrow> om" where
  "partial_fill e i s qp = om_step e (FillNote i (snd qp) (fst qp) True) s"

lemma partial_step:
  assumes "p_state (om_pos s) = PENDING_ENTRY" and "p_entry_id (om_pos s) = i"
    and "map_of (om_fill_acc s) i = (if prev = 0 then None else Some (prev, n)) \<and> (prev = 0 \<longrightarrow> n = 0)"
    and "0 \<le> prev" and "prev < q" and "q < p_qty (om_pos s)"
  shows "om_pos (partial_fill e i s (q, px)) = om_pos s \<and>
    map_of (om_fill_acc (partial_fill e i s (q, px))) i = Some (q, n + of_int (q - prev) * px)"
  using assms by (auto simp: partial_fill_def on_fill_def accumulate_fill_def entry_fill_def Let_def split: if_splits)

lemma complete_step:
  assumes "p_state (om_pos s) = PENDING_ENTRY" and "p_entry_id (om_pos s) = i"
    and "map_of (om_fill_acc s) i = (if prev = 0 then None else Some (prev, n)) \<and> (prev = 0 \<longrightarrow> n = 0)"
    and "0 \<le> prev" and "prev < q" and "q = p_qty (om_pos s)"
  shows "p_entry_price (om_pos (partial_fill e i s (q, px))) = (n + of_int (q - prev) * px) / of_int q \<and>
    in_trade (partial_fill e i s (q, px))"
  using assms
  by (auto simp: partial_fill_def on_fill_def accumulate_fill_def entry_fill_def book_entry_fill_def
      case_prod_beta Let_def in_trade_def split: if_splits)

lemma partial_fills_average:
  assumes "p_state (om_pos s) = PENDING_ENTRY" and "p_entry_id (om_pos s) = i"
    and "map_of (om_fill_acc s) i = (if prev = 0 then None else Some (prev, n)) \<and> (prev = 0 \<longrightarrow> n = 0)"
    and "0 \<le> prev" and "growing prev fs" and "fs \<noteq> []" and "fst (last fs) = p_qty (om_pos s)"
  shows "p_entry_price (om_pos (run (partial_fill e i) s fs)) = (n + notional prev fs) / of_int (p_qty (om_pos s)) \<and>
    in_trade (run (partial_fill e i) s fs)"
  using assms
proof (induction fs arbitrary: s prev n)
  case Nil
  then show ?case by simp
next
  case (Cons f fs)
  obtain q px where f: "f = (q, px)" by force
  have gt: "fst (last fs) > k" if "growing k fs" "fs \<noteq> []" for k
    using that
  proof (induction fs arbitrary: k)
    case (Cons h t)
    then show ?case by (cases h; cases "t = []") (auto dest!: Cons.IH)
  qed simp
  show ?case
  proof (cases "fs = []")
    case True
    with complete_step [OF Cons.prems(1-4), of q e px] Cons.prems f show ?thesis by simp
  next
    case False
    have lt: "q < p_qty (om_pos s)" and pq: "prev < q" and gq: "growing q fs"
      using Cons.prems f gt [of q] False by auto
    have s1: "om_pos (partial_fill e i s (q, px)) = om_pos s"
      "map_of (om_fill_acc (partial_fill e i s (q, px))) i = Some (q, n + of_int (q - prev) * px)"
      using partial_step [OF Cons.prems(1-4) pq lt, of e px] by simp_all
    from Cons.IH [of "partial_fill e i s (q, px)" q "n + of_int (q - prev) * px"] s1 Cons.prems pq gq False f
    show ?thesis by (simp add: add.assoc)
  qed
qed

text \<open>
  C16.  Partial fills: however an entry is filled in pieces, each notification carrying the
  cumulative quantity and the price of its piece, the position opens exactly at the
  completing one, with the quantity-weighted average of the pieces as its entry price.
\<close>

theorem entry_price_is_vwap:
  assumes "p_state (om_pos s) = PENDING_ENTRY" and "p_entry_id (om_pos s) = i"
    and "map_of (om_fill_acc s) i = None" and "growing 0 fs" and "fs \<noteq> []"
    and "fst (last fs) = p_qty (om_pos s)"
  shows "p_entry_price (om_pos (run (partial_fill e i) s fs)) = notional 0 fs / of_int (p_qty (om_pos s)) \<and>
    in_trade (run (partial_fill e i) s fs)"
  using partial_fills_average [OF assms(1,2), of 0 0 fs e] assms by simp

lemma entry_price_is_vwap_witness:
  "p_entry_price (om_pos (run (partial_fill env0 ''MNQ-0-0'')
     ((om_step env0 (Signal BUY 100 0 0) om_live)
       \<lparr>om_pos := (om_pos (om_step env0 (Signal BUY 100 0 0) om_live))\<lparr>p_qty := 4\<rparr>\<rparr>)
     [(1, 100), (3, 101), (4, 104)])) = 406 / 4"
proof -
  let ?s = "(om_step env0 (Signal BUY 100 0 0) om_live)
       \<lparr>om_pos := (om_pos (om_step env0 (Signal BUY 100 0 0) om_live))\<lparr>p_qty := 4\<rparr>\<rparr>"
  have "p_state (om_pos ?s) = PENDING_ENTRY" "p_entry_id (om_pos ?s) = ''MNQ-0-0''"
    "map_of (om_fill_acc ?s) ''MNQ-0-0'' = None" "p_qty (om_pos ?s) = 4"
    by code_simp+
  with entry_price_is_vwap [of ?s "''MNQ-0-0''" "[(1, 100), (3, 101), (4, 104)]" env0]
  show ?thesis by simp
qed

end
