(* ===== verification/Notif.thy ===== *)
theory Notif
  imports Order_Ops Text_Parse
begin

section \<open>Notification routing, unwinding and the broker's own limits\<close>

text \<open>
  \<open>src/src/execution/notification_router.hpp\<close>: what the executor does with a fill nobody
  expected, with the outcome of a cancel, and with a net position the exchange and the order
  manager disagree about; and the account limits judged on the broker's numbers, where a
  missing number is \<open>None\<close> (NaN in the code).
\<close>

subsection \<open>Notifications\<close>

datatype unowned_fill = OTHER_ACCOUNT | DUPLICATE | GUARDS_RUN | HALTED

definition fill_key :: "string \<Rightarrow> string \<Rightarrow> string" where
  "fill_key client server = (if client = [] then server else client)"

definition unowned_fill_is_duplicate :: "string \<Rightarrow> string \<Rightarrow> int \<Rightarrow> om \<Rightarrow> bool \<times> om" where
  "unowned_fill_is_duplicate client server q s = fill_already_processed (fill_key client server) q s"

text \<open>The third component is the reason given to the halt callback, when it is called.\<close>

definition handle_unowned_fill ::
  "om_env \<Rightarrow> string \<Rightarrow> string \<Rightarrow> string \<Rightarrow> string \<Rightarrow> real \<Rightarrow> int \<Rightarrow> om \<Rightarrow> unowned_fill \<times> om \<times> string option" where
  "handle_unowned_fill e client server account ours px q s =
     (if account \<noteq> [] \<and> account \<noteq> ours then (OTHER_ACCOUNT, s, None)
      else
       (let (dup, s1) = unowned_fill_is_duplicate client server q s
        in if dup then (DUPLICATE, s1, None)
           else if is_flat s1 then (GUARDS_RUN, on_fill e (fill_key client server) px q False s1, None)
           else (HALTED, s1, Some ''unowned_fill_in_trade'')))"

datatype cancel_notice = ACKED | FAILED | IGNORED

definition handle_cancel_notification ::
  "om_env \<Rightarrow> int \<Rightarrow> string \<Rightarrow> string \<Rightarrow> string \<Rightarrow> om \<Rightarrow> cancel_notice \<times> om" where
  "handle_cancel_notification e ntype status tag basket s =
     (if ntype = 17 \<or> status = ''Cancellation Failed''
      then (FAILED, on_cancel_failed e (if tag \<noteq> [] then tag else basket) s)
      else if ntype = 3
      then (ACKED, if tag \<noteq> [] then on_cancel_confirmed e tag s else on_cancel_confirmed_by_server e basket s)
      else (IGNORED, s))"

subsection \<open>Unwinding a net mismatch\<close>

record unwind_plan =
  up_qty :: int
  up_is_buy :: bool
  up_expected :: int
  up_adopt_flat :: bool

definition plan_unwind :: "int \<Rightarrow> position \<Rightarrow> int \<Rightarrow> unwind_plan" where
  "plan_unwind net p cfg_qty =
     (let held = (if p_qty p > 0 then p_qty p else cfg_qty);
          expected = (if p_state p = LONG then held else if p_state p = SHORT then - held else 0);
          keep = ((net > 0) = (expected > 0) \<and> \<bar>net\<bar> \<ge> \<bar>expected\<bar>);
          target = (if expected = 0 then 0 else if keep then expected else 0);
          diff = net - target
      in \<lparr>up_qty = \<bar>diff\<bar>, up_is_buy = (diff < 0), up_expected = expected,
          up_adopt_flat = (expected \<noteq> 0 \<and> \<not> keep)\<rparr>)"

subsection \<open>Limits on the broker's numbers\<close>

text \<open>\<open>strtod\<close> returns zero when there is no number to read.\<close>

definition parse_decimal :: "string \<Rightarrow> real option" where
  "parse_decimal s = (if s = [] then None else Some (case stod s of None \<Rightarrow> 0 | Some v \<Rightarrow> v))"

definition broker_loss_breached :: "real option \<Rightarrow> real \<Rightarrow> bool" where
  "broker_loss_breached day limit = (case day of None \<Rightarrow> False | Some d \<Rightarrow> limit < 0 \<and> d \<le> limit)"

definition broker_hwm :: "real option \<Rightarrow> real \<Rightarrow> real option \<Rightarrow> real" where
  "broker_hwm prev start balance =
     (let h = (case prev of None \<Rightarrow> start | Some p \<Rightarrow> max p start)
      in case balance of None \<Rightarrow> h | Some b \<Rightarrow> if b > h then b else h)"

definition broker_drawdown_breached :: "real option \<Rightarrow> real option \<Rightarrow> real \<Rightarrow> bool" where
  "broker_drawdown_breached balance hwm cap =
     (case (balance, hwm) of (Some b, Some h) \<Rightarrow> cap > 0 \<and> b \<le> h - cap | _ \<Rightarrow> False)"

definition broker_drawdown_room :: "real \<Rightarrow> real \<Rightarrow> real \<Rightarrow> real" where
  "broker_drawdown_room balance hwm cap = balance - (hwm - cap)"

end
