(* ===== verification/Notif_Props.thy ===== *)
theory Notif_Props
  imports Notif Order_Inv
begin

section \<open>Properties of routing, reconciliation and broker limits\<close>

text \<open>
  A fill is acted on once, a net mismatch is repaired without ever opening exposure and
  acted on once, and the broker's high-water mark is the running maximum.
\<close>

subsection \<open>Fills are processed once\<close>

definition report :: "om \<Rightarrow> string \<times> int \<Rightarrow> om" where
  "report s iq = om_step undefined (DedupeFill (fst iq) (snd iq)) s"

definition max_seen :: "string \<Rightarrow> (string \<times> int) list \<Rightarrow> int" where
  "max_seen i reps = fold max (map snd (filter (\<lambda>r. fst r = i) reps)) 0"

definition seen_qty :: "om \<Rightarrow> string \<Rightarrow> int" where
  "seen_qty s i = (case map_of (om_processed s) i of None \<Rightarrow> 0 | Some n \<Rightarrow> n)"

lemma seen_qty_report: "seen_qty (report s (j, q)) i = (if i = j then max (seen_qty s i) q else seen_qty s i)"
  by (auto simp: report_def fill_already_processed_def seen_qty_def Let_def)

lemma seen_qty_run:
  "seen_qty (run report s reps) i = fold max (map snd (filter (\<lambda>r. fst r = i) reps)) (seen_qty s i)"
proof (induction reps arbitrary: s)
  case (Cons r reps)
  then show ?case by (cases r) (simp add: seen_qty_report max.commute)
qed simp

text \<open>
  Fill dedupe: after any sequence of fill reports since the start, a report is let
  through exactly when its cumulative quantity exceeds every quantity reported for that
  order before; a repeated or stale report is a duplicate, of whichever plant it came from.
\<close>

theorem fill_processed_once:
  "fst (fill_already_processed i q (run report (om_new c r l) reps)) = (q \<le> max_seen i reps)"
proof -
  have "seen_qty (om_new c r l) i = 0" by (simp add: seen_qty_def om_new_def)
  then have "seen_qty (run report (om_new c r l) reps) i = max_seen i reps"
    by (simp add: seen_qty_run max_seen_def)
  then show ?thesis
    by (auto simp: fill_already_processed_def seen_qty_def Let_def split: option.splits)
qed

subsection \<open>Net position\<close>

definition net_after :: "int \<Rightarrow> unwind_plan \<Rightarrow> int" where
  "net_after net u = (if up_is_buy u then net + up_qty u else net - up_qty u)"

text \<open>
  The unwind repairs: whatever the exchange holds, executing the plan and adopting flat
  when the plan says so leaves the exchange's net consistent with the order manager, and on
  the way the exposure only shrinks: the net never grows and never changes sign.
\<close>

theorem unwind_restores_agreement:
  assumes "p_state (om_pos s) = FLAT \<or> in_trade s" and "0 < c_qty (om_cfg s)"
    and u_def: "u = plan_unwind net (om_pos s) (c_qty (om_cfg s))"
  shows "net_qty_consistent (net_after net u)
      (if up_adopt_flat u then adopt_external_close e px why s else s) \<and>
    \<bar>net_after net u\<bar> \<le> \<bar>net\<bar> \<and> (net_after net u = 0 \<or> (0 < net_after net u) = (0 < net)) \<and> 0 \<le> up_qty u"
proof -
  define held where "held = (if p_qty (om_pos s) > 0 then p_qty (om_pos s) else c_qty (om_cfg s))"
  have held: "0 < held" using assms(2) by (simp add: held_def)
  define ex where "ex = (if p_state (om_pos s) = LONG then held else if p_state (om_pos s) = SHORT then - held else 0)"
  define keep where "keep = ((net > 0) = (ex > 0) \<and> \<bar>net\<bar> \<ge> \<bar>ex\<bar>)"
  define target where "target = (if ex = 0 then 0 else if keep then ex else 0)"
  have u: "u = \<lparr>up_qty = \<bar>net - target\<bar>, up_is_buy = (net - target < 0), up_expected = ex,
      up_adopt_flat = (ex \<noteq> 0 \<and> \<not> keep)\<rparr>"
    by (simp add: u_def plan_unwind_def Let_def flip: held_def ex_def keep_def)
      (simp add: target_def keep_def)
  then have after: "net_after net u = target" by (simp add: net_after_def)
  have flat: "om_pos (adopt_external_close e px why s) = pos0" if "ex \<noteq> 0"
  proof -
    have "p_state (om_pos s) = LONG \<or> p_state (om_pos s) = SHORT"
      using that by (simp add: ex_def split: if_splits)
    then show ?thesis by (auto simp: adopt_external_close_def Let_def)
  qed
  have "net_qty_consistent target (if up_adopt_flat u then adopt_external_close e px why s else s)"
  proof (cases "ex \<noteq> 0 \<and> \<not> keep")
    case True
    then show ?thesis using flat u by (simp add: net_qty_consistent_def Let_def target_def pos0_def)
  next
    case False
    then have "\<not> up_adopt_flat u" by (simp add: u)
    moreover have "net_qty_consistent target s"
      using assms(1) False unfolding net_qty_consistent_def Let_def held_def [symmetric]
      by (auto simp: target_def ex_def in_trade_def split: pos_state.split)
    ultimately show ?thesis by simp
  qed
  moreover have "\<bar>target\<bar> \<le> \<bar>net\<bar> \<and> (target = 0 \<or> (0 < target) = (0 < net))"
    by (auto simp: target_def keep_def)
  moreover have "0 \<le> up_qty u" by (simp add: u)
  ultimately show ?thesis unfolding after by blast
qed

lemma unwind_restores_agreement_witness:
  "net_qty_consistent (net_after 3 (plan_unwind 3 pos0 1))
     (om_new default_config (risk_new default_config 50000) (ll_new 1))"
  using unwind_restores_agreement [of "om_new default_config (risk_new default_config 50000) (ll_new 1)"
      "plan_unwind 3 pos0 1" 3]
  by (simp add: om_new_def pos0_def default_config_def plan_unwind_def)

subsection \<open>The reconciler acts once per mismatch\<close>

text \<open>A run of the reconciler over a mismatch: the verdicts at increasing times, without retry.\<close>

fun verdicts :: "int \<Rightarrow> reconciler \<Rightarrow> int list \<Rightarrow> verdict list" where
  "verdicts grace r [] = []"
| "verdicts grace r (t # ts) =
     (let (v, r1) = nr_observe False t grace 0 r in v # verdicts grace r1 ts)"

lemma verdicts_acted: "nr_acted r \<Longrightarrow> nr_since r \<noteq> 0 \<Longrightarrow> verdicts grace r ts = replicate (length ts) MismatchWait"
  by (induction ts) (simp_all add: nr_observe_def Let_def)

lemma verdicts_waiting:
  assumes "\<not> nr_acted r" and "nr_since r \<noteq> 0" and "sorted ts"
  shows "verdicts grace r ts = map (\<lambda>t. MismatchWait) (takeWhile (\<lambda>t. t - nr_since r < grace) ts) @
    (case dropWhile (\<lambda>t. t - nr_since r < grace) ts of [] \<Rightarrow> []
     | _ # rest \<Rightarrow> MismatchAct # replicate (length rest) MismatchWait)"
  using assms
proof (induction ts)
  case (Cons t ts)
  then show ?case
    by (cases "t - nr_since r < grace") (simp_all add: nr_observe_def Let_def verdicts_acted)
qed simp

text \<open>
  Without retry a persisting mismatch is acted on exactly once, at the first report at
  least \<open>grace_ms\<close> after the first one, and waited on at every other report.
\<close>

theorem mismatch_acted_on_once:
  assumes "sorted (t0 # ts)" and "0 < t0" and "0 < grace"
  shows "verdicts grace nr_new (t0 # ts) =
    MismatchWait # map (\<lambda>t. MismatchWait) (takeWhile (\<lambda>t. t - t0 < grace) ts) @
    (case dropWhile (\<lambda>t. t - t0 < grace) ts of [] \<Rightarrow> []
     | _ # rest \<Rightarrow> MismatchAct # replicate (length rest) MismatchWait)"
  using verdicts_waiting [of "nr_new\<lparr>nr_since := t0\<rparr>" ts grace] assms
  by (simp add: nr_observe_def nr_new_def Let_def)

lemma mismatch_acted_on_once_witness:
  "verdicts 5000 nr_new [1000, 3000, 6500, 7000] = [MismatchWait, MismatchWait, MismatchAct, MismatchWait]"
  using mismatch_acted_on_once [of 1000 "[3000, 6500, 7000]" 5000] by simp

subsection \<open>The broker's high-water mark\<close>

text \<open>The executor feeds every reported balance into the mark.\<close>

definition hwm_step :: "real \<Rightarrow> real option \<Rightarrow> real option \<Rightarrow> real option" where
  "hwm_step start h b = Some (broker_hwm h start b)"

fun reported :: "real option list \<Rightarrow> real list" where
  "reported [] = []"
| "reported (None # bs) = reported bs"
| "reported (Some b # bs) = b # reported bs"

lemma hwm_run:
  "run (hwm_step start) (Some h) bs = Some (fold max (reported bs) h)" if "start \<le> h"
  using that
proof (induction bs arbitrary: h)
  case (Cons b bs)
  then show ?case
    by (cases b) (auto simp: hwm_step_def broker_hwm_def Let_def max_def)
qed simp

text \<open>
  The broker's trailing drawdown: after any reports, the mark is the maximum of the
  starting balance, the persisted mark and all reported balances, and a balance breaches
  exactly when it is the cap or more below that maximum.
\<close>

theorem broker_drawdown_exact:
  assumes "0 < cap"
  shows "broker_drawdown_breached (Some b) (run (hwm_step start) prev (None # bs)) cap =
    (b \<le> fold max (reported bs) (case prev of None \<Rightarrow> start | Some p \<Rightarrow> max p start) - cap)"
proof -
  have "hwm_step start prev None = Some (case prev of None \<Rightarrow> start | Some p \<Rightarrow> max p start)"
    by (simp add: hwm_step_def broker_hwm_def)
  moreover have "start \<le> (case prev of None \<Rightarrow> start | Some p \<Rightarrow> max p start)"
    by (simp split: option.split)
  ultimately show ?thesis using assms by (simp add: hwm_run broker_drawdown_breached_def)
qed

lemma broker_drawdown_exact_witness:
  "broker_drawdown_breached (Some 48000) (run (hwm_step 50000) (Some 49000) [None, Some 50500, None, Some 50100]) 2000"
  using broker_drawdown_exact [of 2000 48000 50000 "Some 49000" "[Some 50500, None, Some 50100]"] by simp

end
