(* ===== verification/Orb_Strategy.thy ===== *)
theory Orb_Strategy
  imports Config Civil_Time Order_State
begin

section \<open>The opening range breakout strategy\<close>

text \<open>
  \<open>OrbStrategy\<close> of \<open>src/src/execution/orb_strategy.hpp\<close>: one-minute bars, the opening
  range, the breakout signal with its filters, the end-of-day flatten, halts and restart
  seeds.  The extreme doubles a fresh bar and a fresh range start from are \<open>None\<close>.  The
  signal callback is the list of signals sent, when it is wired; the flag \<open>complete\<close> of a bar,
  which nothing reads, is left out.  The class runs on one
  thread.  \<open>OrbSignal\<close> is declared with the order manager's data.
\<close>

subsection \<open>Data\<close>

record orb_tick =
  t_ts :: int
  t_price :: real
  t_size :: int
  t_is_buy :: bool

record minute_bar =
  mb_minute :: int
  mb_open :: real
  mb_high :: "real option"
  mb_low :: "real option"
  mb_close :: real
  mb_volume :: int

definition mb_new :: minute_bar where
  "mb_new = \<lparr>mb_minute = -1, mb_open = 0, mb_high = None, mb_low = None, mb_close = 0, mb_volume = 0\<rparr>"

definition above :: "real \<Rightarrow> real option \<Rightarrow> bool" where
  "above x h = (case h of None \<Rightarrow> True | Some v \<Rightarrow> x > v)"

definition below :: "real \<Rightarrow> real option \<Rightarrow> bool" where
  "below x l = (case l of None \<Rightarrow> True | Some v \<Rightarrow> x < v)"

definition mb_update :: "real \<Rightarrow> int \<Rightarrow> minute_bar \<Rightarrow> minute_bar" where
  "mb_update price sz b =
     (let b1 = (if mb_volume b = 0 then b\<lparr>mb_open := price\<rparr> else b);
          b2 = (if above price (mb_high b1) then b1\<lparr>mb_high := Some price\<rparr> else b1);
          b3 = (if below price (mb_low b2) then b2\<lparr>mb_low := Some price\<rparr> else b2)
      in b3\<lparr>mb_close := price, mb_volume := mb_volume b3 + sz\<rparr>)"

record orb_session =
  os_high :: "real option"
  os_low :: "real option"
  os_set :: bool
  os_trades :: int
  os_in_pos :: bool
  os_halted :: bool
  os_halt_reason :: string

definition os_new :: orb_session where
  "os_new = \<lparr>os_high = None, os_low = None, os_set = False, os_trades = 0, os_in_pos = False,
     os_halted = False, os_halt_reason = []\<rparr>"

record strategy =
  st_cfg :: orb_config
  st_session :: orb_session
  st_bar :: minute_bar
  st_cb :: bool
  st_last :: real
  st_last_h :: int
  st_last_m :: int
  st_eod :: bool
  st_seeded :: bool
  st_last_ts :: int
  st_cooldown :: int
  st_out :: "(orb_signal \<times> real \<times> string) list"

definition st_new :: "orb_config \<Rightarrow> strategy" where
  "st_new c = \<lparr>st_cfg = c, st_session = os_new, st_bar = mb_new, st_cb = False, st_last = 0,
     st_last_h = 0, st_last_m = 0, st_eod = False, st_seeded = False, st_last_ts = 0,
     st_cooldown = 0, st_out = []\<rparr>"

definition set_signal_callback :: "strategy \<Rightarrow> strategy" where
  "set_signal_callback s = s\<lparr>st_cb := True\<rparr>"

definition send_signal :: "orb_signal \<Rightarrow> real \<Rightarrow> string \<Rightarrow> strategy \<Rightarrow> strategy" where
  "send_signal sig px why s = (if st_cb s then s\<lparr>st_out := st_out s @ [(sig, px, why)]\<rparr> else s)"

subsection \<open>Operations\<close>

definition reset_session :: "strategy \<Rightarrow> strategy" where
  "reset_session s = s\<lparr>st_session := os_new, st_bar := mb_new, st_eod := False, st_cooldown := 0, st_seeded := False\<rparr>"

definition is_in_orb_window :: "orb_config \<Rightarrow> int \<Rightarrow> int \<Rightarrow> bool" where
  "is_in_orb_window c h m =
     (let now = h * 60 + m; start = c_session_open_hour c * 60 + c_session_open_min c
      in start \<le> now \<and> now < start + c_orb_minutes c)"

definition is_news_blackout :: "orb_config \<Rightarrow> int \<Rightarrow> int \<Rightarrow> bool" where
  "is_news_blackout c h m =
     (let now = h * 60 + m; buf = c_news_blackout_min c
      in list_ex (\<lambda>(nh, nm). now \<ge> nh * 60 + nm - buf \<and> now \<le> nh * 60 + nm + buf)
           [(8, 30), (10, 0), (14, 0), (14, 30)])"

text \<open>The comparison \<open>orb_high > orb_low\<close>, with the extreme start values.\<close>

definition has_range :: "orb_session \<Rightarrow> bool" where
  "has_range ss = (case (os_high ss, os_low ss) of (Some h, Some l) \<Rightarrow> h > l | _ \<Rightarrow> False)"

definition handle_completed_bar :: "minute_bar \<Rightarrow> int \<Rightarrow> int \<Rightarrow> strategy \<Rightarrow> strategy" where
  "handle_completed_bar b h m s =
     (if mb_volume b = 0 then s
      else
       (let c = st_cfg s; ss = st_session s;
            orb_end = c_session_open_hour c * 60 + c_session_open_min c + c_orb_minutes c
        in if \<not> os_set ss \<and> h * 60 + m \<ge> orb_end \<and> has_range ss
           then s\<lparr>st_session := ss\<lparr>os_set := True\<rparr>\<rparr> else s))"

definition enter_signal :: "orb_signal \<Rightarrow> real \<Rightarrow> string \<Rightarrow> strategy \<Rightarrow> strategy" where
  "enter_signal sig px why s =
     (let s1 = send_signal sig px why s; ss = st_session s1
      in s1\<lparr>st_session := ss\<lparr>os_in_pos := True, os_trades := os_trades ss + 1\<rparr>\<rparr>)"

text \<open>
  The levels are only read after the range is set; a range that is set has both ends, so
  \<open>the\<close> is never applied to \<open>None\<close> (see \<open>range_ok\<close> below).
\<close>

definition buy_level :: "strategy \<Rightarrow> real" where
  "buy_level s = the (os_high (st_session s)) + c_breakout_buffer (st_cfg s)"

definition sell_level :: "strategy \<Rightarrow> real" where
  "sell_level s = the (os_low (st_session s)) - c_breakout_buffer (st_cfg s)"

definition check_breakout :: "real \<Rightarrow> real \<Rightarrow> strategy \<Rightarrow> strategy" where
  "check_breakout price prev s =
     (if os_in_pos (st_session s) then s
      else if st_last_ts s < st_cooldown s then s
      else
       (let no_prev = (prev \<le> 0)
        in if price > buy_level s \<and> (no_prev \<or> prev \<le> buy_level s)
           then enter_signal BUY price ''orb_breakout_long'' s
           else if price < sell_level s \<and> (no_prev \<or> prev \<ge> sell_level s)
           then enter_signal SELL price ''orb_breakout_short'' s
           else s))"

text \<open>The bar and the clock of a tick: everything \<open>on_tick\<close> does before it decides.\<close>

definition advance :: "orb_tick \<Rightarrow> int \<Rightarrow> int \<Rightarrow> strategy \<Rightarrow> strategy" where
  "advance t h m s =
     (let cur = cdiv (cdiv (t_ts t) 1000000) 60;
          s1 = (if mb_minute (st_bar s) < 0 then s\<lparr>st_bar := (st_bar s)\<lparr>mb_minute := cur\<rparr>\<rparr> else s);
          s2 = (if cur \<noteq> mb_minute (st_bar s1)
                then (handle_completed_bar (st_bar s1) h m s1)\<lparr>st_bar := mb_new\<lparr>mb_minute := cur\<rparr>\<rparr> else s1)
      in s2\<lparr>st_bar := mb_update (t_price t) (t_size t) (st_bar s2), st_last := t_price t,
            st_last_ts := t_ts t, st_last_h := h, st_last_m := m\<rparr>)"

definition widen_range :: "real \<Rightarrow> orb_session \<Rightarrow> orb_session" where
  "widen_range px ss =
     (let ss1 = (if above px (os_high ss) then ss\<lparr>os_high := Some px\<rparr> else ss)
      in if below px (os_low ss1) then ss1\<lparr>os_low := Some px\<rparr> else ss1)"

definition on_tick :: "orb_tick \<Rightarrow> strategy \<Rightarrow> strategy" where
  "on_tick t s =
     (if os_halted (st_session s) then s
      else
       (let (h, m, sec) = utc_micros_to_et (t_ts t); prev = st_last s; c = st_cfg s;
            s1 = advance t h m s
        in if st_seeded s1 then s1\<lparr>st_seeded := False\<rparr>
           else if \<not> os_set (st_session s1) then
             (if is_in_orb_window c h m then s1\<lparr>st_session := widen_range (t_price t) (st_session s1)\<rparr> else s1)
           else if os_trades (st_session s1) \<ge> c_max_daily_trades c then s1
           else if h * 60 + m \<ge> c_last_entry_hour c * 60 + c_last_entry_min c then s1
           else if is_news_blackout c h m then s1
           else check_breakout (t_price t) prev s1))"

definition emit_eod_flatten :: "strategy \<Rightarrow> strategy" where
  "emit_eod_flatten s =
     (if st_eod s then s else send_signal FLATTEN_EOD (st_last s) ''eod_flatten'' (s\<lparr>st_eod := True\<rparr>))"

definition check_eod :: "int \<Rightarrow> int \<Rightarrow> strategy \<Rightarrow> strategy" where
  "check_eod h m s =
     (if h > c_eod_flatten_hour (st_cfg s) then emit_eod_flatten s
      else if h = c_eod_flatten_hour (st_cfg s) \<and> m \<ge> c_eod_flatten_min (st_cfg s) then emit_eod_flatten s
      else s)"

definition halt_trading :: "string \<Rightarrow> strategy \<Rightarrow> strategy" where
  "halt_trading why s = s\<lparr>st_session := (st_session s)\<lparr>os_halted := True, os_halt_reason := why\<rparr>\<rparr>"

definition unhalt_trading :: "strategy \<Rightarrow> strategy" where
  "unhalt_trading s =
     (if \<not> os_halted (st_session s) then s
      else s\<lparr>st_session := (st_session s)\<lparr>os_halted := False, os_halt_reason := []\<rparr>\<rparr>)"

definition notify_trade_filled :: "strategy \<Rightarrow> strategy" where
  "notify_trade_filled s =
     (let s1 = s\<lparr>st_session := (st_session s)\<lparr>os_in_pos := False\<rparr>\<rparr>
      in if c_stop_cooldown_secs (st_cfg s) > 0
         then s1\<lparr>st_cooldown := st_last_ts s + c_stop_cooldown_secs (st_cfg s) * 1000000\<rparr> else s1)"

definition seed_trades_today :: "int \<Rightarrow> strategy \<Rightarrow> strategy" where
  "seed_trades_today n s = s\<lparr>st_session := (st_session s)\<lparr>os_trades := n\<rparr>\<rparr>"

definition seed_orb_range :: "real \<Rightarrow> real \<Rightarrow> strategy \<Rightarrow> strategy" where
  "seed_orb_range hi lo s =
     s\<lparr>st_session := (st_session s)\<lparr>os_high := Some hi, os_low := Some lo, os_set := True\<rparr>, st_seeded := True\<rparr>"

subsection \<open>Runs\<close>

datatype st_event =
    Tick orb_tick
  | EodCheck int int
  | Halt string
  | Unhalt
  | TradeFilled
  | SeedTrades int
  | SeedRange real real
  | ResetSession

fun st_step :: "strategy \<Rightarrow> st_event \<Rightarrow> strategy" where
  "st_step s (Tick t) = on_tick t s"
| "st_step s (EodCheck h m) = check_eod h m s"
| "st_step s (Halt why) = halt_trading why s"
| "st_step s Unhalt = unhalt_trading s"
| "st_step s TradeFilled = notify_trade_filled s"
| "st_step s (SeedTrades n) = seed_trades_today n s"
| "st_step s (SeedRange hi lo) = seed_orb_range hi lo s"
| "st_step s ResetSession = reset_session s"

end
