(* ===== verification/Orb_Props.thy ===== *)
theory Orb_Props
  imports Orb_Strategy
begin

section \<open>Properties of the breakout strategy\<close>

text \<open>
  How many signals a session can produce, what every signal has passed, that the range is
  the range of the opening window, and that the end-of-day flatten goes out once.
\<close>

subsection \<open>What the operations leave alone\<close>

lemma mb_update_minute [simp]: "mb_minute (mb_update px sz b) = mb_minute b"
  by (simp add: mb_update_def Let_def)

lemma mb_update_volume [simp]: "mb_volume (mb_update px sz b) = mb_volume b + sz"
  by (simp add: mb_update_def Let_def)

lemma handle_completed_bar_frame [simp]:
  "st_cfg (handle_completed_bar b h m s) = st_cfg s" "st_out (handle_completed_bar b h m s) = st_out s"
  "st_cb (handle_completed_bar b h m s) = st_cb s" "st_seeded (handle_completed_bar b h m s) = st_seeded s"
  "st_eod (handle_completed_bar b h m s) = st_eod s" "st_cooldown (handle_completed_bar b h m s) = st_cooldown s"
  "st_bar (handle_completed_bar b h m s) = st_bar s"
  "os_trades (st_session (handle_completed_bar b h m s)) = os_trades (st_session s)"
  "os_in_pos (st_session (handle_completed_bar b h m s)) = os_in_pos (st_session s)"
  "os_halted (st_session (handle_completed_bar b h m s)) = os_halted (st_session s)"
  "os_high (st_session (handle_completed_bar b h m s)) = os_high (st_session s)"
  "os_low (st_session (handle_completed_bar b h m s)) = os_low (st_session s)"
  by (simp_all add: handle_completed_bar_def Let_def)

lemma advance_frame [simp]:
  "st_cfg (advance t h m s) = st_cfg s" "st_out (advance t h m s) = st_out s"
  "st_cb (advance t h m s) = st_cb s" "st_seeded (advance t h m s) = st_seeded s"
  "st_eod (advance t h m s) = st_eod s" "st_cooldown (advance t h m s) = st_cooldown s"
  "st_last (advance t h m s) = t_price t" "st_last_ts (advance t h m s) = t_ts t"
  "os_trades (st_session (advance t h m s)) = os_trades (st_session s)"
  "os_in_pos (st_session (advance t h m s)) = os_in_pos (st_session s)"
  "os_halted (st_session (advance t h m s)) = os_halted (st_session s)"
  "os_high (st_session (advance t h m s)) = os_high (st_session s)"
  "os_low (st_session (advance t h m s)) = os_low (st_session s)"
  by (simp_all add: advance_def Let_def)

lemma widen_range_frame [simp]:
  "os_set (widen_range px ss) = os_set ss" "os_trades (widen_range px ss) = os_trades ss"
  "os_in_pos (widen_range px ss) = os_in_pos ss" "os_halted (widen_range px ss) = os_halted ss"
  by (simp_all add: widen_range_def Let_def)

lemma enter_signal_out:
  "st_out (enter_signal sig px why s) = (if st_cb s then st_out s @ [(sig, px, why)] else st_out s)"
  "os_trades (st_session (enter_signal sig px why s)) = os_trades (st_session s) + 1"
  "st_eod (enter_signal sig px why s) = st_eod s" "st_cb (enter_signal sig px why s) = st_cb s"
  "st_cfg (enter_signal sig px why s) = st_cfg s"
  "os_set (st_session (enter_signal sig px why s)) = os_set (st_session s)"
  "os_high (st_session (enter_signal sig px why s)) = os_high (st_session s)"
  "os_low (st_session (enter_signal sig px why s)) = os_low (st_session s)"
  by (simp_all add: enter_signal_def send_signal_def Let_def)

lemma send_signal_frame [simp]:
  "st_session (send_signal sig px why s) = st_session s" "st_eod (send_signal sig px why s) = st_eod s"
  "st_cfg (send_signal sig px why s) = st_cfg s" "st_cb (send_signal sig px why s) = st_cb s"
  by (simp_all add: send_signal_def)

text \<open>Everything a tick can do to the signals: nothing, or one entry with all filters passed.\<close>

definition entry_passed :: "orb_tick \<Rightarrow> strategy \<Rightarrow> orb_signal \<Rightarrow> bool" where
  "entry_passed t s sig =
     (let (h, m, sec) = utc_micros_to_et (t_ts t); c = st_cfg s; s1 = advance t h m s
      in \<not> os_halted (st_session s) \<and> \<not> st_seeded s \<and> os_set (st_session s1) \<and>
         \<not> os_in_pos (st_session s) \<and> os_trades (st_session s) < c_max_daily_trades c \<and>
         st_cooldown s \<le> t_ts t \<and>
         h * 60 + m < c_last_entry_hour c * 60 + c_last_entry_min c \<and> \<not> is_news_blackout c h m \<and>
         (if sig = BUY then buy_level s1 < t_price t \<and> (st_last s \<le> 0 \<or> st_last s \<le> buy_level s1)
          else t_price t < sell_level s1 \<and> (st_last s \<le> 0 \<or> sell_level s1 \<le> st_last s)))"

lemma on_tick_cases:
  "(st_out (on_tick t s) = st_out s \<and> os_trades (st_session (on_tick t s)) = os_trades (st_session s)) \<or>
   (\<exists>sig why. (sig = BUY \<or> sig = SELL) \<and> entry_passed t s sig \<and>
      st_out (on_tick t s) = (if st_cb s then st_out s @ [(sig, t_price t, why)] else st_out s) \<and>
      os_trades (st_session (on_tick t s)) = os_trades (st_session s) + 1)"
proof -
  obtain h m sec where clk: "utc_micros_to_et (t_ts t) = (h, m, sec)" by (metis prod_cases3)
  define s1 where "s1 = advance t h m s"
  have f: "st_out s1 = st_out s" "os_trades (st_session s1) = os_trades (st_session s)" "st_cb s1 = st_cb s"
    "st_seeded s1 = st_seeded s" "os_in_pos (st_session s1) = os_in_pos (st_session s)"
    "st_last_ts s1 = t_ts t" "st_cooldown s1 = st_cooldown s"
    by (simp_all add: s1_def)
  show ?thesis
    by (auto simp: on_tick_def clk check_breakout_def entry_passed_def Let_def enter_signal_out f not_le not_less
        simp flip: s1_def)
qed

lemma check_eod_frame [simp]:
  "st_session (check_eod h m s) = st_session s" "st_cb (check_eod h m s) = st_cb s" "st_cfg (check_eod h m s) = st_cfg s"
  by (simp_all add: check_eod_def emit_eod_flatten_def)

lemma on_tick_cfg [simp]: "st_cfg (on_tick t s) = st_cfg s" "st_cb (on_tick t s) = st_cb s" "st_eod (on_tick t s) = st_eod s"
  by (simp_all add: on_tick_def check_breakout_def Let_def enter_signal_out split: prod.split)

subsection \<open>How many signals\<close>

definition is_entry :: "orb_signal \<times> real \<times> string \<Rightarrow> bool" where
  "is_entry x = (fst x = BUY \<or> fst x = SELL)"

definition entries :: "strategy \<Rightarrow> int" where
  "entries s = int (length (filter is_entry (st_out s)))"

fun within_session :: "st_event \<Rightarrow> bool" where
  "within_session (SeedTrades n) = False"
| "within_session ResetSession = False"
| "within_session _ = True"

lemma entries_step:
  assumes "within_session ev" and "st_cb s"
  shows "entries (st_step s ev) - os_trades (st_session (st_step s ev)) = entries s - os_trades (st_session s) \<and>
    os_trades (st_session s) \<le> os_trades (st_session (st_step s ev)) \<and>
    (os_trades (st_session (st_step s ev)) = os_trades (st_session s) \<or>
     os_trades (st_session (st_step s ev)) \<le> c_max_daily_trades (st_cfg s)) \<and>
    st_cb (st_step s ev) \<and> st_cfg (st_step s ev) = st_cfg s"
proof (cases ev)
  case (Tick t)
  consider "st_out (on_tick t s) = st_out s" "os_trades (st_session (on_tick t s)) = os_trades (st_session s)"
    | sig why where "sig = BUY \<or> sig = SELL" "entry_passed t s sig"
      "st_out (on_tick t s) = st_out s @ [(sig, t_price t, why)]"
      "os_trades (st_session (on_tick t s)) = os_trades (st_session s) + 1"
    using on_tick_cases [of t s] assms(2) by auto
  then show ?thesis
  proof cases
    case 1
    then show ?thesis using assms(2) Tick by (simp add: entries_def)
  next
    case 2
    then have "os_trades (st_session s) < c_max_daily_trades (st_cfg s)"
      by (simp add: entry_passed_def Let_def split: prod.splits)
    then show ?thesis using 2 assms(2) Tick by (auto simp: entries_def is_entry_def)
  qed
qed (use assms in \<open>simp_all add: check_eod_def emit_eod_flatten_def send_signal_def entries_def is_entry_def
  halt_trading_def unhalt_trading_def notify_trade_filled_def seed_orb_range_def Let_def\<close>)

lemma entries_run:
  assumes "list_all within_session evs" and "st_cb s"
  shows "entries (run st_step s evs) - os_trades (st_session (run st_step s evs)) = entries s - os_trades (st_session s) \<and>
    os_trades (st_session (run st_step s evs)) \<le> max (os_trades (st_session s)) (c_max_daily_trades (st_cfg s))"
  using assms
proof (induction evs arbitrary: s)
  case Nil
  then show ?case by simp
next
  case (Cons ev evs)
  from Cons.prems entries_step [of ev s] Cons.IH [of "st_step s ev"] show ?case by auto
qed

text \<open>
  C18.  Trade cap: whatever ticks, halts, closes and restored ranges a session sees, it sends
  at most \<open>max_daily_trades\<close> entry signals, and \<open>trades_today\<close> counts exactly those sent.
\<close>

theorem entries_capped:
  assumes "list_all within_session evs" and "st_cb s"
  shows "entries (run st_step (reset_session s) evs) - entries s = os_trades (st_session (run st_step (reset_session s) evs)) \<and>
    entries (run st_step (reset_session s) evs) - entries s \<le> max 0 (c_max_daily_trades (st_cfg s))"
proof -
  have "entries (reset_session s) = entries s" "os_trades (st_session (reset_session s)) = 0"
    "st_cb (reset_session s)" "st_cfg (reset_session s) = st_cfg s"
    using assms(2) by (simp_all add: reset_session_def entries_def os_new_def)
  then show ?thesis using entries_run [of evs "reset_session s"] assms(1) by simp
qed

text \<open>
  C19.  Every entry signal has passed every filter: trading not halted, the tick not the
  first after a seeded restart, the range set, no trade open, the cap not reached, the
  cooldown over, before the entry cutoff, outside every news window, and the price has
  crossed the level from the previous price inside it (or there was none).  One tick sends
  at most one.
\<close>

theorem entry_signal_filtered:
  assumes "x \<in> set (drop (length (st_out s)) (st_out (on_tick t s)))"
  shows "entry_passed t s (fst x) \<and> (fst x = BUY \<or> fst x = SELL) \<and> fst (snd x) = t_price t \<and>
    length (st_out (on_tick t s)) = Suc (length (st_out s))"
  using assms on_tick_cases [of t s] by (auto split: if_splits)

text \<open>
  A small session, 2 June 2025: a range from 90 to 100, two ticks of the minute after it,
  an upward cross at 9:46 and, past the cooldown of a stopped trade, a downward one.
\<close>

definition st_wired :: "orb_config \<Rightarrow> strategy" where
  "st_wired c = set_signal_callback (st_new c)"

definition demo_ticks :: "orb_tick list" where
  "demo_ticks = map (\<lambda>(sec, px). \<lparr>t_ts = (1748871000 + sec) * 1000000, t_price = px, t_size = 1, t_is_buy = True\<rparr>)
     [(0, 100), (600, 90), (900, 95), (930, 96), (960, 101), (1020, 95), (1080, 89)]"

definition demo_day :: "st_event list" where
  "demo_day = map Tick (take 5 demo_ticks) @ [TradeFilled] @ map Tick (drop 5 demo_ticks)"

lemma entries_capped_witness: "entries (run st_step (reset_session (st_wired default_config)) demo_day) = 2 \<and> (2::int) \<le> 3"
proof -
  have "list_all within_session demo_day" by code_simp
  from entries_capped [OF this, of "st_wired default_config"]
  have "entries (run st_step (reset_session (st_wired default_config)) demo_day) =
      os_trades (st_session (run st_step (reset_session (st_wired default_config)) demo_day))"
    by (simp add: st_wired_def set_signal_callback_def st_new_def entries_def)
  moreover have "os_trades (st_session (run st_step (reset_session (st_wired default_config)) demo_day)) = 2"
    by code_simp
  ultimately show ?thesis by simp
qed

lemma entry_signal_filtered_witness:
  "entry_passed (demo_ticks ! 4) (run st_step (reset_session (st_wired default_config)) (map Tick (take 4 demo_ticks))) BUY"
proof -
  define s where "s = run st_step (reset_session (st_wired default_config)) (map Tick (take 4 demo_ticks))"
  have "(BUY, 101, ''orb_breakout_long'') \<in> set (drop (length (st_out s)) (st_out (on_tick (demo_ticks ! 4) s)))"
    unfolding s_def by code_simp
  from entry_signal_filtered [OF this] show ?thesis by (simp add: s_def)
qed

subsection \<open>The opening range\<close>

definition tick_minute :: "orb_tick \<Rightarrow> int" where
  "tick_minute t = (let (h, m, sec) = utc_micros_to_et (t_ts t) in h * 60 + m)"

definition in_opening :: "orb_config \<Rightarrow> orb_tick \<Rightarrow> bool" where
  "in_opening c t = (let (h, m, sec) = utc_micros_to_et (t_ts t) in is_in_orb_window c h m)"

definition max_price :: "real list \<Rightarrow> real option" where
  "max_price ps = (if ps = [] then None else Some (Max (set ps)))"

definition min_price :: "real list \<Rightarrow> real option" where
  "min_price ps = (if ps = [] then None else Some (Min (set ps)))"

lemma max_price_push: "max_price (max v p # ps) = max_price (v # p # ps)"
  by (cases "ps = []") (simp_all add: max_price_def max.assoc)

lemma min_price_push: "min_price (min v p # ps) = min_price (v # p # ps)"
  by (cases "ps = []") (simp_all add: min_price_def min.assoc)

lemma fold_widen:
  "os_high (fold widen_range ps ss) = (case os_high ss of None \<Rightarrow> max_price ps | Some v \<Rightarrow> max_price (v # ps)) \<and>
   os_low (fold widen_range ps ss) = (case os_low ss of None \<Rightarrow> min_price ps | Some v \<Rightarrow> min_price (v # ps))"
proof (induction ps arbitrary: ss)
  case Nil
  then show ?case by (simp add: max_price_def min_price_def split: option.split)
next
  case (Cons p ps)
  have "os_high (widen_range p ss) = Some (case os_high ss of None \<Rightarrow> p | Some v \<Rightarrow> max v p)"
    "os_low (widen_range p ss) = Some (case os_low ss of None \<Rightarrow> p | Some v \<Rightarrow> min v p)"
    by (auto simp: widen_range_def above_def below_def Let_def split: option.split)
  with Cons.IH [of "widen_range p ss"] show ?case
    by (simp add: max_price_push min_price_push split: option.split)
qed

lemma fold_widen_cong:
  assumes "os_high ss = os_high ss'" and "os_low ss = os_low ss'"
  shows "os_high (fold widen_range ps ss) = os_high (fold widen_range ps ss')"
    and "os_low (fold widen_range ps ss) = os_low (fold widen_range ps ss')"
  using assms by (simp_all add: fold_widen)

definition orb_end :: "orb_config \<Rightarrow> int" where
  "orb_end c = c_session_open_hour c * 60 + c_session_open_min c + c_orb_minutes c"

lemma in_opening_before_end: "in_opening c t \<Longrightarrow> tick_minute t < orb_end c"
  by (auto simp: in_opening_def tick_minute_def is_in_orb_window_def orb_end_def Let_def split: prod.splits)

lemma advance_set:
  assumes "utc_micros_to_et (t_ts t) = (h, m, sec)" and "os_set (st_session (advance t h m s))"
  shows "os_set (st_session s) \<or> orb_end (st_cfg s) \<le> tick_minute t"
  using assms by (auto simp: advance_def handle_completed_bar_def tick_minute_def orb_end_def Let_def split: if_splits)

lemma advance_keeps_set: "os_set (st_session s) \<Longrightarrow> os_set (st_session (advance t h m s))"
  by (auto simp: advance_def handle_completed_bar_def Let_def)

lemma check_breakout_frame [simp]:
  "os_high (st_session (check_breakout px prev s)) = os_high (st_session s)"
  "os_low (st_session (check_breakout px prev s)) = os_low (st_session s)"
  "os_set (st_session (check_breakout px prev s)) = os_set (st_session s)"
  "os_halted (st_session (check_breakout px prev s)) = os_halted (st_session s)"
  "st_seeded (check_breakout px prev s) = st_seeded s"
  by (simp_all add: check_breakout_def enter_signal_def send_signal_def Let_def)

definition ranged :: "orb_tick \<Rightarrow> strategy \<Rightarrow> orb_session" where
  "ranged t s = fold widen_range (if in_opening (st_cfg s) t then [t_price t] else []) (st_session s)"

lemma on_tick_range:
  assumes "\<not> os_halted (st_session s)" and "\<not> st_seeded s"
    and set: "os_set (st_session s) \<longrightarrow> orb_end (st_cfg s) \<le> tick_minute t"
  shows "os_high (st_session (on_tick t s)) = os_high (ranged t s) \<and>
    os_low (st_session (on_tick t s)) = os_low (ranged t s) \<and>
    \<not> os_halted (st_session (on_tick t s)) \<and> \<not> st_seeded (on_tick t s) \<and>
    (os_set (st_session (on_tick t s)) \<longrightarrow> os_set (st_session s) \<or> orb_end (st_cfg s) \<le> tick_minute t)"
proof -
  obtain h m sec where clk: "utc_micros_to_et (t_ts t) = (h, m, sec)" by (metis prod_cases3)
  define s1 where "s1 = advance t h m s"
  have f: "os_high (st_session s1) = os_high (st_session s)" "os_low (st_session s1) = os_low (st_session s)"
    "os_halted (st_session s1) = os_halted (st_session s)" "st_seeded s1 = st_seeded s" "st_cfg s1 = st_cfg s"
    by (simp_all add: s1_def)
  have win: "is_in_orb_window (st_cfg s) h m = in_opening (st_cfg s) t"
    by (simp add: in_opening_def clk)
  have s1: "os_set (st_session s1) \<Longrightarrow> os_set (st_session s) \<or> orb_end (st_cfg s) \<le> tick_minute t"
    unfolding s1_def by (rule advance_set [OF clk])
  then have out: "os_set (st_session s1) \<Longrightarrow> \<not> in_opening (st_cfg s) t"
    using set in_opening_before_end [of "st_cfg s" t] by auto
  show ?thesis
  proof (cases "os_set (st_session s1)")
    case True
    with assms out s1 show ?thesis
      by (auto simp: on_tick_def clk Let_def ranged_def f simp flip: s1_def)
  next
    case False
    have w: "os_high (widen_range p (st_session s1)) = os_high (widen_range p (st_session s))"
      "os_low (widen_range p (st_session s1)) = os_low (widen_range p (st_session s))" for p
      using fold_widen_cong [of "st_session s1" "st_session s" "[p]"] f by simp_all
    from False assms show ?thesis
      by (simp add: on_tick_def clk Let_def ranged_def f win w flip: s1_def)
  qed
qed

lemma range_run:
  assumes "sorted (map tick_minute ts)" and "\<not> os_halted (st_session s)" and "\<not> st_seeded s"
    and "os_set (st_session s) \<Longrightarrow> \<forall>t\<in>set ts. orb_end (st_cfg s) \<le> tick_minute t"
  shows "os_high (st_session (run st_step s (map Tick ts))) =
      os_high (fold widen_range (map t_price (filter (in_opening (st_cfg s)) ts)) (st_session s)) \<and>
    os_low (st_session (run st_step s (map Tick ts))) =
      os_low (fold widen_range (map t_price (filter (in_opening (st_cfg s)) ts)) (st_session s))"
  using assms
proof (induction ts arbitrary: s)
  case Nil
  then show ?case by simp
next
  case (Cons t ts)
  have step: "os_high (st_session (on_tick t s)) = os_high (ranged t s)"
    "os_low (st_session (on_tick t s)) = os_low (ranged t s)"
    "\<not> os_halted (st_session (on_tick t s))" "\<not> st_seeded (on_tick t s)"
    "os_set (st_session (on_tick t s)) \<Longrightarrow> os_set (st_session s) \<or> orb_end (st_cfg s) \<le> tick_minute t"
    using on_tick_range [of s t] Cons.prems by auto
  have later: "\<forall>u\<in>set ts. orb_end (st_cfg (on_tick t s)) \<le> tick_minute u" if "os_set (st_session (on_tick t s))"
    using step(5) [OF that] Cons.prems(1,4) by fastforce
  have "os_high (fold widen_range ps (st_session (on_tick t s))) = os_high (fold widen_range ps (ranged t s))"
    "os_low (fold widen_range ps (st_session (on_tick t s))) = os_low (fold widen_range ps (ranged t s))" for ps
    using fold_widen_cong step(1,2) by blast+
  with Cons.IH [of "on_tick t s"] step(3,4) later Cons.prems(1) show ?case
    by (simp add: ranged_def)
qed


subsection \<open>A range that is set has both ends\<close>

definition range_ok :: "orb_session \<Rightarrow> bool" where
  "range_ok ss = (os_set ss \<longrightarrow> os_high ss \<noteq> None \<and> os_low ss \<noteq> None)"

lemma widen_keeps_ends:
  "os_high ss \<noteq> None \<Longrightarrow> os_high (widen_range p ss) \<noteq> None" "os_low ss \<noteq> None \<Longrightarrow> os_low (widen_range p ss) \<noteq> None"
  by (auto simp: widen_range_def Let_def)

lemma advance_range_ok:
  "range_ok (st_session s) \<Longrightarrow> range_ok (st_session (advance t h m s))"
  by (auto simp: range_ok_def advance_def handle_completed_bar_def has_range_def Let_def split: option.splits if_splits)

lemma range_ok_on_tick:
  assumes "range_ok (st_session s)"
  shows "range_ok (st_session (on_tick t s))"
proof -
  obtain h m sec where clk: "utc_micros_to_et (t_ts t) = (h, m, sec)" by (metis prod_cases3)
  define s1 where "s1 = advance t h m s"
  have "range_ok (st_session s1)" unfolding s1_def using assms by (rule advance_range_ok)
  with assms show ?thesis
    by (auto simp: on_tick_def clk Let_def range_ok_def simp flip: s1_def)
qed

text \<open>
  Whatever happens to a strategy, from its construction on, a set range has both ends:
  the breakout levels are never computed from the extreme start values.
\<close>

theorem set_range_has_ends:
  "range_ok (st_session (run st_step (st_new c) evs))"
proof (rule run_invariant [where I = "\<lambda>s. range_ok (st_session s)"])
  show "range_ok (st_session (st_new c))" by (simp add: range_ok_def st_new_def os_new_def)
next
  fix s :: strategy and ev
  assume "range_ok (st_session s)"
  then show "range_ok (st_session (st_step s ev))"
    by (cases ev) (auto simp: range_ok_on_tick, auto simp: range_ok_def halt_trading_def unhalt_trading_def
      notify_trade_filled_def seed_trades_today_def seed_orb_range_def reset_session_def os_new_def Let_def)
qed

subsection \<open>End of day\<close>

definition flattens :: "strategy \<Rightarrow> nat" where
  "flattens s = length (filter (\<lambda>x. fst x = FLATTEN_EOD) (st_out s))"

fun eod_due :: "orb_config \<Rightarrow> st_event \<Rightarrow> bool" where
  "eod_due c (EodCheck h m) = (c_eod_flatten_hour c < h \<or> (h = c_eod_flatten_hour c \<and> c_eod_flatten_min c \<le> m))"
| "eod_due c _ = False"

lemma eod_step:
  assumes "ev \<noteq> ResetSession" and "st_cb s"
  shows "flattens (st_step s ev) = flattens s + (if \<not> st_eod s \<and> eod_due (st_cfg s) ev then 1 else 0) \<and>
    (st_eod (st_step s ev) = (st_eod s \<or> eod_due (st_cfg s) ev)) \<and> st_cb (st_step s ev) \<and> st_cfg (st_step s ev) = st_cfg s"
proof (cases ev)
  case (Tick t)
  with assms on_tick_cases [of t s] show ?thesis by (auto simp: flattens_def)
qed (use assms in \<open>auto simp: check_eod_def emit_eod_flatten_def send_signal_def flattens_def halt_trading_def
  unhalt_trading_def notify_trade_filled_def seed_trades_today_def seed_orb_range_def Let_def\<close>)

lemma eod_run:
  assumes "ResetSession \<notin> set evs" and "st_cb s"
  shows "flattens (run st_step s evs) = flattens s + (if \<not> st_eod s \<and> list_ex (eod_due (st_cfg s)) evs then 1 else 0)"
  using assms
proof (induction evs arbitrary: s)
  case Nil
  then show ?case by simp
next
  case (Cons ev evs)
  with eod_step [of ev s] Cons.IH [of "st_step s ev"] show ?case by auto
qed

text \<open>
  The end-of-day flatten goes out exactly once in a session in which the clock passes
  the flatten time, however often it is checked afterwards and whatever trades, halts or
  ticks come between, and never in a session in which it does not.
\<close>

theorem eod_flatten_once:
  assumes "ResetSession \<notin> set evs" and "st_cb s"
  shows "flattens (run st_step (reset_session s) evs) = flattens s + (if list_ex (eod_due (st_cfg s)) evs then 1 else 0)"
  using eod_run [of evs "reset_session s"] assms by (simp add: reset_session_def flattens_def)


lemma eod_flatten_once_witness:
  "flattens (run st_step (reset_session (st_wired default_config))
     (demo_day @ [EodCheck 15 54, EodCheck 15 55, Halt [], EodCheck 16 0])) = 1"
proof -
  have "ResetSession \<notin> set (demo_day @ [EodCheck 15 54, EodCheck 15 55, Halt [], EodCheck 16 0])"
    by (auto simp: demo_day_def)
  from eod_flatten_once [OF this, of "st_wired default_config"] show ?thesis
    by (simp add: st_wired_def set_signal_callback_def st_new_def flattens_def default_config_def)
qed

subsection \<open>A previous price from before a halt\<close>

text \<open>
  While trading is halted the strategy does not record prices, so the first tick after
  the halt is compared with the last price from before it: a market that left the range
  during the halt and has been outside ever since fires a breakout signal as if it had just
  crossed the level.
\<close>

theorem stale_cross_after_halt:
  "map (\<lambda>x. (fst x, fst (snd x)))
     (st_out (run st_step (reset_session (st_wired default_config))
        (map Tick (take 4 demo_ticks) @
         [Halt ''manual'', Tick ((demo_ticks ! 4)\<lparr>t_price := 130\<rparr>), Unhalt, Tick ((demo_ticks ! 5)\<lparr>t_price := 131\<rparr>)])))
   = [(BUY, 131)]"
  by code_simp

end
