(* ===== verification/Paper_Core.thy ===== *)
theory Paper_Core
  imports Quote Risk Civil_Time Orb_Strategy
begin

section \<open>What the two paper brokers share\<close>

text \<open>
  The rows of \<open>src/src/paper/paper_db.hpp\<close> and the members, helpers and code that
  \<open>PaperBroker\<close> (\<open>src/src/paper/paper_broker.hpp\<close>) and \<open>PaperBracketBroker\<close>
  (\<open>src/src/paper/paper_bracket_broker.hpp\<close>) both have, as a record that each broker extends.
  What a broker hands to its store and to the host's \<open>on_trade_closed\<close> is appended to
  \<open>bk_out\<close>; \<open>bk_store\<close> and \<open>bk_closed_cb\<close> say whether they are wired.  The host's regime
  pointer is an argument of the operations that read it.
\<close>

subsection \<open>Rows\<close>

record position_row =
  pr_id :: string
  pr_dir :: int
  pr_qty :: int
  pr_entry :: real
  pr_entry_us :: int
  pr_stop :: real
  pr_target :: real
  pr_unreal :: real

record trade_row =
  tr_id :: string
  tr_account :: string
  tr_symbol :: string
  tr_direction :: string
  tr_qty :: int
  tr_entry_us :: int
  tr_entry :: real
  tr_exit_us :: int
  tr_exit :: real
  tr_pnl_pts :: real
  tr_pnl_usd :: real
  tr_commission :: real
  tr_mae :: real
  tr_mfe :: real
  tr_reason :: string
  tr_entry_bbo :: real
  tr_exit_bbo :: real
  tr_pnl_bbo :: real
  tr_spread_entry :: real
  tr_spread_exit :: real
  tr_fill_model :: string

record signal_row =
  sg_id :: string
  sg_account :: string
  sg_direction :: string
  sg_decision :: string
  sg_reason :: string
  sg_ts :: int
  sg_price :: real
  sg_spread :: real
  sg_imbalance :: real
  sg_micro :: real
  sg_spread_rel :: real

datatype paper_out =
    RecordSignal signal_row
  | RecordTrade trade_row
  | SavePosition position_row
  | TradeClosed trade_row

subsection \<open>The common members\<close>

record broker =
  bk_id :: string
  bk_account :: string
  bk_symbol :: string
  bk_cfg :: orb_config
  bk_tick :: real
  bk_slip :: real
  bk_store :: bool
  bk_closed_cb :: bool
  bk_qs :: quote_state
  bk_entry_bbo :: real
  bk_spread_entry :: real
  bk_last_price :: real
  bk_pending_since :: int
  bk_risk :: risk
  bk_dir :: int
  bk_qty :: int
  bk_entry :: real
  bk_stop :: real
  bk_entry_us :: int
  bk_mfe :: real
  bk_mae :: real
  bk_pending :: int
  bk_warmup :: bool
  bk_dropped :: int
  bk_exit_reason :: string
  bk_last_us :: int
  bk_hour :: int
  bk_min :: int
  bk_out :: "paper_out list"

definition bk_halted :: "'a broker_scheme \<Rightarrow> bool" where
  "bk_halted b = rk_halted (bk_risk b)"

definition bk_unrealized :: "real \<Rightarrow> 'a broker_scheme \<Rightarrow> real" where
  "bk_unrealized price b =
     (if bk_dir b = 0 then 0
      else (price - bk_entry b) * of_int (bk_dir b) * c_point_value (bk_cfg b) * of_int (bk_qty b))"

text \<open>The adverse direction of the tick grid: down for a long stop, up for a short one.\<close>

definition bk_snap :: "real \<Rightarrow> int \<Rightarrow> 'a broker_scheme \<Rightarrow> real" where
  "bk_snap px dir b =
     (if bk_tick b \<le> 0 then px
      else (let t = px / bk_tick b
            in of_int (if dir > 0 then \<lfloor>t + 1/1000000000\<rfloor> else \<lceil>t - 1/1000000000\<rceil>) * bk_tick b))"

definition bk_on_quote :: "quote \<Rightarrow> 'a broker_scheme \<Rightarrow> 'a broker_scheme" where
  "bk_on_quote q b = b\<lparr>bk_qs := qs_on_quote q (bk_tick b) (bk_qs b)\<rparr>"

definition bk_set_warmup :: "bool \<Rightarrow> 'a broker_scheme \<Rightarrow> 'a broker_scheme" where
  "bk_set_warmup on b = (let b1 = b\<lparr>bk_warmup := on\<rparr> in if on then b1\<lparr>bk_dropped := 0\<rparr> else b1)"

definition bk_log_signal :: "int \<Rightarrow> string \<Rightarrow> string \<Rightarrow> 'a broker_scheme \<Rightarrow> 'a broker_scheme" where
  "bk_log_signal dir reason blocked b =
     (if \<not> bk_store b then b
      else
       (let r0 = \<lparr>sg_id = bk_id b, sg_account = bk_account b,
                  sg_direction = (if dir > 0 then ''LONG'' else ''SHORT''),
                  sg_decision = (if blocked = [] then ''taken'' else ''blocked:'' @ blocked),
                  sg_reason = reason, sg_ts = bk_last_us b, sg_price = bk_last_price b,
                  sg_spread = -1, sg_imbalance = -1, sg_micro = 0, sg_spread_rel = -1\<rparr>;
            q = qs_q (bk_qs b); sp = spread_ticks q (bk_tick b);
            r = (if qs_fresh (bk_qs b) (bk_last_us b)
                 then r0\<lparr>sg_spread := sp, sg_imbalance := imbalance q,
                         sg_micro := (if bk_tick b > 0 then (microprice q - quote_mid q) / bk_tick b else 0),
                         sg_spread_rel := (if qs_ema (bk_qs b) > 0 then sp / qs_ema (bk_qs b) else -1)\<rparr>
                 else r0)
        in b\<lparr>bk_out := bk_out b @ [RecordSignal r]\<rparr>))"

text \<open>The entry gates, in their order: the book, then the session's regime.\<close>

definition bk_gate :: "regime option \<Rightarrow> int \<Rightarrow> 'a broker_scheme \<Rightarrow> string" where
  "bk_gate ro dir b =
     (let blocked = qs_gate (bk_qs b) (bk_cfg b) dir (bk_last_us b) (bk_tick b)
      in if blocked = [] then (case ro of None \<Rightarrow> [] | Some r \<Rightarrow> rg_gate r (bk_cfg b) dir) else blocked)"

definition bk_clock :: "orb_tick \<Rightarrow> 'a broker_scheme \<Rightarrow> 'a broker_scheme" where
  "bk_clock t b =
     (let (h, m) = utc_to_et (t_ts t)
      in b\<lparr>bk_last_us := t_ts t, bk_last_price := t_price t, bk_hour := h, bk_min := m\<rparr>)"

text \<open>A tick older than the resumed position's entry must not manage it.\<close>

definition bk_predates :: "orb_tick \<Rightarrow> 'a broker_scheme \<Rightarrow> bool" where
  "bk_predates t b = (bk_dir b \<noteq> 0 \<and> bk_entry_us b > 0 \<and> t_ts t < bk_entry_us b)"

text \<open>A pending entry that may fill at this tick: the fill timing waits for a better book.\<close>

definition bk_fill_due :: "orb_tick \<Rightarrow> 'a broker_scheme \<Rightarrow> bool" where
  "bk_fill_due t b =
     (bk_pending b \<noteq> 0 \<and> bk_dir b = 0 \<and>
      \<not> (c_fill_wait_secs (bk_cfg b) > 0 \<and>
         t_ts t - bk_pending_since b < c_fill_wait_secs (bk_cfg b) * 1000000 \<and>
         \<not> qs_fill_ready (bk_qs b) (bk_pending b) (t_ts t) (bk_tick b)))"

definition bk_slip_fill :: "orb_tick \<Rightarrow> int \<Rightarrow> 'a broker_scheme \<Rightarrow> real" where
  "bk_slip_fill t dir b = t_price t + of_int dir * bk_slip b"

definition bk_book_fill :: "orb_tick \<Rightarrow> int \<Rightarrow> 'a broker_scheme \<Rightarrow> real" where
  "bk_book_fill t dir b = qs_market_fill (bk_qs b) dir (t_ts t) (bk_slip_fill t dir b) (t_price t)"

definition bk_use_book :: "int \<Rightarrow> 'a broker_scheme \<Rightarrow> bool" where
  "bk_use_book ts b = (c_fill_model (bk_cfg b) = ''bbo'' \<and> qs_fresh (bk_qs b) ts)"

definition bk_entry_fill :: "orb_tick \<Rightarrow> int \<Rightarrow> 'a broker_scheme \<Rightarrow> real" where
  "bk_entry_fill t dir b = (if bk_use_book (t_ts t) b then bk_book_fill t dir b else bk_slip_fill t dir b)"

text \<open>The shadow of the open leg, recorded when the pending entry fills.\<close>

definition bk_shadow :: "orb_tick \<Rightarrow> int \<Rightarrow> 'a broker_scheme \<Rightarrow> 'a broker_scheme" where
  "bk_shadow t dir b =
     b\<lparr>bk_entry_bbo := bk_book_fill t dir b,
       bk_spread_entry := (if qs_fresh (bk_qs b) (t_ts t) then spread_ticks (qs_q (bk_qs b)) (bk_tick b) else -1)\<rparr>"

definition bk_size_bonus :: "int \<Rightarrow> int \<Rightarrow> 'a broker_scheme \<Rightarrow> int" where
  "bk_size_bonus ts dir b =
     (if c_book_size_agree (bk_cfg b) > 0 \<and> qs_fresh (bk_qs b) ts \<and> qs_agrees (bk_qs b) dir
      then c_book_size_agree (bk_cfg b) else 0)"

subsection \<open>Closing a trade\<close>

text \<open>The fill at the touch, and the fill the trade is booked at.\<close>

definition bk_exit_bbo :: "real \<Rightarrow> int \<Rightarrow> 'a broker_scheme \<Rightarrow> real" where
  "bk_exit_bbo fill ts b =
     (if qs_fresh (bk_qs b) ts then qs_market_fill (bk_qs b) (- bk_dir b) ts fill fill else fill)"

definition bk_exit_fill :: "real \<Rightarrow> int \<Rightarrow> 'a broker_scheme \<Rightarrow> real" where
  "bk_exit_fill fill ts b = (if bk_use_book ts b then bk_exit_bbo fill ts b else fill)"

definition bk_points :: "real \<Rightarrow> 'a broker_scheme \<Rightarrow> real" where
  "bk_points px b = (px - bk_entry b) * of_int (bk_dir b)"

text \<open>An excursion folded into the bounds: the favourable and the adverse one.\<close>

definition bk_excursion :: "real \<Rightarrow> 'a broker_scheme \<Rightarrow> 'a broker_scheme" where
  "bk_excursion x b =
     (let b1 = (if x > bk_mfe b then b\<lparr>bk_mfe := x\<rparr> else b)
      in if x < bk_mae b1 then b1\<lparr>bk_mae := x\<rparr> else b1)"

definition bk_trade :: "real \<Rightarrow> int \<Rightarrow> string \<Rightarrow> 'a broker_scheme \<Rightarrow> trade_row" where
  "bk_trade fill0 ts reason b =
     (let exit_bbo = bk_exit_bbo fill0 ts b; fill = bk_exit_fill fill0 ts b;
          pts = bk_points fill b; c = bk_cfg b; n = of_int (bk_qty b);
          comm = c_commission_rt c * n;
          entry_bbo = (if bk_entry_bbo b > 0 then bk_entry_bbo b else bk_entry b);
          b1 = bk_excursion pts b
      in \<lparr>tr_id = bk_id b, tr_account = bk_account b, tr_symbol = bk_symbol b,
          tr_direction = (if bk_dir b > 0 then ''LONG'' else ''SHORT''), tr_qty = bk_qty b,
          tr_entry_us = bk_entry_us b, tr_entry = bk_entry b, tr_exit_us = ts, tr_exit = fill,
          tr_pnl_pts = pts, tr_pnl_usd = pts * c_point_value c * n - comm, tr_commission = comm,
          tr_mae = bk_mae b1, tr_mfe = bk_mfe b1, tr_reason = reason,
          tr_entry_bbo = entry_bbo, tr_exit_bbo = exit_bbo,
          tr_pnl_bbo = (exit_bbo - entry_bbo) * of_int (bk_dir b) * c_point_value c * n - comm,
          tr_spread_entry = bk_spread_entry b,
          tr_spread_exit = (if qs_fresh (bk_qs b) ts then spread_ticks (qs_q (bk_qs b)) (bk_tick b) else -1),
          tr_fill_model = c_fill_model c\<rparr>)"

text \<open>Flat again, with the trade booked in the risk manager.\<close>

definition bk_go_flat :: "trade_row \<Rightarrow> 'a broker_scheme \<Rightarrow> 'a broker_scheme" where
  "bk_go_flat tr b =
     (let b1 = bk_excursion (tr_pnl_pts tr) b
      in b1\<lparr>bk_dir := 0, bk_qty := 0,
            bk_risk := risk_on_trade_pnl (Fin (tr_pnl_usd tr)) (risk_update_unrealized (Fin 0) (bk_risk b1))\<rparr>)"

definition bk_push :: "bool \<Rightarrow> paper_out \<Rightarrow> 'a broker_scheme \<Rightarrow> 'a broker_scheme" where
  "bk_push on x b = (if on then b\<lparr>bk_out := bk_out b @ [x]\<rparr> else b)"

end
