(* ===== verification/Paper_Broker.thy ===== *)
theory Paper_Broker
  imports Paper_Core
begin

section \<open>The paper broker of the ORB family\<close>

text \<open>
  \<open>PaperBroker\<close> of \<open>src/src/paper/paper_broker.hpp\<close>: it owns the stop, the break-even move,
  the trail, the take-profit and the flattens, and fills them against the tick stream.  The
  host calls it from one thread; every method is one step.
\<close>

subsection \<open>State\<close>

record paper_broker = broker +
  pb_placed :: real
  pb_be :: bool
  pb_trail :: bool
  pb_dirty :: bool
  pb_entries :: int
  pb_cooldown :: int

definition pb_new :: "string \<Rightarrow> string \<Rightarrow> string \<Rightarrow> orb_config \<Rightarrow> real \<Rightarrow> int \<Rightarrow> bool \<Rightarrow> bool \<Rightarrow> paper_broker" where
  "pb_new i account symbol c tick slippage store cb =
     \<lparr>bk_id = i, bk_account = account, bk_symbol = symbol, bk_cfg = c, bk_tick = tick,
      bk_slip = of_int slippage * tick, bk_store = store, bk_closed_cb = cb, bk_qs = qs_new,
      bk_entry_bbo = 0, bk_spread_entry = -1, bk_last_price = 0, bk_pending_since = 0,
      bk_risk = risk_new c (c_starting_balance c), bk_dir = 0, bk_qty = 0, bk_entry = 0, bk_stop = 0,
      bk_entry_us = 0, bk_mfe = 0, bk_mae = 0, bk_pending = 0, bk_warmup = False, bk_dropped = 0,
      bk_exit_reason = [], bk_last_us = 0, bk_hour = 0, bk_min = 0, bk_out = [],
      pb_placed = 0, pb_be = False, pb_trail = False, pb_dirty = False, pb_entries = 0, pb_cooldown = 0\<rparr>"

definition pb_row :: "real \<Rightarrow> paper_broker \<Rightarrow> position_row" where
  "pb_row unreal b = \<lparr>pr_id = bk_id b, pr_dir = bk_dir b, pr_qty = bk_qty b, pr_entry = bk_entry b,
     pr_entry_us = bk_entry_us b, pr_stop = bk_stop b, pr_target = 0, pr_unreal = unreal\<rparr>"

definition pb_position_row :: "real \<Rightarrow> paper_broker \<Rightarrow> position_row" where
  "pb_position_row last_price b = pb_row (bk_unrealized last_price b) b"

definition pb_persist :: "real \<Rightarrow> paper_broker \<Rightarrow> paper_broker" where
  "pb_persist unreal b = bk_push (bk_store b) (SavePosition (pb_row unreal b)) b"

subsection \<open>Signals\<close>

text \<open>The window from the session open to the flatten time, which may wrap midnight.\<close>

definition past_eod :: "orb_config \<Rightarrow> int \<Rightarrow> bool" where
  "past_eod c now =
     (let eod = c_eod_flatten_hour c * 60 + c_eod_flatten_min c;
          op = c_session_open_hour c * 60 + c_session_open_min c
      in if eod < op then now \<ge> eod \<and> now < op else now \<ge> eod)"

definition in_session :: "orb_config \<Rightarrow> int \<Rightarrow> bool" where
  "in_session c now =
     (let eod = c_eod_flatten_hour c * 60 + c_eod_flatten_min c;
          op = c_session_open_hour c * 60 + c_session_open_min c
      in if eod < op then now \<ge> op \<or> now < eod else now \<ge> op \<and> now < eod)"

definition pb_in_entry_window :: "paper_broker \<Rightarrow> bool" where
  "pb_in_entry_window b =
     (if bk_last_us b \<le> 0 then True
      else in_session (bk_cfg b) (bk_hour b * 60 + bk_min b) \<and> bk_hour b < c_last_entry_hour (bk_cfg b))"

definition pb_flatten_signal :: "paper_broker \<Rightarrow> paper_broker" where
  "pb_flatten_signal b =
     (if bk_dir b \<noteq> 0 \<and> bk_exit_reason b = [] then b\<lparr>bk_exit_reason := ''signal_flatten''\<rparr> else b)"

definition pb_take_signal :: "regime option \<Rightarrow> int \<Rightarrow> string \<Rightarrow> paper_broker \<Rightarrow> paper_broker" where
  "pb_take_signal ro dir reason b =
     (let blocked = bk_gate ro dir b; b1 = bk_log_signal dir reason blocked b
      in if blocked \<noteq> [] then b1 else b1\<lparr>bk_pending := dir, bk_pending_since := bk_last_us b1\<rparr>)"

definition pb_on_signal :: "regime option \<Rightarrow> orb_signal \<Rightarrow> string \<Rightarrow> paper_broker \<Rightarrow> paper_broker" where
  "pb_on_signal ro sig reason b =
     (if sig = FLATTEN_EOD then pb_flatten_signal b
      else if sig \<noteq> BUY \<and> sig \<noteq> SELL then b
      else if bk_warmup b then b\<lparr>bk_dropped := bk_dropped b + 1\<rparr>
      else if bk_dir b \<noteq> 0 \<or> bk_pending b \<noteq> 0 then b
      else if bk_halted b then b
      else if risk_can_trade (bk_risk b) \<noteq> None then b
      else if pb_entries b \<ge> c_max_daily_trades (bk_cfg b) then b
      else if bk_last_us b > 0 \<and> bk_last_us b < pb_cooldown b then b
      else if \<not> pb_in_entry_window b then b
      else pb_take_signal ro (if sig = BUY then 1 else -1) reason b)"

subsection \<open>Entry and exit\<close>

definition pb_enter :: "regime option \<Rightarrow> int \<Rightarrow> real \<Rightarrow> int \<Rightarrow> paper_broker \<Rightarrow> paper_broker" where
  "pb_enter ro dir fill ts b =
     (let stop = bk_snap (fill - of_int dir * c_sl_points (bk_cfg b)) dir b
      in pb_persist 0
        (b\<lparr>bk_dir := dir, bk_qty := qty_for (bk_cfg b) ro + bk_size_bonus ts dir b, bk_entry := fill,
           bk_entry_us := ts, bk_stop := stop, bk_mfe := 0, bk_mae := 0, pb_placed := stop,
           pb_be := False, pb_trail := False, pb_entries := pb_entries b + 1\<rparr>))"

definition pb_exit :: "real \<Rightarrow> int \<Rightarrow> string \<Rightarrow> paper_broker \<Rightarrow> paper_broker" where
  "pb_exit fill ts reason b =
     (let tr = bk_trade fill ts reason b;
          b1 = bk_go_flat tr b;
          b2 = (if c_stop_cooldown_secs (bk_cfg b1) > 0
                then b1\<lparr>pb_cooldown := ts + c_stop_cooldown_secs (bk_cfg b1) * 1000000\<rparr> else b1);
          b3 = pb_persist 0 (bk_push (bk_store b2) (RecordTrade tr) b2)
      in bk_push (bk_closed_cb b3) (TradeClosed tr) b3)"

definition pb_market_exit :: "orb_tick \<Rightarrow> string \<Rightarrow> paper_broker \<Rightarrow> paper_broker" where
  "pb_market_exit t reason b = pb_exit (t_price t - of_int (bk_dir b) * bk_slip b) (t_ts t) reason b"

definition pb_stop_reason :: "paper_broker \<Rightarrow> string" where
  "pb_stop_reason b =
     (let be = bk_entry b + of_int (bk_dir b) * c_trail_be_offset (bk_cfg b)
      in if \<bar>pb_placed b - bk_snap be (bk_dir b) b\<bar> < 1/1000000000 then ''breakeven''
         else if (if bk_dir b > 0 then pb_placed b > be + 1/1000000000 else pb_placed b < be - 1/1000000000)
         then ''trail'' else ''stop'')"

text \<open>\<open>sync_placed_stop\<close>: the working stop follows the level only in steps of the trail.\<close>

definition pb_sync :: "regime option \<Rightarrow> bool \<Rightarrow> paper_broker \<Rightarrow> paper_broker" where
  "pb_sync ro force b =
     (if pb_placed b \<le> 0 \<or> force then b\<lparr>pb_placed := bk_stop b\<rparr>
      else if \<bar>bk_stop b - pb_placed b\<bar> \<ge> trail_step_for (bk_cfg b) ro - 1/1000000000
      then b\<lparr>pb_placed := bk_stop b\<rparr> else b)"

subsection \<open>The stages of a tick\<close>

definition pb_fill_pending :: "regime option \<Rightarrow> orb_tick \<Rightarrow> paper_broker \<Rightarrow> paper_broker" where
  "pb_fill_pending ro t b =
     (if bk_fill_due t b
      then (let dir = bk_pending b; b1 = b\<lparr>bk_pending := 0\<rparr>
            in pb_enter ro dir (bk_entry_fill t dir b1) (t_ts t) (bk_shadow t dir b1))
      else b)"

text \<open>A stop level on the tightening side of the current one.\<close>

definition tighter :: "int \<Rightarrow> real \<Rightarrow> real \<Rightarrow> bool" where
  "tighter dir new old = ((dir > 0 \<and> new > old) \<or> (dir < 0 \<and> new < old))"

definition pb_be_level :: "paper_broker \<Rightarrow> real" where
  "pb_be_level b = bk_snap (bk_entry b + of_int (bk_dir b) * c_trail_be_offset (bk_cfg b)) (bk_dir b) b"

definition pb_book_be :: "regime option \<Rightarrow> orb_tick \<Rightarrow> paper_broker \<Rightarrow> paper_broker" where
  "pb_book_be ro t b =
     (if c_book_be_on_flip (bk_cfg b) \<and> \<not> pb_be b \<and> qs_flipped_against (bk_qs b) (bk_dir b) (t_ts t) \<and>
        bk_points (t_price t) b > c_trail_be_offset (bk_cfg b) \<and> tighter (bk_dir b) (pb_be_level b) (bk_stop b)
      then pb_sync ro True (b\<lparr>bk_stop := pb_be_level b, pb_be := True, pb_dirty := True\<rparr>)
      else b)"

definition pb_break_even :: "regime option \<Rightarrow> paper_broker \<Rightarrow> paper_broker" where
  "pb_break_even ro b =
     (if \<not> pb_be b \<and> bk_mfe b \<ge> c_trail_be_trigger (bk_cfg b)
      then (if tighter (bk_dir b) (pb_be_level b) (bk_stop b)
            then pb_sync ro True (b\<lparr>bk_stop := pb_be_level b, pb_dirty := True\<rparr>) else b)\<lparr>pb_be := True\<rparr>
      else b)"

definition pb_arm_trail :: "int \<Rightarrow> paper_broker \<Rightarrow> paper_broker" where
  "pb_arm_trail ts b =
     (if \<not> pb_trail b \<and> cdiv (ts - bk_entry_us b) 1000000 \<ge> c_trail_delay_secs (bk_cfg b) \<and>
        bk_mfe b \<ge> c_trail_be_trigger (bk_cfg b)
      then b\<lparr>pb_trail := True\<rparr> else b)"

definition pb_trail_step :: "regime option \<Rightarrow> real \<Rightarrow> paper_broker \<Rightarrow> paper_broker" where
  "pb_trail_step ro price b =
     (let cand = bk_snap (price - of_int (bk_dir b) * trail_step_for (bk_cfg b) ro) (bk_dir b) b
      in if pb_trail b \<and> tighter (bk_dir b) cand (bk_stop b)
         then pb_sync ro False (b\<lparr>bk_stop := cand, pb_dirty := True\<rparr>) else b)"

text \<open>Step 6: the excursions, the break-even move, the trail, and the row when the stop moved.\<close>

definition pb_ratchet :: "regime option \<Rightarrow> orb_tick \<Rightarrow> paper_broker \<Rightarrow> paper_broker" where
  "pb_ratchet ro t b =
     (let b1 = pb_trail_step ro (t_price t)
                 (pb_arm_trail (t_ts t) (pb_break_even ro (bk_excursion (bk_points (t_price t) b) b)));
          unreal = bk_unrealized (t_price t) b1;
          b2 = b1\<lparr>bk_risk := risk_update_unrealized (Fin unreal) (bk_risk b1)\<rparr>
      in if pb_dirty b2 then pb_persist unreal (b2\<lparr>pb_dirty := False\<rparr>) else b2)"

definition pb_stop_fill :: "real \<Rightarrow> paper_broker \<Rightarrow> real" where
  "pb_stop_fill price b =
     (let f = pb_placed b - of_int (bk_dir b) * bk_slip b
      in if bk_dir b > 0 then min f price else max f price)"

definition pb_stopped :: "real \<Rightarrow> paper_broker \<Rightarrow> bool" where
  "pb_stopped price b = (if bk_dir b > 0 then price \<le> pb_placed b else price \<ge> pb_placed b)"

definition pb_target :: "regime option \<Rightarrow> paper_broker \<Rightarrow> real" where
  "pb_target ro b = bk_entry b + of_int (bk_dir b) * take_profit_for (bk_cfg b) ro"

definition pb_target_hit :: "regime option \<Rightarrow> real \<Rightarrow> paper_broker \<Rightarrow> bool" where
  "pb_target_hit ro price b =
     (take_profit_for (bk_cfg b) ro > 0 \<and>
      (if bk_dir b > 0 then price \<ge> pb_target ro b else price \<le> pb_target ro b))"

text \<open>Steps 5b and 6, for a trade that was neither flattened nor stopped.\<close>

definition pb_manage_open :: "regime option \<Rightarrow> orb_tick \<Rightarrow> paper_broker \<Rightarrow> paper_broker" where
  "pb_manage_open ro t b =
     (if pb_target_hit ro (t_price t) b then pb_exit (pb_target ro b) (t_ts t) ''take_profit'' b
      else
       (let why = qs_book_exit (bk_qs b) (bk_cfg b) (bk_dir b) (t_ts t) (bk_points (t_price t) b)
        in if why \<noteq> [] then pb_market_exit t why b
           else pb_ratchet ro t (pb_book_be ro t b)))"

text \<open>Steps 2 to 6.\<close>

definition pb_manage :: "regime option \<Rightarrow> orb_tick \<Rightarrow> paper_broker \<Rightarrow> paper_broker" where
  "pb_manage ro t b =
     (if bk_exit_reason b \<noteq> [] \<and> bk_dir b \<noteq> 0
      then pb_market_exit t (bk_exit_reason b) (b\<lparr>bk_exit_reason := []\<rparr>)
      else if bk_dir b = 0 then b\<lparr>bk_risk := risk_update_unrealized (Fin 0) (bk_risk b)\<rparr>
      else if past_eod (bk_cfg b) (bk_hour b * 60 + bk_min b) then pb_market_exit t ''eod'' b
      else if bk_halted b then pb_market_exit t ''daily_loss'' b
      else
       (let b1 = pb_sync ro False b
        in if pb_stopped (t_price t) b1
           then pb_exit (pb_stop_fill (t_price t) b1) (t_ts t) (pb_stop_reason b1) b1
           else pb_manage_open ro t b1))"

definition pb_on_tick :: "regime option \<Rightarrow> orb_tick \<Rightarrow> paper_broker \<Rightarrow> paper_broker" where
  "pb_on_tick ro t b0 =
     (let b = bk_clock t b0
      in if bk_predates t b then b else pb_manage ro t (pb_fill_pending ro t b))"

subsection \<open>Calls of the host\<close>

definition pb_resume :: "int \<Rightarrow> int \<Rightarrow> real \<Rightarrow> real \<Rightarrow> int \<Rightarrow> paper_broker \<Rightarrow> paper_broker" where
  "pb_resume dir q entry stop entry_us b =
     (let moved = (if dir > 0 then stop \<ge> entry else stop \<le> entry)
      in b\<lparr>bk_dir := dir, bk_qty := q, pb_placed := stop, bk_entry := entry, bk_stop := stop,
           bk_entry_us := entry_us, pb_be := moved, pb_trail := moved\<rparr>)"

definition pb_flatten :: "string \<Rightarrow> int \<Rightarrow> real \<Rightarrow> paper_broker \<Rightarrow> paper_broker" where
  "pb_flatten reason ts hint b0 =
     (let b = b0\<lparr>bk_pending := 0, bk_exit_reason := []\<rparr>;
          px = (if hint > 0 then hint else bk_entry b)
      in if bk_dir b = 0 then b else pb_exit (px - of_int (bk_dir b) * bk_slip b) ts reason b)"

definition pb_reset_day :: "paper_broker \<Rightarrow> paper_broker" where
  "pb_reset_day b = b\<lparr>pb_entries := 0, pb_cooldown := 0,
     bk_risk := risk_update_unrealized (Fin 0) (risk_reset_daily (bk_risk b))\<rparr>"

definition pb_seed_entries :: "int \<Rightarrow> paper_broker \<Rightarrow> paper_broker" where
  "pb_seed_entries n b = b\<lparr>pb_entries := n\<rparr>"

text \<open>Every call of the host, with the regime it has wired at that moment.\<close>

datatype pb_call =
    PbTick orb_tick
  | PbSignal orb_signal string
  | PbQuote quote
  | PbFlatten string int real
  | PbResetDay
  | PbWarmup bool
  | PbSeedEntries int
  | PbResume int int real real int

fun pb_step :: "paper_broker \<Rightarrow> regime option \<times> pb_call \<Rightarrow> paper_broker" where
  "pb_step b (ro, PbTick t) = pb_on_tick ro t b"
| "pb_step b (ro, PbSignal sig reason) = pb_on_signal ro sig reason b"
| "pb_step b (ro, PbQuote q) = bk_on_quote q b"
| "pb_step b (ro, PbFlatten reason ts hint) = pb_flatten reason ts hint b"
| "pb_step b (ro, PbResetDay) = pb_reset_day b"
| "pb_step b (ro, PbWarmup on) = bk_set_warmup on b"
| "pb_step b (ro, PbSeedEntries n) = pb_seed_entries n b"
| "pb_step b (ro, PbResume dir q entry stop us) = pb_resume dir q entry stop us b"

end
