(* ===== verification/Bracket_Broker.thy ===== *)
theory Bracket_Broker
  imports Paper_Core
begin

section \<open>The paper broker of the bracket strategies\<close>

text \<open>
  \<open>PaperBracketBroker\<close> of \<open>src/src/paper/paper_bracket_broker.hpp\<close>: the strategy owns the
  bracket and the broker fills it.  A strategy stop or target is \<open>None\<close> when it is NaN.
\<close>

subsection \<open>State\<close>

record bracket_broker = broker +
  bb_tp :: "real option"
  bb_flip :: int

definition bb_new :: "string \<Rightarrow> string \<Rightarrow> string \<Rightarrow> orb_config \<Rightarrow> real \<Rightarrow> int \<Rightarrow> bool \<Rightarrow> bool \<Rightarrow> bracket_broker" where
  "bb_new i account symbol c tick slippage store cb =
     \<lparr>bk_id = i, bk_account = account, bk_symbol = symbol, bk_cfg = c, bk_tick = tick,
      bk_slip = of_int slippage * tick, bk_store = store, bk_closed_cb = cb, bk_qs = qs_new,
      bk_entry_bbo = 0, bk_spread_entry = -1, bk_last_price = 0, bk_pending_since = 0,
      bk_risk = risk_new c (c_starting_balance c), bk_dir = 0, bk_qty = 0, bk_entry = 0, bk_stop = 0,
      bk_entry_us = 0, bk_mfe = 0, bk_mae = 0, bk_pending = 0, bk_warmup = False, bk_dropped = 0,
      bk_exit_reason = [], bk_last_us = 0, bk_hour = 0, bk_min = 0, bk_out = [],
      bb_tp = None, bb_flip = 0\<rparr>"

definition bb_position_row :: "real \<Rightarrow> bracket_broker \<Rightarrow> position_row" where
  "bb_position_row last_price b = \<lparr>pr_id = bk_id b, pr_dir = bk_dir b, pr_qty = bk_qty b,
     pr_entry = bk_entry b, pr_entry_us = bk_entry_us b, pr_stop = bk_stop b,
     pr_target = (case bb_tp b of None \<Rightarrow> 0 | Some x \<Rightarrow> x), pr_unreal = bk_unrealized last_price b\<rparr>"

definition bb_persist :: "bracket_broker \<Rightarrow> bracket_broker" where
  "bb_persist b = bk_push (bk_store b)
     (SavePosition (bb_position_row (if bk_last_price b > 0 then bk_last_price b else bk_entry b) b)) b"

subsection \<open>Signals\<close>

definition bb_take_signal :: "regime option \<Rightarrow> int \<Rightarrow> string \<Rightarrow> bracket_broker \<Rightarrow> bracket_broker" where
  "bb_take_signal ro dir reason b =
     (let blocked = bk_gate ro dir b; b1 = bk_log_signal dir reason blocked b
      in if blocked \<noteq> [] then b1
         else if bk_dir b1 \<noteq> 0 \<and> dir \<noteq> bk_dir b1 then b1\<lparr>bb_flip := dir\<rparr>
         else if bk_dir b1 \<noteq> 0 \<or> bk_pending b1 \<noteq> 0 then b1
         else b1\<lparr>bk_pending := dir, bk_pending_since := bk_last_us b1\<rparr>)"

definition bb_on_signal :: "regime option \<Rightarrow> orb_signal \<Rightarrow> string \<Rightarrow> bracket_broker \<Rightarrow> bracket_broker" where
  "bb_on_signal ro sig reason b =
     (if sig = FLATTEN_EOD then
        (if bk_dir b \<noteq> 0 then b\<lparr>bk_exit_reason := (if reason = [] then ''signal_flatten'' else reason)\<rparr> else b)
      else if sig \<noteq> BUY \<and> sig \<noteq> SELL then b
      else if bk_warmup b then b\<lparr>bk_dropped := bk_dropped b + 1\<rparr>
      else if bk_halted b then b
      else bb_take_signal ro (if sig = BUY then 1 else -1) reason b)"

subsection \<open>Entry, bracket and exit\<close>

definition usable :: "real option \<Rightarrow> bool" where
  "usable x = (case x of None \<Rightarrow> False | Some v \<Rightarrow> v > 0)"

definition bb_enter :: "int \<Rightarrow> real \<Rightarrow> int \<Rightarrow> int \<Rightarrow> real option \<Rightarrow> real option \<Rightarrow> bracket_broker \<Rightarrow> bracket_broker" where
  "bb_enter dir fill ts q stop tp b =
     bb_persist (b\<lparr>bk_dir := dir, bk_qty := max 1 q + bk_size_bonus ts dir b, bk_entry := fill,
       bk_entry_us := ts, bk_mfe := 0, bk_mae := 0, bk_exit_reason := [],
       bk_stop := (if usable stop then bk_snap (the stop) dir b
                   else bk_snap (fill - of_int dir * c_sl_points (bk_cfg b)) dir b),
       bb_tp := tp\<rparr>)"

definition bb_update_bracket :: "real option \<Rightarrow> real option \<Rightarrow> bracket_broker \<Rightarrow> bracket_broker" where
  "bb_update_bracket stop tp b =
     (if usable stop
      then b\<lparr>bk_stop := (if bk_stop b \<le> 0 then the stop
                         else if bk_dir b > 0 then max (bk_stop b) (the stop) else min (bk_stop b) (the stop))\<rparr>
      else b)\<lparr>bb_tp := tp\<rparr>"

definition bb_exit :: "real \<Rightarrow> int \<Rightarrow> string \<Rightarrow> bracket_broker \<Rightarrow> bracket_broker" where
  "bb_exit fill ts reason b =
     (let tr = bk_trade fill ts reason b;
          b1 = (bk_go_flat tr b)\<lparr>bk_exit_reason := [], bb_tp := None\<rparr>;
          b2 = bb_persist (bk_push (bk_store b1) (RecordTrade tr) b1)
      in bk_push (bk_closed_cb b2) (TradeClosed tr) b2)"

definition bb_market_exit :: "orb_tick \<Rightarrow> string \<Rightarrow> bracket_broker \<Rightarrow> bracket_broker" where
  "bb_market_exit t reason b = bb_exit (t_price t - of_int (bk_dir b) * bk_slip b) (t_ts t) reason b"

subsection \<open>The stages of a tick\<close>

definition bb_flip_now :: "orb_tick \<Rightarrow> bracket_broker \<Rightarrow> bracket_broker" where
  "bb_flip_now t b0 =
     (let nd = bb_flip b0; b = b0\<lparr>bb_flip := 0\<rparr>;
          b1 = (if bk_dir b \<noteq> 0 then bb_market_exit t ''reversal'' b else b)
      in if \<not> bk_halted b1 then b1\<lparr>bk_pending := nd\<rparr> else b1)"

definition bb_fill_pending :: "orb_tick \<Rightarrow> real option \<Rightarrow> real option \<Rightarrow> int \<Rightarrow> bracket_broker \<Rightarrow> bracket_broker" where
  "bb_fill_pending t stop tp q b =
     (if bk_fill_due t b
      then (let dir = bk_pending b;
                b1 = (if \<not> bk_halted b
                      then bb_enter dir (bk_entry_fill t dir b) (t_ts t) q stop tp (bk_shadow t dir b) else b)
            in b1\<lparr>bk_pending := 0\<rparr>)
      else b)"

definition bb_stopped :: "real \<Rightarrow> bracket_broker \<Rightarrow> bool" where
  "bb_stopped price b = ((bk_dir b > 0 \<and> price \<le> bk_stop b) \<or> (bk_dir b < 0 \<and> price \<ge> bk_stop b))"

definition bb_stop_fill :: "real \<Rightarrow> bracket_broker \<Rightarrow> real" where
  "bb_stop_fill price b =
     (let f = bk_stop b - of_int (bk_dir b) * bk_slip b
      in if bk_dir b > 0 then min f price else max f price)"

definition bb_target_hit :: "real \<Rightarrow> bracket_broker \<Rightarrow> bool" where
  "bb_target_hit price b =
     (case bb_tp b of None \<Rightarrow> False
      | Some tp \<Rightarrow> tp > 0 \<and> ((bk_dir b > 0 \<and> price \<ge> tp) \<or> (bk_dir b < 0 \<and> price \<le> tp)))"

definition bb_book_be :: "orb_tick \<Rightarrow> bracket_broker \<Rightarrow> bracket_broker" where
  "bb_book_be t b =
     (let be = bk_snap (bk_entry b + of_int (bk_dir b) * c_trail_be_offset (bk_cfg b)) (bk_dir b) b
      in if c_book_be_on_flip (bk_cfg b) \<and> qs_flipped_against (bk_qs b) (bk_dir b) (t_ts t) \<and>
           bk_points (t_price t) b > c_trail_be_offset (bk_cfg b) \<and>
           ((bk_dir b > 0 \<and> be > bk_stop b) \<or> (bk_dir b < 0 \<and> be < bk_stop b))
         then b\<lparr>bk_stop := be\<rparr> else b)"

text \<open>Steps 5 to 7 and the excursions.\<close>

definition bb_close_out :: "orb_tick \<Rightarrow> bracket_broker \<Rightarrow> bracket_broker" where
  "bb_close_out t b =
     (if bk_exit_reason b \<noteq> [] then bb_market_exit t (bk_exit_reason b) (b\<lparr>bk_exit_reason := []\<rparr>)
      else if bk_halted b then bb_market_exit t ''daily_loss'' b
      else if bk_hour b * 60 + bk_min b \<ge> c_eod_flatten_hour (bk_cfg b) * 60 + c_eod_flatten_min (bk_cfg b)
      then bb_market_exit t ''eod'' b
      else
       (let b1 = bk_excursion (bk_points (t_price t) b) b
        in b1\<lparr>bk_risk := risk_update_unrealized (Fin (bk_unrealized (t_price t) b1)) (bk_risk b1)\<rparr>))"

text \<open>Steps 2 to 7.\<close>

definition bb_manage :: "orb_tick \<Rightarrow> real option \<Rightarrow> real option \<Rightarrow> bracket_broker \<Rightarrow> bracket_broker" where
  "bb_manage t stop tp b0 =
     (if bk_dir b0 = 0 then b0
      else
       (let b = bb_update_bracket stop tp b0;
            why = qs_book_exit (bk_qs b) (bk_cfg b) (bk_dir b) (t_ts t) (bk_points (t_price t) b)
        in if bb_stopped (t_price t) b then bb_exit (bb_stop_fill (t_price t) b) (t_ts t) ''stop'' b
           else if bb_target_hit (t_price t) b then bb_exit (the (bb_tp b)) (t_ts t) ''target'' b
           else if why \<noteq> [] then bb_market_exit t why b
           else bb_close_out t (bb_book_be t b)))"

definition bb_on_tick :: "orb_tick \<Rightarrow> real option \<Rightarrow> real option \<Rightarrow> int \<Rightarrow> bracket_broker \<Rightarrow> bracket_broker" where
  "bb_on_tick t stop tp q b0 =
     (let b = bk_clock t b0
      in if bk_predates t b then b
         else if bb_flip b \<noteq> 0 then bb_flip_now t b
         else bb_manage t stop tp (bb_fill_pending t stop tp q b))"

subsection \<open>Calls of the host\<close>

definition bb_resume :: "int \<Rightarrow> int \<Rightarrow> real \<Rightarrow> real \<Rightarrow> int \<Rightarrow> bracket_broker \<Rightarrow> bracket_broker" where
  "bb_resume dir q entry stop entry_us b =
     b\<lparr>bk_dir := dir, bk_qty := q, bk_entry := entry, bk_stop := stop, bb_tp := None, bk_entry_us := entry_us\<rparr>"

definition bb_flatten :: "string \<Rightarrow> int \<Rightarrow> real \<Rightarrow> bracket_broker \<Rightarrow> bracket_broker" where
  "bb_flatten reason ts hint b0 =
     (let b = b0\<lparr>bk_pending := 0, bb_flip := 0, bk_exit_reason := []\<rparr>;
          px = (if hint > 0 then hint else bk_entry b)
      in if bk_dir b = 0 then b else bb_exit (px - of_int (bk_dir b) * bk_slip b) ts reason b)"

definition bb_reset_day :: "bracket_broker \<Rightarrow> bracket_broker" where
  "bb_reset_day b = b\<lparr>bk_risk := risk_update_unrealized (Fin 0) (risk_reset_daily (bk_risk b))\<rparr>"

datatype bb_call =
    BbTick orb_tick "real option" "real option" int
  | BbSignal orb_signal string
  | BbQuote quote
  | BbFlatten string int real
  | BbResetDay
  | BbWarmup bool
  | BbResume int int real real int

fun bb_step :: "bracket_broker \<Rightarrow> regime option \<times> bb_call \<Rightarrow> bracket_broker" where
  "bb_step b (ro, BbTick t stop tp q) = bb_on_tick t stop tp q b"
| "bb_step b (ro, BbSignal sig reason) = bb_on_signal ro sig reason b"
| "bb_step b (ro, BbQuote q) = bk_on_quote q b"
| "bb_step b (ro, BbFlatten reason ts hint) = bb_flatten reason ts hint b"
| "bb_step b (ro, BbResetDay) = bb_reset_day b"
| "bb_step b (ro, BbWarmup on) = bk_set_warmup on b"
| "bb_step b (ro, BbResume dir q entry stop us) = bb_resume dir q entry stop us b"

end
