(* ===== verification/Paper_Books.thy ===== *)
theory Paper_Books
  imports Paper_Broker Bracket_Broker Risk_Props
begin

section \<open>The books of the paper brokers\<close>

text \<open>
  What both brokers promise their host: every trade is recorded once and told once, priced
  by the P&L formula, and the strategy's risk books move by exactly the recorded P&L.  The
  locale \<open>trade_ledger\<close> states the contract of one call and lifts it to runs; both brokers
  provide it.
\<close>

subsection \<open>The contract\<close>

locale trade_ledger =
  fixes step :: "'s \<Rightarrow> 'c \<Rightarrow> 's" and ok :: "'s \<Rightarrow> bool" and fine :: "'c \<Rightarrow> bool"
    and equity :: "'s \<Rightarrow> real" and rows :: "'s \<Rightarrow> trade_row list" and told :: "'s \<Rightarrow> trade_row list"
    and priced :: "trade_row \<Rightarrow> bool"
  assumes ok_step: "ok s \<Longrightarrow> fine c \<Longrightarrow> ok (step s c)"
    and books_step: "ok s \<Longrightarrow> fine c \<Longrightarrow>
      \<exists>trs. length trs \<le> 1 \<and> list_all priced trs \<and> rows (step s c) = rows s @ trs \<and>
        told (step s c) = told s @ trs \<and> equity (step s c) = equity s + sum_list (map tr_pnl_usd trs)"
begin

lemma ok_run: "ok s \<Longrightarrow> list_all fine cs \<Longrightarrow> ok (run step s cs)"
  by (induction cs arbitrary: s) (auto intro: ok_step)

lemma books_run:
  assumes "ok s" and "list_all fine cs"
  shows "\<exists>trs. length trs \<le> length cs \<and> list_all priced trs \<and> rows (run step s cs) = rows s @ trs \<and>
    told (run step s cs) = told s @ trs \<and> equity (run step s cs) = equity s + sum_list (map tr_pnl_usd trs)"
  using assms
proof (induction cs arbitrary: s)
  case Nil
  show ?case by (rule exI [of _ "[]"]) simp
next
  case (Cons c cs)
  from Cons.prems obtain trs where one: "length trs \<le> 1" "list_all priced trs" "rows (step s c) = rows s @ trs"
    "told (step s c) = told s @ trs" "equity (step s c) = equity s + sum_list (map tr_pnl_usd trs)"
    using books_step [of s c] by auto
  from Cons.prems have "ok (step s c)" by (simp add: ok_step)
  with Cons.IH [of "step s c"] Cons.prems(2) obtain us where rest: "length us \<le> length cs" "list_all priced us"
    "rows (run step (step s c) cs) = rows (step s c) @ us" "told (run step (step s c) cs) = told (step s c) @ us"
    "equity (run step (step s c) cs) = equity (step s c) + sum_list (map tr_pnl_usd us)" by auto
  show ?case
    by (rule exI [of _ "trs @ us"]) (use one rest in simp)
qed

end

subsection \<open>What a call leaves behind\<close>

fun recorded :: "paper_out list \<Rightarrow> trade_row list" where
  "recorded [] = []"
| "recorded (RecordTrade tr # xs) = tr # recorded xs"
| "recorded (_ # xs) = recorded xs"

fun reported :: "paper_out list \<Rightarrow> trade_row list" where
  "reported [] = []"
| "reported (TradeClosed tr # xs) = tr # reported xs"
| "reported (_ # xs) = reported xs"

lemma recorded_append [simp]: "recorded (xs @ ys) = recorded xs @ recorded ys"
  by (induction xs rule: recorded.induct) auto

lemma reported_append [simp]: "reported (xs @ ys) = reported xs @ reported ys"
  by (induction xs rule: reported.induct) auto

definition priced :: "orb_config \<Rightarrow> trade_row \<Rightarrow> bool" where
  "priced c tr =
     (let sg = (if tr_direction tr = ''LONG'' then 1 else -1)
      in tr_pnl_pts tr = (tr_exit tr - tr_entry tr) * sg \<and>
         tr_commission tr = c_commission_rt c * of_int (tr_qty tr) \<and>
         tr_pnl_usd tr = tr_pnl_pts tr * c_point_value c * of_int (tr_qty tr) - tr_commission tr \<and>
         1 \<le> tr_qty tr \<and> tr_mae tr \<le> 0 \<and> 0 \<le> tr_mfe tr \<and>
         tr_mae tr \<le> tr_pnl_pts tr \<and> tr_pnl_pts tr \<le> tr_mfe tr)"

text \<open>The position shape: one side or flat, a quantity exactly when open, excursions around zero.\<close>

definition bk_wf :: "'a broker_scheme \<Rightarrow> bool" where
  "bk_wf b = ((bk_dir b = -1 \<or> bk_dir b = 0 \<or> bk_dir b = 1) \<and>
     (bk_pending b = -1 \<or> bk_pending b = 0 \<or> bk_pending b = 1) \<and>
     (if bk_dir b = 0 then bk_qty b = 0 else 1 \<le> bk_qty b) \<and> bk_mae b \<le> 0 \<and> 0 \<le> bk_mfe b)"

definition bk_fixed :: "'a broker_scheme \<Rightarrow> 'a broker_scheme \<Rightarrow> bool" where
  "bk_fixed b b' = (bk_cfg b' = bk_cfg b \<and> bk_store b' = bk_store b \<and> bk_closed_cb b' = bk_closed_cb b \<and>
     bk_tick b' = bk_tick b \<and> bk_slip b' = bk_slip b)"

definition bk_equity :: "'a broker_scheme \<Rightarrow> real" where
  "bk_equity b = rk_equity (bk_risk b)"

definition bk_quiet :: "'a broker_scheme \<Rightarrow> 'a broker_scheme \<Rightarrow> bool" where
  "bk_quiet b b' = (bk_fixed b b' \<and> recorded (bk_out b') = recorded (bk_out b) \<and>
     reported (bk_out b') = reported (bk_out b) \<and> bk_equity b' = bk_equity b)"

definition settles :: "'a broker_scheme \<Rightarrow> 'a broker_scheme \<Rightarrow> bool" where
  "settles b b' = (bk_fixed b b' \<and> bk_wf b' \<and>
     (\<exists>trs. length trs \<le> 1 \<and> list_all (priced (bk_cfg b)) trs \<and>
        recorded (bk_out b') = recorded (bk_out b) @ (if bk_store b then trs else []) \<and>
        reported (bk_out b') = reported (bk_out b) @ (if bk_closed_cb b then trs else []) \<and>
        bk_equity b' = bk_equity b + sum_list (map tr_pnl_usd trs)))"

lemma bk_quiet_refl [simp]: "bk_quiet b b"
  by (simp add: bk_quiet_def bk_fixed_def)

lemma bk_quiet_trans: "bk_quiet b b1 \<Longrightarrow> bk_quiet b1 b2 \<Longrightarrow> bk_quiet b b2"
  by (simp add: bk_quiet_def bk_fixed_def)

lemma bk_quiet_settles: "bk_quiet b b' \<Longrightarrow> bk_wf b' \<Longrightarrow> settles b b'"
  unfolding settles_def by (rule conjI, simp add: bk_quiet_def, rule conjI, assumption, rule exI [of _ "[]"])
    (simp add: bk_quiet_def)

lemma settles_from: "bk_quiet b b1 \<Longrightarrow> settles b1 b' \<Longrightarrow> settles b b'"
  by (auto simp: bk_quiet_def settles_def bk_fixed_def)

lemma settles_then: "settles b b1 \<Longrightarrow> bk_quiet b1 b' \<Longrightarrow> bk_wf b' \<Longrightarrow> settles b b'"
  by (auto simp: bk_quiet_def settles_def bk_fixed_def)

lemma bk_push_fields [simp]:
  "bk_out (bk_push on x b) = (if on then bk_out b @ [x] else bk_out b)"
  "bk_cfg (bk_push on x b) = bk_cfg b" "bk_store (bk_push on x b) = bk_store b"
  "bk_closed_cb (bk_push on x b) = bk_closed_cb b" "bk_tick (bk_push on x b) = bk_tick b"
  "bk_slip (bk_push on x b) = bk_slip b" "bk_risk (bk_push on x b) = bk_risk b"
  "bk_dir (bk_push on x b) = bk_dir b" "bk_pending (bk_push on x b) = bk_pending b"
  "bk_qty (bk_push on x b) = bk_qty b" "bk_mae (bk_push on x b) = bk_mae b" "bk_mfe (bk_push on x b) = bk_mfe b"
  "bk_stop (bk_push on x b) = bk_stop b" "bk_entry (bk_push on x b) = bk_entry b"
  by (simp_all add: bk_push_def)

lemma bk_excursion_bounds:
  "bk_mae (bk_excursion x b) = min (bk_mae b) x" "bk_mfe (bk_excursion x b) = max (bk_mfe b) x"
  if "bk_mae b \<le> bk_mfe b" for b :: "'a broker_scheme"
  using that by (auto simp: bk_excursion_def Let_def)

lemma bk_excursion_fields [simp]:
  "bk_out (bk_excursion x b) = bk_out b" "bk_cfg (bk_excursion x b) = bk_cfg b"
  "bk_store (bk_excursion x b) = bk_store b" "bk_closed_cb (bk_excursion x b) = bk_closed_cb b"
  "bk_tick (bk_excursion x b) = bk_tick b" "bk_slip (bk_excursion x b) = bk_slip b"
  "bk_risk (bk_excursion x b) = bk_risk b" "bk_dir (bk_excursion x b) = bk_dir b"
  "bk_pending (bk_excursion x b) = bk_pending b" "bk_qty (bk_excursion x b) = bk_qty b"
  "bk_stop (bk_excursion x b) = bk_stop b" "bk_entry (bk_excursion x b) = bk_entry b"
  by (simp_all add: bk_excursion_def Let_def)

lemma bk_trade_priced:
  assumes "bk_wf b" and "bk_dir b \<noteq> 0"
  shows "priced (bk_cfg b) (bk_trade fill ts reason b)"
proof -
  from assms have e: "bk_mae b \<le> bk_mfe b" "bk_mae b \<le> 0" "0 \<le> bk_mfe b" by (auto simp: bk_wf_def)
  from assms show ?thesis
    by (auto simp: priced_def bk_trade_def Let_def bk_points_def bk_wf_def bk_excursion_bounds [OF e(1)] split: if_splits)
qed

lemma bk_go_flat_books:
  assumes "bk_wf b"
  shows "bk_wf (bk_go_flat tr b)" and "bk_fixed b (bk_go_flat tr b)" and "bk_out (bk_go_flat tr b) = bk_out b"
    and "bk_equity (bk_go_flat tr b) = bk_equity b + tr_pnl_usd tr"
proof -
  from assms have e: "bk_mae b \<le> bk_mfe b" by (auto simp: bk_wf_def)
  from assms show "bk_wf (bk_go_flat tr b)"
    by (auto simp: bk_wf_def bk_go_flat_def Let_def bk_excursion_bounds [OF e])
qed (simp_all add: bk_fixed_def bk_go_flat_def Let_def bk_equity_def risk_simps)

subsection \<open>The broker of the ORB family\<close>

lemma bk_size_bonus_nonneg: "0 \<le> bk_size_bonus ts dir b"
  by (simp add: bk_size_bonus_def)

lemma sized_at_least_one: "1 \<le> max 1 q + bk_size_bonus ts dir b"
  using bk_size_bonus_nonneg [of ts dir b] by linarith

lemmas bk_call_defs = bk_quiet_def bk_fixed_def bk_equity_def bk_wf_def

lemma pb_persist_quiet [simp]: "bk_quiet b (pb_persist u b)" "bk_wf (pb_persist u b) = bk_wf b"
  "bk_dir (pb_persist u b) = bk_dir b" "bk_cfg (pb_persist u b) = bk_cfg b"
  by (simp_all add: pb_persist_def bk_call_defs)

lemma pb_exit_settles:
  assumes "bk_wf b" and "bk_dir b \<noteq> 0"
  shows "settles b (pb_exit fill ts reason b)"
proof -
  define tr where "tr = bk_trade fill ts reason b"
  define b1 where "b1 = bk_go_flat tr b"
  note flat = bk_go_flat_books [OF assms(1), of tr, folded b1_def]
  have "priced (bk_cfg b) tr" unfolding tr_def by (rule bk_trade_priced [OF assms])
  with flat show ?thesis
    unfolding settles_def
    by (intro conjI exI [of _ "[tr]"])
      (auto simp: pb_exit_def Let_def pb_persist_def bk_call_defs simp flip: tr_def b1_def)
qed

lemma pb_market_exit_settles: "bk_wf b \<Longrightarrow> bk_dir b \<noteq> 0 \<Longrightarrow> settles b (pb_market_exit t reason b)"
  by (simp add: pb_market_exit_def pb_exit_settles)

lemma pb_sync_quiet [simp]: "bk_quiet b (pb_sync ro f b)" "bk_wf (pb_sync ro f b) = bk_wf b"
  "bk_dir (pb_sync ro f b) = bk_dir b"
  by (simp_all add: pb_sync_def bk_call_defs)

lemma pb_fill_pending_quiet:
  assumes "bk_wf b" and "1 \<le> c_qty (bk_cfg b)"
  shows "bk_quiet b (pb_fill_pending ro t b)" and "bk_wf (pb_fill_pending ro t b)"
proof -
  have "1 \<le> qty_for (bk_cfg b) ro" using assms(2) by (rule qty_for_bounds)
  with assms show "bk_quiet b (pb_fill_pending ro t b)" "bk_wf (pb_fill_pending ro t b)"
    using bk_size_bonus_nonneg [of "t_ts t" "bk_pending b"]
    by (auto simp: pb_fill_pending_def bk_fill_due_def pb_enter_def pb_persist_def bk_shadow_def Let_def bk_call_defs
        intro: add_increasing2)
qed

lemma pb_ratchet_quiet:
  assumes "bk_wf b"
  shows "bk_quiet b (pb_ratchet ro t b)" and "bk_wf (pb_ratchet ro t b)"
proof -
  from assms have e: "bk_mae b \<le> bk_mfe b" by (auto simp: bk_wf_def)
  have stop: "bk_quiet b0 (pb_break_even ro b0)" "bk_wf (pb_break_even ro b0) = bk_wf b0"
    "bk_quiet b0 (pb_arm_trail ts b0)" "bk_wf (pb_arm_trail ts b0) = bk_wf b0"
    "bk_quiet b0 (pb_trail_step ro px b0)" "bk_wf (pb_trail_step ro px b0) = bk_wf b0" for b0 ts px
    by (simp_all add: pb_break_even_def pb_arm_trail_def pb_trail_step_def pb_sync_def Let_def bk_call_defs)
  have ex: "bk_quiet b (bk_excursion x b)" "bk_wf (bk_excursion x b)" for x
    using assms by (auto simp: bk_call_defs bk_excursion_bounds [OF e])
  define b1 where "b1 = pb_trail_step ro (t_price t)
    (pb_arm_trail (t_ts t) (pb_break_even ro (bk_excursion (bk_points (t_price t) b) b)))"
  have "bk_quiet b b1" unfolding b1_def
    using ex(1) stop by (simp add: bk_quiet_def bk_fixed_def)
  moreover have "bk_wf b1" unfolding b1_def using ex(2) stop by simp
  ultimately show "bk_quiet b (pb_ratchet ro t b)" "bk_wf (pb_ratchet ro t b)"
    by (auto simp: pb_ratchet_def Let_def pb_persist_def bk_call_defs risk_simps simp flip: b1_def)
qed

lemma pb_book_be_quiet: "bk_quiet b (pb_book_be ro t b)" "bk_wf (pb_book_be ro t b) = bk_wf b"
  by (simp_all add: pb_book_be_def pb_sync_def bk_call_defs)

lemma pb_manage_open_settles:
  assumes "bk_wf b" and "bk_dir b \<noteq> 0"
  shows "settles b (pb_manage_open ro t b)"
  using assms pb_ratchet_quiet [of "pb_book_be ro t b" ro t] pb_book_be_quiet [where b = b and ro = ro and t = t]
  by (auto simp: pb_manage_open_def Let_def pb_exit_settles pb_market_exit_settles
      intro: bk_quiet_settles settles_from)

lemma pb_manage_settles:
  assumes "bk_wf b"
  shows "settles b (pb_manage ro t b)"
proof (cases "bk_dir b = 0")
  case True
  with assms have "settles b (b\<lparr>bk_risk := risk_update_unrealized (Fin 0) (bk_risk b)\<rparr>)"
    by (intro bk_quiet_settles) (simp_all add: bk_call_defs risk_simps)
  with True show ?thesis by (simp add: pb_manage_def)
next
  case False
  define b1 where "b1 = pb_sync ro False b"
  have b1: "bk_quiet b b1" "bk_wf b1" "bk_dir b1 \<noteq> 0" using assms False by (simp_all add: b1_def)
  have clear: "bk_quiet b (b\<lparr>bk_exit_reason := []\<rparr>)" "bk_wf (b\<lparr>bk_exit_reason := []\<rparr>)"
    using assms by (simp_all add: bk_call_defs)
  have "settles b (pb_market_exit t why (b\<lparr>bk_exit_reason := []\<rparr>))" for why
    using False clear(2) by (intro settles_from [OF clear(1)] pb_market_exit_settles) simp_all
  moreover have "settles b (pb_market_exit t why b)" for why
    using assms False by (rule pb_market_exit_settles)
  moreover have "settles b (pb_exit fill ts why b1)" "settles b (pb_manage_open ro t b1)" for fill ts why
    using b1 by (auto intro: settles_from pb_exit_settles pb_manage_open_settles)
  ultimately show ?thesis using False by (simp add: pb_manage_def Let_def flip: b1_def)
qed

lemma bk_clock_quiet: "bk_quiet b (bk_clock t b)" "bk_wf (bk_clock t b) = bk_wf b"
  by (simp_all add: bk_clock_def bk_call_defs split: prod.split)

lemma pb_on_tick_settles:
  assumes "bk_wf b" and "1 \<le> c_qty (bk_cfg b)"
  shows "settles b (pb_on_tick ro t b)"
proof -
  define b1 where "b1 = bk_clock t b"
  have b1: "bk_quiet b b1" "bk_wf b1" using assms by (simp_all add: b1_def bk_clock_quiet)
  then have "1 \<le> c_qty (bk_cfg b1)" using assms by (simp add: bk_quiet_def bk_fixed_def)
  note fill = pb_fill_pending_quiet [OF b1(2) this, of ro t]
  show ?thesis
    using settles_from [OF b1(1) settles_from [OF fill(1) pb_manage_settles [OF fill(2)]]] bk_quiet_settles [OF b1]
    by (simp add: pb_on_tick_def Let_def flip: b1_def)
qed

lemma bk_log_signal_quiet: "bk_quiet b (bk_log_signal dir reason blocked b)"
  "bk_wf (bk_log_signal dir reason blocked b) = bk_wf b"
  by (simp_all add: bk_log_signal_def Let_def bk_call_defs)

lemma pb_take_signal_quiet:
  assumes "dir = 1 \<or> dir = -1"
  shows "bk_quiet b (pb_take_signal ro dir reason b)" and "bk_wf b \<Longrightarrow> bk_wf (pb_take_signal ro dir reason b)"
proof -
  define b1 where "b1 = bk_log_signal dir reason (bk_gate ro dir b) b"
  have b1: "bk_quiet b b1" "bk_wf b1 = bk_wf b" by (simp_all add: b1_def bk_log_signal_quiet)
  have "bk_quiet b1 (b1\<lparr>bk_pending := dir, bk_pending_since := bk_last_us b1\<rparr>)"
    "bk_wf b1 \<Longrightarrow> bk_wf (b1\<lparr>bk_pending := dir, bk_pending_since := bk_last_us b1\<rparr>)"
    using assms by (auto simp: bk_call_defs)
  moreover have "pb_take_signal ro dir reason b =
      (if bk_gate ro dir b \<noteq> [] then b1 else b1\<lparr>bk_pending := dir, bk_pending_since := bk_last_us b1\<rparr>)"
    by (simp add: pb_take_signal_def Let_def b1_def)
  ultimately show "bk_quiet b (pb_take_signal ro dir reason b)" "bk_wf b \<Longrightarrow> bk_wf (pb_take_signal ro dir reason b)"
    using b1 bk_quiet_trans by (auto split: if_splits)
qed

lemma pb_signal_quiet: "bk_quiet b (pb_on_signal ro sig reason b)" "bk_wf b \<Longrightarrow> bk_wf (pb_on_signal ro sig reason b)"
proof -
  have "bk_quiet b (pb_flatten_signal b)" "bk_wf (pb_flatten_signal b) = bk_wf b"
    "bk_quiet b (b\<lparr>bk_dropped := n\<rparr>)" "bk_wf (b\<lparr>bk_dropped := n\<rparr>) = bk_wf b" for n
    by (simp_all add: pb_flatten_signal_def bk_call_defs)
  moreover have "bk_quiet b (pb_take_signal ro 1 reason b)" "bk_quiet b (pb_take_signal ro (-1) reason b)"
    "bk_wf b \<Longrightarrow> bk_wf (pb_take_signal ro 1 reason b)" "bk_wf b \<Longrightarrow> bk_wf (pb_take_signal ro (-1) reason b)"
    by (simp_all add: pb_take_signal_quiet)
  ultimately show "bk_quiet b (pb_on_signal ro sig reason b)" "bk_wf b \<Longrightarrow> bk_wf (pb_on_signal ro sig reason b)"
    by (simp_all add: pb_on_signal_def)
qed

lemma pb_flatten_settles:
  assumes "bk_wf b"
  shows "settles b (pb_flatten reason ts hint b)"
proof -
  define b1 where "b1 = b\<lparr>bk_pending := 0, bk_exit_reason := []\<rparr>"
  have b1: "bk_quiet b b1" "bk_wf b1" using assms by (auto simp: b1_def bk_call_defs)
  then have "settles b b1" "bk_dir b1 \<noteq> 0 \<Longrightarrow> settles b (pb_exit fill ts reason b1)" for fill
    by (auto intro: bk_quiet_settles settles_from pb_exit_settles)
  then show ?thesis by (simp add: pb_flatten_def Let_def flip: b1_def)
qed

text \<open>The calls a host makes: a resumed position is one a broker could have had.\<close>

fun pb_fine :: "regime option \<times> pb_call \<Rightarrow> bool" where
  "pb_fine (ro, PbResume dir q entry stop us) = ((dir = 1 \<or> dir = -1) \<and> 1 \<le> q)"
| "pb_fine _ = True"

lemma pb_step_settles:
  assumes "bk_wf b" and "1 \<le> c_qty (bk_cfg b)" and "pb_fine c"
  shows "settles b (pb_step b c)"
proof (cases "(b, c)" rule: pb_step.cases)
  case (1 _ ro t)
  with assms show ?thesis by (simp add: pb_on_tick_settles)
next
  case (2 _ ro sig reason)
  with assms show ?thesis by (simp add: bk_quiet_settles pb_signal_quiet)
next
  case (3 _ ro q)
  with assms show ?thesis by (intro bk_quiet_settles) (auto simp: bk_on_quote_def bk_call_defs)
next
  case (4 _ ro reason ts hint)
  with assms show ?thesis by (simp add: pb_flatten_settles)
next
  case (5 _ ro)
  with assms show ?thesis by (intro bk_quiet_settles) (auto simp: pb_reset_day_def bk_call_defs risk_simps)
next
  case (6 _ ro on)
  with assms show ?thesis by (intro bk_quiet_settles) (auto simp: bk_set_warmup_def Let_def bk_call_defs)
next
  case (7 _ ro n)
  with assms show ?thesis by (intro bk_quiet_settles) (auto simp: pb_seed_entries_def bk_call_defs)
next
  case (8 _ ro dir q entry stop us)
  with assms show ?thesis by (intro bk_quiet_settles) (auto simp: pb_resume_def Let_def bk_call_defs)
qed

subsection \<open>The broker of the bracket strategies\<close>

lemma bb_persist_quiet [simp]: "bk_quiet b (bb_persist b)" "bk_wf (bb_persist b) = bk_wf b"
  by (simp_all add: bb_persist_def bk_call_defs)

lemma bb_exit_settles:
  assumes "bk_wf b" and "bk_dir b \<noteq> 0"
  shows "settles b (bb_exit fill ts reason b)"
proof -
  define tr where "tr = bk_trade fill ts reason b"
  define b1 where "b1 = bk_go_flat tr b"
  note flat = bk_go_flat_books [OF assms(1), of tr, folded b1_def]
  have "priced (bk_cfg b) tr" unfolding tr_def by (rule bk_trade_priced [OF assms])
  with flat show ?thesis
    unfolding settles_def
    by (intro conjI exI [of _ "[tr]"])
      (auto simp: bb_exit_def Let_def bb_persist_def bk_call_defs simp flip: tr_def b1_def)
qed

lemma bb_market_exit_settles: "bk_wf b \<Longrightarrow> bk_dir b \<noteq> 0 \<Longrightarrow> settles b (bb_market_exit t reason b)"
  by (simp add: bb_market_exit_def bb_exit_settles)

lemma bb_fill_pending_quiet:
  assumes "bk_wf b"
  shows "bk_quiet b (bb_fill_pending t stop tp q b)" and "bk_wf (bb_fill_pending t stop tp q b)"
  using assms by (auto simp: bb_fill_pending_def bk_fill_due_def bb_enter_def bb_persist_def bk_shadow_def Let_def
      bk_call_defs sized_at_least_one)

lemma bb_close_out_settles:
  assumes "bk_wf b" and "bk_dir b \<noteq> 0"
  shows "settles b (bb_close_out t b)"
proof -
  define b1 where "b1 = bk_excursion (bk_points (t_price t) b) b"
  from assms have e: "bk_mae b \<le> bk_mfe b" by (auto simp: bk_wf_def)
  have b1: "bk_quiet b b1" "bk_wf b1"
    using assms by (auto simp: b1_def bk_call_defs bk_excursion_bounds [OF e])
  have clear: "bk_quiet b (b\<lparr>bk_exit_reason := []\<rparr>)" "bk_wf (b\<lparr>bk_exit_reason := []\<rparr>)"
    using assms by (simp_all add: bk_call_defs)
  have "settles b (bb_market_exit t why (b\<lparr>bk_exit_reason := []\<rparr>))" for why
    using assms clear(2) by (intro settles_from [OF clear(1)] bb_market_exit_settles) simp_all
  moreover have "settles b (bb_market_exit t why b)" for why
    using assms by (rule bb_market_exit_settles)
  moreover have "settles b (b1\<lparr>bk_risk := risk_update_unrealized p (bk_risk b1)\<rparr>)" for p
    using b1 by (intro bk_quiet_settles) (auto simp: bk_call_defs risk_simps)
  ultimately show ?thesis by (simp add: bb_close_out_def Let_def flip: b1_def)
qed

lemma bb_manage_settles:
  assumes "bk_wf b"
  shows "settles b (bb_manage t stop tp b)"
proof (cases "bk_dir b = 0")
  case True
  with assms show ?thesis by (simp add: bb_manage_def bk_quiet_settles)
next
  case False
  define b1 where "b1 = bb_update_bracket stop tp b"
  have b1: "bk_quiet b b1" "bk_wf b1" "bk_dir b1 \<noteq> 0"
    using assms False by (simp_all add: b1_def bb_update_bracket_def bk_call_defs)
  have be: "bk_quiet b1 (bb_book_be t b1)" "bk_wf (bb_book_be t b1)" "bk_dir (bb_book_be t b1) \<noteq> 0"
    using b1(2,3) by (simp_all add: bb_book_be_def Let_def bk_call_defs)
  have "settles b (bb_exit fill ts why b1)" "settles b (bb_market_exit t why b1)" for fill ts why
    using b1 by (auto intro: settles_from bb_exit_settles bb_market_exit_settles)
  moreover have "settles b (bb_close_out t (bb_book_be t b1))"
    using settles_from [OF b1(1) settles_from [OF be(1) bb_close_out_settles [OF be(2,3)]]] .
  ultimately show ?thesis using False by (simp add: bb_manage_def Let_def flip: b1_def)
qed

lemma bb_flip_settles:
  assumes "bk_wf b" and "bb_flip b = 1 \<or> bb_flip b = -1"
  shows "settles b (bb_flip_now t b)"
proof -
  define b1 where "b1 = b\<lparr>bb_flip := 0\<rparr>"
  define b2 where "b2 = (if bk_dir b1 \<noteq> 0 then bb_market_exit t ''reversal'' b1 else b1)"
  have b1: "bk_quiet b b1" "bk_wf b1" using assms by (simp_all add: b1_def bk_call_defs)
  have "settles b b2"
    using b1 by (auto simp: b2_def intro: settles_from bb_market_exit_settles bk_quiet_settles)
  moreover have "bk_quiet b2 (b2\<lparr>bk_pending := bb_flip b\<rparr>)" "bk_wf b2 \<Longrightarrow> bk_wf (b2\<lparr>bk_pending := bb_flip b\<rparr>)"
    using assms(2) by (auto simp: bk_call_defs)
  moreover from \<open>settles b b2\<close> have "bk_wf b2" by (simp add: settles_def)
  ultimately have "settles b (b2\<lparr>bk_pending := bb_flip b\<rparr>)"
    by (blast intro: settles_then)
  with \<open>settles b b2\<close> show ?thesis by (simp add: bb_flip_now_def Let_def flip: b1_def b2_def)
qed

text \<open>A pending reversal is only ever set by a signal and consumed by the next tick.\<close>

definition flip_ok :: "bracket_broker \<Rightarrow> bool" where
  "flip_ok b = (bb_flip b = -1 \<or> bb_flip b = 0 \<or> bb_flip b = 1)"

lemma bb_exit_flip [simp]: "bb_flip (bb_exit fill ts reason b) = bb_flip b"
  "bb_flip (bb_market_exit t reason b) = bb_flip b"
  by (simp_all add: bb_market_exit_def bb_exit_def bb_persist_def bk_push_def bk_go_flat_def bk_excursion_def Let_def)

lemma bb_close_out_flip [simp]: "bb_flip (bb_close_out t b) = bb_flip b"
  by (simp add: bb_close_out_def bk_excursion_def Let_def)

lemma bb_book_be_flip [simp]: "bb_flip (bb_book_be t b) = bb_flip b"
  by (simp add: bb_book_be_def Let_def)

lemma bb_manage_flip [simp]: "bb_flip (bb_manage t stop tp b) = bb_flip b"
  by (simp add: bb_manage_def bb_update_bracket_def Let_def)

lemma bb_fill_pending_flip [simp]: "bb_flip (bb_fill_pending t stop tp q b) = bb_flip b"
  by (simp add: bb_fill_pending_def bb_enter_def bb_persist_def bk_push_def bk_shadow_def Let_def)

lemma bb_tick_flip: "flip_ok b \<Longrightarrow> flip_ok (bb_on_tick t stop tp q b)"
proof -
  assume "flip_ok b"
  moreover have "bb_flip (bk_clock t b) = bb_flip b" by (simp add: bk_clock_def split: prod.split)
  moreover have "bb_flip (bb_flip_now t c) = 0" for c by (simp add: bb_flip_now_def Let_def)
  ultimately show ?thesis by (simp add: bb_on_tick_def Let_def flip_ok_def)
qed

lemma bb_take_signal_quiet:
  assumes "dir = 1 \<or> dir = -1"
  shows "bk_quiet b (bb_take_signal ro dir reason b)" and "bk_wf b \<Longrightarrow> bk_wf (bb_take_signal ro dir reason b)"
    and "flip_ok b \<Longrightarrow> flip_ok (bb_take_signal ro dir reason b)"
proof -
  define b1 where "b1 = bk_log_signal dir reason (bk_gate ro dir b) b"
  have b1: "bk_quiet b b1" "bk_wf b1 = bk_wf b" "flip_ok b1 = flip_ok b"
    by (simp_all add: b1_def bk_log_signal_quiet) (simp add: bk_log_signal_def Let_def flip_ok_def)
  have q: "bk_quiet b1 (b1\<lparr>bk_pending := dir, bk_pending_since := bk_last_us b1\<rparr>)" "bk_quiet b1 (b1\<lparr>bb_flip := dir\<rparr>)"
    "bk_wf b1 \<Longrightarrow> bk_wf (b1\<lparr>bk_pending := dir, bk_pending_since := bk_last_us b1\<rparr>)"
    "bk_wf (b1\<lparr>bb_flip := dir\<rparr>) = bk_wf b1" "flip_ok (b1\<lparr>bb_flip := dir\<rparr>)"
    "flip_ok (b1\<lparr>bk_pending := dir, bk_pending_since := bk_last_us b1\<rparr>) = flip_ok b1"
    using assms by (auto simp: bk_call_defs flip_ok_def)
  have eq: "bb_take_signal ro dir reason b =
      (if bk_gate ro dir b \<noteq> [] then b1
       else if bk_dir b1 \<noteq> 0 \<and> dir \<noteq> bk_dir b1 then b1\<lparr>bb_flip := dir\<rparr>
       else if bk_dir b1 \<noteq> 0 \<or> bk_pending b1 \<noteq> 0 then b1
       else b1\<lparr>bk_pending := dir, bk_pending_since := bk_last_us b1\<rparr>)"
    by (simp add: bb_take_signal_def Let_def b1_def)
  show "bk_quiet b (bb_take_signal ro dir reason b)" "bk_wf b \<Longrightarrow> bk_wf (bb_take_signal ro dir reason b)"
    "flip_ok b \<Longrightarrow> flip_ok (bb_take_signal ro dir reason b)"
    unfolding eq using assms b1 q(3-) bk_quiet_trans [OF b1(1) q(1)] bk_quiet_trans [OF b1(1) q(2)] by auto
qed

lemma bb_signal_quiet: "bk_quiet b (bb_on_signal ro sig reason b)"
  "bk_wf b \<Longrightarrow> bk_wf (bb_on_signal ro sig reason b)" "flip_ok b \<Longrightarrow> flip_ok (bb_on_signal ro sig reason b)"
proof -
  have "bk_quiet b (b\<lparr>bk_exit_reason := why\<rparr>)" "bk_wf (b\<lparr>bk_exit_reason := why\<rparr>) = bk_wf b"
    "flip_ok (b\<lparr>bk_exit_reason := why\<rparr>) = flip_ok b" "bk_quiet b (b\<lparr>bk_dropped := n\<rparr>)"
    "bk_wf (b\<lparr>bk_dropped := n\<rparr>) = bk_wf b" "flip_ok (b\<lparr>bk_dropped := n\<rparr>) = flip_ok b" for why n
    by (simp_all add: bk_call_defs flip_ok_def)
  moreover have "bk_quiet b (bb_take_signal ro 1 reason b)" "bk_quiet b (bb_take_signal ro (-1) reason b)"
    "bk_wf b \<Longrightarrow> bk_wf (bb_take_signal ro 1 reason b)" "bk_wf b \<Longrightarrow> bk_wf (bb_take_signal ro (-1) reason b)"
    "flip_ok b \<Longrightarrow> flip_ok (bb_take_signal ro 1 reason b)" "flip_ok b \<Longrightarrow> flip_ok (bb_take_signal ro (-1) reason b)"
    by (simp_all add: bb_take_signal_quiet)
  ultimately show "bk_quiet b (bb_on_signal ro sig reason b)"
    "bk_wf b \<Longrightarrow> bk_wf (bb_on_signal ro sig reason b)" "flip_ok b \<Longrightarrow> flip_ok (bb_on_signal ro sig reason b)"
    by (simp_all add: bb_on_signal_def)
qed

lemma bb_on_tick_settles:
  assumes "bk_wf b" and "flip_ok b"
  shows "settles b (bb_on_tick t stop tp q b)"
proof -
  define b1 where "b1 = bk_clock t b"
  have b1: "bk_quiet b b1" "bk_wf b1" using assms by (simp_all add: b1_def bk_clock_quiet)
  have "flip_ok b1" using assms(2) by (simp add: b1_def bk_clock_def flip_ok_def split: prod.split)
  then have "settles b (bb_flip_now t b1)" if "bb_flip b1 \<noteq> 0"
    using that b1 by (intro settles_from [OF b1(1) bb_flip_settles]) (auto simp: flip_ok_def)
  moreover have "settles b (bb_manage t stop tp (bb_fill_pending t stop tp q b1))"
    using settles_from [OF b1(1) settles_from [OF bb_fill_pending_quiet(1) bb_manage_settles]] b1(2)
      bb_fill_pending_quiet(2) by blast
  ultimately show ?thesis using bk_quiet_settles [OF b1] by (simp add: bb_on_tick_def Let_def flip: b1_def)
qed

lemma bb_flatten_settles:
  assumes "bk_wf b"
  shows "settles b (bb_flatten reason ts hint b)"
proof -
  define b1 where "b1 = b\<lparr>bk_pending := 0, bb_flip := 0, bk_exit_reason := []\<rparr>"
  have b1: "bk_quiet b b1" "bk_wf b1" using assms by (auto simp: b1_def bk_call_defs)
  then have "settles b b1" "bk_dir b1 \<noteq> 0 \<Longrightarrow> settles b (bb_exit fill ts reason b1)" for fill
    by (auto intro: bk_quiet_settles settles_from bb_exit_settles)
  then show ?thesis by (simp add: bb_flatten_def Let_def flip: b1_def)
qed

fun bb_fine :: "regime option \<times> bb_call \<Rightarrow> bool" where
  "bb_fine (ro, BbResume dir q entry stop us) = ((dir = 1 \<or> dir = -1) \<and> 1 \<le> q)"
| "bb_fine _ = True"

lemma bb_step_settles:
  assumes "bk_wf b" and "flip_ok b" and "bb_fine c"
  shows "settles b (bb_step b c) \<and> flip_ok (bb_step b c)"
proof (cases "(b, c)" rule: bb_step.cases)
  case (1 _ ro t stop tp q)
  with assms show ?thesis by (simp add: bb_on_tick_settles bb_tick_flip)
next
  case (2 _ ro sig reason)
  with assms show ?thesis by (simp add: bk_quiet_settles bb_signal_quiet)
next
  case (3 _ ro q)
  with assms show ?thesis by (auto simp: bk_on_quote_def bk_call_defs flip_ok_def intro!: bk_quiet_settles)
next
  case (4 _ ro reason ts hint)
  with assms show ?thesis by (simp add: bb_flatten_settles) (simp add: bb_flatten_def Let_def flip_ok_def)
next
  case (5 _ ro)
  with assms show ?thesis by (auto simp: bb_reset_day_def bk_call_defs risk_simps flip_ok_def intro!: bk_quiet_settles)
next
  case (6 _ ro on)
  with assms show ?thesis by (auto simp: bk_set_warmup_def Let_def bk_call_defs flip_ok_def intro!: bk_quiet_settles)
next
  case (7 _ ro dir q entry stop us)
  with assms show ?thesis by (auto simp: bb_resume_def bk_call_defs flip_ok_def intro!: bk_quiet_settles)
qed

subsection \<open>Both brokers keep the contract\<close>

definition booking :: "orb_config \<Rightarrow> 'a broker_scheme \<Rightarrow> bool" where
  "booking c b = (bk_cfg b = c \<and> 1 \<le> c_qty c \<and> bk_store b \<and> bk_closed_cb b \<and> bk_wf b)"

lemma settles_booking:
  assumes "booking c b" and "settles b b'"
  shows "booking c b'" and "\<exists>trs. length trs \<le> 1 \<and> list_all (priced c) trs \<and>
    recorded (bk_out b') = recorded (bk_out b) @ trs \<and> reported (bk_out b') = reported (bk_out b) @ trs \<and>
    bk_equity b' = bk_equity b + sum_list (map tr_pnl_usd trs)"
  using assms by (auto simp: booking_def settles_def bk_fixed_def)

interpretation pbl: trade_ledger pb_step "booking c" pb_fine bk_equity "\<lambda>b. recorded (bk_out b)"
  "\<lambda>b. reported (bk_out b)" "priced c" for c
proof unfold_locales
  fix b :: paper_broker and d
  assume b: "booking c b" and "pb_fine d"
  then have "settles b (pb_step b d)" by (intro pb_step_settles) (auto simp: booking_def)
  from settles_booking [OF b this] show "booking c (pb_step b d)"
    "\<exists>trs. length trs \<le> 1 \<and> list_all (priced c) trs \<and> recorded (bk_out (pb_step b d)) = recorded (bk_out b) @ trs \<and>
      reported (bk_out (pb_step b d)) = reported (bk_out b) @ trs \<and>
      bk_equity (pb_step b d) = bk_equity b + sum_list (map tr_pnl_usd trs)" by auto
qed

interpretation bbl: trade_ledger bb_step "\<lambda>b. booking c b \<and> flip_ok b" bb_fine bk_equity "\<lambda>b. recorded (bk_out b)"
  "\<lambda>b. reported (bk_out b)" "priced c" for c
proof unfold_locales
  fix b :: bracket_broker and d
  assume b: "booking c b \<and> flip_ok b" and "bb_fine d"
  then have s: "settles b (bb_step b d)" "flip_ok (bb_step b d)" using bb_step_settles [of b d] by (auto simp: booking_def)
  with settles_booking [of c b "bb_step b d"] b show "booking c (bb_step b d) \<and> flip_ok (bb_step b d)"
    "\<exists>trs. length trs \<le> 1 \<and> list_all (priced c) trs \<and> recorded (bk_out (bb_step b d)) = recorded (bk_out b) @ trs \<and>
      reported (bk_out (bb_step b d)) = reported (bk_out b) @ trs \<and>
      bk_equity (bb_step b d) = bk_equity b + sum_list (map tr_pnl_usd trs)" by auto
qed

end
