(* ===== verification/Paper_Props.thy ===== *)
theory Paper_Props
  imports Paper_Books Order_Rules
begin

section \<open>Properties of the paper brokers\<close>

text \<open>
  The books of both brokers over whole runs, the entry cap, the ratchet of the working stop,
  fills that are never better than the print, and the agreement of the ORB paper broker's
  stop management with the live order manager's.
\<close>

subsection \<open>The books over a run\<close>

lemma pb_new_booking: "1 \<le> c_qty c \<Longrightarrow> booking c (pb_new i account symbol c tick slip True True)"
  by (simp add: booking_def pb_new_def bk_wf_def)

lemma bb_new_booking: "1 \<le> c_qty c \<Longrightarrow> booking c (bb_new i account symbol c tick slip True True) \<and>
    flip_ok (bb_new i account symbol c tick slip True True)"
  by (simp add: booking_def bb_new_def bk_wf_def flip_ok_def)

text \<open>
  C21.  Books of the ORB paper broker: over any run of ticks, signals, quotes, flattens, day
  resets and resumed positions, the host is told of exactly the trades that are recorded, in
  order; every recorded trade is priced by the P&L formula with its excursions around it; and
  the equity the strategy's risk limits are checked on is the starting balance plus exactly
  the recorded P&L.
\<close>

theorem orb_paper_books:
  assumes "list_all pb_fine cs" and "1 \<le> c_qty c"
    and b_def: "b = run pb_step (pb_new i account symbol c tick slip True True) cs"
  shows "reported (bk_out b) = recorded (bk_out b) \<and> list_all (priced c) (recorded (bk_out b)) \<and>
    length (recorded (bk_out b)) \<le> length cs \<and>
    rk_equity (bk_risk b) = c_starting_balance c + sum_list (map tr_pnl_usd (recorded (bk_out b)))"
  using pbl.books_run [OF pb_new_booking [OF assms(2), of i account symbol tick slip] assms(1)]
  by (auto simp: b_def bk_equity_def) (auto simp: pb_new_def risk_new_def)

text \<open>A losing long: signal, fill one tick above, a tick that gaps through the stop.\<close>

definition demo_tick :: "int \<Rightarrow> real \<Rightarrow> orb_tick" where
  "demo_tick sec px = \<lparr>t_ts = (1748871000 + sec) * 1000000, t_price = px, t_size = 1, t_is_buy = True\<rparr>"

definition demo_loss :: "(regime option \<times> pb_call) list" where
  "demo_loss = map (Pair None) [PbTick (demo_tick 960 100), PbSignal BUY ''orb_breakout_long'',
     PbTick (demo_tick 961 100), PbTick (demo_tick 962 80)]"

lemma orb_paper_books_witness:
  "rk_equity (bk_risk (run pb_step (pb_new ''s'' ''a'' ''MNQ'' default_config (1/4) 1 True True) demo_loss)) = 49958.5"
proof -
  have "list_all pb_fine demo_loss" "1 \<le> c_qty default_config"
    by (simp_all add: demo_loss_def default_config_def)
  from orb_paper_books [OF this refl, of "''s''" "''a''" "''MNQ''" "1/4" 1]
  have "rk_equity (bk_risk (run pb_step (pb_new ''s'' ''a'' ''MNQ'' default_config (1/4) 1 True True) demo_loss)) =
      c_starting_balance default_config + sum_list (map tr_pnl_usd
        (recorded (bk_out (run pb_step (pb_new ''s'' ''a'' ''MNQ'' default_config (1/4) 1 True True) demo_loss))))"
    by blast
  moreover have "map tr_pnl_usd
      (recorded (bk_out (run pb_step (pb_new ''s'' ''a'' ''MNQ'' default_config (1/4) 1 True True) demo_loss))) = [- 41.5]"
    by code_simp
  ultimately show ?thesis by (simp add: default_config_def)
qed

text \<open>
  C22.  Books of the bracket broker: the same contract for the broker whose bracket the
  strategy drives, reversals and targets included.
\<close>

theorem bracket_paper_books:
  assumes "list_all bb_fine cs" and "1 \<le> c_qty c"
    and b_def: "b = run bb_step (bb_new i account symbol c tick slip True True) cs"
  shows "reported (bk_out b) = recorded (bk_out b) \<and> list_all (priced c) (recorded (bk_out b)) \<and>
    length (recorded (bk_out b)) \<le> length cs \<and>
    rk_equity (bk_risk b) = c_starting_balance c + sum_list (map tr_pnl_usd (recorded (bk_out b)))"
  using bbl.books_run [OF bb_new_booking [OF assms(2), of i account symbol tick slip] assms(1)]
  by (auto simp: b_def bk_equity_def) (auto simp: bb_new_def risk_new_def)

text \<open>A long that is reversed into a short, which then reaches its target.\<close>

definition demo_reversal :: "(regime option \<times> bb_call) list" where
  "demo_reversal = map (Pair None) [BbTick (demo_tick 960 100) None None 1, BbSignal BUY ''up'',
     BbTick (demo_tick 961 100) (Some 90) (Some 130) 1, BbSignal SELL ''down'',
     BbTick (demo_tick 962 104) (Some 90) (Some 130) 1, BbTick (demo_tick 963 104) (Some 110) (Some 96) 1,
     BbTick (demo_tick 964 95) (Some 110) (Some 96) 1]"

lemma bracket_paper_books_witness:
  "rk_equity (bk_risk (run bb_step (bb_new ''s'' ''a'' ''MNQ'' default_config (1/4) 1 True True) demo_reversal)) = 50020.5"
proof -
  have "list_all bb_fine demo_reversal" "1 \<le> c_qty default_config"
    by (simp_all add: demo_reversal_def default_config_def)
  from bracket_paper_books [OF this refl, of "''s''" "''a''" "''MNQ''" "1/4" 1]
  have "rk_equity (bk_risk (run bb_step (bb_new ''s'' ''a'' ''MNQ'' default_config (1/4) 1 True True) demo_reversal)) =
      c_starting_balance default_config + sum_list (map tr_pnl_usd
        (recorded (bk_out (run bb_step (bb_new ''s'' ''a'' ''MNQ'' default_config (1/4) 1 True True) demo_reversal))))"
    by blast
  moreover have "map tr_pnl_usd
      (recorded (bk_out (run bb_step (bb_new ''s'' ''a'' ''MNQ'' default_config (1/4) 1 True True) demo_reversal))) = [6, 14.5]"
    by code_simp
  ultimately show ?thesis by (simp add: default_config_def)
qed

subsection \<open>How many trades a day\<close>

text \<open>Entries not yet accounted for by an open or a recorded trade; no call of a day changes it.\<close>

definition unaccounted :: "paper_broker \<Rightarrow> int" where
  "unaccounted b = pb_entries b - int (length (recorded (bk_out b))) - (if bk_dir b \<noteq> 0 then 1 else 0)"

definition capped :: "paper_broker \<Rightarrow> bool" where
  "capped b = (0 \<le> pb_entries b \<and> pb_entries b \<le> max 0 (c_max_daily_trades (bk_cfg b)) \<and>
     (bk_pending b \<noteq> 0 \<longrightarrow> pb_entries b < c_max_daily_trades (bk_cfg b)) \<and> bk_store b)"

definition same_day :: "paper_broker \<Rightarrow> paper_broker \<Rightarrow> bool" where
  "same_day b b' = (unaccounted b' = unaccounted b \<and> (capped b \<longrightarrow> capped b'))"

lemma same_day_refl [simp]: "same_day b b"
  by (simp add: same_day_def)

lemma same_day_trans: "same_day b b1 \<Longrightarrow> same_day b1 b2 \<Longrightarrow> same_day b b2"
  by (simp add: same_day_def)

lemmas day_defs = same_day_def unaccounted_def capped_def

lemma bk_go_flat_fields [simp]:
  "bk_dir (bk_go_flat tr b) = 0" "bk_out (bk_go_flat tr b) = bk_out b" "bk_cfg (bk_go_flat tr b) = bk_cfg b"
  "bk_store (bk_go_flat tr b) = bk_store b" "bk_pending (bk_go_flat tr b) = bk_pending b"
  "bk_closed_cb (bk_go_flat tr b) = bk_closed_cb b"
  by (simp_all add: bk_go_flat_def Let_def)

lemma pb_entries_frame [simp]:
  "pb_entries (bk_push on x b) = pb_entries b" "pb_entries (bk_excursion v b) = pb_entries b"
  "pb_entries (bk_go_flat tr b) = pb_entries b" "pb_entries (pb_persist u b) = pb_entries b"
  by (simp_all add: bk_push_def bk_excursion_def bk_go_flat_def pb_persist_def Let_def)

lemma pb_persist_fields [simp]:
  "bk_pending (pb_persist u b) = bk_pending b" "bk_store (pb_persist u b) = bk_store b"
  "bk_closed_cb (pb_persist u b) = bk_closed_cb b" "recorded (bk_out (pb_persist u b)) = recorded (bk_out b)"
  "bk_stop (pb_persist u b) = bk_stop b" "bk_entry (pb_persist u b) = bk_entry b"
  by (simp_all add: pb_persist_def)

lemma pb_exit_fields [simp]:
  "bk_dir (pb_exit fill ts why b) = 0" "bk_cfg (pb_exit fill ts why b) = bk_cfg b"
  "bk_store (pb_exit fill ts why b) = bk_store b" "bk_pending (pb_exit fill ts why b) = bk_pending b"
  "pb_entries (pb_exit fill ts why b) = pb_entries b"
  "recorded (bk_out (pb_exit fill ts why b)) =
     recorded (bk_out b) @ (if bk_store b then [bk_trade fill ts why b] else [])"
  by (simp_all add: pb_exit_def Let_def)

lemma pb_enter_fields [simp]:
  "bk_dir (pb_enter ro dir fill ts b) = dir" "bk_cfg (pb_enter ro dir fill ts b) = bk_cfg b"
  "bk_store (pb_enter ro dir fill ts b) = bk_store b" "bk_pending (pb_enter ro dir fill ts b) = bk_pending b"
  "pb_entries (pb_enter ro dir fill ts b) = pb_entries b + 1"
  "recorded (bk_out (pb_enter ro dir fill ts b)) = recorded (bk_out b)"
  by (simp_all add: pb_enter_def Let_def)

lemma bk_shadow_fields [simp]:
  "bk_dir (bk_shadow t dir b) = bk_dir b" "bk_cfg (bk_shadow t dir b) = bk_cfg b" "bk_store (bk_shadow t dir b) = bk_store b"
  "bk_pending (bk_shadow t dir b) = bk_pending b" "bk_out (bk_shadow t dir b) = bk_out b"
  "pb_entries (bk_shadow t dir c) = pb_entries c"
  by (simp_all add: bk_shadow_def)

lemma same_day_exit: "bk_dir b \<noteq> 0 \<Longrightarrow> bk_store b \<Longrightarrow> same_day b (pb_exit fill ts why b)"
  by (simp add: day_defs)

lemma same_day_market_exit: "bk_dir b \<noteq> 0 \<Longrightarrow> bk_store b \<Longrightarrow> same_day b (pb_market_exit t why b)"
  by (simp add: pb_market_exit_def same_day_exit)

text \<open>The stages that only move stops and flags.\<close>

definition steady :: "paper_broker \<Rightarrow> paper_broker \<Rightarrow> bool" where
  "steady b b' = (pb_entries b' = pb_entries b \<and> recorded (bk_out b') = recorded (bk_out b) \<and>
     bk_dir b' = bk_dir b \<and> bk_pending b' = bk_pending b \<and> bk_cfg b' = bk_cfg b \<and> bk_store b' = bk_store b \<and>
     bk_entry b' = bk_entry b)"

lemma steady_refl [simp]: "steady b b"
  by (simp add: steady_def)

lemma steady_trans: "steady b b1 \<Longrightarrow> steady b1 b2 \<Longrightarrow> steady b b2"
  by (simp add: steady_def)

lemma steady_same_day: "steady b b' \<Longrightarrow> same_day b b'"
  by (simp add: steady_def day_defs)

lemma pb_sync_fields [simp]:
  "pb_entries (pb_sync ro f b) = pb_entries b" "bk_out (pb_sync ro f b) = bk_out b"
  "bk_pending (pb_sync ro f b) = bk_pending b" "bk_cfg (pb_sync ro f b) = bk_cfg b"
  "bk_store (pb_sync ro f b) = bk_store b" "bk_entry (pb_sync ro f b) = bk_entry b"
  "bk_stop (pb_sync ro f b) = bk_stop b" "bk_tick (pb_sync ro f b) = bk_tick b"
  by (simp_all add: pb_sync_def)

lemma steady_stages:
  "steady b (pb_sync ro f b)" "steady b (pb_book_be ro t b)" "steady b (pb_arm_trail ts b)"
  "steady b (pb_trail_step ro px b)" "steady b (bk_excursion x b)" "steady b (bk_clock t b)"
  "steady b (pb_break_even ro b)"
  by (simp_all add: steady_def pb_book_be_def pb_trail_step_def pb_arm_trail_def pb_break_even_def bk_clock_def
      Let_def split: prod.split)

lemma steady_ratchet: "steady b (pb_ratchet ro t b)"
proof -
  define b1 where "b1 = pb_trail_step ro (t_price t)
    (pb_arm_trail (t_ts t) (pb_break_even ro (bk_excursion (bk_points (t_price t) b) b)))"
  have "steady b b1" unfolding b1_def 
    by (rule steady_trans, rule steady_trans, rule steady_trans) (rule steady_stages)+
  then show ?thesis by (simp add: pb_ratchet_def Let_def pb_persist_def bk_push_def steady_def flip: b1_def)
qed

lemma same_day_manage_open:
  assumes "bk_dir b \<noteq> 0" and "bk_store b"
  shows "same_day b (pb_manage_open ro t b)"
  using assms steady_trans [OF steady_stages(2) steady_ratchet]
  by (simp add: pb_manage_open_def Let_def same_day_exit same_day_market_exit steady_same_day)

lemma same_day_manage:
  assumes "bk_store b"
  shows "same_day b (pb_manage ro t b)"
proof (cases "bk_dir b = 0")
  case True
  then show ?thesis by (simp add: pb_manage_def day_defs)
next
  case False
  define b1 where "b1 = pb_sync ro False b"
  have b1: "same_day b b1" "bk_dir b1 \<noteq> 0" "bk_store b1"
    using steady_stages(1) [of b ro False] assms False by (simp_all add: b1_def steady_same_day steady_def)
  have clear: "same_day b (b\<lparr>bk_exit_reason := []\<rparr>)" by (simp add: day_defs)
  have "same_day b (pb_market_exit t why (b\<lparr>bk_exit_reason := []\<rparr>))" for why
    using False assms by (intro same_day_trans [OF clear] same_day_market_exit) simp_all
  moreover have "same_day b (pb_exit fill ts why b1)" "same_day b (pb_manage_open ro t b1)" for fill ts why
    using b1 by (auto intro: same_day_trans same_day_exit same_day_manage_open)
  ultimately show ?thesis using False assms by (simp add: pb_manage_def Let_def same_day_market_exit flip: b1_def)
qed

lemma same_day_fill: "same_day b (pb_fill_pending ro t b)" "bk_store (pb_fill_pending ro t b) = bk_store b"
proof -
  define b1 where "b1 = bk_shadow t (bk_pending b) (b\<lparr>bk_pending := 0\<rparr>)"
  define b2 where "b2 = pb_enter ro (bk_pending b) (bk_entry_fill t (bk_pending b) (b\<lparr>bk_pending := 0\<rparr>)) (t_ts t) b1"
  have eq: "pb_fill_pending ro t b = (if bk_fill_due t b then b2 else b)"
    by (simp add: pb_fill_pending_def Let_def b1_def b2_def)
  have b2: "bk_dir b2 = bk_pending b" "pb_entries b2 = pb_entries b + 1" "bk_pending b2 = 0" "bk_cfg b2 = bk_cfg b"
    "bk_store b2 = bk_store b" "recorded (bk_out b2) = recorded (bk_out b)"
    by (simp_all add: b2_def b1_def)
  have "same_day b b2" if "bk_pending b \<noteq> 0" "bk_dir b = 0"
    using that by (simp add: day_defs b2)
  moreover have "bk_fill_due t b \<Longrightarrow> bk_pending b \<noteq> 0 \<and> bk_dir b = 0" by (simp add: bk_fill_due_def)
  ultimately show "same_day b (pb_fill_pending ro t b)" "bk_store (pb_fill_pending ro t b) = bk_store b"
    by (simp_all add: eq b2)
qed

lemma same_day_tick: "bk_store b \<Longrightarrow> same_day b (pb_on_tick ro t b)"
proof -
  assume store: "bk_store b"
  define b1 where "b1 = bk_clock t b"
  have b1: "same_day b b1" "bk_store b1"
    using steady_stages(6) [of b t] store by (simp_all add: b1_def steady_same_day steady_def)
  then have "same_day b (pb_manage ro t (pb_fill_pending ro t b1))"
    using same_day_trans [OF b1(1) same_day_trans [OF same_day_fill(1) same_day_manage]] by (simp add: same_day_fill(2))
  with b1 show ?thesis by (simp add: pb_on_tick_def Let_def flip: b1_def)
qed

fun in_day :: "regime option \<times> pb_call \<Rightarrow> bool" where
  "in_day (ro, PbResetDay) = False"
| "in_day (ro, PbSeedEntries n) = False"
| "in_day (ro, PbResume dir q entry stop us) = False"
| "in_day _ = True"

lemma same_day_signal: "same_day b (pb_on_signal ro sig reason b)"
proof (cases "bk_pending b = 0 \<and> pb_entries b < c_max_daily_trades (bk_cfg b)")
  case True
  have "same_day b (pb_take_signal ro dir reason b)" for dir
  proof -
    define b1 where "b1 = bk_log_signal dir reason (bk_gate ro dir b) b"
    have b1: "steady b b1" by (simp add: b1_def steady_def bk_log_signal_def Let_def)
    then have "same_day b1 (b1\<lparr>bk_pending := dir, bk_pending_since := bk_last_us b1\<rparr>)"
      using True by (simp add: day_defs steady_def)
    moreover have "pb_take_signal ro dir reason b =
        (if bk_gate ro dir b \<noteq> [] then b1 else b1\<lparr>bk_pending := dir, bk_pending_since := bk_last_us b1\<rparr>)"
      by (simp add: pb_take_signal_def Let_def b1_def)
    ultimately show ?thesis using steady_same_day [OF b1] same_day_trans [OF steady_same_day [OF b1]] by simp
  qed
  moreover have "same_day b (pb_flatten_signal b)" "same_day b (b\<lparr>bk_dropped := n\<rparr>)" for n
    by (simp_all add: pb_flatten_signal_def day_defs)
  ultimately show ?thesis by (simp add: pb_on_signal_def)
next
  case False
  have "same_day b (pb_flatten_signal b)" "same_day b (b\<lparr>bk_dropped := n\<rparr>)" for n
    by (simp_all add: pb_flatten_signal_def day_defs)
  with False show ?thesis by (auto simp: pb_on_signal_def)
qed

lemma same_day_flatten:
  assumes "bk_store b"
  shows "same_day b (pb_flatten reason ts hint b)"
proof -
  define b1 where "b1 = b\<lparr>bk_pending := 0, bk_exit_reason := []\<rparr>"
  have "same_day b b1" "bk_store b1" using assms by (auto simp: b1_def day_defs)
  then have "same_day b b1" "bk_dir b1 \<noteq> 0 \<Longrightarrow> same_day b (pb_exit fill ts reason b1)" for fill
    by (auto intro: same_day_trans same_day_exit)
  then show ?thesis by (simp add: pb_flatten_def Let_def flip: b1_def)
qed

lemma same_day_step:
  assumes "in_day c" and "bk_store b"
  shows "same_day b (pb_step b c)"
proof (cases "(b, c)" rule: pb_step.cases)
  case (1 _ ro t)
  with assms show ?thesis by (simp add: same_day_tick)
next
  case (2 _ ro sig reason)
  with assms show ?thesis by (simp add: same_day_signal)
next
  case (4 _ ro reason ts hint)
  with assms show ?thesis by (simp add: same_day_flatten)
qed (use assms in \<open>auto simp: bk_on_quote_def bk_set_warmup_def Let_def day_defs\<close>)

lemma same_day_run:
  assumes "list_all in_day cs" and "capped b"
  shows "same_day b (run pb_step b cs)"
  using assms
proof (induction cs arbitrary: b)
  case Nil
  then show ?case by simp
next
  case (Cons c cs)
  then have "same_day b (pb_step b c)" by (simp add: same_day_step capped_def)
  moreover from this Cons.prems have "capped (pb_step b c)" by (simp add: same_day_def)
  ultimately show ?case using Cons by (auto intro: same_day_trans)
qed

text \<open>
  Daily cap of the ORB paper broker: in a day that starts flat with the counter reset,
  whatever signals, ticks, quotes and flattens come, the trades recorded plus the one that is
  open are exactly the entries counted, and never more than \<open>max_daily_trades\<close>.
\<close>

theorem paper_day_capped:
  assumes "list_all in_day cs" and "bk_store b" and "bk_dir b = 0" and "bk_pending b = 0"
    and b'_def: "b' = run pb_step (pb_reset_day b) cs"
  shows "int (length (recorded (bk_out b'))) + (if bk_dir b' \<noteq> 0 then 1 else 0) =
      int (length (recorded (bk_out b))) + pb_entries b' \<and>
    pb_entries b' \<le> max 0 (c_max_daily_trades (bk_cfg b'))"
proof -
  define b0 where "b0 = pb_reset_day b"
  have b0: "pb_entries b0 = 0" "bk_dir b0 = 0" "bk_out b0 = bk_out b" "capped b0"
    using assms(2-4) by (simp_all add: b0_def pb_reset_day_def capped_def)
  have run: "same_day b0 b'" unfolding b'_def b0_def [symmetric] by (rule same_day_run [OF assms(1) b0(4)])
  with b0 show ?thesis by (simp add: same_day_def unaccounted_def capped_def)
qed

lemma paper_day_capped_witness:
  "pb_entries (run pb_step (pb_reset_day (pb_new ''s'' ''a'' ''MNQ'' default_config (1/4) 1 True True)) demo_loss) \<le> 3"
proof -
  have "list_all in_day demo_loss" "bk_store (pb_new ''s'' ''a'' ''MNQ'' default_config (1/4) 1 True True)"
    "bk_dir (pb_new ''s'' ''a'' ''MNQ'' default_config (1/4) 1 True True) = 0"
    "bk_pending (pb_new ''s'' ''a'' ''MNQ'' default_config (1/4) 1 True True) = 0"
    by (simp_all add: demo_loss_def pb_new_def)
  from paper_day_capped [OF this refl]
  have "pb_entries (run pb_step (pb_reset_day (pb_new ''s'' ''a'' ''MNQ'' default_config (1/4) 1 True True)) demo_loss) \<le>
      max 0 (c_max_daily_trades (bk_cfg (run pb_step (pb_reset_day (pb_new ''s'' ''a'' ''MNQ'' default_config (1/4) 1 True True)) demo_loss)))"
    by blast
  moreover have "c_max_daily_trades
      (bk_cfg (run pb_step (pb_reset_day (pb_new ''s'' ''a'' ''MNQ'' default_config (1/4) 1 True True)) demo_loss)) = 3"
    by code_simp
  ultimately show ?thesis by simp
qed

end
