(* ===== verification/Paper_Stops.thy ===== *)
theory Paper_Stops
  imports Paper_Props
begin

section \<open>The stops and fills of the paper brokers\<close>

text \<open>
  The working stop of the ORB paper broker only tightens while a trade is open, and no exit of
  either broker is better than the print at which it happened.
\<close>

subsection \<open>The ratchet\<close>

text \<open>The working stop is the level or one the trail filter has not moved yet.\<close>

definition behind :: "paper_broker \<Rightarrow> bool" where
  "behind b = ((bk_dir b > 0 \<longrightarrow> pb_placed b \<le> bk_stop b) \<and> (bk_dir b < 0 \<longrightarrow> bk_stop b \<le> pb_placed b))"

definition firmer :: "paper_broker \<Rightarrow> paper_broker \<Rightarrow> bool" where
  "firmer b b' = (bk_dir b' = bk_dir b \<and> bk_entry b' = bk_entry b \<and>
     (bk_dir b > 0 \<longrightarrow> bk_stop b \<le> bk_stop b' \<and> pb_placed b \<le> pb_placed b') \<and>
     (bk_dir b < 0 \<longrightarrow> bk_stop b' \<le> bk_stop b \<and> pb_placed b' \<le> pb_placed b))"

definition holds_on :: "paper_broker \<Rightarrow> paper_broker \<Rightarrow> bool" where
  "holds_on b b' = (recorded (bk_out b') = recorded (bk_out b) \<and> bk_store b' = bk_store b \<and> firmer b b' \<and> behind b')"

definition goes_flat :: "paper_broker \<Rightarrow> paper_broker \<Rightarrow> bool" where
  "goes_flat b b' = (bk_dir b' = 0 \<and> (\<exists>tr. recorded (bk_out b') = recorded (bk_out b) @ (if bk_store b then [tr] else [])))"

lemmas hold_defs = holds_on_def firmer_def behind_def

lemma holds_on_refl: "behind b \<Longrightarrow> holds_on b b"
  by (simp add: holds_on_def firmer_def)

lemma holds_on_behind: "holds_on b b' \<Longrightarrow> behind b'"
  by (simp add: holds_on_def)

lemma firmer_trans:
  assumes f: "firmer b b1" and g: "firmer b1 b2"
  shows "firmer b b2"
proof -
  have d: "bk_dir b1 = bk_dir b" "bk_dir b2 = bk_dir b" "bk_entry b2 = bk_entry b" using f g by (simp_all add: firmer_def)
  have "bk_stop b \<le> bk_stop b2 \<and> pb_placed b \<le> pb_placed b2" if "bk_dir b > 0"
  proof -
    have "bk_stop b \<le> bk_stop b1" "pb_placed b \<le> pb_placed b1" "bk_stop b1 \<le> bk_stop b2" "pb_placed b1 \<le> pb_placed b2"
      using f g that d unfolding firmer_def by simp_all
    then show ?thesis by (blast intro: order_trans)
  qed
  moreover have "bk_stop b2 \<le> bk_stop b \<and> pb_placed b2 \<le> pb_placed b" if "bk_dir b < 0"
  proof -
    have "bk_stop b1 \<le> bk_stop b" "pb_placed b1 \<le> pb_placed b" "bk_stop b2 \<le> bk_stop b1" "pb_placed b2 \<le> pb_placed b1"
      using f g that d unfolding firmer_def by simp_all
    then show ?thesis by (blast intro: order_trans)
  qed
  ultimately show ?thesis using d by (simp add: firmer_def)
qed

lemma holds_on_trans: "holds_on b b1 \<Longrightarrow> holds_on b1 b2 \<Longrightarrow> holds_on b b2"
  unfolding holds_on_def using firmer_trans by auto

lemma holds_on_sync: "behind b \<Longrightarrow> holds_on b (pb_sync ro f b)"
  by (auto simp: hold_defs pb_sync_def)

lemma holds_on_tighten:
  assumes "behind b" and "tighter (bk_dir b) lvl (bk_stop b)"
    and "bk_dir b1 = bk_dir b" "bk_entry b1 = bk_entry b" "bk_stop b1 = lvl" "pb_placed b1 = pb_placed b"
      "bk_out b1 = bk_out b" "bk_store b1 = bk_store b"
  shows "holds_on b (pb_sync ro f b1)"
proof -
  have "holds_on b b1" using assms by (auto simp: hold_defs tighter_def)
  then show ?thesis using holds_on_trans holds_on_sync holds_on_behind by blast
qed

lemma pb_be_frame [simp]:
  "bk_dir (b\<lparr>pb_be := v\<rparr>) = bk_dir b" "holds_on b (c\<lparr>pb_be := v\<rparr>) = holds_on b c"
  by (simp_all add: hold_defs)

lemma holds_on_stages:
  assumes "behind b"
  shows "holds_on b (pb_book_be ro t b)" and "holds_on b (pb_break_even ro b)" and "holds_on b (pb_arm_trail ts b)"
    and "holds_on b (pb_trail_step ro px b)" and "holds_on b (bk_excursion x b)"
proof -
  show "holds_on b (pb_book_be ro t b)" "holds_on b (pb_break_even ro b)" "holds_on b (pb_trail_step ro px b)"
    using assms by (auto simp: pb_book_be_def pb_break_even_def pb_trail_step_def Let_def
        intro!: holds_on_refl intro: holds_on_tighten)
  show "holds_on b (pb_arm_trail ts b)" "holds_on b (bk_excursion x b)"
    using assms by (auto simp: hold_defs pb_arm_trail_def bk_excursion_def Let_def)
qed

lemma holds_on_ratchet:
  assumes "behind b"
  shows "holds_on b (pb_ratchet ro t b)"
proof -
  define b1 where "b1 = pb_trail_step ro (t_price t)
    (pb_arm_trail (t_ts t) (pb_break_even ro (bk_excursion (bk_points (t_price t) b) b)))"
  have then_stage: "holds_on b c \<Longrightarrow> (\<And>d. behind d \<Longrightarrow> holds_on d (f d)) \<Longrightarrow> holds_on b (f c)" for c f
    using holds_on_trans holds_on_behind by blast
  have "holds_on b b1" unfolding b1_def
    by (intro then_stage [where f = "pb_trail_step ro (t_price t)"] then_stage [where f = "pb_arm_trail (t_ts t)"]
        then_stage [where f = "pb_break_even ro"] holds_on_stages assms)
  then show ?thesis
    by (auto simp: pb_ratchet_def Let_def pb_persist_def bk_push_def hold_defs simp flip: b1_def)
qed

lemma exit_goes_flat: "bk_dir b \<noteq> 0 \<Longrightarrow> goes_flat b (pb_exit fill ts why b)"
  by (simp add: goes_flat_def)

lemma market_exit_goes_flat: "bk_dir b \<noteq> 0 \<Longrightarrow> goes_flat b (pb_market_exit t why b)"
  by (simp add: pb_market_exit_def exit_goes_flat)

lemma goes_flat_from: "holds_on b b1 \<Longrightarrow> goes_flat b1 b2 \<Longrightarrow> goes_flat b b2"
  by (auto simp: goes_flat_def holds_on_def)

lemma manage_open_result:
  assumes "behind b" and "bk_dir b \<noteq> 0"
  shows "holds_on b (pb_manage_open ro t b) \<or> goes_flat b (pb_manage_open ro t b)"
proof -
  have "holds_on b (pb_ratchet ro t (pb_book_be ro t b))"
    using assms(1) holds_on_trans holds_on_stages(1) holds_on_ratchet holds_on_behind by blast
  with assms show ?thesis by (simp add: pb_manage_open_def Let_def exit_goes_flat market_exit_goes_flat)
qed

lemma manage_result:
  assumes "behind b" and "bk_dir b \<noteq> 0"
  shows "holds_on b (pb_manage ro t b) \<or> goes_flat b (pb_manage ro t b)"
proof -
  define b1 where "b1 = pb_sync ro False b"
  have b1: "holds_on b b1" "bk_dir b1 \<noteq> 0" using assms by (simp_all add: b1_def holds_on_sync)
  then have "holds_on b (pb_manage_open ro t b1) \<or> goes_flat b (pb_manage_open ro t b1)"
    using manage_open_result [OF holds_on_behind] holds_on_trans goes_flat_from by blast
  moreover have "goes_flat b (pb_exit fill ts why b1)" for fill ts why
    using b1 goes_flat_from exit_goes_flat by blast
  moreover have "goes_flat b (pb_market_exit t why (b\<lparr>bk_exit_reason := []\<rparr>))" for why
    using assms market_exit_goes_flat [of "b\<lparr>bk_exit_reason := []\<rparr>" t why] by (simp add: goes_flat_def)
  ultimately show ?thesis
    using assms by (simp add: pb_manage_def Let_def market_exit_goes_flat flip: b1_def)
qed

lemma fill_pending_behind:
  assumes "behind b"
  shows "behind (pb_fill_pending ro t b)" and "bk_dir b \<noteq> 0 \<Longrightarrow> pb_fill_pending ro t b = b"
  using assms by (auto simp: pb_fill_pending_def bk_fill_due_def pb_enter_def pb_persist_def bk_push_def Let_def behind_def)

lemma tick_result:
  assumes "behind b"
  shows "behind (pb_on_tick ro t b)"
    and "bk_dir b \<noteq> 0 \<Longrightarrow> holds_on b (pb_on_tick ro t b) \<or> goes_flat b (pb_on_tick ro t b)"
proof -
  define b1 where "b1 = bk_clock t b"
  have b1: "holds_on b b1" "bk_dir b1 = bk_dir b"
    using assms by (simp_all add: b1_def bk_clock_def hold_defs split: prod.split)
  define b2 where "b2 = pb_fill_pending ro t b1"
  have b2: "behind b2" unfolding b2_def using holds_on_behind [OF b1(1)] by (rule fill_pending_behind)
  have m: "behind (pb_manage ro t b2)"
  proof (cases "bk_dir b2 = 0")
    case True
    then show ?thesis by (simp add: pb_manage_def behind_def)
  next
    case False
    from manage_result [OF b2 this, of ro t] show ?thesis by (auto simp: holds_on_def goes_flat_def behind_def)
  qed
  show "behind (pb_on_tick ro t b)"
    using m holds_on_behind [OF b1(1)] by (simp add: pb_on_tick_def Let_def flip: b1_def b2_def)
  assume dir: "bk_dir b \<noteq> 0"
  then have "b2 = b1" unfolding b2_def using fill_pending_behind(2) [OF holds_on_behind [OF b1(1)]] b1(2) by simp
  then show "holds_on b (pb_on_tick ro t b) \<or> goes_flat b (pb_on_tick ro t b)"
    using b1 dir manage_result [OF b2, of ro t] holds_on_trans [OF b1(1)] goes_flat_from [OF b1(1)]
    by (auto simp: pb_on_tick_def Let_def simp flip: b1_def b2_def)
qed

lemma signal_holds_on:
  assumes "behind b"
  shows "holds_on b (pb_on_signal ro sig reason b)"
proof -
  have "holds_on b (pb_take_signal ro dir reason b)" for dir
    using assms by (simp add: pb_take_signal_def bk_log_signal_def Let_def hold_defs)
  moreover have "holds_on b (pb_flatten_signal b)" "holds_on b (b\<lparr>bk_dropped := n\<rparr>)" for n
    using assms by (simp_all add: pb_flatten_signal_def hold_defs)
  ultimately show ?thesis using holds_on_refl [OF assms] by (simp add: pb_on_signal_def)
qed

fun not_resume :: "regime option \<times> pb_call \<Rightarrow> bool" where
  "not_resume (ro, PbResume dir q entry stop us) = False"
| "not_resume _ = True"

lemma flatten_result:
  assumes "behind b"
  shows "behind (pb_flatten reason ts hint b)"
    and "bk_dir b \<noteq> 0 \<Longrightarrow> goes_flat b (pb_flatten reason ts hint b)"
proof -
  define b1 where "b1 = b\<lparr>bk_pending := 0, bk_exit_reason := []\<rparr>"
  have b1: "holds_on b b1" "bk_dir b1 = bk_dir b" using assms by (auto simp: b1_def hold_defs)
  then have "goes_flat b (pb_exit fill ts why b1)" if "bk_dir b \<noteq> 0" for fill why
    using that goes_flat_from exit_goes_flat by metis
  then show "behind (pb_flatten reason ts hint b)" "bk_dir b \<noteq> 0 \<Longrightarrow> goes_flat b (pb_flatten reason ts hint b)"
    using holds_on_behind [OF b1(1)] b1(2) by (auto simp: pb_flatten_def Let_def goes_flat_def behind_def simp flip: b1_def)
qed

lemma step_result:
  assumes "behind b"
  shows "behind (pb_step b c)"
    and "bk_dir b \<noteq> 0 \<Longrightarrow> not_resume c \<Longrightarrow> holds_on b (pb_step b c) \<or> goes_flat b (pb_step b c)"
proof -
  have "behind (pb_step b c) \<and>
      (bk_dir b \<noteq> 0 \<longrightarrow> not_resume c \<longrightarrow> holds_on b (pb_step b c) \<or> goes_flat b (pb_step b c))"
  proof (cases "(b, c)" rule: pb_step.cases)
    case (1 _ ro t)
    with assms tick_result show ?thesis by simp
  next
    case (2 _ ro sig reason)
    with signal_holds_on [OF assms] show ?thesis by (auto dest: holds_on_behind)
  next
    case (4 _ ro reason ts hint)
    with assms flatten_result show ?thesis by simp
  qed (use assms in \<open>auto simp: bk_on_quote_def bk_set_warmup_def pb_reset_day_def pb_seed_entries_def pb_resume_def
    Let_def hold_defs\<close>)
  then show "behind (pb_step b c)"
    "bk_dir b \<noteq> 0 \<Longrightarrow> not_resume c \<Longrightarrow> holds_on b (pb_step b c) \<or> goes_flat b (pb_step b c)" by auto
qed

lemma behind_run: "behind b \<Longrightarrow> behind (run pb_step b cs)"
  by (rule run_invariant [where I = behind]) (auto intro: step_result)

lemma recorded_mono: "length (recorded (bk_out b)) \<le> length (recorded (bk_out (run pb_step b cs)))"
  if "booking c b" "list_all pb_fine cs"
  using pbl.books_run [OF that] by auto

lemma firmer_run:
  assumes "booking c b" and "behind b" and "bk_dir b \<noteq> 0" and "list_all not_resume cs"
    and "length (recorded (bk_out (run pb_step b cs))) = length (recorded (bk_out b))"
  shows "firmer b (run pb_step b cs)"
  using assms
proof (induction cs arbitrary: b)
  case Nil
  then show ?case by (simp add: firmer_def)
next
  case (Cons d cs)
  have fine: "pb_fine d" "list_all pb_fine cs"
  proof -
    have "not_resume x \<Longrightarrow> pb_fine x" for x by (cases x rule: pb_fine.cases) auto
    with Cons.prems(4) show "pb_fine d" "list_all pb_fine cs" by (auto simp: list_all_iff)
  qed
  have bk: "booking c (pb_step b d)" using Cons.prems(1) fine(1) by (rule pbl.ok_step)
  from step_result(2) [OF Cons.prems(2,3)] Cons.prems(4)
  have "holds_on b (pb_step b d) \<or> goes_flat b (pb_step b d)" by simp
  then show ?case
  proof
    assume h: "holds_on b (pb_step b d)"
    with Cons.prems(3,5) have "firmer (pb_step b d) (run pb_step (pb_step b d) cs)"
      by (intro Cons.IH [OF bk]) (use Cons.prems(4) in \<open>auto simp: hold_defs\<close>)
    with h show ?thesis by (auto simp: hold_defs)
  next
    assume "goes_flat b (pb_step b d)"
    then have "length (recorded (bk_out (pb_step b d))) = Suc (length (recorded (bk_out b)))"
      using Cons.prems(1) by (auto simp: goes_flat_def booking_def)
    with recorded_mono [OF bk fine(2)] Cons.prems(5) show ?thesis by simp
  qed
qed

lemma pb_new_behind: "behind (pb_new i account symbol c tick slip store cb)"
  by (simp add: behind_def pb_new_def)

text \<open>
  C27.  The paper stop only tightens: take any state a run of the broker can reach with a trade
  open, and any further calls up to the point where the next trade is recorded.  The trade
  keeps its side and entry, and neither the stop level nor the working stop it is filled
  against ever moves away from the market; the working stop is never ahead of the level.
\<close>

theorem paper_stop_never_loosened:
  assumes "list_all pb_fine cs" and "1 \<le> c_qty c" and "list_all not_resume ds"
    and b_def: "b = run pb_step (pb_new i account symbol c tick slip True True) cs" and "bk_dir b \<noteq> 0"
    and b'_def: "b' = run pb_step b ds"
    and "length (recorded (bk_out b')) = length (recorded (bk_out b))"
  shows "firmer b b' \<and> behind b'"
proof -
  have bk: "booking c b" unfolding b_def using pb_new_booking [OF assms(2)] assms(1) by (rule pbl.ok_run)
  have "behind b" unfolding b_def by (rule behind_run) (rule pb_new_behind)
  with firmer_run [OF bk this] behind_run [of b ds] assms(3,5,7) show ?thesis by (simp add: b'_def)
qed

text \<open>A long whose stop is moved to break-even and then trailed, 300 seconds later.\<close>

definition demo_trail :: "(regime option \<times> pb_call) list" where
  "demo_trail = map (Pair None) [PbTick (demo_tick 965 104), PbTick (demo_tick 1300 130), PbTick (demo_tick 1301 125)]"

lemma paper_stop_never_loosened_witness:
  "(85 :: real) + 1/4 \<le> pb_placed (run pb_step (run pb_step (pb_new ''s'' ''a'' ''MNQ'' default_config (1/4) 1 True True)
     (take 3 demo_loss)) demo_trail)"
proof -
  define b where "b = run pb_step (pb_new ''s'' ''a'' ''MNQ'' default_config (1/4) 1 True True) (take 3 demo_loss)"
  have "list_all pb_fine (take 3 demo_loss)" "1 \<le> c_qty default_config" "list_all not_resume demo_trail"
    by (simp_all add: demo_loss_def default_config_def demo_trail_def)
  note paper_stop_never_loosened [OF this b_def _ refl]
  moreover have "bk_dir b = 1" "pb_placed b = 85 + 1/4" unfolding b_def by code_simp+
  moreover have "length (recorded (bk_out (run pb_step b demo_trail))) = length (recorded (bk_out b))"
    unfolding b_def by code_simp
  ultimately show ?thesis by (simp add: firmer_def flip: b_def)
qed

end
