(* ===== verification/Paper_Fills.thy ===== *)
theory Paper_Fills
  imports Paper_Stops
begin

section \<open>Fills that are never better than the print\<close>

text \<open>
  The fill model of both paper brokers is conservative: an entry is never cheaper and an exit
  never better than the tick at which it happens, in the slippage model and in the book model,
  with a stale quote or a stop the market gapped through.
\<close>

definition fair_exit :: "real \<Rightarrow> trade_row \<Rightarrow> bool" where
  "fair_exit px tr = (if tr_direction tr = ''LONG'' then tr_exit tr \<le> px else px \<le> tr_exit tr)"

definition new_trades :: "'a broker_scheme \<Rightarrow> 'a broker_scheme \<Rightarrow> trade_row list" where
  "new_trades b b' = drop (length (recorded (bk_out b))) (recorded (bk_out b'))"

text \<open>The price handed to an exit: at or behind the print, and a price.\<close>

definition handed :: "real \<Rightarrow> real \<Rightarrow> 'a broker_scheme \<Rightarrow> bool" where
  "handed px fill b = (if bk_dir b > 0 then 0 < fill \<and> fill \<le> px else bk_dir b < 0 \<and> 0 < px \<and> px \<le> fill)"

lemma fair_trade:
  assumes "handed px fill b"
  shows "fair_exit px (bk_trade fill ts why b)"
  using assms by (auto simp: fair_exit_def handed_def bk_trade_def bk_exit_fill_def bk_exit_bbo_def bk_use_book_def
      qs_market_fill_def Let_def)

lemma handed_market: "0 \<le> bk_slip b \<Longrightarrow> bk_slip b < px \<Longrightarrow> bk_dir b = 1 \<or> bk_dir b = -1 \<Longrightarrow>
    handed px (px - of_int (bk_dir b) * bk_slip b) b"
  by (auto simp: handed_def)

lemma entry_fair:
  assumes "0 < t_price t" and "0 \<le> bk_slip b" and "dir = 1 \<or> dir = -1"
  shows "if dir = 1 then t_price t \<le> bk_entry_fill t dir b else bk_entry_fill t dir b \<le> t_price t"
  using assms by (auto simp: bk_entry_fill_def bk_book_fill_def bk_slip_fill_def bk_use_book_def qs_market_fill_def Let_def)

subsection \<open>The ORB paper broker\<close>

definition trading :: "orb_tick \<Rightarrow> paper_broker \<Rightarrow> bool" where
  "trading t b = ((bk_dir b = 1 \<or> bk_dir b = -1) \<and> bk_store b \<and> 0 \<le> bk_slip b \<and> bk_slip b < t_price t \<and>
     (bk_dir b = 1 \<longrightarrow> bk_slip b < pb_placed b \<and> bk_slip b < bk_stop b \<and> 0 < bk_entry b))"

lemma trading_sync: "trading t b \<Longrightarrow> trading t (pb_sync ro f b)"
  by (auto simp: trading_def pb_sync_def)

lemma new_trades_exit: "bk_store b \<Longrightarrow> new_trades b (pb_exit fill ts why b) = [bk_trade fill ts why b]"
  by (simp add: new_trades_def)

lemma market_exit_fair: "trading t b \<Longrightarrow> list_all (fair_exit (t_price t)) (new_trades b (pb_market_exit t why b))"
  using handed_market [of b "t_price t"] by (simp add: pb_market_exit_def trading_def new_trades_exit fair_trade)

lemma manage_open_fair:
  assumes "trading t b"
  shows "list_all (fair_exit (t_price t)) (new_trades b (pb_manage_open ro t b))"
proof -
  have "handed (t_price t) (pb_target ro b) b" if "pb_target_hit ro (t_price t) b"
    using that assms by (auto simp: handed_def pb_target_hit_def pb_target_def trading_def)
  moreover have "new_trades b (pb_ratchet ro t (pb_book_be ro t b)) = []"
    using steady_trans [OF steady_stages(2) steady_ratchet, of b ro t] by (simp add: new_trades_def steady_def)
  ultimately show ?thesis
    using assms market_exit_fair [OF assms]
    by (auto simp: pb_manage_open_def Let_def new_trades_exit fair_trade trading_def)
qed

lemma manage_fair:
  assumes "trading t b"
  shows "list_all (fair_exit (t_price t)) (new_trades b (pb_manage ro t b))"
proof -
  define b1 where "b1 = pb_sync ro False b"
  have b1: "trading t b1" "bk_out b1 = bk_out b" unfolding b1_def using assms by (simp_all add: trading_sync)
  have "handed (t_price t) (pb_stop_fill (t_price t) b1) b1" if "pb_stopped (t_price t) b1"
    using that b1(1) by (auto simp: handed_def pb_stop_fill_def pb_stopped_def trading_def Let_def)
  then have "list_all (fair_exit (t_price t)) (new_trades b (pb_exit (pb_stop_fill (t_price t) b1) ts why b1))"
    if "pb_stopped (t_price t) b1" for ts why
    using that b1 by (simp add: new_trades_def fair_trade trading_def)
  moreover have "list_all (fair_exit (t_price t)) (new_trades b (pb_manage_open ro t b1))"
    using manage_open_fair [OF b1(1)] b1(2) by (simp add: new_trades_def)
  moreover have "list_all (fair_exit (t_price t)) (new_trades b (pb_market_exit t why (b\<lparr>bk_exit_reason := []\<rparr>)))" for why
    using market_exit_fair [of t "b\<lparr>bk_exit_reason := []\<rparr>" why] assms by (simp add: new_trades_def trading_def)
  ultimately show ?thesis
    using assms market_exit_fair [OF assms] by (auto simp: pb_manage_def Let_def trading_def simp flip: b1_def)
qed

lemma tick_entry_fair:
  assumes "0 \<le> bk_slip b" and "bk_slip b < t_price t" and "bk_dir b = 0" and "bk_wf b"
    and "bk_dir (pb_on_tick ro t b) \<noteq> 0"
  shows "if bk_dir (pb_on_tick ro t b) = 1 then t_price t \<le> bk_entry (pb_on_tick ro t b)
     else bk_entry (pb_on_tick ro t b) \<le> t_price t"
proof -
  define b1 where "b1 = bk_clock t b"
  have b1: "bk_dir b1 = 0" "bk_slip b1 = bk_slip b" "bk_pending b1 = -1 \<or> bk_pending b1 = 0 \<or> bk_pending b1 = 1"
    using assms(3,4) by (auto simp: b1_def bk_clock_def bk_wf_def split: prod.split)
  define dir where "dir = bk_pending b1"
  define b2 where "b2 = pb_fill_pending ro t b1"
  have tick: "pb_on_tick ro t b = pb_manage ro t b2"
    using b1(1) by (simp add: pb_on_tick_def Let_def bk_predates_def flip: b1_def b2_def)
  have open2: "bk_dir b2 \<noteq> 0" using assms(5) by (auto simp: tick pb_manage_def)
  have due: "bk_fill_due t b1" using open2 b1(1) by (cases "bk_fill_due t b1") (simp_all add: b2_def pb_fill_pending_def)
  have px: "bk_dir b2 = dir" "bk_entry b2 = bk_entry_fill t dir (b1\<lparr>bk_pending := 0\<rparr>)" "behind b2"
    using due by (simp_all add: b2_def pb_fill_pending_def pb_enter_def pb_persist_def Let_def dir_def behind_def bk_push_def)
  have fair: "if dir = 1 then t_price t \<le> bk_entry b2 else bk_entry b2 \<le> t_price t"
    using entry_fair [of t "b1\<lparr>bk_pending := 0\<rparr>" dir] assms(1,2) b1(2,3) open2 px by (auto simp: dir_def)
  from manage_result [OF px(3) open2, of ro t] assms(5)
  have "bk_entry (pb_manage ro t b2) = bk_entry b2" "bk_dir (pb_manage ro t b2) = bk_dir b2"
    by (auto simp: tick goes_flat_def hold_defs)
  with fair px(1) show ?thesis by (simp add: tick)
qed

text \<open>
  C28.  Fair fills of the ORB paper broker: a trade that a tick closes, by its stop, its target,
  a book exit, a flatten, the end of day or a risk halt, is never booked better than the tick
  that closed it; and a position that a tick opens is never entered better than that tick.
\<close>

theorem paper_fills_fair:
  assumes "0 \<le> bk_slip b" and "bk_slip b < t_price t"
  shows "(trading t b \<longrightarrow> list_all (fair_exit (t_price t)) (new_trades b (pb_on_tick ro t b))) \<and>
    (bk_dir b = 0 \<and> bk_wf b \<and> bk_dir (pb_on_tick ro t b) \<noteq> 0 \<longrightarrow>
       (if bk_dir (pb_on_tick ro t b) = 1 then t_price t \<le> bk_entry (pb_on_tick ro t b)
        else bk_entry (pb_on_tick ro t b) \<le> t_price t))"
proof (intro conjI impI)
  assume tr: "trading t b"
  define b1 where "b1 = bk_clock t b"
  have b1: "trading t b1" "bk_out b1 = bk_out b" "bk_dir b1 \<noteq> 0"
    using tr by (auto simp: b1_def bk_clock_def trading_def split: prod.split)
  then have "pb_fill_pending ro t b1 = b1" by (simp add: pb_fill_pending_def bk_fill_due_def)
  with manage_fair [OF b1(1), of ro] b1(2) show "list_all (fair_exit (t_price t)) (new_trades b (pb_on_tick ro t b))"
    by (simp add: pb_on_tick_def Let_def new_trades_def flip: b1_def)
next
  assume "bk_dir b = 0 \<and> bk_wf b \<and> bk_dir (pb_on_tick ro t b) \<noteq> 0"
  with tick_entry_fair [OF assms, of ro] show "if bk_dir (pb_on_tick ro t b) = 1
      then t_price t \<le> bk_entry (pb_on_tick ro t b) else bk_entry (pb_on_tick ro t b) \<le> t_price t" by blast
qed

lemma paper_fills_fair_witness:
  "map tr_exit (new_trades (run pb_step (pb_new ''s'' ''a'' ''MNQ'' default_config (1/4) 1 True True) (take 3 demo_loss))
     (pb_on_tick None (demo_tick 962 80)
       (run pb_step (pb_new ''s'' ''a'' ''MNQ'' default_config (1/4) 1 True True) (take 3 demo_loss)))) = [80] \<and>
   list_all (fair_exit 80) (new_trades (run pb_step (pb_new ''s'' ''a'' ''MNQ'' default_config (1/4) 1 True True) (take 3 demo_loss))
     (pb_on_tick None (demo_tick 962 80)
       (run pb_step (pb_new ''s'' ''a'' ''MNQ'' default_config (1/4) 1 True True) (take 3 demo_loss))))"
proof -
  define b where "b = run pb_step (pb_new ''s'' ''a'' ''MNQ'' default_config (1/4) 1 True True) (take 3 demo_loss)"
  have slip: "bk_slip b = 1/4" unfolding b_def by code_simp
  have "trading (demo_tick 962 80) b" unfolding b_def by code_simp
  with paper_fills_fair [of b "demo_tick 962 80" None] slip
  have "list_all (fair_exit 80) (new_trades b (pb_on_tick None (demo_tick 962 80) b))"
    by (simp add: demo_tick_def)
  moreover have "map tr_exit (new_trades b (pb_on_tick None (demo_tick 962 80) b)) = [80]" unfolding b_def by code_simp
  ultimately show ?thesis by (simp add: b_def)
qed

subsection \<open>The bracket broker\<close>

definition bb_trading :: "orb_tick \<Rightarrow> bracket_broker \<Rightarrow> bool" where
  "bb_trading t b = ((bk_dir b = 1 \<or> bk_dir b = -1) \<and> bk_store b \<and> 0 \<le> bk_slip b \<and> bk_slip b < t_price t \<and>
     (bk_dir b = 1 \<longrightarrow> bk_slip b < bk_stop b))"

lemma bb_exit_fields [simp]:
  "bk_dir (bb_exit fill ts why b) = 0" "bk_cfg (bb_exit fill ts why b) = bk_cfg b"
  "bk_store (bb_exit fill ts why b) = bk_store b"
  "recorded (bk_out (bb_exit fill ts why b)) =
     recorded (bk_out b) @ (if bk_store b then [bk_trade fill ts why b] else [])"
  by (simp_all add: bb_exit_def bb_persist_def Let_def)

lemma bb_new_trades_exit: "bk_store b \<Longrightarrow> new_trades b (bb_exit fill ts why b) = [bk_trade fill ts why b]"
  by (simp add: new_trades_def)

lemma bb_market_exit_fair: "bb_trading t b \<Longrightarrow> list_all (fair_exit (t_price t)) (new_trades b (bb_market_exit t why b))"
  using handed_market [of b "t_price t"] by (simp add: bb_market_exit_def bb_trading_def bb_new_trades_exit fair_trade)

lemma bb_close_out_fair:
  assumes "bb_trading t b"
  shows "list_all (fair_exit (t_price t)) (new_trades b (bb_close_out t b))"
proof -
  have "list_all (fair_exit (t_price t)) (new_trades b (bb_market_exit t why (b\<lparr>bk_exit_reason := []\<rparr>)))" for why
    using bb_market_exit_fair [of t "b\<lparr>bk_exit_reason := []\<rparr>" why] assms by (simp add: new_trades_def bb_trading_def)
  moreover have "new_trades b ((bk_excursion x b)\<lparr>bk_risk := r\<rparr>) = []" for x r
    by (simp add: new_trades_def)
  ultimately show ?thesis
    using bb_market_exit_fair [OF assms] by (simp add: bb_close_out_def Let_def)
qed

lemma bb_manage_fair:
  assumes "bb_trading t b"
  shows "list_all (fair_exit (t_price t)) (new_trades b (bb_manage t stop tp b))"
proof -
  define b1 where "b1 = bb_update_bracket stop tp b"
  have b1: "bb_trading t b1" "bk_out b1 = bk_out b" "bk_dir b1 \<noteq> 0" "bk_store b1"
    using assms by (auto simp: b1_def bb_update_bracket_def bb_trading_def)
  have stop: "handed (t_price t) (bb_stop_fill (t_price t) b1) b1" if "bb_stopped (t_price t) b1"
    using that b1(1) by (auto simp: handed_def bb_stop_fill_def bb_stopped_def bb_trading_def Let_def)
  have target: "handed (t_price t) (the (bb_tp b1)) b1" if "bb_target_hit (t_price t) b1"
    using that b1(1) by (auto simp: handed_def bb_target_hit_def bb_trading_def split: option.splits)
  have "bb_trading t (bb_book_be t b1)" "bk_out (bb_book_be t b1) = bk_out b1"
    using b1(1) by (auto simp: bb_book_be_def bb_trading_def Let_def)
  then have "list_all (fair_exit (t_price t)) (new_trades b1 (bb_close_out t (bb_book_be t b1)))"
    using bb_close_out_fair [of t "bb_book_be t b1"] by (simp add: new_trades_def)
  then have "list_all (fair_exit (t_price t)) (new_trades b1 (bb_manage t stop tp b))"
    using b1(3,4) assms stop target bb_market_exit_fair [OF b1(1)]
    by (auto simp: bb_manage_def Let_def bb_new_trades_exit fair_trade bb_trading_def [of t b] simp flip: b1_def)
  then show ?thesis using b1(2) by (simp add: new_trades_def)
qed

text \<open>
  Fair fills of the bracket broker: a trade that a tick closes, by a reversal, its stop,
  its target, a book exit, a flatten, a risk halt or the end of day, is never booked better
  than the tick that closed it, whatever bracket the strategy passes.
\<close>

theorem bracket_fills_fair:
  assumes "bb_trading t b"
  shows "list_all (fair_exit (t_price t)) (new_trades b (bb_on_tick t stop tp q b))"
proof -
  define b1 where "b1 = bk_clock t b"
  have b1: "bb_trading t b1" "bk_out b1 = bk_out b" "bk_dir b1 \<noteq> 0"
    using assms by (auto simp: b1_def bk_clock_def bb_trading_def split: prod.split)
  then have fill: "bb_fill_pending t stop tp q b1 = b1" by (simp add: bb_fill_pending_def bk_fill_due_def)
  have "list_all (fair_exit (t_price t)) (new_trades b1 (bb_market_exit t ''reversal'' (b1\<lparr>bb_flip := 0\<rparr>)))"
    using bb_market_exit_fair [of t "b1\<lparr>bb_flip := 0\<rparr>" "''reversal''"] b1(1) by (simp add: new_trades_def bb_trading_def)
  then have "list_all (fair_exit (t_price t)) (new_trades b1 (bb_flip_now t b1))"
    using b1(3) by (simp add: bb_flip_now_def Let_def new_trades_def)
  with bb_manage_fair [OF b1(1), of stop tp] b1(2) fill show ?thesis
    by (simp add: bb_on_tick_def Let_def new_trades_def flip: b1_def)
qed

lemma bracket_fills_fair_witness:
  "list_all (fair_exit 80) (new_trades
     (run bb_step (bb_new ''s'' ''a'' ''MNQ'' default_config (1/4) 1 True True) (take 3 demo_reversal))
     (bb_on_tick (demo_tick 962 80) (Some 95) None 1
       (run bb_step (bb_new ''s'' ''a'' ''MNQ'' default_config (1/4) 1 True True) (take 3 demo_reversal))))"
proof -
  define b where "b = run bb_step (bb_new ''s'' ''a'' ''MNQ'' default_config (1/4) 1 True True) (take 3 demo_reversal)"
  have "bb_trading (demo_tick 962 80) b" unfolding b_def by code_simp
  from bracket_fills_fair [OF this, of "Some 95" None 1] show ?thesis by (simp add: demo_tick_def b_def)
qed

end
