(* ===== verification/Paper_Parity.thy ===== *)
theory Paper_Parity
  imports Paper_Stops
begin

section \<open>The ORB paper broker mirrors the live order manager\<close>

text \<open>
  \<open>paper_broker.hpp\<close> says it mirrors the exit semantics of \<open>check_trail_and_stop\<close> in
  \<open>order_manager.hpp\<close>.  The simulation relation ties the paper broker's position to the
  order manager's, its working stop to the one working at the exchange; a tick that closes
  the trade on neither side keeps them tied, when prices and offsets lie on the tick grid.
  Off the grid the two differ: the paper broker snaps its levels and the live one does not.
\<close>

subsection \<open>The relation\<close>

definition mirrors :: "paper_broker \<Rightarrow> om \<Rightarrow> bool" where
  "mirrors b s = (bk_cfg b = om_cfg s \<and>
     ((bk_dir b = 1 \<and> p_state (om_pos s) = LONG) \<or> (bk_dir b = -1 \<and> p_state (om_pos s) = SHORT)) \<and>
     bk_entry b = p_entry_price (om_pos s) \<and> bk_stop b = p_sl_price (om_pos s) \<and>
     bk_mfe b = p_mfe (om_pos s) \<and> bk_mae b = - p_mae (om_pos s) \<and>
     pb_be b = p_be_triggered (om_pos s) \<and> pb_trail b = p_trailing_active (om_pos s) \<and>
     pb_placed b = om_last_exch_sl s \<and> 0 < om_last_exch_sl s \<and> p_stop_id (om_pos s) \<noteq> [])"

text \<open>Orders reach the exchange and are accepted, and the account trades live.\<close>

definition answering :: "om_env \<Rightarrow> om \<Rightarrow> bool" where
  "answering e s = (e_order_cb e \<and> e_cancel_cb e \<and> (\<forall>rq. e_accepts e rq) \<and> \<not> c_dry_run (om_cfg s))"

definition on_grid :: "real \<Rightarrow> real \<Rightarrow> bool" where
  "on_grid tick x = (x / tick \<in> \<int>)"

lemma on_grid_add: "on_grid k x \<Longrightarrow> on_grid k y \<Longrightarrow> on_grid k (x + y)"
  by (simp add: on_grid_def add_divide_distrib)

lemma on_grid_diff: "on_grid k x \<Longrightarrow> on_grid k y \<Longrightarrow> on_grid k (x - y)"
  by (simp add: on_grid_def diff_divide_distrib)

lemma snap_on_grid:
  assumes "on_grid (bk_tick b) x"
  shows "bk_snap x dir b = x"
proof (cases "bk_tick b \<le> 0")
  case False
  from assms obtain n where n: "x / bk_tick b = of_int n" by (auto simp: on_grid_def elim: Ints_cases)
  have "\<lfloor>of_int n + 1/1000000000 :: real\<rfloor> = n" "\<lceil>of_int n - 1/1000000000 :: real\<rceil> = n" by linarith+
  with False n show ?thesis by (simp add: bk_snap_def Let_def) (simp add: field_simps)
qed (simp add: bk_snap_def)

subsection \<open>What moving the exchange stop does\<close>

lemma accepted_submit:
  assumes "answering e s"
  shows "om_last_exch_sl (submit_stop e sl s) = sl" and "p_stop_id (om_pos (submit_stop e sl s)) \<noteq> []"
    and "p_mae (om_pos (submit_stop e sl s)) = p_mae (om_pos s)"
    and "p_be_triggered (om_pos (submit_stop e sl s)) = p_be_triggered (om_pos s)"
    and "p_trailing_active (om_pos (submit_stop e sl s)) = p_trailing_active (om_pos s)"
    and "p_fill_time (om_pos (submit_stop e sl s)) = p_fill_time (om_pos s)"
  using assms
  by (simp_all add: answering_def submit_stop_def case_prod_beta new_basket_state Let_def send_order_def emit_persist_def
      emit_def new_basket_nonempty)

lemma cancel_stop_keeps:
  "om_last_exch_sl (cancel_stop e s) = om_last_exch_sl s" "om_cfg (cancel_stop e s) = om_cfg s"
  "p_mae (om_pos (cancel_stop e s)) = p_mae (om_pos s)"
  "p_be_triggered (om_pos (cancel_stop e s)) = p_be_triggered (om_pos s)"
  "p_trailing_active (om_pos (cancel_stop e s)) = p_trailing_active (om_pos s)"
  "p_fill_time (om_pos (cancel_stop e s)) = p_fill_time (om_pos s)"
  by (simp_all add: cancel_stop_def Let_def emit_def emit_persist_def emit_server_def)

lemma accepted_update:
  assumes "answering e s" and "p_stop_id (om_pos s) \<noteq> []"
  shows "om_last_exch_sl (update_stop e sl f s) =
      (if \<not> f \<and> om_last_exch_sl s \<noteq> 0 \<and>
          \<bar>sl - om_last_exch_sl s\<bar> < trail_step_for (om_cfg s) (e_regime e) - 1/1000000000
       then om_last_exch_sl s else sl)"
    and "p_stop_id (om_pos (update_stop e sl f s)) \<noteq> []"
    and "p_mae (om_pos (update_stop e sl f s)) = p_mae (om_pos s)"
    and "p_be_triggered (om_pos (update_stop e sl f s)) = p_be_triggered (om_pos s)"
    and "p_trailing_active (om_pos (update_stop e sl f s)) = p_trailing_active (om_pos s)"
    and "p_fill_time (om_pos (update_stop e sl f s)) = p_fill_time (om_pos s)"
proof -
  have a: "answering e (cancel_stop e (s\<lparr>om_resubmit := True\<rparr>))"
    using assms(1) by (simp add: answering_def cancel_stop_keeps)
  show "om_last_exch_sl (update_stop e sl f s) =
      (if \<not> f \<and> om_last_exch_sl s \<noteq> 0 \<and>
          \<bar>sl - om_last_exch_sl s\<bar> < trail_step_for (om_cfg s) (e_regime e) - 1/1000000000
       then om_last_exch_sl s else sl)"
    "p_stop_id (om_pos (update_stop e sl f s)) \<noteq> []"
    "p_mae (om_pos (update_stop e sl f s)) = p_mae (om_pos s)"
    "p_be_triggered (om_pos (update_stop e sl f s)) = p_be_triggered (om_pos s)"
    "p_trailing_active (om_pos (update_stop e sl f s)) = p_trailing_active (om_pos s)"
    "p_fill_time (om_pos (update_stop e sl f s)) = p_fill_time (om_pos s)"
    using assms accepted_submit [OF a] by (auto simp: update_stop_def answering_def cancel_stop_keeps)
qed

text \<open>The same level sent on both sides, forced or through the trail filter, keeps the tie.\<close>

lemma pb_sync_more [simp]:
  "bk_mfe (pb_sync ro f b) = bk_mfe b" "bk_mae (pb_sync ro f b) = bk_mae b" "pb_be (pb_sync ro f b) = pb_be b"
  "pb_trail (pb_sync ro f b) = pb_trail b" "bk_dir (pb_sync ro f b) = bk_dir b"
  by (simp_all add: pb_sync_def)

lemma placed_sync: "pb_placed (pb_sync ro f b) =
    (if pb_placed b \<le> 0 \<or> f \<or> \<bar>bk_stop b - pb_placed b\<bar> \<ge> trail_step_for (bk_cfg b) ro - 1/1000000000
     then bk_stop b else pb_placed b)"
  by (simp add: pb_sync_def)

definition synced :: "regime option \<Rightarrow> paper_broker \<Rightarrow> bool" where
  "synced ro b = (0 < pb_placed b \<and> (pb_placed b = bk_stop b \<or>
     \<bar>bk_stop b - pb_placed b\<bar> < trail_step_for (bk_cfg b) ro - 1/1000000000))"

lemma synced_sync:
  assumes "synced ro b"
  shows "pb_sync ro False b = b"
proof (cases "pb_placed b = bk_stop b")
  case True
  have "b\<lparr>pb_placed := pb_placed b\<rparr> = b" by simp
  then show ?thesis unfolding pb_sync_def True by simp
next
  case False
  with assms show ?thesis by (simp add: synced_def pb_sync_def)
qed

lemma sync_synced: "0 < bk_stop b \<Longrightarrow> synced ro (pb_sync ro f b)"
  by (auto simp: synced_def placed_sync)

lemma tied_move:
  assumes m: "mirrors b s" and a: "answering e s" and pos: "0 < sl"
    and s': "p_state (om_pos s') = p_state (om_pos s)" "p_entry_price (om_pos s') = p_entry_price (om_pos s)"
      "p_mfe (om_pos s') = p_mfe (om_pos s)" "p_mae (om_pos s') = p_mae (om_pos s)" "p_sl_price (om_pos s') = sl"
      "p_trailing_active (om_pos s') = p_trailing_active (om_pos s)"
      "p_stop_id (om_pos s') = p_stop_id (om_pos s)" "om_cfg s' = om_cfg s" "om_last_exch_sl s' = om_last_exch_sl s"
    and b': "b' = (pb_sync (e_regime e) f (b\<lparr>bk_stop := sl, pb_dirty := d\<rparr>))\<lparr>pb_be := p_be_triggered (om_pos s')\<rparr>"
  shows "mirrors b' (update_stop e sl f s')" and "synced (e_regime e) b'"
proof -
  have id: "p_stop_id (om_pos s') \<noteq> []" using m s'(7) by (simp add: mirrors_def)
  have a': "answering e s'" using a s'(8) by (simp add: answering_def)
  have m': "bk_cfg b = om_cfg s" "0 < om_last_exch_sl s" "pb_placed b = om_last_exch_sl s"
    using m by (simp_all add: mirrors_def)
  have placed: "pb_placed b' = om_last_exch_sl (update_stop e sl f s')"
    using m' s'(8,9) by (simp add: b' placed_sync accepted_update(1) [OF a' id])
  moreover have "0 < om_last_exch_sl (update_stop e sl f s')"
    using m'(2) pos s'(9) by (simp add: accepted_update(1) [OF a' id])
  ultimately show "mirrors b' (update_stop e sl f s')"
    using m s' by (simp add: mirrors_def b' accepted_update(2-) [OF a' id])
  have "synced (e_regime e) (pb_sync (e_regime e) f (b\<lparr>bk_stop := sl, pb_dirty := d\<rparr>))"
    by (rule sync_synced) (simp add: pos)
  then show "synced (e_regime e) b'" by (simp add: b' synced_def)
qed

subsection \<open>The stages of a tick\<close>

text \<open>What both sides read as levels: entry, offset, trail step and price on the grid.\<close>

definition grid_levels :: "regime option \<Rightarrow> real \<Rightarrow> paper_broker \<Rightarrow> bool" where
  "grid_levels ro px b =
     (let k = bk_tick b; c = bk_cfg b
      in on_grid k (bk_entry b) \<and> on_grid k (c_trail_be_offset c) \<and> on_grid k px \<and> on_grid k (trail_step_for c ro) \<and>
         \<bar>c_trail_be_offset c\<bar> < bk_entry b \<and> \<bar>trail_step_for c ro\<bar> < px)"

lemma mirrors_excursion:
  assumes "mirrors b s" and "bk_mae b \<le> bk_mfe b"
  shows "mirrors (bk_excursion (bk_points px b) b) (s\<lparr>om_pos := track_excursion px (om_pos s)\<rparr>)"
proof -
  have "pb_be (bk_excursion x b) = pb_be b" "pb_trail (bk_excursion x b) = pb_trail b"
    "pb_placed (bk_excursion x b) = pb_placed b" for x
    by (simp_all add: bk_excursion_def Let_def)
  with assms show ?thesis
    by (auto simp: mirrors_def bk_excursion_bounds track_excursion_def bk_points_def Let_def)
qed

lemma mirrors_be_level:
  assumes "mirrors b s" and "grid_levels ro px b"
  shows "pb_be_level b = (if p_state (om_pos s) = LONG then p_entry_price (om_pos s) + c_trail_be_offset (om_cfg s)
      else p_entry_price (om_pos s) - c_trail_be_offset (om_cfg s))" and "0 < pb_be_level b"
proof -
  have "on_grid (bk_tick b) (bk_entry b + of_int (bk_dir b) * c_trail_be_offset (bk_cfg b))"
    using assms by (auto simp: mirrors_def grid_levels_def Let_def intro: on_grid_add on_grid_diff)
  then have "pb_be_level b = bk_entry b + of_int (bk_dir b) * c_trail_be_offset (bk_cfg b)"
    by (simp add: pb_be_level_def snap_on_grid)
  with assms show "pb_be_level b = (if p_state (om_pos s) = LONG then p_entry_price (om_pos s) + c_trail_be_offset (om_cfg s)
      else p_entry_price (om_pos s) - c_trail_be_offset (om_cfg s))" "0 < pb_be_level b"
    by (auto simp: mirrors_def grid_levels_def Let_def)
qed

lemma mirrors_tighter: "mirrors b s \<Longrightarrow> tighter (bk_dir b) lvl (bk_stop b) = tightens (om_pos s) lvl"
  by (auto simp: mirrors_def tighter_def tightens_def)

lemma mirrors_break_even:
  assumes m: "mirrors b s" and a: "answering e s" and g: "grid_levels (e_regime e) px b" and sy: "synced (e_regime e) b"
  shows "mirrors (pb_break_even (e_regime e) b) (snd (break_even_step e s))"
    and "synced (e_regime e) (pb_break_even (e_regime e) b)"
    and "p_fill_time (om_pos (snd (break_even_step e s))) = p_fill_time (om_pos s)"
proof -
  define be where "be = pb_be_level b"
  note lvl = mirrors_be_level [OF m g, folded be_def]
  define s1 where "s1 = s\<lparr>om_pos := (om_pos s)\<lparr>p_be_triggered := True, p_sl_price := be, p_be_sl_price := be\<rparr>\<rparr>"
  have id: "p_stop_id (om_pos s1) \<noteq> []" and a1: "answering e s1"
    using m a by (simp_all add: s1_def mirrors_def answering_def)
  have live: "snd (break_even_step e s) =
      (if \<not> pb_be b \<and> bk_mfe b \<ge> c_trail_be_trigger (bk_cfg b)
       then (if tighter (bk_dir b) be (bk_stop b) then update_stop e be True s1
             else s\<lparr>om_pos := (om_pos s)\<lparr>p_be_triggered := True\<rparr>\<rparr>) else s)"
    using m unfolding mirrors_tighter [OF m] by (simp add: break_even_step_def Let_def lvl(1) s1_def mirrors_def tightens_def)
  have moved: "mirrors ((pb_sync (e_regime e) True (b\<lparr>bk_stop := be, pb_dirty := True\<rparr>))\<lparr>pb_be := True\<rparr>) (update_stop e be True s1)"
    "synced (e_regime e) ((pb_sync (e_regime e) True (b\<lparr>bk_stop := be, pb_dirty := True\<rparr>))\<lparr>pb_be := True\<rparr>)"
    by (rule tied_move [OF m a lvl(2), where s' = s1]; simp add: s1_def)+
  have still: "mirrors (b\<lparr>pb_be := True\<rparr>) (s\<lparr>om_pos := (om_pos s)\<lparr>p_be_triggered := True\<rparr>\<rparr>)"
    "synced (e_regime e) (b\<lparr>pb_be := True\<rparr>)"
    using m sy by (simp_all add: mirrors_def synced_def)
  show "mirrors (pb_break_even (e_regime e) b) (snd (break_even_step e s))"
    "synced (e_regime e) (pb_break_even (e_regime e) b)"
    using moved still m sy by (simp_all add: live pb_break_even_def flip: be_def)
  show "p_fill_time (om_pos (snd (break_even_step e s))) = p_fill_time (om_pos s)"
    using accepted_update(6) [OF a1 id] by (simp add: live s1_def)
qed

lemma mirrors_trail_step:
  assumes m: "mirrors b s" and a: "answering e s" and g: "grid_levels (e_regime e) px b" and sy: "synced (e_regime e) b"
  shows "mirrors (pb_trail_step (e_regime e) px b) (snd (trail_step_update e px s))"
    and "synced (e_regime e) (pb_trail_step (e_regime e) px b)"
proof -
  define step where "step = trail_step_for (bk_cfg b) (e_regime e)"
  define sl where "sl = px - of_int (bk_dir b) * step"
  have "on_grid (bk_tick b) sl" "0 < sl"
    using m g by (auto simp: sl_def step_def mirrors_def grid_levels_def Let_def intro: on_grid_add on_grid_diff)
  then have cand: "bk_snap sl (bk_dir b) b = sl" and pos: "0 < sl" by (simp_all add: snap_on_grid)
  define s1 where "s1 = s\<lparr>om_pos := (om_pos s)\<lparr>p_sl_price := sl\<rparr>\<rparr>"
  have sl: "(if p_state (om_pos s) = LONG then px - trail_step_for (om_cfg s) (e_regime e)
      else px + trail_step_for (om_cfg s) (e_regime e)) = sl"
    using m by (auto simp: sl_def step_def mirrors_def)
  have live: "snd (trail_step_update e px s) =
      (if pb_trail b \<and> tighter (bk_dir b) sl (bk_stop b) then update_stop e sl False s1 else s)"
    using m unfolding mirrors_tighter [OF m] trail_step_update_def Let_def sl s1_def
    by (simp add: mirrors_def split del: if_split) (simp split: if_split)
  have same: "(pb_sync (e_regime e) False (b\<lparr>bk_stop := sl, pb_dirty := True\<rparr>))\<lparr>pb_be := pb_be b\<rparr> =
      pb_sync (e_regime e) False (b\<lparr>bk_stop := sl, pb_dirty := True\<rparr>)"
    by (simp add: pb_sync_def)
  have be: "p_be_triggered (om_pos s) = pb_be b" using m by (simp add: mirrors_def)
  have "mirrors ((pb_sync (e_regime e) False (b\<lparr>bk_stop := sl, pb_dirty := True\<rparr>))\<lparr>pb_be := pb_be b\<rparr>) (update_stop e sl False s1)"
    "synced (e_regime e) ((pb_sync (e_regime e) False (b\<lparr>bk_stop := sl, pb_dirty := True\<rparr>))\<lparr>pb_be := pb_be b\<rparr>)"
    by (rule tied_move [OF m a pos, where s' = s1]; simp add: s1_def be)+
  then have "mirrors (pb_sync (e_regime e) False (b\<lparr>bk_stop := sl, pb_dirty := True\<rparr>)) (update_stop e sl False s1)"
    "synced (e_regime e) (pb_sync (e_regime e) False (b\<lparr>bk_stop := sl, pb_dirty := True\<rparr>))"
    unfolding same .
  with m sy show "mirrors (pb_trail_step (e_regime e) px b) (snd (trail_step_update e px s))"
    "synced (e_regime e) (pb_trail_step (e_regime e) px b)"
    by (simp_all add: live pb_trail_step_def Let_def cand flip: step_def sl_def)
qed

lemma mirrors_arm_trail:
  assumes "mirrors b s" and "synced ro b"
    and "cdiv (ts - bk_entry_us b) 1000000 = cdiv (e_now e - p_fill_time (om_pos s)) 1000000000"
  shows "mirrors (pb_arm_trail ts b) (trail_activation e s)" and "synced ro (pb_arm_trail ts b)"
  using assms by (auto simp: mirrors_def synced_def pb_arm_trail_def trail_activation_def Let_def)

lemma mirrors_stopped:
  assumes "mirrors b s"
  shows "pb_stopped px b = (if p_state (om_pos s) = LONG then px \<le> effective_sl s else px \<ge> effective_sl s)"
  using assms by (auto simp: mirrors_def pb_stopped_def effective_sl_def)

lemma mirrors_target:
  assumes "mirrors b s"
  shows "pb_target_hit (e_regime e) px b = (take_profit_for (om_cfg s) (e_regime e) > 0 \<and>
    (if p_state (om_pos s) = LONG then px \<ge> p_entry_price (om_pos s) + take_profit_for (om_cfg s) (e_regime e)
     else px \<le> p_entry_price (om_pos s) - take_profit_for (om_cfg s) (e_regime e)))"
  using assms by (auto simp: mirrors_def pb_target_hit_def pb_target_def)

text \<open>Everything after the exit tests: excursion, break-even, trail.\<close>

definition live_ratchet :: "om_env \<Rightarrow> real \<Rightarrow> om \<Rightarrow> om" where
  "live_ratchet e px s = snd (trail_step_update e px (trail_activation e (snd (break_even_step e s))))"

lemma mirrors_ratchet:
  assumes m: "mirrors b s" and a: "answering e s" and g: "grid_levels (e_regime e) (t_price t) b"
    and sy: "synced (e_regime e) b" and wf: "bk_mae b \<le> bk_mfe b"
    and clk: "cdiv (t_ts t - bk_entry_us b) 1000000 = cdiv (e_now e - p_fill_time (om_pos s)) 1000000000"
  shows "mirrors (pb_ratchet (e_regime e) t b) (live_ratchet e (t_price t) (s\<lparr>om_pos := track_excursion (t_price t) (om_pos s)\<rparr>))"
    and "synced (e_regime e) (pb_ratchet (e_regime e) t b)"
proof -
  define ro where "ro = e_regime e"
  define s1 where "s1 = s\<lparr>om_pos := track_excursion (t_price t) (om_pos s)\<rparr>"
  define b1 where "b1 = bk_excursion (bk_points (t_price t) b) b"
  define b2 where "b2 = pb_break_even ro b1"
  define s2 where "s2 = snd (break_even_step e s1)"
  define b3 where "b3 = pb_arm_trail (t_ts t) b2"
  define s3 where "s3 = trail_activation e s2"
  have m1: "mirrors b1 s1" unfolding b1_def s1_def by (rule mirrors_excursion [OF m wf])
  have keep: "synced ro b1" "grid_levels ro (t_price t) b1" "bk_entry_us b1 = bk_entry_us b"
    using sy g by (simp_all add: b1_def bk_excursion_def synced_def grid_levels_def ro_def Let_def)
  have a1: "answering e s1" and f1: "p_fill_time (om_pos s1) = p_fill_time (om_pos s)"
    using a by (simp_all add: s1_def answering_def track_excursion_def Let_def)
  note be = mirrors_break_even [OF m1 a1 keep(2,1) [unfolded ro_def], folded ro_def, folded b2_def s2_def]
  have e2: "bk_entry_us b2 = bk_entry_us b" "bk_cfg b2 = bk_cfg b1" "bk_tick b2 = bk_tick b1" "bk_entry b2 = bk_entry b1"
    by (simp_all add: b2_def pb_break_even_def pb_sync_def keep(3))
  have m3: "mirrors b3 s3" "synced ro b3"
    unfolding b3_def s3_def by (rule mirrors_arm_trail [OF be(1,2)]; simp add: e2 be(3) f1 clk)+
  have g3: "grid_levels ro (t_price t) b3" and a3: "answering e s3"
    using keep(2) e2 a1 m3(1) m1 be(1)
    by (simp_all add: b3_def s3_def pb_arm_trail_def grid_levels_def answering_def trail_activation_def mirrors_def Let_def)
  define b4 where "b4 = pb_trail_step ro (t_price t) b3"
  note tr = mirrors_trail_step [OF m3(1) a3 g3 [unfolded ro_def] m3(2) [unfolded ro_def], folded ro_def, folded b4_def]
  have "live_ratchet e (t_price t) s1 = snd (trail_step_update e (t_price t) s3)"
    by (simp add: live_ratchet_def s3_def s2_def)
  moreover have "pb_ratchet ro t b = (let u = bk_unrealized (t_price t) b4; b5 = b4\<lparr>bk_risk := risk_update_unrealized (Fin u) (bk_risk b4)\<rparr>
      in if pb_dirty b5 then pb_persist u (b5\<lparr>pb_dirty := False\<rparr>) else b5)"
    by (simp add: pb_ratchet_def Let_def b4_def b3_def b2_def b1_def)
  moreover have "mirrors (c\<lparr>bk_risk := r\<rparr>) z = mirrors c z" "mirrors (pb_persist u (c\<lparr>bk_risk := r, pb_dirty := False\<rparr>)) z = mirrors c z"
    "synced ro (c\<lparr>bk_risk := r\<rparr>) = synced ro c" "synced ro (pb_persist u (c\<lparr>bk_risk := r, pb_dirty := False\<rparr>)) = synced ro c"
    for c r u z
    by (simp_all add: mirrors_def synced_def pb_persist_def bk_push_def)
  ultimately show "mirrors (pb_ratchet (e_regime e) t b) (live_ratchet e (t_price t) (s\<lparr>om_pos := track_excursion (t_price t) (om_pos s)\<rparr>))"
    "synced (e_regime e) (pb_ratchet (e_regime e) t b)"
    using tr by (simp_all add: Let_def flip: ro_def s1_def)
qed

subsection \<open>A tick on both sides\<close>

definition no_book_rules :: "orb_config \<Rightarrow> bool" where
  "no_book_rules c = (\<not> c_book_be_on_flip c \<and> c_book_exit_flip c = 0 \<and> c_book_tp_imbalance c = 0)"

text \<open>Nothing but the price decides: no flatten pending, not past the end of day, not halted.\<close>

definition undisturbed :: "orb_tick \<Rightarrow> paper_broker \<Rightarrow> bool" where
  "undisturbed t b = (bk_exit_reason b = [] \<and> \<not> bk_halted b \<and> \<not> bk_predates t b \<and>
     \<not> past_eod (bk_cfg b) (fst (utc_to_et (t_ts t)) * 60 + snd (utc_to_et (t_ts t))))"


text \<open>A long from 100 with its stop at 85 on both sides, and a tick at 104.\<close>

definition paper_long :: paper_broker where
  "paper_long = (pb_new ''s'' ''a'' ''MNQ'' live_config (1/4) 1 True True)
     \<lparr>bk_dir := 1, bk_qty := 1, bk_entry := 100, bk_stop := 85, pb_placed := 85, bk_entry_us := 1748871960000000\<rparr>"

definition live_long :: om where
  "live_long = om_live\<lparr>om_last_exch_sl := 85, om_pos := pos0\<lparr>p_state := LONG, p_dir := BUY, p_stop_id := ''id'',
     p_entry_price := 100, p_sl_price := 85, p_fill_time := 0\<rparr>\<rparr>"


end
