(* ===== verification/Wal.thy ===== *)
theory Wal
  imports Text_Parse
begin

section \<open>The write-ahead log\<close>

text \<open>
  \<open>Wal<Row>\<close> of \<open>src/src/wal.hpp\<close>: the file as the text it holds, the rows pending in
  memory and the tracked size; the codec (\<open>to_line\<close>, \<open>from_line\<close>) is an argument, as it is a
  constructor argument in the code.  What \<open>write\<close> and \<open>fdatasync\<close> do is the argument
  \<open>wal_io\<close>: everything written and synced, an error after some bytes, or a failed sync.  A
  crash followed by a restart is \<open>wal_open\<close> on the text of the file.

  The locale \<open>line_codec\<close> is what the log needs of a codec, and holds the recovery lemmas.
\<close>

subsection \<open>Data and operations\<close>

record 'r wal =
  w_file :: string
  w_pending :: "'r list"
  w_size :: int
  w_max :: int

datatype wal_io = Written | TornAfter nat | SyncFailed

abbreviation newline :: char where
  "newline \<equiv> CHR 0x0A"

text \<open>The \<open>getline\<close> loop: the lines without their newline, a last unterminated one included.\<close>

fun lines_of :: "string \<Rightarrow> string \<Rightarrow> string list" where
  "lines_of cur [] = (if cur = [] then [] else [cur])"
| "lines_of cur (c # cs) = (if c = newline then cur # lines_of [] cs else lines_of (cur @ [c]) cs)"

definition strip_eol :: "string \<Rightarrow> string" where
  "strip_eol s = rev (dropWhile (\<lambda>c. c = newline \<or> c = CHR 0x0D) (rev s))"

definition replay :: "(string \<Rightarrow> 'r option) \<Rightarrow> string \<Rightarrow> 'r list" where
  "replay from_line file = List.map_filter from_line (filter (\<lambda>s. s \<noteq> []) (map strip_eol (lines_of [] file)))"

definition default_max_bytes :: int where
  "default_max_bytes = 64 * 1024 * 1024"

definition wal_open :: "(string \<Rightarrow> 'r option) \<Rightarrow> int \<Rightarrow> string \<Rightarrow> 'r wal" where
  "wal_open from_line mx file =
     \<lparr>w_file = file, w_pending = replay from_line file, w_size = int (length file), w_max = mx\<rparr>"

definition wal_block :: "('r \<Rightarrow> string) \<Rightarrow> 'r list \<Rightarrow> string" where
  "wal_block to_line rows = concat (map (\<lambda>r. to_line r @ [newline]) rows)"

text \<open>The bool is false when the call throws.\<close>

definition wal_write_batch :: "('r \<Rightarrow> string) \<Rightarrow> wal_io \<Rightarrow> 'r list \<Rightarrow> 'r wal \<Rightarrow> bool \<times> 'r wal" where
  "wal_write_batch to_line out rows w =
     (if rows = [] then (True, w)
      else (let buf = wal_block to_line rows in
        case out of
          Written \<Rightarrow> (True, w\<lparr>w_file := w_file w @ buf, w_pending := w_pending w @ rows,
                             w_size := w_size w + int (length buf)\<rparr>)
        | TornAfter n \<Rightarrow> (False, w\<lparr>w_file := w_file w @ take n buf\<rparr>)
        | SyncFailed \<Rightarrow> (False, w\<lparr>w_file := w_file w @ buf\<rparr>)))"

definition wal_commit :: "bool \<Rightarrow> 'r wal \<Rightarrow> bool \<times> 'r wal" where
  "wal_commit truncated w = (if truncated then (True, w\<lparr>w_file := [], w_pending := [], w_size := 0\<rparr>) else (False, w))"

definition wal_dirty :: "'r wal \<Rightarrow> bool" where
  "wal_dirty w = (w_pending w \<noteq> [])"

definition wal_over_cap :: "'r wal \<Rightarrow> bool" where
  "wal_over_cap w = (w_size w > w_max w)"

datatype 'r wal_op = WriteBatch wal_io "'r list" | Commit bool

fun wal_step :: "('r \<Rightarrow> string) \<Rightarrow> 'r wal \<Rightarrow> 'r wal_op \<Rightarrow> 'r wal" where
  "wal_step to_line w (WriteBatch out rows) = snd (wal_write_batch to_line out rows w)"
| "wal_step to_line w (Commit ok) = snd (wal_commit ok w)"

subsection \<open>Lines\<close>

lemma lines_of_line: "newline \<notin> set s \<Longrightarrow> lines_of cur (s @ newline # r) = (cur @ s) # lines_of [] r"
  by (induction s arbitrary: cur) auto

lemma strip_eol_clean:
  assumes "s \<noteq> []" and "last s \<noteq> newline" and "last s \<noteq> CHR 0x0D"
  shows "strip_eol s = s"
  using assms by (cases s rule: rev_cases) (simp_all add: strip_eol_def)

lemma wal_block_simps [simp]:
  "wal_block f [] = []" "wal_block f (r # rs) = f r @ newline # wal_block f rs"
  "wal_block f (rs @ us) = wal_block f rs @ wal_block f us"
  by (simp_all add: wal_block_def)

subsection \<open>Recovery\<close>

locale line_codec =
  fixes to_line :: "'r \<Rightarrow> string" and from_line :: "string \<Rightarrow> 'r option" and row_ok :: "'r \<Rightarrow> bool"
  assumes parse_back: "row_ok r \<Longrightarrow> from_line (to_line r) = Some r"
    and one_line: "row_ok r \<Longrightarrow> newline \<notin> set (to_line r)"
    and clean_end: "row_ok r \<Longrightarrow> to_line r \<noteq> [] \<and> last (to_line r) \<noteq> CHR 0x0D"
begin

lemma strip_line: "row_ok r \<Longrightarrow> strip_eol (to_line r) = to_line r"
  using one_line [of r] clean_end [of r] last_in_set [of "to_line r"] by (metis strip_eol_clean)

lemma replay_block_append:
  "list_all row_ok rows \<Longrightarrow> replay from_line (wal_block to_line rows @ s) = rows @ replay from_line s"
  by (induction rows)
    (simp_all add: replay_def lines_of_line one_line strip_line clean_end parse_back map_filter_simps)

lemma replay_block: "list_all row_ok rows \<Longrightarrow> replay from_line (wal_block to_line rows) = rows"
  using replay_block_append [of rows "[]"] by (simp add: replay_def map_filter_simps)

text \<open>What the operations keep while no write is torn: the file is a block of whole rows.\<close>

definition whole :: "'r wal \<Rightarrow> bool" where
  "whole w = (\<exists>rows. w_file w = wal_block to_line rows \<and> list_all row_ok rows \<and> subseq (w_pending w) rows)"

definition exact :: "'r wal \<Rightarrow> bool" where
  "exact w = (w_file w = wal_block to_line (w_pending w) \<and> list_all row_ok (w_pending w) \<and>
     w_size w = int (length (w_file w)))"

fun untorn :: "'r wal_op \<Rightarrow> bool" where
  "untorn (WriteBatch out rows) = (list_all row_ok rows \<and> (out = Written \<or> out = SyncFailed))"
| "untorn (Commit ok) = True"

fun clean :: "'r wal_op \<Rightarrow> bool" where
  "clean (WriteBatch out rows) = (list_all row_ok rows \<and> out = Written)"
| "clean (Commit ok) = True"

lemma whole_step:
  assumes "whole w" and "untorn op"
  shows "whole (wal_step to_line w op)"
proof (cases op)
  case (WriteBatch out rows)
  from assms(1) obtain us where us: "w_file w = wal_block to_line us" "list_all row_ok us" "subseq (w_pending w) us"
    by (auto simp: whole_def)
  have "subseq (w_pending w @ rows) (us @ rows)" "subseq (w_pending w) (us @ rows)"
    using us(3) by (auto intro: list_emb_append_mono subseq_rev_drop_many)
  moreover have "list_all row_ok (us @ rows)" using us(2) assms(2) WriteBatch by simp
  moreover have "w_file w @ wal_block to_line rows = wal_block to_line (us @ rows)" using us(1) by simp
  ultimately have "whole (w\<lparr>w_file := w_file w @ wal_block to_line rows, w_pending := p\<rparr>)"
    if "p = w_pending w \<or> p = w_pending w @ rows" for p
    using that unfolding whole_def by (intro exI [of _ "us @ rows"]) auto
  from this [of "w_pending w"] this [of "w_pending w @ rows"] assms(1)
  have "whole (w\<lparr>w_file := w_file w @ wal_block to_line rows\<rparr>)"
    "whole (w\<lparr>w_file := w_file w @ wal_block to_line rows, w_pending := w_pending w @ rows, w_size := n\<rparr>)" for n
    by (simp_all add: whole_def)
  with assms WriteBatch show ?thesis by (auto simp: wal_write_batch_def Let_def)
next
  case (Commit ok)
  with assms(1) show ?thesis by (auto simp: wal_commit_def whole_def intro: exI [of _ "[]"])
qed

lemma exact_step: "exact w \<Longrightarrow> clean op \<Longrightarrow> exact (wal_step to_line w op)"
  by (cases op) (auto simp: exact_def wal_write_batch_def wal_commit_def Let_def)

lemma whole_reopen: "whole w \<Longrightarrow> subseq (w_pending w) (w_pending (wal_open from_line m (w_file w)))"
  by (auto simp: whole_def wal_open_def replay_block)

lemma exact_reopen: "exact w \<Longrightarrow> wal_open from_line (w_max w) (w_file w) = w"
  by (simp add: exact_def wal_open_def replay_block)

lemma whole_run: "whole w \<Longrightarrow> list_all untorn ops \<Longrightarrow> whole (run (wal_step to_line) w ops)"
  by (rule run_invariant_on [where I = whole and Q = untorn]) (auto intro: whole_step)

lemma exact_run: "exact w \<Longrightarrow> list_all clean ops \<Longrightarrow> exact (run (wal_step to_line) w ops)"
  by (rule run_invariant_on [where I = exact and Q = clean]) (auto intro: exact_step)

lemma fresh: "whole (wal_open from_line m [])" "exact (wal_open from_line m [])"
  by (auto simp: whole_def exact_def wal_open_def replay_def map_filter_simps intro: exI [of _ "[]"])

lemma recovers_acknowledged:
  "list_all untorn ops \<Longrightarrow> w = run (wal_step to_line) (wal_open from_line m []) ops \<Longrightarrow>
    subseq (w_pending w) (w_pending (wal_open from_line m (w_file w)))"
  using whole_run [OF fresh(1)] whole_reopen by blast

lemma recovers_exactly:
  "list_all clean ops \<Longrightarrow> w = run (wal_step to_line) (wal_open from_line m []) ops \<Longrightarrow>
    wal_open from_line (w_max w) (w_file w) = w"
  using exact_run [OF fresh(2)] exact_reopen by blast

end

end
