(* ===== verification/Codecs.thy ===== *)
theory Codecs
  imports Wal "HOL-Library.Monad_Syntax"
begin

section \<open>The line codecs of the collector\<close>

text \<open>
  The rows of \<open>src/src/db.hpp\<close> and the codecs of \<open>src/src/collector.cpp\<close> that the three
  write-ahead logs use.  A parse that throws or fails is \<open>None\<close>.  Prices are written with
  \<open>%.6f\<close> into a buffer of 32 bytes, so at most 31 characters of them arrive.
\<close>

subsection \<open>Rows\<close>

record tick_row =
  tk_ts :: int
  tk_price :: real
  tk_size :: int
  tk_is_buy :: bool
  tk_symbol :: string
  tk_exchange :: string

record bbo_row =
  bo_ts :: int
  bo_bid :: "real option"
  bo_bid_size :: int
  bo_bid_orders :: int
  bo_ask :: "real option"
  bo_ask_size :: int
  bo_ask_orders :: int
  bo_symbol :: string
  bo_exchange :: string

record depth_row =
  dp_ts :: int
  dp_source_ns :: int
  dp_seq :: int
  dp_update :: int
  dp_trans :: int
  dp_price :: real
  dp_prev :: "real option"
  dp_size :: int
  dp_order_id :: string
  dp_symbol :: string
  dp_exchange :: string

subsection \<open>Codecs\<close>

definition append_f6 :: "real \<Rightarrow> string" where
  "append_f6 v = take 31 (f6_str v)"

definition append_opt_f6 :: "real option \<Rightarrow> string" where
  "append_opt_f6 v = (case v of None \<Rightarrow> [] | Some x \<Rightarrow> append_f6 x)"

definition append_opt_i :: "bool \<Rightarrow> int \<Rightarrow> string" where
  "append_opt_i present v = (if present then int_str v else [])"

text \<open>Fields joined by commas, as the \<open>to_line\<close> functions append them.\<close>

fun joined :: "string list \<Rightarrow> string" where
  "joined [] = []"
| "joined [f] = f"
| "joined (f # fs) = f @ CHR '','' # joined fs"

fun split_fields :: "string \<Rightarrow> string \<Rightarrow> string list" where
  "split_fields cur [] = [cur]"
| "split_fields cur (c # cs) = (if c = CHR '','' then cur # split_fields [] cs else split_fields (cur @ [c]) cs)"

definition split_csv :: "string \<Rightarrow> string list" where
  "split_csv line = (if line = [] then [] else split_fields [] line)"

definition parse_opt_f6 :: "string \<Rightarrow> real option option" where
  "parse_opt_f6 t = (if t = [] then Some None else map_option Some (stod t))"

definition stoi_or_zero :: "string \<Rightarrow> int option" where
  "stoi_or_zero t = (if t = [] then Some 0 else stoi t)"

definition tick_to_line :: "tick_row \<Rightarrow> string" where
  "tick_to_line r = joined [int_str (tk_ts r), append_f6 (tk_price r), int_str (tk_size r),
     (if tk_is_buy r then ''1'' else ''0''), tk_symbol r, tk_exchange r]"

definition tick_from_line :: "string \<Rightarrow> tick_row option" where
  "tick_from_line line =
     (let f = split_csv line in
      if length f < 6 then None
      else do {
        ts \<leftarrow> stoll (f ! 0);
        price \<leftarrow> stod (f ! 1);
        sz \<leftarrow> stoll (f ! 2);
        if f ! 4 \<noteq> [] \<and> f ! 5 \<noteq> []
        then Some \<lparr>tk_ts = ts, tk_price = price, tk_size = sz, tk_is_buy = (f ! 3 = ''1''),
                  tk_symbol = f ! 4, tk_exchange = f ! 5\<rparr>
        else None })"

definition bbo_to_line :: "bbo_row \<Rightarrow> string" where
  "bbo_to_line r = joined [int_str (bo_ts r),
     append_opt_f6 (bo_bid r), append_opt_i (bo_bid r \<noteq> None) (bo_bid_size r), append_opt_i (bo_bid r \<noteq> None) (bo_bid_orders r),
     append_opt_f6 (bo_ask r), append_opt_i (bo_ask r \<noteq> None) (bo_ask_size r), append_opt_i (bo_ask r \<noteq> None) (bo_ask_orders r),
     bo_symbol r, bo_exchange r]"

definition bbo_from_line :: "string \<Rightarrow> bbo_row option" where
  "bbo_from_line line =
     (let f = split_csv line in
      if length f < 9 then None
      else do {
        ts \<leftarrow> stoll (f ! 0);
        bid \<leftarrow> parse_opt_f6 (f ! 1);
        bid_size \<leftarrow> stoi_or_zero (f ! 2);
        bid_orders \<leftarrow> stoi_or_zero (f ! 3);
        ask \<leftarrow> parse_opt_f6 (f ! 4);
        ask_size \<leftarrow> stoi_or_zero (f ! 5);
        ask_orders \<leftarrow> stoi_or_zero (f ! 6);
        if f ! 7 \<noteq> [] \<and> f ! 8 \<noteq> []
        then Some \<lparr>bo_ts = ts, bo_bid = bid, bo_bid_size = bid_size, bo_bid_orders = bid_orders,
                  bo_ask = ask, bo_ask_size = ask_size, bo_ask_orders = ask_orders,
                  bo_symbol = f ! 7, bo_exchange = f ! 8\<rparr>
        else None })"

definition depth_to_line :: "depth_row \<Rightarrow> string" where
  "depth_to_line r = joined [int_str (dp_ts r), int_str (dp_source_ns r), int_str (dp_seq r),
     int_str (dp_update r), int_str (dp_trans r), append_f6 (dp_price r), append_opt_f6 (dp_prev r),
     int_str (dp_size r), dp_order_id r, dp_symbol r, dp_exchange r]"

text \<open>\<open>static_cast<int8_t>\<close> of an \<open>int\<close>.\<close>

definition to_int8 :: "int \<Rightarrow> int" where
  "to_int8 x = (x + 128) mod 256 - 128"

definition depth_from_line :: "string \<Rightarrow> depth_row option" where
  "depth_from_line line =
     (let f = split_csv line in
      if length f < 12 then None
      else do {
        ts \<leftarrow> stoll (f ! 0);
        ns \<leftarrow> stoll (f ! 1);
        sq \<leftarrow> stoll (f ! 2);
        upd \<leftarrow> stoi (f ! 3);
        trans \<leftarrow> stoi (f ! 4);
        price \<leftarrow> stod (f ! 5);
        prev \<leftarrow> parse_opt_f6 (f ! 6);
        sz \<leftarrow> stoi (f ! 7);
        if f ! 9 \<noteq> [] \<and> f ! 10 \<noteq> []
        then Some \<lparr>dp_ts = ts, dp_source_ns = ns, dp_seq = sq, dp_update = to_int8 upd, dp_trans = to_int8 trans,
                  dp_price = price, dp_prev = prev, dp_size = sz, dp_order_id = f ! 8,
                  dp_symbol = f ! 9, dp_exchange = f ! 10\<rparr>
        else None })"

subsection \<open>Fields\<close>

definition plain :: "string \<Rightarrow> bool" where
  "plain s = (CHR '','' \<notin> set s \<and> newline \<notin> set s \<and> CHR 0x0D \<notin> set s)"

lemma plain_append [simp]: "plain (s @ t) = (plain s \<and> plain t)"
  by (auto simp: plain_def)

lemma plain_Nil [simp]: "plain []" "plain ''0''" "plain ''1''"
  by (simp_all add: plain_def)

lemma split_fields_last: "CHR '','' \<notin> set s \<Longrightarrow> split_fields cur s = [cur @ s]"
  by (induction s arbitrary: cur) auto

lemma split_fields_comma: "CHR '','' \<notin> set s \<Longrightarrow> split_fields cur (s @ CHR '','' # r) = (cur @ s) # split_fields [] r"
  by (induction s arbitrary: cur) auto

lemma split_joined: "list_all plain fs \<Longrightarrow> fs \<noteq> [] \<Longrightarrow> split_fields [] (joined fs) = fs"
  by (induction fs rule: joined.induct) (auto simp: plain_def split_fields_last split_fields_comma)

lemma split_csv_joined: "list_all plain fs \<Longrightarrow> 2 \<le> length fs \<Longrightarrow> split_csv (joined fs) = fs"
  by (cases fs rule: joined.cases) (simp_all add: split_csv_def split_joined [of "_ # _ # _", simplified])

lemma plain_joined: "list_all plain fs \<Longrightarrow> newline \<notin> set (joined fs) \<and> CHR 0x0D \<notin> set (joined fs)"
  by (induction fs rule: joined.induct) (auto simp: plain_def)

lemma digits_plain: "list_all is_digit s \<Longrightarrow> plain s"
  by (auto simp: plain_def list_all_iff dest: digit_not_special)

lemma int_str_plain [simp]: "plain (int_str i)"
  using digits_plain [OF nat_str_digits] by (simp add: int_str_def plain_def)

lemma f6_str_plain: "plain (f6_str x)"
  using digits_plain [OF nat_str_digits] digits_plain [OF pad6_digits] by (auto simp: f6_str_def Let_def plain_def)

lemma append_f6_plain [simp]: "plain (append_f6 x)"
  using f6_str_plain [of x] by (auto simp: append_f6_def plain_def dest: in_set_takeD)

lemma append_opt_plain [simp]: "plain (append_opt_f6 v)" "plain (append_opt_i p i)"
  by (simp_all add: append_opt_f6_def append_opt_i_def split: option.split)

lemma f6_str_nonempty: "f6_str x \<noteq> []"
  by (simp add: f6_str_def Let_def)

text \<open>A price that the six decimals and the 31 characters hold.\<close>

definition exact_price :: "real \<Rightarrow> bool" where
  "exact_price x = (on_f6_grid x \<and> length (f6_str x) \<le> 31)"

lemma nat_str_length: "n < 10 ^ Suc d \<Longrightarrow> length (nat_str n) \<le> Suc d"
proof (induction d arbitrary: n)
  case (Suc d)
  from Suc.prems have "n div 10 < 10 ^ Suc d" by (simp add: div_less_iff_less_mult mult.commute)
  from Suc.IH [OF this] show ?case by (simp add: nat_str.simps [of n])
qed (simp add: nat_str.simps)

lemma exact_priceI:
  assumes "x * 1000000 = of_int k" and "\<bar>k\<bar> < 10 ^ 20"
  shows "exact_price x"
proof -
  have "\<bar>x\<bar> * 1000000 = of_int \<bar>k\<bar>" by (simp add: abs_mult flip: assms(1))
  then have "round_half_even (\<bar>x\<bar> * 1000000) = \<bar>k\<bar>" by (simp del: of_int_abs)
  moreover have "length (nat_str (nat \<bar>k\<bar> div 1000000)) \<le> Suc 19"
    using assms(2) by (intro nat_str_length) (simp add: nat_less_iff less_mult_imp_div_less)
  ultimately show ?thesis
    using assms(1) by (auto simp: exact_price_def f6_str_def Let_def intro: on_f6_gridI)
qed

lemma stod_append_f6: "exact_price x \<Longrightarrow> stod (append_f6 x) = Some x"
  by (simp add: exact_price_def append_f6_def stod_f6_str)

lemma append_f6_nonempty [simp]: "append_f6 x \<noteq> []"
  using f6_str_nonempty [of x] by (simp add: append_f6_def)

lemma parse_opt_back: "(\<And>x. v = Some x \<Longrightarrow> exact_price x) \<Longrightarrow> parse_opt_f6 (append_opt_f6 v) = Some v"
  by (cases v) (simp_all add: parse_opt_f6_def append_opt_f6_def stod_append_f6)

definition int32 :: "int \<Rightarrow> bool" where
  "int32 i = (- (2 ^ 31) \<le> i \<and> i < 2 ^ 31)"

definition int64 :: "int \<Rightarrow> bool" where
  "int64 i = (- (2 ^ 63) \<le> i \<and> i < 2 ^ 63)"

lemma stoi_opt_back: "int32 i \<Longrightarrow> (\<not> p \<longrightarrow> i = 0) \<Longrightarrow> stoi_or_zero (append_opt_i p i) = Some i"
  using int_str_nonempty [of i] by (auto simp: stoi_or_zero_def append_opt_i_def int32_def stoi_int_str)

subsection \<open>Round trips\<close>

definition tick_ok :: "tick_row \<Rightarrow> bool" where
  "tick_ok r = (int64 (tk_ts r) \<and> int64 (tk_size r) \<and> exact_price (tk_price r) \<and>
     plain (tk_symbol r) \<and> tk_symbol r \<noteq> [] \<and> plain (tk_exchange r) \<and> tk_exchange r \<noteq> [])"

definition side_ok :: "real option \<Rightarrow> int \<Rightarrow> int \<Rightarrow> bool" where
  "side_ok p sz ords = (int32 sz \<and> int32 ords \<and>
     (case p of None \<Rightarrow> sz = 0 \<and> ords = 0 | Some x \<Rightarrow> exact_price x))"

definition bbo_ok :: "bbo_row \<Rightarrow> bool" where
  "bbo_ok r = (int64 (bo_ts r) \<and> side_ok (bo_bid r) (bo_bid_size r) (bo_bid_orders r) \<and>
     side_ok (bo_ask r) (bo_ask_size r) (bo_ask_orders r) \<and>
     plain (bo_symbol r) \<and> bo_symbol r \<noteq> [] \<and> plain (bo_exchange r) \<and> bo_exchange r \<noteq> [])"

lemma tick_fields:
  "plain (tk_symbol r) \<Longrightarrow> plain (tk_exchange r) \<Longrightarrow>
    split_csv (tick_to_line r) = [int_str (tk_ts r), append_f6 (tk_price r), int_str (tk_size r),
     (if tk_is_buy r then ''1'' else ''0''), tk_symbol r, tk_exchange r]"
  unfolding tick_to_line_def by (rule split_csv_joined) simp_all

lemma tick_back: "tick_ok r \<Longrightarrow> tick_from_line (tick_to_line r) = Some r"
  by (simp add: tick_from_line_def tick_ok_def tick_fields Let_def stoll_int_str stod_append_f6 int64_def)

lemma side_back:
  assumes "side_ok p sz ords"
  shows "parse_opt_f6 (append_opt_f6 p) = Some p" "stoi_or_zero (append_opt_i (p \<noteq> None) sz) = Some sz"
    "stoi_or_zero (append_opt_i (p \<noteq> None) ords) = Some ords"
  using assms by (auto simp: side_ok_def intro: parse_opt_back stoi_opt_back split: option.splits)

lemma bbo_back:
  assumes "bbo_ok r"
  shows "bbo_from_line (bbo_to_line r) = Some r"
proof -
  have "split_csv (bbo_to_line r) = [int_str (bo_ts r),
     append_opt_f6 (bo_bid r), append_opt_i (bo_bid r \<noteq> None) (bo_bid_size r), append_opt_i (bo_bid r \<noteq> None) (bo_bid_orders r),
     append_opt_f6 (bo_ask r), append_opt_i (bo_ask r \<noteq> None) (bo_ask_size r), append_opt_i (bo_ask r \<noteq> None) (bo_ask_orders r),
     bo_symbol r, bo_exchange r]"
    unfolding bbo_to_line_def using assms by (intro split_csv_joined) (simp_all add: bbo_ok_def)
  then show ?thesis
    using assms side_back [of "bo_bid r" "bo_bid_size r" "bo_bid_orders r"]
      side_back [of "bo_ask r" "bo_ask_size r" "bo_ask_orders r"]
    by (simp add: bbo_from_line_def bbo_ok_def Let_def stoll_int_str int64_def)
qed

end
