(* ===== verification/Validator.thy ===== *)
theory Validator
  imports Codecs
begin

section \<open>Tick validation and the data sentinel\<close>

text \<open>
  \<open>src/src/validator.hpp\<close>: the stateless gate \<open>TickValidator::valid\<close> and the stateful
  \<open>DataSentinel\<close>.  The wall clock (\<open>now\<close>, microseconds) and the steady clock (\<open>clk\<close>,
  seconds since the clock's epoch) are arguments.  The formatted message and the ISO time of an
  alert are not modelled; its check, severity and value are.
\<close>

subsection \<open>TickValidator\<close>

definition tick_max_drift :: int where "tick_max_drift = 172800000000"
definition tick_max_price :: real where "tick_max_price = 1000000"
definition tick_max_size :: int where "tick_max_size = 50000"

definition printable :: "char \<Rightarrow> bool" where
  "printable c = (0x20 \<le> (of_char c :: nat) \<and> (of_char c :: nat) \<le> 0x7e)"

definition price_value :: "fp \<Rightarrow> real" where
  "price_value p = (case p of Fin x \<Rightarrow> x | _ \<Rightarrow> 0)"

text \<open>
  The reason of a rejection, \<open>None\<close> for a valid row.  The price as it arrives, which may not be
  finite, is the argument \<open>price\<close>.
\<close>

definition tick_fault :: "int \<Rightarrow> fp \<Rightarrow> tick_row \<Rightarrow> string option" where
  "tick_fault now price r =
     (if tk_symbol r = [] \<or> 32 < length (tk_symbol r) then Some ''symbol empty or too long''
      else if tk_exchange r = [] \<or> 32 < length (tk_exchange r) then Some ''exchange empty or too long''
      else if \<not> list_all printable (tk_symbol r) then Some ''symbol non-printable''
      else if \<not> list_all printable (tk_exchange r) then Some ''exchange non-printable''
      else if \<not> is_fin price \<or> price_value price \<le> 0 \<or> tick_max_price < price_value price then Some ''price out of range''
      else if tk_size r \<le> 0 \<or> tick_max_size < tk_size r then Some ''size out of range''
      else if tk_ts r \<le> 0 then Some ''timestamp non-positive''
      else if tick_max_drift < tk_ts r - now \<or> tk_ts r - now < - tick_max_drift then Some ''timestamp drift > 48 hours''
      else None)"

definition tick_valid :: "int \<Rightarrow> fp \<Rightarrow> tick_row \<Rightarrow> bool" where
  "tick_valid now price r = (tick_fault now price r = None)"

subsection \<open>DataSentinel\<close>

record sentinel_cfg =
  sc_price_jump :: real
  sc_volume_spike :: real
  sc_max_gap :: real
  sc_wide_spread :: real
  sc_cooldown :: real

definition sentinel_defaults :: sentinel_cfg where
  "sentinel_defaults = \<lparr>sc_price_jump = 2, sc_volume_spike = 5, sc_max_gap = 120, sc_wide_spread = 5, sc_cooldown = 10\<rparr>"

record alert =
  al_check :: string
  al_severity :: string
  al_value :: real

record sentinel =
  sn_cfg :: sentinel_cfg
  sn_price :: real
  sn_ts :: int
  sn_ticks :: int
  sn_alert_count :: int
  sn_gaps :: int
  sn_sizes :: "int list"
  sn_alerts :: "alert list"
  sn_last :: "(string \<times> real) list"

definition sentinel_new :: "sentinel_cfg \<Rightarrow> sentinel" where
  "sentinel_new cfg = \<lparr>sn_cfg = cfg, sn_price = 0, sn_ts = 0, sn_ticks = 0, sn_alert_count = 0, sn_gaps = 0,
     sn_sizes = [], sn_alerts = [], sn_last = []\<rparr>"

text \<open>\<open>last_alert_time_[check]\<close> inserts the clock's epoch when the key is absent, before the test.\<close>

definition touched :: "string \<Rightarrow> (string \<times> real) list \<Rightarrow> (string \<times> real) list" where
  "touched check m = (if has_key m check then m else AList.update check 0 m)"

definition sn_emit :: "real \<Rightarrow> string \<Rightarrow> string \<Rightarrow> real \<Rightarrow> sentinel \<Rightarrow> sentinel" where
  "sn_emit clk check severity v s =
     (let m = touched check (sn_last s);
          elapsed = clk - the (map_of m check)
      in if elapsed < sc_cooldown (sn_cfg s) \<and> has_key m check then s\<lparr>sn_last := m\<rparr>
         else s\<lparr>sn_last := AList.update check clk m, sn_alert_count := sn_alert_count s + 1,
                sn_alerts := sn_alerts s @ [\<lparr>al_check = check, al_severity = severity, al_value = v\<rparr>]\<rparr>)"

definition check_jump :: "real \<Rightarrow> real \<Rightarrow> sentinel \<Rightarrow> sentinel" where
  "check_jump clk price s =
     (if 0 < sn_price s
      then (let pct = \<bar>price - sn_price s\<bar> / sn_price s * 100
            in if sc_price_jump (sn_cfg s) < pct then sn_emit clk ''price_jump'' ''WARN'' pct s else s)
      else s)"

definition check_backward :: "real \<Rightarrow> int \<Rightarrow> sentinel \<Rightarrow> sentinel" where
  "check_backward clk ts s =
     (if 0 < sn_ts s \<and> ts < sn_ts s
      then sn_emit clk ''timestamp_backward'' ''WARN'' (of_int (sn_ts s - ts) / 1000000) s else s)"

definition check_gap :: "real \<Rightarrow> int \<Rightarrow> sentinel \<Rightarrow> sentinel" where
  "check_gap clk ts s =
     (if 0 < sn_ts s \<and> sn_ts s < ts
      then (let gap = of_int (ts - sn_ts s) / 1000000
            in if sc_max_gap (sn_cfg s) < gap
               then (let u = sn_emit clk ''timestamp_gap'' ''WARN'' gap s in u\<lparr>sn_gaps := sn_gaps u + 1\<rparr>)
               else s)
      else s)"

definition push_size :: "int \<Rightarrow> sentinel \<Rightarrow> sentinel" where
  "push_size n s =
     (let q = sn_sizes s @ [n] in s\<lparr>sn_sizes := (if 30 < length q then tl q else q)\<rparr>)"

definition check_volume :: "real \<Rightarrow> int \<Rightarrow> sentinel \<Rightarrow> sentinel" where
  "check_volume clk n s =
     (if 10 \<le> length (sn_sizes s)
      then (let avg = of_int (sum_list (sn_sizes s)) / real (length (sn_sizes s))
            in if 0 < avg \<and> avg * sc_volume_spike (sn_cfg s) < of_int n
               then sn_emit clk ''volume_spike'' ''WARN'' (of_int n / avg) s else s)
      else s)"

definition observe_tick :: "real \<Rightarrow> real \<Rightarrow> int \<Rightarrow> int \<Rightarrow> sentinel \<Rightarrow> sentinel" where
  "observe_tick clk price n ts s0 =
     (let s = s0\<lparr>sn_ticks := sn_ticks s0 + 1\<rparr>
      in if price \<le> 0 then sn_emit clk ''invalid_price'' ''ERROR'' price s
         else (let u = check_volume clk n (push_size n (check_gap clk ts (check_backward clk ts (check_jump clk price s))))
               in u\<lparr>sn_price := price, sn_ts := ts\<rparr>))"

definition observe_bbo :: "real \<Rightarrow> real \<Rightarrow> real \<Rightarrow> sentinel \<Rightarrow> sentinel" where
  "observe_bbo clk bid ask s =
     (let u = (if 0 < bid \<and> 0 < ask \<and> ask < bid then sn_emit clk ''crossed_market'' ''WARN'' (bid - ask) s else s)
      in if 0 < bid \<and> 0 < ask \<and> sc_wide_spread (sn_cfg u) < ask - bid
         then sn_emit clk ''wide_spread'' ''WARN'' (ask - bid) u else u)"

definition drain_alerts :: "sentinel \<Rightarrow> alert list \<times> sentinel" where
  "drain_alerts s = (sn_alerts s, s\<lparr>sn_alerts := []\<rparr>)"

subsection \<open>What validity gives\<close>

lemma printable_plain: "printable c \<Longrightarrow> c \<noteq> newline \<and> c \<noteq> CHR 0x0D"
  by (auto simp: printable_def)

lemma valid_facts:
  assumes "tick_valid now price r"
  shows "is_fin price" "0 < price_value price" "price_value price \<le> tick_max_price" "0 < tk_size r" "tk_size r \<le> tick_max_size"
    "0 < tk_ts r" "\<bar>tk_ts r - now\<bar> \<le> tick_max_drift"
    "tk_symbol r \<noteq> []" "tk_exchange r \<noteq> []" "list_all printable (tk_symbol r)" "list_all printable (tk_exchange r)"
  using assms by (auto simp: tick_valid_def tick_fault_def split: if_splits)

subsection \<open>The alert counters\<close>

text \<open>Only a drain takes alerts away, and the counter counts every one that was queued.\<close>

definition tallies :: "sentinel \<Rightarrow> sentinel \<Rightarrow> bool" where
  "tallies s u = (sn_cfg u = sn_cfg s \<and>
     sn_alert_count u - int (length (sn_alerts u)) = sn_alert_count s - int (length (sn_alerts s)) \<and>
     take (length (sn_alerts s)) (sn_alerts u) = sn_alerts s)"

lemma tallies_refl [simp]: "tallies s s"
  by (simp add: tallies_def)

lemma tallies_trans:
  assumes "tallies s u" and "tallies u v"
  shows "tallies s v"
proof -
  have "length (take (length (sn_alerts s)) (sn_alerts u)) = length (sn_alerts s)" using assms(1) by (simp add: tallies_def)
  then have "length (sn_alerts s) \<le> length (sn_alerts u)" by simp
  then have "take (length (sn_alerts s)) (sn_alerts v) = take (length (sn_alerts s)) (take (length (sn_alerts u)) (sn_alerts v))"
    by (simp add: min_absorb1)
  with assms show ?thesis by (simp add: tallies_def)
qed

lemma tallies_emit: "tallies s (sn_emit clk check severity v s)"
  by (simp add: tallies_def sn_emit_def Let_def)

lemma tallies_frame:
  "tallies s u \<Longrightarrow> tallies s (u\<lparr>sn_gaps := g\<rparr>)" "tallies s u \<Longrightarrow> tallies s (u\<lparr>sn_sizes := q\<rparr>)"
  "tallies s u \<Longrightarrow> tallies s (u\<lparr>sn_price := p, sn_ts := t\<rparr>)" "tallies s (s\<lparr>sn_ticks := k\<rparr>)"
  by (simp_all add: tallies_def)

lemma tallies_checks:
  "tallies s (check_jump clk price s)" "tallies s (check_backward clk ts s)" "tallies s (check_gap clk ts s)"
  "tallies s (push_size n s)" "tallies s (check_volume clk n s)"
  by (simp_all add: check_jump_def check_backward_def check_gap_def push_size_def check_volume_def Let_def
      tallies_emit tallies_frame)

lemma tallies_tick: "tallies s (observe_tick clk price n ts s)"
proof -
  let ?s = "s\<lparr>sn_ticks := sn_ticks s + 1\<rparr>"
  have "tallies ?s (check_volume clk n (push_size n (check_gap clk ts (check_backward clk ts (check_jump clk price ?s)))))"
    by (rule tallies_trans [OF tallies_trans [OF tallies_trans [OF tallies_trans]]]) (rule tallies_checks)+
  then have "tallies ?s (observe_tick clk price n ts s)"
    by (simp add: observe_tick_def Let_def tallies_emit tallies_frame)
  then show ?thesis by (rule tallies_trans [OF tallies_frame(4)])
qed

lemma tallies_bbo: "tallies s (observe_bbo clk bid ask s)"
  by (auto simp: observe_bbo_def Let_def intro: tallies_emit tallies_trans [OF tallies_emit])

end
