(* ===== verification/Tick_Store.thy ===== *)
theory Tick_Store
  imports Codecs Civil_Time
begin

section \<open>What the collector sends to the database\<close>

text \<open>
  \<open>src/src/db.cpp\<close> without the server: the text of the statement parameters of the three
  batch inserts, the per-batch rank that tells identical trades apart, the depth rows' two
  groups, and the loop that writes the sentinel alerts.  The outcome of a statement is an argument.
\<close>

subsection \<open>Array literals\<close>

fun pg_escape :: "string \<Rightarrow> string" where
  "pg_escape [] = []"
| "pg_escape (c # cs) = (if c = CHR 0x22 \<or> c = CHR 0x5C then CHR 0x5C # c # pg_escape cs else c # pg_escape cs)"

definition pg_arr_elem :: "string \<Rightarrow> string" where
  "pg_arr_elem v = CHR 0x22 # pg_escape v @ [CHR 0x22]"

definition braced :: "string list \<Rightarrow> string" where
  "braced elems = CHR 0x7B # joined elems @ [CHR 0x7D]"

text \<open>The reader of such a literal, as PostgreSQL documents it for quoted elements.\<close>

fun read_elem :: "string \<Rightarrow> string \<Rightarrow> (string \<times> string) option" where
  "read_elem out [] = None"
| "read_elem out (c # cs) =
     (if c = CHR 0x5C then (case cs of [] \<Rightarrow> None | d # ds \<Rightarrow> read_elem (out @ [d]) ds)
      else if c = CHR 0x22 then Some (out, cs)
      else read_elem (out @ [c]) cs)"

lemma read_elem_shorter: "read_elem out s = Some (v, r) \<Longrightarrow> length r < length s"
  by (induction out s rule: read_elem.induct) (auto split: if_splits list.splits)

function read_elems :: "string \<Rightarrow> string list option" where
  "read_elems s =
     (case s of
        [] \<Rightarrow> None
      | q # t \<Rightarrow> if q \<noteq> CHR 0x22 then None
          else (case read_elem [] t of
                  None \<Rightarrow> None
                | Some (v, r) \<Rightarrow>
                    if r = [CHR 0x7D] then Some [v]
                    else if r \<noteq> [] \<and> hd r = CHR '','' then map_option ((#) v) (read_elems (tl r))
                    else None))"
  by pat_completeness auto
termination
  by (relation "measure length") (auto dest: read_elem_shorter simp: less_Suc_eq le_less_trans [OF diff_le_self])

declare read_elems.simps [simp del]

definition read_array :: "string \<Rightarrow> string list option" where
  "read_array s =
     (if s = [CHR 0x7B, CHR 0x7D] then Some []
      else if s \<noteq> [] \<and> hd s = CHR 0x7B then read_elems (tl s) else None)"

subsection \<open>Timestamps and numbers\<close>

definition zero_pad :: "nat \<Rightarrow> nat \<Rightarrow> string" where
  "zero_pad w n = replicate (w - length (nat_str n)) (CHR ''0'') @ nat_str n"

text \<open>\<open>%06d\<close>.\<close>

definition pad6d :: "int \<Rightarrow> string" where
  "pad6d m = (if m < 0 then CHR ''-'' # zero_pad 5 (nat (- m)) else zero_pad 6 (nat m))"

definition format_ts :: "int \<Rightarrow> string" where
  "format_ts ts =
     (let t = gmtime (cdiv ts 1000000)
      in date_str t @ '' '' @ two_digits (tm_hour t) @ '':'' @ two_digits (tm_min t) @ '':'' @ two_digits (tm_sec t)
         @ ''.'' @ pad6d (cmod ts 1000000) @ ''+00'')"

definition ts_elem :: "int \<Rightarrow> string" where
  "ts_elem ts = CHR 0x22 # format_ts ts @ [CHR 0x22]"

definition source_elem :: string where
  "source_elem = CHR 0x22 # ''amp_rithmic'' @ [CHR 0x22]"

subsection \<open>Ticks\<close>

type_synonym tick_columns = "string \<times> string \<times> int \<times> real \<times> int"

definition tick_key :: "tick_row \<Rightarrow> tick_columns" where
  "tick_key r = (tk_symbol r, tk_exchange r, tk_ts r, tk_price r, tk_size r)"

text \<open>\<open>seq_rank[key]++\<close> row by row.\<close>

fun seq_ranks :: "('k \<times> nat) list \<Rightarrow> 'k list \<Rightarrow> nat list" where
  "seq_ranks m [] = []"
| "seq_ranks m (k # ks) =
     (let n = (case map_of m k of None \<Rightarrow> 0 | Some v \<Rightarrow> v)
      in n # seq_ranks (AList.update k (Suc n) m) ks)"

definition tick_seqs :: "tick_row list \<Rightarrow> nat list" where
  "tick_seqs rows = seq_ranks [] (map tick_key rows)"

definition side_elem :: "bool \<Rightarrow> string" where
  "side_elem buy = CHR 0x22 # (if buy then ''B'' else ''A'') @ [CHR 0x22]"

text \<open>The parameters \<open>$1\<close> to \<open>$9\<close>; \<open>None\<close> when there is nothing to insert.\<close>

definition tick_params :: "tick_row list \<Rightarrow> string list option" where
  "tick_params rows =
     (if rows = [] then None
      else Some [braced (map (\<lambda>r. ts_elem (tk_ts r)) rows),
                 braced (map (\<lambda>r. pg_arr_elem (tk_symbol r)) rows),
                 braced (map (\<lambda>r. pg_arr_elem (tk_exchange r)) rows),
                 braced (map (\<lambda>r. f6_str (tk_price r)) rows),
                 braced (map (\<lambda>r. int_str (tk_size r)) rows),
                 braced (map (\<lambda>n. int_str (int n)) (tick_seqs rows)),
                 braced (map (\<lambda>r. side_elem (tk_is_buy r)) rows),
                 braced (map (\<lambda>r. if tk_is_buy r then ''true'' else ''false'') rows),
                 braced (map (\<lambda>r. source_elem) rows)])"

text \<open>The columns of the conflict target \<open>(symbol, exchange, ts_event, price, size, seq)\<close>.\<close>

definition tick_dedup :: "tick_row list \<Rightarrow> (tick_columns \<times> nat) list" where
  "tick_dedup rows = zip (map tick_key rows) (tick_seqs rows)"

subsection \<open>Quotes\<close>

definition opt_f8 :: "real option \<Rightarrow> string" where
  "opt_f8 v = (case v of None \<Rightarrow> ''NULL'' | Some x \<Rightarrow> f6_str x)"

definition opt_i4 :: "real option \<Rightarrow> int \<Rightarrow> string" where
  "opt_i4 side v = (case side of None \<Rightarrow> ''NULL'' | Some _ \<Rightarrow> int_str v)"

definition bbo_params :: "bbo_row list \<Rightarrow> string list option" where
  "bbo_params rows =
     (if rows = [] then None
      else Some [braced (map (\<lambda>r. ts_elem (bo_ts r)) rows),
                 braced (map (\<lambda>r. pg_arr_elem (bo_symbol r)) rows),
                 braced (map (\<lambda>r. pg_arr_elem (bo_exchange r)) rows),
                 braced (map (\<lambda>r. opt_f8 (bo_bid r)) rows),
                 braced (map (\<lambda>r. opt_i4 (bo_bid r) (bo_bid_size r)) rows),
                 braced (map (\<lambda>r. opt_i4 (bo_bid r) (bo_bid_orders r)) rows),
                 braced (map (\<lambda>r. opt_f8 (bo_ask r)) rows),
                 braced (map (\<lambda>r. opt_i4 (bo_ask r) (bo_ask_size r)) rows),
                 braced (map (\<lambda>r. opt_i4 (bo_ask r) (bo_ask_orders r)) rows),
                 braced (map (\<lambda>r. source_elem) rows)])"

text \<open>The conflict target \<open>(symbol, exchange, ts_event)\<close>, whose action is an update.\<close>

definition bbo_key :: "bbo_row \<Rightarrow> string \<times> string \<times> int" where
  "bbo_key r = (bo_symbol r, bo_exchange r, bo_ts r)"

subsection \<open>Depth\<close>

definition depth_keyed :: "depth_row \<Rightarrow> bool" where
  "depth_keyed r = (dp_source_ns r \<noteq> 0)"

definition depth_params :: "depth_row list \<Rightarrow> string list" where
  "depth_params rows =
     [braced (map (\<lambda>r. ts_elem (dp_ts r)) rows),
      braced (map (\<lambda>r. int_str (dp_source_ns r)) rows),
      braced (map (\<lambda>r. pg_arr_elem (dp_symbol r)) rows),
      braced (map (\<lambda>r. pg_arr_elem (dp_exchange r)) rows),
      braced (map (\<lambda>r. int_str (dp_seq r)) rows),
      braced (map (\<lambda>r. int_str (dp_update r)) rows),
      braced (map (\<lambda>r. int_str (dp_trans r)) rows),
      braced (map (\<lambda>r. f6_str (dp_price r)) rows),
      braced (map (\<lambda>r. opt_f8 (dp_prev r)) rows),
      braced (map (\<lambda>r. int_str (dp_size r)) rows),
      braced (map (\<lambda>r. pg_arr_elem (dp_order_id r)) rows),
      braced (map (\<lambda>r. source_elem) rows)]"

text \<open>
  The statements of \<open>write_depth\<close>, each with its rows and whether it has the conflict clause;
  \<open>unique_ok\<close> is whether the index of the conflict target exists.
\<close>

definition depth_inserts :: "bool \<Rightarrow> depth_row list \<Rightarrow> (bool \<times> string list) list" where
  "depth_inserts unique_ok rows =
     (let keyed = filter depth_keyed rows; rest = filter (\<lambda>r. \<not> depth_keyed r) rows
      in (if keyed \<noteq> [] then [(unique_ok, depth_params keyed)] else []) @
         (if rest \<noteq> [] then [(False, depth_params rest)] else []))"

subsection \<open>Sentinel alerts\<close>

datatype row_out = RowStored | RowError | ConnLost

text \<open>How many leading rows were consumed; one outcome per statement sent.\<close>

fun write_sentinel_alerts :: "row_out list \<Rightarrow> 'a list \<Rightarrow> nat" where
  "write_sentinel_alerts outs [] = 0"
| "write_sentinel_alerts [] (a # as) = 0"
| "write_sentinel_alerts (out # outs) (a # as) =
     (if out = ConnLost then 0 else Suc (write_sentinel_alerts outs as))"

lemma write_sentinel_alerts_le: "write_sentinel_alerts outs xs \<le> length xs"
  by (induction outs xs rule: write_sentinel_alerts.induct) auto

subsection \<open>The array round trip\<close>

lemma read_elem_escape: "read_elem out (pg_escape v @ CHR 0x22 # r) = Some (out @ v, r)"
  by (induction v arbitrary: out) auto

lemma read_elems_joined:
  "vs \<noteq> [] \<Longrightarrow> read_elems (joined (map pg_arr_elem vs) @ [CHR 0x7D]) = Some vs"
proof (induction vs rule: joined.induct)
  case (3 v w vs)
  then show ?case
    by (simp add: read_elems.simps [of "pg_arr_elem v @ _"] read_elems.simps [of "_ # _"] pg_arr_elem_def read_elem_escape)
qed (simp_all add: read_elems.simps pg_arr_elem_def read_elem_escape)

lemma joined_elems_nonempty: "vs \<noteq> [] \<Longrightarrow> joined (map pg_arr_elem vs) \<noteq> []"
  by (cases vs rule: joined.cases) (simp_all add: pg_arr_elem_def)

lemma read_array_braced: "read_array (braced (map pg_arr_elem vs)) = Some vs"
  using read_elems_joined [of vs] joined_elems_nonempty [of vs]
  by (cases "vs = []") (auto simp: read_array_def braced_def)

subsection \<open>Ranks\<close>

lemma seq_ranks_length [simp]: "length (seq_ranks m ks) = length ks"
  by (induction ks arbitrary: m) (simp_all add: Let_def)

lemma seq_ranks_append:
  "\<exists>m'. seq_ranks m (xs @ ys) = seq_ranks m xs @ seq_ranks m' ys"
proof (induction xs arbitrary: m)
  case (Cons x xs)
  then show ?case by (simp add: Let_def)
qed auto

text \<open>A row's rank is the number of earlier rows of the batch with its key.\<close>

lemma seq_ranks_count:
  "i < length ks \<Longrightarrow> seq_ranks m ks ! i = (case map_of m (ks ! i) of None \<Rightarrow> 0 | Some n \<Rightarrow> n) + count_list (take i ks) (ks ! i)"
proof (induction ks arbitrary: m i)
  case (Cons k ks)
  then show ?case by (cases i) (auto simp: Let_def Cons.IH split: option.split)
qed simp

lemma tick_rank: "i < length rows \<Longrightarrow> tick_seqs rows ! i = count_list (map tick_key (take i rows)) (tick_key (rows ! i))"
  by (simp add: tick_seqs_def seq_ranks_count take_map)

lemma tick_seqs_length [simp]: "length (tick_seqs rows) = length rows"
  by (simp add: tick_seqs_def)

end
