(* ===== verification/Audit_Log.thy ===== *)
theory Audit_Log
  imports Tick_Store
begin

section \<open>The audit log\<close>

text \<open>
  \<open>AuditLog\<close> of \<open>src/src/audit.cpp\<close>: a bounded buffer that any thread appends to and one
  thread flushes.  \<open>flush\<close> takes the buffer and runs its statement without the lock, so the
  interleaving is a step relation: an event may arrive while a batch is under way.  What libpq
  answers (the connection's status before and after a reset, the outcome of the statement) and the
  clocks are arguments of the steps.
\<close>

subsection \<open>Data and operations\<close>

datatype severity = Info | Warn | Err

record event =
  ev_ts :: string
  ev_event :: string
  ev_severity :: string
  ev_details :: string

record audit =
  au_conn :: bool
  au_buf :: "event list"
  au_last_reset :: real
  au_reset_logged :: bool

definition audit_new :: "bool \<Rightarrow> audit" where
  "audit_new conn = \<lparr>au_conn = conn, au_buf = [], au_last_reset = 0, au_reset_logged = False\<rparr>"

definition max_buf :: nat where "max_buf = 10000"

definition iso_time :: "int \<Rightarrow> string" where
  "iso_time secs =
     (let t = gmtime secs
      in date_str t @ ''T'' @ two_digits (tm_hour t) @ '':'' @ two_digits (tm_min t) @ '':'' @ two_digits (tm_sec t) @ ''Z'')"

definition sev_str :: "severity \<Rightarrow> string" where
  "sev_str s = (case s of Warn \<Rightarrow> ''WARN'' | Err \<Rightarrow> ''ERROR'' | Info \<Rightarrow> ''INFO'')"

definition audit_event :: "int \<Rightarrow> severity \<Rightarrow> string \<Rightarrow> string \<Rightarrow> event" where
  "audit_event secs sev e d = \<lparr>ev_ts = iso_time secs, ev_event = e, ev_severity = sev_str sev, ev_details = d\<rparr>"

definition audit_log :: "event \<Rightarrow> audit \<Rightarrow> audit" where
  "audit_log ev a = a\<lparr>au_buf := (if max_buf \<le> length (au_buf a) then tl (au_buf a) else au_buf a) @ [ev]\<rparr>"

text \<open>\<open>up\<close> and \<open>up_after\<close>: the connection is good when asked, and after a reset.\<close>

definition ensure_connected :: "real \<Rightarrow> bool \<Rightarrow> bool \<Rightarrow> audit \<Rightarrow> bool \<times> audit" where
  "ensure_connected clk up up_after a =
     (if \<not> au_conn a then (False, a)
      else if up then (True, a\<lparr>au_reset_logged := False\<rparr>)
      else if clk - au_last_reset a < 5 then (False, a)
      else if up_after then (True, a\<lparr>au_last_reset := clk, au_reset_logged := False\<rparr>)
      else (False, a\<lparr>au_last_reset := clk, au_reset_logged := True\<rparr>))"

text \<open>The part of \<open>flush\<close> before its statement: the batch taken, if any.\<close>

definition flush_take :: "real \<Rightarrow> bool \<Rightarrow> bool \<Rightarrow> audit \<Rightarrow> event list \<times> audit" where
  "flush_take clk up up_after a =
     (if au_buf a = [] then ([], a)
      else (let (ok, b) = ensure_connected clk up up_after a
            in if ok then (au_buf b, b\<lparr>au_buf := []\<rparr>) else ([], b)))"

definition c_str :: "string \<Rightarrow> string" where
  "c_str s = takeWhile (\<lambda>c. c \<noteq> CHR 0x00) s"

definition make_pg_array :: "string list \<Rightarrow> string" where
  "make_pg_array vals = braced (map (\<lambda>v. pg_arr_elem (c_str v)) vals)"

definition audit_params :: "event list \<Rightarrow> string list" where
  "audit_params batch = [make_pg_array (map ev_ts batch), make_pg_array (map ev_event batch),
     make_pg_array (map ev_severity batch), make_pg_array (map ev_details batch)]"

text \<open>The part after it: on an error the batch goes back in front, the oldest beyond the cap go.\<close>

definition flush_done :: "bool \<Rightarrow> event list \<Rightarrow> audit \<Rightarrow> audit" where
  "flush_done stored batch a =
     (if stored then a
      else (let q = batch @ au_buf a in a\<lparr>au_buf := (if max_buf < length q then drop (length q - max_buf) q else q)\<rparr>))"

subsection \<open>The interleaving\<close>

text \<open>The log, the batch under way, what the database took, and everything ever logged.\<close>

record audit_run =
  ar_audit :: audit
  ar_flight :: "event list"
  ar_stored :: "event list"
  ar_logged :: "event list"

inductive audit_step :: "audit_run \<Rightarrow> audit_run \<Rightarrow> bool" where
  logs: "audit_step s (s\<lparr>ar_audit := audit_log ev (ar_audit s), ar_logged := ar_logged s @ [ev]\<rparr>)"
| takes: "ar_flight s = [] \<Longrightarrow> flush_take clk up up_after (ar_audit s) = (batch, a) \<Longrightarrow>
    audit_step s (s\<lparr>ar_audit := a, ar_flight := batch\<rparr>)"
| stores: "audit_step s (s\<lparr>ar_audit := flush_done True (ar_flight s) (ar_audit s), ar_flight := [],
    ar_stored := ar_stored s @ ar_flight s\<rparr>)"
| fails: "audit_step s (s\<lparr>ar_audit := flush_done False (ar_flight s) (ar_audit s), ar_flight := []\<rparr>)"

inductive_cases audit_stepE [elim]: "audit_step s t"

definition audit_start :: "bool \<Rightarrow> audit_run" where
  "audit_start conn = \<lparr>ar_audit = audit_new conn, ar_flight = [], ar_stored = [], ar_logged = []\<rparr>"

subsection \<open>What every interleaving keeps\<close>

definition in_order :: "audit_run \<Rightarrow> bool" where
  "in_order s = (length (au_buf (ar_audit s)) \<le> max_buf \<and>
     subseq (ar_stored s @ ar_flight s @ au_buf (ar_audit s)) (ar_logged s))"

definition nothing_lost :: "audit_run \<Rightarrow> bool" where
  "nothing_lost s = (length (ar_logged s) \<le> max_buf \<longrightarrow>
     ar_stored s @ ar_flight s @ au_buf (ar_audit s) = ar_logged s)"

lemma flush_take_result:
  "flush_take clk up up_after a = (batch, b) \<Longrightarrow> batch @ au_buf b = au_buf a \<and> length (au_buf b) \<le> length (au_buf a)"
  by (auto simp: flush_take_def ensure_connected_def Let_def split: if_splits)

lemma subseq_drop_mid: "subseq (xs @ ys) zs \<Longrightarrow> subseq (xs @ drop n ys) zs"
  by (rule subseq_order.trans [rotated], assumption) (intro list_emb_append_mono suffix_imp_subseq suffix_drop, simp)

lemma in_order_step:
  assumes "audit_step s t" and "in_order s"
  shows "in_order t"
  using assms(1)
proof cases
  case (logs ev)
  let ?b = "au_buf (ar_audit s)"
  have "subseq (ar_stored s @ ar_flight s @ drop n ?b) (ar_logged s)" for n
    using assms(2) subseq_drop_mid [of "ar_stored s @ ar_flight s" ?b] by (simp add: in_order_def)
  then have "subseq ((ar_stored s @ ar_flight s @ drop n ?b) @ [ev]) (ar_logged s @ [ev])" for n
    by (intro list_emb_append_mono) auto
  from this [of 0] this [of 1] show ?thesis
    using assms(2) logs by (auto simp: in_order_def audit_log_def drop_Suc max_buf_def)
next
  case (takes clk up up_after batch a)
  with assms(2) flush_take_result [OF takes(3)] show ?thesis
    by (auto simp: in_order_def)
next
  case stores
  with assms(2) show ?thesis by (simp add: in_order_def flush_done_def)
next
  case fails
  with assms(2) subseq_drop_mid [of "ar_stored s" "ar_flight s @ au_buf (ar_audit s)"] show ?thesis
    by (simp add: in_order_def flush_done_def Let_def del: drop_append)
qed

lemma nothing_lost_step:
  assumes "audit_step s t" and "nothing_lost s" and "in_order s"
  shows "nothing_lost t"
proof -
  have len: "length (ar_stored s @ ar_flight s @ au_buf (ar_audit s)) \<le> length (ar_logged s)"
    using assms(3) list_emb_length unfolding in_order_def by blast
  from assms(1) show ?thesis
  proof cases
    case (logs ev)
    with assms(2) len show ?thesis by (auto simp: nothing_lost_def audit_log_def)
  next
    case (takes clk up up_after batch a)
    with assms(2) flush_take_result [OF takes(3)] show ?thesis by (auto simp: nothing_lost_def)
  next
    case stores
    with assms(2) show ?thesis by (simp add: nothing_lost_def flush_done_def)
  next
    case fails
    with assms(2) len show ?thesis by (auto simp: nothing_lost_def flush_done_def Let_def)
  qed
qed

lemma audit_reachable:
  assumes "audit_step\<^sup>*\<^sup>* (audit_start conn) s"
  shows "in_order s \<and> nothing_lost s"
  using assms
proof (induction rule: rtranclp_induct)
  case base
  show ?case by (simp add: in_order_def nothing_lost_def audit_start_def audit_new_def)
next
  case (step s t)
  then show ?case using in_order_step nothing_lost_step by blast
qed

end
