(* ===== verification/Engine_Config.thy ===== *)
theory Engine_Config
  imports Codecs
begin

section \<open>The engine's configuration and its connection string\<close>

text \<open>
  \<open>src/src/config.hpp\<close> and \<open>redact_pg_password\<close> of \<open>src/src/db.cpp\<close>.  The process
  environment is a map from names to values, the \<open>.env\<close> file the text it holds, or \<open>None\<close>
  when there is no file.
\<close>

subsection \<open>Text\<close>

definition env_ws :: "char \<Rightarrow> bool" where
  "env_ws c = (c = CHR '' '' \<or> c = CHR 0x09 \<or> c = CHR 0x0D \<or> c = CHR 0x0A)"

definition trim :: "string \<Rightarrow> string" where
  "trim s = rev (dropWhile env_ws (rev (dropWhile env_ws s)))"

text \<open>The index loop of \<open>parse_value\<close>: the value ends at a \<open>#\<close> that follows a blank.\<close>

fun cut_comment :: "char \<Rightarrow> string \<Rightarrow> string" where
  "cut_comment prev [] = []"
| "cut_comment prev (c # cs) =
     (if c = CHR ''#'' \<and> (prev = CHR '' '' \<or> prev = CHR 0x09) then [] else c # cut_comment c cs)"

definition parse_value :: "string \<Rightarrow> string" where
  "parse_value v =
     (if 2 \<le> length v \<and> ((hd v = CHR 0x22 \<and> last v = CHR 0x22) \<or> (hd v = CHR 0x27 \<and> last v = CHR 0x27))
      then butlast (tl v)
      else trim (case v of [] \<Rightarrow> [] | c # cs \<Rightarrow> c # cut_comment c cs))"

definition env_csv :: "string \<Rightarrow> string list" where
  "env_csv s = filter (\<lambda>p. p \<noteq> []) (map trim (split_fields [] s))"

subsection \<open>The environment\<close>

type_synonym environ = "string \<rightharpoonup> string"

definition dotenv_line :: "string \<Rightarrow> (string \<times> string) option" where
  "dotenv_line line =
     (let s0 = trim line in
      if s0 = [] \<or> hd s0 = CHR ''#'' then None
      else (let s = (if prefix ''export '' s0 then trim (drop 7 s0) else s0) in
        if CHR ''='' \<notin> set s then None
        else (let k = trim (takeWhile (\<lambda>c. c \<noteq> CHR ''='') s);
                  v = parse_value (trim (tl (dropWhile (\<lambda>c. c \<noteq> CHR ''='') s)))
              in if k = [] then None else Some (k, v))))"

definition set_if_unset :: "environ \<Rightarrow> string \<Rightarrow> environ" where
  "set_if_unset e line =
     (case dotenv_line line of None \<Rightarrow> e
      | Some (k, v) \<Rightarrow> if e k = None then e(k \<mapsto> v) else e)"

definition load_dotenv :: "string option \<Rightarrow> environ \<Rightarrow> environ" where
  "load_dotenv file e = (case file of None \<Rightarrow> e | Some t \<Rightarrow> run set_if_unset e (lines_of [] t))"

definition env_get :: "environ \<Rightarrow> string \<Rightarrow> string \<Rightarrow> string" where
  "env_get e k d = (case e k of None \<Rightarrow> d | Some v \<Rightarrow> v)"

record engine_config =
  ec_user :: string
  ec_password :: string
  ec_system :: string
  ec_url :: string
  ec_app_name :: string
  ec_app_version :: string
  ec_symbol :: string
  ec_exchange :: string
  ec_extra :: "(string \<times> string) list"
  ec_pg_host :: string
  ec_pg_port :: string
  ec_pg_db :: string
  ec_pg_user :: string
  ec_pg_password :: string
  ec_wal_path :: string

definition extra_symbol :: "string \<Rightarrow> string \<Rightarrow> string \<times> string" where
  "extra_symbol exch item =
     (if CHR '':'' \<in> set item
      then (trim (takeWhile (\<lambda>c. c \<noteq> CHR '':'') item), trim (tl (dropWhile (\<lambda>c. c \<noteq> CHR '':'') item)))
      else (trim item, exch))"

definition extra_symbols :: "string \<Rightarrow> string \<Rightarrow> string \<Rightarrow> (string \<times> string) list" where
  "extra_symbols symb exch s =
     filter (\<lambda>x. fst x \<noteq> [] \<and> fst x \<noteq> symb) (map (extra_symbol exch) (env_csv s))"

definition from_env :: "string option \<Rightarrow> environ \<Rightarrow> engine_config" where
  "from_env file e0 =
     (let e = load_dotenv file e0;
          symb = env_get e ''RITHMIC_SYMBOL'' ''NQ'';
          exch = env_get e ''RITHMIC_EXCHANGE'' ''CME''
      in \<lparr>ec_user = env_get e ''RITHMIC_AMP_USER'' [],
          ec_password = env_get e ''RITHMIC_AMP_PASSWORD'' [],
          ec_system = env_get e ''RITHMIC_AMP_SYSTEM'' ''Rithmic 01'',
          ec_url = env_get e ''RITHMIC_AMP_URL'' ''wss://ritpz01001.01.rithmic.com:443'',
          ec_app_name = env_get e ''RITHMIC_APP_NAME'' ''nepa:OentexNQBot'',
          ec_app_version = env_get e ''RITHMIC_APP_VERSION'' ''1.0'',
          ec_symbol = symb,
          ec_exchange = exch,
          ec_extra = extra_symbols symb exch (env_get e ''RITHMIC_EXTRA_SYMBOLS'' []),
          ec_pg_host = env_get e ''PG_HOST'' ''localhost'',
          ec_pg_port = env_get e ''PG_PORT'' ''5432'',
          ec_pg_db = env_get e ''PG_DB'' ''rithmic'',
          ec_pg_user = env_get e ''PG_USER'' ''rithmic_user'',
          ec_pg_password = env_get e ''PG_PASSWORD'' [],
          ec_wal_path = env_get e ''WAL_PATH'' ''ticks.wal''\<rparr>)"

definition engine_errors :: "engine_config \<Rightarrow> string list" where
  "engine_errors c =
     (if ec_user c = [] then [''RITHMIC_AMP_USER not set''] else []) @
     (if ec_password c = [] then [''RITHMIC_AMP_PASSWORD not set''] else []) @
     (if ec_pg_password c = [] then [''PG_PASSWORD not set''] else [])"

subsection \<open>The connection string\<close>

definition connstr_head :: "engine_config \<Rightarrow> string" where
  "connstr_head c = ''host='' @ pg_escape_kv (ec_pg_host c) @ '' port='' @ pg_escape_kv (ec_pg_port c) @
     '' dbname='' @ pg_escape_kv (ec_pg_db c) @ '' user='' @ pg_escape_kv (ec_pg_user c)"

definition connstr_tail :: string where
  "connstr_tail = '' connect_timeout=10 application_name=rithmic_engine''"

definition pg_connstr :: "engine_config \<Rightarrow> string" where
  "pg_connstr c = connstr_head c @ '' password='' @ pg_escape_kv (ec_pg_password c) @ connstr_tail"

text \<open>\<open>std::string::find\<close> of a text, and the scan for the closing quote of a value.\<close>

fun find_sub :: "string \<Rightarrow> string \<Rightarrow> nat option" where
  "find_sub needle [] = (if needle = [] then Some 0 else None)"
| "find_sub needle (c # cs) = (if prefix needle (c # cs) then Some 0 else map_option Suc (find_sub needle cs))"

fun after_quoted :: "string \<Rightarrow> string" where
  "after_quoted [] = []"
| "after_quoted (c # cs) =
     (if c = CHR 0x5C then (case cs of [] \<Rightarrow> [] | d # ds \<Rightarrow> after_quoted ds)
      else if c = CHR 0x27 then cs else after_quoted cs)"

definition redact_pg_password :: "string \<Rightarrow> string" where
  "redact_pg_password s =
     (case (case find_sub '' password='' s of Some p \<Rightarrow> Some p | None \<Rightarrow> find_sub ''password='' s) of
        None \<Rightarrow> s
      | Some p \<Rightarrow>
          (let b = drop p s;
               key = takeWhile (\<lambda>c. c \<noteq> CHR ''='') b @ ''='';
               v = tl (dropWhile (\<lambda>c. c \<noteq> CHR ''='') b);
               rest = (if v \<noteq> [] \<and> hd v = CHR 0x27 then after_quoted (tl v) else dropWhile (\<lambda>c. c \<noteq> CHR '' '') v)
           in take p s @ key @ ''***'' @ rest))"

subsection \<open>Finding a text\<close>

lemma find_sub_first:
  assumes "\<not> sublist needle (s @ butlast needle)" and "needle \<noteq> []"
  shows "find_sub needle (s @ needle @ r) = Some (length s)"
  using assms(1)
proof (induction s)
  case Nil
  show ?case using assms(2) by (cases needle) simp_all
next
  case (Cons c s)
  have "\<not> prefix needle (c # s @ needle @ r)"
  proof
    assume "prefix needle (c # s @ needle @ r)"
    then have "needle = take (length needle) (c # s @ needle @ r)" by (metis prefix_def append_eq_conv_conj)
    also have "\<dots> = take (length needle) (c # s @ butlast needle)"
      using assms(2) by (cases needle rule: rev_cases) (simp_all add: take_Cons')
    finally have "prefix needle (c # s @ butlast needle)" by (metis take_is_prefix)
    with Cons.prems show False by (simp add: prefix_imp_sublist)
  qed
  moreover have "\<not> sublist needle (s @ butlast needle)" using Cons.prems by (auto simp: sublist_Cons_right)
  ultimately show ?case using Cons.IH by simp
qed

lemma sublist_split: "c \<notin> set n \<Longrightarrow> n \<noteq> [] \<Longrightarrow> sublist n (xs @ c # ys) \<longleftrightarrow> sublist n xs \<or> sublist n ys"
  by (induction xs) (auto simp: sublist_Cons_right prefix_Cons prefix_append)

text \<open>Escaping adds backslashes only, so it creates no occurrence of a text without one.\<close>

lemma prefix_escape:
  "prefix n (escape_chars v) \<Longrightarrow> CHR 0x27 \<notin> set n \<Longrightarrow> CHR 0x5C \<notin> set n \<Longrightarrow> prefix n v"
proof (induction v arbitrary: n)
  case (Cons c v)
  then show ?case by (cases n) (auto split: if_splits)
qed auto

lemma sublist_escape:
  "sublist n (escape_chars v) \<Longrightarrow> n \<noteq> [] \<Longrightarrow> CHR 0x27 \<notin> set n \<Longrightarrow> CHR 0x5C \<notin> set n \<Longrightarrow> sublist n v"
proof (induction v)
  case (Cons c v)
  from Cons.prems show ?case
    using prefix_escape [of n "c # v"]
    by (auto simp: sublist_Cons_right prefix_Cons split: if_splits intro: Cons.IH prefix_escape)
qed auto

lemma after_quoted_escape: "after_quoted (escape_chars v @ CHR 0x27 # r) = r"
  by (induction v) auto

subsection \<open>The password does not reach the log\<close>

definition no_key :: "string \<Rightarrow> bool" where
  "no_key v = (\<not> sublist '' password='' v)"

lemma no_key_escaped:
  assumes "no_key v"
  shows "sublist '' password='' (pg_escape_kv v @ r) \<longleftrightarrow> sublist '' password='' r"
proof -
  have "\<not> sublist '' password='' (escape_chars v)"
    using assms sublist_escape [of "'' password=''" v] by (auto simp: no_key_def)
  then show ?thesis
    using sublist_split [of "CHR 0x27" "'' password=''" "[]" "escape_chars v @ CHR 0x27 # r"]
      sublist_split [of "CHR 0x27" "'' password=''" "escape_chars v" r]
    by (simp add: pg_escape_kv_def)
qed

lemma literal_before_quoted:
  assumes "\<not> sublist '' password='' l" and "no_key v"
  shows "sublist '' password='' (l @ pg_escape_kv v @ r) \<longleftrightarrow> sublist '' password='' r"
  using assms no_key_escaped [OF assms(2), of r]
    sublist_split [of "CHR 0x27" "'' password=''" l "escape_chars v @ CHR 0x27 # r"]
    sublist_split [of "CHR 0x27" "'' password=''" "[]" "escape_chars v @ CHR 0x27 # r"]
  by (simp add: pg_escape_kv_def)

lemma find_password:
  assumes "no_key (ec_pg_host c)" "no_key (ec_pg_port c)" "no_key (ec_pg_db c)" "no_key (ec_pg_user c)"
  shows "find_sub '' password='' (connstr_head c @ '' password='' @ r) = Some (length (connstr_head c))"
proof (rule find_sub_first)
  have lit: "\<not> sublist '' password='' ''host=''" "\<not> sublist '' password='' '' port=''"
    "\<not> sublist '' password='' '' dbname=''" "\<not> sublist '' password='' '' user=''"
    "\<not> sublist '' password='' '' password''"
    by code_simp+
  show "\<not> sublist '' password='' (connstr_head c @ butlast '' password='')"
    unfolding connstr_head_def append_assoc
    by (simp only: literal_before_quoted lit assms not_False_eq_True butlast.simps list.simps if_False)
      (use lit in \<open>simp add: literal_before_quoted assms\<close>)
qed simp

lemma redact_connstr:
  assumes "no_key (ec_pg_host c)" "no_key (ec_pg_port c)" "no_key (ec_pg_db c)" "no_key (ec_pg_user c)"
  shows "redact_pg_password (pg_connstr c) = connstr_head c @ '' password=***'' @ connstr_tail"
proof -
  let ?r = "pg_escape_kv (ec_pg_password c) @ connstr_tail"
  have "redact_pg_password (connstr_head c @ '' password='' @ ?r) =
    connstr_head c @ '' password='' @ ''***'' @ after_quoted (escape_chars (ec_pg_password c) @ CHR 0x27 # connstr_tail)"
    unfolding redact_pg_password_def find_password [OF assms] by (simp add: Let_def pg_escape_kv_def)
  then show ?thesis by (simp add: pg_connstr_def after_quoted_escape)
qed

end
