(* ===== verification/Collector.thy ===== *)
theory Collector
  imports Validator Audit_Log Engine_Config
begin

section \<open>The collector\<close>

text \<open>
  \<open>Collector\<close> of \<open>src/src/collector.cpp\<close>: three streams of rows (trades, quotes, depth)
  buffered on the network thread, handed in batches through a bounded queue to the writer thread,
  which appends each batch to the stream's write-ahead log, writes everything pending to the
  database and truncates the log.  The two threads are interleaved as a list of events; an event is
  what one thread does under its locks.  The outcomes of the file system and of the database are
  arguments of the events.

  Three lists are kept for the theorems only: \<open>s_written\<close> (the rows of statements that
  succeeded), \<open>s_done\<close> (the rows written and cleared from the log) and \<open>s_lost\<close> (the rows of
  batches refused by a full queue).
\<close>

subsection \<open>Data\<close>

record 'r stream =
  s_path :: string
  s_buf :: "'r list"
  s_last :: real
  s_count :: int
  s_wal :: "'r wal"
  s_alerted :: bool
  s_written :: "'r list"
  s_done :: "'r list"
  s_lost :: "'r list"

datatype batch_job = TickJob "tick_row list" | BboJob "bbo_row list" | DepthJob "depth_row list"

record alert_row =
  ar_session :: int
  ar_alert :: alert

record collector =
  co_session :: int
  co_ticks :: "tick_row stream"
  co_bbo :: "bbo_row stream"
  co_depth :: "depth_row stream"
  co_queue :: "batch_job list"
  co_hand :: "batch_job option"
  co_stop :: bool
  co_rejected :: int
  co_dropped :: int
  co_bbo_ts :: int
  co_depth_ts :: int
  co_sentinel :: sentinel
  co_pending :: "alert_row list"
  co_audit :: audit
  co_last_audit :: real
  co_last_metrics :: real
  co_metrics :: "(string \<times> real) list list"

record moment =
  mo_clk :: real
  mo_us :: int

text \<open>What the writer meets on one job: an exception text for a failed write of the database.\<close>

record writes =
  wr_wal :: wal_io
  wr_what :: string
  wr_ticks :: "tick_row list \<Rightarrow> string option"
  wr_bbo :: "bbo_row list \<Rightarrow> string option"
  wr_depth :: "depth_row list \<Rightarrow> string option"
  wr_truncated :: bool
  wr_trunc_what :: string
  wr_audit_up :: bool
  wr_audit_reset :: bool
  wr_audit_stored :: bool
  wr_connected :: bool
  wr_alerts :: "row_out list"

definition flush_every_n :: nat where "flush_every_n = 5"
definition bbo_flush_every_n :: nat where "bbo_flush_every_n = 5"
definition depth_flush_every_n :: nat where "depth_flush_every_n = 10"
definition flush_every_sec :: real where "flush_every_sec = 1 / 10"
definition metrics_flush_sec :: real where "metrics_flush_sec = 60"
definition writer_queue_max :: nat where "writer_queue_max = 8192"
definition max_pending_alerts :: nat where "max_pending_alerts = 5000"

subsection \<open>The network thread\<close>

definition audit_error :: "moment \<Rightarrow> string \<Rightarrow> string \<Rightarrow> audit \<Rightarrow> audit" where
  "audit_error m e d = audit_log (audit_event (cdiv (mo_us m) 1000000) Err e d)"

definition co_error :: "moment \<Rightarrow> string \<Rightarrow> string \<Rightarrow> collector \<Rightarrow> collector" where
  "co_error m e d c = c\<lparr>co_audit := audit_error m e d (co_audit c)\<rparr>"

text \<open>The block under a stream's lock: the row appended, and the batch swapped out when it is due.\<close>

definition buffer_row :: "nat \<Rightarrow> moment \<Rightarrow> 'r \<Rightarrow> 'r stream \<Rightarrow> 'r list \<times> 'r stream" where
  "buffer_row n m row s =
     (let b = s_buf s @ [row]; t = s\<lparr>s_buf := b, s_count := s_count s + 1\<rparr>
      in if n \<le> length b \<or> flush_every_sec \<le> mo_clk m - s_last s
         then (b, t\<lparr>s_buf := [], s_last := mo_clk m\<rparr>) else ([], t))"

definition enqueue_job :: "bool \<Rightarrow> batch_job \<Rightarrow> collector \<Rightarrow> bool \<times> collector" where
  "enqueue_job enforce_cap j c =
     (if enforce_cap \<and> writer_queue_max \<le> length (co_queue c) then (False, c)
      else (True, c\<lparr>co_queue := co_queue c @ [j]\<rparr>))"

definition note_dropped :: "moment \<Rightarrow> string \<Rightarrow> collector \<Rightarrow> collector" where
  "note_dropped m stream c =
     (let d = co_dropped c + 1; c' = c\<lparr>co_dropped := d\<rparr>
      in if d = 1 \<or> d mod 100 = 0
         then co_error m ''writer.queue_full'' (''stream='' @ stream @ '' dropped_batches='' @ int_str d) c' else c')"

definition hand_ticks :: "moment \<Rightarrow> tick_row list \<Rightarrow> collector \<Rightarrow> collector" where
  "hand_ticks m batch c =
     (if batch = [] then c
      else (let (ok, c') = enqueue_job True (TickJob batch) c
            in if ok then c'
               else note_dropped m ''tick'' (c'\<lparr>co_ticks := (co_ticks c')\<lparr>s_lost := s_lost (co_ticks c') @ batch\<rparr>\<rparr>)))"

definition hand_bbo :: "moment \<Rightarrow> bbo_row list \<Rightarrow> collector \<Rightarrow> collector" where
  "hand_bbo m batch c =
     (if batch = [] then c
      else (let (ok, c') = enqueue_job True (BboJob batch) c
            in if ok then c'
               else note_dropped m ''bbo'' (c'\<lparr>co_bbo := (co_bbo c')\<lparr>s_lost := s_lost (co_bbo c') @ batch\<rparr>\<rparr>)))"

definition hand_depth :: "moment \<Rightarrow> depth_row list \<Rightarrow> collector \<Rightarrow> collector" where
  "hand_depth m batch c =
     (if batch = [] then c
      else (let (ok, c') = enqueue_job True (DepthJob batch) c
            in if ok then c'
               else note_dropped m ''depth'' (c'\<lparr>co_depth := (co_depth c')\<lparr>s_lost := s_lost (co_depth c') @ batch\<rparr>\<rparr>)))"

definition co_on_tick :: "moment \<Rightarrow> fp \<Rightarrow> tick_row \<Rightarrow> collector \<Rightarrow> collector" where
  "co_on_tick m price row0 c0 =
     (if \<not> tick_valid (mo_us m) price row0 then c0\<lparr>co_rejected := co_rejected c0 + 1\<rparr>
      else (let row = row0\<lparr>tk_price := price_value price\<rparr>;
                c = c0\<lparr>co_sentinel := observe_tick (mo_clk m) (tk_price row) (tk_size row) (tk_ts row) (co_sentinel c0)\<rparr>;
                (batch, s) = buffer_row flush_every_n m row (co_ticks c)
            in hand_ticks m batch (c\<lparr>co_ticks := s\<rparr>)))"

definition co_on_bbo :: "moment \<Rightarrow> bbo_row \<Rightarrow> collector \<Rightarrow> collector" where
  "co_on_bbo m row c0 =
     (if bo_ts row \<le> 0 then c0\<lparr>co_bbo_ts := co_bbo_ts c0 + 1\<rparr>
      else (let c = (case (bo_bid row, bo_ask row) of
                       (Some b, Some a) \<Rightarrow> c0\<lparr>co_sentinel := observe_bbo (mo_clk m) b a (co_sentinel c0)\<rparr>
                     | _ \<Rightarrow> c0);
                (batch, s) = buffer_row bbo_flush_every_n m row (co_bbo c)
            in hand_bbo m batch (c\<lparr>co_bbo := s\<rparr>)))"

definition co_on_depth :: "moment \<Rightarrow> depth_row \<Rightarrow> collector \<Rightarrow> collector" where
  "co_on_depth m row c =
     (if dp_ts row \<le> 0 then c\<lparr>co_depth_ts := co_depth_ts c + 1\<rparr>
      else (let (batch, s) = buffer_row depth_flush_every_n m row (co_depth c)
            in hand_depth m batch (c\<lparr>co_depth := s\<rparr>)))"

text \<open>The leftovers at shutdown, and the request to the writer to stop once it is drained.\<close>

definition enqueue_remaining :: "collector \<Rightarrow> collector" where
  "enqueue_remaining c =
     (let t = s_buf (co_ticks c); b = s_buf (co_bbo c); d = s_buf (co_depth c);
          c1 = c\<lparr>co_ticks := (co_ticks c)\<lparr>s_buf := []\<rparr>, co_bbo := (co_bbo c)\<lparr>s_buf := []\<rparr>,
                 co_depth := (co_depth c)\<lparr>s_buf := []\<rparr>\<rparr>;
          c2 = (if t = [] then c1 else snd (enqueue_job False (TickJob t) c1));
          c3 = (if b = [] then c2 else snd (enqueue_job False (BboJob b) c2))
      in if d = [] then c3 else snd (enqueue_job False (DepthJob d) c3))"

definition stop_writer :: "collector \<Rightarrow> collector" where
  "stop_writer c = c\<lparr>co_stop := True\<rparr>"

subsection \<open>The writer thread\<close>

text \<open>
  The three \<open>write_..._batch\<close> functions on their stream: the names of the stream in the audit
  events are arguments; the result is the events for the audit log and the stream.
\<close>

definition write_batch ::
    "('r \<Rightarrow> string) \<Rightarrow> string \<Rightarrow> string \<Rightarrow> writes \<Rightarrow> ('r list \<Rightarrow> string option) \<Rightarrow> 'r list \<Rightarrow> 'r stream
      \<Rightarrow> (string \<times> string) list \<times> 'r stream" where
  "write_batch to_line label write_err w db batch s0 =
     (let (ok, wal) = wal_write_batch to_line (wr_wal w) batch (s_wal s0); s = s0\<lparr>s_wal := wal\<rparr> in
      if \<not> ok then ([(''wal.write_error'', ''stream='' @ label @ '' '' @ wr_what w)], s\<lparr>s_buf := batch @ s_buf s\<rparr>)
      else (let over = wal_over_cap wal \<and> \<not> s_alerted s;
                evs = (if over then [(''wal.oversize'', ''path='' @ s_path s @ '' bytes='' @ int_str (w_size wal))] else []);
                u = (if over then s\<lparr>s_alerted := True\<rparr> else s)
            in case db (w_pending wal) of
                 Some what \<Rightarrow> (evs @ [(write_err, what)], u)
               | None \<Rightarrow>
                   (let v = u\<lparr>s_written := s_written u @ w_pending wal\<rparr>;
                        (cleared, wal') = wal_commit (wr_truncated w) wal
                    in if cleared
                       then (evs, v\<lparr>s_wal := wal', s_alerted := False, s_done := s_done v @ w_pending wal\<rparr>)
                       else (evs @ [(write_err, wr_trunc_what w)], v))))"

definition log_errors :: "moment \<Rightarrow> (string \<times> string) list \<Rightarrow> collector \<Rightarrow> collector" where
  "log_errors m evs c = fold (\<lambda>(e, d). co_error m e d) evs c"

definition write_tick_batch :: "moment \<Rightarrow> writes \<Rightarrow> tick_row list \<Rightarrow> collector \<Rightarrow> collector" where
  "write_tick_batch m w batch c =
     (let (evs, s) = write_batch tick_to_line ''tick'' ''ticks.write_error'' w (wr_ticks w) batch (co_ticks c)
      in log_errors m evs (c\<lparr>co_ticks := s\<rparr>))"

definition write_bbo_batch :: "moment \<Rightarrow> writes \<Rightarrow> bbo_row list \<Rightarrow> collector \<Rightarrow> collector" where
  "write_bbo_batch m w batch c =
     (let (evs, s) = write_batch bbo_to_line ''bbo'' ''bbo.write_error'' w (wr_bbo w) batch (co_bbo c)
      in log_errors m evs (c\<lparr>co_bbo := s\<rparr>))"

definition write_depth_batch :: "moment \<Rightarrow> writes \<Rightarrow> depth_row list \<Rightarrow> collector \<Rightarrow> collector" where
  "write_depth_batch m w batch c =
     (let (evs, s) = write_batch depth_to_line ''depth'' ''depth.write_error'' w (wr_depth w) batch (co_depth c)
      in log_errors m evs (c\<lparr>co_depth := s\<rparr>))"

definition flush_sentinel :: "writes \<Rightarrow> collector \<Rightarrow> collector" where
  "flush_sentinel w c =
     (let (als, sn) = drain_alerts (co_sentinel c);
          q = co_pending c @ map (\<lambda>a. \<lparr>ar_session = co_session c, ar_alert = a\<rparr>) als;
          kept = (if max_pending_alerts < length q then drop (length q - max_pending_alerts) q else q);
          c' = c\<lparr>co_sentinel := sn, co_pending := kept\<rparr>
      in if q = [] \<or> \<not> wr_connected w then c'
         else c'\<lparr>co_pending := drop (write_sentinel_alerts (wr_alerts w) kept) kept\<rparr>)"

definition rejection_rate :: "collector \<Rightarrow> real" where
  "rejection_rate c =
     (if 0 < s_count (co_ticks c)
      then of_int (co_rejected c) / of_int (s_count (co_ticks c) + co_rejected c) * 100 else 0)"

definition metrics :: "collector \<Rightarrow> (string \<times> real) list" where
  "metrics c =
     [(''session_ticks'', of_int (s_count (co_ticks c))),
      (''session_rejected'', of_int (co_rejected c)),
      (''session_bbo'', of_int (s_count (co_bbo c))),
      (''session_depth'', of_int (s_count (co_depth c))),
      (''sentinel_alerts'', of_int (sn_alert_count (co_sentinel c))),
      (''sentinel_gaps'', of_int (sn_gaps (co_sentinel c))),
      (''writer_queue_dropped'', of_int (co_dropped c)),
      (''bbo_dropped_ts'', of_int (co_bbo_ts c)),
      (''depth_dropped_ts'', of_int (co_depth_ts c)),
      (''rejection_rate_pct'', rejection_rate c)]"

definition flush_metrics :: "writes \<Rightarrow> collector \<Rightarrow> collector" where
  "flush_metrics w c = (if wr_connected w then c\<lparr>co_metrics := co_metrics c @ [metrics c]\<rparr> else c)"

definition flush_audit :: "moment \<Rightarrow> writes \<Rightarrow> collector \<Rightarrow> collector" where
  "flush_audit m w c =
     (let (batch, a) = flush_take (mo_clk m) (wr_audit_up w) (wr_audit_reset w) (co_audit c)
      in c\<lparr>co_audit := (if batch = [] then a else flush_done (wr_audit_stored w) batch a)\<rparr>)"

text \<open>One round of \<open>writer_loop\<close>: the job taken, then written and the periodic flushes.\<close>

definition writer_take :: "collector \<Rightarrow> collector" where
  "writer_take c =
     (case (co_hand c, co_queue c) of
        (None, j # js) \<Rightarrow> c\<lparr>co_hand := Some j, co_queue := js\<rparr>
      | _ \<Rightarrow> c)"

definition run_job :: "moment \<Rightarrow> writes \<Rightarrow> batch_job \<Rightarrow> collector \<Rightarrow> collector" where
  "run_job m w j c =
     (case j of TickJob b \<Rightarrow> write_tick_batch m w b c
      | BboJob b \<Rightarrow> write_bbo_batch m w b c
      | DepthJob b \<Rightarrow> write_depth_batch m w b c)"

definition periodic :: "moment \<Rightarrow> writes \<Rightarrow> collector \<Rightarrow> collector" where
  "periodic m w c0 =
     (let c1 = (if 60 \<le> mo_clk m - co_last_audit c0 then (flush_audit m w c0)\<lparr>co_last_audit := mo_clk m\<rparr> else c0)
      in if metrics_flush_sec \<le> mo_clk m - co_last_metrics c1
         then (flush_metrics w (flush_sentinel w c1))\<lparr>co_last_metrics := mo_clk m\<rparr> else c1)"

definition writer_finish :: "moment \<Rightarrow> writes \<Rightarrow> collector \<Rightarrow> collector" where
  "writer_finish m w c =
     (case co_hand c of None \<Rightarrow> c
      | Some j \<Rightarrow> periodic m w (run_job m w j (c\<lparr>co_hand := None\<rparr>)))"

text \<open>The writer leaves its loop when a stop was requested and nothing is queued.\<close>

definition writer_exited :: "collector \<Rightarrow> bool" where
  "writer_exited c = (co_stop c \<and> co_queue c = [] \<and> co_hand c = None)"

subsection \<open>Start\<close>

definition new_stream :: "string \<Rightarrow> real \<Rightarrow> 'r wal \<Rightarrow> 'r stream" where
  "new_stream path clk w = \<lparr>s_path = path, s_buf = [], s_last = clk, s_count = 0, s_wal = w, s_alerted = False,
     s_written = [], s_done = [], s_lost = []\<rparr>"

text \<open>The replay of one log: \<open>Inl\<close> for the rows still held, \<open>Inr\<close> with the count inserted.\<close>

definition recover :: "('r list \<Rightarrow> int option) \<Rightarrow> bool \<Rightarrow> 'r stream \<Rightarrow> int option \<times> 'r stream" where
  "recover db truncated s =
     (if \<not> wal_dirty (s_wal s) then (None, s)
      else (case db (w_pending (s_wal s)) of
              None \<Rightarrow> (None, s)
            | Some n \<Rightarrow>
                (let rows = w_pending (s_wal s); (cleared, w') = wal_commit truncated (s_wal s);
                     t = s\<lparr>s_written := s_written s @ rows\<rparr>
                 in if cleared then (Some n, t\<lparr>s_wal := w', s_done := s_done t @ rows\<rparr>) else (None, t))))"

record start =
  st_session :: int
  st_moment :: moment
  st_ticks_file :: string
  st_bbo_file :: string
  st_depth_file :: string
  st_write :: "tick_row list \<Rightarrow> int option"
  st_write_bbo :: "bbo_row list \<Rightarrow> int option"
  st_write_depth :: "depth_row list \<Rightarrow> int option"
  st_truncated :: bool
  st_count :: int

definition replay_event :: "moment \<Rightarrow> string \<Rightarrow> int option \<Rightarrow> audit \<Rightarrow> audit" where
  "replay_event m label r a =
     (case r of None \<Rightarrow> a
      | Some n \<Rightarrow> audit_log (audit_event (cdiv (mo_us m) 1000000) Info ''wal.replay''
                    (''stream='' @ label @ '' recovered='' @ int_str n)) a)"

definition collector_new :: "engine_config \<Rightarrow> start \<Rightarrow> collector" where
  "collector_new cfg st =
     (let m = st_moment st; p = ec_wal_path cfg; clk = mo_clk m;
          (n1, s1) = recover (st_write st) (st_truncated st)
            (new_stream p clk (wal_open tick_from_line default_max_bytes (st_ticks_file st)));
          (n2, s2) = recover (st_write_bbo st) (st_truncated st)
            (new_stream (p @ ''.bbo'') clk (wal_open bbo_from_line default_max_bytes (st_bbo_file st)));
          (n3, s3) = recover (st_write_depth st) (st_truncated st)
            (new_stream (p @ ''.depth'') clk (wal_open depth_from_line default_max_bytes (st_depth_file st)));
          a0 = audit_log (audit_event (cdiv (mo_us m) 1000000) Info ''collector.start''
                 (''existing_ticks='' @ int_str (st_count st) @ '' session_id='' @ int_str (st_session st))) (audit_new True)
      in \<lparr>co_session = st_session st, co_ticks = s1, co_bbo = s2, co_depth = s3, co_queue = [], co_hand = None,
          co_stop = False, co_rejected = 0, co_dropped = 0, co_bbo_ts = 0, co_depth_ts = 0,
          co_sentinel = sentinel_new sentinel_defaults, co_pending = [],
          co_audit = replay_event m ''depth'' n3 (replay_event m ''bbo'' n2 (replay_event m ''tick'' n1 a0)),
          co_last_audit = clk, co_last_metrics = clk, co_metrics = []\<rparr>)"

subsection \<open>The machine\<close>

datatype co_event =
    Tick moment fp tick_row
  | Bbo moment bbo_row
  | Depth moment depth_row
  | Take
  | Finish moment writes
  | Remaining
  | StopWriter

fun co_step :: "collector \<Rightarrow> co_event \<Rightarrow> collector" where
  "co_step c (Tick m price row) = co_on_tick m price row c"
| "co_step c (Bbo m row) = co_on_bbo m row c"
| "co_step c (Depth m row) = co_on_depth m row c"
| "co_step c Take = writer_take c"
| "co_step c (Finish m w) = writer_finish m w c"
| "co_step c Remaining = enqueue_remaining c"
| "co_step c StopWriter = stop_writer c"

end
