(* ===== verification/Collector_Props.thy ===== *)
theory Collector_Props
  imports Collector "HOL-Library.Multiset"
begin

section \<open>What the collector guarantees about its rows\<close>

text \<open>
  The write-ahead logs as instances of the codec contract, the bookkeeping of the rows through
  buffers, queue, log and database, and the two cases in which rows the collector has accepted do
  not arrive.
\<close>

subsection \<open>The codecs meet the log's contract\<close>

lemma tick_line_plain:
  assumes "tick_ok r"
  shows "newline \<notin> set (tick_to_line r) \<and> CHR 0x0D \<notin> set (tick_to_line r)"
  unfolding tick_to_line_def by (rule plain_joined) (use assms in \<open>simp add: tick_ok_def\<close>)

lemma bbo_line_plain:
  assumes "bbo_ok r"
  shows "newline \<notin> set (bbo_to_line r) \<and> CHR 0x0D \<notin> set (bbo_to_line r)"
  unfolding bbo_to_line_def by (rule plain_joined) (use assms in \<open>simp add: bbo_ok_def\<close>)

lemma to_line_nonempty [simp]: "tick_to_line r \<noteq> []" "bbo_to_line q \<noteq> []"
  by (simp_all add: tick_to_line_def bbo_to_line_def)

lemma tick_clean_end: "tick_ok r \<Longrightarrow> last (tick_to_line r) \<noteq> CHR 0x0D"
  by (metis tick_line_plain last_in_set to_line_nonempty)

lemma bbo_clean_end: "bbo_ok r \<Longrightarrow> last (bbo_to_line r) \<noteq> CHR 0x0D"
  by (metis bbo_line_plain last_in_set to_line_nonempty)

interpretation tick_wal: line_codec tick_to_line tick_from_line tick_ok
  by unfold_locales (simp_all add: tick_back tick_line_plain tick_clean_end)

interpretation bbo_wal: line_codec bbo_to_line bbo_from_line bbo_ok
  by unfold_locales (simp_all add: bbo_back bbo_line_plain bbo_clean_end)

subsection \<open>Rows of one stream\<close>

definition held :: "'r stream \<Rightarrow> 'r multiset" where
  "held s = mset (s_buf s) + mset (w_pending (s_wal s)) + mset (s_done s) + mset (s_lost s)"

definition done_written :: "'r stream \<Rightarrow> bool" where
  "done_written s = (set (s_done s) \<subseteq> set (s_written s))"

lemma buffer_row_held:
  "buffer_row n m row s = (batch, t) \<Longrightarrow> held t + mset batch = add_mset row (held s)"
  by (auto simp: buffer_row_def held_def Let_def split: if_splits)

lemma buffer_row_frame:
  "buffer_row n m row s = (batch, t) \<Longrightarrow> s_wal t = s_wal s \<and> s_done t = s_done s \<and> s_written t = s_written s \<and> s_lost t = s_lost s"
  by (auto simp: buffer_row_def Let_def split: if_splits)

lemma write_batch_held:
  "write_batch f l e w db batch s = (evs, t) \<Longrightarrow> held t = held s + mset batch"
  by (auto simp: write_batch_def held_def wal_write_batch_def wal_commit_def Let_def
      split: if_splits option.splits wal_io.splits)

lemma write_batch_lost: "write_batch f l e w db batch s = (evs, t) \<Longrightarrow> s_lost t = s_lost s"
  by (auto simp: write_batch_def wal_write_batch_def wal_commit_def Let_def split: if_splits option.splits wal_io.splits)

lemma write_batch_done:
  "write_batch f l e w db batch s = (evs, t) \<Longrightarrow> done_written s \<Longrightarrow> done_written t"
  by (auto simp: write_batch_def done_written_def wal_write_batch_def wal_commit_def Let_def
      split: if_splits option.splits wal_io.splits)

subsection \<open>Rows of the whole collector\<close>

fun ticks_of :: "batch_job \<Rightarrow> tick_row list" where
  "ticks_of (TickJob b) = b" | "ticks_of _ = []"

fun bbos_of :: "batch_job \<Rightarrow> bbo_row list" where
  "bbos_of (BboJob b) = b" | "bbos_of _ = []"

fun depths_of :: "batch_job \<Rightarrow> depth_row list" where
  "depths_of (DepthJob b) = b" | "depths_of _ = []"

definition waiting :: "collector \<Rightarrow> batch_job list" where
  "waiting c = co_queue c @ (case co_hand c of None \<Rightarrow> [] | Some j \<Rightarrow> [j])"

definition all_ticks :: "collector \<Rightarrow> tick_row multiset" where
  "all_ticks c = held (co_ticks c) + mset (concat (map ticks_of (waiting c)))"

definition all_bbos :: "collector \<Rightarrow> bbo_row multiset" where
  "all_bbos c = held (co_bbo c) + mset (concat (map bbos_of (waiting c)))"

definition all_depths :: "collector \<Rightarrow> depth_row multiset" where
  "all_depths c = held (co_depth c) + mset (concat (map depths_of (waiting c)))"

fun took_tick :: "co_event \<Rightarrow> tick_row list" where
  "took_tick (Tick m price row) =
     (if tick_valid (mo_us m) price row then [row\<lparr>tk_price := price_value price\<rparr>] else [])"
| "took_tick _ = []"

fun took_bbo :: "co_event \<Rightarrow> bbo_row list" where
  "took_bbo (Bbo m row) = (if 0 < bo_ts row then [row] else [])"
| "took_bbo _ = []"

fun took_depth :: "co_event \<Rightarrow> depth_row list" where
  "took_depth (Depth m row) = (if 0 < dp_ts row then [row] else [])"
| "took_depth _ = []"

subsection \<open>Frames\<close>

named_theorems co_frame \<open>what the collector's helpers leave alone\<close>

lemma log_errors_frame [co_frame]:
  "co_ticks (log_errors m evs c) = co_ticks c" "co_bbo (log_errors m evs c) = co_bbo c"
  "co_depth (log_errors m evs c) = co_depth c" "co_queue (log_errors m evs c) = co_queue c"
  "co_hand (log_errors m evs c) = co_hand c" "co_stop (log_errors m evs c) = co_stop c" "co_dropped (log_errors m evs c) = co_dropped c"
  by (induction evs arbitrary: c) (auto simp: log_errors_def co_error_def)

lemma note_dropped_frame [co_frame]:
  "co_ticks (note_dropped m l c) = co_ticks c" "co_bbo (note_dropped m l c) = co_bbo c"
  "co_depth (note_dropped m l c) = co_depth c" "co_queue (note_dropped m l c) = co_queue c"
  "co_hand (note_dropped m l c) = co_hand c" "co_stop (note_dropped m l c) = co_stop c" "co_dropped (note_dropped m l c) = co_dropped c + 1"
  by (simp_all add: note_dropped_def co_error_def Let_def)

lemma flush_frame:
  "co_ticks (flush_sentinel w c) = co_ticks c" "co_bbo (flush_sentinel w c) = co_bbo c"
  "co_depth (flush_sentinel w c) = co_depth c" "co_queue (flush_sentinel w c) = co_queue c"
  "co_hand (flush_sentinel w c) = co_hand c" "co_stop (flush_sentinel w c) = co_stop c" "co_dropped (flush_sentinel w c) = co_dropped c"
  "co_ticks (flush_metrics w c) = co_ticks c" "co_bbo (flush_metrics w c) = co_bbo c"
  "co_depth (flush_metrics w c) = co_depth c" "co_queue (flush_metrics w c) = co_queue c"
  "co_hand (flush_metrics w c) = co_hand c" "co_stop (flush_metrics w c) = co_stop c" "co_dropped (flush_metrics w c) = co_dropped c"
  "co_ticks (flush_audit m w c) = co_ticks c" "co_bbo (flush_audit m w c) = co_bbo c"
  "co_depth (flush_audit m w c) = co_depth c" "co_queue (flush_audit m w c) = co_queue c"
  "co_hand (flush_audit m w c) = co_hand c" "co_stop (flush_audit m w c) = co_stop c" "co_dropped (flush_audit m w c) = co_dropped c"
  by (simp_all add: flush_sentinel_def drain_alerts_def flush_metrics_def flush_audit_def Let_def split: prod.split)

lemma periodic_frame [co_frame]:
  "co_ticks (periodic m w c) = co_ticks c" "co_bbo (periodic m w c) = co_bbo c"
  "co_depth (periodic m w c) = co_depth c" "co_queue (periodic m w c) = co_queue c"
  "co_hand (periodic m w c) = co_hand c" "co_stop (periodic m w c) = co_stop c" "co_dropped (periodic m w c) = co_dropped c"
  by (simp_all add: periodic_def flush_frame Let_def)

subsection \<open>No operation loses or doubles a row\<close>

text \<open>One operation: the rows of the three streams grow by exactly the rows accepted.\<close>

definition keeps_rows :: "collector \<Rightarrow> tick_row list \<Rightarrow> bbo_row list \<Rightarrow> depth_row list \<Rightarrow> collector \<Rightarrow> bool" where
  "keeps_rows c ts bs ds d = (all_ticks d = all_ticks c + mset ts \<and> all_bbos d = all_bbos c + mset bs \<and>
     all_depths d = all_depths c + mset ds)"

lemmas all_rows_defs = keeps_rows_def all_ticks_def all_bbos_def all_depths_def waiting_def

lemma keeps_hand:
  "keeps_rows c b [] [] (hand_ticks m b c)" "keeps_rows c [] b' [] (hand_bbo m b' c)"
  "keeps_rows c [] [] b'' (hand_depth m b'' c)"
  by (simp_all add: hand_ticks_def hand_bbo_def hand_depth_def enqueue_job_def all_rows_defs co_frame held_def Let_def)

lemma keeps_tick: "keeps_rows c (took_tick e) (took_bbo e) (took_depth e) (co_step c e)" if "e = Tick m price row"
proof (cases "tick_valid (mo_us m) price row")
  case False
  with that show ?thesis by (simp add: co_on_tick_def all_rows_defs)
next
  case True
  let ?row = "row\<lparr>tk_price := price_value price\<rparr>"
  obtain b s where br: "buffer_row flush_every_n m ?row (co_ticks c) = (b, s)" by (metis surj_pair)
  let ?sn = "observe_tick (mo_clk m) (tk_price ?row) (tk_size ?row) (tk_ts ?row) (co_sentinel c)"
  have "co_step c e = hand_ticks m b (c\<lparr>co_sentinel := ?sn, co_ticks := s\<rparr>)"
    using True that br by (simp add: co_on_tick_def Let_def)
  moreover have "keeps_rows (c\<lparr>co_sentinel := ?sn, co_ticks := s\<rparr>) b [] []
      (hand_ticks m b (c\<lparr>co_sentinel := ?sn, co_ticks := s\<rparr>))" by (rule keeps_hand)
  ultimately show ?thesis
    using True that buffer_row_held [OF br] by (simp add: all_rows_defs)
qed

lemma keeps_bbo: "keeps_rows c (took_tick e) (took_bbo e) (took_depth e) (co_step c e)" if "e = Bbo m row"
proof (cases "bo_ts row \<le> 0")
  case True
  with that show ?thesis by (simp add: co_on_bbo_def all_rows_defs)
next
  case False
  obtain b s where br: "buffer_row bbo_flush_every_n m row (co_bbo c) = (b, s)" by (metis surj_pair)
  obtain sn where "co_step c e = hand_bbo m b (c\<lparr>co_sentinel := sn, co_bbo := s\<rparr>)"
  proof (cases "bo_bid row = None \<or> bo_ask row = None")
    case True
    with False \<open>e = Bbo m row\<close> br that [of "co_sentinel c"] show ?thesis
      by (auto simp: co_on_bbo_def split: option.splits)
  next
    case both: False
    then obtain x y where "bo_bid row = Some x" "bo_ask row = Some y" by auto
    with False \<open>e = Bbo m row\<close> br that [of "observe_bbo (mo_clk m) x y (co_sentinel c)"] show ?thesis
      by (simp add: co_on_bbo_def)
  qed
  moreover have "keeps_rows (c\<lparr>co_sentinel := sn, co_bbo := s\<rparr>) [] b []
      (hand_bbo m b (c\<lparr>co_sentinel := sn, co_bbo := s\<rparr>))" by (rule keeps_hand)
  ultimately show ?thesis
    using False that buffer_row_held [OF br] by (simp add: all_rows_defs)
qed

lemma keeps_depth: "keeps_rows c (took_tick e) (took_bbo e) (took_depth e) (co_step c e)" if "e = Depth m row"
proof (cases "dp_ts row \<le> 0")
  case True
  with that show ?thesis by (simp add: co_on_depth_def all_rows_defs)
next
  case False
  obtain b s where br: "buffer_row depth_flush_every_n m row (co_depth c) = (b, s)" by (metis surj_pair)
  have "co_step c e = hand_depth m b (c\<lparr>co_depth := s\<rparr>)"
    using False that br by (simp add: co_on_depth_def)
  moreover have "keeps_rows (c\<lparr>co_depth := s\<rparr>) [] [] b (hand_depth m b (c\<lparr>co_depth := s\<rparr>))" by (rule keeps_hand)
  ultimately show ?thesis
    using False that buffer_row_held [OF br] by (simp add: all_rows_defs)
qed

lemma keeps_job:
  "keeps_rows c (ticks_of j) (bbos_of j) (depths_of j) (run_job m w j c)"
proof (cases j)
  case (TickJob b)
  obtain evs s where "write_batch tick_to_line ''tick'' ''ticks.write_error'' w (wr_ticks w) b (co_ticks c) = (evs, s)"
    by (metis surj_pair)
  with TickJob write_batch_held [OF this] show ?thesis
    by (simp add: run_job_def write_tick_batch_def all_rows_defs co_frame)
next
  case (BboJob b)
  obtain evs s where "write_batch bbo_to_line ''bbo'' ''bbo.write_error'' w (wr_bbo w) b (co_bbo c) = (evs, s)"
    by (metis surj_pair)
  with BboJob write_batch_held [OF this] show ?thesis
    by (simp add: run_job_def write_bbo_batch_def all_rows_defs co_frame)
next
  case (DepthJob b)
  obtain evs s where "write_batch depth_to_line ''depth'' ''depth.write_error'' w (wr_depth w) b (co_depth c) = (evs, s)"
    by (metis surj_pair)
  with DepthJob write_batch_held [OF this] show ?thesis
    by (simp add: run_job_def write_depth_batch_def all_rows_defs co_frame)
qed

lemma keeps_finish: "keeps_rows c [] [] [] (writer_finish m w c)"
proof (cases "co_hand c")
  case (Some j)
  with keeps_job [of "c\<lparr>co_hand := None\<rparr>" j m w] show ?thesis
    by (simp add: writer_finish_def all_rows_defs co_frame)
qed (simp add: writer_finish_def all_rows_defs)

lemma keeps_take: "keeps_rows c [] [] [] (writer_take c)"
  by (auto simp: writer_take_def all_rows_defs split: option.split list.split)

lemma keeps_remaining: "keeps_rows c [] [] [] (enqueue_remaining c)"
  by (simp add: enqueue_remaining_def enqueue_job_def all_rows_defs held_def Let_def)

lemma keeps_step: "keeps_rows c (took_tick e) (took_bbo e) (took_depth e) (co_step c e)"
proof (cases e)
  case (Finish m w)
  with keeps_finish [of c m w] show ?thesis by simp
next
  case Take
  with keeps_take [of c] show ?thesis by simp
next
  case Remaining
  with keeps_remaining [of c] show ?thesis by simp
next
  case StopWriter
  then show ?thesis by (simp add: stop_writer_def all_rows_defs)
qed (rule keeps_tick keeps_bbo keeps_depth, assumption)+

lemma keeps_run:
  "keeps_rows c (concat (map took_tick es)) (concat (map took_bbo es)) (concat (map took_depth es)) (run co_step c es)"
proof (induction es arbitrary: c)
  case (Cons e es)
  with keeps_step [of c e] Cons.IH [of "co_step c e"] show ?case by (simp add: keeps_rows_def)
qed (simp add: keeps_rows_def)

subsection \<open>Dropped batches and the length of the queue\<close>

text \<open>The queue, with the batch in hand, once \<open>k\<close> shutdowns have skipped the cap.\<close>

definition orderly :: "nat \<Rightarrow> collector \<Rightarrow> bool" where
  "orderly k c = (length (co_queue c) \<le> writer_queue_max + 3 * k \<and> 0 \<le> co_dropped c \<and>
     (co_dropped c = 0 \<longrightarrow> s_lost (co_ticks c) = [] \<and> s_lost (co_bbo c) = [] \<and> s_lost (co_depth c) = []) \<and>
     done_written (co_ticks c) \<and> done_written (co_bbo c) \<and> done_written (co_depth c))"

lemma orderly_hand:
  "orderly k c \<Longrightarrow> orderly k (hand_ticks m b c)" "orderly k c \<Longrightarrow> orderly k (hand_bbo m b' c)"
  "orderly k c \<Longrightarrow> orderly k (hand_depth m b'' c)"
  by (auto simp: orderly_def hand_ticks_def hand_bbo_def hand_depth_def enqueue_job_def co_frame done_written_def Let_def)

lemma orderly_stream:
  "orderly k c \<Longrightarrow> s_lost s = s_lost (co_ticks c) \<Longrightarrow> done_written s \<Longrightarrow> orderly k (c\<lparr>co_ticks := s\<rparr>)"
  "orderly k c \<Longrightarrow> s_lost t = s_lost (co_bbo c) \<Longrightarrow> done_written t \<Longrightarrow> orderly k (c\<lparr>co_bbo := t\<rparr>)"
  "orderly k c \<Longrightarrow> s_lost u = s_lost (co_depth c) \<Longrightarrow> done_written u \<Longrightarrow> orderly k (c\<lparr>co_depth := u\<rparr>)"
  by (simp_all add: orderly_def)

lemma orderly_frame:
  "orderly k (c\<lparr>co_sentinel := x\<rparr>) = orderly k c" "orderly k (log_errors m evs c) = orderly k c"
  "orderly k (periodic m w c) = orderly k c" "orderly k (c\<lparr>co_rejected := i\<rparr>) = orderly k c"
  "orderly k (c\<lparr>co_bbo_ts := i\<rparr>) = orderly k c" "orderly k (c\<lparr>co_depth_ts := i\<rparr>) = orderly k c"
  "orderly k (c\<lparr>co_stop := y\<rparr>) = orderly k c" "orderly k (c\<lparr>co_hand := z\<rparr>) = orderly k c"
  by (simp_all add: orderly_def co_frame)

lemma orderly_streams [dest]:
  "orderly k c \<Longrightarrow> done_written (co_ticks c) \<and> done_written (co_bbo c) \<and> done_written (co_depth c)"
  by (simp add: orderly_def)

lemma buffer_row_done: "buffer_row n m row s = (batch, t) \<Longrightarrow> done_written s \<Longrightarrow> done_written t"
  by (drule buffer_row_frame) (simp add: done_written_def)

lemma buffer_row_lost: "buffer_row n m row s = (batch, t) \<Longrightarrow> s_lost t = s_lost s"
  by (drule buffer_row_frame) simp

lemma orderly_buffered:
  "buffer_row n m row (co_ticks c) = (b, s) \<Longrightarrow> orderly k c \<Longrightarrow> orderly k (c\<lparr>co_ticks := s\<rparr>)"
  "buffer_row n m row' (co_bbo c) = (b', t) \<Longrightarrow> orderly k c \<Longrightarrow> orderly k (c\<lparr>co_bbo := t\<rparr>)"
  "buffer_row n m row'' (co_depth c) = (b'', u) \<Longrightarrow> orderly k c \<Longrightarrow> orderly k (c\<lparr>co_depth := u\<rparr>)"
  by (blast intro: orderly_stream buffer_row_lost buffer_row_done)+

lemma orderly_on_tick:
  assumes "orderly k c"
  shows "orderly k (co_on_tick m price row c)"
proof -
  have "orderly k (c\<lparr>co_sentinel := x, co_ticks := s\<rparr>)" if "buffer_row n m r (co_ticks c) = (b, s)" for x n r b s
    using that orderly_buffered(1) [of n m r "c\<lparr>co_sentinel := x\<rparr>" b s k] assms by (simp add: orderly_frame)
  with assms show ?thesis
    by (simp add: co_on_tick_def orderly_frame orderly_hand Let_def split: prod.split)
qed

lemma orderly_on_bbo:
  assumes "orderly k c"
  shows "orderly k (co_on_bbo m row c)"
proof -
  have "orderly k (c\<lparr>co_sentinel := x, co_bbo := s\<rparr>)" if "buffer_row n m r (co_bbo c) = (b, s)" for x n r b s
    using that orderly_buffered(2) [of n m r "c\<lparr>co_sentinel := x\<rparr>" b s k] assms by (simp add: orderly_frame)
  with assms orderly_buffered(2) [OF _ assms] show ?thesis
    by (simp add: co_on_bbo_def orderly_frame orderly_hand split: prod.split option.split)
qed

lemma orderly_on_depth: "orderly k c \<Longrightarrow> orderly k (co_on_depth m row c)"
  by (simp add: co_on_depth_def orderly_frame orderly_hand orderly_buffered(3) split: prod.split)

lemma orderly_written:
  "write_batch f l e w db b (co_ticks c) = (evs, s) \<Longrightarrow> orderly k c \<Longrightarrow> orderly k (c\<lparr>co_ticks := s\<rparr>)"
  "write_batch f' l e w db' b' (co_bbo c) = (evs, t) \<Longrightarrow> orderly k c \<Longrightarrow> orderly k (c\<lparr>co_bbo := t\<rparr>)"
  "write_batch f'' l e w db'' b'' (co_depth c) = (evs, u) \<Longrightarrow> orderly k c \<Longrightarrow> orderly k (c\<lparr>co_depth := u\<rparr>)"
  by (blast intro: orderly_stream write_batch_lost write_batch_done)+

lemma orderly_job: "orderly k c \<Longrightarrow> orderly k (run_job m w j c)"
  by (cases j) (simp_all add: run_job_def write_tick_batch_def write_bbo_batch_def write_depth_batch_def orderly_frame
      orderly_written split: prod.split)

lemma orderly_finish: "orderly k c \<Longrightarrow> orderly k (writer_finish m w c)"
  by (simp add: writer_finish_def orderly_frame orderly_job split: option.split)

lemma orderly_take: "orderly k c \<Longrightarrow> orderly k (writer_take c)"
  by (auto simp: writer_take_def orderly_def split: option.split list.split)

lemma orderly_remaining: "orderly k c \<Longrightarrow> orderly (Suc k) (enqueue_remaining c)"
  by (simp add: enqueue_remaining_def enqueue_job_def orderly_def done_written_def Let_def)

definition shutdowns :: "co_event list \<Rightarrow> nat" where
  "shutdowns es = length (filter (\<lambda>e. e = Remaining) es)"

lemma orderly_step: "orderly k c \<Longrightarrow> orderly (k + (if e = Remaining then 1 else 0)) (co_step c e)"
  by (cases e) (simp_all add: orderly_on_tick orderly_on_bbo orderly_on_depth orderly_finish orderly_take
      orderly_remaining stop_writer_def orderly_frame)

lemma orderly_run: "orderly k c \<Longrightarrow> orderly (k + shutdowns es) (run co_step c es)"
proof (induction es arbitrary: k c)
  case (Cons e es)
  from Cons.IH [OF orderly_step [OF Cons.prems, of e]] show ?case by (simp add: shutdowns_def split: if_splits)
qed (simp add: shutdowns_def)

subsection \<open>The start\<close>

lemma recover_held: "recover db tr s = (n, t) \<Longrightarrow> held t = held s"
  by (auto simp: recover_def held_def wal_commit_def Let_def split: if_splits option.splits)

lemma recover_lost: "recover db tr s = (n, t) \<Longrightarrow> s_lost t = s_lost s"
  by (auto simp: recover_def wal_commit_def Let_def split: if_splits option.splits)

lemma recover_done: "recover db tr s = (n, t) \<Longrightarrow> done_written s \<Longrightarrow> done_written t"
  by (auto simp: recover_def done_written_def wal_commit_def Let_def split: if_splits option.splits)

lemma new_stream_facts:
  "held (new_stream p clk w) = mset (w_pending w)" "s_lost (new_stream p clk w) = []" "done_written (new_stream p clk w)"
  by (simp_all add: new_stream_def held_def done_written_def)

lemma collector_new_rows:
  "all_ticks (collector_new cfg st) = mset (replay tick_from_line (st_ticks_file st))"
  "all_bbos (collector_new cfg st) = mset (replay bbo_from_line (st_bbo_file st))"
  "all_depths (collector_new cfg st) = mset (replay depth_from_line (st_depth_file st))"
  by (auto simp: collector_new_def all_ticks_def all_bbos_def all_depths_def waiting_def new_stream_facts
      wal_open_def Let_def dest!: recover_held split: prod.splits)

lemma collector_new_orderly: "orderly 0 (collector_new cfg st)"
  by (auto simp: collector_new_def orderly_def new_stream_facts Let_def
      dest: recover_lost recover_done [OF _ new_stream_facts(3)] split: prod.splits)

end
