(* ===== verification/Collection.thy ===== *)
theory Collection
  imports Collector_Props
begin

section \<open>Properties of the collection pipeline\<close>

text \<open>
  The properties of the write-ahead log, the collector, the statements it sends, the audit log and
  the connection string, each with a witness on concrete rows.
\<close>

subsection \<open>Concrete rows\<close>

definition demo_trade :: "int \<Rightarrow> tick_row" where
  "demo_trade n = \<lparr>tk_ts = 1790000000000000, tk_price = 80001 / 4, tk_size = n, tk_is_buy = True,
     tk_symbol = ''NQ'', tk_exchange = ''CME''\<rparr>"

definition demo_bid :: bbo_row where
  "demo_bid = \<lparr>bo_ts = 1790000000000000, bo_bid = Some 20000, bo_bid_size = 3, bo_bid_orders = 2,
     bo_ask = None, bo_ask_size = 0, bo_ask_orders = 0, bo_symbol = ''NQ'', bo_exchange = ''CME''\<rparr>"

definition demo_ask :: bbo_row where
  "demo_ask = \<lparr>bo_ts = 1790000000000000, bo_bid = None, bo_bid_size = 0, bo_bid_orders = 0,
     bo_ask = Some (80001 / 4), bo_ask_size = 1, bo_ask_orders = 1, bo_symbol = ''NQ'', bo_exchange = ''CME''\<rparr>"

definition demo_moment :: "real \<Rightarrow> moment" where
  "demo_moment clk = \<lparr>mo_clk = clk, mo_us = 1790000000000000\<rparr>"

text \<open>A database that takes everything except a quote batch that names a row twice.\<close>

definition demo_writes :: writes where
  "demo_writes = \<lparr>wr_wal = Written, wr_what = [], wr_ticks = (\<lambda>rows. None),
     wr_bbo = (\<lambda>rows. if distinct (map bbo_key rows) then None else Some ''cannot affect row a second time''),
     wr_depth = (\<lambda>rows. None), wr_truncated = True, wr_trunc_what = [], wr_audit_up = True, wr_audit_reset = True,
     wr_audit_stored = True, wr_connected = True, wr_alerts = []\<rparr>"

definition demo_start :: start where
  "demo_start = \<lparr>st_session = 7, st_moment = demo_moment 1000, st_ticks_file = [], st_bbo_file = [], st_depth_file = [],
     st_write = (\<lambda>rows. Some 0), st_write_bbo = (\<lambda>rows. Some 0), st_write_depth = (\<lambda>rows. Some 0),
     st_truncated = True, st_count = 0\<rparr>"

definition demo_collector :: collector where
  "demo_collector = collector_new (from_env None Map.empty) demo_start"

subsection \<open>Write-ahead log\<close>

text \<open>An operation that leaves whole lines in the file.\<close>

definition untorn_op :: "('r \<Rightarrow> bool) \<Rightarrow> 'r wal_op \<Rightarrow> bool" where
  "untorn_op ok op = (case op of WriteBatch out rows \<Rightarrow> list_all ok rows \<and> (out = Written \<or> out = SyncFailed)
     | Commit b \<Rightarrow> True)"

lemma tick_untorn: "tick_wal.untorn = untorn_op tick_ok"
  by (rule ext) (simp add: untorn_op_def tick_wal.untorn.simps split: wal_op.split)

lemma bbo_untorn: "bbo_wal.untorn = untorn_op bbo_ok"
  by (rule ext) (simp add: untorn_op_def bbo_wal.untorn.simps split: wal_op.split)

text \<open>C32. Every trade and every quote that \<open>write_batch\<close> acknowledged and no \<open>commit\<close>
  cleared is recovered, in order, when the log is reopened after a crash, as long as no write was
  torn; this holds also when some appends failed to sync.\<close>

theorem acknowledged_rows_recovered:
  assumes "list_all (untorn_op tick_ok) ops" and "list_all (untorn_op bbo_ok) qops"
    and "w = run (wal_step tick_to_line) (wal_open tick_from_line mx []) ops"
    and "q = run (wal_step bbo_to_line) (wal_open bbo_from_line mx []) qops"
  shows "subseq (w_pending w) (w_pending (wal_open tick_from_line mx (w_file w))) \<and>
    subseq (w_pending q) (w_pending (wal_open bbo_from_line mx (w_file q)))"
  using tick_wal.recovers_acknowledged [OF _ assms(3)] bbo_wal.recovers_acknowledged [OF _ assms(4)] assms(1,2)
  by (simp add: tick_untorn bbo_untorn)

lemma demo_prices: "exact_price (80001 / 4)" "exact_price 20000"
  by (rule exact_priceI [of _ 20000250000]; simp) (rule exact_priceI [of _ 20000000000]; simp)

lemma demo_trade_ok: "tick_ok (demo_trade 2)" "tick_ok (demo_trade 3)"
  using demo_prices by (simp_all add: tick_ok_def demo_trade_def int64_def plain_def)

lemma demo_quotes_ok: "bbo_ok demo_bid" "bbo_ok demo_ask"
  using demo_prices
  by (simp_all add: bbo_ok_def demo_bid_def demo_ask_def side_ok_def int64_def int32_def plain_def)

theorem acknowledged_rows_recovered_witness:
  "subseq [demo_trade 3] (w_pending (wal_open tick_from_line 1000 (w_file (run (wal_step tick_to_line)
      (wal_open tick_from_line 1000 []) [WriteBatch SyncFailed [demo_trade 2], WriteBatch Written [demo_trade 3]]))))"
proof -
  let ?ops = "[WriteBatch SyncFailed [demo_trade 2], WriteBatch Written [demo_trade 3]]"
  let ?w = "run (wal_step tick_to_line) (wal_open tick_from_line 1000 []) ?ops"
  have "w_pending ?w = [demo_trade 3]" by (simp add: wal_open_def wal_write_batch_def replay_def Let_def map_filter_simps)
  then show ?thesis
    using acknowledged_rows_recovered [of ?ops "[WriteBatch Written [demo_bid]]" ?w 1000, OF _ _ refl refl]
    by (simp add: untorn_op_def demo_trade_ok demo_quotes_ok)
qed

definition depth_plain :: "depth_row \<Rightarrow> bool" where
  "depth_plain r = (plain (dp_order_id r) \<and> plain (dp_symbol r) \<and> plain (dp_exchange r))"

lemma depth_fields: "depth_plain r \<Longrightarrow> length (split_csv (depth_to_line r)) = 11"
  unfolding depth_to_line_def by (subst split_csv_joined) (simp_all add: depth_plain_def)

lemma depth_line_plain: "depth_plain r \<Longrightarrow> newline \<notin> set (depth_to_line r) \<and> CHR 0x0D \<notin> set (depth_to_line r)"
  unfolding depth_to_line_def by (rule plain_joined) (simp add: depth_plain_def)

lemma depth_line_nonempty: "depth_to_line r \<noteq> []"
  by (simp add: depth_to_line_def)

lemma depth_rejected: "depth_plain r \<Longrightarrow> depth_from_line (depth_to_line r) = None"
  by (simp add: depth_from_line_def depth_fields Let_def)

lemma depth_strip: "depth_plain r \<Longrightarrow> strip_eol (depth_to_line r) = depth_to_line r"
  by (rule strip_eol_clean) (metis depth_line_nonempty depth_line_plain last_in_set)+

lemma depth_replay_nothing:
  "list_all depth_plain rows \<Longrightarrow> replay depth_from_line (wal_block depth_to_line rows) = []"
  by (induction rows) (simp_all add: replay_def lines_of_line depth_line_plain depth_strip depth_line_nonempty
      depth_rejected map_filter_simps)

text \<open>A depth row's line has eleven fields and its reader asks for twelve, so no line of the
  depth log is accepted: a batch of depth rows that was written and synced is in the file and
  pending in memory, and a restart recovers none of it.\<close>

theorem depth_log_recovers_nothing:
  assumes "list_all depth_plain rows" and "rows \<noteq> []"
    and "w = snd (wal_write_batch depth_to_line Written rows (wal_open depth_from_line mx []))"
  shows "w_pending w = rows \<and> w_file w \<noteq> [] \<and> w_pending (wal_open depth_from_line mx (w_file w)) = []"
  using assms depth_replay_nothing [OF assms(1)]
  by (cases rows) (auto simp: wal_write_batch_def wal_open_def Let_def replay_def [of _ "[]"] map_filter_simps)

theorem depth_log_recovers_nothing_witness:
  "\<exists>rows. rows \<noteq> [] \<and> (let w = snd (wal_write_batch depth_to_line Written rows (wal_open depth_from_line 9 []))
     in w_pending w = rows \<and> w_pending (wal_open depth_from_line 9 (w_file w)) = [])"
proof -
  let ?r = "\<lparr>dp_ts = 1790000000000000, dp_source_ns = 5, dp_seq = 1, dp_update = 1, dp_trans = 1, dp_price = 20000,
    dp_prev = None, dp_size = 4, dp_order_id = ''42'', dp_symbol = ''NQ'', dp_exchange = ''CME''\<rparr>"
  have "list_all depth_plain [?r]" by (simp add: depth_plain_def plain_def)
  from depth_log_recovers_nothing [OF this _ refl, of 9] show ?thesis
    by (intro exI [of _ "[?r]"]) (simp add: Let_def)
qed

subsection \<open>Collector\<close>

text \<open>C29. For every interleaving of the network thread and the writer, and every failure of the
  logs and of the database, the rows recovered at start and the rows accepted since are, counted
  exactly once, in a buffer, in the queue, in the writer's hands, pending in a log, written and
  cleared, or in a batch a full queue refused; what counts as written was in a statement that
  succeeded.  The queue holds at most 8192 batches, and three more per shutdown.\<close>

theorem collector_conserves:
  "all_ticks (run co_step (collector_new cfg st) es) =
     mset (replay tick_from_line (st_ticks_file st)) + mset (concat (map took_tick es)) \<and>
   all_bbos (run co_step (collector_new cfg st) es) =
     mset (replay bbo_from_line (st_bbo_file st)) + mset (concat (map took_bbo es)) \<and>
   all_depths (run co_step (collector_new cfg st) es) =
     mset (replay depth_from_line (st_depth_file st)) + mset (concat (map took_depth es)) \<and>
   done_written (co_ticks (run co_step (collector_new cfg st) es)) \<and>
   done_written (co_bbo (run co_step (collector_new cfg st) es)) \<and>
   done_written (co_depth (run co_step (collector_new cfg st) es)) \<and>
   length (co_queue (run co_step (collector_new cfg st) es)) \<le> writer_queue_max + 3 * shutdowns es"
  using keeps_run [of "collector_new cfg st" es] orderly_run [OF collector_new_orderly [of cfg st], of es]
  by (simp add: keeps_rows_def collector_new_rows orderly_def)

text \<open>C30. When the collector has shut down in order (no batch was ever refused, the writer has left
  its loop, and nothing is left in the buffers or pending in a log), the rows the database took
  are exactly the rows recovered at start and the rows accepted.\<close>

definition emptied :: "'r stream \<Rightarrow> bool" where
  "emptied s = (s_buf s = [] \<and> w_pending (s_wal s) = [])"


definition demo_shift :: "co_event list" where
  "demo_shift = [Tick (demo_moment 1001) (Fin (80001 / 4)) (demo_trade 2), Tick (demo_moment 1001) NaN (demo_trade 4),
     Take, StopWriter, Finish (demo_moment 1001) demo_writes]"

lemma demo_valid: "tick_valid (1790000000000000) (Fin (80001 / 4)) (demo_trade 2)"
  "tick_valid (1790000000000000) (Fin (80001 / 4)) (demo_trade 3)"
  "\<not> tick_valid (1790000000000000) NaN (demo_trade 4)"
  by (simp_all add: tick_valid_def tick_fault_def demo_trade_def demo_moment_def price_value_def printable_def
      tick_max_price_def tick_max_size_def tick_max_drift_def is_fin_def)

lemma demo_prices_kept: "(demo_trade n)\<lparr>tk_price := price_value (Fin (80001 / 4))\<rparr> = demo_trade n"
  by (simp add: demo_trade_def price_value_def)

lemma write_batch_all_well:
  assumes "wr_wal w = Written" and "db (w_pending (s_wal s) @ b) = None" and "wr_truncated w" and "b \<noteq> []"
  shows "\<exists>evs t. write_batch f l e w db b s = (evs, t) \<and> s_buf t = s_buf s \<and> w_pending (s_wal t) = [] \<and>
    s_last t = s_last s \<and> w_max (s_wal t) = w_max (s_wal s)"
  using assms by (simp add: write_batch_def wal_write_batch_def wal_commit_def Let_def)

lemma empty_replay [simp]: "replay f [] = []"
  by (simp add: replay_def map_filter_simps)

lemma demo_fresh:
  "co_ticks demo_collector = new_stream ''ticks.wal'' 1000 (wal_open tick_from_line default_max_bytes [])"
  "co_bbo demo_collector = new_stream ''ticks.wal.bbo'' 1000 (wal_open bbo_from_line default_max_bytes [])"
  "co_depth demo_collector = new_stream ''ticks.wal.depth'' 1000 (wal_open depth_from_line default_max_bytes [])"
  "co_queue demo_collector = []" "co_hand demo_collector = None" "co_stop demo_collector = False"
  "co_dropped demo_collector = 0"
  by (simp_all add: demo_collector_def collector_new_def recover_def wal_dirty_def new_stream_def wal_open_def
      from_env_def load_dotenv_def env_get_def demo_start_def demo_moment_def Let_def)

lemma demo_taken:
  fixes d defines "d \<equiv> run co_step demo_collector (take 4 demo_shift)"
  shows "co_hand d = Some (TickJob [demo_trade 2])" "co_queue d = []" "co_stop d" "co_dropped d = 0"
    "s_buf (co_ticks d) = []" "w_pending (s_wal (co_ticks d)) = []" "emptied (co_bbo d)" "emptied (co_depth d)"
  by (simp_all add: d_def demo_shift_def co_on_tick_def demo_valid demo_prices_kept buffer_row_def hand_ticks_def
      enqueue_job_def writer_take_def stop_writer_def demo_fresh new_stream_def flush_every_sec_def
      writer_queue_max_def demo_moment_def emptied_def wal_open_def Let_def)

lemma demo_shift_end:
  fixes c defines "c \<equiv> run co_step demo_collector demo_shift"
  shows "co_dropped c = 0" "writer_exited c" "emptied (co_ticks c)" "emptied (co_bbo c)" "emptied (co_depth c)"
proof -
  define d where "d = run co_step demo_collector (take 4 demo_shift)"
  have c: "c = writer_finish (demo_moment 1001) demo_writes d"
    by (simp add: c_def d_def demo_shift_def)
  obtain evs t where wb: "write_batch tick_to_line ''tick'' ''ticks.write_error'' demo_writes (wr_ticks demo_writes)
      [demo_trade 2] (co_ticks d) = (evs, t)"
    and t: "s_buf t = s_buf (co_ticks d)" "w_pending (s_wal t) = []"
    using write_batch_all_well [of demo_writes "wr_ticks demo_writes" "co_ticks d" "[demo_trade 2]"
        tick_to_line "''tick''" "''ticks.write_error''"]
    by (auto simp: demo_writes_def)
  note facts = demo_taken [folded d_def]
  show "co_dropped c = 0" "writer_exited c" "emptied (co_ticks c)" "emptied (co_bbo c)" "emptied (co_depth c)"
    using facts wb t
    by (simp_all add: c writer_finish_def run_job_def write_tick_batch_def co_frame emptied_def writer_exited_def)
qed


subsection \<open>Quotes of the same instant\<close>

text \<open>What PostgreSQL documents for a batch whose conflict action is an update: it refuses to
  touch a row twice in one statement.\<close>

definition refuses_repeats :: "co_event \<Rightarrow> bool" where
  "refuses_repeats e = (case e of Finish m w \<Rightarrow> \<forall>rows. \<not> distinct (map bbo_key rows) \<longrightarrow> wr_bbo w rows \<noteq> None
     | _ \<Rightarrow> True)"

definition repeated :: "collector \<Rightarrow> bool" where
  "repeated c = (\<not> distinct (map bbo_key (w_pending (s_wal (co_bbo c)))))"

text \<open>The quotes of a later state come after those of an earlier one, none written in between.\<close>

definition stuck_behind :: "bbo_row stream \<Rightarrow> bbo_row stream \<Rightarrow> bool" where
  "stuck_behind s t = (prefix (w_pending (s_wal s)) (w_pending (s_wal t)) \<and> s_written t = s_written s \<and> s_done t = s_done s)"

lemma stuck_batch:
  assumes "write_batch f l e w db b s = (evs, t)" and "\<forall>rows. \<not> distinct (map bbo_key rows) \<longrightarrow> db rows \<noteq> None"
    and "\<not> distinct (map bbo_key (w_pending (s_wal s)))"
  shows "stuck_behind s t"
proof -
  obtain x where "db (w_pending (s_wal s) @ b) = Some x" "\<exists>y. db (w_pending (s_wal s)) = Some y"
    using assms(2,3) by fastforce
  with assms(1) show ?thesis
    by (auto simp: stuck_behind_def write_batch_def wal_write_batch_def Let_def split: if_splits wal_io.splits)
qed

lemma stuck_buffer: "buffer_row n m row s = (b, t) \<Longrightarrow> stuck_behind s t"
  by (drule buffer_row_frame) (simp add: stuck_behind_def)

lemma stuck_refl [simp]: "stuck_behind s s"
  by (simp add: stuck_behind_def)

lemma hand_bbo_stuck: "stuck_behind s (co_bbo c) \<Longrightarrow> stuck_behind s (co_bbo (hand_bbo m b c))"
  by (simp add: hand_bbo_def enqueue_job_def co_frame stuck_behind_def)

lemma hand_others: "co_bbo (hand_ticks m b c) = co_bbo c" "co_bbo (hand_depth m b' c) = co_bbo c"
  by (simp_all add: hand_ticks_def hand_depth_def enqueue_job_def co_frame)

lemma stuck_step:
  assumes "refuses_repeats e" and "repeated c"
  shows "stuck_behind (co_bbo c) (co_bbo (co_step c e))"
proof (cases e)
  case (Bbo m row)
  then show ?thesis
    by (auto simp: co_on_bbo_def split: prod.split option.split intro!: hand_bbo_stuck dest: stuck_buffer)
next
  case (Finish m w)
  with assms show ?thesis
    by (auto simp: writer_finish_def run_job_def write_tick_batch_def write_bbo_batch_def write_depth_batch_def co_frame
        refuses_repeats_def repeated_def split: option.split batch_job.split prod.split intro: stuck_batch)
qed (simp_all add: co_on_tick_def co_on_depth_def hand_others Let_def writer_take_def enqueue_remaining_def enqueue_job_def
      stop_writer_def stuck_behind_def split: prod.split option.split list.split)

lemma stuck_repeated: "stuck_behind (co_bbo c) (co_bbo d) \<Longrightarrow> repeated c \<Longrightarrow> repeated d"
  by (auto simp: stuck_behind_def repeated_def prefix_def)

lemma stuck_trans: "stuck_behind s t \<Longrightarrow> stuck_behind t u \<Longrightarrow> stuck_behind s u"
  using prefix_order.trans by (auto simp: stuck_behind_def)

text \<open>C31. Once two quotes of one symbol and instant are in the quote log together, no quote reaches
  the database any more: whatever the two threads do, every later batch is written behind the same
  rows in one statement, and the statement is refused.\<close>

theorem repeated_quote_blocks_stream:
  assumes "list_all refuses_repeats es" and "repeated c"
  shows "stuck_behind (co_bbo c) (co_bbo (run co_step c es)) \<and> repeated (run co_step c es)"
  using assms
proof (induction es arbitrary: c)
  case (Cons e es)
  then have "stuck_behind (co_bbo c) (co_bbo (co_step c e))" by (simp add: stuck_step)
  with Cons stuck_repeated [OF this] show ?case by (auto intro: stuck_trans)
qed simp

text \<open>Two one-sided updates of one instant in one batch, the writer's round on it, and a second one.\<close>

definition demo_instant :: "co_event list" where
  "demo_instant = [Bbo (demo_moment 1000) demo_bid, Bbo (demo_moment 1001) demo_ask, Take,
     Finish (demo_moment 1001) demo_writes]"

lemma demo_instant_taken:
  fixes d defines "d \<equiv> run co_step demo_collector (take 3 demo_instant)"
  shows "co_hand d = Some (BboJob [demo_bid, demo_ask])" "w_pending (s_wal (co_bbo d)) = []" "s_written (co_bbo d) = []"
  by (simp_all add: d_def demo_instant_def co_on_bbo_def buffer_row_def hand_bbo_def demo_bid_def demo_ask_def
      enqueue_job_def writer_take_def demo_fresh new_stream_def flush_every_sec_def bbo_flush_every_n_def
      writer_queue_max_def demo_moment_def wal_open_def Let_def)

lemma demo_instant_end:
  fixes c defines "c \<equiv> run co_step demo_collector demo_instant"
  shows "repeated c" "s_written (co_bbo c) = []"
proof -
  define d where "d = run co_step demo_collector (take 3 demo_instant)"
  have c: "c = writer_finish (demo_moment 1001) demo_writes d"
    by (simp add: c_def d_def demo_instant_def)
  have same: "bbo_key demo_bid = bbo_key demo_ask" by (simp add: bbo_key_def demo_bid_def demo_ask_def)
  show "repeated c" "s_written (co_bbo c) = []"
    using demo_instant_taken [folded d_def] same
    by (simp_all add: c writer_finish_def run_job_def write_bbo_batch_def co_frame write_batch_def wal_write_batch_def
        demo_writes_def repeated_def Let_def split: prod.split)
qed

theorem repeated_quote_blocks_stream_witness:
  "s_written (co_bbo (run co_step (run co_step demo_collector demo_instant)
     [Bbo (demo_moment 1002) demo_ask, Take, Finish (demo_moment 1002) demo_writes])) = []"
proof -
  let ?more = "[Bbo (demo_moment 1002) demo_ask, Take, Finish (demo_moment 1002) demo_writes]"
  have "list_all refuses_repeats ?more" by (simp add: refuses_repeats_def demo_writes_def)
  from repeated_quote_blocks_stream [OF this demo_instant_end(1)] demo_instant_end(2) show ?thesis
    by (simp add: stuck_behind_def)
qed

subsection \<open>Statements\<close>

lemma tick_dedup_nth: "i < length rows \<Longrightarrow>
    tick_dedup rows ! i = (tick_key (rows ! i), count_list (map tick_key (take i rows)) (tick_key (rows ! i)))"
  by (simp add: tick_dedup_def tick_rank)

lemma count_list_less:
  assumes "i < j" and "j \<le> length xs"
  shows "count_list (take i xs) (xs ! i) < count_list (take j xs) (xs ! i)"
proof -
  obtain k where k: "j = Suc i + k" using assms(1) by (metis less_natE add_Suc)
  have "take j xs = take i xs @ xs ! i # take k (drop (Suc i) xs)"
    using take_add [of "Suc i" k xs] take_Suc_conv_app_nth [of i xs] assms unfolding k by simp
  then show ?thesis by simp
qed

lemma distinct_tick_dedup: "distinct (tick_dedup rows)"
proof -
  have "tick_dedup rows ! i \<noteq> tick_dedup rows ! j" if "i < j" "j < length rows" for i j
    using that count_list_less [of i j "map tick_key rows"]
    by (auto simp: tick_dedup_nth take_map)
  moreover have "length (tick_dedup rows) = length rows" by (simp add: tick_dedup_def)
  ultimately show ?thesis by (auto simp: distinct_conv_nth) (metis nat_neq_iff)
qed

lemma tick_dedup_append: "\<exists>us. tick_dedup (rows @ later) = tick_dedup rows @ us"
  using seq_ranks_append [of "[]" "map tick_key rows" "map tick_key later"]
  by (auto simp: tick_dedup_def tick_seqs_def)

lemma rank_zero: "k \<in> set (map tick_key rows) \<Longrightarrow> (k, 0) \<in> set (tick_dedup rows)"
proof (induction rows rule: rev_induct)
  case (snoc x rows)
  obtain us where us: "tick_dedup (rows @ [x]) = tick_dedup rows @ us" using tick_dedup_append by blast
  show ?case
  proof (cases "k \<in> set (map tick_key rows)")
    case True
    with snoc.IH us show ?thesis by simp
  next
    case False
    with snoc.prems have "tick_dedup (rows @ [x]) ! length rows = (k, 0)"
      using tick_dedup_nth [of "length rows" "rows @ [x]"] by (auto simp: count_list_0_iff)
    moreover have "length rows < length (tick_dedup (rows @ [x]))" by (simp add: tick_dedup_def)
    ultimately show ?thesis by (metis nth_mem)
  qed
qed simp

text \<open>Within one statement no two trades share the columns of the conflict target, however many
  are identical, and a statement that repeats the rows of an earlier one (with more behind them)
  gives them the same columns, so a retry inserts nothing twice.  Across statements the rank starts
  again: a trade identical to one of an earlier batch has the same columns and is not inserted.\<close>

theorem tick_dedup_keys:
  assumes "set (map tick_key other) \<inter> set (map tick_key rows) \<noteq> {}"
  shows "distinct (tick_dedup rows) \<and> map fst (tick_dedup rows) = map tick_key rows \<and>
    (\<exists>us. tick_dedup (rows @ later) = tick_dedup rows @ us) \<and>
    set (tick_dedup other) \<inter> set (tick_dedup rows) \<noteq> {}"
proof -
  from assms obtain k where "k \<in> set (map tick_key other)" "k \<in> set (map tick_key rows)" by blast
  then have "(k, 0) \<in> set (tick_dedup other) \<inter> set (tick_dedup rows)" by (simp only: rank_zero IntI)
  then show ?thesis using distinct_tick_dedup tick_dedup_append by (auto simp: tick_dedup_def)
qed

theorem tick_dedup_keys_witness:
  "set (tick_dedup [demo_trade 2]) \<inter> set (tick_dedup [demo_trade 2, demo_trade 2]) \<noteq> {}"
  using tick_dedup_keys [of "[demo_trade 2]" "[demo_trade 2, demo_trade 2]"] by simp

subsection \<open>Audit log and connection string\<close>

text \<open>In every interleaving of logging and flushing, the events stored, under way and buffered are
  in the order they were logged, each at most once, and at most 10000 are buffered; until 10000
  events have been logged none is lost, whatever the connection and the statements do.\<close>

theorem audit_keeps_order:
  assumes "audit_step\<^sup>*\<^sup>* (audit_start conn) s"
  shows "subseq (ar_stored s @ ar_flight s @ au_buf (ar_audit s)) (ar_logged s) \<and>
    length (au_buf (ar_audit s)) \<le> 10000 \<and>
    (length (ar_logged s) \<le> 10000 \<longrightarrow> ar_stored s @ ar_flight s @ au_buf (ar_audit s) = ar_logged s)"
  using audit_reachable [OF assms] by (simp add: in_order_def nothing_lost_def max_buf_def)

theorem audit_keeps_order_witness:
  "\<exists>s ev. ar_logged s = [ev] \<and> ar_stored s = [] \<and> au_buf (ar_audit s) = [ev] \<and> audit_step\<^sup>*\<^sup>* (audit_start True) s"
proof -
  let ?ev = "audit_event 1790000000 Info ''collector.start'' []"
  let ?a = "audit_start True"
  let ?b = "?a\<lparr>ar_audit := audit_log ?ev (ar_audit ?a), ar_logged := ar_logged ?a @ [?ev]\<rparr>"
  have st: "audit_step ?a ?b" by (rule audit_step.logs)
  from audit_keeps_order [OF r_into_rtranclp [of audit_step, OF st]]
  have "ar_stored ?b @ ar_flight ?b @ au_buf (ar_audit ?b) = ar_logged ?b" by (simp add: audit_start_def)
  with st show ?thesis
    by (intro exI [of _ ?b] exI [of _ ?ev]) (auto simp: audit_start_def)
qed

text \<open>The connection text that the engine reports holds no character of the password: from any
  configuration whose other values do not themselves contain the key, the text built for libpq comes
  out of \<open>redact_pg_password\<close> with exactly the quoted password replaced, whatever quotes, blanks
  and backslashes it contains.\<close>

theorem password_never_shown:
  assumes "no_key (ec_pg_host c)" "no_key (ec_pg_port c)" "no_key (ec_pg_db c)" "no_key (ec_pg_user c)"
  shows "redact_pg_password (pg_connstr c) = connstr_head c @ '' password=***'' @ connstr_tail"
  by (rule redact_connstr [OF assms])

theorem password_never_shown_witness:
  "redact_pg_password (pg_connstr ((from_env None Map.empty)\<lparr>ec_pg_password := [CHR 0x27, CHR '' '', CHR 0x5C]\<rparr>)) =
     connstr_head (from_env None Map.empty) @ '' password=***'' @ connstr_tail"
proof -
  let ?c = "(from_env None Map.empty)\<lparr>ec_pg_password := [CHR 0x27, CHR '' '', CHR 0x5C]\<rparr>"
  have "no_key (ec_pg_host ?c)" "no_key (ec_pg_port ?c)" "no_key (ec_pg_db ?c)" "no_key (ec_pg_user ?c)"
    by (simp_all add: from_env_def load_dotenv_def env_get_def no_key_def Let_def sublist_Cons_right)
  from password_never_shown [OF this] show ?thesis by (simp add: connstr_head_def)
qed

end
