(* ===== verification/Mtf_Config.thy ===== *)
theory Mtf_Config
  imports Config Text_Parse
begin

section \<open>Configuration of the multi-timeframe scalper\<close>

text \<open>
  \<open>MtfScalperConfig\<close> of \<open>src/src/execution/mtf_scalper_config.hpp\<close>: every field with its
  default, the JSON reader on the text of the file, and its validation.  The JSON helpers of that
  header are copies of those of \<open>orb_config.hpp\<close>, modelled in \<open>Text_Parse\<close>.
\<close>

record mtf_config =
  mc_auto_mode_flag_fix :: bool
  mc_allow_longs :: bool
  mc_allow_shorts :: bool
  mc_allow_flips :: bool
  mc_date_start_epoch :: int
  mc_date_end_epoch :: int
  mc_ema_fast_len :: int
  mc_ema_slow_len :: int
  mc_require_price_beyond_fast :: bool
  mc_setup_mode :: string
  mc_use_macd :: bool
  mc_macd_fast :: int
  mc_macd_slow :: int
  mc_macd_signal :: int
  mc_macd_hist_expanding :: bool
  mc_rsi_len :: int
  mc_rsi_mid :: real
  mc_stoch_k_len :: int
  mc_stoch_k_smooth :: int
  mc_stoch_d_len :: int
  mc_stoch_ob :: real
  mc_stoch_os :: real
  mc_use_vwap :: bool
  mc_vwap_anchor :: string
  mc_use_mtf :: bool
  mc_htf_mode :: string
  mc_htf_mult :: int
  mc_htf_manual_min :: int
  mc_htf_fast_len :: int
  mc_htf_slow_len :: int
  mc_htf_need_price :: bool
  mc_htf_slope_req :: bool
  mc_use_htf2 :: bool
  mc_trigger_mode :: string
  mc_pole_min_atr :: real
  mc_flag_len :: int
  mc_pole_recency_bars :: int
  mc_flag_max_rng_atr :: real
  mc_max_retr_pct :: real
  mc_flag_drift_atr :: real
  mc_adaptive_pole :: bool
  mc_pole_len_min :: int
  mc_pole_len_max :: int
  mc_pole_len_fixed :: int
  mc_retest_tol_atr :: real
  mc_retest_max_bars :: int
  mc_retest_inval_atr :: real
  mc_retest_conf_close :: bool
  mc_retest_strict_trend :: bool
  mc_use_onset :: bool
  mc_onset_window_bars :: int
  mc_onset_need_macd :: bool
  mc_onset_max_ext_atr :: real
  mc_onset_swing_len :: int
  mc_onset_neutral_htf_ok :: bool
  mc_use_fvg :: bool
  mc_fvg_min_atr :: real
  mc_fvg_max_bars :: int
  mc_fvg_max_keep :: int
  mc_fvg_mid_invalidate :: bool
  mc_use_fvg_entry :: bool
  mc_use_fvg_filter :: bool
  mc_fvg_struct_mode :: bool
  mc_fvg_struct_tf_min :: int
  mc_use_levels :: bool
  mc_lv_pd :: bool
  mc_lv_pw :: bool
  mc_lv_sess :: bool
  mc_lv_pdc :: bool
  mc_lv_keep :: int
  mc_sweep_pen_atr :: real
  mc_use_sweep_entry :: bool
  mc_use_lv_filter :: bool
  mc_lv_near_atr :: real
  mc_use_smt_entry :: bool
  mc_smt_pivot_len :: int
  mc_reference_symbol :: string
  mc_im_corr_len :: int
  mc_im_expected_corr :: string
  mc_im_min_corr :: real
  mc_use_im_filter :: bool
  mc_use_conf_tf :: bool
  mc_conf_tf_min :: int
  mc_conf_need_bull :: bool
  mc_conf_refine :: string
  mc_conf_max_wait :: int
  mc_atr_len :: int
  mc_exit_sizing :: string
  mc_sl_atr_mult :: real
  mc_rr_ratio :: real
  mc_sl_points :: real
  mc_tp_points :: real
  mc_use_osc_exit :: bool
  mc_use_time_stop :: bool
  mc_max_hold_bars :: int
  mc_use_breakeven :: bool
  mc_be_trigger_pct_tp :: real
  mc_use_trailing :: bool
  mc_trail_atr_mult :: real
  mc_trail_start_r :: real
  mc_use_trend_exit :: bool
  mc_use_htf_exit :: bool
  mc_tp_target_mode :: string
  mc_tp_buffer_atr :: real
  mc_tp_min_dist_atr :: real
  mc_tp_fvg :: bool
  mc_tp_fvg_ce :: bool
  mc_use_atr_floor :: bool
  mc_min_atr_ticks :: int
  mc_atr_rank_min :: real
  mc_rank_lookback :: int
  mc_use_regime :: bool
  mc_regime_dir_only :: bool
  mc_regime_mode :: string
  mc_regime_components_required :: int
  mc_regime_bars :: int
  mc_reg_adx_on :: bool
  mc_adx_len :: int
  mc_adx_min :: real
  mc_adx_rank_min :: real
  mc_adx_rising_pass :: bool
  mc_reg_atr_on :: bool
  mc_atr_avg_len :: int
  mc_atr_pct_of_avg :: real
  mc_atr_rank_min_regime :: real
  mc_atr_expansion_pass :: bool
  mc_reg_spread_on :: bool
  mc_ema_spread_min_atr :: real
  mc_use_session :: bool
  mc_session_window :: string
  mc_session_tz :: string
  mc_flat_at_session_end :: bool
  mc_day_rollover_hour_et :: int
  mc_use_max_trades :: bool
  mc_max_daily_trades :: int
  mc_use_daily_loss :: bool
  mc_daily_loss_pct :: real
  mc_daily_loss_closed_only :: bool
  mc_use_cooldown :: bool
  mc_cooldown_after_losses :: int
  mc_cooldown_bars :: int
  mc_pb_valid_bars :: int
  mc_convert_to_market :: bool
  mc_convert_bars :: int
  mc_risk_pct :: real
  mc_min_qty :: int
  mc_qty_max :: int
  mc_point_value :: real
  mc_tick_size :: real
  mc_starting_balance :: real
  mc_warmup_bars :: int

definition mtf_defaults :: mtf_config where
  "mtf_defaults =
    \<lparr>mc_auto_mode_flag_fix = True, mc_allow_longs = True, mc_allow_shorts = True, mc_allow_flips = True,
     mc_date_start_epoch = 0, mc_date_end_epoch = 0, mc_ema_fast_len = 9, mc_ema_slow_len = 21,
     mc_require_price_beyond_fast = True, mc_setup_mode = ''relaxed'', mc_use_macd = True, mc_macd_fast = 12,
     mc_macd_slow = 26, mc_macd_signal = 9, mc_macd_hist_expanding = True, mc_rsi_len = 9, mc_rsi_mid = 50,
     mc_stoch_k_len = 8, mc_stoch_k_smooth = 3, mc_stoch_d_len = 3, mc_stoch_ob = 80, mc_stoch_os = 20, mc_use_vwap
     = False, mc_vwap_anchor = ''globex'', mc_use_mtf = True, mc_htf_mode = ''auto'', mc_htf_mult = 12,
     mc_htf_manual_min = 60, mc_htf_fast_len = 21, mc_htf_slow_len = 50, mc_htf_need_price = False,
     mc_htf_slope_req = False, mc_use_htf2 = False, mc_trigger_mode = ''auto'', mc_pole_min_atr = 4 / 5,
     mc_flag_len = 5, mc_pole_recency_bars = 7, mc_flag_max_rng_atr = 2, mc_max_retr_pct = 75, mc_flag_drift_atr =
     3 / 10, mc_adaptive_pole = True, mc_pole_len_min = 6, mc_pole_len_max = 20, mc_pole_len_fixed = 12,
     mc_retest_tol_atr = 1 / 2, mc_retest_max_bars = 12, mc_retest_inval_atr = 1 / 2, mc_retest_conf_close = False,
     mc_retest_strict_trend = False, mc_use_onset = True, mc_onset_window_bars = 10, mc_onset_need_macd = True,
     mc_onset_max_ext_atr = 1 / 4, mc_onset_swing_len = 4, mc_onset_neutral_htf_ok = True, mc_use_fvg = True,
     mc_fvg_min_atr = 1 / 4, mc_fvg_max_bars = 30, mc_fvg_max_keep = 8, mc_fvg_mid_invalidate = False,
     mc_use_fvg_entry = True, mc_use_fvg_filter = False, mc_fvg_struct_mode = False, mc_fvg_struct_tf_min = 5,
     mc_use_levels = True, mc_lv_pd = True, mc_lv_pw = True, mc_lv_sess = True, mc_lv_pdc = True, mc_lv_keep = 2,
     mc_sweep_pen_atr = 0, mc_use_sweep_entry = True, mc_use_lv_filter = False, mc_lv_near_atr = 1 / 2,
     mc_use_smt_entry = False, mc_smt_pivot_len = 5, mc_reference_symbol = [], mc_im_corr_len = 50,
     mc_im_expected_corr = ''inverse'', mc_im_min_corr = 3 / 10, mc_use_im_filter = False, mc_use_conf_tf = False,
     mc_conf_tf_min = 5, mc_conf_need_bull = True, mc_conf_refine = ''level_fvg_ce'', mc_conf_max_wait = 6,
     mc_atr_len = 14, mc_exit_sizing = ''atr'', mc_sl_atr_mult = 6 / 5, mc_rr_ratio = 3 / 2, mc_sl_points = 15,
     mc_tp_points = 35, mc_use_osc_exit = True, mc_use_time_stop = True, mc_max_hold_bars = 20, mc_use_breakeven =
     True, mc_be_trigger_pct_tp = 1 / 2, mc_use_trailing = False, mc_trail_atr_mult = 1, mc_trail_start_r = 1,
     mc_use_trend_exit = True, mc_use_htf_exit = False, mc_tp_target_mode = ''fixed_rr'', mc_tp_buffer_atr = 1 /
     10, mc_tp_min_dist_atr = 1 / 2, mc_tp_fvg = True, mc_tp_fvg_ce = True, mc_use_atr_floor = True,
     mc_min_atr_ticks = 10, mc_atr_rank_min = 10, mc_rank_lookback = 200, mc_use_regime = True, mc_regime_dir_only
     = True, mc_regime_mode = ''relative'', mc_regime_components_required = 2, mc_regime_bars = 1, mc_reg_adx_on =
     True, mc_adx_len = 14, mc_adx_min = 20, mc_adx_rank_min = 30, mc_adx_rising_pass = True, mc_reg_atr_on = True,
     mc_atr_avg_len = 50, mc_atr_pct_of_avg = 80, mc_atr_rank_min_regime = 20, mc_atr_expansion_pass = True,
     mc_reg_spread_on = True, mc_ema_spread_min_atr = 1 / 4, mc_use_session = True, mc_session_window =
     ''0900-1200'', mc_session_tz = ''America/New_York'', mc_flat_at_session_end = True, mc_day_rollover_hour_et =
     18, mc_use_max_trades = True, mc_max_daily_trades = 20, mc_use_daily_loss = True, mc_daily_loss_pct = 2,
     mc_daily_loss_closed_only = True, mc_use_cooldown = True, mc_cooldown_after_losses = 2, mc_cooldown_bars = 5,
     mc_pb_valid_bars = 5, mc_convert_to_market = True, mc_convert_bars = 2, mc_risk_pct = 1, mc_min_qty = 1,
     mc_qty_max = 0, mc_point_value = 2, mc_tick_size = 1 / 4, mc_starting_balance = 25000, mc_warmup_bars = 1500\<rparr>"

text \<open>\<open>static_cast<int64_t>\<close> of a double truncates.\<close>

definition c_trunc :: "real \<Rightarrow> int" where
  "c_trunc x = (if 0 \<le> x then \<lfloor>x\<rfloor> else \<lceil>x\<rceil>)"

definition htf_minutes :: "mtf_config \<Rightarrow> int" where
  "htf_minutes c = (if mc_htf_mode c = ''manual'' then mc_htf_manual_min c else mc_htf_mult c)"

definition htf2_minutes :: "mtf_config \<Rightarrow> int" where
  "htf2_minutes c = htf_minutes c * mc_htf_mult c"

datatype mtf_error = KeyNotPositive string | KeyNegative string | NoConfigFile

definition mtf_validate :: "mtf_config \<Rightarrow> mtf_error option" where
  "mtf_validate c =
     (if mc_point_value c \<le> 0 then Some (KeyNotPositive ''point_value'')
      else if mc_tick_size c \<le> 0 then Some (KeyNotPositive ''tick_size'')
      else if mc_min_qty c \<le> 0 then Some (KeyNotPositive ''min_qty'')
      else if mc_atr_len c \<le> 0 then Some (KeyNotPositive ''atr_len'')
      else if mc_ema_fast_len c \<le> 0 then Some (KeyNotPositive ''ema_fast_len'')
      else if mc_ema_slow_len c \<le> 0 then Some (KeyNotPositive ''ema_slow_len'')
      else if mc_htf_mult c \<le> 0 then Some (KeyNotPositive ''htf_mult'')
      else if mc_warmup_bars c < 0 then Some (KeyNegative ''warmup_bars'')
      else None)"

definition mtf_read_json :: "string \<Rightarrow> mtf_config" where
  "mtf_read_json t =
    \<lparr>mc_auto_mode_flag_fix = json_bool t ''auto_mode_flag_fix'' True, mc_allow_longs = json_bool t ''allow_longs''
     True, mc_allow_shorts = json_bool t ''allow_shorts'' True, mc_allow_flips = json_bool t ''allow_flips'' True,
     mc_date_start_epoch = c_trunc (json_dbl t ''date_start_epoch'' 0), mc_date_end_epoch = c_trunc (json_dbl t
     ''date_end_epoch'' 0), mc_ema_fast_len = json_int t ''ema_fast_len'' 9, mc_ema_slow_len = json_int t
     ''ema_slow_len'' 21, mc_require_price_beyond_fast = json_bool t ''require_price_beyond_fast'' True,
     mc_setup_mode = json_str t ''setup_mode'' ''relaxed'', mc_use_macd = json_bool t ''use_macd'' True,
     mc_macd_fast = json_int t ''macd_fast'' 12, mc_macd_slow = json_int t ''macd_slow'' 26, mc_macd_signal =
     json_int t ''macd_signal'' 9, mc_macd_hist_expanding = json_bool t ''macd_hist_expanding'' True, mc_rsi_len =
     json_int t ''rsi_len'' 9, mc_rsi_mid = json_dbl t ''rsi_mid'' 50, mc_stoch_k_len = json_int t ''stoch_k_len''
     8, mc_stoch_k_smooth = json_int t ''stoch_k_smooth'' 3, mc_stoch_d_len = json_int t ''stoch_d_len'' 3,
     mc_stoch_ob = json_dbl t ''stoch_ob'' 80, mc_stoch_os = json_dbl t ''stoch_os'' 20, mc_use_vwap = json_bool t
     ''use_vwap'' False, mc_vwap_anchor = json_str t ''vwap_anchor'' ''globex'', mc_use_mtf = json_bool t
     ''use_mtf'' True, mc_htf_mode = json_str t ''htf_mode'' ''auto'', mc_htf_mult = json_int t ''htf_mult'' 12,
     mc_htf_manual_min = json_int t ''htf_manual_min'' 60, mc_htf_fast_len = json_int t ''htf_fast_len'' 21,
     mc_htf_slow_len = json_int t ''htf_slow_len'' 50, mc_htf_need_price = json_bool t ''htf_need_price'' False,
     mc_htf_slope_req = json_bool t ''htf_slope_req'' False, mc_use_htf2 = json_bool t ''use_htf2'' False,
     mc_trigger_mode = json_str t ''trigger_mode'' ''auto'', mc_pole_min_atr = json_dbl t ''pole_min_atr'' (4 / 5),
     mc_flag_len = json_int t ''flag_len'' 5, mc_pole_recency_bars = json_int t ''pole_recency_bars'' 7,
     mc_flag_max_rng_atr = json_dbl t ''flag_max_rng_atr'' 2, mc_max_retr_pct = json_dbl t ''max_retr_pct'' 75,
     mc_flag_drift_atr = json_dbl t ''flag_drift_atr'' (3 / 10), mc_adaptive_pole = json_bool t ''adaptive_pole''
     True, mc_pole_len_min = json_int t ''pole_len_min'' 6, mc_pole_len_max = json_int t ''pole_len_max'' 20,
     mc_pole_len_fixed = json_int t ''pole_len_fixed'' 12, mc_retest_tol_atr = json_dbl t ''retest_tol_atr'' (1 /
     2), mc_retest_max_bars = json_int t ''retest_max_bars'' 12, mc_retest_inval_atr = json_dbl t
     ''retest_inval_atr'' (1 / 2), mc_retest_conf_close = json_bool t ''retest_conf_close'' False,
     mc_retest_strict_trend = json_bool t ''retest_strict_trend'' False, mc_use_onset = json_bool t ''use_onset''
     True, mc_onset_window_bars = json_int t ''onset_window_bars'' 10, mc_onset_need_macd = json_bool t
     ''onset_need_macd'' True, mc_onset_max_ext_atr = json_dbl t ''onset_max_ext_atr'' (1 / 4), mc_onset_swing_len
     = json_int t ''onset_swing_len'' 4, mc_onset_neutral_htf_ok = json_bool t ''onset_neutral_htf_ok'' True,
     mc_use_fvg = json_bool t ''use_fvg'' True, mc_fvg_min_atr = json_dbl t ''fvg_min_atr'' (1 / 4),
     mc_fvg_max_bars = json_int t ''fvg_max_bars'' 30, mc_fvg_max_keep = json_int t ''fvg_max_keep'' 8,
     mc_fvg_mid_invalidate = json_bool t ''fvg_mid_invalidate'' False, mc_use_fvg_entry = json_bool t
     ''use_fvg_entry'' True, mc_use_fvg_filter = json_bool t ''use_fvg_filter'' False, mc_fvg_struct_mode =
     json_bool t ''fvg_struct_mode'' False, mc_fvg_struct_tf_min = json_int t ''fvg_struct_tf_min'' 5,
     mc_use_levels = json_bool t ''use_levels'' True, mc_lv_pd = json_bool t ''lv_pd'' True, mc_lv_pw = json_bool t
     ''lv_pw'' True, mc_lv_sess = json_bool t ''lv_sess'' True, mc_lv_pdc = json_bool t ''lv_pdc'' True, mc_lv_keep
     = json_int t ''lv_keep'' 2, mc_sweep_pen_atr = json_dbl t ''sweep_pen_atr'' 0, mc_use_sweep_entry = json_bool
     t ''use_sweep_entry'' True, mc_use_lv_filter = json_bool t ''use_lv_filter'' False, mc_lv_near_atr = json_dbl
     t ''lv_near_atr'' (1 / 2), mc_use_smt_entry = json_bool t ''use_smt_entry'' False, mc_smt_pivot_len = json_int
     t ''smt_pivot_len'' 5, mc_reference_symbol = json_str t ''reference_symbol'' [], mc_im_corr_len = json_int t
     ''im_corr_len'' 50, mc_im_expected_corr = json_str t ''im_expected_corr'' ''inverse'', mc_im_min_corr =
     json_dbl t ''im_min_corr'' (3 / 10), mc_use_im_filter = json_bool t ''use_im_filter'' False, mc_use_conf_tf =
     json_bool t ''use_conf_tf'' False, mc_conf_tf_min = json_int t ''conf_tf_min'' 5, mc_conf_need_bull =
     json_bool t ''conf_need_bull'' True, mc_conf_refine = json_str t ''conf_refine'' ''level_fvg_ce'',
     mc_conf_max_wait = json_int t ''conf_max_wait'' 6, mc_atr_len = json_int t ''atr_len'' 14, mc_exit_sizing =
     json_str t ''exit_sizing'' ''atr'', mc_sl_atr_mult = json_dbl t ''sl_atr_mult'' (6 / 5), mc_rr_ratio =
     json_dbl t ''rr_ratio'' (3 / 2), mc_sl_points = json_dbl t ''sl_points'' 15, mc_tp_points = json_dbl t
     ''tp_points'' 35, mc_use_osc_exit = json_bool t ''use_osc_exit'' True, mc_use_time_stop = json_bool t
     ''use_time_stop'' True, mc_max_hold_bars = json_int t ''max_hold_bars'' 20, mc_use_breakeven = json_bool t
     ''use_breakeven'' True, mc_be_trigger_pct_tp = json_dbl t ''be_trigger_pct_tp'' (1 / 2), mc_use_trailing =
     json_bool t ''use_trailing'' False, mc_trail_atr_mult = json_dbl t ''trail_atr_mult'' 1, mc_trail_start_r =
     json_dbl t ''trail_start_r'' 1, mc_use_trend_exit = json_bool t ''use_trend_exit'' True, mc_use_htf_exit =
     json_bool t ''use_htf_exit'' False, mc_tp_target_mode = json_str t ''tp_target_mode'' ''fixed_rr'',
     mc_tp_buffer_atr = json_dbl t ''tp_buffer_atr'' (1 / 10), mc_tp_min_dist_atr = json_dbl t ''tp_min_dist_atr''
     (1 / 2), mc_tp_fvg = json_bool t ''tp_fvg'' True, mc_tp_fvg_ce = json_bool t ''tp_fvg_ce'' True,
     mc_use_atr_floor = json_bool t ''use_atr_floor'' True, mc_min_atr_ticks = json_int t ''min_atr_ticks'' 10,
     mc_atr_rank_min = json_dbl t ''atr_rank_min'' 10, mc_rank_lookback = json_int t ''rank_lookback'' 200,
     mc_use_regime = json_bool t ''use_regime'' True, mc_regime_dir_only = json_bool t ''regime_dir_only'' True,
     mc_regime_mode = json_str t ''regime_mode'' ''relative'', mc_regime_components_required = json_int t
     ''regime_components_required'' 2, mc_regime_bars = json_int t ''regime_bars'' 1, mc_reg_adx_on = json_bool t
     ''reg_adx_on'' True, mc_adx_len = json_int t ''adx_len'' 14, mc_adx_min = json_dbl t ''adx_min'' 20,
     mc_adx_rank_min = json_dbl t ''adx_rank_min'' 30, mc_adx_rising_pass = json_bool t ''adx_rising_pass'' True,
     mc_reg_atr_on = json_bool t ''reg_atr_on'' True, mc_atr_avg_len = json_int t ''atr_avg_len'' 50,
     mc_atr_pct_of_avg = json_dbl t ''atr_pct_of_avg'' 80, mc_atr_rank_min_regime = json_dbl t
     ''atr_rank_min_regime'' 20, mc_atr_expansion_pass = json_bool t ''atr_expansion_pass'' True, mc_reg_spread_on
     = json_bool t ''reg_spread_on'' True, mc_ema_spread_min_atr = json_dbl t ''ema_spread_min_atr'' (1 / 4),
     mc_use_session = json_bool t ''use_session'' True, mc_session_window = json_str t ''session_window''
     ''0900-1200'', mc_session_tz = json_str t ''session_tz'' (''America/New_York''), mc_flat_at_session_end =
     json_bool t ''flat_at_session_end'' True, mc_day_rollover_hour_et = json_int t ''day_rollover_hour_et'' 18,
     mc_use_max_trades = json_bool t ''use_max_trades'' True, mc_max_daily_trades = json_int t ''max_daily_trades''
     20, mc_use_daily_loss = json_bool t ''use_daily_loss'' True, mc_daily_loss_pct = json_dbl t ''daily_loss_pct''
     2, mc_daily_loss_closed_only = json_bool t ''daily_loss_closed_only'' True, mc_use_cooldown = json_bool t
     ''use_cooldown'' True, mc_cooldown_after_losses = json_int t ''cooldown_after_losses'' 2, mc_cooldown_bars =
     json_int t ''cooldown_bars'' 5, mc_pb_valid_bars = json_int t ''pb_valid_bars'' 5, mc_convert_to_market =
     json_bool t ''convert_to_market'' True, mc_convert_bars = json_int t ''convert_bars'' 2, mc_risk_pct =
     json_dbl t ''risk_pct'' 1, mc_min_qty = json_int t ''min_qty'' 1, mc_qty_max = json_int t ''qty_max'' 0,
     mc_point_value = json_dbl t ''point_value'' 2, mc_tick_size = json_dbl t ''tick_size'' (1 / 4),
     mc_starting_balance = json_dbl t ''starting_balance'' 25000, mc_warmup_bars = json_int t ''warmup_bars'' 1500\<rparr>"

definition mtf_from_json_string :: "string \<Rightarrow> mtf_error + mtf_config" where
  "mtf_from_json_string t =
     (let c = mtf_read_json t in case mtf_validate c of Some e \<Rightarrow> Inl e | None \<Rightarrow> Inr c)"

definition mtf_from_file :: "string option \<Rightarrow> mtf_error + mtf_config" where
  "mtf_from_file file = (case file of None \<Rightarrow> Inl NoConfigFile | Some t \<Rightarrow> mtf_from_json_string t)"

lemma mtf_validated:
  assumes "mtf_validate c = None"
  shows "0 < mc_point_value c" "0 < mc_tick_size c" "0 < mc_min_qty c" "0 < mc_atr_len c" "0 < mc_ema_fast_len c"
    "0 < mc_ema_slow_len c" "0 < mc_htf_mult c" "0 \<le> mc_warmup_bars c"
  using assms by (simp_all add: mtf_validate_def split: if_splits)

end
