(* ===== verification/Mtf_Series.thy ===== *)
theory Mtf_Series
  imports Mtf_Config Orb_Strategy
begin

section \<open>Series and indicators of the multi-timeframe scalper\<close>

text \<open>
  The free functions of \<open>namespace mtf\<close> in \<open>src/src/execution/mtf_scalper_strategy.hpp\<close>, the
  aggregation of higher-timeframe bars and the indicators of one completed minute bar.  A double
  that may be NaN is a \<open>real option\<close> with \<open>None\<close> for NaN: arithmetic with it is NaN and a
  comparison with it is false.  A \<open>std::deque\<close> is a list, oldest first.
\<close>

subsection \<open>Doubles that may be NaN\<close>

type_synonym nreal = "real option"

definition nlt :: "nreal \<Rightarrow> nreal \<Rightarrow> bool" where
  "nlt a b = (case (a, b) of (Some x, Some y) \<Rightarrow> x < y | _ \<Rightarrow> False)"

definition nle :: "nreal \<Rightarrow> nreal \<Rightarrow> bool" where
  "nle a b = (case (a, b) of (Some x, Some y) \<Rightarrow> x \<le> y | _ \<Rightarrow> False)"

definition nsub :: "nreal \<Rightarrow> nreal \<Rightarrow> nreal" where
  "nsub a b = (case (a, b) of (Some x, Some y) \<Rightarrow> Some (x - y) | _ \<Rightarrow> None)"

definition nz :: "real \<Rightarrow> nreal \<Rightarrow> real" where
  "nz d v = (case v of None \<Rightarrow> d | Some x \<Rightarrow> x)"

lemma nlt_Some [simp]: "nlt (Some x) (Some y) = (x < y)" and nlt_None [simp]: "\<not> nlt None b" "\<not> nlt a None"
  by (simp_all add: nlt_def split: option.split)

lemma nle_Some [simp]: "nle (Some x) (Some y) = (x \<le> y)" and nle_None [simp]: "\<not> nle None b" "\<not> nle a None"
  by (simp_all add: nle_def split: option.split)

subsection \<open>Series\<close>

definition ema_next :: "nreal \<Rightarrow> real \<Rightarrow> int \<Rightarrow> real" where
  "ema_next prev x len =
     (case prev of None \<Rightarrow> x | Some p \<Rightarrow> (let a = 2 / (of_int len + 1) in a * x + (1 - a) * p))"

definition rma_next :: "nreal \<Rightarrow> real \<Rightarrow> int \<Rightarrow> real" where
  "rma_next prev x len = (case prev of None \<Rightarrow> x | Some p \<Rightarrow> (p * of_int (len - 1) + x) / of_int len)"

definition last_n :: "nat \<Rightarrow> 'a list \<Rightarrow> 'a list" where
  "last_n k xs = drop (length xs - k) xs"

definition push_cap :: "nat \<Rightarrow> 'a \<Rightarrow> 'a list \<Rightarrow> 'a list" where
  "push_cap cap x xs = (let ys = xs @ [x] in if cap < length ys then tl ys else ys)"

definition percentrank :: "nreal list \<Rightarrow> int \<Rightarrow> nreal" where
  "percentrank hist len =
     (if int (length hist) < len + 1 \<or> len = 0 then None
      else (let cur = last hist; w = last_n (nat len) (butlast hist)
            in Some (100 * real (length (filter (\<lambda>v. nle v cur) w)) / of_int len)))"

definition sma_window :: "nreal list \<Rightarrow> int \<Rightarrow> nreal" where
  "sma_window hist n =
     (if int (length hist) < n then None
      else (let w = last_n (nat n) hist
            in if list_ex (\<lambda>v. v = None) w \<or> n = 0 then None
               else Some (sum_list (map (nz 0) w) / of_int n)))"

subsection \<open>Bars\<close>

text \<open>\<open>std::numeric_limits<double>::max()\<close>, the extreme values of a fresh bar.\<close>

definition dbl_max :: real where
  "dbl_max = (2 - 1 / 2 ^ 52) * 2 ^ 1023"

definition hi :: "minute_bar \<Rightarrow> real" where
  "hi b = (case mb_high b of None \<Rightarrow> - dbl_max | Some h \<Rightarrow> h)"

definition lo :: "minute_bar \<Rightarrow> real" where
  "lo b = (case mb_low b of None \<Rightarrow> dbl_max | Some l \<Rightarrow> l)"

text \<open>A bar folded into a longer one: \<open>agg_update\<close>, and the tail of \<open>update_htf\<close>.\<close>

definition agg_update :: "minute_bar \<Rightarrow> minute_bar \<Rightarrow> minute_bar" where
  "agg_update a0 b =
     (let a1 = (if mb_volume a0 = 0
                then a0\<lparr>mb_open := mb_open b, mb_high := Some (hi b), mb_low := Some (lo b)\<rparr> else a0);
          a2 = (if hi b > hi a1 then a1\<lparr>mb_high := Some (hi b)\<rparr> else a1);
          a3 = (if lo b < lo a2 then a2\<lparr>mb_low := Some (lo b)\<rparr> else a2)
      in a3\<lparr>mb_close := mb_close b, mb_volume := mb_volume a3 + mb_volume b\<rparr>)"

text \<open>The true range against the previous close.\<close>

definition true_range :: "nreal \<Rightarrow> minute_bar \<Rightarrow> real" where
  "true_range pc b =
     (case pc of None \<Rightarrow> hi b - lo b
      | Some c \<Rightarrow> max (max (hi b - lo b) \<bar>hi b - c\<bar>) \<bar>lo b - c\<bar>)"

definition close_before :: "minute_bar list \<Rightarrow> nreal" where
  "close_before bars = (if 2 \<le> length bars then Some (mb_close (bars ! (length bars - 2))) else None)"

subsection \<open>Higher timeframes\<close>

record htf_agg =
  ha_cur :: minute_bar
  ha_bucket :: int
  ha_ema_f :: nreal
  ha_ema_s :: nreal
  ha_ema_f_prev :: nreal
  ha_cls :: nreal
  ha_slope :: nreal
  ha_completed :: bool
  ha_done :: "minute_bar list"
  ha_atr :: nreal

definition ha_new :: htf_agg where
  "ha_new = \<lparr>ha_cur = mb_new, ha_bucket = -1, ha_ema_f = None, ha_ema_s = None, ha_ema_f_prev = None,
     ha_cls = None, ha_slope = None, ha_completed = False, ha_done = [], ha_atr = None\<rparr>"

text \<open>The forming bar is complete: the indicators of the timeframe move on.\<close>

definition htf_complete :: "int \<Rightarrow> int \<Rightarrow> int \<Rightarrow> htf_agg \<Rightarrow> htf_agg" where
  "htf_complete len_f len_s atr_len a =
     (let cur = ha_cur a; cls = mb_close cur; bars = push_cap 8 cur (ha_done a);
          f = ema_next (ha_ema_f a) cls len_f; sl = ema_next (ha_ema_s a) cls len_s
      in a\<lparr>ha_done := bars, ha_ema_f_prev := ha_ema_f a, ha_ema_f := Some f, ha_ema_s := Some sl, ha_cls := Some cls,
           ha_slope := nsub (Some f) (ha_ema_f a), ha_completed := True,
           ha_atr := Some (rma_next (ha_atr a) (true_range (close_before bars) cur) atr_len)\<rparr>)"

definition update_htf :: "int \<Rightarrow> int \<Rightarrow> int \<Rightarrow> int \<Rightarrow> minute_bar \<Rightarrow> htf_agg \<Rightarrow> htf_agg" where
  "update_htf minutes len_f len_s atr_len bar a0 =
     (let bucket = cdiv (mb_minute bar) minutes;
          a1 = (if ha_bucket a0 < 0 then a0\<lparr>ha_bucket := bucket\<rparr> else a0);
          a2 = (if bucket = ha_bucket a1 then a1
                else (let c = (if 0 < mb_volume (ha_cur a1) then htf_complete len_f len_s atr_len a1 else a1)
                      in c\<lparr>ha_cur := mb_new\<lparr>mb_minute := mb_minute bar\<rparr>, ha_bucket := bucket\<rparr>))
      in a2\<lparr>ha_cur := agg_update (ha_cur a2) bar\<rparr>)"

subsection \<open>Minute indicators\<close>

record mtf_ind =
  in_ema_fast :: nreal
  in_ema_slow :: nreal
  in_ema_fast_prev :: nreal
  in_ema_slow_prev :: nreal
  in_macd_ef :: nreal
  in_macd_es :: nreal
  in_macd_line :: nreal
  in_macd_sig :: nreal
  in_macd_hist :: nreal
  in_macd_line_prev :: nreal
  in_macd_sig_prev :: nreal
  in_macd_hist_prev :: nreal
  in_rma_up :: nreal
  in_rma_dn :: nreal
  in_rsi :: nreal
  in_kraw :: "nreal list"
  in_k :: "nreal list"
  in_stoch_k :: nreal
  in_stoch_d :: nreal
  in_stoch_k_prev :: nreal
  in_stoch_d_prev :: nreal
  in_atr :: nreal
  in_atr_prev :: nreal
  in_prev_close :: nreal
  in_atr_hist :: "nreal list"
  in_adx_hist :: "nreal list"
  in_atr_rank :: real
  in_adx_rank :: real
  in_dmi_tr :: nreal
  in_dmi_pdm :: nreal
  in_dmi_mdm :: nreal
  in_adx_rma :: nreal
  in_di_plus :: nreal
  in_di_minus :: nreal
  in_adx :: nreal
  in_prev_high :: nreal
  in_prev_low :: nreal

definition ind_new :: mtf_ind where
  "ind_new = \<lparr>in_ema_fast = None, in_ema_slow = None, in_ema_fast_prev = None, in_ema_slow_prev = None, in_macd_ef = None,
     in_macd_es = None, in_macd_line = None, in_macd_sig = None, in_macd_hist = None, in_macd_line_prev = None,
     in_macd_sig_prev = None, in_macd_hist_prev = None, in_rma_up = None, in_rma_dn = None, in_rsi = None, in_kraw = [],
     in_k = [], in_stoch_k = None, in_stoch_d = None, in_stoch_k_prev = None, in_stoch_d_prev = None, in_atr = None,
     in_atr_prev = None, in_prev_close = None, in_atr_hist = [], in_adx_hist = [], in_atr_rank = 50, in_adx_rank = 50,
     in_dmi_tr = None, in_dmi_pdm = None, in_dmi_mdm = None, in_adx_rma = None, in_di_plus = None, in_di_minus = None,
     in_adx = None, in_prev_high = None, in_prev_low = None\<rparr>"

definition ind_averages :: "mtf_config \<Rightarrow> minute_bar \<Rightarrow> mtf_ind \<Rightarrow> mtf_ind" where
  "ind_averages c bar i =
     (let x = mb_close bar;
          ef = ema_next (in_macd_ef i) x (mc_macd_fast c);
          es = ema_next (in_macd_es i) x (mc_macd_slow c);
          line = ef - es;
          sig = ema_next (in_macd_sig i) line (mc_macd_signal c)
      in i\<lparr>in_ema_fast_prev := in_ema_fast i, in_ema_slow_prev := in_ema_slow i,
           in_ema_fast := Some (ema_next (in_ema_fast i) x (mc_ema_fast_len c)),
           in_ema_slow := Some (ema_next (in_ema_slow i) x (mc_ema_slow_len c)),
           in_macd_line_prev := in_macd_line i, in_macd_sig_prev := in_macd_sig i, in_macd_hist_prev := in_macd_hist i,
           in_macd_ef := Some ef, in_macd_es := Some es, in_macd_line := Some line, in_macd_sig := Some sig,
           in_macd_hist := Some (line - sig)\<rparr>)"

definition ind_rsi :: "mtf_config \<Rightarrow> minute_bar \<Rightarrow> mtf_ind \<Rightarrow> mtf_ind" where
  "ind_rsi c bar i =
     (let j = (case in_prev_close i of None \<Rightarrow> i
               | Some pc \<Rightarrow>
                   (let chg = mb_close bar - pc;
                        up = rma_next (in_rma_up i) (max chg 0) (mc_rsi_len c);
                        dn = rma_next (in_rma_dn i) (max (- chg) 0) (mc_rsi_len c)
                    in i\<lparr>in_rma_up := Some up, in_rma_dn := Some dn,
                         in_rsi := Some (if dn = 0 then 100 else if up = 0 then 0 else 100 - 100 / (1 + up / dn))\<rparr>))
      in j\<lparr>in_prev_close := Some (mb_close bar)\<rparr>)"

definition highest :: "minute_bar list \<Rightarrow> real" where
  "highest bars = fold (\<lambda>b m. max m (hi b)) bars (- (10 ^ 300))"

definition lowest :: "minute_bar list \<Rightarrow> real" where
  "lowest bars = fold (\<lambda>b m. min m (lo b)) bars (10 ^ 300)"

definition ind_stoch :: "mtf_config \<Rightarrow> minute_bar list \<Rightarrow> minute_bar \<Rightarrow> mtf_ind \<Rightarrow> mtf_ind" where
  "ind_stoch c hist bar i =
     (let raw = (if mc_stoch_k_len c \<le> int (length hist)
                 then (let w = last_n (nat (mc_stoch_k_len c)) hist; hh = highest w; ll = lowest w
                       in if hh > ll then Some (100 * (mb_close bar - ll) / (hh - ll)) else None)
                 else None);
          kraw = push_cap 64 raw (in_kraw i);
          k = sma_window kraw (mc_stoch_k_smooth c);
          ks = push_cap 64 k (in_k i)
      in i\<lparr>in_stoch_k_prev := in_stoch_k i, in_stoch_d_prev := in_stoch_d i, in_kraw := kraw, in_stoch_k := k, in_k := ks,
           in_stoch_d := sma_window ks (mc_stoch_d_len c)\<rparr>)"

definition ind_atr :: "mtf_config \<Rightarrow> real \<Rightarrow> mtf_ind \<Rightarrow> mtf_ind" where
  "ind_atr c tr i =
     (let a = Some (rma_next (in_atr i) tr (mc_atr_len c))
      in i\<lparr>in_atr_prev := in_atr i, in_atr := a,
           in_atr_hist := push_cap (nat (mc_rank_lookback c + 2)) a (in_atr_hist i)\<rparr>)"

definition ind_dmi :: "mtf_config \<Rightarrow> real \<Rightarrow> minute_bar \<Rightarrow> mtf_ind \<Rightarrow> mtf_ind" where
  "ind_dmi c tr bar i =
     (let j = (case (in_prev_high i, in_prev_low i) of
                 (Some ph, Some pl) \<Rightarrow>
                   (let up = hi bar - ph; dn = pl - lo bar;
                        t = rma_next (in_dmi_tr i) tr (mc_adx_len c);
                        p = rma_next (in_dmi_pdm i) (if dn < up \<and> 0 < up then up else 0) (mc_adx_len c);
                        m = rma_next (in_dmi_mdm i) (if up < dn \<and> 0 < dn then dn else 0) (mc_adx_len c);
                        k = i\<lparr>in_dmi_tr := Some t, in_dmi_pdm := Some p, in_dmi_mdm := Some m\<rparr>
                    in if 0 < t
                       then (let dip = 100 * p / t; dim = 100 * m / t; s = dip + dim;
                                 dx = 100 * \<bar>dip - dim\<bar> / (if s = 0 then 1 else s);
                                 ax = rma_next (in_adx_rma i) dx (mc_adx_len c)
                             in k\<lparr>in_di_plus := Some dip, in_di_minus := Some dim, in_adx_rma := Some ax, in_adx := Some ax\<rparr>)
                       else k)
               | _ \<Rightarrow> i)
      in j\<lparr>in_prev_high := Some (hi bar), in_prev_low := Some (lo bar),
           in_adx_hist := push_cap (nat (mc_rank_lookback c + 2)) (in_adx j) (in_adx_hist j)\<rparr>)"

definition ind_ranks :: "mtf_config \<Rightarrow> mtf_ind \<Rightarrow> mtf_ind" where
  "ind_ranks c i =
     i\<lparr>in_atr_rank := nz 50 (percentrank (in_atr_hist i) (mc_rank_lookback c)),
       in_adx_rank := nz 50 (percentrank (in_adx_hist i) (mc_rank_lookback c))\<rparr>"

text \<open>The indicators of one completed bar; \<open>hist\<close> ends with that bar.\<close>

definition ind_update :: "mtf_config \<Rightarrow> minute_bar list \<Rightarrow> minute_bar \<Rightarrow> mtf_ind \<Rightarrow> mtf_ind" where
  "ind_update c hist bar i =
     (let j = ind_stoch c hist bar (ind_rsi c bar (ind_averages c bar i));
          tr = true_range (if in_prev_high j = None then None else close_before hist) bar
      in ind_ranks c (ind_dmi c tr bar (ind_atr c tr j)))"

end
