(* ===== verification/Mtf_Patterns.thy ===== *)
theory Mtf_Patterns
  imports Mtf_Series
begin

section \<open>Pattern engines of the multi-timeframe scalper\<close>

text \<open>
  The blocks of \<open>handle_completed_bar\<close> in \<open>src/src/execution/mtf_scalper_strategy.hpp\<close> that
  look for entries, one definition per block, in the order of the code: the derived trend and regime
  booleans, the flag, the trend onset, the fair value gaps, the liquidity levels and sweeps, the
  divergence against a reference symbol and the retest of a breakout.  Each works on its own part of
  the state; \<open>hist\<close> is the list of completed bars, the current one last, and \<open>bi\<close> its index.
\<close>

subsection \<open>Trend, momentum and regime\<close>

record mtf_htf =
  ht_htf :: htf_agg
  ht_htf2 :: htf_agg
  ht_struct :: htf_agg
  ht_rolled :: bool
  ht_conf :: htf_agg
  ht_up :: bool
  ht_dn :: bool
  ht_mtf_up :: bool
  ht_mtf_dn :: bool

definition ht_new :: mtf_htf where
  "ht_new = \<lparr>ht_htf = ha_new, ht_htf2 = ha_new, ht_struct = ha_new, ht_rolled = False, ht_conf = ha_new,
     ht_up = False, ht_dn = False, ht_mtf_up = False, ht_mtf_dn = False\<rparr>"

text \<open>The aggregation block; the result tells whether the confirmation timeframe rolled over.\<close>

definition htf_aggregate :: "mtf_config \<Rightarrow> minute_bar \<Rightarrow> mtf_htf \<Rightarrow> bool \<times> mtf_htf" where
  "htf_aggregate c bar h =
     (let upd = (\<lambda>m f s. update_htf m f s (mc_atr_len c) bar);
          h1 = h\<lparr>ht_htf := upd (htf_minutes c) (mc_htf_fast_len c) (mc_htf_slow_len c) (ht_htf h)\<rparr>;
          h2 = (if mc_use_htf2 c
                then h1\<lparr>ht_htf2 := upd (htf2_minutes c) (mc_htf_fast_len c) (mc_htf_slow_len c) (ht_htf2 h1)\<rparr> else h1);
          h3 = (if mc_fvg_struct_mode c
                then (let u = upd (mc_fvg_struct_tf_min c) 2 3 (ht_struct h2)
                      in h2\<lparr>ht_struct := u, ht_rolled := (length (ha_done u) \<noteq> length (ha_done (ht_struct h2)))\<rparr>)
                else h2\<lparr>ht_rolled := False\<rparr>);
          rolled = (mc_use_conf_tf c \<and> 0 \<le> ha_bucket (ht_conf h3) \<and>
                    ha_bucket (ht_conf h3) \<noteq> cdiv (mb_minute bar) (mc_conf_tf_min c))
      in (rolled, if mc_use_conf_tf c then h3\<lparr>ht_conf := upd (mc_conf_tf_min c) 2 3 (ht_conf h3)\<rparr> else h3))"

definition htf_booleans :: "mtf_config \<Rightarrow> mtf_htf \<Rightarrow> mtf_htf" where
  "htf_booleans c h =
     (let a = ht_htf h; a2 = ht_htf2 h;
          up = (ha_completed a \<and> nlt (ha_ema_s a) (ha_ema_f a) \<and>
                (\<not> mc_htf_need_price c \<or> nlt (ha_ema_f a) (ha_cls a)) \<and>
                (\<not> mc_htf_slope_req c \<or> nlt (Some 0) (ha_slope a)));
          dn = (ha_completed a \<and> nlt (ha_ema_f a) (ha_ema_s a) \<and>
                (\<not> mc_htf_need_price c \<or> nlt (ha_cls a) (ha_ema_f a)) \<and>
                (\<not> mc_htf_slope_req c \<or> nlt (ha_slope a) (Some 0)));
          up2 = (\<not> mc_use_htf2 c \<or> (ha_completed a2 \<and> nlt (ha_ema_s a2) (ha_ema_f a2)));
          dn2 = (\<not> mc_use_htf2 c \<or> (ha_completed a2 \<and> nlt (ha_ema_f a2) (ha_ema_s a2)))
      in h\<lparr>ht_up := up, ht_dn := dn, ht_mtf_up := (\<not> mc_use_mtf c \<or> (up \<and> up2)),
           ht_mtf_dn := (\<not> mc_use_mtf c \<or> (dn \<and> dn2))\<rparr>)"

record mtf_trend =
  tr_up :: bool
  tr_dn :: bool
  tr_up_loose :: bool
  tr_dn_loose :: bool
  tr_mom_up :: bool
  tr_mom_dn :: bool
  tr_regime :: bool
  tr_regime_count :: int

definition tr_new :: mtf_trend where
  "tr_new = \<lparr>tr_up = False, tr_dn = False, tr_up_loose = False, tr_dn_loose = False, tr_mom_up = False,
     tr_mom_dn = False, tr_regime = False, tr_regime_count = 0\<rparr>"

definition derived_booleans :: "mtf_config \<Rightarrow> minute_bar \<Rightarrow> mtf_ind \<Rightarrow> mtf_trend \<Rightarrow> mtf_trend" where
  "derived_booleans c bar i t =
     (let x = Some (mb_close bar); f = in_ema_fast i; s = in_ema_slow i; h = in_macd_hist i
      in t\<lparr>tr_up_loose := nlt s f, tr_dn_loose := nlt f s,
           tr_up := (nlt s f \<and> (\<not> mc_require_price_beyond_fast c \<or> nlt f x)),
           tr_dn := (nlt f s \<and> (\<not> mc_require_price_beyond_fast c \<or> nlt x f)),
           tr_mom_up := (\<not> mc_use_macd c \<or> (nlt (Some 0) h \<and> (\<not> mc_macd_hist_expanding c \<or> nlt (in_macd_hist_prev i) h))),
           tr_mom_dn := (\<not> mc_use_macd c \<or> (nlt h (Some 0) \<and> (\<not> mc_macd_hist_expanding c \<or> nlt h (in_macd_hist_prev i))))\<rparr>)"

definition stoch_xup :: "mtf_config \<Rightarrow> mtf_ind \<Rightarrow> bool" where
  "stoch_xup c i = (nlt (in_stoch_d i) (in_stoch_k i) \<and> nle (in_stoch_k_prev i) (in_stoch_d_prev i) \<and>
     nlt (in_stoch_k i) (Some (mc_stoch_ob c)))"

definition stoch_xdn :: "mtf_config \<Rightarrow> mtf_ind \<Rightarrow> bool" where
  "stoch_xdn c i = (nlt (in_stoch_k i) (in_stoch_d i) \<and> nle (in_stoch_d_prev i) (in_stoch_k_prev i) \<and>
     nlt (Some (mc_stoch_os c)) (in_stoch_k i))"

definition rel_mode :: "mtf_config \<Rightarrow> bool" where
  "rel_mode c = (mc_regime_mode c \<noteq> ''fixed'')"

definition atr_ok :: "mtf_config \<Rightarrow> mtf_ind \<Rightarrow> bool" where
  "atr_ok c i = (\<not> mc_use_atr_floor c \<or>
     (if rel_mode c then mc_atr_rank_min c \<le> in_atr_rank i
      else of_int (mc_min_atr_ticks c) \<le> nz 0 (in_atr i) / mc_tick_size c))"

definition adx_pass :: "mtf_config \<Rightarrow> mtf_ind \<Rightarrow> bool" where
  "adx_pass c i =
     (let hist = in_adx_hist i; prev = (if 2 \<le> length hist then hist ! (length hist - 2) else None);
          raw = (if rel_mode c then mc_adx_rank_min c \<le> in_adx_rank i else nle (Some (mc_adx_min c)) (in_adx i))
      in raw \<or> (mc_adx_rising_pass c \<and> nlt prev (in_adx i) \<and> nlt (Some 15) (in_adx i)))"

definition atr_pass :: "mtf_config \<Rightarrow> mtf_ind \<Rightarrow> bool" where
  "atr_pass c i =
     (let hist = in_atr_hist i; size = int (length hist);
          avg = sma_window hist (min (mc_atr_avg_len c) size);
          sma20 = sma_window hist (min 20 size);
          raw = (if rel_mode c then mc_atr_rank_min_regime c \<le> in_atr_rank i
                 else (case avg of None \<Rightarrow> False | Some a \<Rightarrow> nle (Some (a * (mc_atr_pct_of_avg c / 100))) (in_atr i)))
      in raw \<or> (mc_atr_expansion_pass c \<and> nlt (in_atr_prev i) (in_atr i) \<and> nlt sma20 (in_atr i)))"

definition spread_pass :: "mtf_config \<Rightarrow> mtf_ind \<Rightarrow> bool" where
  "spread_pass c i = (mc_ema_spread_min_atr c * nz 0 (in_atr i) \<le> \<bar>nz 0 (in_ema_fast i) - nz 0 (in_ema_slow i)\<bar>)"

definition count_true :: "bool list \<Rightarrow> int" where
  "count_true bs = int (length (filter id bs))"

definition regime_filter :: "mtf_config \<Rightarrow> mtf_ind \<Rightarrow> mtf_trend \<Rightarrow> mtf_trend" where
  "regime_filter c i t =
     (let enabled = count_true [mc_reg_adx_on c, mc_reg_atr_on c, mc_reg_spread_on c];
          passed = count_true [mc_reg_adx_on c \<and> adx_pass c i, mc_reg_atr_on c \<and> atr_pass c i,
                               mc_reg_spread_on c \<and> spread_pass c i];
          raw = (\<not> mc_use_regime c \<or> enabled = 0 \<or> min (mc_regime_components_required c) enabled \<le> passed);
          k = (if raw then tr_regime_count t + 1 else 0)
      in t\<lparr>tr_regime_count := k, tr_regime := (mc_regime_bars c \<le> k)\<rparr>)"

subsection \<open>Flags\<close>

record mtf_pat =
  pa_bull_flag :: bool
  pa_bear_flag :: bool
  pa_bull_break :: bool
  pa_bear_break :: bool
  pa_flag_hi :: nreal
  pa_flag_lo :: nreal
  pa_bo_lvl_l :: nreal
  pa_bo_lvl_s :: nreal
  pa_bo_bar_l :: int
  pa_bo_bar_s :: int
  pa_retest_l :: bool
  pa_retest_s :: bool
  pa_onset_bar_l :: int
  pa_onset_bar_s :: int
  pa_last_ph :: nreal
  pa_last_pl :: nreal
  pa_pull_l :: bool
  pa_pull_s :: bool
  pa_struct_l :: bool
  pa_struct_s :: bool
  pa_onset_l :: bool
  pa_onset_s :: bool

definition pa_new :: mtf_pat where
  "pa_new = \<lparr>pa_bull_flag = False, pa_bear_flag = False, pa_bull_break = False, pa_bear_break = False,
     pa_flag_hi = None, pa_flag_lo = None, pa_bo_lvl_l = None, pa_bo_lvl_s = None, pa_bo_bar_l = -1, pa_bo_bar_s = -1,
     pa_retest_l = False, pa_retest_s = False, pa_onset_bar_l = -1, pa_onset_bar_s = -1, pa_last_ph = None,
     pa_last_pl = None, pa_pull_l = False, pa_pull_s = False, pa_struct_l = False, pa_struct_s = False,
     pa_onset_l = False, pa_onset_s = False\<rparr>"

text \<open>The extreme of a window and the offset of the first bar that has it.\<close>

fun scan_high :: "int \<Rightarrow> minute_bar list \<Rightarrow> real \<times> int \<Rightarrow> real \<times> int" where
  "scan_high k [] acc = acc"
| "scan_high k (b # bs) acc = scan_high (k + 1) bs (if hi b > fst acc then (hi b, k) else acc)"

fun scan_low :: "int \<Rightarrow> minute_bar list \<Rightarrow> real \<times> int \<Rightarrow> real \<times> int" where
  "scan_low k [] acc = acc"
| "scan_low k (b # bs) acc = scan_low (k + 1) bs (if lo b < fst acc then (lo b, k) else acc)"

definition pole_len :: "mtf_config \<Rightarrow> mtf_ind \<Rightarrow> int" where
  "pole_len c i =
     (if mc_adaptive_pole c
      then max 2 (c_round (of_int (mc_pole_len_max c) -
             in_atr_rank i / 100 * of_int (mc_pole_len_max c - mc_pole_len_min c)))
      else mc_pole_len_fixed c)"

definition ls_slope :: "real list \<Rightarrow> real" where
  "ls_slope ys =
     (let n = real (length ys); ks = map real [0..<length ys];
          sx = sum_list ks; sy = sum_list ys; sxy = sum_list (map (\<lambda>(k, y). k * y) (zip ks ys));
          sxx = sum_list (map (\<lambda>k. k * k) ks); den = n * sxx - sx * sx
      in if den \<noteq> 0 then (n * sxy - sx * sy) / den else 0)"

definition flag_engine :: "mtf_config \<Rightarrow> minute_bar list \<Rightarrow> minute_bar \<Rightarrow> mtf_ind \<Rightarrow> mtf_pat \<Rightarrow> mtf_pat" where
  "flag_engine c hist bar i p0 =
     (let p = p0\<lparr>pa_bull_flag := False, pa_bear_flag := False, pa_bull_break := False, pa_bear_break := False,
                 pa_flag_hi := None, pa_flag_lo := None\<rparr>;
          win = pole_len c i + mc_flag_len c + 2; n = int (length hist)
      in case in_atr i of None \<Rightarrow> p
       | Some atr \<Rightarrow>
           if n < win + 1 then p
           else (let before = butlast hist; w = last_n (nat win) before; fw = last_n (nat (mc_flag_len c)) before;
                     (hi_win, hi_off) = scan_high (- win) w (- (10 ^ 300), - 1 - (n - 1));
                     (lo_win, lo_off) = scan_low (- win) w (10 ^ 300, - 1 - (n - 1));
                     fhi = highest fw; flo = lowest fw;
                     slope = ls_slope (map mb_close fw);
                     rise = hi_win - lo_win;
                     tall = (mc_pole_min_atr c * atr \<le> rise);
                     pole_up = (tall \<and> lo_off < hi_off \<and> - hi_off \<le> mc_pole_recency_bars c);
                     pole_dn = (tall \<and> hi_off < lo_off \<and> - lo_off \<le> mc_pole_recency_bars c);
                     rng_ok = (fhi - flo \<le> mc_flag_max_rng_atr c * atr);
                     retr = mc_max_retr_pct c / 100 * rise;
                     bull = (pole_up \<and> rng_ok \<and> hi_win - flo \<le> retr \<and>
                             slope \<le> atr / 4 \<and> - mc_flag_drift_atr c * atr \<le> slope);
                     bear = (pole_dn \<and> rng_ok \<and> fhi - lo_win \<le> retr \<and>
                             - (atr / 4) \<le> slope \<and> slope \<le> mc_flag_drift_atr c * atr)
                 in p\<lparr>pa_flag_hi := Some fhi, pa_flag_lo := Some flo, pa_bull_flag := bull, pa_bear_flag := bear,
                      pa_bull_break := (bull \<and> mb_close bar > fhi), pa_bear_break := (bear \<and> mb_close bar < flo)\<rparr>))"

subsection \<open>Pivots and trend onset\<close>

text \<open>
  The bar \<open>len\<close> bars back is a pivot when no other bar within \<open>len\<close> of it reaches its high (its
  low); \<open>None\<close> when there is not enough history.
\<close>

definition pivot :: "int \<Rightarrow> minute_bar list \<Rightarrow> (minute_bar \<times> bool \<times> bool) option" where
  "pivot len hist =
     (let k = nat len
      in if int (length hist) - 1 - len - len < 0 then None
         else (let w = last_n (2 * k + 1) hist; b = w ! k; others = take k w @ drop (k + 1) w
               in Some (b, list_all (\<lambda>x. hi x < hi b) others, list_all (\<lambda>x. lo x > lo b) others)))"

definition onset_engine ::
    "mtf_config \<Rightarrow> minute_bar list \<Rightarrow> minute_bar \<Rightarrow> int \<Rightarrow> int \<Rightarrow> mtf_ind \<Rightarrow> mtf_trend \<Rightarrow> mtf_pat \<Rightarrow> mtf_pat" where
  "onset_engine c hist bar bi dir i t p0 =
     (let f = in_ema_fast i; s = in_ema_slow i; fp = in_ema_fast_prev i; sp = in_ema_slow_prev i;
          ln = in_macd_line i; sg = in_macd_sig i; lp = in_macd_line_prev i; gp = in_macd_sig_prev i;
          atr = nz 0 (in_atr i); ef = nz 0 f; x = mb_close bar;
          flip_l = (nlt s f \<and> nle fp sp \<and>
                    (\<not> mc_onset_need_macd c \<or> nlt (Some 0) (in_macd_hist i) \<or> (nlt sg ln \<and> nle lp gp)));
          flip_s = (nlt f s \<and> nle sp fp \<and>
                    (\<not> mc_onset_need_macd c \<or> nlt (in_macd_hist i) (Some 0) \<or> (nlt ln sg \<and> nle gp lp)));
          bar_l = (if flip_l \<and> pa_onset_bar_l p0 < 0 \<and> dir \<le> 0 then bi else pa_onset_bar_l p0);
          bar_s = (if flip_s \<and> pa_onset_bar_s p0 < 0 \<and> 0 \<le> dir then bi else pa_onset_bar_s p0);
          live_l = (0 \<le> bar_l \<and> bi - bar_l \<le> mc_onset_window_bars c \<and> tr_up_loose t);
          live_s = (0 \<le> bar_s \<and> bi - bar_s \<le> mc_onset_window_bars c \<and> tr_dn_loose t);
          pull_l = (live_l \<and> lo bar \<le> ef \<and> x > ef \<and> x \<le> ef + mc_onset_max_ext_atr c * atr \<and> tr_mom_up t);
          pull_s = (live_s \<and> hi bar \<ge> ef \<and> x < ef \<and> x \<ge> ef - mc_onset_max_ext_atr c * atr \<and> tr_mom_dn t);
          (ph, pl) = (case pivot (mc_onset_swing_len c) hist of
                        None \<Rightarrow> (pa_last_ph p0, pa_last_pl p0)
                      | Some (b, h, l) \<Rightarrow> (if h then Some (hi b) else pa_last_ph p0, if l then Some (lo b) else pa_last_pl p0));
          struct_l = (live_l \<and> (case ph of None \<Rightarrow> False | Some v \<Rightarrow> x > v \<and> x \<le> v + atr / 2));
          struct_s = (live_s \<and> (case pl of None \<Rightarrow> False | Some v \<Rightarrow> x < v \<and> x \<ge> v - atr / 2));
          trig_l = (mc_use_onset c \<and> (pull_l \<or> struct_l));
          trig_s = (mc_use_onset c \<and> (pull_s \<or> struct_s))
      in p0\<lparr>pa_pull_l := pull_l, pa_pull_s := pull_s, pa_last_ph := ph, pa_last_pl := pl,
            pa_struct_l := struct_l, pa_struct_s := struct_s, pa_onset_l := trig_l, pa_onset_s := trig_s,
            pa_onset_bar_l := (if trig_l \<or> \<not> tr_up_loose t then -1 else bar_l),
            pa_onset_bar_s := (if trig_s \<or> \<not> tr_dn_loose t then -1 else bar_s)\<rparr>)"

end
