(* ===== verification/Mtf_Zones.thy ===== *)
theory Mtf_Zones
  imports Mtf_Patterns
begin

section \<open>Zones, levels and references of the multi-timeframe scalper\<close>

text \<open>
  The second half of the pattern blocks of \<open>src/src/execution/mtf_scalper_strategy.hpp\<close>: fair value
  gaps, the levels of the prior day, week and session with their sweeps, the reference symbol, and
  the retest of a breakout level.
\<close>

subsection \<open>Fair value gaps\<close>

record gap =
  g_top :: real
  g_bot :: real
  g_bar :: int
  g_used :: bool

record mtf_fvg =
  fv_bull :: "gap list"
  fv_bear :: "gap list"
  fv_retest_l :: bool
  fv_retest_s :: bool
  fv_lvl_l :: nreal
  fv_lvl_s :: nreal

definition fv_new :: mtf_fvg where
  "fv_new = \<lparr>fv_bull = [], fv_bear = [], fv_retest_l = False, fv_retest_s = False, fv_lvl_l = None, fv_lvl_s = None\<rparr>"

definition gap_mid :: "gap \<Rightarrow> real" where
  "gap_mid g = (g_top g + g_bot g) / 2"

definition gap_gone :: "mtf_config \<Rightarrow> bool \<Rightarrow> minute_bar \<Rightarrow> int \<Rightarrow> gap \<Rightarrow> bool" where
  "gap_gone c bull bar bi g =
     ((if bull then (if mc_fvg_mid_invalidate c then mb_close bar < gap_mid g else lo bar \<le> g_bot g)
       else (if mc_fvg_mid_invalidate c then mb_close bar > gap_mid g else hi bar \<ge> g_top g)) \<or>
      mc_fvg_max_bars c < bi - g_bar g)"

definition gap_retested :: "bool \<Rightarrow> minute_bar \<Rightarrow> int \<Rightarrow> gap \<Rightarrow> bool" where
  "gap_retested bull bar bi g =
     (\<not> g_used g \<and> g_bar g < bi \<and>
      (if bull then lo bar \<le> g_top g \<and> lo bar > g_bot g \<and> mb_close bar \<ge> gap_mid g
       else hi bar \<ge> g_bot g \<and> hi bar < g_top g \<and> mb_close bar \<le> gap_mid g))"

text \<open>The loop of \<open>fvg_maintain\<close>, newest gap first: the gaps kept and the level retested last.\<close>

definition fvg_step :: "mtf_config \<Rightarrow> bool \<Rightarrow> minute_bar \<Rightarrow> int \<Rightarrow> gap \<Rightarrow> gap list \<times> nreal \<Rightarrow> gap list \<times> nreal" where
  "fvg_step c bull bar bi g acc =
     (if gap_gone c bull bar bi g then acc
      else if gap_retested bull bar bi g then (g\<lparr>g_used := True\<rparr> # fst acc, Some (gap_mid g))
      else (g # fst acc, snd acc))"

definition fvg_maintain :: "mtf_config \<Rightarrow> bool \<Rightarrow> minute_bar \<Rightarrow> int \<Rightarrow> gap list \<Rightarrow> gap list \<times> nreal" where
  "fvg_maintain c bull bar bi gaps = foldr (fvg_step c bull bar bi) gaps ([], None)"

text \<open>The zone between a newer and an older bar two apart, when it is wide enough.\<close>

definition bull_zone :: "real \<Rightarrow> int \<Rightarrow> minute_bar \<Rightarrow> minute_bar \<Rightarrow> gap list" where
  "bull_zone width bi new old =
     (if lo new > hi old \<and> lo new - hi old \<ge> width
      then [\<lparr>g_top = lo new, g_bot = hi old, g_bar = bi, g_used = False\<rparr>] else [])"

definition bear_zone :: "real \<Rightarrow> int \<Rightarrow> minute_bar \<Rightarrow> minute_bar \<Rightarrow> gap list" where
  "bear_zone width bi new old =
     (if hi new < lo old \<and> lo old - hi new \<ge> width
      then [\<lparr>g_top = lo old, g_bot = hi new, g_bar = bi, g_used = False\<rparr>] else [])"

definition new_zones ::
    "mtf_config \<Rightarrow> minute_bar list \<Rightarrow> minute_bar \<Rightarrow> int \<Rightarrow> mtf_ind \<Rightarrow> mtf_htf \<Rightarrow> gap list \<times> gap list" where
  "new_zones c hist bar bi i h =
     (if \<not> mc_fvg_struct_mode c
      then (if 3 \<le> length hist
            then (let old = hist ! (length hist - 3); w = mc_fvg_min_atr c * nz 0 (in_atr i)
                  in (bull_zone w bi bar old, bear_zone w bi bar old))
            else ([], []))
      else if ht_rolled h
      then (let bars = ha_done (ht_struct h)
            in case (ha_atr (ht_struct h), 3 \<le> length bars) of
                 (Some atr, True) \<Rightarrow>
                   (let s1 = bars ! (length bars - 1); s3 = bars ! (length bars - 3); w = mc_fvg_min_atr c * atr
                    in (bull_zone w bi s1 s3, bear_zone w bi s1 s3))
               | _ \<Rightarrow> ([], []))
      else ([], []))"

definition fvg_engine ::
    "mtf_config \<Rightarrow> minute_bar list \<Rightarrow> minute_bar \<Rightarrow> int \<Rightarrow> mtf_ind \<Rightarrow> mtf_htf \<Rightarrow> mtf_fvg \<Rightarrow> mtf_fvg" where
  "fvg_engine c hist bar bi i h v0 =
     (let v = v0\<lparr>fv_retest_l := False, fv_retest_s := False, fv_lvl_l := None, fv_lvl_s := None\<rparr>
      in if \<not> mc_use_fvg c then v
         else (let (nb, ns) = new_zones c hist bar bi i h;
                   (bulls, ml) = fvg_maintain c True bar bi (fv_bull v @ nb);
                   (bears, ms) = fvg_maintain c False bar bi (fv_bear v @ ns);
                   keep = nat (mc_fvg_max_keep c)
               in v\<lparr>fv_bull := last_n keep bulls, fv_bear := last_n keep bears,
                    fv_retest_l := (ml \<noteq> None), fv_retest_s := (ms \<noteq> None), fv_lvl_l := ml, fv_lvl_s := ms\<rparr>))"

subsection \<open>Levels and sweeps\<close>

record mtf_lvl =
  lv_day_bar :: minute_bar
  lv_week_bar :: minute_bar
  lv_day_key :: int
  lv_week_key :: int
  lv_pdh :: nreal
  lv_pdl :: nreal
  lv_pdc :: nreal
  lv_pwh :: nreal
  lv_pwl :: nreal
  lv_pdh_swept :: bool
  lv_pdl_swept :: bool
  lv_pwh_swept :: bool
  lv_pwl_swept :: bool
  lv_sess_h :: nreal
  lv_sess_l :: nreal
  lv_psess_h :: nreal
  lv_psess_l :: nreal
  lv_psh_swept :: bool
  lv_psl_swept :: bool
  lv_sweep_l :: bool
  lv_sweep_s :: bool
  lv_sweep_lvl_l :: nreal
  lv_sweep_lvl_s :: nreal

definition lv_new :: mtf_lvl where
  "lv_new = \<lparr>lv_day_bar = mb_new, lv_week_bar = mb_new, lv_day_key = -1, lv_week_key = -1, lv_pdh = None, lv_pdl = None,
     lv_pdc = None, lv_pwh = None, lv_pwl = None, lv_pdh_swept = False, lv_pdl_swept = False, lv_pwh_swept = False,
     lv_pwl_swept = False, lv_sess_h = None, lv_sess_l = None, lv_psess_h = None, lv_psess_l = None,
     lv_psh_swept = False, lv_psl_swept = False, lv_sweep_l = False, lv_sweep_s = False, lv_sweep_lvl_l = None,
     lv_sweep_lvl_s = None\<rparr>"

definition roll_day :: "int \<Rightarrow> mtf_lvl \<Rightarrow> mtf_lvl" where
  "roll_day gday v =
     (let d = lv_day_bar v;
          u = (if 0 \<le> lv_day_key v \<and> 0 < mb_volume d
               then v\<lparr>lv_pdh := Some (hi d), lv_pdl := Some (lo d), lv_pdc := Some (mb_close d)\<rparr> else v)
      in u\<lparr>lv_day_bar := mb_new, lv_day_key := gday, lv_pdh_swept := False, lv_pdl_swept := False\<rparr>)"

definition roll_week :: "int \<Rightarrow> mtf_lvl \<Rightarrow> mtf_lvl" where
  "roll_week wkey v =
     (let w = lv_week_bar v;
          u = (if 0 \<le> lv_week_key v \<and> 0 < mb_volume w
               then v\<lparr>lv_pwh := Some (hi w), lv_pwl := Some (lo w)\<rparr> else v)
      in u\<lparr>lv_week_bar := mb_new, lv_week_key := wkey, lv_pwh_swept := False, lv_pwl_swept := False\<rparr>)"

definition day_week_bars :: "minute_bar \<Rightarrow> mtf_lvl \<Rightarrow> mtf_lvl" where
  "day_week_bars bar v = v\<lparr>lv_day_bar := agg_update (lv_day_bar v) bar, lv_week_bar := agg_update (lv_week_bar v) bar\<rparr>"

definition session_levels :: "mtf_config \<Rightarrow> bool \<Rightarrow> bool \<Rightarrow> minute_bar \<Rightarrow> mtf_lvl \<Rightarrow> mtf_lvl" where
  "session_levels c sess_start in_session bar v =
     (let u = (if sess_start
               then v\<lparr>lv_psess_h := lv_sess_h v, lv_psess_l := lv_sess_l v, lv_sess_h := Some (hi bar),
                      lv_sess_l := Some (lo bar), lv_psh_swept := False, lv_psl_swept := False\<rparr> else v)
      in if mc_use_session c \<and> in_session
         then u\<lparr>lv_sess_h := Some (case lv_sess_h u of None \<Rightarrow> hi bar | Some h \<Rightarrow> max h (hi bar)),
                lv_sess_l := Some (case lv_sess_l u of None \<Rightarrow> lo bar | Some l \<Rightarrow> min l (lo bar))\<rparr> else u)"

text \<open>A low (a high) taken by more than the penetration and given back at the close.\<close>

definition swept_low :: "real \<Rightarrow> minute_bar \<Rightarrow> nreal \<Rightarrow> bool" where
  "swept_low pen bar lvl = (case lvl of None \<Rightarrow> False | Some l \<Rightarrow> lo bar < l - pen \<and> mb_close bar > l)"

definition swept_high :: "real \<Rightarrow> minute_bar \<Rightarrow> nreal \<Rightarrow> bool" where
  "swept_high pen bar lvl = (case lvl of None \<Rightarrow> False | Some h \<Rightarrow> hi bar > h + pen \<and> mb_close bar < h)"

definition sweep_engine :: "mtf_config \<Rightarrow> minute_bar \<Rightarrow> mtf_ind \<Rightarrow> mtf_lvl \<Rightarrow> mtf_lvl" where
  "sweep_engine c bar i v0 =
     (let v = v0\<lparr>lv_sweep_l := False, lv_sweep_s := False, lv_sweep_lvl_l := None, lv_sweep_lvl_s := None\<rparr>;
          pen = mc_sweep_pen_atr c * nz 0 (in_atr i);
          v1 = (if mc_lv_pd c \<and> \<not> lv_pdl_swept v \<and> swept_low pen bar (lv_pdl v)
                then v\<lparr>lv_pdl_swept := True, lv_sweep_l := True, lv_sweep_lvl_l := lv_pdl v\<rparr> else v);
          v2 = (if mc_lv_pd c \<and> \<not> lv_pdh_swept v1 \<and> swept_high pen bar (lv_pdh v1)
                then v1\<lparr>lv_pdh_swept := True, lv_sweep_s := True, lv_sweep_lvl_s := lv_pdh v1\<rparr> else v1);
          v3 = (if mc_lv_pw c \<and> \<not> lv_pwl_swept v2 \<and> swept_low pen bar (lv_pwl v2)
                then v2\<lparr>lv_pwl_swept := True, lv_sweep_l := True, lv_sweep_lvl_l := lv_pwl v2\<rparr> else v2);
          v4 = (if mc_lv_pw c \<and> \<not> lv_pwh_swept v3 \<and> swept_high pen bar (lv_pwh v3)
                then v3\<lparr>lv_pwh_swept := True, lv_sweep_s := True, lv_sweep_lvl_s := lv_pwh v3\<rparr> else v3);
          v5 = (if mc_lv_sess c \<and> \<not> lv_psl_swept v4 \<and> swept_low pen bar (lv_psess_l v4)
                then v4\<lparr>lv_psl_swept := True, lv_sweep_l := True, lv_sweep_lvl_l := lv_psess_l v4\<rparr> else v4);
          v6 = (if mc_lv_sess c \<and> \<not> lv_psh_swept v5 \<and> swept_high pen bar (lv_psess_h v5)
                then v5\<lparr>lv_psh_swept := True, lv_sweep_s := True, lv_sweep_lvl_s := lv_psess_h v5\<rparr> else v5)
      in if mc_use_levels c then v6 else v)"

definition level_list :: "mtf_config \<Rightarrow> mtf_lvl \<Rightarrow> nreal list" where
  "level_list c v =
     (if mc_use_levels c
      then (if mc_lv_pd c then [lv_pdh v, lv_pdl v] else []) @ (if mc_lv_pdc c then [lv_pdc v] else []) @
           (if mc_lv_pw c then [lv_pwh v, lv_pwl v] else []) @ (if mc_lv_sess c then [lv_psess_h v, lv_psess_l v] else [])
      else [])"

definition level_confluence :: "mtf_config \<Rightarrow> minute_bar \<Rightarrow> mtf_ind \<Rightarrow> mtf_lvl \<Rightarrow> bool" where
  "level_confluence c bar i v =
     (let near = fold (\<lambda>l m. case l of None \<Rightarrow> m | Some x \<Rightarrow> min m \<bar>mb_close bar - x\<bar>) (level_list c v) (10 ^ 10)
      in \<not> mc_use_lv_filter c \<or> near \<le> mc_lv_near_atr c * nz 0 (in_atr i))"

subsection \<open>Reference symbol\<close>

record mtf_ref =
  rf_wired :: bool
  rf_hist :: "minute_bar list"
  rf_close :: "real list"
  rf_ch_hi1 :: nreal
  rf_ch_hi2 :: nreal
  rf_ch_lo1 :: nreal
  rf_ch_lo2 :: nreal
  rf_hi1 :: nreal
  rf_hi2 :: nreal
  rf_lo1 :: nreal
  rf_lo2 :: nreal
  rf_smt_l :: bool
  rf_smt_s :: bool

definition rf_new :: mtf_ref where
  "rf_new = \<lparr>rf_wired = False, rf_hist = [], rf_close = [], rf_ch_hi1 = None, rf_ch_hi2 = None, rf_ch_lo1 = None,
     rf_ch_lo2 = None, rf_hi1 = None, rf_hi2 = None, rf_lo1 = None, rf_lo2 = None, rf_smt_l = False, rf_smt_s = False\<rparr>"

definition on_reference_bar :: "mtf_config \<Rightarrow> real \<Rightarrow> real \<Rightarrow> real \<Rightarrow> mtf_ref \<Rightarrow> mtf_ref" where
  "on_reference_bar c high low cls r =
     (let b = \<lparr>mb_minute = 0, mb_open = 0, mb_high = Some high, mb_low = Some low, mb_close = cls, mb_volume = 1\<rparr>;
          hist = push_cap 512 b (rf_hist r);
          u = r\<lparr>rf_wired := True, rf_hist := hist, rf_close := push_cap 512 cls (rf_close r)\<rparr>
      in case pivot (mc_smt_pivot_len c) hist of
           None \<Rightarrow> u
         | Some (p, ph, pl) \<Rightarrow>
             (let u1 = (if ph then u\<lparr>rf_hi2 := rf_hi1 u, rf_hi1 := Some (hi p)\<rparr> else u)
              in if pl then u1\<lparr>rf_lo2 := rf_lo1 u1, rf_lo1 := Some (lo p)\<rparr> else u1))"

definition smt_engine :: "mtf_config \<Rightarrow> minute_bar list \<Rightarrow> mtf_ref \<Rightarrow> mtf_ref" where
  "smt_engine c hist r0 =
     (let r = r0\<lparr>rf_smt_l := False, rf_smt_s := False\<rparr>
      in if \<not> mc_use_smt_entry c \<or> \<not> rf_wired r then r
         else (case pivot (mc_smt_pivot_len c) hist of
                 None \<Rightarrow> r
               | Some (p, ph, pl) \<Rightarrow>
                   (let u = (if pl
                             then r\<lparr>rf_smt_l := (nlt (Some (lo p)) (rf_ch_lo1 r) \<and> nlt (rf_lo2 r) (rf_lo1 r)),
                                    rf_ch_lo2 := rf_ch_lo1 r, rf_ch_lo1 := Some (lo p)\<rparr> else r)
                    in if ph
                       then u\<lparr>rf_smt_s := (nlt (rf_ch_hi1 u) (Some (hi p)) \<and> nlt (rf_hi1 u) (rf_hi2 u)),
                              rf_ch_hi2 := rf_ch_hi1 u, rf_ch_hi1 := Some (hi p)\<rparr> else u)))"

text \<open>The correlation of the last \<open>len\<close> closes of both symbols.\<close>

definition correlation :: "int \<Rightarrow> minute_bar list \<Rightarrow> real list \<Rightarrow> nreal" where
  "correlation len hist closes =
     (if int (length hist) < len \<or> int (length closes) < len then None
      else (let xs = map mb_close (last_n (nat len) hist); ys = last_n (nat len) closes; n = of_int len;
                sx = sum_list xs; sy = sum_list ys; sxy = sum_list (map (\<lambda>(x, y). x * y) (zip xs ys));
                sxx = sum_list (map (\<lambda>x. x * x) xs); syy = sum_list (map (\<lambda>y. y * y) ys);
                den = sqrt ((n * sxx - sx * sx) * (n * syy - sy * sy))
            in if den \<noteq> 0 then Some ((n * sxy - sx * sy) / den) else None))"

definition ref_ema :: "int \<Rightarrow> real list \<Rightarrow> nreal" where
  "ref_ema len closes = fold (\<lambda>v e. Some (ema_next e v len)) closes None"

text \<open>The correlation gate for longs and shorts.\<close>

definition im_gate :: "mtf_config \<Rightarrow> minute_bar list \<Rightarrow> mtf_ref \<Rightarrow> bool \<times> bool" where
  "im_gate c hist r =
     (if \<not> mc_use_im_filter c then (True, True)
      else if \<not> (rf_wired r \<and> mc_im_corr_len c \<le> int (length (rf_close r)) \<and> mc_im_corr_len c \<le> int (length hist))
      then (False, False)
      else (case correlation (mc_im_corr_len c) hist (rf_close r) of
              None \<Rightarrow> (False, False)
            | Some corr \<Rightarrow>
                if \<bar>corr\<bar> < mc_im_min_corr c then (False, False)
                else (let f = ref_ema (mc_ema_fast_len c) (rf_close r); s = ref_ema (mc_ema_slow_len c) (rf_close r);
                          neg = (mc_im_expected_corr c = ''inverse'' \<or> (mc_im_expected_corr c = ''measured'' \<and> corr < 0))
                      in (if neg then nlt f s else nlt s f, if neg then nlt s f else nlt f s))))"

subsection \<open>Break and retest\<close>

definition retest_engine ::
    "mtf_config \<Rightarrow> minute_bar \<Rightarrow> int \<Rightarrow> int \<Rightarrow> mtf_ind \<Rightarrow> mtf_trend \<Rightarrow> mtf_pat \<Rightarrow> mtf_pat" where
  "retest_engine c bar bi dir i t p0 =
     (let atr = nz 0 (in_atr i); x = mb_close bar;
          p1 = (if pa_bull_break p0 \<and> pa_bo_lvl_l p0 = None \<and> dir \<le> 0
                then p0\<lparr>pa_bo_lvl_l := pa_flag_hi p0, pa_bo_bar_l := bi\<rparr> else p0);
          p2 = (if pa_bear_break p1 \<and> pa_bo_lvl_s p1 = None \<and> 0 \<le> dir
                then p1\<lparr>pa_bo_lvl_s := pa_flag_lo p1, pa_bo_bar_s := bi\<rparr> else p1);
          trd_l = (if mc_retest_strict_trend c then tr_up t else tr_up_loose t);
          trd_s = (if mc_retest_strict_trend c then tr_dn t else tr_dn_loose t);
          old_l = (pa_bo_bar_l p2 < bi); old_s = (pa_bo_bar_s p2 < bi);
          p3 = p2\<lparr>pa_retest_l := (case pa_bo_lvl_l p2 of None \<Rightarrow> False
                      | Some v \<Rightarrow> old_l \<and> lo bar \<le> v + mc_retest_tol_atr c * atr \<and> x \<ge> v \<and>
                                  (\<not> mc_retest_conf_close c \<or> x > mb_open bar)),
                  pa_retest_s := (case pa_bo_lvl_s p2 of None \<Rightarrow> False
                      | Some v \<Rightarrow> old_s \<and> hi bar \<ge> v - mc_retest_tol_atr c * atr \<and> x \<le> v \<and>
                                  (\<not> mc_retest_conf_close c \<or> x < mb_open bar))\<rparr>;
          end_l = (case pa_bo_lvl_l p3 of None \<Rightarrow> False
                   | Some v \<Rightarrow> old_l \<and> (x < v - mc_retest_inval_atr c * atr \<or>
                                mc_retest_max_bars c < bi - pa_bo_bar_l p3 \<or> \<not> trd_l));
          end_s = (case pa_bo_lvl_s p3 of None \<Rightarrow> False
                   | Some v \<Rightarrow> old_s \<and> (x > v + mc_retest_inval_atr c * atr \<or>
                                mc_retest_max_bars c < bi - pa_bo_bar_s p3 \<or> \<not> trd_s));
          p4 = (if end_l then p3\<lparr>pa_bo_lvl_l := None, pa_bo_bar_l := -1\<rparr> else p3)
      in if end_s then p4\<lparr>pa_bo_lvl_s := None, pa_bo_bar_s := -1\<rparr> else p4)"

subsection \<open>Nearest opposing level\<close>

type_synonym named_level = "nreal \<times> string"

definition level_names :: "mtf_config \<Rightarrow> mtf_lvl \<Rightarrow> named_level list" where
  "level_names c v =
     (if mc_use_levels c
      then (if mc_lv_pd c then [(lv_pdh v, ''PDH''), (lv_pdl v, ''PDL'')] else []) @
           (if mc_lv_pw c then [(lv_pwh v, ''PWH''), (lv_pwl v, ''PWL'')] else []) @
           (if mc_lv_sess c then [(lv_psess_h v, ''sessH''), (lv_psess_l v, ''sessL'')] else []) @
           (if mc_lv_pdc c then [(lv_pdc v, ''PDC'')] else [])
      else [])"

definition gap_levels :: "mtf_config \<Rightarrow> (gap \<Rightarrow> real) \<Rightarrow> mtf_fvg \<Rightarrow> named_level list" where
  "gap_levels c edge v =
     (if mc_tp_fvg c
      then map (\<lambda>g. (Some (if mc_tp_fvg_ce c then gap_mid g else edge g), ''FVG'')) (fv_bull v @ fv_bear v)
      else [])"

definition consider_above :: "real \<Rightarrow> named_level \<Rightarrow> named_level \<Rightarrow> named_level" where
  "consider_above px lv out =
     (case fst lv of None \<Rightarrow> out
      | Some l \<Rightarrow> if l > px \<and> (case fst out of None \<Rightarrow> True | Some o' \<Rightarrow> l < o') then lv else out)"

definition consider_below :: "real \<Rightarrow> named_level \<Rightarrow> named_level \<Rightarrow> named_level" where
  "consider_below px lv out =
     (case fst lv of None \<Rightarrow> out
      | Some l \<Rightarrow> if l < px \<and> (case fst out of None \<Rightarrow> True | Some o' \<Rightarrow> l > o') then lv else out)"

definition nearest_above :: "mtf_config \<Rightarrow> mtf_lvl \<Rightarrow> mtf_fvg \<Rightarrow> real \<Rightarrow> named_level" where
  "nearest_above c v f px = fold (consider_above px) (level_names c v @ gap_levels c g_top f) (None, [])"

definition nearest_below :: "mtf_config \<Rightarrow> mtf_lvl \<Rightarrow> mtf_fvg \<Rightarrow> real \<Rightarrow> named_level" where
  "nearest_below c v f px = fold (consider_below px) (level_names c v @ gap_levels c g_bot f) (None, [])"

end
