(* ===== verification/Mtf_Strategy.thy ===== *)
theory Mtf_Strategy
  imports Mtf_Zones Civil_Time "HOL-Library.Monad_Syntax"
begin

section \<open>The multi-timeframe scalper\<close>

text \<open>
  \<open>MtfScalperStrategy\<close> of \<open>src/src/execution/mtf_scalper_strategy.hpp\<close>: the state, the pipeline
  that runs once per completed minute bar (session, VWAP, the engines of the two pattern theories,
  the signal gates, the confirmation timeframe, entries and exits) and the methods of the host
  contract.  The signal callback is the list of signals sent, when it is wired.
\<close>

subsection \<open>State\<close>

record mtf_clock =
  ck_start :: int
  ck_end :: int
  ck_day :: int
  ck_week :: int
  ck_in_session :: bool
  ck_prev_in_session :: bool
  ck_in_range :: bool
  ck_eod :: bool
  ck_vwap_pv :: real
  ck_vwap_v :: real
  ck_vwap :: nreal
  ck_vwap_key :: int

record mtf_pos =
  ps_dir :: int
  ps_entry :: nreal
  ps_atr :: nreal
  ps_bar :: int
  ps_r :: real
  ps_be :: bool
  ps_trail :: bool
  ps_exit :: bool
  ps_stop :: nreal
  ps_tp :: nreal
  ps_lv_tp :: nreal
  ps_lv_name :: string
  ps_reason :: string

record mtf_guard =
  gd_trades :: int
  gd_day_start :: nreal
  gd_closed :: real
  gd_equity :: real
  gd_streak :: int
  gd_last_loss :: int

record mtf_sig =
  sg_flag_l :: bool
  sg_flag_s :: bool
  sg_stoch_l :: bool
  sg_stoch_s :: bool
  sg_onset_l :: bool
  sg_onset_s :: bool
  sg_long :: bool
  sg_short :: bool
  sg_pend_l :: int
  sg_pend_s :: int
  sg_ref_l :: nreal
  sg_ref_s :: nreal
  sg_go_l :: bool
  sg_go_s :: bool

record mtf_funnel =
  fn_trig_l :: int
  fn_trig_s :: int
  fn_sig_l :: int
  fn_sig_s :: int
  fn_sess :: int
  fn_atr :: int
  fn_regime :: int
  fn_guard :: int
  fn_htf :: int
  fn_trend :: int
  fn_conf :: int

record mtf =
  mt_cfg :: mtf_config
  mt_cb :: bool
  mt_cur :: minute_bar
  mt_hist :: "minute_bar list"
  mt_index :: int
  mt_halted :: bool
  mt_halt_reason :: string
  mt_last :: real
  mt_clock :: mtf_clock
  mt_ind :: mtf_ind
  mt_htf :: mtf_htf
  mt_trend :: mtf_trend
  mt_lvl :: mtf_lvl
  mt_pat :: mtf_pat
  mt_fvg :: mtf_fvg
  mt_ref :: mtf_ref
  mt_sig :: mtf_sig
  mt_pos :: mtf_pos
  mt_guard :: mtf_guard
  mt_funnel :: mtf_funnel
  mt_out :: "(orb_signal \<times> real \<times> string) list"

definition funnel_new :: mtf_funnel where
  "funnel_new = \<lparr>fn_trig_l = 0, fn_trig_s = 0, fn_sig_l = 0, fn_sig_s = 0, fn_sess = 0, fn_atr = 0, fn_regime = 0,
     fn_guard = 0, fn_htf = 0, fn_trend = 0, fn_conf = 0\<rparr>"

definition flat :: mtf_pos where
  "flat = \<lparr>ps_dir = 0, ps_entry = None, ps_atr = None, ps_bar = -1, ps_r = 0, ps_be = False, ps_trail = False,
     ps_exit = False, ps_stop = None, ps_tp = None, ps_lv_tp = None, ps_lv_name = [], ps_reason = []\<rparr>"

text \<open>\<open>clear_position\<close> keeps the last \<open>r_unit_\<close>.\<close>

definition clear_position :: "mtf_pos \<Rightarrow> mtf_pos" where
  "clear_position p = flat\<lparr>ps_r := ps_r p\<rparr>"

text \<open>\<open>std::stoi\<close> of two characters; a window whose digits do not parse throws in the constructor.\<close>

definition parse_session_window :: "string \<Rightarrow> (int \<times> int) option" where
  "parse_session_window w =
     (if 9 \<le> length w \<and> w ! 4 = CHR ''-''
      then do {
        h1 \<leftarrow> stoi (take 2 w); m1 \<leftarrow> stoi (take 2 (drop 2 w));
        h2 \<leftarrow> stoi (take 2 (drop 5 w)); m2 \<leftarrow> stoi (take 2 (drop 7 w));
        Some (h1 * 60 + m1, h2 * 60 + m2) }
      else Some (540, 720))"

definition mtf_new :: "mtf_config \<Rightarrow> mtf option" where
  "mtf_new c =
     map_option (\<lambda>(s, e).
       \<lparr>mt_cfg = c, mt_cb = False, mt_cur = mb_new, mt_hist = [], mt_index = -1, mt_halted = False, mt_halt_reason = [],
        mt_last = 0,
        mt_clock = \<lparr>ck_start = s, ck_end = e, ck_day = -1, ck_week = -1, ck_in_session = False,
          ck_prev_in_session = False, ck_in_range = True, ck_eod = False, ck_vwap_pv = 0, ck_vwap_v = 0, ck_vwap = None,
          ck_vwap_key = -1\<rparr>,
        mt_ind = ind_new, mt_htf = ht_new, mt_trend = tr_new, mt_lvl = lv_new, mt_pat = pa_new, mt_fvg = fv_new,
        mt_ref = rf_new,
        mt_sig = \<lparr>sg_flag_l = False, sg_flag_s = False, sg_stoch_l = False, sg_stoch_s = False, sg_onset_l = False,
          sg_onset_s = False, sg_long = False, sg_short = False, sg_pend_l = -1, sg_pend_s = -1, sg_ref_l = None,
          sg_ref_s = None, sg_go_l = False, sg_go_s = False\<rparr>,
        mt_pos = flat,
        mt_guard = \<lparr>gd_trades = 0, gd_day_start = None, gd_closed = 0, gd_equity = mc_starting_balance c, gd_streak = 0,
          gd_last_loss = -100000\<rparr>,
        mt_funnel = funnel_new, mt_out = []\<rparr>) (parse_session_window (mc_session_window c))"

definition mtf_send :: "orb_signal \<Rightarrow> real \<Rightarrow> string \<Rightarrow> mtf \<Rightarrow> mtf" where
  "mtf_send sig px why s = (if mt_cb s then s\<lparr>mt_out := mt_out s @ [(sig, px, why)]\<rparr> else s)"

subsection \<open>Clock, day and session\<close>

text \<open>ET minute of the day, ET day, and Globex day of a bar.\<close>

definition bar_et :: "int \<Rightarrow> int \<Rightarrow> int \<times> int \<times> int" where
  "bar_et minute_utc rollover =
     (let utc = minute_utc * 60; et = utc - us_et_offset (gmtime utc) * 3600; day = cdiv et 86400; rem = cmod et 86400
      in (cdiv rem 60, day, if rollover \<le> cdiv rem 3600 then day + 1 else day))"

definition week_key_of :: "int \<Rightarrow> int" where
  "week_key_of gday = (let d = gday - 4 in if 0 \<le> d then cdiv d 7 else - cdiv (- d + 6) 7)"

definition in_window :: "int \<Rightarrow> int \<Rightarrow> int \<Rightarrow> bool" where
  "in_window a b m = (if b > a then a \<le> m \<and> m < b else a \<le> m \<or> m < b)"

definition new_day_guard :: "mtf_guard \<Rightarrow> mtf_guard" where
  "new_day_guard g = g\<lparr>gd_trades := 0, gd_closed := 0, gd_day_start := Some (gd_equity g)\<rparr>"

text \<open>The head of \<open>handle_completed_bar\<close>: history, day and week rollover, session window.\<close>

definition begin_bar :: "minute_bar \<Rightarrow> mtf \<Rightarrow> mtf" where
  "begin_bar bar s =
     (let c = mt_cfg s; ck = mt_clock s;
          (et_mod, et_day, gday) = bar_et (mb_minute bar) (mc_day_rollover_hour_et c);
          wkey = week_key_of gday; new_day = (gday \<noteq> ck_day ck); new_week = (wkey \<noteq> ck_week ck);
          v1 = (if new_day then roll_day gday (mt_lvl s) else mt_lvl s);
          v2 = (if new_week then roll_week wkey v1 else v1);
          epoch = mb_minute bar * 60
      in s\<lparr>mt_index := mt_index s + 1, mt_hist := push_cap 4096 bar (mt_hist s),
           mt_lvl := day_week_bars bar v2,
           mt_guard := (if new_day then new_day_guard (mt_guard s) else mt_guard s),
           mt_clock := ck\<lparr>ck_day := gday, ck_week := wkey, ck_eod := (if new_day then False else ck_eod ck),
             ck_in_session := (\<not> mc_use_session c \<or> in_window (ck_start ck) (ck_end ck) et_mod),
             ck_in_range := ((mc_date_start_epoch c = 0 \<or> mc_date_start_epoch c \<le> epoch) \<and>
                             (mc_date_end_epoch c = 0 \<or> epoch \<le> mc_date_end_epoch c))\<rparr>\<rparr>)"

definition session_starts :: "mtf \<Rightarrow> bool" where
  "session_starts s = (mc_use_session (mt_cfg s) \<and> ck_in_session (mt_clock s) \<and> \<not> ck_prev_in_session (mt_clock s))"

definition vwap_step :: "mtf_config \<Rightarrow> bool \<Rightarrow> int \<Rightarrow> minute_bar \<Rightarrow> mtf_clock \<Rightarrow> mtf_clock" where
  "vwap_step c starts index bar ck =
     (let (et_mod, et_day, gday) = bar_et (mb_minute bar) (mc_day_rollover_hour_et c);
          key = (if mc_vwap_anchor c = ''rth'' then (if 570 \<le> et_mod then et_day else et_day - 1)
                 else if mc_vwap_anchor c = ''session_window'' then (if starts then index else ck_vwap_key ck)
                 else gday);
          ck1 = (if key \<noteq> ck_vwap_key ck then ck\<lparr>ck_vwap_key := key, ck_vwap_pv := 0, ck_vwap_v := 0\<rparr> else ck);
          typical = (hi bar + lo bar + mb_close bar) / 3
      in if 0 < mb_volume bar
         then (let pv = ck_vwap_pv ck1 + typical * of_int (mb_volume bar); v = ck_vwap_v ck1 + of_int (mb_volume bar)
               in ck1\<lparr>ck_vwap_pv := pv, ck_vwap_v := v, ck_vwap := Some (pv / v)\<rparr>)
         else ck1)"

text \<open>Every engine from the session levels to the retest; the bool tells whether the confirmation bar rolled.\<close>

definition run_engines :: "minute_bar \<Rightarrow> mtf \<Rightarrow> bool \<times> mtf" where
  "run_engines bar s0 =
     (let c = mt_cfg s0; bi = mt_index s0; hist = mt_hist s0; dir = ps_dir (mt_pos s0); starts = session_starts s0;
          lvl = session_levels c starts (ck_in_session (mt_clock s0)) bar (mt_lvl s0);
          ck = vwap_step c starts bi bar (mt_clock s0);
          (rolled, h0) = htf_aggregate c bar (mt_htf s0);
          i = ind_update c hist bar (mt_ind s0);
          h = htf_booleans c h0;
          t = regime_filter c i (derived_booleans c bar i (mt_trend s0));
          p1 = onset_engine c hist bar bi dir i t (flag_engine c hist bar i (mt_pat s0));
          f = fvg_engine c hist bar bi i h (mt_fvg s0);
          lvl' = sweep_engine c bar i lvl;
          r = smt_engine c hist (mt_ref s0);
          p = retest_engine c bar bi dir i t p1
      in (rolled, s0\<lparr>mt_clock := ck, mt_ind := i, mt_htf := h, mt_trend := t, mt_pat := p, mt_fvg := f, mt_lvl := lvl',
                    mt_ref := r\<rparr>))"

subsection \<open>Sizing and guardrails\<close>

definition fixed_sizing :: "mtf_config \<Rightarrow> bool" where
  "fixed_sizing c = (mc_exit_sizing c = ''fixed'')"

definition qty_calc :: "mtf_config \<Rightarrow> nreal \<Rightarrow> real \<Rightarrow> int" where
  "qty_calc c atr equity =
     (let sl = (if fixed_sizing c then Some (mc_sl_points c) else map_option (\<lambda>a. mc_sl_atr_mult c * a) atr)
      in if \<not> nlt (Some 0) sl \<or> equity \<le> 0 then 0
         else (let raw = equity * (mc_risk_pct c / 100) / (nz 0 sl * mc_point_value c);
                   q = \<lfloor>raw\<rfloor>; q1 = (if q < mc_min_qty c then mc_min_qty c else q)
               in if 0 < mc_qty_max c \<and> mc_qty_max c < q1 then mc_qty_max c else q1))"

definition cooldown_ok :: "mtf \<Rightarrow> bool" where
  "cooldown_ok s = (\<not> mc_use_cooldown (mt_cfg s) \<or> mc_cooldown_bars (mt_cfg s) < mt_index s - gd_last_loss (mt_guard s))"

definition trades_ok :: "mtf \<Rightarrow> bool" where
  "trades_ok s = (\<not> mc_use_max_trades (mt_cfg s) \<or> gd_trades (mt_guard s) < mc_max_daily_trades (mt_cfg s))"

definition daily_loss_ok :: "mtf \<Rightarrow> bool" where
  "daily_loss_ok s =
     (let c = mt_cfg s; g = mt_guard s; p = mt_pos s; dse = nz (gd_equity g) (gd_day_start g);
          unreal = (case ps_entry p of None \<Rightarrow> 0
                    | Some e \<Rightarrow> if ps_dir p = 0 then 0
                        else (mt_last s - e) * of_int (ps_dir p) * mc_point_value c *
                             of_int (qty_calc c (in_atr (mt_ind s)) (gd_equity g)));
          pnl = (if mc_daily_loss_closed_only c then gd_closed g else gd_equity g - dse + unreal)
      in \<not> mc_use_daily_loss c \<or> - (mc_daily_loss_pct c / 100) * dse < pnl)"

definition guards_ok :: "mtf \<Rightarrow> bool" where
  "guards_ok s = (cooldown_ok s \<and> trades_ok s \<and> daily_loss_ok s)"

subsection \<open>Signal gates\<close>

definition triggers :: "mtf \<Rightarrow> mtf_sig" where
  "triggers s =
     (let c = mt_cfg s; tm = mc_trigger_mode c; p = mt_pat s; i = mt_ind s;
          auto_flags = (tm = ''auto'' \<or> tm = ''flag_any'' \<or> tm = ''all'');
          stochs = (tm = ''auto'' \<or> tm = ''all'' \<or> tm = ''stoch'');
          dead = (tm = ''auto'' \<and> \<not> mc_auto_mode_flag_fix c);
          flag = (\<lambda>brk rt fl. if auto_flags then brk \<or> rt else if tm = ''flag_retest'' then rt
                    else if tm = ''flag_stop'' then fl else if tm = ''flag_close'' then brk else False);
          fl = (\<not> dead \<and> flag (pa_bull_break p) (pa_retest_l p) (pa_bull_flag p));
          fs = (\<not> dead \<and> flag (pa_bear_break p) (pa_retest_s p) (pa_bear_flag p));
          sl = (\<not> dead \<and> stochs \<and> stoch_xup c i);
          ss = (\<not> dead \<and> stochs \<and> stoch_xdn c i)
      in (mt_sig s)\<lparr>sg_flag_l := fl, sg_flag_s := fs, sg_stoch_l := sl, sg_stoch_s := ss,
           sg_onset_l := (pa_onset_l p \<and> \<not> fl \<and> \<not> sl), sg_onset_s := (pa_onset_s p \<and> \<not> fs \<and> \<not> ss)\<rparr>)"

definition trigger_long :: "mtf \<Rightarrow> mtf_sig \<Rightarrow> bool" where
  "trigger_long s g =
     (let c = mt_cfg s; tm = mc_trigger_mode c; fvg = (mc_use_fvg c \<and> fv_retest_l (mt_fvg s));
          sweep = (mc_use_levels c \<and> lv_sweep_l (mt_lvl s)); smt = rf_smt_l (mt_ref s)
      in if tm = ''onset'' then pa_onset_l (mt_pat s) else if tm = ''fvg'' then fvg else if tm = ''sweep'' then sweep
         else if tm = ''smt'' then smt
         else if tm = ''auto''
         then sg_flag_l g \<or> sg_stoch_l g \<or> sg_onset_l g \<or> (mc_use_fvg_entry c \<and> fvg) \<or>
              (mc_use_sweep_entry c \<and> sweep) \<or> (mc_use_smt_entry c \<and> smt)
         else sg_flag_l g \<or> sg_stoch_l g)"

definition trigger_short :: "mtf \<Rightarrow> mtf_sig \<Rightarrow> bool" where
  "trigger_short s g =
     (let c = mt_cfg s; tm = mc_trigger_mode c; fvg = (mc_use_fvg c \<and> fv_retest_s (mt_fvg s));
          sweep = (mc_use_levels c \<and> lv_sweep_s (mt_lvl s)); smt = rf_smt_s (mt_ref s)
      in if tm = ''onset'' then pa_onset_s (mt_pat s) else if tm = ''fvg'' then fvg else if tm = ''sweep'' then sweep
         else if tm = ''smt'' then smt
         else if tm = ''auto''
         then sg_flag_s g \<or> sg_stoch_s g \<or> sg_onset_s g \<or> (mc_use_fvg_entry c \<and> fvg) \<or>
              (mc_use_sweep_entry c \<and> sweep) \<or> (mc_use_smt_entry c \<and> smt)
         else sg_flag_s g \<or> sg_stoch_s g)"

text \<open>Higher-timeframe permission, entry_setup and regime direction, for longs and for shorts.\<close>

definition htf_allow :: "mtf \<Rightarrow> bool \<Rightarrow> bool \<Rightarrow> bool" where
  "htf_allow s relaxed long =
     (let c = mt_cfg s; h = mt_htf s
      in if relaxed then \<not> mc_use_mtf c \<or> \<not> (if long then ht_dn h else ht_up h)
         else (if long then ht_mtf_up h else ht_mtf_dn h))"

definition regime_dir :: "mtf \<Rightarrow> bool \<Rightarrow> bool \<Rightarrow> bool" where
  "regime_dir s relaxed long =
     (let h = mt_htf s
      in \<not> mc_regime_dir_only (mt_cfg s) \<or> \<not> tr_regime (mt_trend s) \<or>
         (if relaxed then \<not> (if long then ht_dn h else ht_up h) else (if long then ht_up h else ht_dn h)))"

definition full_confirmation :: "mtf \<Rightarrow> minute_bar \<Rightarrow> bool \<Rightarrow> bool" where
  "full_confirmation s bar long =
     (let c = mt_cfg s; i = mt_ind s; t = mt_trend s; x = Some (mb_close bar); vw = ck_vwap (mt_clock s)
      in if long then tr_mom_up t \<and> nlt (Some (mc_rsi_mid c)) (in_rsi i) \<and> (\<not> mc_use_vwap c \<or> nlt vw x)
         else tr_mom_dn t \<and> nlt (in_rsi i) (Some (mc_rsi_mid c)) \<and> (\<not> mc_use_vwap c \<or> nlt x vw))"

definition entry_setup :: "mtf \<Rightarrow> minute_bar \<Rightarrow> bool \<Rightarrow> bool \<Rightarrow> bool" where
  "entry_setup s bar relaxed long =
     ((if long then tr_up (mt_trend s) else tr_dn (mt_trend s)) \<and> htf_allow s relaxed long \<and>
      (mc_setup_mode (mt_cfg s) \<noteq> ''full'' \<or> full_confirmation s bar long))"

definition relaxed_side :: "mtf \<Rightarrow> mtf_sig \<Rightarrow> bool \<Rightarrow> bool" where
  "relaxed_side s g long =
     (mc_trigger_mode (mt_cfg s) = ''onset'' \<or>
      (mc_onset_neutral_htf_ok (mt_cfg s) \<and> (if long then sg_onset_l g else sg_onset_s g)))"

definition signal_side :: "mtf \<Rightarrow> minute_bar \<Rightarrow> mtf_sig \<Rightarrow> bool \<Rightarrow> bool" where
  "signal_side s bar g long =
     (let c = mt_cfg s; ck = mt_clock s; relaxed = relaxed_side s g long;
          im = im_gate c (mt_hist s) (mt_ref s)
      in (if long then mc_allow_longs c else mc_allow_shorts c) \<and> ck_in_range ck \<and> ck_in_session ck \<and>
         atr_ok c (mt_ind s) \<and> guards_ok s \<and> tr_regime (mt_trend s) \<and> regime_dir s relaxed long \<and>
         (\<not> mc_use_fvg_filter c \<or> (if long then fv_bull (mt_fvg s) else fv_bear (mt_fvg s)) \<noteq> []) \<and>
         level_confluence c bar (mt_ind s) (mt_lvl s) \<and> (if long then fst im else snd im) \<and>
         entry_setup s bar relaxed long \<and> (if long then trigger_long s g else trigger_short s g))"

definition count_funnel :: "mtf \<Rightarrow> mtf_sig \<Rightarrow> mtf_funnel \<Rightarrow> mtf_funnel" where
  "count_funnel s g f0 =
     (let c = mt_cfg s; ck = mt_clock s;
          tl = (mc_allow_longs c \<and> trigger_long s g); ts = (mc_allow_shorts c \<and> trigger_short s g);
          one = (\<lambda>b. if b then 1 else 0);
          f = f0\<lparr>fn_trig_l := fn_trig_l f0 + one tl, fn_trig_s := fn_trig_s f0 + one ts,
                 fn_sig_l := fn_sig_l f0 + one (sg_long g), fn_sig_s := fn_sig_s f0 + one (sg_short g)\<rparr>;
          relaxed = relaxed_side s g tl
      in if \<not> (tl \<or> ts) \<or> sg_long g \<or> sg_short g then f
         else if \<not> ck_in_range ck \<or> \<not> ck_in_session ck then f\<lparr>fn_sess := fn_sess f + 1\<rparr>
         else if \<not> atr_ok c (mt_ind s) then f\<lparr>fn_atr := fn_atr f + 1\<rparr>
         else if \<not> tr_regime (mt_trend s) then f\<lparr>fn_regime := fn_regime f + 1\<rparr>
         else if \<not> guards_ok s then f\<lparr>fn_guard := fn_guard f + 1\<rparr>
         else if \<not> htf_allow s relaxed tl \<or> \<not> regime_dir s relaxed tl then f\<lparr>fn_htf := fn_htf f + 1\<rparr>
         else if \<not> (if tl then tr_up (mt_trend s) else tr_dn (mt_trend s)) then f\<lparr>fn_trend := fn_trend f + 1\<rparr>
         else f\<lparr>fn_conf := fn_conf f + 1\<rparr>)"

definition signal_gates :: "minute_bar \<Rightarrow> mtf \<Rightarrow> mtf" where
  "signal_gates bar s =
     (let g0 = triggers s;
          g = g0\<lparr>sg_long := signal_side s bar g0 True, sg_short := signal_side s bar g0 False\<rparr>
      in s\<lparr>mt_sig := g, mt_funnel := count_funnel s g (mt_funnel s)\<rparr>)"

subsection \<open>Confirmation timeframe\<close>

definition confirmation :: "bool \<Rightarrow> mtf \<Rightarrow> mtf" where
  "confirmation rolled s =
     (let c = mt_cfg s; g0 = (mt_sig s)\<lparr>sg_go_l := False, sg_go_s := False\<rparr>; bi = mt_index s; dir = ps_dir (mt_pos s);
          f = mt_fvg s; v = mt_lvl s; ck = mt_clock s; t = mt_trend s;
          ok = (ck_in_session ck \<and> ck_in_range ck);
          g1 = (if sg_long g0 \<and> dir \<le> 0 \<and> sg_pend_l g0 < 0
                then g0\<lparr>sg_pend_l := bi, sg_ref_l := (if fv_retest_l f then fv_lvl_l f
                          else if lv_sweep_l v then lv_sweep_lvl_l v else None)\<rparr> else g0);
          g2 = (if sg_short g1 \<and> 0 \<le> dir \<and> sg_pend_s g1 < 0
                then g1\<lparr>sg_pend_s := bi, sg_ref_s := (if fv_retest_s f then fv_lvl_s f
                          else if lv_sweep_s v then lv_sweep_lvl_s v else None)\<rparr> else g1);
          g3 = (if rolled \<and> ha_done (ht_conf (mt_htf s)) \<noteq> []
                then (let cb = last (ha_done (ht_conf (mt_htf s))); mid = (hi cb + lo cb) / 2;
                          strong_l = (mb_close cb > mid \<and> (\<not> mc_conf_need_bull c \<or> mb_close cb > mb_open cb));
                          strong_s = (mb_close cb < mid \<and> (\<not> mc_conf_need_bull c \<or> mb_close cb < mb_open cb));
                          a = (if 0 \<le> sg_pend_l g2
                               then g2\<lparr>sg_go_l := (strong_l \<and> ok), sg_pend_l := -1, sg_ref_l := None\<rparr> else g2)
                      in if 0 \<le> sg_pend_s a then a\<lparr>sg_go_s := (strong_s \<and> ok), sg_pend_s := -1, sg_ref_s := None\<rparr> else a)
                else g2);
          g4 = (if 0 \<le> sg_pend_l g3 \<and> (\<not> tr_up_loose t \<or> mc_conf_max_wait c < bi - sg_pend_l g3 \<or> 0 < dir)
                then g3\<lparr>sg_pend_l := -1, sg_ref_l := None\<rparr> else g3);
          g5 = (if 0 \<le> sg_pend_s g4 \<and> (\<not> tr_dn_loose t \<or> mc_conf_max_wait c < bi - sg_pend_s g4 \<or> dir < 0)
                then g4\<lparr>sg_pend_s := -1, sg_ref_s := None\<rparr> else g4)
      in s\<lparr>mt_sig := (if mc_use_conf_tf c then g5 else g0)\<rparr>)"

subsection \<open>Entries\<close>

definition entry_reason :: "mtf \<Rightarrow> bool \<Rightarrow> string" where
  "entry_reason s long =
     (let c = mt_cfg s; g = mt_sig s; p = mt_pat s; side = (if long then ''long'' else ''short'')
      in if (if long then sg_go_l g else sg_go_s g) then ''conf_'' @ side
         else if (if long then sg_flag_l g else sg_flag_s g)
         then (if (if long then pa_retest_l p else pa_retest_s p) then ''flag_retest_'' else ''flag_break_'') @ side
         else if (if long then sg_stoch_l g else sg_stoch_s g) then ''stoch_'' @ side
         else if (if long then sg_onset_l g else sg_onset_s g)
         then (if (if long then pa_pull_l p else pa_pull_s p) then ''onset_pullback_'' else ''onset_struct_'') @ side
         else if mc_use_fvg_entry c \<and> (if long then fv_retest_l (mt_fvg s) else fv_retest_s (mt_fvg s))
         then ''fvg_retest_'' @ side
         else if mc_use_sweep_entry c \<and> (if long then lv_sweep_l (mt_lvl s) else lv_sweep_s (mt_lvl s))
         then ''sweep_'' @ side
         else if mc_use_smt_entry c \<and> (if long then rf_smt_l (mt_ref s) else rf_smt_s (mt_ref s))
         then ''smt_'' @ side
         else ''signal_'' @ side)"

definition r_unit :: "mtf_config \<Rightarrow> real \<Rightarrow> real" where
  "r_unit c atr = (if fixed_sizing c then mc_sl_points c else mc_sl_atr_mult c * atr)"

definition tp_distance :: "mtf_config \<Rightarrow> real \<Rightarrow> real" where
  "tp_distance c r = (if fixed_sizing c then mc_tp_points c else r * mc_rr_ratio c)"

text \<open>The opposing-liquidity target locked at the fill, with its name.\<close>

definition liquidity_target :: "mtf \<Rightarrow> int \<Rightarrow> real \<Rightarrow> real \<Rightarrow> named_level" where
  "liquidity_target s dir price atr =
     (let c = mt_cfg s;
          (lv, nm) = (if 0 < dir then nearest_above c (mt_lvl s) (mt_fvg s) price
                      else nearest_below c (mt_lvl s) (mt_fvg s) price)
      in if mc_tp_target_mode c = ''fixed_rr'' then (None, [])
         else (case lv of None \<Rightarrow> (None, [])
               | Some l \<Rightarrow> if mc_tp_min_dist_atr c * atr \<le> \<bar>l - price\<bar>
                   then (Some (if 0 < dir then l - mc_tp_buffer_atr c * atr else l + mc_tp_buffer_atr c * atr), nm)
                   else (None, [])))"

text \<open>The target: the liquidity level, capped in one mode, or the distance from the price.\<close>

definition target_of :: "mtf_config \<Rightarrow> int \<Rightarrow> real \<Rightarrow> real \<Rightarrow> nreal \<Rightarrow> real" where
  "target_of c dir price d lv =
     (let far = (if 0 < dir then price + d else price - d)
      in case lv of None \<Rightarrow> far
         | Some l \<Rightarrow> if mc_tp_target_mode c = ''opposing_cap_rr'' then (if 0 < dir then min l far else max l far) else l)"

definition open_position :: "int \<Rightarrow> real \<Rightarrow> string \<Rightarrow> mtf \<Rightarrow> mtf" where
  "open_position dir price reason s =
     (let c = mt_cfg s; atr = nz 0 (in_atr (mt_ind s)); r = r_unit c atr;
          (lv, nm) = liquidity_target s dir price atr;
          p = \<lparr>ps_dir = dir, ps_entry = Some price, ps_atr = in_atr (mt_ind s), ps_bar = mt_index s, ps_r = r, ps_be = False,
               ps_trail = False, ps_exit = False, ps_stop = Some (if 0 < dir then price - r else price + r),
               ps_tp = Some (target_of c dir price (tp_distance c r) lv), ps_lv_tp = lv, ps_lv_name = nm, ps_reason = reason\<rparr>
      in mtf_send (if 0 < dir then BUY else SELL) price reason
           (s\<lparr>mt_pos := p, mt_guard := (mt_guard s)\<lparr>gd_trades := gd_trades (mt_guard s) + 1\<rparr>\<rparr>))"

definition can_open :: "mtf \<Rightarrow> bool \<Rightarrow> bool" where
  "can_open s long =
     (let c = mt_cfg s; g = mt_sig s; dir = ps_dir (mt_pos s)
      in (if long then (sg_long g \<and> \<not> mc_use_conf_tf c) \<or> sg_go_l g else (sg_short g \<and> \<not> mc_use_conf_tf c) \<or> sg_go_s g) \<and>
         (dir = 0 \<or> (mc_allow_flips c \<and> (if long then dir < 0 else 0 < dir))) \<and>
         \<not> ps_exit (mt_pos s) \<and> 0 < qty_calc c (in_atr (mt_ind s)) (gd_equity (mt_guard s)))"

definition take_entry :: "minute_bar \<Rightarrow> mtf \<Rightarrow> mtf" where
  "take_entry bar s =
     (if can_open s True
      then (let t = open_position 1 (mb_close bar) (entry_reason s True) s
            in if pa_retest_l (mt_pat t) then t\<lparr>mt_pat := (mt_pat t)\<lparr>pa_bo_lvl_l := None, pa_bo_bar_l := -1\<rparr>\<rparr> else t)
      else if can_open s False
      then (let t = open_position (-1) (mb_close bar) (entry_reason s False) s
            in if pa_retest_s (mt_pat t) then t\<lparr>mt_pat := (mt_pat t)\<lparr>pa_bo_lvl_s := None, pa_bo_bar_s := -1\<rparr>\<rparr> else t)
      else s)"

subsection \<open>Exits\<close>

definition emit_flatten :: "real \<Rightarrow> string \<Rightarrow> mtf \<Rightarrow> mtf" where
  "emit_flatten price reason s = mtf_send FLATTEN_EOD price reason (s\<lparr>mt_pos := (mt_pos s)\<lparr>ps_exit := True\<rparr>\<rparr>)"

text \<open>The bracket of the open position after a bar: latches, ratcheted stop, target.\<close>

definition ratchet_bracket :: "mtf_config \<Rightarrow> nreal \<Rightarrow> real \<Rightarrow> mtf_pos \<Rightarrow> mtf_pos" where
  "ratchet_bracket c atr x p =
     (let avg = nz 0 (ps_entry p); up = 0 < ps_dir p; ea = (case ps_atr p of None \<Rightarrow> nz 0 atr | Some a \<Rightarrow> a);
          r = r_unit c ea; d = tp_distance c r;
          trail = (if fixed_sizing c then mc_sl_points c else mc_trail_atr_mult c * nz 0 atr);
          be = (ps_be p \<or> (mc_use_breakeven c \<and>
                 (if up then x > avg + d * mc_be_trigger_pct_tp c else x < avg - d * mc_be_trigger_pct_tp c)));
          tr = (ps_trail p \<or> (mc_use_trailing c \<and>
                 (if up then x > avg + r * mc_trail_start_r c else x < avg - r * mc_trail_start_r c)));
          ns0 = (if up then avg - r else avg + r);
          ns1 = (if be then (if up then max ns0 avg else min ns0 avg) else ns0);
          ns = (if tr then (if up then max ns1 (x - trail) else min ns1 (x + trail)) else ns1);
          stop = (case ps_stop p of None \<Rightarrow> ns | Some s0 \<Rightarrow> if up then max ns s0 else min ns s0)
      in p\<lparr>ps_r := r, ps_be := be, ps_trail := tr, ps_stop := Some stop,
           ps_tp := (if tr then None else Some (target_of c (ps_dir p) avg d (ps_lv_tp p)))\<rparr>)"

text \<open>The market exits, in the order they are tried.\<close>

definition exit_reason :: "mtf \<Rightarrow> string option" where
  "exit_reason s =
     (let c = mt_cfg s; i = mt_ind s; t = mt_trend s; h = mt_htf s; up = 0 < ps_dir (mt_pos s);
          osc = (mc_use_osc_exit c \<and>
                 (if up then nlt (in_stoch_k i) (in_stoch_d i) \<and> nle (in_stoch_d_prev i) (in_stoch_k_prev i) \<and>
                             nlt (Some (mc_stoch_ob c)) (in_stoch_k i)
                  else nlt (in_stoch_d i) (in_stoch_k i) \<and> nle (in_stoch_k_prev i) (in_stoch_d_prev i) \<and>
                       nlt (in_stoch_k i) (Some (mc_stoch_os c))));
          late = (mc_use_time_stop c \<and> mc_max_hold_bars c \<le> mt_index s - ps_bar (mt_pos s));
          turned = (mc_use_trend_exit c \<and> (\<not> (if up then tr_up t else tr_dn t) \<or>
                     (mc_use_mtf c \<and> mc_use_htf_exit c \<and> (if up then ht_dn h else ht_up h))))
      in if osc then Some ''Osc reversal'' else if late then Some ''Time stop''
         else if turned then Some ''Trend reversal'' else None)"

definition update_exits :: "minute_bar \<Rightarrow> mtf \<Rightarrow> mtf" where
  "update_exits bar s =
     (let t = s\<lparr>mt_pos := ratchet_bracket (mt_cfg s) (in_atr (mt_ind s)) (mb_close bar) (mt_pos s)\<rparr>
      in case exit_reason t of None \<Rightarrow> t | Some why \<Rightarrow> emit_flatten (mb_close bar) why t)"

definition bar_exits :: "minute_bar \<Rightarrow> mtf \<Rightarrow> mtf" where
  "bar_exits bar s =
     (if ps_dir (mt_pos s) \<noteq> 0 \<and> \<not> ps_exit (mt_pos s) \<and> ps_bar (mt_pos s) < mt_index s then update_exits bar s else s)"

definition session_exit :: "minute_bar \<Rightarrow> mtf \<Rightarrow> mtf" where
  "session_exit bar s =
     (let c = mt_cfg s; ck = mt_clock s;
          ending = (mc_use_session c \<and> mc_flat_at_session_end c \<and> ck_prev_in_session ck \<and> \<not> ck_in_session ck)
      in if (ending \<or> \<not> ck_in_range ck) \<and> ps_dir (mt_pos s) \<noteq> 0 \<and> \<not> ps_exit (mt_pos s)
         then emit_flatten (mb_close bar) ''Session End / Out of Range'' s else s)"

subsection \<open>The pipeline\<close>

definition warmed_up :: "mtf \<Rightarrow> bool" where
  "warmed_up s = (mc_warmup_bars (mt_cfg s) \<le> mt_index s + 1)"

definition end_bar :: "mtf \<Rightarrow> mtf" where
  "end_bar s = s\<lparr>mt_clock := (mt_clock s)\<lparr>ck_prev_in_session := ck_in_session (mt_clock s)\<rparr>\<rparr>"

definition mtf_bar :: "minute_bar \<Rightarrow> mtf \<Rightarrow> mtf" where
  "mtf_bar bar s =
     (if mb_volume bar = 0 then s
      else (let (rolled, t) = run_engines bar (begin_bar bar s); u = signal_gates bar t
            in if \<not> warmed_up u then end_bar u
               else end_bar (session_exit bar (bar_exits bar (take_entry bar (confirmation rolled u))))))"

definition mtf_tick :: "orb_tick \<Rightarrow> mtf \<Rightarrow> mtf" where
  "mtf_tick t s =
     (if mt_halted s then s
      else (let m = cdiv (cdiv (t_ts t) 1000000) 60;
                s1 = (if mb_minute (mt_cur s) < 0 then s\<lparr>mt_cur := (mt_cur s)\<lparr>mb_minute := m\<rparr>\<rparr> else s);
                s2 = (if m = mb_minute (mt_cur s1) then s1
                      else (mtf_bar (mt_cur s1) s1)\<lparr>mt_cur := mb_new\<lparr>mb_minute := m\<rparr>\<rparr>)
            in s2\<lparr>mt_cur := mb_update (t_price t) (t_size t) (mt_cur s2), mt_last := t_price t\<rparr>))"

subsection \<open>Host contract\<close>

definition sig_dir :: "orb_signal \<Rightarrow> int" where
  "sig_dir sig = (if sig = BUY then 1 else if sig = SELL then -1 else 0)"

definition mtf_set_callback :: "mtf \<Rightarrow> mtf" where
  "mtf_set_callback s = s\<lparr>mt_cb := True\<rparr>"

definition mtf_reset_session :: "mtf \<Rightarrow> mtf" where
  "mtf_reset_session s =
     s\<lparr>mt_pos := clear_position (mt_pos s), mt_guard := (mt_guard s)\<lparr>gd_trades := 0, gd_closed := 0\<rparr>,
       mt_funnel := funnel_new, mt_clock := (mt_clock s)\<lparr>ck_eod := False\<rparr>, mt_halted := False, mt_halt_reason := []\<rparr>"

definition account_close :: "mtf_config \<Rightarrow> int \<Rightarrow> real \<Rightarrow> mtf_guard \<Rightarrow> mtf_guard" where
  "account_close c index pnl g0 =
     (let g = g0\<lparr>gd_closed := gd_closed g0 + pnl, gd_equity := gd_equity g0 + pnl\<rparr>
      in if pnl < 0
         then (let k = gd_streak g + 1
               in g\<lparr>gd_streak := k, gd_last_loss := (if mc_cooldown_after_losses c \<le> k then index else gd_last_loss g)\<rparr>)
         else g\<lparr>gd_streak := 0\<rparr>)"

definition mtf_notify_trade_filled :: "orb_signal \<Rightarrow> real \<Rightarrow> mtf \<Rightarrow> mtf" where
  "mtf_notify_trade_filled sig pnl s =
     (let cdir = sig_dir sig in
      if cdir = 0 then s\<lparr>mt_pos := clear_position (mt_pos s)\<rparr>
      else (let t = s\<lparr>mt_guard := account_close (mt_cfg s) (mt_index s) pnl (mt_guard s)\<rparr>
            in if ps_dir (mt_pos t) = 0 \<or> cdir = ps_dir (mt_pos t)
               then t\<lparr>mt_pos := clear_position (mt_pos t)\<rparr> else t))"

definition init_bracket :: "mtf_config \<Rightarrow> mtf_pos \<Rightarrow> mtf_pos" where
  "init_bracket c p =
     (let px = nz 0 (ps_entry p); up = 0 < ps_dir p; r = r_unit c (nz 0 (ps_atr p)); d = tp_distance c r;
          ns0 = (if up then px - r else px + r);
          ns = (case ps_stop p of None \<Rightarrow> ns0
                | Some s0 \<Rightarrow> if 0 < s0 then (if up then max ns0 s0 else min ns0 s0) else ns0)
      in p\<lparr>ps_r := r, ps_stop := Some ns,
           ps_tp := Some (case ps_lv_tp p of Some l \<Rightarrow> l | None \<Rightarrow> if up then px + d else px - d)\<rparr>)"

definition mtf_notify_entry_filled :: "orb_signal \<Rightarrow> real \<Rightarrow> mtf \<Rightarrow> mtf" where
  "mtf_notify_entry_filled sig avg s =
     (let d = sig_dir sig in
      if d = 0 \<or> d \<noteq> ps_dir (mt_pos s) then s
      else s\<lparr>mt_pos := init_bracket (mt_cfg s) ((mt_pos s)\<lparr>ps_entry := Some avg\<rparr>)\<rparr>)"

definition mtf_reference_bar :: "real \<Rightarrow> real \<Rightarrow> real \<Rightarrow> mtf \<Rightarrow> mtf" where
  "mtf_reference_bar high low cls s = s\<lparr>mt_ref := on_reference_bar (mt_cfg s) high low cls (mt_ref s)\<rparr>"

definition check_time_flatten :: "int \<Rightarrow> int \<Rightarrow> mtf \<Rightarrow> mtf" where
  "check_time_flatten h m s =
     (let c = mt_cfg s; ck = mt_clock s; p = mt_pos s; t = h * 60 + m;
          past = (if ck_end ck > ck_start ck then t \<ge> ck_end ck \<or> t < ck_start ck
                  else t \<ge> ck_end ck \<and> t < ck_start ck)
      in if \<not> mc_use_session c \<or> \<not> mc_flat_at_session_end c \<or> ps_dir p = 0 \<or> ps_exit p \<or> ck_eod ck \<or> \<not> past then s
         else mtf_send FLATTEN_EOD (mt_last s) ''Session End / Out of Range''
                (s\<lparr>mt_clock := ck\<lparr>ck_eod := True\<rparr>, mt_pos := p\<lparr>ps_exit := True\<rparr>\<rparr>))"

definition mtf_halt :: "string \<Rightarrow> mtf \<Rightarrow> mtf" where
  "mtf_halt why s = s\<lparr>mt_halted := True, mt_halt_reason := why\<rparr>"

definition mtf_unhalt :: "mtf \<Rightarrow> mtf" where
  "mtf_unhalt s = (if mt_halted s then s\<lparr>mt_halted := False, mt_halt_reason := []\<rparr> else s)"

definition mtf_seed_state :: "int \<Rightarrow> real \<Rightarrow> real \<Rightarrow> mtf \<Rightarrow> mtf" where
  "mtf_seed_state trades closed_pnl total_pnl s =
     s\<lparr>mt_guard := (mt_guard s)\<lparr>gd_trades := trades, gd_closed := closed_pnl,
         gd_equity := mc_starting_balance (mt_cfg s) + total_pnl\<rparr>\<rparr>"

definition mtf_seed_trades :: "int \<Rightarrow> mtf \<Rightarrow> mtf" where
  "mtf_seed_trades n s = s\<lparr>mt_guard := (mt_guard s)\<lparr>gd_trades := n\<rparr>\<rparr>"

subsection \<open>The host's calls\<close>

datatype mtf_event =
    MTick orb_tick
  | MClosed orb_signal real
  | MFilled orb_signal real
  | MRef real real real
  | MTime int int
  | MHalt string
  | MUnhalt
  | MReset
  | MSeed int real real
  | MSeedTrades int

fun mtf_step :: "mtf \<Rightarrow> mtf_event \<Rightarrow> mtf" where
  "mtf_step s (MTick t) = mtf_tick t s"
| "mtf_step s (MClosed sig pnl) = mtf_notify_trade_filled sig pnl s"
| "mtf_step s (MFilled sig px) = mtf_notify_entry_filled sig px s"
| "mtf_step s (MRef h l x) = mtf_reference_bar h l x s"
| "mtf_step s (MTime h m) = check_time_flatten h m s"
| "mtf_step s (MHalt why) = mtf_halt why s"
| "mtf_step s MUnhalt = mtf_unhalt s"
| "mtf_step s MReset = mtf_reset_session s"
| "mtf_step s (MSeed n x y) = mtf_seed_state n x y s"
| "mtf_step s (MSeedTrades n) = mtf_seed_trades n s"

end
