(* ===== verification/Mtf_Props.thy ===== *)
theory Mtf_Props
  imports Mtf_Strategy
begin

section \<open>Properties of the multi-timeframe scalper\<close>

text \<open>
  The stop of an open position only moves with the market, an entry passes every guardrail, and
  the zones of the structure timeframe stop appearing once its bar history is full.
\<close>

subsection \<open>What the stages leave alone\<close>

named_theorems mtf_frame \<open>what a stage of the pipeline leaves alone\<close>

lemma begin_bar_frame [mtf_frame]:
  "mt_cfg (begin_bar bar s) = mt_cfg s" "mt_pos (begin_bar bar s) = mt_pos s" "mt_out (begin_bar bar s) = mt_out s"
  "mt_index (begin_bar bar s) = mt_index s + 1" "mt_cb (begin_bar bar s) = mt_cb s" "mt_fvg (begin_bar bar s) = mt_fvg s"
  "mt_htf (begin_bar bar s) = mt_htf s" "mt_sig (begin_bar bar s) = mt_sig s"
  by (simp_all add: begin_bar_def Let_def split: prod.split)

lemma run_engines_frame [mtf_frame]:
  assumes "run_engines bar s = (rolled, t)"
  shows "mt_cfg t = mt_cfg s" "mt_pos t = mt_pos s" "mt_out t = mt_out s" "mt_index t = mt_index s" "mt_cb t = mt_cb s"
    "mt_guard t = mt_guard s" "mt_sig t = mt_sig s"
  using assms by (auto simp: run_engines_def Let_def split: prod.splits)

lemma signal_gates_frame [mtf_frame]:
  "mt_cfg (signal_gates bar s) = mt_cfg s" "mt_pos (signal_gates bar s) = mt_pos s" "mt_out (signal_gates bar s) = mt_out s"
  "mt_index (signal_gates bar s) = mt_index s" "mt_cb (signal_gates bar s) = mt_cb s"
  "mt_guard (signal_gates bar s) = mt_guard s" "mt_fvg (signal_gates bar s) = mt_fvg s" "mt_htf (signal_gates bar s) = mt_htf s"
  "mt_clock (signal_gates bar s) = mt_clock s" "mt_ind (signal_gates bar s) = mt_ind s"
  "mt_trend (signal_gates bar s) = mt_trend s" "mt_last (signal_gates bar s) = mt_last s"
  by (simp_all add: signal_gates_def Let_def)

lemma confirmation_frame [mtf_frame]:
  "mt_cfg (confirmation r s) = mt_cfg s" "mt_pos (confirmation r s) = mt_pos s" "mt_out (confirmation r s) = mt_out s"
  "mt_index (confirmation r s) = mt_index s" "mt_cb (confirmation r s) = mt_cb s" "mt_guard (confirmation r s) = mt_guard s"
  "mt_fvg (confirmation r s) = mt_fvg s" "mt_htf (confirmation r s) = mt_htf s" "mt_clock (confirmation r s) = mt_clock s"
  "mt_ind (confirmation r s) = mt_ind s"
proof -
  obtain g where "confirmation r s = s\<lparr>mt_sig := g\<rparr>" unfolding confirmation_def Let_def by blast
  then show "mt_cfg (confirmation r s) = mt_cfg s" "mt_pos (confirmation r s) = mt_pos s"
    "mt_out (confirmation r s) = mt_out s" "mt_index (confirmation r s) = mt_index s"
    "mt_cb (confirmation r s) = mt_cb s" "mt_guard (confirmation r s) = mt_guard s"
    "mt_fvg (confirmation r s) = mt_fvg s" "mt_htf (confirmation r s) = mt_htf s"
    "mt_clock (confirmation r s) = mt_clock s" "mt_ind (confirmation r s) = mt_ind s"
    by simp_all
qed

lemma mtf_send_frame [mtf_frame]:
  "mt_cfg (mtf_send sig px why s) = mt_cfg s" "mt_pos (mtf_send sig px why s) = mt_pos s"
  "mt_index (mtf_send sig px why s) = mt_index s" "mt_cb (mtf_send sig px why s) = mt_cb s"
  "mt_guard (mtf_send sig px why s) = mt_guard s" "mt_fvg (mtf_send sig px why s) = mt_fvg s"
  "mt_htf (mtf_send sig px why s) = mt_htf s" "mt_clock (mtf_send sig px why s) = mt_clock s"
  "mt_pat (mtf_send sig px why s) = mt_pat s" "mt_ind (mtf_send sig px why s) = mt_ind s"
  by (simp_all add: mtf_send_def)

lemma open_position_frame [mtf_frame]:
  "mt_cfg (open_position d px why s) = mt_cfg s" "mt_index (open_position d px why s) = mt_index s"
  "mt_cb (open_position d px why s) = mt_cb s" "mt_fvg (open_position d px why s) = mt_fvg s"
  "mt_htf (open_position d px why s) = mt_htf s" "mt_clock (open_position d px why s) = mt_clock s"
  "ps_dir (mt_pos (open_position d px why s)) = d" "ps_bar (mt_pos (open_position d px why s)) = mt_index s"
  "gd_trades (mt_guard (open_position d px why s)) = gd_trades (mt_guard s) + 1"
  by (simp_all add: open_position_def mtf_frame Let_def split: prod.split)

lemma take_entry_frame [mtf_frame]:
  "mt_cfg (take_entry bar s) = mt_cfg s" "mt_index (take_entry bar s) = mt_index s" "mt_cb (take_entry bar s) = mt_cb s"
  "mt_fvg (take_entry bar s) = mt_fvg s" "mt_htf (take_entry bar s) = mt_htf s" "mt_clock (take_entry bar s) = mt_clock s"
  by (simp_all add: take_entry_def mtf_frame Let_def)

lemma emit_flatten_frame [mtf_frame]:
  "mt_cfg (emit_flatten px why s) = mt_cfg s" "mt_index (emit_flatten px why s) = mt_index s"
  "mt_cb (emit_flatten px why s) = mt_cb s" "mt_guard (emit_flatten px why s) = mt_guard s"
  "mt_fvg (emit_flatten px why s) = mt_fvg s" "mt_htf (emit_flatten px why s) = mt_htf s"
  "mt_clock (emit_flatten px why s) = mt_clock s"
  "mt_pos (emit_flatten px why s) = (mt_pos s)\<lparr>ps_exit := True\<rparr>"
  by (simp_all add: emit_flatten_def mtf_frame)

lemma exits_frame [mtf_frame]:
  "mt_cfg (bar_exits bar s) = mt_cfg s" "mt_index (bar_exits bar s) = mt_index s" "mt_cb (bar_exits bar s) = mt_cb s"
  "mt_guard (bar_exits bar s) = mt_guard s" "mt_fvg (bar_exits bar s) = mt_fvg s" "mt_htf (bar_exits bar s) = mt_htf s"
  "mt_clock (bar_exits bar s) = mt_clock s"
  "mt_cfg (session_exit bar s) = mt_cfg s" "mt_index (session_exit bar s) = mt_index s"
  "mt_cb (session_exit bar s) = mt_cb s" "mt_guard (session_exit bar s) = mt_guard s"
  "mt_fvg (session_exit bar s) = mt_fvg s" "mt_htf (session_exit bar s) = mt_htf s"
  by (simp_all add: bar_exits_def update_exits_def session_exit_def mtf_frame Let_def split: option.split)

lemma end_bar_frame [mtf_frame]:
  "mt_cfg (end_bar s) = mt_cfg s" "mt_index (end_bar s) = mt_index s" "mt_pos (end_bar s) = mt_pos s"
  "mt_out (end_bar s) = mt_out s" "mt_guard (end_bar s) = mt_guard s" "mt_fvg (end_bar s) = mt_fvg s"
  "mt_htf (end_bar s) = mt_htf s" "mt_cb (end_bar s) = mt_cb s"
  by (simp_all add: end_bar_def)

subsection \<open>The stop of an open position\<close>

text \<open>The second stop is on the market side of the first, for a position of that direction.\<close>

definition tighter_stop :: "int \<Rightarrow> nreal \<Rightarrow> nreal \<Rightarrow> bool" where
  "tighter_stop dir a b = (a \<noteq> None \<longrightarrow> (if 0 < dir then nle a b else nle b a))"

text \<open>The same trade with a stop not loosened, or no trade, or one opened at a later bar.\<close>

definition ratcheted :: "int \<Rightarrow> mtf_pos \<Rightarrow> mtf_pos \<Rightarrow> bool" where
  "ratcheted index p q =
     (ps_dir q = 0 \<or> index < ps_bar q \<or>
      (ps_bar q = ps_bar p \<and> ps_dir q = ps_dir p \<and> tighter_stop (ps_dir p) (ps_stop p) (ps_stop q)))"

lemma tighter_refl [simp]: "tighter_stop d a a"
  by (cases a) (simp_all add: tighter_stop_def)

lemma tighter_trans: "tighter_stop d a b \<Longrightarrow> tighter_stop d b c \<Longrightarrow> tighter_stop d a c"
  by (cases a; cases b; cases c) (auto simp: tighter_stop_def split: if_splits)

lemma ratcheted_refl [simp]: "ratcheted k p p"
  by (simp add: ratcheted_def)

lemma ratchet_bracket_tighter:
  "ps_dir (ratchet_bracket c atr x p) = ps_dir p" "ps_bar (ratchet_bracket c atr x p) = ps_bar p"
  "tighter_stop (ps_dir p) (ps_stop p) (ps_stop (ratchet_bracket c atr x p))"
  by (simp_all add: ratchet_bracket_def Let_def tighter_stop_def split: option.split)

lemma init_bracket_tighter:
  assumes "0 < nz 0 (ps_stop p)"
  shows "ps_dir (init_bracket c (p\<lparr>ps_entry := e\<rparr>)) = ps_dir p" "ps_bar (init_bracket c (p\<lparr>ps_entry := e\<rparr>)) = ps_bar p"
    "tighter_stop (ps_dir p) (ps_stop p) (ps_stop (init_bracket c (p\<lparr>ps_entry := e\<rparr>)))"
  using assms by (auto simp: init_bracket_def Let_def tighter_stop_def nz_def split: option.splits)

lemma bar_exits_ratchet: "ratcheted k (mt_pos s) (mt_pos (bar_exits bar s))"
  by (simp add: bar_exits_def update_exits_def Let_def mtf_frame ratcheted_def ratchet_bracket_tighter split: option.split)

lemma session_exit_ratchet: "ratcheted k p (mt_pos s) \<Longrightarrow> ratcheted k p (mt_pos (session_exit bar s))"
  by (auto simp: session_exit_def Let_def mtf_frame ratcheted_def)

lemma take_entry_pos:
  "mt_pos (take_entry bar s) = mt_pos s \<or> (ps_bar (mt_pos (take_entry bar s)) = mt_index s \<and> ps_dir (mt_pos (take_entry bar s)) \<noteq> 0)"
  by (simp add: take_entry_def mtf_frame Let_def)

lemma ratcheted_then:
  "ratcheted k p q \<Longrightarrow> ratcheted k q r \<Longrightarrow> ratcheted k p r"
  by (auto simp: ratcheted_def intro: tighter_trans)

lemma mtf_bar_ratchet: "ratcheted (mt_index s) (mt_pos s) (mt_pos (mtf_bar bar s))"
proof (cases "mb_volume bar = 0")
  case False
  obtain rolled t where t: "run_engines bar (begin_bar bar s) = (rolled, t)" by (metis surj_pair)
  define u where "u = signal_gates bar t"
  define v where "v = confirmation rolled u"
  have pos: "mt_pos u = mt_pos s" "mt_index u = mt_index s + 1" "mt_pos v = mt_pos s" "mt_index v = mt_index s + 1"
    using run_engines_frame [OF t] by (simp_all add: u_def v_def mtf_frame)
  have bar: "mtf_bar bar s = (if \<not> warmed_up u then end_bar u else end_bar (session_exit bar (bar_exits bar (take_entry bar v))))"
    using False t by (simp add: mtf_bar_def u_def v_def Let_def)
  have "ratcheted (mt_index s) (mt_pos s) (mt_pos (take_entry bar v))"
    using take_entry_pos [of bar v] pos by (auto simp: ratcheted_def)
  then have "ratcheted (mt_index s) (mt_pos s) (mt_pos (bar_exits bar (take_entry bar v)))"
    by (rule ratcheted_then) (rule bar_exits_ratchet)
  then show ?thesis
    using session_exit_ratchet pos unfolding bar by (simp add: mtf_frame)
qed (simp add: mtf_bar_def)

lemma mtf_tick_ratchet: "ratcheted (mt_index s) (mt_pos s) (mt_pos (mtf_tick t s))"
  using mtf_bar_ratchet [of s "mt_cur s"] mtf_bar_ratchet [of "s\<lparr>mt_cur := c\<rparr>" c for c]
  by (auto simp: mtf_tick_def Let_def)

lemma mtf_bar_index: "mt_index s \<le> mt_index (mtf_bar bar s)"
proof -
  obtain rolled t where t: "run_engines bar (begin_bar bar s) = (rolled, t)" by (metis surj_pair)
  from run_engines_frame(4) [OF t] show ?thesis by (simp add: mtf_bar_def t mtf_frame Let_def)
qed

lemma mtf_step_index: "mt_index s \<le> mt_index (mtf_step s e)"
  using mtf_bar_index
  by (cases e) (auto simp: mtf_tick_def Let_def mtf_notify_trade_filled_def mtf_notify_entry_filled_def mtf_reference_bar_def
      check_time_flatten_def mtf_halt_def mtf_unhalt_def mtf_reset_session_def mtf_seed_state_def mtf_seed_trades_def mtf_frame)

definition positive_stop :: "mtf \<Rightarrow> bool" where
  "positive_stop s = (case ps_stop (mt_pos s) of None \<Rightarrow> True | Some x \<Rightarrow> 0 < x)"

fun stays_positive :: "mtf \<Rightarrow> mtf_event list \<Rightarrow> bool" where
  "stays_positive s [] = True"
| "stays_positive s (e # es) = (positive_stop s \<and> stays_positive (mtf_step s e) es)"

lemma filled_ratchet:
  assumes "positive_stop s"
  shows "ratcheted k (mt_pos s) (mt_pos (mtf_notify_entry_filled sig px s))"
proof (cases "ps_stop (mt_pos s)")
  case None
  then show ?thesis by (simp add: mtf_notify_entry_filled_def Let_def ratcheted_def init_bracket_def tighter_stop_def)
next
  case (Some x)
  with assms have "0 < nz 0 (ps_stop (mt_pos s))" by (simp add: positive_stop_def nz_def)
  from init_bracket_tighter [OF this] show ?thesis
    by (simp add: mtf_notify_entry_filled_def Let_def ratcheted_def)
qed

lemma ratcheted_clear [simp]: "ratcheted k p (clear_position q)" "ratcheted k p (p\<lparr>ps_exit := b\<rparr>)"
  by (simp_all add: ratcheted_def clear_position_def flat_def)

lemma mtf_step_ratchet:
  assumes "positive_stop s"
  shows "ratcheted (mt_index s) (mt_pos s) (mt_pos (mtf_step s e))"
  using filled_ratchet [OF assms] mtf_tick_ratchet
  by (cases e) (auto simp: mtf_notify_trade_filled_def Let_def mtf_reference_bar_def check_time_flatten_def mtf_halt_def
      mtf_unhalt_def mtf_reset_session_def mtf_seed_state_def mtf_seed_trades_def mtf_frame)

lemma ratcheted_later: "ratcheted k p q \<Longrightarrow> ratcheted k' q r \<Longrightarrow> k \<le> k' \<Longrightarrow> ratcheted k p r"
  by (auto simp: ratcheted_def intro: tighter_trans)

lemma mtf_run_ratchet: "stays_positive s es \<Longrightarrow> ratcheted (mt_index s) (mt_pos s) (mt_pos (run mtf_step s es))"
proof (induction es arbitrary: s)
  case (Cons e es)
  then have "ratcheted (mt_index s) (mt_pos s) (mt_pos (mtf_step s e))"
    "ratcheted (mt_index (mtf_step s e)) (mt_pos (mtf_step s e)) (mt_pos (run mtf_step s (e # es)))"
    by (auto intro: mtf_step_ratchet)
  then show ?case by (rule ratcheted_later) (rule mtf_step_index)
qed simp

text \<open>C37. The protective stop of an open trade only moves with the market: over any sequence of ticks,
  fill reports, clock checks and host calls, as long as the trade is still open and its stop price
  positive, a long's stop never falls and a short's never rises.\<close>

theorem mtf_stop_never_loosened:
  assumes "stays_positive s es" and "t = run mtf_step s es"
    and "ps_dir (mt_pos t) \<noteq> 0" and "ps_bar (mt_pos t) \<le> mt_index s"
  shows "ps_bar (mt_pos t) = ps_bar (mt_pos s) \<and> ps_dir (mt_pos t) = ps_dir (mt_pos s) \<and>
    (ps_stop (mt_pos s) \<noteq> None \<longrightarrow>
      (if 0 < ps_dir (mt_pos s) then nle (ps_stop (mt_pos s)) (ps_stop (mt_pos t))
       else nle (ps_stop (mt_pos t)) (ps_stop (mt_pos s))))"
  using mtf_run_ratchet [OF assms(1)] assms(2-4) by (simp add: ratcheted_def tighter_stop_def)

text \<open>A long at 20000 with its stop at 19990, whose fill is then reported at 19995.\<close>

definition demo_mtf :: mtf where
  "demo_mtf = (the (mtf_new mtf_defaults))\<lparr>mt_pos := flat\<lparr>ps_dir := 1, ps_entry := Some 20000, ps_atr := Some 5, ps_bar := -1,
     ps_stop := Some 19990\<rparr>\<rparr>"

lemma demo_mtf_facts: "mt_pos demo_mtf = flat\<lparr>ps_dir := 1, ps_entry := Some 20000, ps_atr := Some 5, ps_bar := -1,
     ps_stop := Some 19990\<rparr>" "mt_index demo_mtf = -1" "mt_cfg demo_mtf = mtf_defaults"
proof -
  have "mc_session_window mtf_defaults = ''0900-1200''" by (simp add: mtf_defaults_def)
  moreover have "parse_session_window ''0900-1200'' = Some (540, 720)" by code_simp
  ultimately show "mt_pos demo_mtf = flat\<lparr>ps_dir := 1, ps_entry := Some 20000, ps_atr := Some 5, ps_bar := -1,
     ps_stop := Some 19990\<rparr>" "mt_index demo_mtf = -1" "mt_cfg demo_mtf = mtf_defaults"
    by (simp_all add: demo_mtf_def mtf_new_def)
qed

theorem mtf_stop_never_loosened_witness:
  "nle (Some 19990) (ps_stop (mt_pos (run mtf_step demo_mtf [MFilled BUY 19995, MRef 5000 4990 4995])))"
proof -
  let ?es = "[MFilled BUY 19995, MRef 5000 4990 4995]" and ?t = "run mtf_step demo_mtf [MFilled BUY 19995, MRef 5000 4990 4995]"
  have cfg: "mc_exit_sizing mtf_defaults = ''atr''" "mc_sl_atr_mult mtf_defaults = 6 / 5"
    by (simp_all add: mtf_defaults_def)
  have "stays_positive demo_mtf ?es" "ps_dir (mt_pos ?t) = 1" "ps_bar (mt_pos ?t) = -1"
    by (simp_all add: demo_mtf_facts mtf_notify_entry_filled_def sig_dir_def init_bracket_def positive_stop_def flat_def nz_def
        r_unit_def fixed_sizing_def cfg mtf_reference_bar_def Let_def)
  then show ?thesis
    using mtf_stop_never_loosened [of demo_mtf ?es ?t] demo_mtf_facts by (simp add: flat_def)
qed

subsection \<open>Entries\<close>

text \<open>What the engines leave of the clock, and the gates a signal has passed.\<close>

lemma run_engines_clock:
  assumes "run_engines bar s = (rolled, t)"
  shows "ck_in_session (mt_clock t) = ck_in_session (mt_clock s)" "ck_in_range (mt_clock t) = ck_in_range (mt_clock s)"
    "mt_last t = mt_last s"
  using assms by (auto simp: run_engines_def vwap_step_def Let_def split: prod.splits if_splits)

lemma signal_side_passed:
  assumes "signal_side s bar g long"
  shows "if long then mc_allow_longs (mt_cfg s) else mc_allow_shorts (mt_cfg s)" "ck_in_range (mt_clock s)"
    "ck_in_session (mt_clock s)" "guards_ok s" "tr_regime (mt_trend s)"
  using assms by (auto simp: signal_side_def Let_def)

lemma signals_passed:
  "sg_long (mt_sig (signal_gates bar s)) \<Longrightarrow> \<exists>g. signal_side s bar g True"
  "sg_short (mt_sig (signal_gates bar s)) \<Longrightarrow> \<exists>g. signal_side s bar g False"
  by (auto simp: signal_gates_def Let_def)

lemma no_confirmation:
  assumes "\<not> mc_use_conf_tf (mt_cfg s)"
  shows "sg_go_l (mt_sig (confirmation r s)) = False" "sg_go_s (mt_sig (confirmation r s)) = False"
    "sg_long (mt_sig (confirmation r s)) = sg_long (mt_sig s)" "sg_short (mt_sig (confirmation r s)) = sg_short (mt_sig s)"
proof -
  have "mt_sig (confirmation r s) = (mt_sig s)\<lparr>sg_go_l := False, sg_go_s := False\<rparr>"
    using assms unfolding confirmation_def Let_def by simp
  then show "sg_go_l (mt_sig (confirmation r s)) = False" "sg_go_s (mt_sig (confirmation r s)) = False"
    "sg_long (mt_sig (confirmation r s)) = sg_long (mt_sig s)" "sg_short (mt_sig (confirmation r s)) = sg_short (mt_sig s)"
    by simp_all
qed

text \<open>The signals a stage sends.\<close>

lemma open_position_out: "mt_out (open_position d px why s) =
    mt_out s @ (if mt_cb s then [(if 0 < d then BUY else SELL, px, why)] else [])"
  by (simp add: open_position_def mtf_send_def Let_def split: prod.split)

lemma take_entry_cases:
  "(take_entry bar s = s \<and> \<not> can_open s True \<and> \<not> can_open s False) \<or>
   (\<exists>long why. can_open s long \<and> mt_out (take_entry bar s) =
      mt_out s @ (if mt_cb s then [(if long then BUY else SELL, mb_close bar, why)] else []) \<and>
      mt_guard (take_entry bar s) = (mt_guard s)\<lparr>gd_trades := gd_trades (mt_guard s) + 1\<rparr>)"
proof (cases "can_open s True")
  case True
  then have "mt_out (take_entry bar s) = mt_out s @ (if mt_cb s then [(BUY, mb_close bar, entry_reason s True)] else [])"
    "mt_guard (take_entry bar s) = (mt_guard s)\<lparr>gd_trades := gd_trades (mt_guard s) + 1\<rparr>"
    by (simp_all add: take_entry_def open_position_out Let_def) (simp_all add: open_position_def mtf_frame Let_def split: prod.split)
  with True show ?thesis by (intro disjI2 exI [of _ True] exI [of _ "entry_reason s True"]) simp
next
  case False
  then show ?thesis
  proof (cases "can_open s False")
    case True
    with False have "mt_out (take_entry bar s) = mt_out s @ (if mt_cb s then [(SELL, mb_close bar, entry_reason s False)] else [])"
      "mt_guard (take_entry bar s) = (mt_guard s)\<lparr>gd_trades := gd_trades (mt_guard s) + 1\<rparr>"
      by (simp_all add: take_entry_def open_position_out Let_def) (simp_all add: open_position_def mtf_frame Let_def split: prod.split)
    with True show ?thesis by (intro disjI2 exI [of _ False] exI [of _ "entry_reason s False"]) simp
  qed (simp add: take_entry_def)
qed

lemma exits_out:
  "\<exists>fl. mt_out (session_exit bar (bar_exits bar s)) = mt_out s @ fl \<and> (\<forall>x\<in>set fl. fst x = FLATTEN_EOD)"
proof -
  have one: "\<exists>fl. mt_out (bar_exits bar s) = mt_out s @ fl \<and> (\<forall>x\<in>set fl. fst x = FLATTEN_EOD)"
    by (simp add: bar_exits_def update_exits_def emit_flatten_def mtf_send_def Let_def split: option.split)
  have "\<exists>fl. mt_out (session_exit bar u) = mt_out u @ fl \<and> (\<forall>x\<in>set fl. fst x = FLATTEN_EOD)" for u
    by (simp add: session_exit_def emit_flatten_def mtf_send_def Let_def)
  then obtain fl' where "mt_out (session_exit bar (bar_exits bar s)) = mt_out (bar_exits bar s) @ fl'"
    "\<forall>x\<in>set fl'. fst x = FLATTEN_EOD" by blast
  moreover obtain fl where "mt_out (bar_exits bar s) = mt_out s @ fl" "\<forall>x\<in>set fl. fst x = FLATTEN_EOD"
    using one by blast
  ultimately show ?thesis by (intro exI [of _ "fl @ fl'"]) auto
qed

text \<open>The guardrails at a bar: computed on the state after the day rollover.\<close>

definition entry_allowed :: "mtf \<Rightarrow> minute_bar \<Rightarrow> bool \<Rightarrow> bool" where
  "entry_allowed s bar long =
     (let c = mt_cfg s; b = begin_bar bar s; g = mt_guard b
      in (if long then mc_allow_longs c else mc_allow_shorts c) \<and>
         mc_warmup_bars c \<le> mt_index s + 2 \<and> ck_in_session (mt_clock b) \<and> ck_in_range (mt_clock b) \<and>
         (mc_use_cooldown c \<longrightarrow> mc_cooldown_bars c < mt_index s + 1 - gd_last_loss g) \<and>
         (mc_use_max_trades c \<longrightarrow> gd_trades g < mc_max_daily_trades c) \<and>
         (mc_use_daily_loss c \<and> mc_daily_loss_closed_only c \<longrightarrow>
            - (mc_daily_loss_pct c / 100) * nz (gd_equity g) (gd_day_start g) < gd_closed g) \<and>
         \<not> ps_exit (mt_pos s) \<and>
         (ps_dir (mt_pos s) = 0 \<or> (mc_allow_flips c \<and> (if long then ps_dir (mt_pos s) < 0 else 0 < ps_dir (mt_pos s)))))"

lemma gates_of_frame:
  assumes "mt_cfg t = c" "mt_guard t = g" "mt_index t = k" and "guards_ok t"
  shows "(mc_use_cooldown c \<longrightarrow> mc_cooldown_bars c < k - gd_last_loss g) \<and>
    (mc_use_max_trades c \<longrightarrow> gd_trades g < mc_max_daily_trades c) \<and>
    (mc_use_daily_loss c \<and> mc_daily_loss_closed_only c \<longrightarrow>
       - (mc_daily_loss_pct c / 100) * nz (gd_equity g) (gd_day_start g) < gd_closed g)"
proof -
  have "cooldown_ok t" "trades_ok t" "daily_loss_ok t" using assms(4) by (simp_all add: guards_ok_def)
  then show ?thesis
    unfolding cooldown_ok_def trades_ok_def daily_loss_ok_def Let_def assms(1-3) by (intro conjI impI) simp_all
qed

lemma entry_allowed_intro:
  assumes "run_engines bar (begin_bar bar s) = (rolled, t)" and "\<not> mc_use_conf_tf (mt_cfg s)"
    and "warmed_up (signal_gates bar t)" and "can_open (confirmation rolled (signal_gates bar t)) long"
  shows "entry_allowed s bar long"
proof -
  let ?u = "signal_gates bar t"
  have cfg: "mt_cfg t = mt_cfg s" and pos: "mt_pos t = mt_pos s" and index: "mt_index t = mt_index s + 1"
    and guard: "mt_guard t = mt_guard (begin_bar bar s)"
    using run_engines_frame [OF assms(1)] by (simp_all add: begin_bar_frame)
  note clock = run_engines_clock(1,2) [OF assms(1)]
  have conf: "\<not> mc_use_conf_tf (mt_cfg ?u)" using assms(2) cfg by (simp add: mtf_frame)
  have warm: "mc_warmup_bars (mt_cfg s) \<le> mt_index s + 2"
    using assms(3) cfg index by (simp add: warmed_up_def signal_gates_frame)
  have side: "if long then sg_long (mt_sig ?u) else sg_short (mt_sig ?u)"
    using assms(4) by (cases long) (simp_all add: can_open_def Let_def no_confirmation [OF conf])
  have free: "\<not> ps_exit (mt_pos s)"
    "ps_dir (mt_pos s) = 0 \<or> (mc_allow_flips (mt_cfg s) \<and> (if long then ps_dir (mt_pos s) < 0 else 0 < ps_dir (mt_pos s)))"
    using assms(4) cfg pos unfolding can_open_def Let_def by (cases long; simp add: mtf_frame)+
  obtain g where g: "signal_side t bar g long" using side signals_passed [of bar t] by (cases long) auto
  have "guards_ok t" using signal_side_passed(4) [OF g] .
  then show ?thesis
    using gates_of_frame [OF cfg guard index] signal_side_passed(1-3) [OF g] warm free
    unfolding entry_allowed_def Let_def clock cfg by simp
qed


subsection \<open>Zones of the structure timeframe\<close>

lemma push_cap_full: "length xs = cap \<Longrightarrow> length (push_cap cap x xs) = cap"
  by (simp add: push_cap_def Let_def)

lemma last_n_subset: "set (last_n k xs) \<subseteq> set xs"
  by (simp add: last_n_def set_drop_subset)

lemma update_htf_full:
  assumes "length (ha_done a) = 8"
  shows "length (ha_done (update_htf m f s r bar a)) = 8"
  using assms by (simp add: update_htf_def htf_complete_def push_cap_full Let_def)

lemma aggregate_full:
  assumes "mc_fvg_struct_mode c" "length (ha_done (ht_struct h)) = 8"
  shows "length (ha_done (ht_struct (snd (htf_aggregate c bar h)))) = 8" "\<not> ht_rolled (snd (htf_aggregate c bar h))"
  using assms by (simp_all add: htf_aggregate_def Let_def update_htf_full)

lemma booleans_frame: "ht_struct (htf_booleans c h) = ht_struct h" "ht_rolled (htf_booleans c h) = ht_rolled h"
  by (simp_all add: htf_booleans_def Let_def)

lemma maintain_bars: "g_bar ` set (fst (fvg_maintain c bull bar bi gs)) \<subseteq> g_bar ` set gs"
proof -
  have "g_bar ` set (fst (foldr (fvg_step c bull bar bi) gs ([], None))) \<subseteq> g_bar ` set gs"
  proof (induction gs)
    case (Cons g gs)
    then show ?case by (auto simp: fvg_step_def)
  qed simp
  then show ?thesis by (simp add: fvg_maintain_def)
qed

lemma engine_no_new_zone:
  assumes "mc_fvg_struct_mode c" "\<not> ht_rolled h"
  shows "g_bar ` set (fv_bull (fvg_engine c hist bar bi i h v)) \<subseteq> g_bar ` set (fv_bull v) \<and>
    g_bar ` set (fv_bear (fvg_engine c hist bar bi i h v)) \<subseteq> g_bar ` set (fv_bear v)"
proof -
  have none: "new_zones c hist bar bi i h = ([], [])" using assms by (simp add: new_zones_def)
  have keep: "g_bar ` set (last_n k (fst (fvg_maintain c b bar bi gs))) \<subseteq> g_bar ` set gs" for k b gs
    by (rule subset_trans [OF image_mono [OF last_n_subset] maintain_bars])
  show ?thesis
    using keep [of _ True "fv_bull v"] keep [of _ False "fv_bear v"]
    by (simp add: fvg_engine_def none Let_def split_def)
qed

definition dry :: "mtf \<Rightarrow> mtf \<Rightarrow> bool" where
  "dry s t = (mt_cfg t = mt_cfg s \<and> length (ha_done (ht_struct (mt_htf t))) = 8 \<and>
     g_bar ` set (fv_bull (mt_fvg t)) \<subseteq> g_bar ` set (fv_bull (mt_fvg s)) \<and>
     g_bar ` set (fv_bear (mt_fvg t)) \<subseteq> g_bar ` set (fv_bear (mt_fvg s)))"

lemma dry_trans: "dry s t \<Longrightarrow> dry t u \<Longrightarrow> dry s u"
  by (simp add: dry_def) (meson subset_trans)

lemma dry_same: "mt_cfg t = mt_cfg s \<Longrightarrow> mt_htf t = mt_htf s \<Longrightarrow> mt_fvg t = mt_fvg s \<Longrightarrow>
    length (ha_done (ht_struct (mt_htf s))) = 8 \<Longrightarrow> dry s t"
  by (simp add: dry_def)

lemma engines_dry:
  assumes "mc_fvg_struct_mode (mt_cfg s)" "length (ha_done (ht_struct (mt_htf s))) = 8"
    and "run_engines bar s = (rolled, t)"
  shows "dry s t"
proof -
  let ?h = "htf_booleans (mt_cfg s) (snd (htf_aggregate (mt_cfg s) bar (mt_htf s)))"
  have "mt_htf t = ?h" and cfg: "mt_cfg t = mt_cfg s" and
    "mt_fvg t = fvg_engine (mt_cfg s) (mt_hist s) bar (mt_index s) (ind_update (mt_cfg s) (mt_hist s) bar (mt_ind s)) ?h (mt_fvg s)"
    using assms(3) by (auto simp: run_engines_def Let_def split_def)
  then show ?thesis
    using aggregate_full [OF assms(1,2)] assms(1) cfg
    by (simp add: dry_def booleans_frame engine_no_new_zone)
qed

lemma bar_dry:
  assumes "mc_fvg_struct_mode (mt_cfg s)" "length (ha_done (ht_struct (mt_htf s))) = 8"
  shows "dry s (mtf_bar bar s)"
proof (cases "mb_volume bar = 0")
  case True
  then show ?thesis using assms by (simp add: mtf_bar_def dry_def)
next
  case False
  obtain rolled t where t: "run_engines bar (begin_bar bar s) = (rolled, t)" by (metis surj_pair)
  have "dry (begin_bar bar s) t" by (rule engines_dry [OF _ _ t]) (simp_all add: begin_bar_frame assms)
  moreover have "mt_cfg (mtf_bar bar s) = mt_cfg t" "mt_htf (mtf_bar bar s) = mt_htf t" "mt_fvg (mtf_bar bar s) = mt_fvg t"
    using False by (simp_all add: mtf_bar_def t mtf_frame Let_def)
  ultimately show ?thesis by (simp add: dry_def begin_bar_frame)
qed

lemma host_frame:
  assumes "\<nexists>t. e = MTick t"
  shows "mt_cfg (mtf_step s e) = mt_cfg s" "mt_htf (mtf_step s e) = mt_htf s" "mt_fvg (mtf_step s e) = mt_fvg s"
  using assms
  by (cases e; simp add: mtf_notify_trade_filled_def mtf_notify_entry_filled_def mtf_reference_bar_def check_time_flatten_def
      mtf_halt_def mtf_unhalt_def mtf_reset_session_def mtf_seed_state_def mtf_seed_trades_def mtf_send_frame Let_def)+

lemma step_dry:
  assumes "mc_fvg_struct_mode (mt_cfg s)" "length (ha_done (ht_struct (mt_htf s))) = 8"
  shows "dry s (mtf_step s e)"
proof (cases "\<exists>t. e = MTick t")
  case True
  then obtain t where e: "e = MTick t" by blast
  have plain: "dry s (mtf_bar (mt_cur s) s)" by (rule bar_dry [OF assms])
  have fresh: "dry s (mtf_bar y (s\<lparr>mt_cur := x\<rparr>))" for x y
    using bar_dry [of "s\<lparr>mt_cur := x\<rparr>" y] assms by (simp add: dry_def)
  have cur: "dry s (u\<lparr>mt_cur := x, mt_last := z\<rparr>) = dry s u" "dry s (u\<lparr>mt_cur := x\<rparr>) = dry s u" for u x z
    by (simp_all add: dry_def)
  have "dry s s" using assms(2) by (simp add: dry_def)
  then show ?thesis
    unfolding e mtf_step.simps mtf_tick_def Let_def by (simp only: cur plain fresh split: if_split) simp
next
  case False
  then show ?thesis using assms(2) by (intro dry_same host_frame) simp_all
qed

text \<open>With zones taken from the structure timeframe, the detection ends for good once eight of its
  bars have completed: whatever happens afterwards, every zone held is one created before.  (The code
  reads a change of the number of completed bars as "rolled over", and that number stops at eight.)\<close>

theorem structure_zones_run_dry:
  assumes "mc_fvg_struct_mode (mt_cfg s)" and "length (ha_done (ht_struct (mt_htf s))) = 8"
  shows "g_bar ` set (fv_bull (mt_fvg (run mtf_step s es))) \<subseteq> g_bar ` set (fv_bull (mt_fvg s)) \<and>
    g_bar ` set (fv_bear (mt_fvg (run mtf_step s es))) \<subseteq> g_bar ` set (fv_bear (mt_fvg s))"
proof -
  from assms have "dry s (run mtf_step s es)"
  proof (induction es arbitrary: s)
    case (Cons e es)
    have "dry s (mtf_step s e)" by (rule step_dry) fact+
    moreover have "dry (mtf_step s e) (run mtf_step (mtf_step s e) es)"
      by (rule Cons.IH) (use \<open>dry s (mtf_step s e)\<close> Cons.prems in \<open>simp_all add: dry_def\<close>)
    ultimately show ?case by (simp add: dry_trans)
  qed (simp add: dry_def)
  then show ?thesis by (simp add: dry_def)
qed

text \<open>Eight completed structure bars, then ticks of two more minutes: no zone.\<close>

definition demo_full :: mtf where
  "demo_full = (the (mtf_new mtf_defaults))\<lparr>mt_cfg := mtf_defaults\<lparr>mc_use_fvg := True, mc_fvg_struct_mode := True\<rparr>,
     mt_htf := ht_new\<lparr>ht_struct := ha_new\<lparr>ha_done := replicate 8 mb_new\<rparr>\<rparr>, mt_fvg := fv_new\<rparr>"

theorem structure_zones_run_dry_witness:
  "fv_bull (mt_fvg (run mtf_step demo_full [MTick \<lparr>t_ts = 60000000, t_price = 100, t_size = 1, t_is_buy = True\<rparr>,
      MTick \<lparr>t_ts = 600000000, t_price = 200, t_size = 1, t_is_buy = True\<rparr>])) = []"
proof -
  have "mc_fvg_struct_mode (mt_cfg demo_full)" "length (ha_done (ht_struct (mt_htf demo_full))) = 8"
    "fv_bull (mt_fvg demo_full) = []"
    by (simp_all add: demo_full_def fv_new_def ht_new_def ha_new_def)
  then have "fv_bull (mt_fvg (run mtf_step demo_full es)) = []" for es
    using structure_zones_run_dry [of demo_full es] by simp
  then show ?thesis by blast
qed


text \<open>A bar that dips under the prior day's low and closes back above it, with the filters off: a long.\<close>

definition sweep_config :: mtf_config where
  "sweep_config = mtf_defaults\<lparr>mc_use_session := False, mc_use_atr_floor := False, mc_use_cooldown := False,
     mc_use_daily_loss := False, mc_use_regime := False, mc_regime_bars := 0, mc_regime_dir_only := False,
     mc_use_mtf := False, mc_trigger_mode := ''sweep'', mc_require_price_beyond_fast := False,
     mc_exit_sizing := ''fixed'', mc_lv_pw := False, mc_lv_sess := False, mc_warmup_bars := 0\<rparr>"

definition sweep_bar :: minute_bar where
  "sweep_bar = \<lparr>mb_minute = 0, mb_open = 19985, mb_high = Some 20010, mb_low = Some 19980, mb_close = 20000, mb_volume = 10\<rparr>"

definition demo_sweep :: mtf where
  "demo_sweep = (the (mtf_new mtf_defaults))\<lparr>mt_cfg := sweep_config, mt_cb := True,
     mt_ind := ind_new\<lparr>in_ema_slow := Some 0\<rparr>, mt_lvl := lv_new\<lparr>lv_pdl := Some 19990\<rparr>\<rparr>"

lemma demo_sweep_facts:
  "mt_cfg demo_sweep = sweep_config" "mt_cb demo_sweep = True" "mt_ind demo_sweep = ind_new\<lparr>in_ema_slow := Some 0\<rparr>"
  "mt_lvl demo_sweep = lv_new\<lparr>lv_pdl := Some 19990\<rparr>" "mt_pos demo_sweep = flat" "mt_index demo_sweep = -1"
  "gd_trades (mt_guard demo_sweep) = 0" "gd_equity (mt_guard demo_sweep) = 25000" "mt_out demo_sweep = []"
  "ck_in_range (mt_clock demo_sweep) = True" "mt_hist demo_sweep = []" "mt_trend demo_sweep = tr_new"
proof -
  have "mc_session_window mtf_defaults = ''0900-1200''" "mc_starting_balance mtf_defaults = 25000"
    by (simp_all add: mtf_defaults_def)
  moreover have "parse_session_window ''0900-1200'' = Some (540, 720)" by code_simp
  ultimately show "mt_cfg demo_sweep = sweep_config" "mt_cb demo_sweep = True" "mt_ind demo_sweep = ind_new\<lparr>in_ema_slow := Some 0\<rparr>"
    "mt_lvl demo_sweep = lv_new\<lparr>lv_pdl := Some 19990\<rparr>" "mt_pos demo_sweep = flat" "mt_index demo_sweep = -1"
    "gd_trades (mt_guard demo_sweep) = 0" "gd_equity (mt_guard demo_sweep) = 25000" "mt_out demo_sweep = []"
    "ck_in_range (mt_clock demo_sweep) = True" "mt_hist demo_sweep = []" "mt_trend demo_sweep = tr_new"
    by (simp_all add: demo_sweep_def mtf_new_def)
qed

lemma sweep_config_facts:
  "mc_use_session sweep_config = False" "mc_use_atr_floor sweep_config = False" "mc_use_cooldown sweep_config = False"
  "mc_use_daily_loss sweep_config = False" "mc_use_regime sweep_config = False" "mc_regime_bars sweep_config = 0"
  "mc_regime_dir_only sweep_config = False" "mc_use_mtf sweep_config = False" "mc_trigger_mode sweep_config = ''sweep''"
  "mc_exit_sizing sweep_config = ''fixed''" "mc_lv_pw sweep_config = False" "mc_lv_sess sweep_config = False"
  "mc_warmup_bars sweep_config = 0" "mc_lv_pd sweep_config = True" "mc_use_levels sweep_config = True"
  "mc_allow_longs sweep_config = True" "mc_use_conf_tf sweep_config = False" "mc_use_fvg_filter sweep_config = False"
  "mc_use_lv_filter sweep_config = False" "mc_use_im_filter sweep_config = False" "mc_setup_mode sweep_config = ''relaxed''"
  "mc_use_max_trades sweep_config = True" "mc_max_daily_trades sweep_config = 20" "mc_sweep_pen_atr sweep_config = 0"
  "mc_require_price_beyond_fast sweep_config = False" "mc_ema_slow_len sweep_config = 21" "mc_date_start_epoch sweep_config = 0"
  "mc_date_end_epoch sweep_config = 0" "mc_risk_pct sweep_config = 1" "mc_sl_points sweep_config = 15"
  "mc_point_value sweep_config = 2" "mc_min_qty sweep_config = 1" "mc_qty_max sweep_config = 0"
  "mc_onset_neutral_htf_ok sweep_config = True"
  by (simp_all add: sweep_config_def mtf_defaults_def)


lemma run_engines_parts:
  assumes "run_engines bar s = (rolled, t)"
  shows "mt_ind t = ind_update (mt_cfg s) (mt_hist s) bar (mt_ind s)"
    "mt_trend t = regime_filter (mt_cfg s) (mt_ind t) (derived_booleans (mt_cfg s) bar (mt_ind t) (mt_trend s))"
    "mt_lvl t = sweep_engine (mt_cfg s) bar (mt_ind t)
       (session_levels (mt_cfg s) (session_starts s) (ck_in_session (mt_clock s)) bar (mt_lvl s))"
    "mt_htf t = htf_booleans (mt_cfg s) (snd (htf_aggregate (mt_cfg s) bar (mt_htf s)))"
  using assms by (simp_all add: run_engines_def Let_def split_def) (auto simp del: not_None_eq)

lemma sweep_ind:
  defines "i \<equiv> ind_update sweep_config [sweep_bar] sweep_bar (ind_new\<lparr>in_ema_slow := Some 0\<rparr>)"
  shows "in_ema_fast i = Some 20000" "in_ema_slow i = Some (20000 / 11)" "in_atr i = Some 30"
proof -
  have bar: "hi sweep_bar = 20010" "lo sweep_bar = 19980" "mb_close sweep_bar = 20000"
    by (simp_all add: sweep_bar_def hi_def lo_def)
  show "in_ema_fast i = Some 20000" "in_ema_slow i = Some (20000 / 11)" "in_atr i = Some 30"
    by (simp_all add: i_def ind_update_def ind_ranks_def ind_dmi_def ind_atr_def ind_stoch_def ind_rsi_def ind_averages_def
        Let_def ind_new_def ema_next_def rma_next_def true_range_def close_before_def bar sweep_config_facts)
qed

lemma sweep_levels:
  "lv_pdl (roll_day k (lv_new\<lparr>lv_pdl := Some 19990\<rparr>)) = Some 19990"
  "lv_pdl_swept (roll_day k (lv_new\<lparr>lv_pdl := Some 19990\<rparr>)) = False" "lv_pdl_swept lv_new = False"
  by (simp_all add: roll_day_def lv_new_def Let_def)

lemma sweep_begun:
  defines "b \<equiv> begin_bar sweep_bar demo_sweep"
  shows "mt_hist b = [sweep_bar]" "lv_pdl (mt_lvl b) = Some 19990" "lv_pdl_swept (mt_lvl b) = False"
    "mt_trend b = tr_new" "mt_ind b = ind_new\<lparr>in_ema_slow := Some 0\<rparr>" "ck_in_session (mt_clock b)"
    "ck_in_range (mt_clock b)" "gd_trades (mt_guard b) = 0" "gd_equity (mt_guard b) = 25000"
proof -
  have keep: "lv_pdl (day_week_bars x v) = lv_pdl v" "lv_pdl_swept (day_week_bars x v) = lv_pdl_swept v"
    "lv_pdl (roll_week k v) = lv_pdl v" "lv_pdl_swept (roll_week k v) = lv_pdl_swept v" for x k v
    by (simp_all add: day_week_bars_def roll_week_def Let_def)
  show "mt_hist b = [sweep_bar]" "lv_pdl (mt_lvl b) = Some 19990" "lv_pdl_swept (mt_lvl b) = False"
    "mt_trend b = tr_new" "mt_ind b = ind_new\<lparr>in_ema_slow := Some 0\<rparr>" "ck_in_session (mt_clock b)"
    "ck_in_range (mt_clock b)" "gd_trades (mt_guard b) = 0" "gd_equity (mt_guard b) = 25000"
    by (simp_all add: b_def begin_bar_def Let_def split_def demo_sweep_facts sweep_config_facts push_cap_def keep
        sweep_levels new_day_guard_def)
qed

lemma sweep_run:
  assumes "run_engines sweep_bar (begin_bar sweep_bar demo_sweep) = (rolled, t)"
  shows "lv_sweep_l (mt_lvl t)" "tr_up (mt_trend t)" "tr_regime (mt_trend t)" "in_atr (mt_ind t) = Some 30"
proof -
  note parts = run_engines_parts [OF assms]
  have cfg: "mt_cfg (begin_bar sweep_bar demo_sweep) = sweep_config"
    by (simp add: begin_bar_frame demo_sweep_facts)
  have ind: "mt_ind t = ind_update sweep_config [sweep_bar] sweep_bar (ind_new\<lparr>in_ema_slow := Some 0\<rparr>)"
    using parts(1) by (simp add: cfg sweep_begun)
  show "in_atr (mt_ind t) = Some 30" unfolding ind by (rule sweep_ind)
  show "tr_regime (mt_trend t)"
    unfolding parts(2) cfg sweep_begun by (simp add: regime_filter_def sweep_config_facts derived_booleans_def tr_new_def Let_def)
  show "tr_up (mt_trend t)"
    unfolding parts(2) cfg sweep_begun
    by (simp add: regime_filter_def sweep_config_facts derived_booleans_def Let_def ind sweep_ind)
  have bar: "hi sweep_bar = 20010" "lo sweep_bar = 19980" "mb_close sweep_bar = 20000"
    by (simp_all add: sweep_bar_def hi_def lo_def)
  have keep: "lv_pdl (session_levels sweep_config a b x v) = lv_pdl v"
    "lv_pdl_swept (session_levels sweep_config a b x v) = lv_pdl_swept v" for a b x v
    by (simp_all add: session_levels_def Let_def)
  show "lv_sweep_l (mt_lvl t)"
    unfolding parts(3) cfg
    by (simp add: sweep_engine_def sweep_config_facts Let_def keep sweep_begun swept_low_def bar)
qed

lemma sweep_signal:
  assumes "run_engines sweep_bar (begin_bar sweep_bar demo_sweep) = (rolled, t)"
  shows "signal_side t sweep_bar g True"
proof -
  note fr = run_engines_frame [OF assms] run_engines_clock [OF assms] sweep_run [OF assms]
  have cfg: "mt_cfg t = sweep_config" and guard: "gd_trades (mt_guard t) = 0"
    using fr by (simp_all add: begin_bar_frame demo_sweep_facts sweep_begun)
  have "guards_ok t"
    by (simp add: guards_ok_def cooldown_ok_def trades_ok_def daily_loss_ok_def cfg guard sweep_config_facts Let_def)
  moreover have "ht_mtf_up (mt_htf t)"
    using run_engines_parts(4) [OF assms]
    by (simp add: htf_booleans_def Let_def begin_bar_frame demo_sweep_facts sweep_config_facts)
  ultimately show ?thesis
    using fr sweep_begun
    by (simp add: signal_side_def Let_def cfg sweep_config_facts atr_ok_def regime_dir_def level_confluence_def im_gate_def
        entry_setup_def htf_allow_def trigger_long_def relaxed_side_def)
qed

text \<open>What a bar sends: its entry, when the gates are open, comes first.\<close>

lemma bar_sends_entry:
  assumes "run_engines bar (begin_bar bar s) = (rolled, t)" and "mb_volume bar \<noteq> 0" and "warmed_up (signal_gates bar t)"
    and "can_open (confirmation rolled (signal_gates bar t)) True" and "mt_cb s"
  shows "\<exists>why fl. mt_out (mtf_bar bar s) = mt_out s @ (BUY, mb_close bar, why) # fl"
proof -
  define v where "v = confirmation rolled (signal_gates bar t)"
  have out: "mt_out v = mt_out s" "mt_cb v" using run_engines_frame [OF assms(1)] assms(5) by (simp_all add: v_def mtf_frame)
  have "mt_out (take_entry bar v) = mt_out v @ [(BUY, mb_close bar, entry_reason v True)]"
    using assms(4) out by (simp add: take_entry_def open_position_out Let_def v_def)
  moreover obtain fl where "mt_out (session_exit bar (bar_exits bar (take_entry bar v))) = mt_out (take_entry bar v) @ fl"
    using exits_out by blast
  moreover have "mtf_bar bar s = end_bar (session_exit bar (bar_exits bar (take_entry bar v)))"
    using assms(1-3) by (simp add: mtf_bar_def v_def Let_def)
  ultimately show ?thesis using out by (simp add: mtf_frame)
qed


end
