(* ===== verification/Trend_Config.thy ===== *)
theory Trend_Config
  imports Text_Parse
begin

section \<open>Configuration of the trend strategy\<close>

text \<open>
  \<open>TrendConfig\<close> of \<open>src/src/execution/trend_strategy.hpp\<close>: every parameter with its default and
  the reader of the engine's JSON text.  The reader takes the first occurrence of the quoted key,
  whatever it stands in, up to the next colon.  \<open>std::atoi\<close> of a number outside \<open>int\<close> (undefined in
  C) and the infinities of \<open>std::atof\<close> are not modelled.
\<close>

subsection \<open>The JSON reader\<close>

text \<open>The text behind the first occurrence of a text.\<close>

fun behind_first :: "string \<Rightarrow> string \<Rightarrow> string option" where
  "behind_first needle [] = (if needle = [] then Some [] else None)"
| "behind_first needle (c # cs) =
     (if take (length needle) (c # cs) = needle then Some (drop (length needle) (c # cs)) else behind_first needle cs)"

definition jraw :: "string \<Rightarrow> string \<Rightarrow> string" where
  "jraw s key =
     (case behind_first (quoted key) s of None \<Rightarrow> []
      | Some r \<Rightarrow>
          (case dropWhile (\<lambda>c. c \<noteq> CHR '':'') r of [] \<Rightarrow> []
           | _ # r1 \<Rightarrow>
               (let v = dropWhile is_space r1
                in if v \<noteq> [] \<and> hd v = CHR 0x22
                   then (if CHR 0x22 \<in> set (tl v) then takeWhile (\<lambda>c. c \<noteq> CHR 0x22) (tl v) else [])
                   else takeWhile (\<lambda>c. c \<noteq> CHR '','' \<and> c \<noteq> CHR 0x7D \<and> \<not> is_space c) v)))"

definition atoi :: "string \<Rightarrow> int" where
  "atoi s = (case parse_int s of None \<Rightarrow> 0 | Some v \<Rightarrow> v)"

definition atof :: "string \<Rightarrow> real" where
  "atof s = (case stod s of None \<Rightarrow> 0 | Some v \<Rightarrow> v)"

definition jint :: "string \<Rightarrow> string \<Rightarrow> int \<Rightarrow> int" where
  "jint s k d = (let v = jraw s k in if v = [] then d else atoi v)"

definition jdbl :: "string \<Rightarrow> string \<Rightarrow> real \<Rightarrow> real" where
  "jdbl s k d = (let v = jraw s k in if v = [] then d else atof v)"

definition jbool :: "string \<Rightarrow> string \<Rightarrow> bool \<Rightarrow> bool" where
  "jbool s k d = (let v = jraw s k in if v = [] then d else v = ''true'' \<or> v = ''1'')"

definition jstr :: "string \<Rightarrow> string \<Rightarrow> string \<Rightarrow> string" where
  "jstr s k d = (let v = jraw s k in if v = [] then d else v)"

subsection \<open>The parameters\<close>

record trend_config =
  tc_mode :: string
  tc_tf_min :: int
  tc_win_start :: int
  tc_win_end :: int
  tc_session :: string
  tc_allow_longs :: bool
  tc_allow_shorts :: bool
  tc_exit_on_flip :: bool
  tc_time_stop_min :: int
  tc_atr_len :: int
  tc_donchian_n :: int
  tc_ema_fast :: int
  tc_ema_slow :: int
  tc_pullback_tol_atr :: real
  tc_pullback_lookback :: int
  tc_vwap_slope_bars :: int
  tc_vwap_tol_atr :: real
  tc_drive_minutes :: int
  tc_drive_min_atr :: real
  tc_drive_entry_from :: int
  tc_drive_entry_to :: int
  tc_gap_min_pts :: real
  tc_gap_wait_min :: int
  tc_gap_fill_frac :: real
  tc_level :: string
  tc_vol_mult :: real
  tc_vol_avg_bars :: int
  tc_bb_len :: int
  tc_bb_mult :: real
  tc_kc_mult :: real
  tc_squeeze_bars :: int
  tc_st_len :: int
  tc_st_mult :: real
  tc_nr_n :: int
  tc_rs_lookback_min :: int
  tc_rs_min_bp :: real
  tc_tod_hhmm :: int
  tc_tod_lookback_min :: int
  tc_tod_min_atr :: real
  tc_tod_window_min :: int
  tc_td_check_min :: int
  tc_td_min_atr :: real
  tc_td_vwap_frac :: real
  tc_td_pullback :: string
  tc_fb_bars :: int
  tc_ichi_tenkan :: int
  tc_ichi_kijun :: int
  tc_ichi_senkou :: int
  tc_roc_bars :: int
  tc_roc_min_atr :: real
  tc_roc_hi_bars :: int
  tc_dt_bars :: int
  tc_ort_minutes :: int
  tc_ort_tol_atr :: real
  tc_ort_max_bars :: int
  tc_gf_min_pts :: real
  tc_gf_wait_min :: int
  tc_gf_fill_frac :: real
  tc_nb_hhmm :: int
  tc_nb_range_min :: int
  tc_nb_window_min :: int
  tc_nb_event_only :: bool
  tc_ib_minutes :: int
  tc_ib_ext :: real
  tc_ib_min_atr :: real
  tc_hold_entry_hhmm :: int
  tc_hold_dir :: int
  tc_hold_tom :: bool
  tc_hold_pre_event :: bool
  tc_hold_up_day :: bool
  tc_ab_k :: real
  tc_ab_anchor :: string
  tc_ab_day_atr :: bool
  tc_vp_style :: string
  tc_vp_va_frac :: real
  tc_vp_tol_atr :: real
  tc_fib_swing_bars :: int
  tc_fib_lo :: real
  tc_fib_hi :: real
  tc_mr_dev_atr :: real
  tc_mr_target_atr :: real
  tc_rsi_len :: int
  tc_rsi_buy :: real
  tc_rsi_sell :: real
  tc_rsi_exit :: real
  tc_bi_min :: real
  tc_bi_exit :: real
  tc_bi_max_spread_ticks :: real
  tc_bi_hold_secs :: int
  tc_ribbon_fast :: int
  tc_ribbon_mid :: int
  tc_ribbon_slow :: int
  tc_thrust_bars :: int
  tc_thrust_min_atr :: real
  tc_thrust_retrace_frac :: real
  tc_thrust_target_atr :: real
  tc_abs_vol_mult :: real
  tc_abs_max_range_atr :: real
  tc_abs_min_move_atr :: real
  tc_abs_delta_min :: real
  tc_abs_move_bars :: int
  tc_abs_arm_bars :: int
  tc_dd_bars :: int
  tc_vb_vol_mult :: real
  tc_vb_close_loc :: real
  tc_vb_delta_min :: real
  tc_vb_trend_agree :: bool
  tc_bi_invert :: bool
  tc_htf_tf_min :: int
  tc_htf_ema :: int
  tc_chandelier_mult :: real

definition trend_defaults :: trend_config where
  "trend_defaults =
    \<lparr>tc_mode = ''donchian'', tc_tf_min = 5, tc_win_start = 930, tc_win_end = 1555, tc_session = ''rth'',
     tc_allow_longs = True, tc_allow_shorts = True, tc_exit_on_flip = True, tc_time_stop_min = 0, tc_atr_len = 14,
     tc_donchian_n = 20, tc_ema_fast = 9, tc_ema_slow = 21, tc_pullback_tol_atr = 1 / 2, tc_pullback_lookback = 3,
     tc_vwap_slope_bars = 5, tc_vwap_tol_atr = 3 / 10, tc_drive_minutes = 30, tc_drive_min_atr = 1,
     tc_drive_entry_from = 1000, tc_drive_entry_to = 1130, tc_gap_min_pts = 20, tc_gap_wait_min = 15,
     tc_gap_fill_frac = 1 / 2, tc_level = ''prior_day'', tc_vol_mult = 3 / 2, tc_vol_avg_bars = 20, tc_bb_len = 20,
     tc_bb_mult = 2, tc_kc_mult = 3 / 2, tc_squeeze_bars = 6, tc_st_len = 10, tc_st_mult = 3, tc_nr_n = 7,
     tc_rs_lookback_min = 15, tc_rs_min_bp = 5, tc_tod_hhmm = 1000, tc_tod_lookback_min = 15, tc_tod_min_atr = 4 /
     5, tc_tod_window_min = 30, tc_td_check_min = 60, tc_td_min_atr = 3 / 2, tc_td_vwap_frac = 4 / 5,
     tc_td_pullback = ''vwap'', tc_fb_bars = 3, tc_ichi_tenkan = 9, tc_ichi_kijun = 26, tc_ichi_senkou = 52,
     tc_roc_bars = 12, tc_roc_min_atr = 2, tc_roc_hi_bars = 20, tc_dt_bars = 10, tc_ort_minutes = 5, tc_ort_tol_atr
     = 3 / 20, tc_ort_max_bars = 30, tc_gf_min_pts = 20, tc_gf_wait_min = 5, tc_gf_fill_frac = 4 / 5, tc_nb_hhmm =
     830, tc_nb_range_min = 5, tc_nb_window_min = 45, tc_nb_event_only = False, tc_ib_minutes = 60, tc_ib_ext = 1,
     tc_ib_min_atr = 0, tc_hold_entry_hhmm = 1555, tc_hold_dir = 1, tc_hold_tom = False, tc_hold_pre_event = False,
     tc_hold_up_day = False, tc_ab_k = 1, tc_ab_anchor = ''open'', tc_ab_day_atr = True, tc_vp_style = ''break'',
     tc_vp_va_frac = 7 / 10, tc_vp_tol_atr = 3 / 20, tc_fib_swing_bars = 20, tc_fib_lo = 191 / 500, tc_fib_hi = 309
     / 500, tc_mr_dev_atr = 2, tc_mr_target_atr = 1 / 5, tc_rsi_len = 2, tc_rsi_buy = 10, tc_rsi_sell = 90,
     tc_rsi_exit = 50, tc_bi_min = 7 / 10, tc_bi_exit = 11 / 20, tc_bi_max_spread_ticks = 2, tc_bi_hold_secs = 5,
     tc_ribbon_fast = 8, tc_ribbon_mid = 21, tc_ribbon_slow = 50, tc_thrust_bars = 4, tc_thrust_min_atr = 5 / 2,
     tc_thrust_retrace_frac = 1 / 2, tc_thrust_target_atr = 1, tc_abs_vol_mult = 2, tc_abs_max_range_atr = 1 / 2,
     tc_abs_min_move_atr = 3 / 2, tc_abs_delta_min = 0, tc_abs_move_bars = 5, tc_abs_arm_bars = 2, tc_dd_bars = 20,
     tc_vb_vol_mult = 5 / 2, tc_vb_close_loc = 7 / 10, tc_vb_delta_min = 3 / 5, tc_vb_trend_agree = True,
     tc_bi_invert = False, tc_htf_tf_min = 0, tc_htf_ema = 21, tc_chandelier_mult = 0\<rparr>"

definition trend_from_json :: "string \<Rightarrow> trend_config" where
  "trend_from_json t =
    \<lparr>tc_mode = jstr t ''mode'' ''donchian'', tc_tf_min = jint t ''tf_min'' 5, tc_win_start = jint t ''win_start''
     930, tc_win_end = jint t ''win_end'' 1555, tc_session = jstr t ''session'' ''rth'', tc_allow_longs = jbool t
     ''allow_longs'' True, tc_allow_shorts = jbool t ''allow_shorts'' True, tc_exit_on_flip = jbool t
     ''exit_on_flip'' True, tc_time_stop_min = jint t ''time_stop_min'' 0, tc_atr_len = jint t ''atr_len'' 14,
     tc_donchian_n = jint t ''donchian_n'' 20, tc_ema_fast = jint t ''ema_fast'' 9, tc_ema_slow = jint t
     ''ema_slow'' 21, tc_pullback_tol_atr = jdbl t ''pullback_tol_atr'' (1 / 2), tc_pullback_lookback = jint t
     ''pullback_lookback'' 3, tc_vwap_slope_bars = jint t ''vwap_slope_bars'' 5, tc_vwap_tol_atr = jdbl t
     ''vwap_tol_atr'' (3 / 10), tc_drive_minutes = jint t ''drive_minutes'' 30, tc_drive_min_atr = jdbl t
     ''drive_min_atr'' 1, tc_drive_entry_from = jint t ''drive_entry_from'' 1000, tc_drive_entry_to = jint t
     ''drive_entry_to'' 1130, tc_gap_min_pts = jdbl t ''gap_min_pts'' 20, tc_gap_wait_min = jint t ''gap_wait_min''
     15, tc_gap_fill_frac = jdbl t ''gap_fill_frac'' (1 / 2), tc_level = jstr t ''level'' ''prior_day'',
     tc_vol_mult = jdbl t ''vol_mult'' (3 / 2), tc_vol_avg_bars = jint t ''vol_avg_bars'' 20, tc_bb_len = jint t
     ''bb_len'' 20, tc_bb_mult = jdbl t ''bb_mult'' 2, tc_kc_mult = jdbl t ''kc_mult'' (3 / 2), tc_squeeze_bars =
     jint t ''squeeze_bars'' 6, tc_st_len = jint t ''st_len'' 10, tc_st_mult = jdbl t ''st_mult'' 3, tc_nr_n = jint
     t ''nr_n'' 7, tc_rs_lookback_min = jint t ''rs_lookback_min'' 15, tc_rs_min_bp = jdbl t ''rs_min_bp'' 5,
     tc_tod_hhmm = jint t ''tod_hhmm'' 1000, tc_tod_lookback_min = jint t ''tod_lookback_min'' 15, tc_tod_min_atr =
     jdbl t ''tod_min_atr'' (4 / 5), tc_tod_window_min = jint t ''tod_window_min'' 30, tc_td_check_min = jint t
     ''td_check_min'' 60, tc_td_min_atr = jdbl t ''td_min_atr'' (3 / 2), tc_td_vwap_frac = jdbl t ''td_vwap_frac''
     (4 / 5), tc_td_pullback = jstr t ''td_pullback'' ''vwap'', tc_fb_bars = jint t ''fb_bars'' 3, tc_ichi_tenkan =
     jint t ''ichi_tenkan'' 9, tc_ichi_kijun = jint t ''ichi_kijun'' 26, tc_ichi_senkou = jint t ''ichi_senkou''
     52, tc_roc_bars = jint t ''roc_bars'' 12, tc_roc_min_atr = jdbl t ''roc_min_atr'' 2, tc_roc_hi_bars = jint t
     ''roc_hi_bars'' 20, tc_dt_bars = jint t ''dt_bars'' 10, tc_ort_minutes = jint t ''ort_minutes'' 5,
     tc_ort_tol_atr = jdbl t ''ort_tol_atr'' (3 / 20), tc_ort_max_bars = jint t ''ort_max_bars'' 30, tc_gf_min_pts
     = jdbl t ''gf_min_pts'' 20, tc_gf_wait_min = jint t ''gf_wait_min'' 5, tc_gf_fill_frac = jdbl t
     ''gf_fill_frac'' (4 / 5), tc_nb_hhmm = jint t ''nb_hhmm'' 830, tc_nb_range_min = jint t ''nb_range_min'' 5,
     tc_nb_window_min = jint t ''nb_window_min'' 45, tc_nb_event_only = jbool t ''nb_event_only'' False,
     tc_ib_minutes = jint t ''ib_minutes'' 60, tc_ib_ext = jdbl t ''ib_ext'' 1, tc_ib_min_atr = jdbl t
     ''ib_min_atr'' 0, tc_hold_entry_hhmm = jint t ''hold_entry_hhmm'' 1555, tc_hold_dir = jint t ''hold_dir'' 1,
     tc_hold_tom = jbool t ''hold_tom'' False, tc_hold_pre_event = jbool t ''hold_pre_event'' False, tc_hold_up_day
     = jbool t ''hold_up_day'' False, tc_ab_k = jdbl t ''ab_k'' 1, tc_ab_anchor = jstr t ''ab_anchor'' ''open'',
     tc_ab_day_atr = jbool t ''ab_day_atr'' True, tc_vp_style = jstr t ''vp_style'' ''break'', tc_vp_va_frac = jdbl
     t ''vp_va_frac'' (7 / 10), tc_vp_tol_atr = jdbl t ''vp_tol_atr'' (3 / 20), tc_fib_swing_bars = jint t
     ''fib_swing_bars'' 20, tc_fib_lo = jdbl t ''fib_lo'' (191 / 500), tc_fib_hi = jdbl t ''fib_hi'' (309 / 500),
     tc_mr_dev_atr = jdbl t ''mr_dev_atr'' 2, tc_mr_target_atr = jdbl t ''mr_target_atr'' (1 / 5), tc_rsi_len =
     jint t ''rsi_len'' 2, tc_rsi_buy = jdbl t ''rsi_buy'' 10, tc_rsi_sell = jdbl t ''rsi_sell'' 90, tc_rsi_exit =
     jdbl t ''rsi_exit'' 50, tc_bi_min = jdbl t ''bi_min'' (7 / 10), tc_bi_exit = jdbl t ''bi_exit'' (11 / 20),
     tc_bi_max_spread_ticks = jdbl t ''bi_max_spread_ticks'' 2, tc_bi_hold_secs = jint t ''bi_hold_secs'' 5,
     tc_ribbon_fast = jint t ''ribbon_fast'' 8, tc_ribbon_mid = jint t ''ribbon_mid'' 21, tc_ribbon_slow = jint t
     ''ribbon_slow'' 50, tc_thrust_bars = jint t ''thrust_bars'' 4, tc_thrust_min_atr = jdbl t ''thrust_min_atr''
     (5 / 2), tc_thrust_retrace_frac = jdbl t ''thrust_retrace_frac'' (1 / 2), tc_thrust_target_atr = jdbl t
     ''thrust_target_atr'' 1, tc_abs_vol_mult = jdbl t ''abs_vol_mult'' 2, tc_abs_max_range_atr = jdbl t
     ''abs_max_range_atr'' (1 / 2), tc_abs_min_move_atr = jdbl t ''abs_min_move_atr'' (3 / 2), tc_abs_delta_min =
     jdbl t ''abs_delta_min'' 0, tc_abs_move_bars = jint t ''abs_move_bars'' 5, tc_abs_arm_bars = jint t
     ''abs_arm_bars'' 2, tc_dd_bars = jint t ''dd_bars'' 20, tc_vb_vol_mult = jdbl t ''vb_vol_mult'' (5 / 2),
     tc_vb_close_loc = jdbl t ''vb_close_loc'' (7 / 10), tc_vb_delta_min = jdbl t ''vb_delta_min'' (3 / 5),
     tc_vb_trend_agree = jbool t ''vb_trend_agree'' True, tc_bi_invert = jbool t ''bi_invert'' False, tc_htf_tf_min
     = jint t ''htf_tf_min'' 0, tc_htf_ema = jint t ''htf_ema'' 21, tc_chandelier_mult = jdbl t ''chandelier_mult''
     0\<rparr>"

text \<open>A text that does not mention a key leaves its default: the empty object gives the defaults.\<close>

lemma take_whole: "take (length needle) s = needle \<Longrightarrow> length needle \<le> length s"
  by (metis length_take min.bounded_iff order_refl)

lemma behind_first_shorter: "behind_first needle s = Some r \<Longrightarrow> length r + length needle \<le> length s"
proof (induction needle s rule: behind_first.induct)
  case (2 needle c cs)
  show ?case
  proof (cases "take (length needle) (c # cs) = needle")
    case True
    then show ?thesis using 2(2) take_whole [OF True] by auto
  next
    case False
    then show ?thesis using 2 by simp
  qed
qed (simp split: if_splits)

lemma jraw_short:
  assumes "length s < length key + 2"
  shows "jraw s key = []"
proof -
  have "behind_first (quoted key) s = None"
    using behind_first_shorter [of "quoted key" s] assms by (cases "behind_first (quoted key) s") (auto simp: quoted_def)
  then show ?thesis by (simp add: jraw_def)
qed

lemma trend_from_empty: "trend_from_json ''{}'' = trend_defaults"
  by (simp add: trend_from_json_def trend_defaults_def jint_def jdbl_def jbool_def jstr_def jraw_short)

end
