(* ===== verification/Trend_State.thy ===== *)
theory Trend_State
  imports Trend_Config Mtf_Series Civil_Time
begin

section \<open>State of the trend strategy\<close>

text \<open>
  The data of \<open>TrendStrategy\<close> in \<open>src/src/execution/trend_strategy.hpp\<close>, in groups: the session
  counters, the indicators of the bars, what is anchored to the session, the volume profile, the top
  of book, and what single modes keep armed; the entry gate and the emission of a signal.  Doubles are
  reals; \<open>lowest()\<close> and \<open>max()\<close> are \<open>-dbl_max\<close> and \<open>dbl_max\<close>.  Containers are lists, oldest first;
  the \<open>std::map\<close> of the profile is an association list with increasing keys.  The signal callback is
  the list of signals sent, when it is wired.  Window lengths are taken to be nonnegative.
\<close>

subsection \<open>Data\<close>

record trend_bar =
  tb_mod :: int
  tb_ts :: int
  tb_o :: real
  tb_h :: real
  tb_l :: real
  tb_c :: real
  tb_v :: real
  tb_bv :: real

definition tb_new :: trend_bar where
  "tb_new = \<lparr>tb_mod = -1, tb_ts = 0, tb_o = 0, tb_h = 0, tb_l = 0, tb_c = 0, tb_v = 0, tb_bv = 0\<rparr>"

record trend_session =
  ss_trades :: int
  ss_in_pos :: bool
  ss_halted :: bool
  ss_reason :: string
  ss_dir :: int
  ss_entry_ts :: int
  ss_eod :: bool

record trend_ind =
  ti_atr :: real
  ti_ema_f :: real
  ti_ema_s :: real
  ti_ema20 :: real
  ti_rf :: real
  ti_rm :: real
  ti_rs :: real
  ti_slow5 :: "real list"
  ti_vol :: "real list"
  ti_delta :: "real list"

record trend_htf =
  th_ema :: real
  th_close :: real
  th_n :: int

record trend_anchor =
  an_in :: bool
  an_seen :: bool
  an_have_prev :: bool
  an_open :: real
  an_close :: real
  an_open_mod :: int
  an_day_hi :: real
  an_day_lo :: real
  an_on_hi :: real
  an_on_lo :: real
  an_prev_hi :: real
  an_prev_lo :: real
  an_prev_close :: real
  an_vwap_pv :: real
  an_vwap_v :: real
  an_vwap_hist :: "real list"
  an_gap :: real
  an_delta :: real
  an_delta_hist :: "real list"
  an_in_window :: bool
  an_side_ok :: int
  an_side_n :: int

record trend_profile =
  vp_cur :: "(int \<times> real) list"
  vp_poc :: real
  vp_vah :: real
  vp_val :: real
  vp_ready :: bool
  vp_used_l :: bool
  vp_used_s :: bool
  vp_dir :: int

record trend_book =
  qb_bid :: real
  qb_ask :: real
  qb_bsz :: int
  qb_asz :: int
  qb_ts :: int
  qb_dir :: int
  qb_since :: int

text \<open>What one mode keeps between bars.\<close>

record trend_arm =
  ar_drive_dir :: int
  ar_drive_done :: bool
  ar_gap_done :: bool
  ar_tod_done :: bool
  ar_reenter :: int
  ar_td_dir :: int
  ar_td_done :: bool
  ar_fb_dir :: int
  ar_fb_age :: int
  ar_fb_level :: real
  ar_ort_hi :: real
  ar_ort_lo :: real
  ar_ort_set :: bool
  ar_ort_arm :: int
  ar_ort_age :: int
  ar_ort_used_l :: bool
  ar_ort_used_s :: bool
  ar_gf_done :: bool
  ar_gf_dir :: int
  ar_nb_hi :: real
  ar_nb_lo :: real
  ar_nb_set :: bool
  ar_nb_done :: bool
  ar_ib_hi :: real
  ar_ib_lo :: real
  ar_ib_set :: bool
  ar_ib_dir :: int
  ar_ib_target :: real
  ar_hold_done :: bool
  ar_ab_used_l :: bool
  ar_ab_used_s :: bool
  ar_squeeze :: int
  ar_st_dir :: int
  ar_st_up :: real
  ar_st_dn :: real
  ar_thrust_ref :: real
  ar_abs_dir :: int
  ar_abs_age :: int
  ar_abs_mid :: real

record trend =
  tn_cfg :: trend_config
  tn_risk :: orb_config
  tn_cb :: bool
  tn_ss :: trend_session
  tn_last :: real
  tn_last_ts :: int
  tn_m1 :: trend_bar
  tn_tf_cur :: trend_bar
  tn_tf :: "trend_bar list"
  tn_m1_hist :: "trend_bar list"
  tn_ref :: "real list"
  tn_event_day :: bool
  tn_event_next :: bool
  tn_day_atr :: real
  tn_best :: real
  tn_ind :: trend_ind
  tn_htf :: trend_htf
  tn_an :: trend_anchor
  tn_vp :: trend_profile
  tn_book :: trend_book
  tn_ar :: trend_arm
  tn_out :: "(orb_signal \<times> real \<times> string) list"

text \<open>A constructed engine; the ranges of the session modes start at 0 until the first reset.\<close>

definition trend_new :: "trend_config \<Rightarrow> orb_config \<Rightarrow> trend" where
  "trend_new c risk =
     \<lparr>tn_cfg = (if tc_tf_min c < 1 then c\<lparr>tc_tf_min := 1\<rparr> else c), tn_risk = risk, tn_cb = False,
      tn_ss = \<lparr>ss_trades = 0, ss_in_pos = False, ss_halted = False, ss_reason = [], ss_dir = 0, ss_entry_ts = 0,
        ss_eod = False\<rparr>,
      tn_last = 0, tn_last_ts = 0, tn_m1 = tb_new, tn_tf_cur = tb_new, tn_tf = [], tn_m1_hist = [], tn_ref = [],
      tn_event_day = False, tn_event_next = False, tn_day_atr = 0, tn_best = 0,
      tn_ind = \<lparr>ti_atr = 0, ti_ema_f = 0, ti_ema_s = 0, ti_ema20 = 0, ti_rf = 0, ti_rm = 0, ti_rs = 0, ti_slow5 = [],
        ti_vol = [], ti_delta = []\<rparr>,
      tn_htf = \<lparr>th_ema = 0, th_close = 0, th_n = 0\<rparr>,
      tn_an = \<lparr>an_in = False, an_seen = False, an_have_prev = False, an_open = 0, an_close = 0, an_open_mod = 0,
        an_day_hi = - dbl_max, an_day_lo = dbl_max, an_on_hi = - dbl_max, an_on_lo = dbl_max, an_prev_hi = 0,
        an_prev_lo = 0, an_prev_close = 0, an_vwap_pv = 0, an_vwap_v = 0, an_vwap_hist = [], an_gap = 0, an_delta = 0,
        an_delta_hist = [], an_in_window = False, an_side_ok = 0, an_side_n = 0\<rparr>,
      tn_vp = \<lparr>vp_cur = [], vp_poc = 0, vp_vah = 0, vp_val = 0, vp_ready = False, vp_used_l = False, vp_used_s = False,
        vp_dir = 0\<rparr>,
      tn_book = \<lparr>qb_bid = 0, qb_ask = 0, qb_bsz = 0, qb_asz = 0, qb_ts = 0, qb_dir = 0, qb_since = 0\<rparr>,
      tn_ar = \<lparr>ar_drive_dir = 0, ar_drive_done = False, ar_gap_done = False, ar_tod_done = False, ar_reenter = 0,
        ar_td_dir = 0, ar_td_done = False, ar_fb_dir = 0, ar_fb_age = 0, ar_fb_level = 0, ar_ort_hi = 0, ar_ort_lo = 0,
        ar_ort_set = False, ar_ort_arm = 0, ar_ort_age = 0, ar_ort_used_l = False, ar_ort_used_s = False,
        ar_gf_done = False, ar_gf_dir = 0, ar_nb_hi = 0, ar_nb_lo = 0, ar_nb_set = False, ar_nb_done = False,
        ar_ib_hi = 0, ar_ib_lo = 0, ar_ib_set = False, ar_ib_dir = 0, ar_ib_target = 0, ar_hold_done = False,
        ar_ab_used_l = False, ar_ab_used_s = False, ar_squeeze = 0, ar_st_dir = 0, ar_st_up = 0, ar_st_dn = 0,
        ar_thrust_ref = 0, ar_abs_dir = 0, ar_abs_age = 0, ar_abs_mid = 0\<rparr>,
      tn_out = []\<rparr>"

subsection \<open>Clock and windows\<close>

definition trend_to_et :: "int \<Rightarrow> int \<times> int" where
  "trend_to_et us =
     (let t = cdiv us 1000000; et = t - us_et_offset (gmtime t) * 3600; h = cmod (cdiv et 3600) 24
      in (if h < 0 then h + 24 else h, cdiv (cmod et 3600) 60))"

definition et_day_of_month :: "int \<Rightarrow> int" where
  "et_day_of_month us = (let t = cdiv us 1000000 in tm_mday (gmtime (t - us_et_offset (gmtime t) * 3600)))"

definition mod_of :: "int \<Rightarrow> int" where
  "mod_of hhmm = cdiv hhmm 100 * 60 + cmod hhmm 100"

definition trend_in_window :: "trend_config \<Rightarrow> int \<Rightarrow> bool" where
  "trend_in_window c hhmm =
     (if tc_win_start c \<le> tc_win_end c then tc_win_start c \<le> hhmm \<and> hhmm < tc_win_end c
      else tc_win_start c \<le> hhmm \<or> hhmm < tc_win_end c)"

definition trend_in_session :: "trend_config \<Rightarrow> int \<Rightarrow> bool" where
  "trend_in_session c m =
     (if tc_session c = ''globex'' then \<not> (17 * 60 \<le> m \<and> m < 18 * 60)
      else if tc_session c = ''window'' then trend_in_window c (cdiv m 60 * 100 + cmod m 60)
      else 9 * 60 + 30 \<le> m \<and> m < 16 * 60)"

definition vwap :: "trend \<Rightarrow> real" where
  "vwap s = (if 0 < an_vwap_v (tn_an s) then an_vwap_pv (tn_an s) / an_vwap_v (tn_an s) else 0)"

definition mins_since_open :: "trend_bar \<Rightarrow> trend \<Rightarrow> int" where
  "mins_since_open b s = (if an_in (tn_an s) then tb_mod b - an_open_mod (tn_an s) else -1)"

subsection \<open>The entry gate and the signals\<close>

definition trend_emit :: "orb_signal \<Rightarrow> real \<Rightarrow> string \<Rightarrow> trend \<Rightarrow> trend" where
  "trend_emit sig px why s =
     (let t = (if tn_cb s then s\<lparr>tn_out := tn_out s @ [(sig, px, why)]\<rparr> else s)
      in if sig = BUY \<or> sig = SELL
         then t\<lparr>tn_ss := (tn_ss t)\<lparr>ss_in_pos := True, ss_trades := ss_trades (tn_ss t) + 1,
                 ss_dir := (if sig = BUY then 1 else -1), ss_entry_ts := tn_last_ts t\<rparr>, tn_best := px\<rparr>
         else t)"

definition htf_aligned :: "trend \<Rightarrow> int \<Rightarrow> bool" where
  "htf_aligned s dir =
     (let c = tn_cfg s; h = tn_htf s
      in tc_htf_tf_min c \<le> 0 \<or>
         (0 < th_ema h \<and> tc_htf_ema c \<le> th_n h \<and> (dir > 0 \<longrightarrow> th_close h > th_ema h) \<and> (dir < 0 \<longrightarrow> th_close h < th_ema h)))"

definition can_enter :: "trend \<Rightarrow> int \<Rightarrow> int \<Rightarrow> bool" where
  "can_enter s hhmm dir =
     (let c = tn_cfg s
      in \<not> ss_in_pos (tn_ss s) \<and> \<not> ss_halted (tn_ss s) \<and> trend_in_window c hhmm \<and>
         ss_trades (tn_ss s) < c_max_daily_trades (tn_risk s) \<and> (dir > 0 \<longrightarrow> tc_allow_longs c) \<and>
         (dir < 0 \<longrightarrow> tc_allow_shorts c) \<and> htf_aligned s dir)"

text \<open>An entry on one side when the gate is open.\<close>

definition enter :: "int \<Rightarrow> real \<Rightarrow> string \<Rightarrow> trend \<Rightarrow> trend" where
  "enter dir px why s = trend_emit (if 0 < dir then BUY else SELL) px why s"

definition trend_flatten :: "real \<Rightarrow> string \<Rightarrow> trend \<Rightarrow> trend" where
  "trend_flatten px why s = trend_emit FLATTEN_EOD px why s"

text \<open>The if-else chain at the end of a mode: a long when its condition and the gate hold, else a short.\<close>

definition long_or_short :: "int \<Rightarrow> real \<Rightarrow> bool \<Rightarrow> string \<Rightarrow> bool \<Rightarrow> string \<Rightarrow> trend \<Rightarrow> trend" where
  "long_or_short hhmm px l lwhy r rwhy s =
     (if l \<and> can_enter s hhmm 1 then enter 1 px lwhy s
      else if r \<and> can_enter s hhmm (-1) then enter (-1) px rwhy s else s)"

definition short_or_long :: "int \<Rightarrow> real \<Rightarrow> bool \<Rightarrow> string \<Rightarrow> bool \<Rightarrow> string \<Rightarrow> trend \<Rightarrow> trend" where
  "short_or_long hhmm px r rwhy l lwhy s =
     (if r \<and> can_enter s hhmm (-1) then enter (-1) px rwhy s
      else if l \<and> can_enter s hhmm 1 then enter 1 px lwhy s else s)"

text \<open>Whether the position is on the wrong side of two conditions, as the exits test it.\<close>

definition held_against :: "trend \<Rightarrow> bool \<Rightarrow> bool \<Rightarrow> bool" where
  "held_against s long_bad short_bad =
     (ss_in_pos (tn_ss s) \<and> ((0 < ss_dir (tn_ss s) \<and> long_bad) \<or> (ss_dir (tn_ss s) < 0 \<and> short_bad)))"

end
