(* ===== verification/Trend_Modes.thy ===== *)
theory Trend_Modes
  imports Trend_State
begin

section \<open>Entry modes of the trend strategy\<close>

text \<open>
  The \<open>mode_*\<close> methods of \<open>TrendStrategy\<close> in \<open>src/src/execution/trend_strategy.hpp\<close>, one definition
  each.  \<open>b\<close> is the completed bar, for the bar modes the last one of \<open>tn_tf\<close>; \<open>hhmm\<close> the clock of the
  tick that completed it.
\<close>

subsection \<open>Windows of bars\<close>

definition arm :: "(trend_arm \<Rightarrow> trend_arm) \<Rightarrow> trend \<Rightarrow> trend" where
  "arm f s = s\<lparr>tn_ar := f (tn_ar s)\<rparr>"

definition bars_high :: "trend_bar list \<Rightarrow> real" where
  "bars_high bars = fold (\<lambda>x m. max m (tb_h x)) bars (- dbl_max)"

definition bars_low :: "trend_bar list \<Rightarrow> real" where
  "bars_low bars = fold (\<lambda>x m. min m (tb_l x)) bars dbl_max"

definition bar_count :: "trend \<Rightarrow> int" where
  "bar_count s = int (length (tn_tf s))"

definition prev_bar :: "trend \<Rightarrow> trend_bar" where
  "prev_bar s = last (butlast (tn_tf s))"

text \<open>The last \<open>n\<close> bars before the current one.\<close>

definition prior_bars :: "int \<Rightarrow> trend \<Rightarrow> trend_bar list" where
  "prior_bars n s = last_n (nat n) (butlast (tn_tf s))"

definition mean :: "real list \<Rightarrow> real" where
  "mean xs = sum_list xs / real (length xs)"

definition std_dev :: "real list \<Rightarrow> real" where
  "std_dev xs = sqrt (sum_list (map (\<lambda>x. (x - mean xs) * (x - mean xs)) xs) / real (length xs))"

definition avg_vol_prior :: "int \<Rightarrow> trend \<Rightarrow> real" where
  "avg_vol_prior n s =
     (let v = ti_vol (tn_ind s)
      in if n \<le> 0 \<or> int (length v) < n + 1 then 0 else sum_list (last_n (nat n) (butlast v)) / of_int n)"

definition buy_share :: "trend_bar \<Rightarrow> real" where
  "buy_share b = (if 0 < tb_v b then tb_bv b / tb_v b else 1 / 2)"

subsection \<open>Channels and averages\<close>

definition mode_donchian :: "trend_bar \<Rightarrow> int \<Rightarrow> trend \<Rightarrow> trend" where
  "mode_donchian b hhmm s =
     (let n = tc_donchian_n (tn_cfg s); w = prior_bars n s; x = tb_c b
      in if bar_count s < n + 1 then s
         else long_or_short hhmm x (x > bars_high w) (''donchian_high_'' @ int_str n)
                (x < bars_low w) (''donchian_low_'' @ int_str n) s)"

text \<open>The bars that touched a line within the tolerance: the highest high and the lowest low (0 when unset).\<close>

definition pullback_scan :: "bool \<Rightarrow> bool \<Rightarrow> real \<Rightarrow> real \<Rightarrow> trend_bar list \<Rightarrow> bool \<times> real \<times> real" where
  "pullback_scan up dn line tol bars =
     fold (\<lambda>x (t, h, l).
        (let (t1, h1) = (if up \<and> tb_l x \<le> line + tol then (True, max h (tb_h x)) else (t, h))
         in if dn \<and> tb_h x \<ge> line - tol then (True, h1, if l = 0 then tb_l x else min l (tb_l x)) else (t1, h1, l)))
       bars (False, 0, 0)"

definition pullback_entry :: "int \<Rightarrow> trend_bar \<Rightarrow> bool \<Rightarrow> bool \<Rightarrow> real \<Rightarrow> string \<Rightarrow> string \<Rightarrow> trend \<Rightarrow> trend" where
  "pullback_entry hhmm b up dn line lwhy swhy s =
     (let c = tn_cfg s; tol = tc_pullback_tol_atr c * ti_atr (tn_ind s);
          (touched, h, l) = pullback_scan up dn line tol (rev (prior_bars (tc_pullback_lookback c) s))
      in if \<not> touched then s
         else long_or_short hhmm (tb_c b) (up \<and> tb_c b > h) lwhy (dn \<and> 0 < l \<and> tb_c b < l) swhy s)"

definition mode_ema_pullback :: "trend_bar \<Rightarrow> int \<Rightarrow> trend \<Rightarrow> trend" where
  "mode_ema_pullback b hhmm s =
     (let c = tn_cfg s; i = tn_ind s; f = ti_ema_f i; sl = ti_ema_s i
      in if bar_count s < tc_ema_slow c + 6 \<or> length (ti_slow5 i) < 6 then s
         else if tc_exit_on_flip c \<and> held_against s (f < sl) (f > sl) then trend_flatten (tb_c b) ''ema_flip'' s
         else pullback_entry hhmm b (f > sl \<and> sl > hd (ti_slow5 i)) (f < sl \<and> sl < hd (ti_slow5 i)) f
                ''ema_pullback_long'' ''ema_pullback_short'' s)"

definition mode_ema_ribbon :: "trend_bar \<Rightarrow> int \<Rightarrow> trend \<Rightarrow> trend" where
  "mode_ema_ribbon b hhmm s =
     (let c = tn_cfg s; i = tn_ind s; up = ti_rf i > ti_rm i \<and> ti_rm i > ti_rs i; dn = ti_rf i < ti_rm i \<and> ti_rm i < ti_rs i
      in if bar_count s < tc_ribbon_slow c + 6 then s
         else if tc_exit_on_flip c \<and> held_against s (\<not> up) (\<not> dn) then trend_flatten (tb_c b) ''ribbon_unstack'' s
         else if \<not> up \<and> \<not> dn then s
         else pullback_entry hhmm b up dn (ti_rm i) ''ribbon_pullback_long'' ''ribbon_pullback_short'' s)"

definition mode_vwap :: "trend_bar \<Rightarrow> int \<Rightarrow> trend \<Rightarrow> trend" where
  "mode_vwap b hhmm s =
     (let c = tn_cfg s; a = tn_an s; hist = an_vwap_hist a; k = tc_vwap_slope_bars c * tc_tf_min c; x = tb_c b
      in if \<not> an_in a \<or> an_vwap_v a \<le> 0 \<or> int (length hist) < k + 1 then s
         else (let vw = vwap s; was = hist ! (length hist - 1 - nat k); tol = tc_vwap_tol_atr c * ti_atr (tn_ind s)
               in long_or_short hhmm x (vw > was \<and> tb_l b \<le> vw + tol \<and> x > vw) ''vwap_hold_long''
                    (vw < was \<and> tb_h b \<ge> vw - tol \<and> x < vw) ''vwap_hold_short'' s))"

definition mode_squeeze :: "trend_bar \<Rightarrow> int \<Rightarrow> trend \<Rightarrow> trend" where
  "mode_squeeze b hhmm s =
     (let c = tn_cfg s; i = tn_ind s; cs = map tb_c (last_n (nat (tc_bb_len c)) (tn_tf s));
          up = mean cs + tc_bb_mult c * std_dev cs; dn = mean cs - tc_bb_mult c * std_dev cs;
          inside = up < ti_ema20 i + tc_kc_mult c * ti_atr i \<and> dn > ti_ema20 i - tc_kc_mult c * ti_atr i;
          was = tc_squeeze_bars c \<le> ar_squeeze (tn_ar s); t = arm (\<lambda>a. a\<lparr>ar_squeeze := 0\<rparr>) s
      in if bar_count s < tc_bb_len c + 1 then s
         else if inside then arm (\<lambda>a. a\<lparr>ar_squeeze := ar_squeeze a + 1\<rparr>) s
         else if \<not> was then t
         else long_or_short hhmm (tb_c b) (tb_c b > up) ''squeeze_break_long'' (tb_c b < dn) ''squeeze_break_short'' t)"

definition mode_supertrend :: "trend_bar \<Rightarrow> int \<Rightarrow> trend \<Rightarrow> trend" where
  "mode_supertrend b hhmm s =
     (let c = tn_cfg s; atr = ti_atr (tn_ind s); m = (tb_h b + tb_l b) / 2; p = prev_bar s; a = tn_ar s; d0 = ar_st_dir a;
          up0 = m - tc_st_mult c * atr; dn0 = m + tc_st_mult c * atr;
          up = (if d0 \<noteq> 0 \<and> tb_c p > ar_st_up a then max up0 (ar_st_up a) else up0);
          dn = (if d0 \<noteq> 0 \<and> tb_c p < ar_st_dn a then min dn0 (ar_st_dn a) else dn0);
          dir = (if 0 \<le> d0 \<and> tb_c b < up then -1 else if d0 \<le> 0 \<and> tb_c b > dn then 1
                 else if d0 = 0 then (if tb_c b > m then 1 else -1) else d0);
          flipped = (dir \<noteq> d0 \<and> d0 \<noteq> 0); re = ar_reenter a;
          t = arm (\<lambda>a. a\<lparr>ar_st_up := up, ar_st_dn := dn, ar_st_dir := dir\<rparr>) s
      in if bar_count s < tc_st_len c + 1 then s
         else if flipped \<and> ss_in_pos (tn_ss s) \<and> tc_exit_on_flip c \<and> ss_dir (tn_ss s) \<noteq> dir
         then trend_flatten (tb_c b) ''supertrend_flip'' (arm (\<lambda>a. a\<lparr>ar_reenter := dir\<rparr>) t)
         else if \<not> flipped \<and> \<not> (re \<noteq> 0 \<and> re = dir) then t
         else if 0 < dir \<and> can_enter t hhmm 1
         then arm (\<lambda>a. a\<lparr>ar_reenter := 0\<rparr>)
                (enter 1 (tb_c b) (if flipped then ''supertrend_up'' else ''supertrend_reenter_up'') t)
         else if dir < 0 \<and> can_enter t hhmm (-1)
         then arm (\<lambda>a. a\<lparr>ar_reenter := 0\<rparr>)
                (enter (-1) (tb_c b) (if flipped then ''supertrend_down'' else ''supertrend_reenter_down'') t)
         else t)"

definition mode_nr7 :: "trend_bar \<Rightarrow> int \<Rightarrow> trend \<Rightarrow> trend" where
  "mode_nr7 b hhmm s =
     (let n = tc_nr_n (tn_cfg s); p = prev_bar s; r = tb_h p - tb_l p;
          narrowest = list_all (\<lambda>x. tb_h x - tb_l x > r) (last_n (nat (n - 1)) (butlast (butlast (tn_tf s))))
      in if bar_count s < n + 2 \<or> \<not> narrowest then s
         else long_or_short hhmm (tb_c b) (tb_c b > tb_h p) (''nr'' @ int_str n @ ''_break_up'')
                (tb_c b < tb_l p) (''nr'' @ int_str n @ ''_break_down'') s)"

definition mode_keltner :: "trend_bar \<Rightarrow> int \<Rightarrow> trend \<Rightarrow> trend" where
  "mode_keltner b hhmm s =
     (let c = tn_cfg s; e = ti_ema20 (tn_ind s); w = tc_kc_mult c * ti_atr (tn_ind s); x = tb_c b; p = prev_bar s
      in if bar_count s < 22 then s
         else if tc_exit_on_flip c \<and> held_against s (x < e) (x > e) then trend_flatten x ''keltner_mid_cross'' s
         else long_or_short hhmm x (tb_c p \<le> e + w \<and> x > e + w) ''keltner_break_up''
                (tb_c p \<ge> e - w \<and> x < e - w) ''keltner_break_down'' s)"

text \<open>\<open>mid_range\<close>: the middle of the \<open>len\<close> bars before an index.\<close>

definition mid_range :: "trend_bar list \<Rightarrow> nat \<Rightarrow> int \<Rightarrow> real" where
  "mid_range bars end_excl len =
     (let w = last_n (nat len) (take end_excl bars) in (bars_high w + bars_low w) / 2)"

definition mode_ichimoku :: "trend_bar \<Rightarrow> int \<Rightarrow> trend \<Rightarrow> trend" where
  "mode_ichimoku b hhmm s =
     (let c = tn_cfg s; tf = tn_tf s; n = length tf; mid = mid_range tf; k = tc_ichi_kijun c; cloud = n - nat k;
          kijun = mid n k; kijun_prev = mid (n - 1) k;
          a = (mid cloud (tc_ichi_tenkan c) + mid cloud k) / 2; e = mid cloud (tc_ichi_senkou c); x = tb_c b; p = prev_bar s
      in if bar_count s < tc_ichi_senkou c + k + 2 then s
         else if tc_exit_on_flip c \<and> held_against s (x < kijun) (x > kijun) then trend_flatten x ''kijun_cross'' s
         else long_or_short hhmm x (tb_c p \<le> kijun_prev \<and> x > kijun \<and> x > max a e) ''ichimoku_kijun_up''
                (tb_c p \<ge> kijun_prev \<and> x < kijun \<and> x < min a e) ''ichimoku_kijun_down'' s)"

definition roc_at :: "trend \<Rightarrow> nat \<Rightarrow> real" where
  "roc_at s i = (tb_c (tn_tf s ! i) - tb_c (tn_tf s ! (i - nat (tc_roc_bars (tn_cfg s))))) / ti_atr (tn_ind s)"

definition mode_roc :: "trend_bar \<Rightarrow> int \<Rightarrow> trend \<Rightarrow> trend" where
  "mode_roc b hhmm s =
     (let c = tn_cfg s; n = length (tn_tf s); r = roc_at s (n - 1);
          before = map (roc_at s) [n - 1 - nat (tc_roc_hi_bars c)..<n - 1];
          top = fold (\<lambda>x m. max m x) before (- dbl_max); bottom = fold (\<lambda>x m. min m x) before dbl_max
      in if int n < tc_roc_bars c + tc_roc_hi_bars c + 1 then s
         else long_or_short hhmm (tb_c b) (r \<ge> tc_roc_min_atr c \<and> r > top) ''roc_new_high''
                (r \<le> - tc_roc_min_atr c \<and> r < bottom) ''roc_new_low'' s)"

definition mode_delta :: "trend_bar \<Rightarrow> int \<Rightarrow> trend \<Rightarrow> trend" where
  "mode_delta b hhmm s =
     (let c = tn_cfg s; a = tn_an s; need = tc_dt_bars c * tc_tf_min c; w = prior_bars (tc_dt_bars c) s;
          ds = last_n (nat need) (an_delta_hist a); d = an_delta a;
          top = fold (\<lambda>x m. max m x) ds (- dbl_max); bottom = fold (\<lambda>x m. min m x) ds dbl_max
      in if bar_count s < tc_dt_bars c + 2 \<or> \<not> an_in a \<or> int (length (an_delta_hist a)) < need then s
         else long_or_short hhmm (tb_c b) (tb_c b > bars_high w \<and> d > top) ''price_delta_high''
                (tb_c b < bars_low w \<and> d < bottom) ''price_delta_low'' s)"

subsection \<open>Reversal modes\<close>

text \<open>The offset of the first lowest low and of the first highest high of the impulse window.\<close>

definition low_offset :: "trend_bar list \<Rightarrow> nat" where
  "low_offset bars = fold (\<lambda>i k. if tb_l (bars ! i) < tb_l (bars ! k) then i else k) [0..<length bars] 0"

definition high_offset :: "trend_bar list \<Rightarrow> nat" where
  "high_offset bars = fold (\<lambda>i k. if tb_h (bars ! i) > tb_h (bars ! k) then i else k) [0..<length bars] 0"

definition mode_fib :: "trend_bar \<Rightarrow> int \<Rightarrow> trend \<Rightarrow> trend" where
  "mode_fib b hhmm s =
     (let c = tn_cfg s; i = tn_ind s; w = prior_bars (tc_fib_swing_bars c) s; il = low_offset w; ih = high_offset w;
          top = tb_h (w ! ih); bottom = tb_l (w ! il); rng = top - bottom; p = prev_bar s; x = tb_c b
      in if bar_count s < tc_fib_swing_bars c + 2 \<or> ti_ema_f i \<le> 0 \<or> ti_ema_s i \<le> 0 then s
         else if ti_ema_f i > ti_ema_s i \<and> il < ih
         then (if rng < ti_atr i then s
               else long_or_short hhmm x (tb_l p \<le> top - tc_fib_lo c * rng \<and> tb_l p \<ge> top - tc_fib_hi c * rng \<and> x > tb_h p)
                      ''fib_retrace_long'' False [] s)
         else if ti_ema_f i < ti_ema_s i \<and> ih < il
         then (if rng < ti_atr i then s
               else long_or_short hhmm x False []
                      (tb_h p \<ge> bottom + tc_fib_lo c * rng \<and> tb_h p \<le> bottom + tc_fib_hi c * rng \<and> x < tb_l p)
                      ''fib_retrace_short'' s)
         else s)"

definition mode_vwap_fade :: "trend_bar \<Rightarrow> int \<Rightarrow> trend \<Rightarrow> trend" where
  "mode_vwap_fade b hhmm s =
     (let c = tn_cfg s; a = tn_an s; atr = ti_atr (tn_ind s); vw = vwap s; p = prev_bar s; dev = tc_mr_dev_atr c * atr; x = tb_c b
      in if \<not> an_in a \<or> an_vwap_v a \<le> 0 \<or> bar_count s < 3 then s
         else if ss_in_pos (tn_ss s) \<and> \<bar>x - vw\<bar> \<le> tc_mr_target_atr c * atr then trend_flatten x ''vwap_target'' s
         else short_or_long hhmm x (tb_c p \<ge> vw + dev \<and> x < tb_c p) ''vwap_fade_short''
                (tb_c p \<le> vw - dev \<and> x > tb_c p) ''vwap_fade_long'' s)"

definition mode_band_fade :: "trend_bar \<Rightarrow> int \<Rightarrow> trend \<Rightarrow> trend" where
  "mode_band_fade b hhmm s =
     (let c = tn_cfg s; cs = map tb_c (last_n (nat (tc_bb_len c)) (tn_tf s)); m = mean cs;
          up = m + tc_bb_mult c * std_dev cs; dn = m - tc_bb_mult c * std_dev cs; p = prev_bar s; x = tb_c b
      in if bar_count s < tc_bb_len c + 2 then s
         else if held_against s (x \<ge> m) (x \<le> m) then trend_flatten x ''band_mid_target'' s
         else short_or_long hhmm x (tb_c p > up \<and> x < up) ''band_fade_short'' (tb_c p < dn \<and> x > dn) ''band_fade_long'' s)"

definition trend_rsi :: "int \<Rightarrow> trend \<Rightarrow> real" where
  "trend_rsi len s =
     (let tf = tn_tf s; n = length tf; ds = map (\<lambda>i. tb_c (tf ! i) - tb_c (tf ! (i - 1))) [n - nat len..<n];
          g = sum_list (filter (\<lambda>d. d > 0) ds); l = - sum_list (filter (\<lambda>d. \<not> d > 0) ds)
      in if bar_count s < len + 1 \<or> g + l \<le> 0 then 50 else 100 * g / (g + l))"

definition mode_rsi2 :: "trend_bar \<Rightarrow> int \<Rightarrow> trend \<Rightarrow> trend" where
  "mode_rsi2 b hhmm s =
     (let c = tn_cfg s; e = ti_ema_s (tn_ind s); r = trend_rsi (tc_rsi_len c) s; x = tb_c b
      in if bar_count s < tc_ema_slow c + 2 \<or> e \<le> 0 then s
         else if held_against s (r \<ge> tc_rsi_exit c) (r \<le> tc_rsi_exit c) then trend_flatten x ''rsi_exit'' s
         else long_or_short hhmm x (r \<le> tc_rsi_buy c \<and> x > e) ''rsi2_oversold_in_uptrend''
                (r \<ge> tc_rsi_sell c \<and> x < e) ''rsi2_overbought_in_downtrend'' s)"

definition mode_thrust_fade :: "trend_bar \<Rightarrow> int \<Rightarrow> trend \<Rightarrow> trend" where
  "mode_thrust_fade b hhmm s =
     (let c = tn_cfg s; atr = ti_atr (tn_ind s); w = prior_bars (tc_thrust_bars c) s; x = tb_c b; lst = prev_bar s;
          tgt = tc_thrust_target_atr c * atr; e = ar_thrust_ref (tn_ar s); moved = tb_c lst - tb_o (hd w);
          up = list_all (\<lambda>y. tb_c y > tb_o y) w \<and> moved \<ge> tc_thrust_min_atr c * atr;
          dn = list_all (\<lambda>y. tb_c y < tb_o y) w \<and> - moved \<ge> tc_thrust_min_atr c * atr; rng = tb_h lst - tb_l lst;
          t = arm (\<lambda>a. a\<lparr>ar_thrust_ref := x\<rparr>) s
      in if bar_count s < tc_thrust_bars c + 2 \<or> atr \<le> 0 then s
         else if held_against s (x \<ge> e + tgt) (x \<le> e - tgt) then trend_flatten x ''thrust_target'' s
         else if (\<not> up \<and> \<not> dn) \<or> rng \<le> 0 then s
         else if up \<and> tb_h b \<le> tb_h lst \<and> x < tb_h lst - tc_thrust_retrace_frac c * rng \<and> can_enter s hhmm (-1)
         then enter (-1) x ''thrust_exhaustion_fade_short'' t
         else if dn \<and> tb_l b \<ge> tb_l lst \<and> x > tb_l lst + tc_thrust_retrace_frac c * rng \<and> can_enter s hhmm 1
         then enter 1 x ''thrust_exhaustion_fade_long'' t
         else s)"

definition mode_failed_breakout :: "trend_bar \<Rightarrow> int \<Rightarrow> trend \<Rightarrow> trend" where
  "mode_failed_breakout b hhmm s =
     (let c = tn_cfg s; n = tc_donchian_n c; w = prior_bars n s; x = tb_c b; d = ar_fb_dir (tn_ar s); lv = ar_fb_level (tn_ar s);
          age = ar_fb_age (tn_ar s) + 1;
          watch = (\<lambda>t. if x > bars_high w then arm (\<lambda>a. a\<lparr>ar_fb_dir := 1, ar_fb_level := bars_high w, ar_fb_age := 0\<rparr>) t
                       else if x < bars_low w then arm (\<lambda>a. a\<lparr>ar_fb_dir := -1, ar_fb_level := bars_low w, ar_fb_age := 0\<rparr>) t
                       else t);
          aged = arm (\<lambda>a. a\<lparr>ar_fb_age := age\<rparr>) s; off = arm (\<lambda>a. a\<lparr>ar_fb_dir := 0\<rparr>) aged
      in if bar_count s < n + 2 then s
         else if d = 0 then watch s
         else if tc_fb_bars c < age then watch (arm (\<lambda>a. a\<lparr>ar_fb_dir := 0, ar_fb_age := 0\<rparr>) s)
         else if 0 < d \<and> x < lv then (if can_enter off hhmm (-1) then enter (-1) x ''failed_break_high'' off else off)
         else if d < 0 \<and> x > lv then (if can_enter off hhmm 1 then enter 1 x ''failed_break_low'' off else off)
         else aged)"

subsection \<open>Tape modes\<close>

definition mode_absorption :: "trend_bar \<Rightarrow> int \<Rightarrow> trend \<Rightarrow> trend" where
  "mode_absorption b hhmm s =
     (let c = tn_cfg s; x = tb_c b; d = ar_abs_dir (tn_ar s); level = ar_abs_mid (tn_ar s); age = ar_abs_age (tn_ar s) + 1;
          aged = arm (\<lambda>a. a\<lparr>ar_abs_age := age\<rparr>) s; off = arm (\<lambda>a. a\<lparr>ar_abs_dir := 0\<rparr>) aged;
          avg = avg_vol_prior (tc_vol_avg_bars c) s; atr = ti_atr (tn_ind s); l = tc_abs_move_bars c;
          moved = x - tb_c (tn_tf s ! (length (tn_tf s) - 1 - nat l)); share = buy_share b;
          set = (\<lambda>k. arm (\<lambda>a. a\<lparr>ar_abs_dir := k, ar_abs_mid := (tb_h b + tb_l b) / 2, ar_abs_age := 0\<rparr>));
          look = (\<lambda>t. if bar_count s < l + 2 \<or> avg \<le> 0 \<or> tb_v b < tc_abs_vol_mult c * avg \<or>
                         tb_h b - tb_l b > tc_abs_max_range_atr c * atr then t
                      else if moved \<ge> tc_abs_min_move_atr c * atr \<and> (tc_abs_delta_min c \<le> 0 \<or> share \<ge> tc_abs_delta_min c)
                      then set 1 t
                      else if - moved \<ge> tc_abs_min_move_atr c * atr \<and> (tc_abs_delta_min c \<le> 0 \<or> share \<le> 1 - tc_abs_delta_min c)
                      then set (-1) t
                      else t)
      in if d = 0 then look s
         else if tc_abs_arm_bars c < age then look off
         else if 0 < d \<and> x < level \<and> can_enter s hhmm (-1) then enter (-1) x ''absorption_fade_short'' off
         else if d < 0 \<and> x > level \<and> can_enter s hhmm 1 then enter 1 x ''absorption_fade_long'' off
         else aged)"

definition delta_sum :: "int \<Rightarrow> trend \<Rightarrow> nat \<Rightarrow> real" where
  "delta_sum n s end_excl = sum_list (last_n (nat n) (take end_excl (ti_delta (tn_ind s))))"

definition mode_delta_div :: "trend_bar \<Rightarrow> int \<Rightarrow> trend \<Rightarrow> trend" where
  "mode_delta_div b hhmm s =
     (let n = tc_dd_bars (tn_cfg s); ds = ti_delta (tn_ind s); m = length ds; w = prior_bars n s; cur = delta_sum n s m;
          totals = map (delta_sum n s) [m - nat n..<m];
          top = fold (\<lambda>x k. max k x) totals (- dbl_max); bottom = fold (\<lambda>x k. min k x) totals dbl_max; d = last ds
      in if n < 2 \<or> bar_count s < 2 * n + 1 \<or> int m < 2 * n + 1 then s
         else short_or_long hhmm (tb_c b) (tb_h b > bars_high w \<and> cur < top \<and> d \<le> 0) ''delta_divergence_short''
                (tb_l b < bars_low w \<and> cur > bottom \<and> d \<ge> 0) ''delta_divergence_long'' s)"

definition mode_volume_burst :: "trend_bar \<Rightarrow> int \<Rightarrow> trend \<Rightarrow> trend" where
  "mode_volume_burst b hhmm s =
     (let c = tn_cfg s; i = tn_ind s; avg = avg_vol_prior (tc_vol_avg_bars c) s; rng = tb_h b - tb_l b;
          where_closed = (tb_c b - tb_l b) / rng; share = buy_share b
      in if avg \<le> 0 \<or> tb_v b < tc_vb_vol_mult c * avg \<or> rng \<le> 0 then s
         else long_or_short hhmm (tb_c b)
                (where_closed \<ge> tc_vb_close_loc c \<and> share \<ge> tc_vb_delta_min c \<and> (\<not> tc_vb_trend_agree c \<or> ti_ema_f i > ti_ema_s i))
                ''volume_burst_long''
                (where_closed \<le> 1 - tc_vb_close_loc c \<and> share \<le> 1 - tc_vb_delta_min c \<and>
                 (\<not> tc_vb_trend_agree c \<or> ti_ema_f i < ti_ema_s i)) ''volume_burst_short'' s)"

subsection \<open>Session modes\<close>

text \<open>\<open>reset_2809_modes\<close>: the session modes start afresh.\<close>

definition reset_2809_modes :: "trend \<Rightarrow> trend" where
  "reset_2809_modes s =
     (arm (\<lambda>a. a\<lparr>ar_ort_hi := - dbl_max, ar_ort_lo := dbl_max, ar_ort_set := False, ar_ort_arm := 0, ar_ort_age := 0,
        ar_ort_used_l := False, ar_ort_used_s := False, ar_gf_done := False, ar_gf_dir := 0, ar_nb_hi := - dbl_max,
        ar_nb_lo := dbl_max, ar_nb_set := False, ar_nb_done := False, ar_ib_hi := - dbl_max, ar_ib_lo := dbl_max,
        ar_ib_set := False, ar_ib_dir := 0, ar_ib_target := 0, ar_hold_done := False, ar_ab_used_l := False,
        ar_ab_used_s := False\<rparr>) s)
     \<lparr>tn_vp := (tn_vp s)\<lparr>vp_used_l := False, vp_used_s := False, vp_dir := 0\<rparr>\<rparr>"

definition mode_drive :: "trend_bar \<Rightarrow> int \<Rightarrow> trend \<Rightarrow> trend" where
  "mode_drive b hhmm s =
     (let c = tn_cfg s; mv = tb_c b - an_open (tn_an s); p = prev_bar s;
          dir = (if \<bar>mv\<bar> \<ge> tc_drive_min_atr c * ti_atr (tn_ind s) then (if mv > 0 then 1 else -1) else 0);
          t = (if \<not> ar_drive_done (tn_ar s) \<and> mod_of hhmm \<ge> an_open_mod (tn_an s) + tc_drive_minutes c
               then arm (\<lambda>a. a\<lparr>ar_drive_done := True, ar_drive_dir := dir\<rparr>) s else s);
          d = ar_drive_dir (tn_ar t)
      in if \<not> an_in (tn_an s) then s
         else if d = 0 \<or> hhmm < tc_drive_entry_from c \<or> hhmm \<ge> tc_drive_entry_to c \<or> bar_count s < 3 then t
         else long_or_short hhmm (tb_c b) (0 < d \<and> tb_c p < tb_o p \<and> tb_c b > tb_h p) ''drive_pullback_long''
                (d < 0 \<and> tb_c p > tb_o p \<and> tb_c b < tb_l p) ''drive_pullback_short'' t)"

definition mode_atr_break :: "trend_bar \<Rightarrow> int \<Rightarrow> trend \<Rightarrow> trend" where
  "mode_atr_break b hhmm s =
     (let c = tn_cfg s; a = tn_an s; atr = (if tc_ab_day_atr c then tn_day_atr s else ti_atr (tn_ind s));
          anchor = (if tc_ab_anchor c = ''prev_close'' then (if an_have_prev a then an_prev_close a else 0) else an_open a);
          up = anchor + tc_ab_k c * atr; dn = anchor - tc_ab_k c * atr; p = prev_bar s; x = tb_c b
      in if \<not> an_in a \<or> atr \<le> 0 \<or> anchor \<le> 0 \<or> bar_count s < 2 then s
         else if \<not> ar_ab_used_l (tn_ar s) \<and> tb_c p \<le> up \<and> x > up \<and> can_enter s hhmm 1
         then enter 1 x ''atr_break_long'' (arm (\<lambda>a. a\<lparr>ar_ab_used_l := True\<rparr>) s)
         else if \<not> ar_ab_used_s (tn_ar s) \<and> tb_c p \<ge> dn \<and> x < dn \<and> can_enter s hhmm (-1)
         then enter (-1) x ''atr_break_short'' (arm (\<lambda>a. a\<lparr>ar_ab_used_s := True\<rparr>) s)
         else s)"

definition mode_vprofile :: "trend_bar \<Rightarrow> int \<Rightarrow> trend \<Rightarrow> trend" where
  "mode_vprofile b hhmm s =
     (let c = tn_cfg s; v = tn_vp s; x = tb_c b; p = prev_bar s; tol = tc_vp_tol_atr c * ti_atr (tn_ind s);
          put = (\<lambda>w. s\<lparr>tn_vp := w\<rparr>)
      in if \<not> vp_ready v \<or> \<not> an_in (tn_an s) then s
         else if vp_dir v \<noteq> 0 \<and> ss_in_pos (tn_ss s)
         then (if (0 < vp_dir v \<and> tb_h b \<ge> vp_poc v) \<or> (vp_dir v < 0 \<and> tb_l b \<le> vp_poc v)
               then trend_flatten x ''vp_target'' (put (v\<lparr>vp_dir := 0\<rparr>)) else s)
         else if bar_count s < 2 then s
         else if tc_vp_style c = ''fade''
         then (if \<not> vp_used_s v \<and> tb_h b \<ge> vp_vah v - tol \<and> x < vp_vah v \<and> can_enter s hhmm (-1)
               then enter (-1) x ''vp_fade_vah'' (put (v\<lparr>vp_used_s := True, vp_dir := -1\<rparr>))
               else if \<not> vp_used_l v \<and> tb_l b \<le> vp_val v + tol \<and> x > vp_val v \<and> can_enter s hhmm 1
               then enter 1 x ''vp_fade_val'' (put (v\<lparr>vp_used_l := True, vp_dir := 1\<rparr>))
               else s)
         else (if \<not> vp_used_l v \<and> tb_c p \<le> vp_vah v \<and> x > vp_vah v \<and> can_enter s hhmm 1
               then enter 1 x ''vp_break_vah'' (put (v\<lparr>vp_used_l := True\<rparr>))
               else if \<not> vp_used_s v \<and> tb_c p \<ge> vp_val v \<and> x < vp_val v \<and> can_enter s hhmm (-1)
               then enter (-1) x ''vp_break_val'' (put (v\<lparr>vp_used_s := True\<rparr>))
               else s))"

definition mode_hold :: "trend_bar \<Rightarrow> int \<Rightarrow> trend \<Rightarrow> trend" where
  "mode_hold b hhmm s =
     (let c = tn_cfg s; late = mod_of hhmm - mod_of (tc_hold_entry_hhmm c); d = et_day_of_month (tb_ts b);
          dir = (if tc_hold_dir c < 0 then -1 else 1); t = arm (\<lambda>a. a\<lparr>ar_hold_done := True\<rparr>) s
      in if ss_in_pos (tn_ss s) \<or> ar_hold_done (tn_ar s) \<or> late < 0 \<or> late > 5 then s
         else if tc_hold_tom c \<and> \<not> (d \<ge> 28 \<or> d \<le> 3) then t
         else if tc_hold_pre_event c \<and> \<not> tn_event_next s then t
         else if tc_hold_up_day c \<and> an_in (tn_an s) \<and> \<not> tn_last s > an_open (tn_an s) then t
         else if can_enter t hhmm dir then enter dir (tb_c b) (if 0 < dir then ''hold_long'' else ''hold_short'') t
         else t)"

definition mode_orb_retest :: "trend_bar \<Rightarrow> int \<Rightarrow> trend \<Rightarrow> trend" where
  "mode_orb_retest b hhmm s =
     (let c = tn_cfg s; m = mins_since_open b s; x = tb_c b; tol = tc_ort_tol_atr c * ti_atr (tn_ind s);
          found = ar_ort_lo (tn_ar s) < ar_ort_hi (tn_ar s);
          t = (if ar_ort_set (tn_ar s) then s else arm (\<lambda>a. a\<lparr>ar_ort_set := found\<rparr>) s);
          a = tn_ar t; hi = ar_ort_hi a; lo = ar_ort_lo a; age = ar_ort_age a + 1;
          aged = arm (\<lambda>a. a\<lparr>ar_ort_age := age\<rparr>) t; off = arm (\<lambda>a. a\<lparr>ar_ort_arm := 0\<rparr>) aged
      in if m < 0 then s
         else if m < tc_ort_minutes c
         then arm (\<lambda>a. a\<lparr>ar_ort_hi := max (ar_ort_hi a) (tb_h b), ar_ort_lo := min (ar_ort_lo a) (tb_l b)\<rparr>) s
         else if \<not> ar_ort_set a then t
         else if ar_ort_arm a = 0
         then (if x > hi \<and> \<not> ar_ort_used_l a then arm (\<lambda>a. a\<lparr>ar_ort_arm := 1, ar_ort_age := 0\<rparr>) t
               else if x < lo \<and> \<not> ar_ort_used_s a then arm (\<lambda>a. a\<lparr>ar_ort_arm := -1, ar_ort_age := 0\<rparr>) t else t)
         else if 0 < ar_ort_arm a
         then (if x < hi \<or> age > tc_ort_max_bars c then off
               else if tb_l b \<le> hi + tol \<and> x > hi \<and> can_enter aged hhmm 1
               then enter 1 x ''orb_retest_long'' (arm (\<lambda>a. a\<lparr>ar_ort_used_l := True\<rparr>) off) else aged)
         else (if x > lo \<or> age > tc_ort_max_bars c then off
               else if tb_h b \<ge> lo - tol \<and> x < lo \<and> can_enter aged hhmm (-1)
               then enter (-1) x ''orb_retest_short'' (arm (\<lambda>a. a\<lparr>ar_ort_used_s := True\<rparr>) off) else aged))"

definition mode_gap_fade :: "trend_bar \<Rightarrow> int \<Rightarrow> trend \<Rightarrow> trend" where
  "mode_gap_fade b hhmm s =
     (let c = tn_cfg s; a = tn_an s; m = mins_since_open b s; x = tb_c b; d = ar_gf_dir (tn_ar s); gp = an_gap a;
          target = an_prev_close a + (1 - tc_gf_fill_frac c) * gp;
          took = (\<lambda>k. arm (\<lambda>a. a\<lparr>ar_gf_done := True, ar_gf_dir := k\<rparr>) s)
      in if \<not> an_have_prev a \<or> m < 0 then s
         else if d \<noteq> 0 \<and> ss_in_pos (tn_ss s)
         then (if (d < 0 \<and> tb_l b \<le> target) \<or> (0 < d \<and> tb_h b \<ge> target)
               then trend_flatten x ''gap_filled'' (arm (\<lambda>a. a\<lparr>ar_gf_dir := 0\<rparr>) s) else s)
         else if ar_gf_done (tn_ar s) \<or> \<bar>gp\<bar> < tc_gf_min_pts c \<or> m < tc_gf_wait_min c then s
         else if gp > 0 \<and> x < tb_o b \<and> x < an_open a \<and> can_enter s hhmm (-1) then enter (-1) x ''gap_fade_short'' (took (-1))
         else if gp < 0 \<and> x > tb_o b \<and> x > an_open a \<and> can_enter s hhmm 1 then enter 1 x ''gap_fade_long'' (took 1)
         else s)"

definition mode_news_break :: "trend_bar \<Rightarrow> int \<Rightarrow> trend \<Rightarrow> trend" where
  "mode_news_break b hhmm s =
     (let c = tn_cfg s; start = mod_of (tc_nb_hhmm c); m = tb_mod b; x = tb_c b;
          found = ar_nb_lo (tn_ar s) < ar_nb_hi (tn_ar s);
          t = (if ar_nb_set (tn_ar s) then s else arm (\<lambda>a. a\<lparr>ar_nb_set := found\<rparr>) s); a = tn_ar t;
          used = arm (\<lambda>a. a\<lparr>ar_nb_done := True\<rparr>) t
      in if tc_nb_event_only c \<and> \<not> tn_event_day s then s
         else if m < start then s
         else if m < start + tc_nb_range_min c
         then arm (\<lambda>a. a\<lparr>ar_nb_hi := max (ar_nb_hi a) (tb_h b), ar_nb_lo := min (ar_nb_lo a) (tb_l b)\<rparr>) s
         else if \<not> ar_nb_set a \<or> ar_nb_done a \<or> m \<ge> start + tc_nb_window_min c then t
         else if x > ar_nb_hi a \<and> can_enter t hhmm 1 then enter 1 x ''news_break_long'' used
         else if x < ar_nb_lo a \<and> can_enter t hhmm (-1) then enter (-1) x ''news_break_short'' used
         else t)"

definition mode_ib_break :: "trend_bar \<Rightarrow> int \<Rightarrow> trend \<Rightarrow> trend" where
  "mode_ib_break b hhmm s =
     (let c = tn_cfg s; m = mins_since_open b s; x = tb_c b; hi = ar_ib_hi (tn_ar s); lo = ar_ib_lo (tn_ar s); rng = hi - lo;
          found = hi > lo \<and> rng \<ge> tc_ib_min_atr c * ti_atr (tn_ind s);
          t = (if ar_ib_set (tn_ar s) then s else arm (\<lambda>a. a\<lparr>ar_ib_set := found\<rparr>) s); d = ar_ib_dir (tn_ar t)
      in if m < 0 then s
         else if m < tc_ib_minutes c
         then arm (\<lambda>a. a\<lparr>ar_ib_hi := max (ar_ib_hi a) (tb_h b), ar_ib_lo := min (ar_ib_lo a) (tb_l b)\<rparr>) s
         else if \<not> ar_ib_set (tn_ar t) then t
         else if d \<noteq> 0 \<and> ss_in_pos (tn_ss t)
         then (if (0 < d \<and> tb_h b \<ge> ar_ib_target (tn_ar t)) \<or> (d < 0 \<and> tb_l b \<le> ar_ib_target (tn_ar t))
               then trend_flatten x ''ib_target'' (arm (\<lambda>a. a\<lparr>ar_ib_dir := 0\<rparr>) t) else t)
         else if x > hi \<and> can_enter t hhmm 1
         then enter 1 x ''ib_break_long'' (arm (\<lambda>a. a\<lparr>ar_ib_dir := 1, ar_ib_target := hi + tc_ib_ext c * rng\<rparr>) t)
         else if x < lo \<and> can_enter t hhmm (-1)
         then enter (-1) x ''ib_break_short'' (arm (\<lambda>a. a\<lparr>ar_ib_dir := -1, ar_ib_target := lo - tc_ib_ext c * rng\<rparr>) t)
         else t)"

definition mode_pdhl :: "trend_bar \<Rightarrow> int \<Rightarrow> trend \<Rightarrow> trend" where
  "mode_pdhl b hhmm s =
     (let c = tn_cfg s; a = tn_an s; over = (tc_level c = ''overnight''); hi = (if over then an_on_hi a else an_prev_hi a);
          lo = (if over then an_on_lo a else an_prev_lo a); vols = ti_vol (tn_ind s); k = tc_vol_avg_bars c;
          avg = sum_list (last_n (nat k) (butlast vols)) / of_int k; p = prev_bar s; x = tb_c b
      in if (if over then hi \<le> lo else \<not> an_have_prev a) \<or> int (length vols) < k + 1 \<or> tb_v b < tc_vol_mult c * avg \<or>
            bar_count s < 2 then s
         else long_or_short hhmm x (tb_c p \<le> hi \<and> x > hi) (tc_level c @ ''_high_break'')
                (tb_c p \<ge> lo \<and> x < lo) (tc_level c @ ''_low_break'') s)"

definition mode_trend_day :: "trend_bar \<Rightarrow> int \<Rightarrow> trend \<Rightarrow> trend" where
  "mode_trend_day b hhmm s =
     (let c = tn_cfg s; d = ar_td_dir (tn_ar s); ref = (if tc_td_pullback c = ''ema'' then ti_ema_f (tn_ind s) else vwap s);
          tol = tc_vwap_tol_atr c * ti_atr (tn_ind s); x = tb_c b
      in if d = 0 \<or> \<not> an_in (tn_an s) \<or> ref \<le> 0 then s
         else long_or_short hhmm x (0 < d \<and> tb_l b \<le> ref + tol \<and> x > ref \<and> x > tb_o b) ''trend_day_pullback_long''
                (d < 0 \<and> tb_h b \<ge> ref - tol \<and> x < ref \<and> x < tb_o b) ''trend_day_pullback_short'' s)"

end
