(* ===== verification/Trend_Profile.thy ===== *)
theory Trend_Profile
  imports Trend_State
begin

section \<open>The volume profile of a session\<close>

text \<open>
  The histogram \<open>vp_cur_\<close> of \<open>TrendStrategy\<close> (\<open>src/src/execution/trend_strategy.hpp\<close>), its update by a
  minute bar, and \<open>finalize_profile\<close>: the point of control and the value area, grown from it one price
  at a time.  That loop is a function with a termination proof: every step takes in a price of the
  histogram that was outside.
\<close>

subsection \<open>The histogram\<close>

type_synonym histogram = "(int \<times> real) list"

text \<open>\<open>vp_cur_[px] += per\<close>.\<close>

fun bump :: "int \<Rightarrow> real \<Rightarrow> histogram \<Rightarrow> histogram" where
  "bump px per [] = [(px, per)]"
| "bump px per ((k, v) # m) =
     (if px < k then (px, per) # (k, v) # m else if px = k then (k, v + per) # m else (k, v) # bump px per m)"

definition profile_bar :: "trend_bar \<Rightarrow> histogram \<Rightarrow> histogram" where
  "profile_bar b m =
     (let lo = \<lfloor>tb_l b\<rfloor>; hi = \<lfloor>tb_h b\<rfloor>; per = tb_v b / of_int (hi - lo + 1) in fold (\<lambda>px. bump px per) [lo..hi] m)"

definition volume_at :: "histogram \<Rightarrow> int \<Rightarrow> real" where
  "volume_at m k = (case map_of m k of None \<Rightarrow> 0 | Some v \<Rightarrow> v)"

definition total_volume :: "histogram \<Rightarrow> real" where
  "total_volume m = sum_list (map snd m)"

text \<open>The first price with the greatest volume, and that volume.\<close>

definition point_of_control :: "histogram \<Rightarrow> int \<times> real" where
  "point_of_control m = fold (\<lambda>(k, v) (p, best). if v > best then (k, v) else (p, best)) m (fst (hd m), -1)"

subsection \<open>The value area\<close>

definition side_volume :: "histogram \<Rightarrow> int \<Rightarrow> real" where
  "side_volume m k = (case map_of m k of None \<Rightarrow> -1 | Some v \<Rightarrow> v)"

text \<open>The prices of the histogram outside an interval: what the loop has left to take in.\<close>

definition outside :: "histogram \<Rightarrow> int \<Rightarrow> int \<Rightarrow> int set" where
  "outside m a z = {k \<in> set (map fst m). k < a \<or> z < k}"

lemma finite_outside [simp]: "finite (outside m a z)"
  by (simp add: outside_def)

lemma side_volume_key: "0 \<le> side_volume m k \<Longrightarrow> k \<in> set (map fst m)"
  by (cases "map_of m k") (simp_all add: side_volume_def, force dest: map_of_SomeD)

lemma outside_shrinks:
  assumes "a \<le> z"
  shows "0 \<le> side_volume m (z + 1) \<Longrightarrow> card (outside m a (z + 1)) < card (outside m a z)"
    "0 \<le> side_volume m (a - 1) \<Longrightarrow> card (outside m (a - 1) z) < card (outside m a z)"
proof -
  show "card (outside m a (z + 1)) < card (outside m a z)" if "0 \<le> side_volume m (z + 1)"
  proof (rule psubset_card_mono)
    have "z + 1 \<in> outside m a z" "z + 1 \<notin> outside m a (z + 1)"
      using side_volume_key [OF that] assms by (simp_all add: outside_def)
    moreover have "outside m a (z + 1) \<subseteq> outside m a z" by (auto simp: outside_def)
    ultimately show "outside m a (z + 1) \<subset> outside m a z" by blast
  qed simp
  show "card (outside m (a - 1) z) < card (outside m a z)" if "0 \<le> side_volume m (a - 1)"
  proof (rule psubset_card_mono)
    have "a - 1 \<in> outside m a z" "a - 1 \<notin> outside m (a - 1) z"
      using side_volume_key [OF that] assms by (simp_all add: outside_def)
    moreover have "outside m (a - 1) z \<subseteq> outside m a z" by (auto simp: outside_def)
    ultimately show "outside m (a - 1) z \<subset> outside m a z" by blast
  qed simp
qed

text \<open>The loop; an interval that is not one, which never occurs, ends it.\<close>

function value_area :: "histogram \<Rightarrow> real \<Rightarrow> int \<Rightarrow> int \<Rightarrow> real \<Rightarrow> int \<times> int \<times> real" where
  "value_area m need a z inside =
     (let u = side_volume m (z + 1); d = side_volume m (a - 1)
      in if \<not> inside < need \<or> (u < 0 \<and> d < 0) \<or> z < a then (a, z, inside)
         else if u \<ge> d then value_area m need a (z + 1) (inside + u)
         else value_area m need (a - 1) z (inside + d))"
  by pat_completeness auto
termination
proof (relation "measure (\<lambda>(m, need, a, z, inside). card (outside m a z))")
qed (auto simp: outside_shrinks)

declare value_area.simps [simp del]

definition finalize_profile :: "trend \<Rightarrow> trend" where
  "finalize_profile s =
     (let v = tn_vp s; m = vp_cur v; (poc, pv) = point_of_control m;
          (lo, hi, inside) = value_area m (tc_vp_va_frac (tn_cfg s) * total_volume m) poc poc pv
      in if m = [] then s
         else s\<lparr>tn_vp := v\<lparr>vp_poc := of_int poc + 1 / 2, vp_vah := of_int hi + 1, vp_val := of_int lo, vp_ready := True,
                 vp_cur := [], vp_used_l := False, vp_used_s := False, vp_dir := 0\<rparr>\<rparr>)"

subsection \<open>Histograms are sorted\<close>

definition ordered :: "histogram \<Rightarrow> bool" where
  "ordered m = sorted_wrt (<) (map fst m)"

lemma bump_keys: "set (map fst (bump px per m)) = insert px (set (map fst m))"
  by (induction px per m rule: bump.induct) auto

lemma bump_ordered: "ordered m \<Longrightarrow> ordered (bump px per m)"
proof (induction px per m rule: bump.induct)
  case (2 px per k v m)
  then show ?case using bump_keys [of px per m] by (auto simp: ordered_def)
qed (simp add: ordered_def)

lemma bump_lookup: "ordered m \<Longrightarrow> map_of (bump px per m) = (map_of m)(px \<mapsto> volume_at m px + per)"
proof (induction px per m rule: bump.induct)
  case (2 px per k v m)
  then have "map_of m px = None" if "px \<le> k"
    using that by (force simp: ordered_def map_of_eq_None_iff)
  then show ?case using 2 by (auto simp: volume_at_def ordered_def fun_upd_def fun_eq_iff)
qed (simp add: volume_at_def)

lemma bump_total: "total_volume (bump px per m) = total_volume m + per"
  by (induction px per m rule: bump.induct) (auto simp: total_volume_def)

lemma profile_bar_ordered: "ordered m \<Longrightarrow> ordered (profile_bar b m)"
proof -
  have "ordered m \<Longrightarrow> ordered (fold (\<lambda>px. bump px per) ks m)" for per ks
    by (induction ks arbitrary: m) (auto intro: bump_ordered)
  then show "ordered m \<Longrightarrow> ordered (profile_bar b m)" by (simp add: profile_bar_def Let_def)
qed

end
