(* ===== verification/Trend_Strategy.thy ===== *)
theory Trend_Strategy
  imports Trend_Modes Trend_Profile
begin

section \<open>The trend strategy\<close>

text \<open>
  \<open>TrendStrategy\<close> of \<open>src/src/execution/trend_strategy.hpp\<close>: ticks to one-minute bars, minute bars to
  bars of the timeframe, the indicators, the choice of the mode, and the host contract.
\<close>

subsection \<open>Minute modes\<close>

definition mode_gap :: "trend_bar \<Rightarrow> int \<Rightarrow> trend \<Rightarrow> trend" where
  "mode_gap b hhmm s =
     (let c = tn_cfg s; a = tn_an s; gp = an_gap a; t = arm (\<lambda>r. r\<lparr>ar_gap_done := True\<rparr>) s;
          filled = (if gp > 0 then an_open a - an_day_lo a else an_day_hi a - an_open a)
      in if \<not> an_in a \<or> \<not> an_have_prev a \<or> ar_gap_done (tn_ar s) \<or> mod_of hhmm < an_open_mod a + tc_gap_wait_min c then s
         else if \<bar>gp\<bar> < tc_gap_min_pts c \<or> filled \<ge> tc_gap_fill_frac c * \<bar>gp\<bar> then t
         else long_or_short hhmm (tb_c b) (gp > 0) ''gap_and_go_long'' (gp < 0) ''gap_and_go_short'' t)"

definition mode_rs :: "trend_bar \<Rightarrow> int \<Rightarrow> trend \<Rightarrow> trend" where
  "mode_rs b hhmm s =
     (let c = tn_cfg s; l = tc_rs_lookback_min c; m1 = tn_m1_hist s; ref = tn_ref s;
          nq = 10000 * (tb_c b / tb_c (m1 ! (length m1 - 1 - nat l)) - 1);
          es = 10000 * (last ref / ref ! (length ref - 1 - nat l) - 1)
      in if int (length m1) < l + 1 \<or> int (length ref) < l + 1 \<or> ti_ema_f (tn_ind s) \<le> 0 then s
         else long_or_short hhmm (tb_c b) (nq - es \<ge> tc_rs_min_bp c \<and> nq > 0) ''nq_leads_es_up''
                (nq - es \<le> - tc_rs_min_bp c \<and> nq < 0) ''nq_leads_es_down'' s)"

definition mode_tod :: "trend_bar \<Rightarrow> int \<Rightarrow> trend \<Rightarrow> trend" where
  "mode_tod b hhmm s =
     (let c = tn_cfg s; l = tc_tod_lookback_min c; m1 = tn_m1_hist s; mv = tb_c b - tb_c (m1 ! (length m1 - 1 - nat l));
          t = arm (\<lambda>r. r\<lparr>ar_tod_done := True\<rparr>) s
      in if ar_tod_done (tn_ar s) \<or> hhmm < tc_tod_hhmm c then s
         else if hhmm \<ge> tc_tod_hhmm c + tc_tod_window_min c then t
         else if int (length m1) < l + 1 \<or> ti_atr (tn_ind s) \<le> 0 \<or> \<bar>mv\<bar> < tc_tod_min_atr c * ti_atr (tn_ind s) then s
         else long_or_short hhmm (tb_c b) (mv > 0) ''tod_continuation_long'' (mv < 0) ''tod_continuation_short'' t)"

text \<open>The minute closes on the side of VWAP, against the candidate direction.\<close>

definition vwap_pairs :: "trend \<Rightarrow> (real \<times> real) list" where
  "vwap_pairs s =
     (let vs = an_vwap_hist (tn_an s); m1 = tn_m1_hist s; shift = int (length m1) - int (length vs)
      in filter (\<lambda>(v, x). v > 0)
           (map (\<lambda>i. (vs ! i, tb_c (m1 ! nat (shift + int i))))
             (filter (\<lambda>i. 0 \<le> shift + int i) [0..<min (length vs) (length m1)])))"

definition recognise_trend_day :: "trend_bar \<Rightarrow> trend \<Rightarrow> trend" where
  "recognise_trend_day b s =
     (let c = tn_cfg s; a = tn_an s; atr = ti_atr (tn_ind s); mv = tb_c b - an_open a;
          dir = (if \<bar>mv\<bar> \<ge> tc_td_min_atr c * atr then (if mv > 0 then 1 else -1) else 0);
          pairs = vwap_pairs s;
          ok = filter (\<lambda>(v, x). (0 < dir \<and> x > v) \<or> (dir < 0 \<and> x < v)) pairs;
          frac = (if pairs = [] then 0 else real (length ok) / real (length pairs))
      in if \<not> an_in a \<or> ar_td_done (tn_ar s) \<or> atr \<le> 0 \<or> tb_mod b < an_open_mod a + tc_td_check_min c then s
         else arm (\<lambda>r. r\<lparr>ar_td_done := True, ar_td_dir := (if dir \<noteq> 0 \<and> frac \<ge> tc_td_vwap_frac c then dir else 0)\<rparr>) s)"

subsection \<open>A completed bar of the timeframe\<close>

text \<open>\<open>ema_ <= 0 ? c : ema_ + k * (c - ema_)\<close>.\<close>

definition ema_step :: "int \<Rightarrow> real \<Rightarrow> real \<Rightarrow> real" where
  "ema_step len x e = (if e \<le> 0 then x else e + 2 / of_int (len + 1) * (x - e))"

definition tf_indicators :: "trend_bar \<Rightarrow> trend \<Rightarrow> trend" where
  "tf_indicators b s =
     (let c = tn_cfg s; i = tn_ind s; tf = push_cap 400 b (tn_tf s); p = last (butlast tf); x = tb_c b;
          tr = max (max (tb_h b - tb_l b) \<bar>tb_h b - tb_c p\<bar>) \<bar>tb_l b - tb_c p\<bar>;
          atr = (if length tf < 2 then ti_atr i else if ti_atr i \<le> 0 then tr
                 else (ti_atr i * of_int (tc_atr_len c - 1) + tr) / of_int (tc_atr_len c))
      in s\<lparr>tn_tf := tf,
           tn_ind := \<lparr>ti_atr = atr, ti_ema_f = ema_step (tc_ema_fast c) x (ti_ema_f i),
             ti_ema_s = ema_step (tc_ema_slow c) x (ti_ema_s i), ti_ema20 = ema_step 20 x (ti_ema20 i),
             ti_rf = ema_step (tc_ribbon_fast c) x (ti_rf i), ti_rm = ema_step (tc_ribbon_mid c) x (ti_rm i),
             ti_rs = ema_step (tc_ribbon_slow c) x (ti_rs i), ti_slow5 = push_cap 6 (ti_ema_s i) (ti_slow5 i),
             ti_vol = push_cap 200 (tb_v b) (ti_vol i), ti_delta = push_cap 400 (2 * tb_bv b - tb_v b) (ti_delta i)\<rparr>\<rparr>)"

text \<open>The mode of a name; an unknown name decides nothing.\<close>

definition bar_mode :: "string \<Rightarrow> trend_bar \<Rightarrow> int \<Rightarrow> trend \<Rightarrow> trend" where
  "bar_mode m =
     (if m = ''donchian'' then mode_donchian else if m = ''trend_day'' then mode_trend_day
      else if m = ''failed_breakout'' then mode_failed_breakout else if m = ''keltner_ride'' then mode_keltner
      else if m = ''ichimoku'' then mode_ichimoku else if m = ''roc_momentum'' then mode_roc
      else if m = ''delta_trend'' then mode_delta else if m = ''fib_pullback'' then mode_fib
      else if m = ''vwap_fade'' then mode_vwap_fade else if m = ''band_fade'' then mode_band_fade
      else if m = ''rsi2_pullback'' then mode_rsi2 else if m = ''ema_pullback'' then mode_ema_pullback
      else if m = ''vwap_trend'' then mode_vwap else if m = ''opening_drive'' then mode_drive
      else if m = ''pdhl_breakout'' then mode_pdhl else if m = ''squeeze'' then mode_squeeze
      else if m = ''supertrend'' then mode_supertrend else if m = ''nr7'' then mode_nr7
      else if m = ''ema_ribbon'' then mode_ema_ribbon else if m = ''thrust_fade'' then mode_thrust_fade
      else if m = ''absorption_reversal'' then mode_absorption else if m = ''delta_divergence'' then mode_delta_div
      else if m = ''volume_burst'' then mode_volume_burst else if m = ''orb_retest'' then mode_orb_retest
      else if m = ''gap_fade'' then mode_gap_fade else if m = ''news_break'' then mode_news_break
      else if m = ''ib_break'' then mode_ib_break else if m = ''hold'' then mode_hold
      else if m = ''atr_break'' then mode_atr_break else if m = ''vprofile'' then mode_vprofile
      else (\<lambda>b hhmm s. s))"

text \<open>The chandelier stop: whether it fires, after the best price has moved.\<close>

definition chandelier :: "trend_bar \<Rightarrow> trend \<Rightarrow> bool \<times> trend" where
  "chandelier b s =
     (let k = tc_chandelier_mult (tn_cfg s); d = ss_dir (tn_ss s);
          best = (if 0 < d then max (tn_best s) (tb_h b) else min (tn_best s) (tb_l b));
          stop = best - of_int d * k * ti_atr (tn_ind s)
      in if ss_in_pos (tn_ss s) \<and> k > 0
         then ((0 < d \<and> tb_c b < stop) \<or> (d < 0 \<and> tb_c b > stop), s\<lparr>tn_best := best\<rparr>)
         else (False, s))"

definition on_tf_close :: "trend_bar \<Rightarrow> int \<Rightarrow> trend \<Rightarrow> trend" where
  "on_tf_close b hhmm s =
     (let t = tf_indicators b s; (fires, u) = chandelier b t
      in if ti_atr (tn_ind t) \<le> 0 then t
         else if fires then trend_flatten (tb_c b) ''chandelier'' u
         else bar_mode (tc_mode (tn_cfg u)) b hhmm u)"

subsection \<open>A completed minute\<close>

definition profile_minute :: "trend_bar \<Rightarrow> trend \<Rightarrow> trend" where
  "profile_minute b s =
     (if an_in (tn_an s) \<and> tb_v b > 0 \<and> tb_h b \<ge> tb_l b
      then s\<lparr>tn_vp := (tn_vp s)\<lparr>vp_cur := profile_bar b (vp_cur (tn_vp s))\<rparr>\<rparr> else s)"

definition time_stop :: "trend_bar \<Rightarrow> trend \<Rightarrow> trend" where
  "time_stop b s =
     (let c = tn_cfg s; e = ss_entry_ts (tn_ss s)
      in if ss_in_pos (tn_ss s) \<and> 0 < tc_time_stop_min c \<and> 0 < e \<and> tb_ts b - e \<ge> tc_time_stop_min c * 60000000
         then trend_flatten (tb_c b) ''time_stop'' s else s)"

definition merge_bar :: "trend_bar \<Rightarrow> trend_bar \<Rightarrow> trend_bar" where
  "merge_bar a b = a\<lparr>tb_h := max (tb_h a) (tb_h b), tb_l := min (tb_l a) (tb_l b), tb_c := tb_c b, tb_v := tb_v a + tb_v b,
     tb_bv := tb_bv a + tb_bv b\<rparr>"

definition aggregate :: "trend_bar \<Rightarrow> int \<Rightarrow> trend \<Rightarrow> trend" where
  "aggregate b hhmm s =
     (let tf = tc_tf_min (tn_cfg s); key = cdiv (tb_mod b) tf; cur = tn_tf_cur s;
          fresh = (tb_mod cur < 0 \<or> cdiv (tb_mod cur) tf \<noteq> key);
          t = (if fresh \<and> 0 \<le> tb_mod cur then on_tf_close cur hhmm s else s);
          u = t\<lparr>tn_tf_cur := (if fresh then b\<lparr>tb_mod := key * tf\<rparr> else merge_bar cur b)\<rparr>
      in if cdiv (tb_mod b + 1) tf \<noteq> key
         then (on_tf_close (tn_tf_cur u) hhmm u)\<lparr>tn_tf_cur := (tn_tf_cur u)\<lparr>tb_mod := -1\<rparr>\<rparr> else u)"

definition session_minute :: "trend_bar \<Rightarrow> trend \<Rightarrow> trend" where
  "session_minute b s =
     (let a = tn_an s; vw = vwap s; d = ar_td_dir (tn_ar s); x = tb_c b;
          good = (x > vw \<and> 0 \<le> d) \<or> (x < vw \<and> d \<le> 0)
      in if \<not> an_in a then s
         else s\<lparr>tn_an := a\<lparr>an_vwap_hist := an_vwap_hist a @ [vw], an_delta_hist := push_cap 600 (an_delta a) (an_delta_hist a),
                  an_side_n := an_side_n a + (if vw > 0 then 1 else 0),
                  an_side_ok := an_side_ok a + (if vw > 0 \<and> good then 1 else 0)\<rparr>\<rparr>)"

definition htf_minute :: "trend_bar \<Rightarrow> trend \<Rightarrow> trend" where
  "htf_minute b s =
     (let c = tn_cfg s; h = tn_htf s
      in if 0 < tc_htf_tf_min c \<and> cmod (tb_mod b + 1) (tc_htf_tf_min c) = 0
         then s\<lparr>tn_htf := \<lparr>th_ema = ema_step (tc_htf_ema c) (tb_c b) (th_ema h), th_close = tb_c b, th_n = th_n h + 1\<rparr>\<rparr> else s)"

definition minute_mode :: "trend_bar \<Rightarrow> int \<Rightarrow> trend \<Rightarrow> trend" where
  "minute_mode b hhmm s =
     (let m = tc_mode (tn_cfg s); t = (if m = ''trend_day'' then recognise_trend_day b s else s)
      in if m = ''gap_go'' then mode_gap b hhmm t else if m = ''tod_momentum'' then mode_tod b hhmm t
         else if m = ''rs_continuation'' then mode_rs b hhmm t else t)"

definition on_m1_close :: "trend_bar \<Rightarrow> int \<Rightarrow> trend \<Rightarrow> trend" where
  "on_m1_close b hhmm s =
     minute_mode b hhmm (htf_minute b (session_minute b (aggregate b hhmm (time_stop b (profile_minute b
       (s\<lparr>tn_m1_hist := push_cap 600 b (tn_m1_hist s)\<rparr>))))))"

subsection \<open>Ticks and quotes\<close>

text \<open>The session phases: the start of the anchor session, and its end.\<close>

definition session_start :: "real \<Rightarrow> int \<Rightarrow> trend \<Rightarrow> trend" where
  "session_start price m s =
     (let a = tn_an s
      in reset_2809_modes (arm (\<lambda>r. r\<lparr>ar_td_dir := 0, ar_td_done := False\<rparr>)
           (s\<lparr>tn_an := a\<lparr>an_in := True, an_seen := True, an_delta := 0, an_delta_hist := [], an_side_ok := 0, an_side_n := 0,
                an_vwap_pv := 0, an_vwap_v := 0, an_vwap_hist := [], an_day_hi := - dbl_max, an_day_lo := dbl_max,
                an_open := price, an_open_mod := m, an_gap := (if an_have_prev a then price - an_prev_close a else 0)\<rparr>\<rparr>)))"

definition session_phase :: "orb_tick \<Rightarrow> int \<Rightarrow> trend \<Rightarrow> trend" where
  "session_phase t m s =
     (let inside = trend_in_session (tn_cfg s) m; was = an_in (tn_an s)
      in if inside \<and> \<not> was then session_start (t_price t) m s
         else if \<not> inside \<and> was then finalize_profile (s\<lparr>tn_an := (tn_an s)\<lparr>an_in := False\<rparr>\<rparr>)
         else s)"

definition window_phase :: "int \<Rightarrow> trend \<Rightarrow> trend" where
  "window_phase m s =
     (let now = trend_in_window (tn_cfg s) (cdiv m 60 * 100 + cmod m 60)
      in if now = an_in_window (tn_an s) then s
         else s\<lparr>tn_an := (tn_an s)\<lparr>an_in_window := now\<rparr>,
                tn_ss := (if now then (tn_ss s)\<lparr>ss_eod := False\<rparr> else tn_ss s)\<rparr>)"

definition anchor_tick :: "orb_tick \<Rightarrow> int \<Rightarrow> trend \<Rightarrow> trend" where
  "anchor_tick t m s =
     (let a = tn_an s; p = t_price t; v = of_int (t_size t)
      in if trend_in_session (tn_cfg s) m
         then s\<lparr>tn_an := a\<lparr>an_vwap_pv := an_vwap_pv a + p * v, an_vwap_v := an_vwap_v a + v, an_close := p,
                  an_day_hi := max (an_day_hi a) p, an_day_lo := min (an_day_lo a) p\<rparr>\<rparr>
         else if m \<ge> 18 * 60 \<or> m < 9 * 60 + 30
         then s\<lparr>tn_an := a\<lparr>an_on_hi := max (an_on_hi a) p, an_on_lo := min (an_on_lo a) p\<rparr>\<rparr>
         else s)"

definition minute_tick :: "orb_tick \<Rightarrow> int \<Rightarrow> int \<Rightarrow> trend \<Rightarrow> trend" where
  "minute_tick t hhmm m s =
     (let p = t_price t; v = of_int (t_size t); bv = (if t_is_buy t then v else 0); cur = tn_m1 s
      in if tb_mod cur \<noteq> m
         then (if 0 \<le> tb_mod cur then on_m1_close cur hhmm s else s)
                \<lparr>tn_m1 := \<lparr>tb_mod = m, tb_ts = t_ts t, tb_o = p, tb_h = p, tb_l = p, tb_c = p, tb_v = v, tb_bv = bv\<rparr>\<rparr>
         else s\<lparr>tn_m1 := cur\<lparr>tb_h := max (tb_h cur) p, tb_l := min (tb_l cur) p, tb_c := p, tb_v := tb_v cur + v,
                  tb_bv := tb_bv cur + bv\<rparr>\<rparr>)"

definition delta_tick :: "orb_tick \<Rightarrow> int \<Rightarrow> trend \<Rightarrow> trend" where
  "delta_tick t m s =
     (let v = of_int (t_size t)
      in if trend_in_session (tn_cfg s) m
         then s\<lparr>tn_an := (tn_an s)\<lparr>an_delta := an_delta (tn_an s) + (if t_is_buy t then v else - v)\<rparr>\<rparr> else s)"

definition trend_on_tick :: "orb_tick \<Rightarrow> trend \<Rightarrow> trend" where
  "trend_on_tick t s =
     (let (h, mi) = trend_to_et (t_ts t); m = h * 60 + mi
      in delta_tick t m (minute_tick t (h * 100 + mi) m (anchor_tick t m (window_phase m (session_phase t m
           (s\<lparr>tn_last := t_price t, tn_last_ts := t_ts t\<rparr>))))))"

text \<open>Top of book; the tick size is not 0.\<close>

definition trend_on_quote :: "int \<Rightarrow> real \<Rightarrow> int \<Rightarrow> real \<Rightarrow> int \<Rightarrow> real \<Rightarrow> trend \<Rightarrow> trend" where
  "trend_on_quote ts bid bsz ask asz tick s =
     (let c = tn_cfg s; s0 = s\<lparr>tn_book := (tn_book s)\<lparr>qb_bid := bid, qb_ask := ask, qb_bsz := bsz, qb_asz := asz, qb_ts := ts\<rparr>\<rparr>;
          n = bsz + asz; raw = of_int bsz / of_int n; spread = (ask - bid) / tick; middle = (bid + ask) / 2;
          imb = (if tc_bi_invert c then 1 - raw else raw); (h, mi) = trend_to_et ts; hhmm = h * 100 + mi;
          side = (if imb \<ge> tc_bi_min c then 1 else if imb \<le> 1 - tc_bi_min c then -1 else 0);
          s1 = (if side \<noteq> qb_dir (tn_book s0) then s0\<lparr>tn_book := (tn_book s0)\<lparr>qb_dir := side, qb_since := ts\<rparr>\<rparr> else s0);
          s2 = s1\<lparr>tn_last := middle, tn_last_ts := ts\<rparr>;
          why = (if tc_bi_invert c then (if 0 < side then ''book_fade_ask'' else ''book_fade_bid'')
                 else (if 0 < side then ''book_imbalance_bid'' else ''book_imbalance_ask''))
      in if tc_mode c \<noteq> ''book_imbalance'' \<or> bid \<le> 0 \<or> ask < bid \<or> n \<le> 0 then s0
         else if ss_in_pos (tn_ss s2)
         then (if held_against s2 (imb \<le> tc_bi_exit c) (imb \<ge> 1 - tc_bi_exit c)
               then trend_flatten middle ''imbalance_normalised'' s2 else s2)
         else if side = 0 \<or> ts - qb_since (tn_book s2) < tc_bi_hold_secs c * 1000000 \<or> spread > tc_bi_max_spread_ticks c then s2
         else if can_enter s2 hhmm side then enter side middle why s2 else s2)"

subsection \<open>Host contract\<close>

definition trend_set_callback :: "trend \<Rightarrow> trend" where
  "trend_set_callback s = s\<lparr>tn_cb := True\<rparr>"

definition trend_reference_bar :: "real \<Rightarrow> trend \<Rightarrow> trend" where
  "trend_reference_bar x s = s\<lparr>tn_ref := push_cap 400 x (tn_ref s)\<rparr>"

definition trend_check_eod :: "int \<Rightarrow> int \<Rightarrow> trend \<Rightarrow> trend" where
  "trend_check_eod h m s =
     (let c = tn_cfg s; hhmm = h * 100 + m;
          past = (if tc_win_start c \<le> tc_win_end c then hhmm \<ge> tc_win_end c
                  else hhmm \<ge> tc_win_end c \<and> hhmm < tc_win_start c)
      in if past \<and> ss_in_pos (tn_ss s) \<and> \<not> ss_eod (tn_ss s)
         then trend_flatten (tn_last s) ''session_end'' (s\<lparr>tn_ss := (tn_ss s)\<lparr>ss_eod := True\<rparr>\<rparr>) else s)"

definition trend_reset_session :: "trend \<Rightarrow> trend" where
  "trend_reset_session s =
     (let a = tn_an s; q = tn_ss s; keep = (tc_mode (tn_cfg s) = ''hold'' \<and> ss_in_pos q);
          a1 = (if an_seen a then a\<lparr>an_prev_hi := an_day_hi a, an_prev_lo := an_day_lo a, an_prev_close := an_close a,
                  an_have_prev := True\<rparr> else a);
          t = reset_2809_modes (arm (\<lambda>r. r\<lparr>ar_drive_dir := 0, ar_drive_done := False, ar_gap_done := False,
                ar_tod_done := False, ar_reenter := 0, ar_td_dir := 0, ar_td_done := False, ar_fb_dir := 0, ar_fb_age := 0,
                ar_thrust_ref := 0, ar_abs_dir := 0, ar_abs_age := 0, ar_abs_mid := 0\<rparr>) s)
      in t\<lparr>tn_an := a1\<lparr>an_day_hi := - dbl_max, an_day_lo := dbl_max, an_on_hi := - dbl_max, an_on_lo := dbl_max,
             an_seen := False, an_in := False, an_vwap_pv := 0, an_vwap_v := 0, an_vwap_hist := [], an_gap := 0,
             an_side_ok := 0, an_side_n := 0, an_delta := 0, an_delta_hist := []\<rparr>,
           tn_book := (tn_book s)\<lparr>qb_dir := 0, qb_since := 0\<rparr>, tn_best := 0,
           tn_ss := \<lparr>ss_trades = 0, ss_in_pos = keep, ss_halted = False, ss_reason = [],
             ss_dir = (if keep then ss_dir q else 0), ss_entry_ts = (if keep then ss_entry_ts q else 0), ss_eod = False\<rparr>\<rparr>)"

definition trend_halt :: "string \<Rightarrow> trend \<Rightarrow> trend" where
  "trend_halt why s = s\<lparr>tn_ss := (tn_ss s)\<lparr>ss_halted := True, ss_reason := why\<rparr>\<rparr>"

definition trend_unhalt :: "trend \<Rightarrow> trend" where
  "trend_unhalt s = (if ss_halted (tn_ss s) then s\<lparr>tn_ss := (tn_ss s)\<lparr>ss_halted := False, ss_reason := []\<rparr>\<rparr> else s)"

definition trend_seed_trades :: "int \<Rightarrow> trend \<Rightarrow> trend" where
  "trend_seed_trades n s = s\<lparr>tn_ss := (tn_ss s)\<lparr>ss_trades := n\<rparr>\<rparr>"

definition trend_seed_position :: "orb_signal \<Rightarrow> int \<Rightarrow> trend \<Rightarrow> trend" where
  "trend_seed_position sig ts s =
     s\<lparr>tn_ss := (tn_ss s)\<lparr>ss_in_pos := True, ss_dir := (if sig = BUY then 1 else -1), ss_entry_ts := ts\<rparr>\<rparr>"

definition trend_trade_filled :: "trend \<Rightarrow> trend" where
  "trend_trade_filled s = s\<lparr>tn_ss := (tn_ss s)\<lparr>ss_in_pos := False, ss_dir := 0, ss_entry_ts := 0\<rparr>\<rparr>"

definition trend_event_days :: "bool \<Rightarrow> bool \<Rightarrow> trend \<Rightarrow> trend" where
  "trend_event_days today tomorrow s = s\<lparr>tn_event_day := today, tn_event_next := tomorrow\<rparr>"

definition trend_day_atr :: "real \<Rightarrow> trend \<Rightarrow> trend" where
  "trend_day_atr pts s = s\<lparr>tn_day_atr := pts\<rparr>"

subsection \<open>The host's calls\<close>

datatype trend_event =
    TTick orb_tick
  | TQuote int real int real int real
  | TRef real
  | TEod int int
  | TReset
  | THalt string
  | TUnhalt
  | TSeedTrades int
  | TSeedPosition orb_signal int
  | TClosed
  | TDays bool bool
  | TDayAtr real

fun trend_step :: "trend \<Rightarrow> trend_event \<Rightarrow> trend" where
  "trend_step s (TTick t) = trend_on_tick t s"
| "trend_step s (TQuote ts bid bsz ask asz tick) = trend_on_quote ts bid bsz ask asz tick s"
| "trend_step s (TRef x) = trend_reference_bar x s"
| "trend_step s (TEod h m) = trend_check_eod h m s"
| "trend_step s TReset = trend_reset_session s"
| "trend_step s (THalt why) = trend_halt why s"
| "trend_step s TUnhalt = trend_unhalt s"
| "trend_step s (TSeedTrades n) = trend_seed_trades n s"
| "trend_step s (TSeedPosition sig ts) = trend_seed_position sig ts s"
| "trend_step s TClosed = trend_trade_filled s"
| "trend_step s (TDays a b) = trend_event_days a b s"
| "trend_step s (TDayAtr x) = trend_day_atr x s"

end
