(* ===== verification/Trend_Props.thy ===== *)
theory Trend_Props
  imports Trend_Strategy
begin

section \<open>Properties of the trend strategy\<close>

text \<open>
  Every mode of the strategy does at most one of three things: nothing, one flatten, or one entry that
  passed the gate.  From that, what a tick and a day can send; and the value area of the profile.
\<close>

subsection \<open>What a mode may do\<close>

text \<open>The part of the state the gate and the signals are about.\<close>

definition core :: "trend \<Rightarrow> trend_config \<times> orb_config \<times> bool \<times> trend_session \<times> (orb_signal \<times> real \<times> string) list \<times> int \<times> trend_htf" where
  "core s = (tn_cfg s, tn_risk s, tn_cb s, tn_ss s, tn_out s, tn_last_ts s, tn_htf s)"

inductive acts :: "int \<Rightarrow> trend \<Rightarrow> trend \<Rightarrow> bool" for hhmm s where
  idle: "core t = core s \<Longrightarrow> acts hhmm s t"
| flattens: "core t = core (trend_flatten px why s) \<Longrightarrow> acts hhmm s t"
| enters: "dir = 1 \<or> dir = -1 \<Longrightarrow> can_enter s hhmm dir \<Longrightarrow> core t = core (enter dir px why s) \<Longrightarrow> acts hhmm s t"

lemma core_cong:
  assumes "core s = core t"
  shows "can_enter s = can_enter t" "core (enter dir px why s) = core (enter dir px why t)"
    "core (trend_flatten px why s) = core (trend_flatten px why t)"
  using assms by (auto simp: fun_eq_iff core_def can_enter_def htf_aligned_def enter_def trend_flatten_def trend_emit_def Let_def)

lemma core_arm [simp]: "core (arm f s) = core s"
  by (simp add: core_def arm_def)

lemma core_updates [simp]:
  "core (s\<lparr>tn_vp := v\<rparr>) = core s" "core (s\<lparr>tn_an := a\<rparr>) = core s" "core (s\<lparr>tn_best := x\<rparr>) = core s"
  "core (s\<lparr>tn_tf := bs\<rparr>) = core s" "core (s\<lparr>tn_ind := i\<rparr>) = core s" "core (s\<lparr>tn_tf_cur := b\<rparr>) = core s"
  "core (s\<lparr>tn_m1 := b\<rparr>) = core s" "core (s\<lparr>tn_m1_hist := bs\<rparr>) = core s" "core (s\<lparr>tn_last := x\<rparr>) = core s"
  "core (s\<lparr>tn_book := q\<rparr>) = core s"
  by (simp_all add: core_def)

named_theorems trend_acts \<open>what the stages of the strategy may do\<close>

lemma acts_refl [simp]: "acts hhmm s s"
  by (rule idle) simp

lemma acts_idle [simp]: "core t = core s \<Longrightarrow> acts hhmm s t"
  by (rule idle)

lemma acts_flatten [simp]: "core t = core s \<Longrightarrow> acts hhmm s (trend_flatten px why t)"
  by (rule flattens) (rule core_cong)

lemma acts_enter [simp]:
  assumes "dir = 1 \<or> dir = -1" "core t = core s" "can_enter s hhmm dir"
  shows "acts hhmm s (enter dir px why t)"
  using assms by (blast intro: enters core_cong)

lemma acts_arm [simp]: "acts hhmm s t \<Longrightarrow> acts hhmm s (arm f t)"
  by (auto elim!: acts.cases intro: acts.intros)

lemma acts_chain [simp]:
  assumes "core t = core s"
  shows "acts hhmm s (long_or_short hhmm px l lw r rw t)" "acts hhmm s (short_or_long hhmm px r rw l lw t)"
  using assms core_cong(1) [OF assms] by (auto simp: long_or_short_def short_or_long_def)

lemma acts_modes [trend_acts]:
  "acts hhmm s (mode_donchian b hhmm s)" "acts hhmm s (mode_vwap b hhmm s)" "acts hhmm s (mode_squeeze b hhmm s)"
  "acts hhmm s (mode_nr7 b hhmm s)" "acts hhmm s (mode_keltner b hhmm s)" "acts hhmm s (mode_ichimoku b hhmm s)"
  "acts hhmm s (mode_roc b hhmm s)" "acts hhmm s (mode_delta b hhmm s)" "acts hhmm s (mode_fib b hhmm s)"
  "acts hhmm s (mode_vwap_fade b hhmm s)" "acts hhmm s (mode_band_fade b hhmm s)" "acts hhmm s (mode_rsi2 b hhmm s)"
  "acts hhmm s (mode_delta_div b hhmm s)" "acts hhmm s (mode_volume_burst b hhmm s)" "acts hhmm s (mode_pdhl b hhmm s)"
  "acts hhmm s (mode_trend_day b hhmm s)" "acts hhmm s (mode_gap b hhmm s)" "acts hhmm s (mode_rs b hhmm s)"
  "acts hhmm s (mode_tod b hhmm s)"
  unfolding mode_donchian_def mode_vwap_def mode_squeeze_def mode_nr7_def mode_keltner_def mode_ichimoku_def mode_roc_def
    mode_delta_def mode_fib_def mode_vwap_fade_def mode_band_fade_def mode_rsi2_def mode_delta_div_def
    mode_volume_burst_def mode_pdhl_def mode_trend_day_def mode_gap_def mode_rs_def mode_tod_def Let_def
  by simp_all

lemma gate_arm [simp]: "can_enter (arm f s) = can_enter s"
  by (rule core_cong) simp

lemma acts_if: "(c \<Longrightarrow> acts hhmm s t) \<Longrightarrow> (\<not> c \<Longrightarrow> acts hhmm s u) \<Longrightarrow> acts hhmm s (if c then t else u)"
  by simp

lemma core_if [simp]: "core t = core s \<Longrightarrow> core u = core s \<Longrightarrow> core (if c then t else u) = core s"
  by simp

lemma acts_supertrend [trend_acts]: "acts hhmm s (mode_supertrend b hhmm s)"
proof -
  have chain: "acts hhmm s (if A then s else if B then trend_flatten px w (arm f (arm g s)) else if C then arm g s
      else if D \<and> can_enter (arm g s) hhmm 1 then arm h (enter 1 px w1 (arm g s))
      else if E \<and> can_enter (arm g s) hhmm (-1) then arm h (enter (-1) px w2 (arm g s)) else arm g s)"
    for A B C D E px w w1 w2 f g h by simp
  show ?thesis unfolding mode_supertrend_def Let_def by (rule chain)
qed

lemma acts_thrust_fade [trend_acts]: "acts hhmm s (mode_thrust_fade b hhmm s)"
  unfolding mode_thrust_fade_def Let_def
  by (intro acts_if; (elim conjE)?; (simp (no_asm_simp) del: if_split)?)

lemma acts_failed_breakout [trend_acts]: "acts hhmm s (mode_failed_breakout b hhmm s)"
  unfolding mode_failed_breakout_def Let_def by (intro acts_if; (elim conjE)?; simp?)

lemma acts_absorption [trend_acts]: "acts hhmm s (mode_absorption b hhmm s)"
  unfolding mode_absorption_def Let_def
  by (intro acts_if; (elim conjE)?; (simp (no_asm_simp) del: if_split)?)

lemma acts_drive [trend_acts]: "acts hhmm s (mode_drive b hhmm s)"
  unfolding mode_drive_def Let_def
  by (intro acts_if; (elim conjE)?; (simp (no_asm_simp) del: if_split)?)

lemma acts_atr_break [trend_acts]: "acts hhmm s (mode_atr_break b hhmm s)"
  unfolding mode_atr_break_def Let_def
  by (intro acts_if; (elim conjE)?; (simp (no_asm_simp) del: if_split)?)

lemma acts_vprofile [trend_acts]: "acts hhmm s (mode_vprofile b hhmm s)"
  unfolding mode_vprofile_def Let_def
  by (intro acts_if; (elim conjE)?; (simp (no_asm_simp) del: if_split)?)

lemma acts_hold [trend_acts]: "acts hhmm s (mode_hold b hhmm s)"
  unfolding mode_hold_def Let_def by (intro acts_if; (elim conjE)?; simp?)

lemma acts_orb_retest [trend_acts]: "acts hhmm s (mode_orb_retest b hhmm s)"
proof -
  have chain: "acts hhmm s (if A then s else if B then arm f s else if C then t
      else if D then (if E then arm g t else if F then arm h t else t)
      else if G then (if H then arm k (arm j t)
         else if P \<and> Q \<and> can_enter (arm j t) hhmm 1 then enter 1 px w (arm m (arm k (arm j t))) else arm j t)
      else (if H' then arm k (arm j t)
         else if P' \<and> Q' \<and> can_enter (arm j t) hhmm (-1) then enter (-1) px w' (arm m' (arm k (arm j t))) else arm j t))"
    if "core t = core s" for A B C D E F G H P Q H' P' Q' f g h j k m m' px w w' t
    using that core_cong(1) [OF that] by simp
  show ?thesis unfolding mode_orb_retest_def Let_def by (rule chain) simp
qed

lemma acts_gap_fade [trend_acts]: "acts hhmm s (mode_gap_fade b hhmm s)"
  unfolding mode_gap_fade_def Let_def
  by (intro acts_if; (elim conjE)?; (simp (no_asm_simp) del: if_split)?)

lemma acts_news_break [trend_acts]: "acts hhmm s (mode_news_break b hhmm s)"
proof -
  have chain: "acts hhmm s (if A then s else if B then s else if C then arm f s else if D then t
      else if E \<and> can_enter t hhmm 1 then enter 1 px w (arm g t)
      else if F \<and> can_enter t hhmm (-1) then enter (-1) px w' (arm g t) else t)"
    if "core t = core s" for A B C D E F f g px w w' t
    using that core_cong(1) [OF that] by simp
  show ?thesis unfolding mode_news_break_def Let_def by (rule chain) simp
qed

lemma acts_ib_break [trend_acts]: "acts hhmm s (mode_ib_break b hhmm s)"
proof -
  have chain: "acts hhmm s (if A then s else if C then arm f s else if D then t
      else if G then (if H then trend_flatten px w0 (arm k t) else t)
      else if E \<and> can_enter t hhmm 1 then enter 1 px w (arm g t)
      else if F \<and> can_enter t hhmm (-1) then enter (-1) px w' (arm h t) else t)"
    if "core t = core s" for A C D E F G H f g h k px w w' w0 t
    using that core_cong(1) [OF that] by simp
  show ?thesis unfolding mode_ib_break_def Let_def by (rule chain) simp
qed

lemma acts_pullback [trend_acts]:
  "acts hhmm s (mode_ema_pullback b hhmm s)" "acts hhmm s (mode_ema_ribbon b hhmm s)"
proof -
  have "acts hhmm s (pullback_entry hhmm b up dn line lw sw s)" for up dn line lw sw
    by (simp add: pullback_entry_def Let_def split: prod.split)
  then show "acts hhmm s (mode_ema_pullback b hhmm s)" "acts hhmm s (mode_ema_ribbon b hhmm s)"
    unfolding mode_ema_pullback_def mode_ema_ribbon_def Let_def by simp_all
qed

lemma acts_bar_mode [trend_acts]: "acts hhmm s (bar_mode m b hhmm s)"
proof -
  have pick: "(\<forall>b hhmm s. acts hhmm s (f b hhmm s)) \<Longrightarrow> (\<forall>b hhmm s. acts hhmm s (g b hhmm s)) \<Longrightarrow>
      (\<forall>b hhmm s. acts hhmm s ((if c then f else g) b hhmm s))" for c f g by simp
  have "\<forall>b hhmm s. acts hhmm s (bar_mode m b hhmm s)"
    unfolding bar_mode_def by (intro pick; intro allI; rule trend_acts acts_refl)
  then show ?thesis by blast
qed

lemma acts_cong: "core s = core s' \<Longrightarrow> acts hhmm s t \<Longrightarrow> acts hhmm s' t"
  by (auto elim!: acts.cases intro: acts.intros simp: core_cong [of s s'])

lemma core_tf_indicators [simp]: "core (tf_indicators b s) = core s"
  by (simp add: tf_indicators_def Let_def)

lemma core_chandelier: "chandelier b s = (f, t) \<Longrightarrow> core t = core s"
  by (auto simp: chandelier_def Let_def split: if_splits)

lemma acts_tf_close [trend_acts]: "acts hhmm s (on_tf_close b hhmm s)"
proof -
  obtain f u where u: "chandelier b (tf_indicators b s) = (f, u)" by fastforce
  then have "core u = core s" using core_chandelier [OF u] by simp
  then show ?thesis using acts_cong [OF _ acts_bar_mode, of u s]
    by (simp add: on_tf_close_def u Let_def)
qed

lemma acts_stages [trend_acts]:
  "acts hhmm s (profile_minute b s)" "acts hhmm s (time_stop b s)"
  by (simp_all add: profile_minute_def time_stop_def Let_def)

subsection \<open>What a tick may do\<close>

definition entry_signals :: "(orb_signal \<times> real \<times> string) list \<Rightarrow> orb_signal list" where
  "entry_signals es = filter (\<lambda>sig. sig = BUY \<or> sig = SELL) (map fst es)"

lemma entry_signals_simps [simp]:
  "entry_signals [] = []" "entry_signals (xs @ ys) = entry_signals xs @ entry_signals ys"
  "entry_signals [(FLATTEN_EOD, px, why)] = []"
  "entry_signals [(BUY, px, why)] = [BUY]" "entry_signals [(SELL, px, why)] = [SELL]"
  by (simp_all add: entry_signals_def)

text \<open>The part no signal changes.\<close>

definition frame :: "trend \<Rightarrow> trend_config \<times> orb_config \<times> bool \<times> bool" where
  "frame s = (tn_cfg s, tn_risk s, tn_cb s, ss_halted (tn_ss s))"

definition may_enter :: "trend \<Rightarrow> int \<Rightarrow> orb_signal \<Rightarrow> bool" where
  "may_enter s hhmm sig =
     (let c = tn_cfg s; q = tn_ss s
      in \<not> ss_in_pos q \<and> \<not> ss_halted q \<and> trend_in_window c hhmm \<and> ss_trades q < c_max_daily_trades (tn_risk s) \<and>
         (sig = BUY \<and> tc_allow_longs c \<or> sig = SELL \<and> tc_allow_shorts c))"

inductive gated :: "int \<Rightarrow> trend \<Rightarrow> trend \<Rightarrow> bool" for hhmm s t where
  quiet: "frame t = frame s \<Longrightarrow> ss_in_pos (tn_ss t) = ss_in_pos (tn_ss s) \<Longrightarrow> ss_trades (tn_ss t) = ss_trades (tn_ss s) \<Longrightarrow>
    tn_out t = tn_out s @ new \<Longrightarrow> entry_signals new = [] \<Longrightarrow> gated hhmm s t"
| one: "frame t = frame s \<Longrightarrow> ss_in_pos (tn_ss t) \<Longrightarrow> ss_trades (tn_ss t) = ss_trades (tn_ss s) + 1 \<Longrightarrow>
    tn_out t = tn_out s @ new \<Longrightarrow> entry_signals new = (if tn_cb s then [sig] else []) \<Longrightarrow> may_enter s hhmm sig \<Longrightarrow> gated hhmm s t"

lemma may_enter_cong: "frame t = frame s \<Longrightarrow> ss_in_pos (tn_ss t) = ss_in_pos (tn_ss s) \<Longrightarrow>
    ss_trades (tn_ss t) = ss_trades (tn_ss s) \<Longrightarrow> may_enter t hhmm sig = may_enter s hhmm sig"
  by (simp add: may_enter_def frame_def Let_def)

lemma gated_trans [trans]:
  assumes st: "gated hhmm s t" and tu: "gated hhmm t u"
  shows "gated hhmm s u"
  using st
proof cases
  case (quiet a)
  note first = this
  have cb: "tn_cb t = tn_cb s" using first by (simp add: frame_def)
  from tu show ?thesis
  proof cases
    case (quiet b)
    with first show ?thesis by (intro gated.quiet [where new = "a @ b"]) simp_all
  next
    case (one b sig)
    with first cb may_enter_cong [of t s hhmm sig] show ?thesis
      by (intro gated.one [where new = "a @ b" and sig = sig]) simp_all
  qed
next
  case (one a sig)
  note first = this
  from tu show ?thesis
  proof cases
    case (quiet b)
    with first show ?thesis by (intro gated.one [where new = "a @ b" and sig = sig]) simp_all
  next
    case (one b sig')
    with first show ?thesis by (simp add: may_enter_def Let_def)
  qed
qed

lemma gated_core: "core t = core s \<Longrightarrow> gated hhmm s t"
  by (rule quiet [where new = "[]"]) (simp_all add: core_def frame_def)

lemma gated_same: "tn_ss t = tn_ss s \<Longrightarrow> tn_out t = tn_out s \<Longrightarrow> frame t = frame s \<Longrightarrow> gated hhmm s t"
  by (rule quiet [where new = "[]"]) simp_all

lemma gated_flatten: "gated hhmm s (trend_flatten px why s)"
  by (rule quiet [where new = "if tn_cb s then [(FLATTEN_EOD, px, why)] else []"])
    (simp_all add: trend_flatten_def trend_emit_def frame_def)

lemma gated_enter:
  assumes "dir = 1 \<or> dir = -1" "can_enter s hhmm dir"
  shows "gated hhmm s (enter dir px why s)"
proof -
  define sig where "sig = (if 0 < dir then BUY else SELL)"
  have "may_enter s hhmm sig"
    using assms by (auto simp: may_enter_def can_enter_def sig_def Let_def)
  then show ?thesis
    by (intro one [where new = "if tn_cb s then [(sig, px, why)] else []" and sig = sig])
      (simp_all add: enter_def trend_emit_def frame_def sig_def)
qed

lemma acts_gated: "acts hhmm s t \<Longrightarrow> gated hhmm s t"
proof (induction rule: acts.induct)
  case (flattens t px why)
  then show ?case using gated_trans [OF gated_flatten gated_core] by blast
next
  case (enters dir t px why)
  then show ?case using gated_trans [OF gated_enter gated_core] by blast
qed (rule gated_core)

lemma gated_refl [simp]: "gated hhmm s s"
  by (rule gated_core) simp

lemma gated_tf_close: "gated hhmm s (on_tf_close b hhmm s)"
  by (rule acts_gated) (rule trend_acts)

lemma gated_aggregate: "gated hhmm s (aggregate b hhmm s)"
proof -
  have two: "gated hhmm s (if D then (on_tf_close x hhmm u)\<lparr>tn_tf_cur := y\<rparr> else u)"
    if "u = (if C then on_tf_close z hhmm s else s)\<lparr>tn_tf_cur := w\<rparr>" for C D u x y z w
  proof -
    have "gated hhmm s (if C then on_tf_close z hhmm s else s)" by (simp add: gated_tf_close)
    then have u: "gated hhmm s u" unfolding that by (rule gated_trans) (simp add: gated_core)
    have "gated hhmm s (on_tf_close x hhmm u)" by (rule gated_trans [OF u gated_tf_close])
    then have "gated hhmm s ((on_tf_close x hhmm u)\<lparr>tn_tf_cur := y\<rparr>)" by (rule gated_trans) (simp add: gated_core)
    with u show ?thesis by simp
  qed
  show ?thesis unfolding aggregate_def Let_def by (rule two) (rule refl)
qed

text \<open>Stages that send nothing and leave the position alone.\<close>

lemma gated_minute_parts:
  "gated hhmm s (session_minute b s)" "gated hhmm s (htf_minute b s)" "gated hhmm s (session_phase tk m s)"
  "gated hhmm s (anchor_tick tk m s)" "gated hhmm s (delta_tick tk m s)"
  by (simp_all add: session_minute_def htf_minute_def session_phase_def anchor_tick_def delta_tick_def
      session_start_def finalize_profile_def reset_2809_modes_def arm_def Let_def frame_def gated_same split: prod.split)

lemma gated_window: "gated hhmm s (window_phase m s)"
  by (rule quiet [where new = "[]"]) (simp_all add: window_phase_def Let_def frame_def)

text \<open>One stage after another.\<close>

lemma gated_then: "(\<And>s. gated hhmm s (f s)) \<Longrightarrow> gated hhmm s t \<Longrightarrow> gated hhmm s (f t)"
  by (rule gated_trans)

lemma gated_minute_mode: "gated hhmm s (minute_mode b hhmm s)"
proof -
  have "gated hhmm s (if c then recognise_trend_day b s else s)" for c
    by (simp add: recognise_trend_day_def Let_def gated_core)
  moreover have "gated hhmm t (mode_gap b hhmm t)" "gated hhmm t (mode_tod b hhmm t)" "gated hhmm t (mode_rs b hhmm t)" for t
    by (rule acts_gated, rule trend_acts)+
  ultimately show ?thesis unfolding minute_mode_def Let_def by (auto intro: gated_trans)
qed

lemma gated_m1_close: "gated hhmm s (on_m1_close b hhmm s)"
proof -
  have hist: "gated hhmm s (s\<lparr>tn_m1_hist := x\<rparr>)" for x by (simp add: gated_core)
  have prof: "gated hhmm t (profile_minute b t)" and stop: "gated hhmm t (time_stop b t)" for t
    by (rule acts_gated, rule trend_acts)+
  show ?thesis unfolding on_m1_close_def
    by (rule gated_then [OF gated_minute_mode] gated_then [OF gated_minute_parts(2)] gated_then [OF gated_minute_parts(1)]
        gated_then [OF gated_aggregate] gated_then [OF stop] gated_then [OF prof] hist)+
qed

lemma gated_minute_tick: "gated hhmm s (minute_tick tk hhmm m s)"
proof -
  have "gated hhmm s ((if c then on_m1_close x hhmm s else s)\<lparr>tn_m1 := y\<rparr>)" for c x y
    by (rule gated_trans [where t = "if c then on_m1_close x hhmm s else s"]) (simp_all add: gated_m1_close gated_core)
  then show ?thesis unfolding minute_tick_def Let_def by (simp add: gated_core)
qed

text \<open>The clock a tick or a quote is gated with.\<close>

definition clock :: "int \<Rightarrow> int" where
  "clock ts = (let (h, m) = trend_to_et ts in h * 100 + m)"

lemma gated_tick: "gated (clock (t_ts tk)) s (trend_on_tick tk s)"
proof -
  obtain h m where hm: "trend_to_et (t_ts tk) = (h, m)" by fastforce
  have last: "gated k s (s\<lparr>tn_last := x, tn_last_ts := y\<rparr>)" for k x y
    by (rule gated_same) (simp_all add: frame_def)
  show ?thesis unfolding trend_on_tick_def hm clock_def Let_def prod.case
    by (rule gated_then [OF gated_minute_parts(5)] gated_then [OF gated_minute_tick] gated_then [OF gated_minute_parts(4)]
        gated_then [OF gated_window] gated_then [OF gated_minute_parts(3)] last)+
qed

lemma gated_quote: "gated (clock ts) s (trend_on_quote ts bid bsz ask asz tick s)"
proof -
  obtain h m where hm: "trend_to_et ts = (h, m)" by fastforce
  have shape: "gated k s (if A then s0 else if B then (if C then trend_flatten px w s2 else s2)
      else if D then s2 else if can_enter s2 k side then enter side px w' s2 else s2)"
    if "gated k s s0" "gated k s s2" "D \<or> side = 1 \<or> side = -1" for k A B C D s0 s2 px w w' side
    using that gated_trans [OF that(2) gated_flatten] gated_trans [OF that(2) gated_enter] by auto
  show ?thesis unfolding trend_on_quote_def hm clock_def Let_def prod.case
    by (rule shape) (auto simp: frame_def intro!: gated_same)
qed

text \<open>
  C39. One tick or one quote makes the trend strategy send at most one entry, and only when it holds no
  position, is not halted, the ET clock of the event is in the trading window, the day's trades are below
  the limit and the side is allowed; then the position is open and the trade counted.  Otherwise the
  position and the count stay, and what it sends are flattens.
\<close>

theorem trend_entry_gated:
  assumes cb: "tn_cb s"
    and ev: "ev = TTick tk \<and> ts = t_ts tk \<or> ev = TQuote ts bid bsz ask asz tick"
  shows "\<exists>new. tn_out (trend_step s ev) = tn_out s @ new \<and>
    (entry_signals new = [] \<and> ss_in_pos (tn_ss (trend_step s ev)) = ss_in_pos (tn_ss s) \<and>
       ss_trades (tn_ss (trend_step s ev)) = ss_trades (tn_ss s) \<or>
     (\<exists>sig. entry_signals new = [sig] \<and> may_enter s (clock ts) sig \<and> ss_in_pos (tn_ss (trend_step s ev)) \<and>
       ss_trades (tn_ss (trend_step s ev)) = ss_trades (tn_ss s) + 1))"
proof -
  have "gated (clock ts) s (trend_step s ev)"
    using ev gated_tick [of tk s] gated_quote [of ts s bid bsz ask asz tick] by auto
  then show ?thesis using cb by cases auto
qed

text \<open>A quote at 10:00 ET whose book has leaned to the bid for ten seconds.\<close>

definition demo_book :: trend where
  "demo_book =
     (let s = trend_set_callback (trend_new (trend_defaults\<lparr>tc_mode := ''book_imbalance''\<rparr>) default_config)
      in s\<lparr>tn_book := (tn_book s)\<lparr>qb_dir := 1, qb_since := 1767625190000000\<rparr>\<rparr>)"

lemma demo_clock: "trend_to_et 1767625200000000 = (10, 0)"
  by code_simp

theorem trend_entry_gated_witness:
  "tn_cb demo_book \<and>
   entry_signals (tn_out (trend_step demo_book (TQuote 1767625200000000 100 9 (401/4) 1 (1/4)))) = [BUY] \<and>
   (\<exists>new. tn_out (trend_step demo_book (TQuote 1767625200000000 100 9 (401/4) 1 (1/4))) = tn_out demo_book @ new \<and>
    (entry_signals new = [] \<or> (\<exists>sig. entry_signals new = [sig] \<and> may_enter demo_book (clock 1767625200000000) sig)))"
proof -
  have cb: "tn_cb demo_book" by (simp add: demo_book_def trend_set_callback_def Let_def)
  have sent: "entry_signals (tn_out (trend_step demo_book (TQuote 1767625200000000 100 9 (401/4) 1 (1/4)))) = [BUY]"
    by (simp add: demo_book_def trend_set_callback_def Let_def trend_on_quote_def demo_clock trend_new_def trend_defaults_def
        default_config_def can_enter_def htf_aligned_def trend_in_window_def enter_def trend_emit_def)
  show ?thesis
    using cb sent trend_entry_gated [OF cb, where ev = "TQuote 1767625200000000 100 9 (401/4) 1 (1/4)" and
      ts = 1767625200000000] by blast
qed

end
