(* ===== verification/Trend_Area.thy ===== *)
theory Trend_Area
  imports Trend_Strategy
begin

section \<open>The value area of a session\<close>

text \<open>
  What \<open>finalize_profile\<close> leaves: the first price of greatest volume, and an interval around it that
  holds the configured share of the volume, or ends at prices nothing traded at.
\<close>

subsection \<open>The point of control\<close>

lemma volume_at_Cons: "volume_at ((k, v) # m) x = (if x = k then v else volume_at m x)"
  by (simp add: volume_at_def)

lemma volume_at_notin: "k \<notin> set (map fst m) \<Longrightarrow> volume_at m k = 0"
  by (simp add: volume_at_def map_of_eq_None_iff [THEN iffD2] split: option.split)

lemma side_volume_at: "side_volume m k = (if k \<in> set (map fst m) then volume_at m k else -1)"
proof (cases "map_of m k")
  case None
  then have "k \<notin> set (map fst m)" using map_of_eq_None_iff [of m k] by simp
  then show ?thesis using None by (simp add: side_volume_def)
next
  case (Some v)
  then have "k \<in> set (map fst m)" by (metis map_of_eq_None_iff option.distinct(1) set_map)
  then show ?thesis using Some by (simp add: side_volume_def volume_at_def)
qed

definition poc_step :: "int \<times> real \<Rightarrow> int \<times> real \<Rightarrow> int \<times> real" where
  "poc_step kv pb = (if snd kv > snd pb then kv else pb)"

lemma point_of_control_fold: "point_of_control m = fold poc_step m (fst (hd m), -1)"
proof -
  have "(\<lambda>(k, v) (p, best). if v > best then (k, v) else (p, best)) = poc_step"
    by (auto simp: fun_eq_iff poc_step_def)
  then show ?thesis by (simp add: point_of_control_def)
qed

lemma poc_fold:
  assumes "fold poc_step m pb = r"
  shows "(r = pb \<or> r \<in> set m) \<and> snd pb \<le> snd r \<and> (\<forall>kv \<in> set m. snd kv \<le> snd r)"
  using assms
proof (induction m arbitrary: pb)
  case (Cons kv m)
  have step: "poc_step kv pb \<in> {kv, pb}" "snd kv \<le> snd (poc_step kv pb)" "snd pb \<le> snd (poc_step kv pb)"
    by (simp_all add: poc_step_def)
  then show ?case using Cons.IH [of "poc_step kv pb"] Cons.prems by fastforce
qed simp

lemma ordered_distinct: "ordered m \<Longrightarrow> distinct (map fst m)"
  by (simp add: ordered_def strict_sorted_iff)

lemma ordered_lookup: "ordered m \<Longrightarrow> (k, v) \<in> set m \<Longrightarrow> volume_at m k = v"
  by (simp add: volume_at_def ordered_distinct map_of_is_SomeI)

definition positive :: "histogram \<Rightarrow> bool" where
  "positive m = (\<forall>kv \<in> set m. 0 \<le> snd kv)"

lemma volume_at_mono:
  assumes "\<forall>kv \<in> set m. snd kv \<le> x" "0 \<le> x"
  shows "volume_at m k \<le> x"
  using assms by (cases "map_of m k") (auto simp: volume_at_def dest!: map_of_SomeD bspec)

lemma volume_at_nonneg: "positive m \<Longrightarrow> 0 \<le> volume_at m k"
  by (cases "map_of m k") (auto simp: volume_at_def positive_def dest!: map_of_SomeD bspec)

lemma point_of_control_max:
  assumes "ordered m" "positive m" "m \<noteq> []" "point_of_control m = (poc, pv)"
  shows "poc \<in> set (map fst m)" "volume_at m poc = pv" "volume_at m k \<le> pv"
proof -
  have r: "fold poc_step m (fst (hd m), -1) = (poc, pv)" using assms(4) by (simp add: point_of_control_fold)
  note f = poc_fold [OF r]
  obtain kv where "kv \<in> set m" "0 \<le> snd kv" using assms(2,3) by (cases m) (auto simp: positive_def)
  then have pv: "0 \<le> pv" using f by fastforce
  then have mem: "(poc, pv) \<in> set m" using f by auto
  then show "poc \<in> set (map fst m)" by force
  show "volume_at m poc = pv" using ordered_lookup [OF assms(1) mem] .
  show "volume_at m k \<le> pv" using f pv by (intro volume_at_mono) auto
qed

text \<open>The minute bars keep the histogram ordered and its volumes nonnegative.\<close>

lemma bump_positive: "positive m \<Longrightarrow> 0 \<le> per \<Longrightarrow> positive (bump px per m)"
  by (induction px per m rule: bump.induct) (auto simp: positive_def)

lemma profile_minute_keeps:
  assumes "ordered (vp_cur (tn_vp s))" "positive (vp_cur (tn_vp s))"
  shows "ordered (vp_cur (tn_vp (profile_minute b s)))" "positive (vp_cur (tn_vp (profile_minute b s)))"
proof -
  have fold: "positive m \<Longrightarrow> 0 \<le> per \<Longrightarrow> positive (fold (\<lambda>px. bump px per) ks m)" for per ks m
    by (induction ks arbitrary: m) (auto intro: bump_positive)
  show "ordered (vp_cur (tn_vp (profile_minute b s)))"
    using assms by (simp add: profile_minute_def profile_bar_ordered)
  have "0 \<le> tb_v b / of_int (\<lfloor>tb_h b\<rfloor> - \<lfloor>tb_l b\<rfloor> + 1)" if "tb_v b > 0" "tb_h b \<ge> tb_l b"
    using that floor_mono [of "tb_l b" "tb_h b"] by (intro divide_nonneg_nonneg) simp_all
  then show "positive (vp_cur (tn_vp (profile_minute b s)))"
    using assms fold by (simp add: profile_minute_def profile_bar_def Let_def)
qed

subsection \<open>The interval\<close>

definition area_volume :: "histogram \<Rightarrow> int \<Rightarrow> int \<Rightarrow> real" where
  "area_volume m a z = (\<Sum>k \<in> {a..z}. volume_at m k)"

lemma area_grows:
  assumes "a \<le> z"
  shows "area_volume m a (z + 1) = area_volume m a z + volume_at m (z + 1)"
    "area_volume m (a - 1) z = area_volume m a z + volume_at m (a - 1)"
proof -
  have "{a..z + 1} = insert (z + 1) {a..z}" "{a - 1..z} = insert (a - 1) {a..z}" using assms by auto
  then show "area_volume m a (z + 1) = area_volume m a z + volume_at m (z + 1)"
    "area_volume m (a - 1) z = area_volume m a z + volume_at m (a - 1)"
    by (simp_all add: area_volume_def)
qed

text \<open>An interval of traded prices.\<close>

definition traded :: "histogram \<Rightarrow> int \<Rightarrow> int \<Rightarrow> bool" where
  "traded m a z = ({a..z} \<subseteq> set (map fst m))"

lemma traded_grows:
  "traded m a z \<Longrightarrow> z + 1 \<in> set (map fst m) \<Longrightarrow> traded m a (z + 1)"
  "traded m a z \<Longrightarrow> a - 1 \<in> set (map fst m) \<Longrightarrow> traded m (a - 1) z"
proof -
  have "{a..z + 1} \<subseteq> insert (z + 1) {a..z}" "{a - 1..z} \<subseteq> insert (a - 1) {a..z}" by auto
  then show "traded m a z \<Longrightarrow> z + 1 \<in> set (map fst m) \<Longrightarrow> traded m a (z + 1)"
    "traded m a z \<Longrightarrow> a - 1 \<in> set (map fst m) \<Longrightarrow> traded m (a - 1) z"
    by (auto simp: traded_def)
qed

definition area_ok :: "histogram \<Rightarrow> real \<Rightarrow> int \<Rightarrow> int \<Rightarrow> int \<times> int \<times> real \<Rightarrow> bool" where
  "area_ok m need a z r =
     (case r of (a', z', inside) \<Rightarrow>
        a' \<le> a \<and> z \<le> z' \<and> traded m a' z' \<and> inside = area_volume m a' z' \<and>
        (need \<le> inside \<or> a' - 1 \<notin> set (map fst m) \<and> z' + 1 \<notin> set (map fst m)) \<and>
        (a' = a \<and> z' = z \<or> inside - volume_at m a' < need \<or> inside - volume_at m z' < need))"

text \<open>A wider start gives a result for the narrower one, when that was below the need.\<close>

lemma area_ok_wider:
  assumes "a \<le> z" "area_volume m a z < need"
  shows "area_ok m need a (z + 1) r \<Longrightarrow> area_ok m need a z r" "area_ok m need (a - 1) z r \<Longrightarrow> area_ok m need a z r"
proof -
  obtain a' z' i where r: "r = (a', z', i)" by (metis prod.exhaust)
  have "a' = a \<Longrightarrow> z' = z + 1 \<Longrightarrow> i = area_volume m a' z' \<Longrightarrow> i - volume_at m z' < need"
    "a' = a - 1 \<Longrightarrow> z' = z \<Longrightarrow> i = area_volume m a' z' \<Longrightarrow> i - volume_at m a' < need"
    using assms area_grows [of a z m] by simp_all
  then show "area_ok m need a (z + 1) r \<Longrightarrow> area_ok m need a z r" "area_ok m need (a - 1) z r \<Longrightarrow> area_ok m need a z r"
    unfolding area_ok_def r prod.case by linarith+
qed

lemma value_area_ok:
  assumes "positive m" "a \<le> z" "traded m a z" "inside = area_volume m a z"
  shows "area_ok m need a z (value_area m need a z inside)"
  using assms
proof (induction m need a z inside rule: value_area.induct)
  case (1 m need a z inside)
  let ?u = "side_volume m (z + 1)" and ?d = "side_volume m (a - 1)"
  have ends: "?u < 0 \<longleftrightarrow> z + 1 \<notin> set (map fst m)" "?d < 0 \<longleftrightarrow> a - 1 \<notin> set (map fst m)"
    using volume_at_nonneg [OF "1.prems"(1)] by (auto simp: side_volume_at not_less)
  consider (stop) "\<not> inside < need \<or> (?u < 0 \<and> ?d < 0)"
    | (up) "inside < need" "\<not> (?u < 0 \<and> ?d < 0)" "?u \<ge> ?d" | (down) "inside < need" "\<not> (?u < 0 \<and> ?d < 0)" "\<not> ?u \<ge> ?d"
    by blast
  then show ?case
  proof cases
    case stop
    then have "value_area m need a z inside = (a, z, inside)" by (auto simp: value_area.simps Let_def)
    then show ?thesis using stop "1.prems" ends by (auto simp: area_ok_def)
  next
    case up
    then have key: "z + 1 \<in> set (map fst m)" using ends by linarith
    then have u: "?u = volume_at m (z + 1)" by (simp add: side_volume_at)
    have "area_ok m need a (z + 1) (value_area m need a (z + 1) (inside + ?u))"
      using "1.prems" up traded_grows(1) [OF _ key] area_grows(1) u by (intro "1.IH"(1)) auto
    moreover have "value_area m need a z inside = value_area m need a (z + 1) (inside + ?u)"
      using up "1.prems" by (subst value_area.simps) (auto simp: Let_def)
    ultimately show ?thesis using area_ok_wider(1) "1.prems" up by simp
  next
    case down
    then have key: "a - 1 \<in> set (map fst m)" using ends by linarith
    then have d: "?d = volume_at m (a - 1)" by (simp add: side_volume_at)
    have "area_ok m need (a - 1) z (value_area m need (a - 1) z (inside + ?d))"
      using "1.prems" down traded_grows(2) [OF _ key] area_grows(2) d by (intro "1.IH"(2)) auto
    moreover have "value_area m need a z inside = value_area m need (a - 1) z (inside + ?d)"
      using down "1.prems" by (subst value_area.simps) (auto simp: Let_def)
    ultimately show ?thesis using area_ok_wider(2) "1.prems" down by simp
  qed
qed

text \<open>
  C40. The value area loop of a session ends, and for a histogram of nonnegative volumes in price order it
  leaves: the point of control, a traded price of greatest volume; an interval around it of traded prices
  only, whose volume reaches the configured share of the session or that ends at untraded prices on both
  sides; and no wider than needed: without its last price it was below the share.
\<close>

theorem value_area_correct:
  assumes "ordered m" "positive m" "m \<noteq> []" "vp_cur (tn_vp s) = m"
    and "need = tc_vp_va_frac (tn_cfg s) * total_volume m" and "v = tn_vp (finalize_profile s)"
  shows "\<exists>poc a z. vp_poc v = of_int poc + 1/2 \<and> vp_val v = of_int a \<and> vp_vah v = of_int z + 1 \<and>
    poc \<in> set (map fst m) \<and> (\<forall>k. volume_at m k \<le> volume_at m poc) \<and> a \<le> poc \<and> poc \<le> z \<and> traded m a z \<and>
    (need \<le> area_volume m a z \<or> a - 1 \<notin> set (map fst m) \<and> z + 1 \<notin> set (map fst m)) \<and>
    (a = poc \<and> z = poc \<or> area_volume m a z - volume_at m a < need \<or> area_volume m a z - volume_at m z < need) \<and>
    vp_ready v \<and> vp_cur v = []"
proof -
  obtain poc pv where p: "point_of_control m = (poc, pv)" by fastforce
  obtain a z inside where va: "value_area m need poc poc pv = (a, z, inside)" by (metis prod.exhaust)
  note poc = point_of_control_max [OF assms(1-3) p]
  have ok: "area_ok m need poc poc (a, z, inside)"
    unfolding va [symmetric] using poc assms(2) by (intro value_area_ok) (auto simp: traded_def area_volume_def)
  have "v = (tn_vp s)\<lparr>vp_poc := of_int poc + 1/2, vp_vah := of_int z + 1, vp_val := of_int a, vp_ready := True,
                 vp_cur := [], vp_used_l := False, vp_used_s := False, vp_dir := 0\<rparr>"
    using assms(3-) p va by (simp add: finalize_profile_def Let_def)
  with ok poc show ?thesis by (intro exI [of _ poc] exI [of _ a] exI [of _ z]) (auto simp: area_ok_def)
qed

text \<open>Three traded prices, then a gap.\<close>

theorem value_area_correct_witness:
  "value_area [(100, 10), (101, 30), (102, 20), (104, 5)] (7/10 * 65) 101 101 30 = (101, 102, 50) \<and>
   (\<exists>v. v = tn_vp (finalize_profile ((trend_new trend_defaults default_config)
       \<lparr>tn_vp := (tn_vp (trend_new trend_defaults default_config))\<lparr>vp_cur := [(100, 10), (101, 30), (102, 20), (104, 5)]\<rparr>\<rparr>)) \<and>
     vp_ready v \<and> (\<exists>poc \<in> {100, 101, 102, 104}. vp_poc v = of_int poc + 1/2))"
proof -
  let ?m = "[(100, 10), (101, 30), (102, 20), (104, 5)] :: histogram"
  let ?s = "(trend_new trend_defaults default_config)\<lparr>tn_vp := (tn_vp (trend_new trend_defaults default_config))\<lparr>vp_cur := ?m\<rparr>\<rparr>"
  have "value_area ?m (7/10 * 65) 101 101 30 = (101, 102, 50)"
    by (simp add: value_area.simps side_volume_def Let_def)
  moreover have "ordered ?m" "positive ?m" by (simp_all add: ordered_def positive_def)
  ultimately show ?thesis
    using value_area_correct [of ?m ?s "tc_vp_va_frac (tn_cfg ?s) * total_volume ?m" "tn_vp (finalize_profile ?s)"] by auto
qed

end
