(* ===== verification/Orb_File.thy ===== *)
theory Orb_File
  imports Config Engine_Config
begin

section \<open>Loading the executor's configuration file\<close>

text \<open>
  \<open>OrbConfig::from_file\<close> of \<open>src/src/execution/orb_config.hpp\<close> with its own \<open>load_dotenv\<close> and
  \<open>trim\<close>.  The trading parameters are \<open>orb_config\<close>; the connection and host settings are the other
  fields of \<open>host_config\<close>.  The process environment and the text of \<open>.env\<close> are arguments, as in
  \<open>Engine_Config\<close>; a file that cannot be read is \<open>None\<close>.
\<close>

subsection \<open>Data\<close>

record host_config =
  hc_orb :: orb_config
  hc_max_entry_offset :: real
  hc_trade_contract :: string
  hc_environment :: string
  hc_md_provider :: string
  hc_md_feed_symbol :: string
  hc_md_poll_ms :: int
  hc_md_user :: string
  hc_md_password :: string
  hc_md_system :: string
  hc_md_url :: string
  hc_user :: string
  hc_password :: string
  hc_system :: string
  hc_url :: string
  hc_app_name :: string
  hc_app_version :: string
  hc_account_id :: string
  hc_fcm_id :: string
  hc_ib_id :: string
  hc_trade_route :: string
  hc_warmup_minutes :: int
  hc_env_prefix :: string
  hc_tick_timeout_s :: int
  hc_cycle_epoch :: int
  hc_cycle_timeout_mins :: int
  hc_pg_host :: string
  hc_pg_port :: string
  hc_pg_db :: string
  hc_pg_user :: string
  hc_pg_password :: string

definition host_defaults :: host_config where
  "host_defaults =
     \<lparr>hc_orb = default_config, hc_max_entry_offset = 0, hc_trade_contract = [], hc_environment = ''legends'',
      hc_md_provider = ''legends'', hc_md_feed_symbol = ''NQ'', hc_md_poll_ms = 100, hc_md_user = [],
      hc_md_password = [], hc_md_system = ''Rithmic 01'', hc_md_url = ''wss://rprotocol-mobile.rithmic.com:443'',
      hc_user = [], hc_password = [], hc_system = ''LegendsTrading'',
      hc_url = ''wss://ritpz01001.01.rithmic.com:443'', hc_app_name = ''nepa:OentexNQBot'', hc_app_version = ''1.0'',
      hc_account_id = [], hc_fcm_id = [], hc_ib_id = [], hc_trade_route = ''simulator'', hc_warmup_minutes = 0,
      hc_env_prefix = ''RITHMIC_LEGENDS'', hc_tick_timeout_s = 30, hc_cycle_epoch = 0, hc_cycle_timeout_mins = 0,
      hc_pg_host = ''localhost'', hc_pg_port = ''5432'', hc_pg_db = ''rithmic'', hc_pg_user = ''rithmic_user'',
      hc_pg_password = []\<rparr>"

definition md_from_pg :: "host_config \<Rightarrow> bool" where
  "md_from_pg h = (hc_md_provider h = ''pg'')"

definition orb_connstr :: "host_config \<Rightarrow> string" where
  "orb_connstr h = ''host='' @ pg_escape_kv (hc_pg_host h) @ '' port='' @ pg_escape_kv (hc_pg_port h) @
     '' dbname='' @ pg_escape_kv (hc_pg_db h) @ '' user='' @ pg_escape_kv (hc_pg_user h) @
     '' password='' @ pg_escape_kv (hc_pg_password h) @ '' connect_timeout=10'' @
     '' application_name=nq_executor_'' @ c_account_label (hc_orb h)"

subsection \<open>The environment\<close>

definition orb_trim :: "string \<Rightarrow> string" where
  "orb_trim s = (let ws = (\<lambda>c. env_ws c \<or> c = CHR 0x22) in rev (dropWhile ws (rev (dropWhile ws s))))"

definition orb_dotenv_line :: "string \<Rightarrow> (string \<times> string) option" where
  "orb_dotenv_line line =
     (let s = orb_trim line; k = orb_trim (takeWhile (\<lambda>c. c \<noteq> CHR ''='') s);
          v = orb_trim (tl (dropWhile (\<lambda>c. c \<noteq> CHR ''='') s))
      in if s = [] \<or> hd s = CHR ''#'' \<or> CHR ''='' \<notin> set s \<or> k = [] then None else Some (k, v))"

definition orb_dotenv :: "string option \<Rightarrow> environ \<Rightarrow> environ" where
  "orb_dotenv file e =
     (case file of None \<Rightarrow> e
      | Some t \<Rightarrow> run (\<lambda>e line. case orb_dotenv_line line of None \<Rightarrow> e
                              | Some (k, v) \<Rightarrow> if e k = None then e(k \<mapsto> v) else e) e (lines_of [] t))"

definition upper_char :: "char \<Rightarrow> char" where
  "upper_char c = (if in_range_ch CHR ''a'' CHR ''z'' c then char_of ((of_char c :: nat) - 32) else c)"

definition upper :: "string \<Rightarrow> string" where
  "upper s = map upper_char s"

text \<open>The conversion of a double to an integer.\<close>

definition to_int :: "real \<Rightarrow> int" where
  "to_int x = (if x < 0 then \<lceil>x\<rceil> else \<lfloor>x\<rfloor>)"

subsection \<open>The trading parameters\<close>

text \<open>A key that is absent keeps the default; \<open>fill_model\<close>, \<open>book_be_on_flip\<close>, \<open>book_size_agree\<close> and
  \<open>fill_wait_secs\<close> are not read from this file.\<close>

definition orb_params :: "string \<Rightarrow> orb_config" where
  "orb_params t =
     (let d = default_config; i = (\<lambda>k f. json_int t k (f d)); r = (\<lambda>k f. json_dbl t k (f d));
          b = (\<lambda>k f. json_bool t k (f d)); s = (\<lambda>k f. json_str t k (f d))
      in \<lparr>c_orb_minutes = i ''orb_minutes'' c_orb_minutes, c_sl_points = r ''sl_points'' c_sl_points,
          c_trail_be_trigger = r ''trail_be_trigger'' c_trail_be_trigger, c_trail_step = r ''trail_step'' c_trail_step,
          c_trail_delay_secs = i ''trail_delay_secs'' c_trail_delay_secs,
          c_trail_be_offset = r ''trail_be_offset'' c_trail_be_offset,
          c_breakout_buffer = r ''breakout_buffer'' c_breakout_buffer,
          c_max_daily_trades = i ''max_daily_trades'' c_max_daily_trades,
          c_last_entry_hour = i ''last_entry_hour'' c_last_entry_hour,
          c_last_entry_min = i ''last_entry_min'' c_last_entry_min,
          c_eod_flatten_hour = i ''eod_flatten_hour'' c_eod_flatten_hour,
          c_eod_flatten_min = i ''eod_flatten_min'' c_eod_flatten_min,
          c_news_blackout_min = i ''news_blackout_min'' c_news_blackout_min,
          c_stop_cooldown_secs = i ''stop_cooldown_secs'' c_stop_cooldown_secs,
          c_sl_fire_timeout_ms = i ''sl_fire_timeout_ms'' c_sl_fire_timeout_ms,
          c_net_mismatch_grace_ms = i ''net_mismatch_grace_ms'' c_net_mismatch_grace_ms, c_qty = i ''qty'' c_qty,
          c_session_open_hour = to_int (json_dbl t ''session_open_hour'' (of_int (c_session_open_hour d))),
          c_session_open_min = to_int (json_dbl t ''session_open_min'' (of_int (c_session_open_min d))),
          c_trailing_drawdown_cap = r ''trailing_drawdown_cap'' c_trailing_drawdown_cap,
          c_consistency_cap_pct = r ''consistency_cap_pct'' c_consistency_cap_pct,
          c_daily_loss_limit = r ''daily_loss_limit'' c_daily_loss_limit, c_commission_rt = r ''commission_rt'' c_commission_rt,
          c_symbol = s ''symbol'' c_symbol, c_exchange = s ''exchange'' c_exchange, c_point_value = r ''point_value'' c_point_value,
          c_fill_model = c_fill_model d, c_spread_gate_ticks = r ''spread_gate_ticks'' c_spread_gate_ticks,
          c_spread_gate_rel = r ''spread_gate_rel'' c_spread_gate_rel, c_imbalance_min = r ''imbalance_min'' c_imbalance_min,
          c_microprice_lead = b ''microprice_lead'' c_microprice_lead, c_imbalance_max = r ''imbalance_max'' c_imbalance_max,
          c_book_exit_flip = r ''book_exit_flip'' c_book_exit_flip, c_book_be_on_flip = c_book_be_on_flip d,
          c_book_tp_imbalance = r ''book_tp_imbalance'' c_book_tp_imbalance,
          c_book_tp_min_pts = r ''book_tp_min_pts'' c_book_tp_min_pts, c_book_size_agree = c_book_size_agree d,
          c_fill_wait_secs = c_fill_wait_secs d, c_tp_points = r ''tp_points'' c_tp_points, c_tp_r = r ''tp_r'' c_tp_r,
          c_rvol_min = r ''rvol_min'' c_rvol_min, c_rvol_max = r ''rvol_max'' c_rvol_max, c_rvol_bars = i ''rvol_bars'' c_rvol_bars,
          c_vt_risk_usd = r ''vt_risk_usd'' c_vt_risk_usd, c_vt_qty_max = i ''vt_qty_max'' c_vt_qty_max,
          c_regime_exit_min_eff = r ''regime_exit_min_eff'' c_regime_exit_min_eff,
          c_trail_step_trend = r ''trail_step_trend'' c_trail_step_trend,
          c_trail_step_range = r ''trail_step_range'' c_trail_step_range, c_tp_r_range = r ''tp_r_range'' c_tp_r_range,
          c_regime_min_range_atr = r ''regime_min_range_atr'' c_regime_min_range_atr,
          c_regime_max_range_atr = r ''regime_max_range_atr'' c_regime_max_range_atr,
          c_regime_min_eff = r ''regime_min_eff'' c_regime_min_eff, c_regime_max_eff = r ''regime_max_eff'' c_regime_max_eff,
          c_regime_min_move_atr = r ''regime_min_move_atr'' c_regime_min_move_atr,
          c_regime_max_move_atr = r ''regime_max_move_atr'' c_regime_max_move_atr,
          c_regime_with_move = i ''regime_with_move'' c_regime_with_move,
          c_regime_min_minutes = i ''regime_min_minutes'' c_regime_min_minutes,
          c_account_label = s ''account_label'' c_account_label, c_strategy = s ''strategy'' c_strategy,
          c_engine = s ''engine'' c_engine, c_starting_balance = r ''starting_balance'' c_starting_balance,
          c_cycle_mode = b ''cycle_mode'' c_cycle_mode, c_dry_run = b ''dry_run'' c_dry_run, c_dry_label_forced = False\<rparr>)"

subsection \<open>The file\<close>

definition host_params :: "environ \<Rightarrow> string \<Rightarrow> host_config" where
  "host_params e t =
     (let h = host_defaults; provider = env_get e ''RITHMIC_MD_PROVIDER'' ''legends''; md = ''MD_'' @ upper provider;
          prefix_key = json_str t ''order_env_prefix'' (hc_env_prefix h); pfx = upper prefix_key;
          pg = env_get e ''PG_PASSWORD'' []; pg1 = (if pg = [] then env_get e ''RITHMIC_PG_PASSWORD'' [] else pg);
          user = env_get e (pfx @ ''_USER'') []; acct = env_get e (pfx @ ''_ACCOUNT'') []
      in \<lparr>hc_orb = orb_params t, hc_max_entry_offset = json_dbl t ''max_entry_offset'' (hc_max_entry_offset h),
          hc_trade_contract = json_str t ''trade_contract'' (hc_trade_contract h),
          hc_environment = json_str t ''environment'' (hc_environment h), hc_md_provider = provider,
          hc_md_feed_symbol = json_str t ''md_feed_symbol'' (hc_md_feed_symbol h),
          hc_md_poll_ms = json_int t ''md_poll_ms'' (hc_md_poll_ms h), hc_md_user = env_get e (md @ ''_USER'') [],
          hc_md_password = env_get e (md @ ''_PASSWORD'') [], hc_md_system = env_get e (md @ ''_SYSTEM'') (hc_md_system h),
          hc_md_url = env_get e (md @ ''_URL'') (hc_md_url h),
          hc_user = (if user = [] then json_str t ''rithmic_user'' [] else user), hc_password = env_get e (pfx @ ''_PASSWORD'') [],
          hc_system = env_get e (pfx @ ''_SYSTEM'') (hc_system h), hc_url = env_get e (pfx @ ''_URL'') (hc_url h),
          hc_app_name = env_get e ''RITHMIC_APP_NAME'' ''nepa:OentexNQBot'',
          hc_app_version = env_get e ''RITHMIC_APP_VERSION'' ''1.0'',
          hc_account_id = (if acct = [] then json_str t ''account_id'' [] else acct), hc_fcm_id = json_str t ''fcm_id'' [],
          hc_ib_id = json_str t ''ib_id'' [], hc_trade_route = json_str t ''trade_route'' (hc_trade_route h),
          hc_warmup_minutes = json_int t ''warmup_minutes'' (hc_warmup_minutes h), hc_env_prefix = prefix_key,
          hc_tick_timeout_s = json_int t ''tick_timeout_s'' (hc_tick_timeout_s h),
          hc_cycle_epoch = to_int (json_dbl t ''cycle_start_epoch'' (of_int (hc_cycle_epoch h))),
          hc_cycle_timeout_mins = json_int t ''cycle_timeout_mins'' (hc_cycle_timeout_mins h),
          hc_pg_host = json_str t ''pg_host'' (hc_pg_host h), hc_pg_port = json_str t ''pg_port'' (hc_pg_port h),
          hc_pg_db = json_str t ''pg_db'' (hc_pg_db h), hc_pg_user = json_str t ''pg_user'' (hc_pg_user h),
          hc_pg_password = (if pg1 = [] then json_str t ''pg_password'' [] else pg1)\<rparr>)"

datatype load_error = NoFile | BadConfig config_error

definition from_file :: "string option \<Rightarrow> environ \<Rightarrow> string option \<Rightarrow> load_error + host_config" where
  "from_file dotenv e file =
     (case file of None \<Rightarrow> Inl NoFile
      | Some t \<Rightarrow>
          (let h = host_params (orb_dotenv dotenv e) t
           in case validate (hc_orb h) of
                Some err \<Rightarrow> Inl (BadConfig err)
              | None \<Rightarrow> Inr (h\<lparr>hc_orb := fst (apply_dry_run_label (hc_orb h))\<rparr>)))"

subsection \<open>What a loaded configuration satisfies\<close>

lemma from_file_loaded:
  "from_file d e f = Inr h \<Longrightarrow> \<exists>t. f = Some t \<and> validate (orb_params t) = None \<and>
     hc_orb h = fst (apply_dry_run_label (orb_params t))"
  by (auto simp: from_file_def host_params_def Let_def split: option.splits)

lemma validate_None:
  "validate c = None \<longleftrightarrow>
     c_qty c > 0 \<and> c_orb_minutes c > 0 \<and> c_trail_step c > 0 \<and> c_sl_points c > 0 \<and> c_trailing_drawdown_cap c > 0 \<and>
     c_account_label c \<noteq> [] \<and> list_all label_char (c_account_label c) \<and> c_strategy c \<noteq> [] \<and> list_all tag_char (c_strategy c) \<and>
     c_engine c \<in> {''orb'', ''trend'', ''mtf_scalper''} \<and> (c_engine c \<noteq> ''orb'' \<longrightarrow> c_strategy c \<noteq> ''ORB'')"
proof -
  have step: "(if a then Some x else y) = None \<longleftrightarrow> \<not> a \<and> y = None" for a x y by simp
  have names: "c_engine c = ''trend'' \<Longrightarrow> c_engine c \<noteq> ''orb''" "c_engine c = ''mtf_scalper'' \<Longrightarrow> c_engine c \<noteq> ''orb''"
    by simp_all
  show ?thesis unfolding validate_def step not_le using names by blast
qed

lemma label_keeps_validity: "validate c = None \<Longrightarrow> validate (fst (apply_dry_run_label c)) = None"
proof -
  have "list_all label_char ''_dry''" by code_simp
  then show "validate c = None \<Longrightarrow> validate (fst (apply_dry_run_label c)) = None"
    unfolding validate_None by (auto simp: apply_dry_run_label_def)
qed



end
