(* ===== verification/Exec_Queue.thy ===== *)
theory Exec_Queue
  imports Prelude
begin

section \<open>The executor's write queue\<close>

text \<open>
  \<open>WsWriteQueue\<close> of \<open>src/src/execution/executor_main.cpp\<close>, which keeps at most one write in flight on
  a stream.  A queued item is its data and the id of its completion handler.  \<open>wq_flight\<close> is the write
  the stream is carrying out, \<open>wq_sent\<close> every write started, \<open>wq_done\<close> the handler calls with whether
  they reported success.  The completion of a write takes the first item of the queue; taking it from an
  empty queue is undefined behaviour, here \<open>None\<close>.  Handlers do not submit again while they run (a
  resumed coroutine that does is a later \<open>Submit\<close>: the queue is still busy then).
\<close>

subsection \<open>Data\<close>

type_synonym wq_item = "string \<times> nat"

record wq =
  wq_ws :: "nat option"
  wq_busy :: bool
  wq_q :: "wq_item list"
  wq_flight :: "(nat \<times> wq_item) option"
  wq_sent :: "(nat \<times> wq_item) list"
  wq_done :: "(nat \<times> bool) list"

definition wq_new :: wq where
  "wq_new = \<lparr>wq_ws = None, wq_busy = False, wq_q = [], wq_flight = None, wq_sent = [], wq_done = []\<rparr>"

subsection \<open>Operations\<close>

definition wq_handler :: "nat \<Rightarrow> bool \<Rightarrow> wq \<Rightarrow> wq" where
  "wq_handler h ok s = s\<lparr>wq_done := wq_done s @ [(h, ok)]\<rparr>"

definition fail_all :: "wq \<Rightarrow> wq" where
  "fail_all s = s\<lparr>wq_done := wq_done s @ map (\<lambda>(d, h). (h, False)) (wq_q s), wq_q := []\<rparr>"

definition pump :: "wq \<Rightarrow> wq" where
  "pump s =
     (case (wq_ws s, wq_q s) of
        (Some w, x # xs) \<Rightarrow> s\<lparr>wq_busy := True, wq_flight := Some (w, x), wq_sent := wq_sent s @ [(w, x)]\<rparr>
      | _ \<Rightarrow> s\<lparr>wq_busy := False\<rparr>)"

definition wq_attach :: "nat \<Rightarrow> wq \<Rightarrow> wq" where
  "wq_attach w s = s\<lparr>wq_ws := Some w\<rparr>"

definition wq_detach :: "wq \<Rightarrow> wq" where
  "wq_detach s = fail_all (s\<lparr>wq_ws := None\<rparr>)"

definition wq_submit :: "string \<Rightarrow> nat \<Rightarrow> wq \<Rightarrow> wq" where
  "wq_submit d h s =
     (if wq_ws s = None then wq_handler h False s
      else (let t = s\<lparr>wq_q := wq_q s @ [(d, h)]\<rparr> in if wq_busy t then t else pump t))"

text \<open>The completion handler of the write in flight.\<close>

definition wq_complete :: "bool \<Rightarrow> wq \<Rightarrow> wq option" where
  "wq_complete ok s =
     (let s0 = s\<lparr>wq_flight := None\<rparr>
      in case wq_q s0 of
           [] \<Rightarrow> None
         | (d, h) # xs \<Rightarrow>
             (let t = wq_handler h ok (s0\<lparr>wq_q := xs\<rparr>)
              in Some (if ok then pump t else (fail_all t)\<lparr>wq_busy := False\<rparr>)))"

subsection \<open>Runs\<close>

datatype wq_event = Attach nat | Detach | Submit string nat | Completed bool

text \<open>A completion arrives only for a write in flight.\<close>

definition wq_step :: "wq_event \<Rightarrow> wq \<Rightarrow> wq option" where
  "wq_step e s =
     (case e of
        Attach w \<Rightarrow> Some (wq_attach w s)
      | Detach \<Rightarrow> Some (wq_detach s)
      | Submit d h \<Rightarrow> Some (wq_submit d h s)
      | Completed ok \<Rightarrow> if wq_flight s = None then Some s else wq_complete ok s)"

fun wq_run :: "wq_event list \<Rightarrow> wq \<Rightarrow> wq option" where
  "wq_run [] s = Some s"
| "wq_run (e # es) s = (case wq_step e s of None \<Rightarrow> None | Some t \<Rightarrow> wq_run es t)"

text \<open>Writes start only when none is in flight; the streams change only then, too.\<close>

fun no_detach_in_flight :: "wq_event list \<Rightarrow> wq \<Rightarrow> bool" where
  "no_detach_in_flight [] s = True"
| "no_detach_in_flight (e # es) s =
     ((case e of Detach \<Rightarrow> wq_flight s = None | Attach w \<Rightarrow> wq_flight s = None | _ \<Rightarrow> True) \<and>
      (case wq_step e s of None \<Rightarrow> True | Some t \<Rightarrow> no_detach_in_flight es t))"

fun submitted :: "wq_event list \<Rightarrow> nat list" where
  "submitted [] = []"
| "submitted (Submit d h # es) = h # submitted es"
| "submitted (e # es) = submitted es"

subsection \<open>The queue keeps its order\<close>

text \<open>
  The write in flight is the first queued item, on the attached stream; without one the queue is empty
  and not busy.
\<close>

definition wq_ok :: "wq \<Rightarrow> bool" where
  "wq_ok s =
     (case wq_flight s of
        None \<Rightarrow> wq_q s = [] \<and> \<not> wq_busy s
      | Some (w, x) \<Rightarrow> wq_busy s \<and> wq_ws s = Some w \<and> wq_q s \<noteq> [] \<and> hd (wq_q s) = x)"

definition waiting_ids :: "wq \<Rightarrow> nat list" where
  "waiting_ids s = map fst (wq_done s) @ map snd (wq_q s)"

lemma fail_all_ids: "waiting_ids (fail_all s) = waiting_ids s" "wq_q (fail_all s) = []"
  by (simp_all add: waiting_ids_def fail_all_def case_prod_beta comp_def)

lemma pump_ids [simp]: "waiting_ids (pump s) = waiting_ids s"
  by (auto simp: waiting_ids_def pump_def split: option.split list.split)

lemma pump_ok: "wq_flight s = None \<Longrightarrow> wq_ws s \<noteq> None \<or> wq_q s = [] \<Longrightarrow> wq_ok (pump s)"
  by (auto simp: wq_ok_def pump_def split: option.split list.split)

lemma wq_submit_ok:
  assumes "wq_ok s"
  shows "wq_ok (wq_submit d h s)" "waiting_ids (wq_submit d h s) = waiting_ids s @ [h]"
  using assms
  by (auto simp: wq_submit_def wq_ok_def waiting_ids_def wq_handler_def pump_def Let_def hd_append
      split: option.splits list.splits)

lemma wq_complete_ok:
  assumes "wq_ok s" "wq_flight s = Some f"
  obtains t where "wq_complete ok s = Some t" "wq_ok t" "waiting_ids t = waiting_ids s"
proof -
  obtain w x where f: "f = (w, x)" by (cases f)
  then have ok: "wq_ws s = Some w" "wq_q s \<noteq> []" using assms by (auto simp: wq_ok_def)
  then obtain d h xs where q: "wq_q s = (d, h) # xs" by (metis list.exhaust surj_pair)
  let ?t = "wq_handler h ok (s\<lparr>wq_flight := None, wq_q := xs\<rparr>)"
  have ids: "waiting_ids ?t = waiting_ids s" by (simp add: waiting_ids_def wq_handler_def q)
  have none: "wq_flight ?t = None" "wq_ws ?t = Some w" by (simp_all add: wq_handler_def ok)
  have "wq_ok (pump ?t)" using none by (intro pump_ok) simp_all
  moreover have "wq_ok ((fail_all ?t)\<lparr>wq_busy := False\<rparr>)"
    using none by (simp add: wq_ok_def fail_all_def)
  moreover have "waiting_ids ((fail_all ?t)\<lparr>wq_busy := False\<rparr>) = waiting_ids s"
    using fail_all_ids(1) [of ?t] ids by (simp add: waiting_ids_def)
  moreover have "wq_complete ok s = Some (if ok then pump ?t else (fail_all ?t)\<lparr>wq_busy := False\<rparr>)"
    by (simp add: wq_complete_def q Let_def)
  ultimately show ?thesis using that ids by (cases ok) simp_all
qed

text \<open>What was reported written was written.\<close>

definition honest :: "wq \<Rightarrow> bool" where
  "honest s = ((\<forall>h. (h, True) \<in> set (wq_done s) \<longrightarrow> h \<in> set (map (snd \<circ> snd) (wq_sent s))) \<and>
     (case wq_flight s of None \<Rightarrow> True | Some f \<Rightarrow> f \<in> set (wq_sent s)))"

lemma honest_pump: "honest s \<Longrightarrow> honest (pump s)"
  by (auto simp: honest_def pump_def split: option.splits list.splits)

lemma honest_step:
  assumes "honest s" "wq_ok s" "wq_step e s = Some t"
  shows "honest t"
proof (cases e)
  case (Completed ok)
  show ?thesis
  proof (cases "wq_flight s")
    case (Some f)
    obtain w d h where f: "f = (w, d, h)" by (metis surj_pair)
    with assms(2) Some obtain xs where q: "wq_q s = (d, h) # xs" by (auto simp: wq_ok_def neq_Nil_conv)
    have sent: "h \<in> set (map (snd \<circ> snd) (wq_sent s))"
      using assms(1) by (force simp: honest_def Some f)
    have "honest (wq_handler h ok (s\<lparr>wq_flight := None, wq_q := xs\<rparr>))"
      using assms(1) sent by (auto simp: honest_def wq_handler_def)
    moreover have "honest u \<Longrightarrow> wq_flight u = None \<Longrightarrow> honest ((fail_all u)\<lparr>wq_busy := False\<rparr>)" for u
      by (auto simp: honest_def fail_all_def)
    ultimately show ?thesis
      using assms(3) Completed Some q honest_pump by (auto simp: wq_step_def wq_complete_def wq_handler_def Let_def)
  qed (use assms Completed in \<open>simp add: wq_step_def\<close>)
next
  case (Submit d h)
  have "honest (wq_handler h False s)" using assms(1) by (auto simp: honest_def wq_handler_def split: option.splits)
  moreover have "honest (s\<lparr>wq_q := x\<rparr>)" for x using assms(1) by (auto simp: honest_def split: option.splits)
  ultimately show ?thesis
    using assms(3) Submit honest_pump by (auto simp: wq_step_def wq_submit_def Let_def)
qed (use assms in \<open>auto simp: wq_step_def wq_attach_def wq_detach_def fail_all_def honest_def split: option.splits\<close>)

lemma wq_step_ok:
  assumes "wq_ok s" "honest s" "case e of Detach \<Rightarrow> wq_flight s = None | Attach w \<Rightarrow> wq_flight s = None | _ \<Rightarrow> True"
  obtains t where "wq_step e s = Some t" "wq_ok t" "honest t" "waiting_ids t = waiting_ids s @ submitted [e]"
proof -
  have "\<exists>t. wq_step e s = Some t \<and> wq_ok t \<and> waiting_ids t = waiting_ids s @ submitted [e]"
  proof (cases e)
    case (Completed ok)
    show ?thesis
    proof (cases "wq_flight s")
      case (Some f)
      from wq_complete_ok [OF assms(1) Some] show ?thesis by (simp add: Completed wq_step_def Some) metis
    qed (use assms Completed in \<open>simp add: wq_step_def\<close>)
  next
    case (Submit d h)
    then show ?thesis using wq_submit_ok [OF assms(1), of d h] by (simp add: wq_step_def)
  qed (use assms in \<open>auto simp: wq_step_def wq_attach_def wq_detach_def fail_all_def wq_ok_def waiting_ids_def split: option.splits\<close>)
  then show ?thesis using that honest_step [OF assms(2,1)] by blast
qed

lemma submitted_Cons: "submitted (e # es) = submitted [e] @ submitted es"
  by (cases e) simp_all

lemma wq_run_ok:
  assumes "wq_ok s" "honest s" "no_detach_in_flight es s"
  shows "\<exists>t. wq_run es s = Some t \<and> wq_ok t \<and> honest t \<and> waiting_ids t = waiting_ids s @ submitted es"
  using assms
proof (induction es arbitrary: s)
  case (Cons e es)
  then obtain t where t: "wq_step e s = Some t" "wq_ok t" "honest t" "waiting_ids t = waiting_ids s @ submitted [e]"
    using wq_step_ok [of s e] by auto
  with Cons.IH [of t] Cons.prems show ?case by (simp add: submitted_Cons [of e es])
qed simp


definition demo_writes_q :: "wq_event list" where
  "demo_writes_q = [Attach 1, Submit ''login'' 1, Submit ''subscribe'' 2, Completed True, Submit ''heartbeat'' 3,
     Completed True, Completed False, Detach, Submit ''late'' 4]"


text \<open>
  A stream detached while a write is in flight breaks that: the handler of the aborted write then
  takes an item that is not its own.  With nothing queued since, that is undefined behaviour; when a new
  stream was attached and a message queued, the message is taken out, its handler called with the
  aborted write's outcome, and it is never sent.
\<close>

theorem detach_loses_write:
  "wq_run [Attach 1, Submit a 1, Detach, Completed ok] wq_new = None \<and>
   (\<exists>t. wq_run [Attach 1, Submit a 1, Detach, Attach 2, Submit b 2, Completed ok] wq_new = Some t \<and>
     wq_done t = [(1, False), (2, ok)] \<and> wq_sent t = [(1, a, 1)])"
  by (simp add: wq_step_def wq_attach_def wq_detach_def wq_submit_def wq_complete_def fail_all_def wq_handler_def
      pump_def wq_new_def Let_def)

end
