(* ===== verification/Exec_State.thy ===== *)
theory Exec_State
  imports Orb_File Notif Orb_Strategy Trend_Strategy Mtf_Strategy
begin

section \<open>The executor: engines, order plant, state\<close>

text \<open>
  The state of \<open>run_executor\<close> in \<open>src/src/execution/executor_main.cpp\<close>.  The template parameter
  \<open>Strategy\<close> is the datatype \<open>engine\<close>; \<open>OrderPlant\<close> is a record whose messages are a list; the
  variables the coroutines share are the fields of \<open>exec\<close>.  The coroutines run on one thread, so each
  handler is one atomic step.  Logging, the audit rows and the alerts that only report are left out.
\<close>

subsection \<open>Engines\<close>

datatype engine = EOrb strategy | ETrend trend | EMtf mtf

definition is_orb :: "engine \<Rightarrow> bool" where
  "is_orb g = (case g of EOrb s \<Rightarrow> True | _ \<Rightarrow> False)"

definition en_out :: "engine \<Rightarrow> (orb_signal \<times> real \<times> string) list" where
  "en_out g = (case g of EOrb s \<Rightarrow> st_out s | ETrend s \<Rightarrow> tn_out s | EMtf s \<Rightarrow> mt_out s)"

definition en_clear :: "engine \<Rightarrow> engine" where
  "en_clear g = (case g of EOrb s \<Rightarrow> EOrb (s\<lparr>st_out := []\<rparr>) | ETrend s \<Rightarrow> ETrend (s\<lparr>tn_out := []\<rparr>)
     | EMtf s \<Rightarrow> EMtf (s\<lparr>mt_out := []\<rparr>))"

definition en_tick :: "orb_tick \<Rightarrow> engine \<Rightarrow> engine" where
  "en_tick t g = (case g of EOrb s \<Rightarrow> EOrb (on_tick t s) | ETrend s \<Rightarrow> ETrend (trend_on_tick t s)
     | EMtf s \<Rightarrow> EMtf (mtf_tick t s))"

definition en_eod :: "int \<Rightarrow> int \<Rightarrow> engine \<Rightarrow> engine" where
  "en_eod h m g = (case g of EOrb s \<Rightarrow> EOrb (check_eod h m s) | ETrend s \<Rightarrow> ETrend (trend_check_eod h m s)
     | EMtf s \<Rightarrow> EMtf (check_time_flatten h m s))"

definition en_halt :: "string \<Rightarrow> engine \<Rightarrow> engine" where
  "en_halt why g = (case g of EOrb s \<Rightarrow> EOrb (halt_trading why s) | ETrend s \<Rightarrow> ETrend (trend_halt why s)
     | EMtf s \<Rightarrow> EMtf (mtf_halt why s))"

definition en_unhalt :: "engine \<Rightarrow> engine" where
  "en_unhalt g = (case g of EOrb s \<Rightarrow> EOrb (unhalt_trading s) | ETrend s \<Rightarrow> ETrend (trend_unhalt s)
     | EMtf s \<Rightarrow> EMtf (mtf_unhalt s))"

definition en_reset :: "engine \<Rightarrow> engine" where
  "en_reset g = (case g of EOrb s \<Rightarrow> EOrb (reset_session s) | ETrend s \<Rightarrow> ETrend (trend_reset_session s)
     | EMtf s \<Rightarrow> EMtf (mtf_reset_session s))"

definition en_seed_trades :: "int \<Rightarrow> engine \<Rightarrow> engine" where
  "en_seed_trades n g = (case g of EOrb s \<Rightarrow> EOrb (seed_trades_today n s) | ETrend s \<Rightarrow> ETrend (trend_seed_trades n s)
     | EMtf s \<Rightarrow> EMtf (mtf_seed_trades n s))"

text \<open>\<open>notify_trade_filled\<close>; only the scalper reads the direction and the P&L.\<close>

definition en_closed :: "orb_signal \<Rightarrow> real \<Rightarrow> engine \<Rightarrow> engine" where
  "en_closed sig pnl g = (case g of EOrb s \<Rightarrow> EOrb (notify_trade_filled s) | ETrend s \<Rightarrow> ETrend (trend_trade_filled s)
     | EMtf s \<Rightarrow> EMtf (mtf_notify_trade_filled sig pnl s))"

definition en_entry_filled :: "orb_signal \<Rightarrow> real \<Rightarrow> engine \<Rightarrow> engine" where
  "en_entry_filled sig px g = (case g of EMtf s \<Rightarrow> EMtf (mtf_notify_entry_filled sig px s) | _ \<Rightarrow> g)"

definition en_last :: "engine \<Rightarrow> real" where
  "en_last g = (case g of EOrb s \<Rightarrow> st_last s | ETrend s \<Rightarrow> tn_last s | EMtf s \<Rightarrow> mt_last s)"

definition en_halted :: "engine \<Rightarrow> bool" where
  "en_halted g = (case g of EOrb s \<Rightarrow> os_halted (st_session s) | ETrend s \<Rightarrow> ss_halted (tn_ss s) | EMtf s \<Rightarrow> mt_halted s)"

definition en_reason :: "engine \<Rightarrow> string" where
  "en_reason g = (case g of EOrb s \<Rightarrow> os_halt_reason (st_session s) | ETrend s \<Rightarrow> ss_reason (tn_ss s)
     | EMtf s \<Rightarrow> mt_halt_reason s)"

definition en_in_pos :: "engine \<Rightarrow> bool" where
  "en_in_pos g = (case g of EOrb s \<Rightarrow> os_in_pos (st_session s) | ETrend s \<Rightarrow> ss_in_pos (tn_ss s)
     | EMtf s \<Rightarrow> ps_dir (mt_pos s) \<noteq> 0)"

definition en_trades :: "engine \<Rightarrow> int" where
  "en_trades g = (case g of EOrb s \<Rightarrow> os_trades (st_session s) | ETrend s \<Rightarrow> ss_trades (tn_ss s)
     | EMtf s \<Rightarrow> gd_trades (mt_guard s))"

text \<open>\<open>orb_high\<close> and \<open>orb_low\<close>: the other engines have no range.\<close>

definition en_orb_high :: "engine \<Rightarrow> real" where
  "en_orb_high g = (case g of EOrb s \<Rightarrow> (case os_high (st_session s) of None \<Rightarrow> - dbl_max | Some x \<Rightarrow> x) | _ \<Rightarrow> 0)"

definition en_orb_low :: "engine \<Rightarrow> real" where
  "en_orb_low g = (case g of EOrb s \<Rightarrow> (case os_low (st_session s) of None \<Rightarrow> dbl_max | Some x \<Rightarrow> x) | _ \<Rightarrow> 0)"

definition en_orb_set :: "engine \<Rightarrow> bool" where
  "en_orb_set g = (case g of EOrb s \<Rightarrow> os_set (st_session s) | _ \<Rightarrow> False)"

definition en_stop_dist :: "engine \<Rightarrow> real" where
  "en_stop_dist g = (case g of EMtf s \<Rightarrow> ps_r (mt_pos s) | _ \<Rightarrow> 0)"

text \<open>
  \<open>notify_trade_filled\<close> called by the host inside the signal callback of the ORB engine: the engine sets
  \<open>in_position\<close> and counts the trade after the callback has returned.
\<close>

definition en_skip_inside :: "engine \<Rightarrow> engine" where
  "en_skip_inside g =
     (case g of EOrb s \<Rightarrow> EOrb ((notify_trade_filled s)\<lparr>st_session := st_session s\<rparr>) | _ \<Rightarrow> g)"

subsection \<open>The order plant\<close>

text \<open>A price is sent with limits, a trigger with stops; the type numbers are Rithmic's.\<close>

record order_msg =
  pm_symbol :: string
  pm_exchange :: string
  pm_qty :: int
  pm_type :: int
  pm_buy :: bool
  pm_price :: "real option"
  pm_trigger :: "real option"
  pm_tag :: string
  pm_route :: string

datatype plant_msg =
    NewOrder order_msg
  | CancelOrder string string
  | SubscribeOrders
  | SubscribePnl

record plant =
  pl_ws :: bool
  pl_connected :: bool
  pl_account :: string
  pl_route :: string
  pl_symbol :: string
  pl_pending :: "string list"
  pl_out :: "plant_msg list"

definition plant_send :: "plant_msg \<Rightarrow> plant \<Rightarrow> plant" where
  "plant_send m p = p\<lparr>pl_out := pl_out p @ [m]\<rparr>"

definition plant_up :: "plant \<Rightarrow> bool" where
  "plant_up p = (pl_connected p \<and> pl_ws p)"

text \<open>The id of the order when it was sent, else the empty string.\<close>

definition send_new_order :: "bool \<Rightarrow> order_req \<Rightarrow> plant \<Rightarrow> string \<times> plant" where
  "send_new_order dry rq p =
     (let k = rq_type rq; x = rq_price rq
      in if dry then (rq_id rq, p)
         else if \<not> plant_up p then ([], p)
         else (rq_id rq, plant_send (NewOrder
                \<lparr>pm_symbol = rq_symbol rq, pm_exchange = rq_exchange rq, pm_qty = rq_qty rq, pm_type = k, pm_buy = rq_buy rq,
                 pm_price = (if k = 1 \<or> k = 3 then Some x else None), pm_trigger = (if k = 3 \<or> k = 4 then Some x else None),
                 pm_tag = rq_id rq, pm_route = pl_route p\<rparr>) p))"

definition flush_order_notifications :: "plant \<Rightarrow> plant" where
  "flush_order_notifications p = (if plant_up p then plant_send SubscribeOrders p else p)"

text \<open>While disconnected a cancel is kept; \<open>pending_cancels_\<close> is a set, its order here that of the calls.\<close>

definition plant_cancel :: "string \<Rightarrow> string \<Rightarrow> plant \<Rightarrow> plant" where
  "plant_cancel i account p =
     (if plant_up p then flush_order_notifications (plant_send (CancelOrder i account) p)
      else p\<lparr>pl_pending := List.insert i (pl_pending p)\<rparr>)"

definition drain_pending_cancels :: "plant \<Rightarrow> plant" where
  "drain_pending_cancels p =
     (fold (\<lambda>i. plant_send (CancelOrder i (pl_account p))) (pl_pending p) p)\<lparr>pl_pending := []\<rparr>"

subsection \<open>The state of a run\<close>

text \<open>The clocks a handler reads: the steady clock and the wall clock, in nanoseconds.\<close>

type_synonym clocks = "int \<times> int"

definition steady_ms :: "clocks \<Rightarrow> int" where
  "steady_ms c = cdiv (fst c) 1000000"

definition wall_s :: "clocks \<Rightarrow> int" where
  "wall_s c = cdiv (snd c) 1000000000"

text \<open>
  A row of \<open>live_position\<close>, less the two connection flags of the dashboard; \<open>lp_entry_s\<close> is the second of
  the entry, kept as text in the code.
\<close>

record live_row =
  lp_date :: string
  lp_state :: string
  lp_dir :: string
  lp_entry :: real
  lp_entry_s :: "int option"
  lp_last :: real
  lp_pts :: real
  lp_usd :: real
  lp_sl :: real
  lp_high :: real
  lp_low :: real
  lp_set :: bool
  lp_trades :: int
  lp_be :: bool
  lp_trailing :: bool

record exec =
  x_cfg :: host_config
  x_eng :: engine
  x_om :: om
  x_plant :: plant
  x_db :: bool
  x_book :: quote_state
  x_regime :: regime
  x_last_us :: int
  x_today :: string
  x_unsettled :: string
  x_warming :: bool
  x_dropped :: nat
  x_rec :: reconciler
  x_net_halt :: bool
  x_loss_halted :: bool
  x_dd_halted :: bool
  x_hwm :: real
  x_exch_net :: "int option"
  x_last_unwind :: string
  x_defer :: bool
  x_deferred :: "string list"
  x_pnl_up :: bool
  x_fresh :: bool
  x_last_tick_s :: int
  x_persisted :: "om_effect list"
  x_trades :: "position list"
  x_row :: "live_row option"

definition x_orb :: "exec \<Rightarrow> orb_config" where
  "x_orb x = hc_orb (x_cfg x)"

definition x_env :: "clocks \<Rightarrow> exec \<Rightarrow> om_env" where
  "x_env c x =
     (let dry = c_dry_run (x_orb x); p = x_db x \<and> \<not> dry
      in \<lparr>e_now = fst c, e_wall = snd c, e_order_cb = True, e_cancel_cb = True, e_persist_cb = p, e_remove_cb = p,
          e_server_cb = p, e_accepts = (\<lambda>rq. fst (send_new_order dry rq (x_plant x)) \<noteq> []),
          e_regime = Some (x_regime x)\<rparr>)"

text \<open>The symbol of the contract replaces the order manager's.\<close>

definition deliver_effect :: "om_effect \<Rightarrow> exec \<Rightarrow> exec" where
  "deliver_effect f x =
     (case f of
        SendOrder rq \<Rightarrow>
          (let sym = (if pl_symbol (x_plant x) = [] then c_symbol (x_orb x) else pl_symbol (x_plant x))
           in x\<lparr>x_plant := snd (send_new_order (c_dry_run (x_orb x)) (rq\<lparr>rq_symbol := sym\<rparr>) (x_plant x))\<rparr>)
      | CancelReq i \<Rightarrow> x\<lparr>x_plant := plant_cancel i (pl_account (x_plant x)) (x_plant x)\<rparr>
      | _ \<Rightarrow> x\<lparr>x_persisted := x_persisted x @ [f]\<rparr>)"

text \<open>A call of the order manager, with what it sent carried out.\<close>

definition on_om :: "(om_env \<Rightarrow> om \<Rightarrow> om) \<Rightarrow> clocks \<Rightarrow> exec \<Rightarrow> exec" where
  "on_om f c x =
     (let s = f (x_env c x) (x_om x)
      in fold deliver_effect (om_out s) (x\<lparr>x_om := s\<lparr>om_out := []\<rparr>\<rparr>))"

definition x_flat :: "exec \<Rightarrow> bool" where
  "x_flat x = is_flat (x_om x)"

definition halt_engine :: "string \<Rightarrow> exec \<Rightarrow> exec" where
  "halt_engine why x = x\<lparr>x_eng := en_halt why (x_eng x)\<rparr>"

definition unhalt_engine :: "exec \<Rightarrow> exec" where
  "unhalt_engine x = x\<lparr>x_eng := en_unhalt (x_eng x)\<rparr>"

subsection \<open>The position row\<close>

definition state_name :: "pos_state \<Rightarrow> string" where
  "state_name st =
     (case st of FLAT \<Rightarrow> ''FLAT'' | PENDING_ENTRY \<Rightarrow> ''PENDING_ENTRY'' | LONG \<Rightarrow> ''LONG'' | SHORT \<Rightarrow> ''SHORT''
      | PENDING_EXIT \<Rightarrow> ''PENDING_EXIT'')"

definition open_points :: "position \<Rightarrow> real \<Rightarrow> real" where
  "open_points p px =
     (if (p_state p = LONG \<or> p_state p = SHORT) \<and> p_entry_price p > 0 \<and> px > 0
      then (if p_state p = LONG then px - p_entry_price p else p_entry_price p - px) else 0)"

definition entry_second :: "clocks \<Rightarrow> position \<Rightarrow> int option" where
  "entry_second c p =
     (if p_entry_price p > 0 \<and> (p_state p = LONG \<or> p_state p = SHORT \<or> p_state p = PENDING_EXIT)
      then Some (cdiv (snd c - (fst c - p_fill_time p)) 1000000000) else None)"

definition flush_position :: "clocks \<Rightarrow> exec \<Rightarrow> exec" where
  "flush_position c x =
     (let p = om_pos (x_om x); g = x_eng x; px = en_last g; pts = open_points p px; ranged = en_orb_set g
      in if x_db x then x\<lparr>x_row := Some
           \<lparr>lp_date = x_today x, lp_state = state_name (p_state p),
            lp_dir = (if p_dir p = BUY then ''LONG'' else if p_dir p = SELL then ''SHORT'' else []),
            lp_entry = p_entry_price p, lp_entry_s = entry_second c p, lp_last = px, lp_pts = pts,
            lp_usd = pts * c_point_value (x_orb x) * of_int (p_qty p), lp_sl = p_sl_price p,
            lp_high = (if ranged then en_orb_high g else 0), lp_low = (if ranged then en_orb_low g else 0),
            lp_set = ranged, lp_trades = en_trades g, lp_be = p_be_triggered p, lp_trailing = p_trailing_active p\<rparr>\<rparr>
         else x)"

text \<open>A check of the order manager that reports whether the stop moved or the exit began.\<close>

definition on_om_check :: "(om_env \<Rightarrow> om \<Rightarrow> bool \<times> om) \<Rightarrow> clocks \<Rightarrow> exec \<Rightarrow> exec" where
  "on_om_check f c x =
     (let y = on_om (\<lambda>e. snd \<circ> f e) c x in if fst (f (x_env c x) (x_om x)) then flush_position c y else y)"

definition flatten_position :: "string \<Rightarrow> real \<Rightarrow> clocks \<Rightarrow> exec \<Rightarrow> exec" where
  "flatten_position why px = on_om (\<lambda>e. flatten_now e why px)"

end
