(* ===== verification/Exec_Signal.thy ===== *)
theory Exec_Signal
  imports Exec_State
begin

section \<open>The executor: signals, ticks and the feed\<close>

text \<open>
  The signal callback, \<open>settle_strategy\<close> and \<open>process_tick\<close> of
  \<open>src/src/execution/executor_main.cpp\<close>.  An engine's signals of one call are handled in order when the
  call is done; the callback changes the engine only through \<open>en_skip_inside\<close>.
\<close>

subsection \<open>The signal callback\<close>

text \<open>An ORB entry further from the range than allowed is not chased.\<close>

definition chased :: "exec \<Rightarrow> orb_signal \<Rightarrow> real \<Rightarrow> bool" where
  "chased x sig px =
     (let m = hc_max_entry_offset (x_cfg x); g = x_eng x;
          offset = (if sig = BUY then px - en_orb_high g else en_orb_low g - px)
      in is_orb g \<and> 0 < m \<and> sig \<noteq> FLATTEN_EOD \<and> offset > m)"

definition sig_side :: "orb_signal \<Rightarrow> int" where
  "sig_side sig = (if sig = BUY then 1 else -1)"

text \<open>The book gates, then the regime gates; empty when the entry may pass.\<close>

definition blocked_by :: "exec \<Rightarrow> orb_signal \<Rightarrow> string" where
  "blocked_by x sig =
     (let c = x_orb x; g = qs_gate (x_book x) c (sig_side sig) (x_last_us x) (1/4)
      in if sig \<noteq> BUY \<and> sig \<noteq> SELL then [] else if g \<noteq> [] then g else rg_gate (x_regime x) c (sig_side sig))"

definition on_engine_signal :: "clocks \<Rightarrow> orb_signal \<times> real \<times> string \<Rightarrow> exec \<Rightarrow> exec" where
  "on_engine_signal c signal x =
     (let (sig, px, why) = signal; g = x_eng x; gate = blocked_by x sig; entry = (sig = BUY \<or> sig = SELL);
          edge = (if sig = BUY then en_orb_high g else if sig = SELL then en_orb_low g else 0);
          y = on_om (\<lambda>e. on_signal e sig px edge (if entry then en_stop_dist g else 0)) c x
      in if x_warming x then x\<lparr>x_dropped := Suc (x_dropped x)\<rparr>
         else if chased x sig px then x\<lparr>x_eng := en_skip_inside g\<rparr>
         else if gate \<noteq> []
         then (if is_orb g then x\<lparr>x_eng := en_skip_inside g\<rparr> else x\<lparr>x_unsettled := ''book_gate:'' @ gate\<rparr>)
         else if \<not> is_orb g \<and> x_flat y then y\<lparr>x_unsettled := (if why = [] then ''no_order'' else why)\<rparr> else y)"

text \<open>A call of the engine and the callbacks it makes.\<close>

definition on_engine :: "(engine \<Rightarrow> engine) \<Rightarrow> clocks \<Rightarrow> exec \<Rightarrow> exec" where
  "on_engine f c x =
     (let g = f (x_eng x) in fold (on_engine_signal c) (en_out g) (x\<lparr>x_eng := en_clear g\<rparr>))"

definition settle_strategy :: "exec \<Rightarrow> exec" where
  "settle_strategy x =
     (if is_orb (x_eng x) \<or> x_unsettled x = [] then x
      else (if x_flat x \<and> en_in_pos (x_eng x) then x\<lparr>x_eng := en_closed FLATTEN_EOD 0 (x_eng x)\<rparr> else x)
             \<lparr>x_unsettled := []\<rparr>)"

subsection \<open>Ticks\<close>

definition position_dir :: "position \<Rightarrow> int" where
  "position_dir p = (if p_state p = LONG then 1 else -1)"

definition book_exit_step :: "orb_tick \<Rightarrow> clocks \<Rightarrow> exec \<Rightarrow> exec" where
  "book_exit_step t c x =
     (let k = x_orb x; p = om_pos (x_om x); d = position_dir p;
          why = qs_book_exit (x_book x) k d (x_last_us x) ((t_price t - p_entry_price p) * of_int d)
      in if (c_book_exit_flip k > 0 \<or> c_book_tp_imbalance k > 0) \<and> (p_state p = LONG \<or> p_state p = SHORT) \<and> why \<noteq> []
         then flatten_position why (t_price t) c x else x)"

text \<open>The stop and target checks: the scalper's own levels, else the order manager's.\<close>

definition external_target :: "orb_tick \<Rightarrow> mtf \<Rightarrow> clocks \<Rightarrow> exec \<Rightarrow> exec" where
  "external_target t m c x =
     (let p = om_pos (x_om x)
      in case ps_tp (mt_pos m) of
           None \<Rightarrow> x
         | Some tp \<Rightarrow> if 0 < tp \<and> ((p_dir p = BUY \<and> t_price t \<ge> tp) \<or> (p_dir p = SELL \<and> t_price t \<le> tp))
                      then flush_position c (flatten_position ''target'' (t_price t) c x) else x)"

definition bracket_step :: "orb_tick \<Rightarrow> clocks \<Rightarrow> exec \<Rightarrow> exec" where
  "bracket_step t c x =
     (case x_eng x of
        EMtf m \<Rightarrow> external_target t m c (on_om_check (\<lambda>e. check_external_stop e (t_price t) (ps_stop (mt_pos m))) c x)
      | _ \<Rightarrow> on_om_check (\<lambda>e. check_trail_and_stop e (t_price t)) c x)"

definition process_tick :: "orb_tick \<Rightarrow> clocks \<Rightarrow> exec \<Rightarrow> exec" where
  "process_tick t c x =
     (let (h, m) = trend_to_et (t_ts t);
          x1 = x\<lparr>x_last_us := t_ts t,
                 x_regime := rg_on_tick (x_today x) h m (t_ts t) (t_price t) (of_int (t_size t)) (x_regime x)\<rparr>
      in settle_strategy (on_engine (en_tick t) c (bracket_step t c (book_exit_step t c x1))))"

text \<open>A quote goes to the book, and to the trend engine.\<close>

definition process_quote :: "quote \<Rightarrow> clocks \<Rightarrow> exec \<Rightarrow> exec" where
  "process_quote q c x =
     (let y = x\<lparr>x_book := qs_on_quote q (1/4) (x_book x)\<rparr>
      in case x_eng y of
           ETrend s \<Rightarrow> on_engine (\<lambda>g. ETrend (trend_on_quote (q_ts_us q) (q_bid q) (q_bid_sz q) (q_ask q) (q_ask_sz q) (1/4) s)) c y
         | _ \<Rightarrow> y)"

end
