(* ===== verification/Exec_Recon.thy ===== *)
theory Exec_Recon
  imports Exec_Signal
begin

section \<open>The executor: positions reported by the exchange\<close>

text \<open>
  \<open>send_unwind\<close>, \<open>reconcile_net\<close> and \<open>handle_pos_update\<close> of \<open>src/src/execution/executor_main.cpp\<close>: what
  the executor does with a net position the exchange reports.  \<open>wr\<close> says whether the write of an unwind
  order succeeds.  The fire drill (\<open>--drill\<close>) and the alerts are left out.
\<close>

subsection \<open>Unwinding\<close>

definition unwind_id :: "clocks \<Rightarrow> exec \<Rightarrow> string" where
  "unwind_id c x = c_symbol (x_orb x) @ ''-unwind-'' @ int_str (cdiv (snd c) 1000000)"

text \<open>A limit order fifty ticks through the last price, a market order when there is none.\<close>

definition unwind_order :: "int \<Rightarrow> bool \<Rightarrow> clocks \<Rightarrow> exec \<Rightarrow> order_msg" where
  "unwind_order q buy c x =
     (let px = en_last (x_eng x); priced = (px > 0)
      in \<lparr>pm_symbol = pl_symbol (x_plant x), pm_exchange = c_exchange (x_orb x), pm_qty = q,
          pm_type = (if priced then 1 else 2), pm_buy = buy,
          pm_price = (if priced then Some (if buy then px + 50 * (1/4) else px - 50 * (1/4)) else None),
          pm_trigger = None, pm_tag = unwind_id c x, pm_route = pl_route (x_plant x)\<rparr>)"

definition exec_unwind :: "bool \<Rightarrow> int \<Rightarrow> bool \<Rightarrow> clocks \<Rightarrow> exec \<Rightarrow> bool \<times> exec" where
  "exec_unwind wr q buy c x =
     (let i = unwind_id c x
      in if q \<le> 0 \<or> \<not> plant_up (x_plant x) \<or> \<not> wr then (False, x)
         else (True, x\<lparr>x_plant := plant_send (NewOrder (unwind_order q buy c x)) (x_plant x),
                       x_om := register_unwind_basket i (x_om x), x_last_unwind := i\<rparr>))"

subsection \<open>Reconciliation\<close>

definition confirm_flat :: "exec \<Rightarrow> exec" where
  "confirm_flat x = x\<lparr>x_om := confirm_exchange_flat (x_om x)\<rparr>"

definition cancel_at_plant :: "string \<Rightarrow> exec \<Rightarrow> exec" where
  "cancel_at_plant i x = x\<lparr>x_plant := plant_cancel i (hc_account_id (x_cfg x)) (x_plant x)\<rparr>"

text \<open>A previous unwind still resting is cancelled by the id the server gave it.\<close>

definition drop_last_unwind :: "exec \<Rightarrow> exec" where
  "drop_last_unwind x =
     (if x_last_unwind x = [] then x
      else (if \<not> c_dry_run (x_orb x) \<and> pl_connected (x_plant x)
            then cancel_at_plant (cancel_id_for (x_om x) (x_last_unwind x)) x else x)\<lparr>x_last_unwind := []\<rparr>)"

definition adopt_close :: "clocks \<Rightarrow> exec \<Rightarrow> exec" where
  "adopt_close c x =
     flush_position c (on_om (\<lambda>e. adopt_external_close e (en_last (x_eng x)) ''external_close'') c x)"

definition act_on_mismatch :: "bool \<Rightarrow> int \<Rightarrow> clocks \<Rightarrow> exec \<Rightarrow> exec" where
  "act_on_mismatch wr net c x =
     (let plan = plan_unwind net (om_pos (x_om x)) (c_qty (x_orb x));
          x1 = (halt_engine ''exchange_net_mismatch'' x)\<lparr>x_net_halt := True\<rparr>;
          x2 = drop_last_unwind (if up_adopt_flat plan then adopt_close c x1 else x1)
      in if up_qty plan > 0 then snd (exec_unwind wr (up_qty plan) (up_is_buy plan) c x2) else x2)"

definition unhalt_if :: "(string \<Rightarrow> bool) \<Rightarrow> exec \<Rightarrow> exec" where
  "unhalt_if f x = (if f (en_reason (x_eng x)) then unhalt_engine x else x)"

definition mismatch_over :: "int \<Rightarrow> exec \<Rightarrow> exec" where
  "mismatch_over net x =
     (let y = x\<lparr>x_last_unwind := []\<rparr>; z = (if net = 0 then confirm_flat else id) (y\<lparr>x_net_halt := False\<rparr>)
      in if x_net_halt x
         then unhalt_if (\<lambda>r. r = ''exchange_net_mismatch'' \<or> r = ''unowned_fill_in_trade'') z else y)"

definition reconcile_net :: "bool \<Rightarrow> int \<Rightarrow> bool \<Rightarrow> clocks \<Rightarrow> exec \<Rightarrow> exec" where
  "reconcile_net wr net consistent c x =
     (let (v, r) = nr_observe consistent (steady_ms c) (c_net_mismatch_grace_ms (x_orb x)) 15000 (x_rec x);
          x1 = x\<lparr>x_rec := r\<rparr>;
          x2 = (if net = 0 \<and> consistent \<and> x_flat x1 then confirm_flat x1 else x1)
      in case v of MismatchAct \<Rightarrow> act_on_mismatch wr net c x2
         | RecOK \<Rightarrow> mismatch_over net x2
         | MismatchWait \<Rightarrow> x2)"

subsection \<open>A position update\<close>

record pos_update =
  pu_account :: string
  pu_net :: int
  pu_snap :: bool
  pu_balance :: string
  pu_day :: string
  pu_day_open :: string
  pu_day_closed :: string

definition broker_day :: "pos_update \<Rightarrow> real option" where
  "broker_day u =
     (let op = parse_decimal (pu_day_open u); cl = parse_decimal (pu_day_closed u); num = (\<lambda>v. case v of None \<Rightarrow> 0 | Some d \<Rightarrow> d)
      in case parse_decimal (pu_day u) of
           Some d \<Rightarrow> Some d
         | None \<Rightarrow> if op = None \<and> cl = None then None else Some (num op + num cl))"

definition broker_limits :: "string \<Rightarrow> string \<Rightarrow> exec \<Rightarrow> exec" where
  "broker_limits why note x = halt_engine why (x\<lparr>x_om := (x_om x)\<lparr>om_risk := risk_halt_external note (om_risk (x_om x))\<rparr>\<rparr>)"

definition broker_loss_step :: "real option \<Rightarrow> clocks \<Rightarrow> exec \<Rightarrow> exec" where
  "broker_loss_step day c x =
     (let lim = c_daily_loss_limit (x_orb x); d = (case day of None \<Rightarrow> 0 | Some d \<Rightarrow> d);
          y = broker_limits ''broker_day_pnl_limit''
                (''broker_day_pnl '' @ f6_str d @ '' <= limit '' @ f6_str lim) (x\<lparr>x_loss_halted := True\<rparr>)
      in if x_loss_halted x \<or> \<not> broker_loss_breached day lim then x
         else if x_flat y then y else flatten_position ''broker_day_pnl_limit'' (en_last (x_eng y)) c y)"

definition broker_drawdown_step :: "real option \<Rightarrow> exec \<Rightarrow> exec" where
  "broker_drawdown_step balance x =
     (case balance of
        None \<Rightarrow> x
      | Some b \<Rightarrow>
         (let cap = c_trailing_drawdown_cap (x_orb x);
              h = broker_hwm (Some (x_hwm x)) (c_starting_balance (x_orb x)) (Some b);
              y = (if h > x_hwm x then x\<lparr>x_hwm := h\<rparr> else x)
          in if x_dd_halted y \<or> \<not> broker_drawdown_breached (Some b) (Some (x_hwm y)) cap then y
             else broker_limits ''broker_trailing_drawdown''
                    (''broker_trailing_drawdown balance '' @ f6_str b @ '' <= hwm '' @ f6_str (x_hwm y) @ '' - cap '' @ f6_str cap)
                    (y\<lparr>x_dd_halted := True\<rparr>)))"

definition cancel_deferred :: "exec \<Rightarrow> exec" where
  "cancel_deferred x = (fold cancel_at_plant (x_deferred x) x)\<lparr>x_deferred := []\<rparr>"

definition startup_reason :: "string \<Rightarrow> bool" where
  "startup_reason r = (take 8 r = ''startup_'' \<or> r = ''reconnect_unreconciled_position'')"

text \<open>The position the executor holds: its deferred working orders are its stops and stay.\<close>

definition snapshot_matches :: "exec \<Rightarrow> exec" where
  "snapshot_matches x =
     unhalt_if startup_reason (if x_defer x then x\<lparr>x_defer := False, x_deferred := []\<rparr> else x)"

text \<open>A position the executor does not hold.\<close>

definition snapshot_ghost :: "bool \<Rightarrow> int \<Rightarrow> clocks \<Rightarrow> exec \<Rightarrow> exec" where
  "snapshot_ghost wr net c x =
     (let x1 = (if x_defer x then cancel_deferred (x\<lparr>x_defer := False\<rparr>) else x);
          (ok, x2) = exec_unwind wr \<bar>net\<bar> (net < 0) c x1;
          now = steady_ms c;
          x3 = x2\<lparr>x_rec := \<lparr>nr_since = now, nr_acted = True, nr_acted_ms = now\<rparr>, x_net_halt := True\<rparr>
      in if ok then unhalt_engine x3 else halt_engine ''startup_ghost_unwind_failed'' x3)"

definition snapshot_flat :: "clocks \<Rightarrow> exec \<Rightarrow> exec" where
  "snapshot_flat c x =
     flush_position c (unhalt_if startup_reason (confirm_flat ((cancel_deferred x)\<lparr>x_defer := False\<rparr>)))"

definition snapshot_step :: "bool \<Rightarrow> int \<Rightarrow> bool \<Rightarrow> clocks \<Rightarrow> exec \<Rightarrow> exec" where
  "snapshot_step wr net consistent c x =
     (if net \<noteq> 0 \<and> consistent then snapshot_matches x
      else if net \<noteq> 0 \<and> \<not> nr_acted (x_rec x) then snapshot_ghost wr net c x
      else if net = 0 then snapshot_flat c x else x)"

definition handle_pos_update :: "bool \<times> bool \<Rightarrow> pos_update \<Rightarrow> clocks \<Rightarrow> exec \<Rightarrow> exec" where
  "handle_pos_update wr u c x =
     (let net = pu_net u; consistent = net_qty_consistent net (x_om x);
          x1 = broker_drawdown_step (parse_decimal (pu_balance u)) (broker_loss_step (broker_day u) c x);
          x2 = (if pu_snap u then snapshot_step (fst wr) net consistent c x1 else x1)
      in if pu_account u \<noteq> hc_account_id (x_cfg x) then x
         else reconcile_net (snd wr) net consistent c (x2\<lparr>x_exch_net := Some net\<rparr>))"

end
