(* ===== verification/Exec_Notify.thy ===== *)
theory Exec_Notify
  imports Exec_Recon
begin

section \<open>The executor: messages of the order plant\<close>

text \<open>
  \<open>op_loop\<close> and \<open>pnl_loop\<close> of \<open>src/src/execution/executor_main.cpp\<close>, one message at a time: gateway
  responses, order notifications (template 351), exchange notifications (template 352), position
  updates (template 451) and the answers of the P&L plant.  A read error ends the run.  Heartbeats and
  messages that are only logged change nothing; the rows of \<open>order_events\<close> are left out.
\<close>

subsection \<open>Fills\<close>

text \<open>\<open>on_fill_notification\<close>, the scalper's real entry price, and the position row.\<close>

definition owned_fill :: "string \<Rightarrow> real \<Rightarrow> int \<Rightarrow> bool \<Rightarrow> clocks \<Rightarrow> exec \<Rightarrow> exec" where
  "owned_fill i px q entry c x =
     (let y = on_om (\<lambda>e. on_fill e i px q entry) c x;
          z = (if entry then y\<lparr>x_eng := en_entry_filled (p_dir (om_pos (x_om y))) px (x_eng y)\<rparr> else y)
      in flush_position c z)"

definition owns_fill :: "om \<Rightarrow> string \<Rightarrow> bool" where
  "owns_fill s i = (is_entry_basket s i \<or> is_stop_basket s i \<or> is_exit_basket s i)"

definition dedup_fill :: "string \<Rightarrow> real \<Rightarrow> int \<Rightarrow> clocks \<Rightarrow> exec \<Rightarrow> exec" where
  "dedup_fill i px q c x =
     (let s = x_om x; entry = is_entry_basket s i \<and> \<not> is_stop_basket s i; (dup, t) = fill_already_processed i q s
      in if dup then x\<lparr>x_om := t\<rparr> else owned_fill i px q entry c (x\<lparr>x_om := t\<rparr>))"

text \<open>
  A fill of an order the manager does not track.  The executor asks whether it is a duplicate, and
  \<open>handle_unowned_fill\<close> asks again.
\<close>

definition unowned_step :: "string \<Rightarrow> string \<Rightarrow> string \<Rightarrow> real \<Rightarrow> int \<Rightarrow> clocks \<Rightarrow> exec \<Rightarrow> exec" where
  "unowned_step client server account px q c x =
     (let (dup, s) = unowned_fill_is_duplicate client server q (x_om x); y = x\<lparr>x_om := s\<rparr>;
          (r, _, why) = handle_unowned_fill (x_env c y) client server account (hc_account_id (x_cfg x)) px q s;
          z = on_om (\<lambda>e. fst \<circ> snd \<circ> handle_unowned_fill e client server account (hc_account_id (x_cfg x)) px q) c y;
          w = (case why of None \<Rightarrow> z | Some reason \<Rightarrow> halt_engine reason z)
      in if dup then y else if r = GUARDS_RUN then flush_position c w else w)"

subsection \<open>Order notifications\<close>

record order_note =
  on_basket :: string
  on_tag :: string
  on_type :: int
  on_status :: string
  on_avg :: real
  on_price :: real
  on_total :: int
  on_unfilled :: int
  on_snap :: bool
  on_account :: string
  on_symbol :: string

text \<open>A message of the startup snapshot: working orders are cancelled or kept back, a filled one halts.\<close>

definition snapshot_order :: "bool \<Rightarrow> order_note \<Rightarrow> exec \<Rightarrow> exec" where
  "snapshot_order wr n x =
     (if on_symbol n \<noteq> pl_symbol (x_plant x) then x
      else if on_unfilled n > 0 \<and> on_basket n \<noteq> [] then
        (if x_defer x then x\<lparr>x_deferred := x_deferred x @ [on_basket n]\<rparr>
         else if wr then x\<lparr>x_plant := plant_send (CancelOrder (on_basket n) (hc_account_id (x_cfg x))) (x_plant x)\<rparr> else x)
      else if on_total n > 0 \<and> on_unfilled n = 0 then halt_engine ''startup_ghost_position_suspected'' x
      else x)"

definition note_price :: "order_note \<Rightarrow> exec \<Rightarrow> real" where
  "note_price n x = (if on_avg n > 0 then on_avg n else if on_price n > 0 then on_price n else en_last (x_eng x))"

definition note_fill :: "order_note \<Rightarrow> clocks \<Rightarrow> exec \<Rightarrow> exec" where
  "note_fill n c x =
     (let i = on_tag n; px = note_price n x
      in if owns_fill (x_om x) i then dedup_fill i px (on_total n) c x
         else if on_account n = [] \<or> on_account n = hc_account_id (x_cfg x)
         then unowned_step i (on_basket n) (on_account n) px (on_total n) c x else x)"

definition note_cancel :: "order_note \<Rightarrow> clocks \<Rightarrow> exec \<Rightarrow> exec" where
  "note_cancel n = on_om (\<lambda>e. snd \<circ> handle_cancel_notification e (on_type n) (on_status n) (on_tag n) (on_basket n))"

definition order_note_step :: "bool \<Rightarrow> order_note \<Rightarrow> clocks \<Rightarrow> exec \<Rightarrow> exec" where
  "order_note_step wr n c x =
     (let y = on_om (\<lambda>e. on_stop_server_mapped e (on_tag n) (on_basket n))
                c (on_om (\<lambda>e. map_server_basket e (on_tag n) (on_basket n)) c x)
      in if on_snap n then snapshot_order wr n x
         else if on_total n > 0 then note_fill n c y
         else if on_type n = 17 \<or> on_status n = ''Cancellation Failed'' then flush_position c (note_cancel n c y)
         else if on_type n = 3 then note_cancel n c y
         else if on_type n = 15 \<and> on_total n = 0 \<and> is_entry_basket (x_om y) (on_tag n)
         then flush_position c (on_om (\<lambda>e. on_order_rejected e (on_tag n)) c y)
         else y)"

subsection \<open>Exchange notifications\<close>

record exch_note =
  xn_basket :: string
  xn_tag :: string
  xn_type :: int
  xn_price :: real
  xn_size :: int
  xn_total :: int
  xn_account :: string

text \<open>The size of a fill event is its own, the order manager works on the cumulative quantity.\<close>

definition exch_fill :: "exch_note \<Rightarrow> clocks \<Rightarrow> exec \<Rightarrow> exec" where
  "exch_fill n c x =
     (let i = xn_tag n; q = (if xn_total n > 0 then xn_total n else xn_size n);
          y = on_om (\<lambda>e. map_server_basket e i (xn_basket n)) c x
      in if \<not> owns_fill (x_om y) i then unowned_step i (xn_basket n) (xn_account n) (xn_price n) (xn_size n) c y
         else dedup_fill i (xn_price n) q c y)"

definition exch_note_step :: "exch_note \<Rightarrow> clocks \<Rightarrow> exec \<Rightarrow> exec" where
  "exch_note_step n c x =
     (let k = xn_type n; i = xn_tag n
      in if k = 5 then exch_fill n c x
         else if k = 6 then on_om (\<lambda>e. on_order_rejected e i) c x
         else if k = 3 then on_om (\<lambda>e. on_cancel_confirmed e i) c x
         else if k = 4 then on_om (\<lambda>e. on_stop_server_mapped e i (xn_basket n)) c x
         else x)"

subsection \<open>Dispatch\<close>

text \<open>
  A gateway response carries its return code when it is final; the answers of the P&L plant
  say whether the subscription was accepted.
\<close>

datatype plant_note =
    Gateway string "string option"
  | OrderNote order_note
  | ExchNote exch_note
  | PosNote pos_update
  | PnlAnswer bool

definition plant_step :: "bool \<times> bool \<Rightarrow> plant_note \<Rightarrow> clocks \<Rightarrow> exec \<Rightarrow> exec" where
  "plant_step wr m c x =
     (case m of
        Gateway basket code \<Rightarrow>
          (case code of None \<Rightarrow> x
           | Some r \<Rightarrow> if r = ''0'' then x else on_om (\<lambda>e. on_order_rejected e basket) c x)
      | OrderNote n \<Rightarrow> order_note_step (fst wr) n c x
      | ExchNote n \<Rightarrow> exch_note_step n c x
      | PosNote u \<Rightarrow> handle_pos_update wr u c x
      | PnlAnswer ok \<Rightarrow> if ok then x else halt_engine ''pnl_subscribe_rejected'' x)"

end
