(* ===== verification/Exec_Frame.thy ===== *)
theory Exec_Frame
  imports Exec_Signal
begin

section \<open>What ticks, quotes and signals leave alone\<close>

text \<open>
  The fields of the run that no signal, tick or quote touches: the configuration, the state of the
  reconciliation and of the broker's limits, and the watchdogs of the feed.
\<close>

definition hosted where
  "hosted x = ((x_cfg x, x_db x, x_today x, x_rec x, x_net_halt x), (x_loss_halted x, x_dd_halted x, x_hwm x, x_exch_net x),
     (x_last_unwind x, x_defer x, x_deferred x, x_pnl_up x, x_fresh x, x_last_tick_s x))"

named_theorems hosted_simps

lemma fold_hosted:
  assumes "\<And>a x. hosted (f a x) = hosted x"
  shows "hosted (fold f as x) = hosted x"
  using assms by (induction as arbitrary: x) auto

lemma hosted_deliver [hosted_simps]: "hosted (deliver_effect f x) = hosted x"
  by (simp add: hosted_def deliver_effect_def Let_def split: om_effect.split)

lemma hosted_on_om [hosted_simps]: "hosted (on_om f c x) = hosted x"
  by (simp add: on_om_def Let_def fold_hosted [OF hosted_deliver]) (simp add: hosted_def)

lemma hosted_flush [hosted_simps]: "hosted (flush_position c x) = hosted x"
  by (simp add: flush_position_def Let_def hosted_def)

lemma hosted_check [hosted_simps]: "hosted (on_om_check f c x) = hosted x"
  by (simp add: on_om_check_def Let_def hosted_simps)

lemma hosted_updates [hosted_simps]:
  "hosted (x\<lparr>x_eng := g\<rparr>) = hosted x" "hosted (x\<lparr>x_om := s\<rparr>) = hosted x" "hosted (x\<lparr>x_plant := p\<rparr>) = hosted x"
  "hosted (x\<lparr>x_unsettled := w\<rparr>) = hosted x" "hosted (x\<lparr>x_dropped := n\<rparr>) = hosted x" "hosted (x\<lparr>x_warming := b\<rparr>) = hosted x"
  "hosted (x\<lparr>x_book := q\<rparr>) = hosted x" "hosted (x\<lparr>x_last_us := i, x_regime := r\<rparr>) = hosted x"
  by (simp_all add: hosted_def)

lemma hosted_signal [hosted_simps]: "hosted (on_engine_signal c e x) = hosted x"
  by (cases e) (simp add: on_engine_signal_def Let_def hosted_simps)

lemma hosted_engine [hosted_simps]: "hosted (on_engine f c x) = hosted x"
  by (simp add: on_engine_def Let_def fold_hosted [OF hosted_signal] hosted_simps)

lemma hosted_settle [hosted_simps]: "hosted (settle_strategy x) = hosted x"
  by (simp add: settle_strategy_def hosted_simps)

lemma hosted_flatten [hosted_simps]: "hosted (flatten_position why px c x) = hosted x"
  by (simp add: flatten_position_def hosted_simps)

lemma hosted_book_exit [hosted_simps]: "hosted (book_exit_step t c x) = hosted x"
  by (simp add: book_exit_step_def Let_def hosted_simps)

lemma hosted_target [hosted_simps]: "hosted (external_target t m c x) = hosted x"
  by (simp add: external_target_def Let_def hosted_simps split: option.split)

lemma hosted_bracket [hosted_simps]: "hosted (bracket_step t c x) = hosted x"
  by (simp add: bracket_step_def hosted_simps split: engine.split)

lemma hosted_tick [hosted_simps]: "hosted (process_tick t c x) = hosted x"
  by (simp add: process_tick_def Let_def hosted_simps split: prod.split)

lemma hosted_quote [hosted_simps]: "hosted (process_quote q c x) = hosted x"
  by (simp add: process_quote_def Let_def hosted_simps split: engine.split)

lemma hosted_db: "hosted y = hosted x \<Longrightarrow> x_db y = x_db x"
  by (simp add: hosted_def)

end
