(* ===== verification/Exec_Feed.thy ===== *)
theory Exec_Feed
  imports Exec_Frame
begin

section \<open>The executor: ticks and quotes read from the database\<close>

text \<open>
  \<open>pg_feed_loop\<close> of \<open>src/src/execution/executor_main.cpp\<close>.  A query returns at most 5000 rows of the
  table beyond a watermark, in the order of the table, which is that of the query's \<open>ORDER BY\<close>; the
  tables a poll sees are arguments, as are the clocks at each row and the number of trades the
  database counts for the day.
\<close>

subsection \<open>Pages\<close>

definition page_rows :: nat where
  "page_rows = 5000"

definition query_page :: "('a \<Rightarrow> int) \<Rightarrow> int \<Rightarrow> 'a list \<Rightarrow> 'a list" where
  "query_page ts wm table = take page_rows (filter (\<lambda>r. ts r > wm) table)"

text \<open>
  A full page may cut a group of rows of one microsecond: the group is left for the next poll, unless
  the page holds nothing else.
\<close>

definition usable_rows :: "('a \<Rightarrow> int) \<Rightarrow> 'a list \<Rightarrow> 'a list" where
  "usable_rows ts rows =
     (if length rows = page_rows
      then (let front = rev (dropWhile (\<lambda>r. ts r = ts (last rows)) (rev rows)) in if front = [] then rows else front)
      else rows)"

definition last_ts :: "('a \<Rightarrow> int) \<Rightarrow> int \<Rightarrow> 'a list \<Rightarrow> int" where
  "last_ts ts wm rows = (if rows = [] then wm else ts (last rows))"

subsection \<open>Quotes\<close>

text \<open>The watermarks, the quotes read and not yet applied, and the end of the warm-up.\<close>

record feed =
  fd_wm :: int
  fd_bbo_wm :: int
  fd_qbuf :: "quote list"
  fd_until :: int

definition read_quotes :: "quote list \<Rightarrow> feed \<Rightarrow> feed" where
  "read_quotes bbo f =
     (let rows = query_page q_ts_us (fd_bbo_wm f) bbo
      in if fd_qbuf f \<noteq> [] then f
         else f\<lparr>fd_bbo_wm := last_ts q_ts_us (fd_bbo_wm f) rows, fd_qbuf := filter quote_valid rows\<rparr>)"

definition feed_quotes_until :: "quote list \<Rightarrow> int \<Rightarrow> clocks \<Rightarrow> feed \<times> exec \<Rightarrow> feed \<times> exec" where
  "feed_quotes_until bbo ts c fx =
     (let (f, x) = fx; g = (if x_db x then read_quotes bbo f else f)
      in (g\<lparr>fd_qbuf := dropWhile (\<lambda>q. q_ts_us q \<le> ts) (fd_qbuf g)\<rparr>,
          fold (\<lambda>q. process_quote q c) (takeWhile (\<lambda>q. q_ts_us q \<le> ts) (fd_qbuf g)) x))"

subsection \<open>Ticks\<close>

text \<open>The replay has caught up: a replayed position is released, the real number of trades restored.\<close>

definition end_warmup :: "int \<Rightarrow> exec \<Rightarrow> exec" where
  "end_warmup trades x =
     (let g = x_eng x; g1 = (if en_in_pos g then en_closed FLATTEN_EOD 0 g else g)
      in (if is_orb g then x
          else x\<lparr>x_warming := False, x_eng := en_seed_trades (if x_db x then trades else 0) g1\<rparr>))"

definition feed_tick :: "quote list \<Rightarrow> int \<Rightarrow> orb_tick \<times> clocks \<Rightarrow> feed \<times> exec \<Rightarrow> feed \<times> exec" where
  "feed_tick bbo trades row fx =
     (let (t, c) = row; f1 = (fst fx)\<lparr>fd_wm := t_ts t\<rparr>;
          (f2, x) = feed_quotes_until bbo (t_ts t) c (f1, snd fx)
      in if t_price t \<le> 0 \<or> t_size t \<le> 0 then (f1, snd fx)
         else if x_warming x \<and> t_ts t < fd_until f2 then (f2, on_engine (en_tick t) c x)
         else (f2, process_tick t c (if x_warming x then end_warmup trades x else x)))"

text \<open>Ticks flow again: the halt of the stale feed is lifted.\<close>

definition feed_resumes :: "clocks \<Rightarrow> exec \<Rightarrow> exec" where
  "feed_resumes c x =
     (let y = x\<lparr>x_last_tick_s := wall_s c, x_fresh := True\<rparr>
      in if \<not> x_fresh x \<and> en_halted (x_eng x) \<and> en_reason (x_eng x) = ''pg_feed_stale'' then unhalt_engine y else y)"

definition feed_poll :: "orb_tick list \<Rightarrow> quote list \<Rightarrow> int \<Rightarrow> (nat \<Rightarrow> clocks) \<Rightarrow> feed \<times> exec \<Rightarrow> feed \<times> exec" where
  "feed_poll ticks bbo trades clock fx =
     (let (f, x) = fx; rows = query_page t_ts (fd_wm f) ticks; use = usable_rows t_ts rows;
          x1 = (if rows = [] then x else feed_resumes (clock 0) x);
          (f2, x2) = fold (feed_tick bbo trades) (zip use (map clock [0..<length use])) (f, x1)
      in if \<not> x_db x then fx
         else (f2, if x_warming x2 \<and> length rows < page_rows then end_warmup trades x2 else x2))"

text \<open>The feed starts one second back, earlier when history is replayed.\<close>

definition feed_start :: "int \<Rightarrow> exec \<Rightarrow> feed \<times> exec" where
  "feed_start now_us x =
     (let wm = now_us - 1000000; w = hc_warmup_minutes (x_cfg x); warm = (\<not> is_orb (x_eng x) \<and> w > 0);
          wm1 = (if warm then wm - w * 60000000 else wm)
      in (\<lparr>fd_wm = wm1, fd_bbo_wm = wm1, fd_qbuf = [], fd_until = (if warm then wm else 0)\<rparr>,
          if warm then x\<lparr>x_warming := True\<rparr> else x))"

subsection \<open>What a page holds\<close>

lemma sorted_le_last:
  assumes "sorted (map ts ys)" and "r \<in> set ys"
  shows "ts r \<le> ts (last ys)"
proof -
  have "ys = butlast ys @ [last ys]" using assms(2) by (metis append_butlast_last_id empty_iff empty_set)
  then obtain as b where ys: "ys = as @ [b]" by metis
  then show ?thesis using assms by (auto simp: sorted_append)
qed

lemma sorted_prefix_filter:
  assumes "sorted (map ts (as @ bs))" and "as \<noteq> []" and "\<And>r. r \<in> set bs \<Longrightarrow> ts r \<noteq> ts (last as)"
  shows "filter (\<lambda>r. ts r \<le> ts (last as)) (as @ bs) = as"
proof -
  have "ts (last as) \<le> ts r" if "r \<in> set bs" for r
    using assms(1,2) that last_in_set [OF assms(2)] by (simp add: sorted_append)
  then have "filter (\<lambda>r. ts r \<le> ts (last as)) bs = []"
    using assms(3) by (fastforce simp: filter_empty_conv)
  moreover have "filter (\<lambda>r. ts r \<le> ts (last as)) as = as"
    using sorted_le_last [of ts as] assms(1) by (simp add: filter_id_conv sorted_append)
  ultimately show ?thesis by simp
qed

lemma cut_group:
  assumes s: "sorted (map ts (rows @ more'))" and ne: "rows \<noteq> []"
    and front: "front = rev (dropWhile (\<lambda>r. ts r = ts (last rows)) (rev rows))" "front \<noteq> []"
  obtains bs where "rows @ more' = front @ bs" "\<And>r. r \<in> set bs \<Longrightarrow> ts r \<noteq> ts (last front)"
proof -
  let ?P = "\<lambda>r. ts r = ts (last rows)"
  define tl where "tl = rev (takeWhile ?P (rev rows))"
  have rows: "rows = front @ tl" unfolding front tl_def by (metis rev_append rev_rev_ident takeWhile_dropWhile_id)
  have last: "ts (last front) \<noteq> ts (last rows)"
    using hd_dropWhile [of ?P "rev rows"] front by (simp add: last_rev)
  have "ts (last front) \<le> ts (last rows)"
    using sorted_le_last [of ts rows "last front"] s rows front(2) by (simp add: sorted_append)
  moreover have "ts (last rows) \<le> ts r" if "r \<in> set more'" for r
    using s ne that by (simp add: sorted_append)
  ultimately have "ts r \<noteq> ts (last front)" if "r \<in> set (tl @ more')" for r
    using that last set_takeWhileD [of r ?P "rev rows"] by (force simp: tl_def)
  then show thesis using that rows by simp
qed

text \<open>A page that is used is everything up to its last timestamp, when no instant fills a page.\<close>

lemma usable_rows_spec:
  assumes s: "sorted (map ts xs)" and ne: "xs \<noteq> []"
    and small: "length (filter (\<lambda>r. ts r = ts (last (take page_rows xs))) xs) < page_rows"
  defines "use \<equiv> usable_rows ts (take page_rows xs)"
  shows "use \<noteq> []" and "use = filter (\<lambda>r. ts r \<le> ts (last use)) xs"
proof -
  define rows where "rows = take page_rows xs"
  define front where "front = rev (dropWhile (\<lambda>r. ts r = ts (last rows)) (rev rows))"
  have rows_ne: "rows \<noteq> []" using ne by (simp add: rows_def page_rows_def)
  have split: "\<exists>bs. xs = use @ bs \<and> (\<forall>r \<in> set bs. ts r \<noteq> ts (last use)) \<and> use \<noteq> []"
  proof (cases "length rows = page_rows")
    case False
    then have "rows = xs" by (simp add: rows_def)
    then show ?thesis using False ne by (simp add: use_def usable_rows_def rows_def [symmetric])
  next
    case True
    have fne: "front \<noteq> []"
    proof
      assume "front = []"
      then have "\<forall>r \<in> set rows. ts r = ts (last rows)" by (simp add: front_def)
      then have "filter (\<lambda>r. ts r = ts (last rows)) rows = rows" by (simp add: filter_id_conv)
      then have "filter (\<lambda>r. ts r = ts (last rows)) xs = rows @ filter (\<lambda>r. ts r = ts (last rows)) (drop page_rows xs)"
        by (metis append_take_drop_id filter_append rows_def)
      then show False using small True by (simp add: rows_def)
    qed
    have "use = front"
      unfolding use_def usable_rows_def rows_def [symmetric] Let_def front_def [symmetric] using True fne by simp
    moreover obtain bs where "rows @ drop page_rows xs = front @ bs" "\<And>r. r \<in> set bs \<Longrightarrow> ts r \<noteq> ts (last front)"
      using cut_group [of ts rows "drop page_rows xs" front] s rows_ne front_def fne
      by (metis append_take_drop_id rows_def)
    ultimately show ?thesis using fne by (metis append_take_drop_id rows_def)
  qed
  then obtain bs where bs: "xs = use @ bs" "\<forall>r \<in> set bs. ts r \<noteq> ts (last use)" "use \<noteq> []" by blast
  then show "use \<noteq> []" "use = filter (\<lambda>r. ts r \<le> ts (last use)) xs"
    using sorted_prefix_filter [of ts use bs] s by (metis bs(3), metis)
qed

subsection \<open>Polls\<close>

lemma quotes_keep_wm: "fd_wm (fst (feed_quotes_until bbo ts c (f, x))) = fd_wm f"
  by (simp add: feed_quotes_until_def read_quotes_def Let_def)

lemma quotes_hosted: "hosted (snd (feed_quotes_until bbo ts c (f, x))) = hosted x"
  by (simp add: feed_quotes_until_def Let_def fold_hosted [OF hosted_quote])

lemma hosted_end_warmup [hosted_simps]: "hosted (end_warmup n x) = hosted x"
  by (simp add: end_warmup_def Let_def hosted_def)

lemma tick_moves_wm: "fd_wm (fst (feed_tick bbo n (t, c) fx)) = t_ts t"
  using quotes_keep_wm [of bbo "t_ts t" c "(fst fx)\<lparr>fd_wm := t_ts t\<rparr>" "snd fx"]
  by (cases "feed_quotes_until bbo (t_ts t) c ((fst fx)\<lparr>fd_wm := t_ts t\<rparr>, snd fx)") (simp add: feed_tick_def)

lemma tick_hosted: "hosted (snd (feed_tick bbo n (t, c) fx)) = hosted (snd fx)"
  using quotes_hosted [of bbo "t_ts t" c "(fst fx)\<lparr>fd_wm := t_ts t\<rparr>" "snd fx"]
  by (cases "feed_quotes_until bbo (t_ts t) c ((fst fx)\<lparr>fd_wm := t_ts t\<rparr>, snd fx)") (simp add: feed_tick_def hosted_simps)

lemma fold_ticks:
  "fd_wm (fst (fold (feed_tick bbo n) rs fx)) = (if rs = [] then fd_wm (fst fx) else t_ts (fst (last rs)))"
  "hosted (snd (fold (feed_tick bbo n) rs fx)) = hosted (snd fx)"
proof (induction rs arbitrary: fx)
  case (Cons r rs)
  obtain t c where r: "r = (t, c)" by (cases r)
  { case 1 show ?case using Cons.IH(1) [of "feed_tick bbo n r fx"] by (simp add: r tick_moves_wm) }
  { case 2 show ?case using Cons.IH(2) [of "feed_tick bbo n r fx"] by (simp add: r tick_hosted) }
qed simp_all

text \<open>The rows a poll hands on.\<close>

definition polled_rows :: "orb_tick list \<Rightarrow> feed \<Rightarrow> orb_tick list" where
  "polled_rows ticks f = usable_rows t_ts (query_page t_ts (fd_wm f) ticks)"

lemma feed_resumes_db [simp]: "x_db (feed_resumes c x) = x_db x"
  by (simp add: feed_resumes_def Let_def unhalt_engine_def)

lemma poll_moves_wm:
  assumes "x_db x" and "feed_poll ticks bbo n clock (f, x) = (g, y)"
  shows "fd_wm g = last_ts t_ts (fd_wm f) (polled_rows ticks f)" and "x_db y"
proof -
  define use where "use = polled_rows ticks f"
  define x1 where "x1 = (if query_page t_ts (fd_wm f) ticks = [] then x else feed_resumes (clock 0) x)"
  define rs where "rs = zip use (map clock [0..<length use])"
  obtain f2 x2 where fold: "fold (feed_tick bbo n) rs (f, x1) = (f2, x2)" by fastforce
  have "x_db x1" using assms(1) by (simp add: x1_def)
  then have db: "x_db x2" using hosted_db [OF fold_ticks(2) [of bbo n rs "(f, x1)"]] by (simp add: fold)
  have g: "g = f2" "y = x2 \<or> y = end_warmup n x2"
    using assms fold by (simp_all add: feed_poll_def Let_def use_def polled_rows_def x1_def rs_def split: if_splits)
  then show "x_db y" using db hosted_db [OF hosted_end_warmup] by auto
  have "map fst rs = use" by (simp add: rs_def)
  then have "rs \<noteq> [] \<Longrightarrow> fst (last rs) = last use" and "rs = [] \<longleftrightarrow> use = []" by (auto simp: last_map [symmetric])
  then show "fd_wm g = last_ts t_ts (fd_wm f) (polled_rows ticks f)"
    using fold_ticks(1) [of bbo n rs "(f, x1)"] by (simp add: fold g(1) last_ts_def use_def)
qed

subsection \<open>Polling a growing table\<close>

type_synonym poll = "orb_tick list \<times> quote list \<times> int \<times> (nat \<Rightarrow> clocks)"

fun poll_once :: "poll \<Rightarrow> feed \<times> exec \<Rightarrow> feed \<times> exec" where
  "poll_once (ticks, bbo, n, clock) fx = feed_poll ticks bbo n clock fx"

definition feed_run :: "poll list \<Rightarrow> feed \<times> exec \<Rightarrow> feed \<times> exec" where
  "feed_run ps fx = fold poll_once ps fx"

fun rows_read :: "poll list \<Rightarrow> feed \<times> exec \<Rightarrow> orb_tick list" where
  "rows_read [] fx = []"
| "rows_read (p # ps) fx = polled_rows (fst p) (fst fx) @ rows_read ps (poll_once p fx)"

text \<open>Between two polls no row is inserted at or before the watermark.\<close>

fun append_only :: "poll list \<Rightarrow> feed \<times> exec \<Rightarrow> bool" where
  "append_only (p # q # ps) fx =
     (filter (\<lambda>r. t_ts r \<le> fd_wm (fst (poll_once p fx))) (fst q)
        = filter (\<lambda>r. t_ts r \<le> fd_wm (fst (poll_once p fx))) (fst p) \<and> append_only (q # ps) (poll_once p fx))"
| "append_only _ fx = True"

definition good_table :: "orb_tick list \<Rightarrow> bool" where
  "good_table ticks =
     (sorted (map t_ts ticks) \<and> (\<forall>r \<in> set ticks. length (filter (\<lambda>u. t_ts u = t_ts r) ticks) < page_rows))"

abbreviation between :: "int \<Rightarrow> int \<Rightarrow> orb_tick list \<Rightarrow> orb_tick list" where
  "between a b ticks \<equiv> filter (\<lambda>r. a < t_ts r \<and> t_ts r \<le> b) ticks"

lemma polled_between:
  assumes "good_table ticks"
  shows "polled_rows ticks f = between (fd_wm f) (last_ts t_ts (fd_wm f) (polled_rows ticks f)) ticks"
    and "polled_rows ticks f = [] \<longleftrightarrow> filter (\<lambda>r. fd_wm f < t_ts r) ticks = []"
proof -
  define xs where "xs = filter (\<lambda>r. fd_wm f < t_ts r) ticks"
  have use: "polled_rows ticks f = usable_rows t_ts (take page_rows xs)"
    by (simp add: polled_rows_def query_page_def xs_def)
  have main: "polled_rows ticks f \<noteq> [] \<and> polled_rows ticks f = filter (\<lambda>r. t_ts r \<le> t_ts (last (polled_rows ticks f))) xs"
    if ne: "xs \<noteq> []"
  proof -
    have s: "sorted (map t_ts xs)" using assms by (simp add: good_table_def xs_def sorted_filter)
    define l where "l = last (take page_rows xs)"
    have "l \<in> set (take page_rows xs)" unfolding l_def by (rule last_in_set) (simp add: ne page_rows_def)
    then have "l \<in> set ticks" by (auto simp: xs_def dest: in_set_takeD)
    then have "length (filter (\<lambda>r. t_ts r = t_ts l) ticks) < page_rows" using assms by (simp add: good_table_def)
    moreover have "length (filter (\<lambda>r. t_ts r = t_ts l) xs) \<le> length (filter (\<lambda>r. t_ts r = t_ts l) ticks)"
      by (simp add: xs_def) (metis (no_types, lifting) filter_filter filter_cong length_filter_le filter_is_subset)
    ultimately show ?thesis using usable_rows_spec [OF s ne] by (simp add: l_def use)
  qed
  have nil: "polled_rows ticks f = []" if "xs = []" using that by (simp add: use usable_rows_def page_rows_def)
  show "polled_rows ticks f = [] \<longleftrightarrow> filter (\<lambda>r. fd_wm f < t_ts r) ticks = []"
    unfolding xs_def [symmetric] using main nil by blast
  show "polled_rows ticks f = between (fd_wm f) (last_ts t_ts (fd_wm f) (polled_rows ticks f)) ticks"
  proof (cases "xs = []")
    case True
    then show ?thesis using nil by (simp add: last_ts_def filter_empty_conv)
  next
    case False
    then have "polled_rows ticks f = filter (\<lambda>r. t_ts r \<le> t_ts (last (polled_rows ticks f))) (filter (\<lambda>r. fd_wm f < t_ts r) ticks)"
      using main xs_def by blast
    then show ?thesis using main [OF False] by (simp add: last_ts_def)
  qed
qed

lemma watermark_grows:
  assumes "good_table ticks"
  shows "fd_wm f \<le> last_ts t_ts (fd_wm f) (polled_rows ticks f)"
proof (cases "polled_rows ticks f = []")
  case False
  then have "last (polled_rows ticks f) \<in> set (polled_rows ticks f)" by simp
  then have "last (polled_rows ticks f) \<in> set (between (fd_wm f) (last_ts t_ts (fd_wm f) (polled_rows ticks f)) ticks)"
    using polled_between(1) [OF assms, of f] by simp
  then show ?thesis using False by (simp add: last_ts_def)
qed (simp add: last_ts_def)

lemma between_join:
  assumes "sorted (map t_ts ticks)" and "a \<le> b" and "b \<le> c"
  shows "between a b ticks @ between b c ticks = between a c ticks"
  using assms
proof (induction ticks)
  case (Cons r ticks)
  have ih: "between a b ticks @ between b c ticks = between a c ticks" using Cons by simp
  show ?case
  proof (cases "t_ts r \<le> b")
    case True
    then show ?thesis using ih Cons.prems by auto
  next
    case False
    then have "between a b ticks = []" using Cons.prems(1) by (force simp: filter_empty_conv)
    then show ?thesis using ih False Cons.prems by auto
  qed
qed simp

lemma between_cong:
  assumes "filter (\<lambda>r. t_ts r \<le> b) xs = filter (\<lambda>r. t_ts r \<le> b) ys"
  shows "between a b xs = between a b ys"
proof -
  have "between a b zs = filter (\<lambda>r. a < t_ts r) (filter (\<lambda>r. t_ts r \<le> b) zs)" for zs
    by (simp add: conj_commute)
  then show ?thesis using assms by metis
qed

lemma tables_agree:
  assumes "filter (\<lambda>r. t_ts r \<le> b) xs = filter (\<lambda>r. t_ts r \<le> b) ys" and "a \<le> b"
  shows "filter (\<lambda>r. t_ts r \<le> a) xs = filter (\<lambda>r. t_ts r \<le> a) ys"
proof -
  have "filter (\<lambda>r. t_ts r \<le> a) zs = filter (\<lambda>r. t_ts r \<le> a) (filter (\<lambda>r. t_ts r \<le> b) zs)" for zs
    using assms(2) by (simp) (rule filter_cong, auto)
  then show ?thesis using assms(1) by metis
qed

lemma feed_run_rows:
  assumes "x_db (snd fx)" and "\<And>p. p \<in> set (ps @ [q]) \<Longrightarrow> good_table (fst p)" and "append_only (ps @ [q]) fx"
  shows "rows_read (ps @ [q]) fx = between (fd_wm (fst fx)) (fd_wm (fst (feed_run (ps @ [q]) fx))) (fst q)
       \<and> fd_wm (fst fx) \<le> fd_wm (fst (feed_run (ps @ [q]) fx))
       \<and> (\<forall>p0. hd (ps @ [q]) = p0 \<longrightarrow>
            filter (\<lambda>r. t_ts r \<le> fd_wm (fst (poll_once p0 fx))) (fst q) = filter (\<lambda>r. t_ts r \<le> fd_wm (fst (poll_once p0 fx))) (fst p0))"
  using assms
proof (induction ps arbitrary: fx)
  case Nil
  obtain f x where fx: "fx = (f, x)" by (cases fx)
  obtain ticks bbo n clock where q: "q = (ticks, bbo, n, clock)" by (cases q)
  obtain g y where p: "feed_poll ticks bbo n clock (f, x) = (g, y)" by fastforce
  have "good_table ticks" using Nil(2) [of q] by (simp add: q)
  then show ?case
    using poll_moves_wm(1) [OF _ p] Nil(1) polled_between(1) [of ticks f] watermark_grows [of ticks f]
    by (simp add: fx q p feed_run_def)
next
  case (Cons p ps)
  obtain f x where fx: "fx = (f, x)" by (cases fx)
  obtain ticks bbo n clock where p: "p = (ticks, bbo, n, clock)" by (cases p)
  obtain g y where gy: "feed_poll ticks bbo n clock (f, x) = (g, y)" by fastforce
  obtain p1 rest where r: "ps @ [q] = p1 # rest" by (cases "ps @ [q]") auto
  have good: "good_table ticks" "good_table (fst q)" using Cons.prems(2) [of p] Cons.prems(2) [of q] by (simp_all add: p)
  have wm: "fd_wm g = last_ts t_ts (fd_wm f) (polled_rows ticks f)" "x_db y"
    using poll_moves_wm [OF _ gy] Cons.prems(1) by (simp_all add: fx)
  have ao: "filter (\<lambda>r. t_ts r \<le> fd_wm g) (fst p1) = filter (\<lambda>r. t_ts r \<le> fd_wm g) ticks" "append_only (ps @ [q]) (g, y)"
    using Cons.prems(3) by (simp_all add: fx p gy r)
  have good': "\<And>p. p \<in> set (ps @ [q]) \<Longrightarrow> good_table (fst p)" using Cons.prems(2) by simp
  have ih: "rows_read (ps @ [q]) (g, y) = between (fd_wm g) (fd_wm (fst (feed_run (ps @ [q]) (g, y)))) (fst q)"
      "fd_wm g \<le> fd_wm (fst (feed_run (ps @ [q]) (g, y)))"
      "filter (\<lambda>r. t_ts r \<le> fd_wm (fst (poll_once p1 (g, y)))) (fst q) = filter (\<lambda>r. t_ts r \<le> fd_wm (fst (poll_once p1 (g, y)))) (fst p1)"
    using Cons.IH [of "(g, y)"] wm(2) good' ao(2) by (simp_all add: r)
  have "fd_wm g \<le> fd_wm (fst (poll_once p1 (g, y)))"
  proof -
    obtain t1 b1 n1 c1 where p1: "p1 = (t1, b1, n1, c1)" by (cases p1)
    obtain h z where hz: "feed_poll t1 b1 n1 c1 (g, y) = (h, z)" by fastforce
    have "good_table t1" using good' [of p1] by (simp add: r p1)
    then show ?thesis using poll_moves_wm(1) [OF wm(2) hz] watermark_grows [of t1 g] by (simp add: p1 hz)
  qed
  then have agree: "filter (\<lambda>r. t_ts r \<le> fd_wm g) (fst q) = filter (\<lambda>r. t_ts r \<le> fd_wm g) ticks"
    using tables_agree [OF ih(3)] ao(1) by simp
  have le: "fd_wm f \<le> fd_wm g" using watermark_grows [OF good(1), of f] wm(1) by simp
  have "polled_rows ticks f = between (fd_wm f) (fd_wm g) (fst q)"
    using polled_between(1) [OF good(1), of f] wm(1) between_cong [OF agree] by simp
  then show ?case
    using ih(1,2) le agree between_join [of "fst q", OF _ le ih(2)] good(2)
    by (simp add: fx p gy feed_run_def good_table_def)
qed

end
