(* ===== verification/Exec_Loop.thy ===== *)
theory Exec_Loop
  imports Exec_Notify Exec_Feed "HOL-Library.While_Combinator"
begin

section \<open>The executor: the second-by-second loop, start and end of a run\<close>

text \<open>
  \<open>eod_loop\<close>, the session setup of \<open>run_executor\<close> and \<open>signal_loop\<close> of
  \<open>src/src/execution/executor_main.cpp\<close>.  What the loop reads from the clock and the database in one
  second is a record.  The websocket watchdog, the alarm of unconfirmed cancels, the drill and the rows
  of \<open>live_sessions\<close> are left out: they log, alert or store.
\<close>

subsection \<open>One second\<close>

record second =
  sd_clock :: clocks
  sd_hour :: int
  sd_min :: int
  sd_date :: string
  sd_atr :: real
  sd_event :: bool
  sd_wr :: bool

text \<open>The locals of the loop; \<open>ed_stop\<close> is the end of a cycle, \<open>ed_kill\<close> the flag of the signal handler.\<close>

record loop =
  ed_kill :: bool
  ed_backstop :: string
  ed_watch :: pos_state
  ed_since :: int
  ed_ghost :: int
  ed_window :: int
  ed_background :: int
  ed_stop :: bool

definition loop_new :: loop where
  "loop_new = \<lparr>ed_kill = False, ed_backstop = [], ed_watch = FLAT, ed_since = 0, ed_ghost = 0, ed_window = 0,
     ed_background = 0, ed_stop = False\<rparr>"

definition net_recheck :: "bool \<Rightarrow> clocks \<Rightarrow> exec \<Rightarrow> exec" where
  "net_recheck wr c x =
     (case x_exch_net x of
        None \<Rightarrow> x
      | Some net \<Rightarrow> if x_pnl_up x \<and> \<not> net_qty_consistent net (x_om x) then reconcile_net wr net False c x else x)"

definition kill_flatten :: "clocks \<Rightarrow> loop \<times> exec \<Rightarrow> loop \<times> exec" where
  "kill_flatten c lx =
     (let (l, x) = lx
      in if ed_kill l then (l\<lparr>ed_kill := False\<rparr>, flatten_position ''kill_signal'' (en_last (x_eng x)) c x) else lx)"

definition eod_step :: "second \<Rightarrow> loop \<times> exec \<Rightarrow> loop \<times> exec" where
  "eod_step sd lx =
     (let (l, x) = lx; c = sd_clock sd; k = x_orb x;
          y = settle_strategy (on_engine (en_eod (sd_hour sd) (sd_min sd)) c x)
      in if \<not> is_orb (x_eng x) \<and> sd_hour sd = c_eod_flatten_hour k \<and> sd_min sd = c_eod_flatten_min k
            \<and> ed_backstop l \<noteq> x_today y \<and> \<not> x_flat y
         then (l\<lparr>ed_backstop := x_today y\<rparr>, flatten_position ''eod_backstop'' (en_last (x_eng y)) c y)
         else (l, y))"

text \<open>From five minutes before the open to the flatten time, or with a position.\<close>

definition watched :: "int \<Rightarrow> int \<Rightarrow> exec \<Rightarrow> bool" where
  "watched h m x =
     (let k = x_orb x; t = h * 60 + m
      in (c_session_open_hour k * 60 + c_session_open_min k - 5 \<le> t \<and> t \<le> c_eod_flatten_hour k * 60 + c_eod_flatten_min k)
         \<or> \<not> x_flat x)"

definition stale_feed :: "second \<Rightarrow> exec \<Rightarrow> exec" where
  "stale_feed sd x =
     (let lim = hc_tick_timeout_s (x_cfg x)
      in if md_from_pg (x_cfg x) \<and> lim > 0 \<and> watched (sd_hour sd) (sd_min sd) x
            \<and> wall_s (sd_clock sd) - x_last_tick_s x \<ge> lim \<and> x_fresh x
         then halt_engine ''pg_feed_stale'' (x\<lparr>x_fresh := False\<rparr>) else x)"

definition seed_regime_atr :: "string \<Rightarrow> real \<Rightarrow> exec \<Rightarrow> exec" where
  "seed_regime_atr d atr x = x\<lparr>x_regime := rg_set_atr d (if x_db x then atr else 0) (x_regime x)\<rparr>"

definition seed_day :: "bool \<Rightarrow> exec \<Rightarrow> exec" where
  "seed_day event x =
     (case x_eng x of
        ETrend s \<Rightarrow> x\<lparr>x_eng := ETrend (trend_day_atr (rg_atr (x_regime x)) (s\<lparr>tn_event_day := x_db x \<and> event\<rparr>))\<rparr>
      | _ \<Rightarrow> x)"

definition reset_risk :: "(risk \<Rightarrow> risk) \<Rightarrow> exec \<Rightarrow> exec" where
  "reset_risk f x = x\<lparr>x_om := (x_om x)\<lparr>om_risk := f (om_risk (x_om x))\<rparr>\<rparr>"

definition rollover :: "second \<Rightarrow> exec \<Rightarrow> exec" where
  "rollover sd x =
     (let d = sd_date sd; y = reset_risk risk_reset_daily (x\<lparr>x_today := d, x_eng := en_reset (x_eng x)\<rparr>)
      in if d = x_today x then x else seed_day (sd_event sd) (seed_regime_atr d (sd_atr sd) y))"

text \<open>Cancels that were not acknowledged are sent again, and the plant is asked for its notifications.\<close>

definition recancel :: "clocks \<Rightarrow> exec \<Rightarrow> exec" where
  "recancel c x =
     (if c_dry_run (x_orb x) then x
      else (let y = on_om recancel_pending_stops c x in y\<lparr>x_plant := flush_order_notifications (x_plant y)\<rparr>))"

definition book_completed :: "clocks \<Rightarrow> loop \<times> exec \<Rightarrow> loop \<times> exec" where
  "book_completed c lx =
     (let (l, x) = lx; (done, s) = pop_trade_completed (x_om x)
      in case done of
           None \<Rightarrow> lx
         | Some p \<Rightarrow>
            (let x1 = recancel c (x\<lparr>x_om := s, x_eng := en_closed (p_dir p) (p_pnl_usd p) (x_eng x)\<rparr>);
                 x2 = flush_position c (if x_db x1 then x1\<lparr>x_trades := x_trades x1 @ [p]\<rparr> else x1);
                 full = (en_trades (x_eng x2) \<ge> c_max_daily_trades (x_orb x2) \<and> x_flat x2 \<and> c_cycle_mode (x_orb x2))
             in (l\<lparr>ed_window := wall_s c + c_stop_cooldown_secs (x_orb x), ed_background := wall_s c, ed_stop := full\<rparr>, x2)))"

definition cancel_window :: "clocks \<Rightarrow> loop \<times> exec \<Rightarrow> loop \<times> exec" where
  "cancel_window c lx =
     (let (l, x) = lx
      in if ed_window l \<le> 0 then lx
         else if wall_s c < ed_window l then (l, recancel c x)
         else (l\<lparr>ed_window := 0\<rparr>, x\<lparr>x_om := clear_post_close_recancels (x_om x)\<rparr>))"

definition cancel_background :: "clocks \<Rightarrow> loop \<times> exec \<Rightarrow> loop \<times> exec" where
  "cancel_background c lx =
     (let (l, x) = lx
      in if \<not> c_dry_run (x_orb x) \<and> ed_window l = 0 \<and> unconfirmed_server_cancels (x_om x) > 0
            \<and> wall_s c - ed_background l \<ge> 30
         then (l\<lparr>ed_background := wall_s c\<rparr>, recancel c x) else lx)"

definition position_watchdog :: "clocks \<Rightarrow> loop \<times> exec \<Rightarrow> loop \<times> exec" where
  "position_watchdog c lx =
     (let (l, x) = lx; st = p_state (om_pos (x_om x)); now = wall_s c;
          l1 = (if st \<noteq> ed_watch l then l\<lparr>ed_watch := st, ed_since := now\<rparr> else l); held = now - ed_since l1
      in (l1, case st of
                PENDING_ENTRY \<Rightarrow> on_om_check (\<lambda>e. pending_entry_timeout_check e 10) c x
              | PENDING_EXIT \<Rightarrow>
                  if held \<ge> 10 \<and> held mod 10 = 0 \<and> \<not> c_dry_run (x_orb x)
                  then on_om (\<lambda>e. retry_stuck_exit e (en_last (x_eng x))) c x else x
              | _ \<Rightarrow> x))"

text \<open>The subscription is sent to the order plant.\<close>

definition ghost_watchdog :: "loop \<times> exec \<Rightarrow> loop \<times> exec" where
  "ghost_watchdog lx =
     (let (l, x) = lx; n = ed_ghost l + 1
      in if \<not> is_entry_halted (x_om x) then (l\<lparr>ed_ghost := 0\<rparr>, x)
         else (l\<lparr>ed_ghost := n\<rparr>,
               if n mod 30 = 0 \<and> plant_up (x_plant x) then x\<lparr>x_plant := plant_send SubscribePnl (x_plant x)\<rparr> else x))"

definition loop_second :: "second \<Rightarrow> loop \<times> exec \<Rightarrow> loop \<times> exec" where
  "loop_second sd lx =
     (let c = sd_clock sd;
          (l1, x1) = eod_step sd (kill_flatten c (apsnd (net_recheck (sd_wr sd) c) lx));
          (l2, x2) = book_completed c (l1, rollover sd (stale_feed sd x1))
      in if ed_stop l2 then (l2, x2)
         else ghost_watchdog (position_watchdog c
                (apsnd (flush_position c) (cancel_background c (cancel_window c (l2, x2))))))"

subsection \<open>The start of a run\<close>

text \<open>
  What the database, the plants and the clock answer; \<open>se_today\<close> is the current trading date.  A live run
  needs the instance lock and the order plant.
\<close>

record start_env =
  se_clock :: clocks
  se_db :: bool
  se_locked :: bool
  se_plant :: "plant option"
  se_pnl :: bool
  se_today :: string
  se_total :: real
  se_peak :: real
  se_daily :: real
  se_hwm :: "real option"
  se_count :: int
  se_prior :: string
  se_atr :: real
  se_event :: bool
  se_range :: "(real \<times> real) option"
  se_cancels :: "(string \<times> bool \<times> string) list"

definition plant_new :: "host_config \<Rightarrow> plant" where
  "plant_new h =
     \<lparr>pl_ws = False, pl_connected = False, pl_account = [], pl_route = ''simulator'',
      pl_symbol = (if hc_trade_contract h = [] then c_symbol (hc_orb h) else hc_trade_contract h), pl_pending = [], pl_out = []\<rparr>"

text \<open>The risk manager, the engine, the date and the position carried over survive a reconnect.\<close>

definition run_new :: "host_config \<Rightarrow> risk \<Rightarrow> engine \<Rightarrow> string \<Rightarrow> start_env \<Rightarrow> exec" where
  "run_new h r g today se =
     (let k = hc_orb h
      in \<lparr>x_cfg = h, x_eng = g, x_om = om_new k r (ll_new (c_point_value k * nq_tick_size)), x_plant = plant_new h,
          x_db = se_db se, x_book = qs_new, x_regime = rg_new, x_last_us = 0, x_today = today, x_unsettled = [],
          x_warming = False, x_dropped = 0, x_rec = nr_new, x_net_halt = False, x_loss_halted = False, x_dd_halted = False,
          x_hwm = broker_hwm (if se_db se then se_hwm se else None) (c_starting_balance k) None, x_exch_net = None,
          x_last_unwind = [], x_defer = False, x_deferred = [], x_pnl_up = False, x_fresh = False,
          x_last_tick_s = wall_s (se_clock se), x_persisted = [], x_trades = [], x_row = None\<rparr>)"

definition seed_risk :: "start_env \<Rightarrow> exec \<Rightarrow> exec" where
  "seed_risk se x =
     (let b = c_starting_balance (x_orb x) + se_total se
      in if \<not> x_db x \<or> x_today x \<noteq> [] then x
         else reset_risk (risk_seed_daily (se_daily se) \<circ> risk_set_equity b \<circ> risk_set_equity (se_peak se)
                            \<circ> risk_seed_total (se_total se)) x)"

definition connect_plants :: "start_env \<Rightarrow> exec \<Rightarrow> exec" where
  "connect_plants se x =
     (case se_plant se of
        None \<Rightarrow> x
      | Some p \<Rightarrow> if c_dry_run (x_orb x) then x
                else (let y = x\<lparr>x_plant := drain_pending_cancels p, x_pnl_up := se_pnl se\<rparr>
                      in if se_pnl se then y else halt_engine ''pnl_plant_unavailable'' y))"

text \<open>On the first run the date is empty: the engine and the day of the risk manager are reset.\<close>

definition first_day :: "start_env \<Rightarrow> exec \<Rightarrow> exec" where
  "first_day se x =
     (let y = reset_risk risk_reset_daily (x\<lparr>x_today := se_today se, x_eng := en_reset (x_eng x)\<rparr>)
      in if x_today x \<noteq> [] then x
         else if x_db x \<and> se_count se > 0 then y\<lparr>x_eng := en_seed_trades (se_count se) (x_eng y)\<rparr> else y)"

definition prior_state :: "bool \<Rightarrow> start_env \<Rightarrow> exec \<Rightarrow> exec" where
  "prior_state fresh se x =
     (if fresh \<and> x_db x \<and> \<not> c_dry_run (x_orb x) \<and> se_prior se \<in> {''LONG'', ''SHORT'', ''PENDING_EXIT''}
      then halt_engine (''startup_stale_position_'' @ se_prior se) x else x)"

definition seed_range :: "start_env \<Rightarrow> exec \<Rightarrow> exec" where
  "seed_range se x =
     (case (x_eng x, se_range se) of
        (EOrb s, Some (rh, rl)) \<Rightarrow>
          if x_db x \<and> rh > rl \<and> rh > 0 then x\<lparr>x_eng := EOrb (seed_orb_range rh rl s)\<rparr> else x
      | _ \<Rightarrow> x)"

definition seed_cancel :: "string \<times> bool \<times> string \<Rightarrow> om \<Rightarrow> om" where
  "seed_cancel row s =
     (let (i, was_buy, sid) = row; t = seed_cancelled_stops i was_buy s
      in if sid = [] then t else seed_server_stop_cancel sid i t)"

definition seed_cancels :: "start_env \<Rightarrow> exec \<Rightarrow> exec" where
  "seed_cancels se x =
     (let y = x\<lparr>x_om := fold seed_cancel (se_cancels se) (x_om x)\<rparr>
      in if \<not> x_db x \<or> c_dry_run (x_orb x) then x
         else if pending_cancelled_stop_count (x_om y) > 0 then recancel (se_clock se) y else y)"

definition run_start :: "host_config \<Rightarrow> risk \<Rightarrow> engine \<Rightarrow> string \<Rightarrow> position \<Rightarrow> start_env \<Rightarrow> exec option" where
  "run_start h r g today carried se =
     (let held = (p_state carried \<noteq> FLAT); dry = c_dry_run (hc_orb h); x0 = run_new h r g today se;
          x1 = (if held then halt_engine ''reconnect_unreconciled_position'' x0 else x0);
          x2 = (connect_plants se (seed_risk se x1))\<lparr>x_defer := held\<rparr>;
          x3 = prior_state (today = []) se (first_day se x2);
          x4 = seed_day (se_event se) (seed_regime_atr (x_today x3) (se_atr se) x3)
      in if \<not> dry \<and> (se_db se \<and> se_locked se \<or> se_plant se = None) then None
         else Some (seed_cancels se (seed_range se x4)))"

subsection \<open>The end of a run\<close>

definition shutdown :: "clocks \<Rightarrow> exec \<Rightarrow> exec" where
  "shutdown c x = flatten_position ''kill_signal'' (en_last (x_eng x)) c (halt_engine ''shutdown'' x)"

text \<open>
  The two waits of the shutdown, over what is seen at each turn: at most a hundred turns for the position
  to be flat, then sixteen turns and up to fifty while a cancel is unconfirmed or the net disagrees.
\<close>

definition wait_turns :: "nat \<Rightarrow> nat \<Rightarrow> (nat \<Rightarrow> bool) \<Rightarrow> nat" where
  "wait_turns most least waiting = while (\<lambda>i. i < most \<and> (i < least \<or> waiting i)) Suc 0"

definition unsettled :: "exec \<Rightarrow> bool" where
  "unsettled x =
     (pending_cancelled_stop_count (x_om x) > 0
      \<or> (case x_exch_net x of None \<Rightarrow> False | Some net \<Rightarrow> \<not> net_qty_consistent net (x_om x)))"

definition drain_turns :: "(nat \<Rightarrow> exec) \<Rightarrow> nat \<times> nat" where
  "drain_turns obs =
     (let n = wait_turns 100 0 (\<lambda>i. \<not> x_flat (obs i)) in (n, wait_turns 50 16 (\<lambda>i. unsettled (obs (n + i)))))"

text \<open>A read error of a plant ends the run with the position carried over.\<close>

definition carried_over :: "exec \<Rightarrow> position" where
  "carried_over x = om_pos (x_om x)"

end
