(* ===== verification/Exec_Props.thy ===== *)
theory Exec_Props
  imports Exec_Loop
begin

section \<open>What the executor guarantees about fills and positions\<close>

text \<open>
  A fill nobody expected, and a fill that is reported twice.
\<close>

subsection \<open>A demonstration run\<close>

definition demo_host :: host_config where
  "demo_host = host_defaults\<lparr>hc_orb := default_config\<lparr>c_dry_run := False, c_symbol := ''MNQ''\<rparr>, hc_account_id := ''A1'',
     hc_md_provider := ''pg''\<rparr>"

definition demo_plant :: plant where
  "demo_plant = (plant_new demo_host)\<lparr>pl_ws := True, pl_connected := True, pl_account := ''A1''\<rparr>"

definition demo_start :: start_env where
  "demo_start = \<lparr>se_clock = (5000000000, 5000000000), se_db = True, se_locked = False, se_plant = Some demo_plant, se_pnl = False,
     se_today = ''2026-01-05'', se_total = 0, se_peak = 50000, se_daily = 0, se_hwm = None, se_count = 0, se_prior = ''FLAT'',
     se_atr = 300, se_event = False, se_range = None, se_cancels = []\<rparr>"

definition demo_exec :: exec where
  "demo_exec = (run_new demo_host (risk_new (hc_orb demo_host) 50000) (EOrb (set_signal_callback (st_new (hc_orb demo_host)))) ''2026-01-05'' demo_start)
     \<lparr>x_plant := demo_plant, x_pnl_up := True\<rparr>"

lemma demo_exec_parts:
  "om_out (x_om demo_exec) = []" "om_pos (x_om demo_exec) = pos0" "om_cstops (x_om demo_exec) = []" "x_db demo_exec"
  "x_plant demo_exec = demo_plant" "x_cfg demo_exec = demo_host" "x_rec demo_exec = nr_new" "x_last_unwind demo_exec = []"
  "x_eng demo_exec = EOrb (set_signal_callback (st_new (hc_orb demo_host)))" "om_cfg (x_om demo_exec) = hc_orb demo_host"
  "x_fresh demo_exec = False" "x_last_tick_s demo_exec = 5" "x_today demo_exec = ''2026-01-05''"
  by (simp_all add: demo_exec_def run_new_def om_new_def Let_def demo_start_def wall_s_def cdiv_def)

lemma demo_exec_net: "x_exch_net demo_exec = None"
  by (simp add: demo_exec_def run_new_def Let_def)

subsection \<open>Orders that reach the plant\<close>

definition new_orders :: "exec \<Rightarrow> order_msg list" where
  "new_orders x = concat (map (\<lambda>m. case m of NewOrder o' \<Rightarrow> [o'] | _ \<Rightarrow> []) (pl_out (x_plant x)))"

definition silent_effect :: "om_effect \<Rightarrow> bool" where
  "silent_effect f = (case f of SendOrder rq \<Rightarrow> False | _ \<Rightarrow> True)"

lemma silent_simps [simp]:
  "silent_effect (CancelReq i)" "silent_effect (PersistCancel i b)" "silent_effect (RemoveCancel i)"
  "silent_effect (PersistServerId i j)" "\<not> silent_effect (SendOrder rq)"
  by (simp_all add: silent_effect_def)

lemma plant_cancel_orders:
  "new_orders (x\<lparr>x_plant := plant_cancel i a (x_plant x)\<rparr>) = new_orders x"
  by (simp add: new_orders_def plant_cancel_def flush_order_notifications_def plant_send_def plant_up_def)

lemma deliver_orders: "silent_effect f \<Longrightarrow> new_orders (deliver_effect f x) = new_orders x"
  by (cases f; simp add: deliver_effect_def plant_cancel_orders; simp add: new_orders_def)

lemma fold_deliver_orders: "list_all silent_effect fs \<Longrightarrow> new_orders (fold deliver_effect fs x) = new_orders x"
  by (induction fs arbitrary: x) (simp_all add: deliver_orders)

lemma deliver_keeps [simp]:
  "x_eng (deliver_effect f x) = x_eng x" "x_om (deliver_effect f x) = x_om x" "x_warming (deliver_effect f x) = x_warming x"
  by (cases f; simp add: deliver_effect_def Let_def)+

lemma fold_deliver_keeps [simp]:
  "x_eng (fold deliver_effect fs x) = x_eng x" "x_om (fold deliver_effect fs x) = x_om x"
  "x_warming (fold deliver_effect fs x) = x_warming x"
  by (induction fs arbitrary: x) simp_all

lemma on_om_parts [simp]:
  "x_eng (on_om f c x) = x_eng x" "x_warming (on_om f c x) = x_warming x"
  "x_om (on_om f c x) = (f (x_env c x) (x_om x))\<lparr>om_out := []\<rparr>"
  by (simp_all add: on_om_def Let_def)

lemma on_om_silent:
  "list_all silent_effect (om_out (f (x_env c x) (x_om x))) \<Longrightarrow> new_orders (on_om f c x) = new_orders x"
  by (simp add: on_om_def Let_def fold_deliver_orders) (simp add: new_orders_def)

lemma flush_parts [simp]:
  "x_om (flush_position c x) = x_om x" "x_eng (flush_position c x) = x_eng x" "x_plant (flush_position c x) = x_plant x"
  "new_orders (flush_position c x) = new_orders x"
  by (simp_all add: flush_position_def Let_def new_orders_def)

subsection \<open>Fills nobody expected\<close>

text \<open>What the order manager remembers of orders at work, guards, halts and money.\<close>

definition om_facts where
  "om_facts s = ((om_pos s, om_cstops s, om_cs_trade s, om_trade_seq s), (om_unwinds s, om_entry_halted s, om_ghost_halted s, om_risk s))"

lemma fill_marks:
  "\<exists>ps. snd (fill_already_processed i q s) = s\<lparr>om_processed := ps\<rparr>"
  by (simp add: fill_already_processed_def Let_def) blast

lemma fill_marked_twice:
  "fst (fill_already_processed i q (snd (fill_already_processed i q s)))"
  by (simp add: fill_already_processed_def Let_def update_conv' split: option.split)

text \<open>The second question about the fill always says duplicate.\<close>

lemma unowned_never_handled:
  assumes "unowned_fill_is_duplicate client server q s = (dup, t)"
  shows "\<exists>ps. fst (snd (handle_unowned_fill e client server account ours px q t)) = s\<lparr>om_processed := ps\<rparr>"
    and "snd (snd (handle_unowned_fill e client server account ours px q t)) = None"
    and "fst (handle_unowned_fill e client server account ours px q t) \<noteq> GUARDS_RUN"
proof -
  define i where "i = fill_key client server"
  have t: "t = snd (fill_already_processed i q s)" using assms by (simp add: unowned_fill_is_duplicate_def i_def)
  obtain ps where ps: "t = s\<lparr>om_processed := ps\<rparr>" using fill_marks [of i q s] t by metis
  obtain qs where "snd (fill_already_processed i q t) = t\<lparr>om_processed := qs\<rparr>" using fill_marks [of i q t] by metis
  moreover have "t\<lparr>om_processed := qs\<rparr> = s\<lparr>om_processed := qs\<rparr>" by (simp add: ps)
  moreover have "fst (fill_already_processed i q t)" using fill_marked_twice by (simp add: t)
  ultimately have again: "fill_already_processed i q t = (True, s\<lparr>om_processed := qs\<rparr>)" by (metis prod.collapse)
  have h: "handle_unowned_fill e client server account ours px q t =
      (if account \<noteq> [] \<and> account \<noteq> ours then (OTHER_ACCOUNT, t, None) else (DUPLICATE, s\<lparr>om_processed := qs\<rparr>, None))"
    by (simp add: handle_unowned_fill_def unowned_fill_is_duplicate_def i_def [symmetric] again)
  show "\<exists>ps. fst (snd (handle_unowned_fill e client server account ours px q t)) = s\<lparr>om_processed := ps\<rparr>"
  proof -
    have "fst (snd (handle_unowned_fill e client server account ours px q t)) \<in> {t, s\<lparr>om_processed := qs\<rparr>}" by (simp add: h)
    then show ?thesis using ps by blast
  qed
  show "snd (snd (handle_unowned_fill e client server account ours px q t)) = None" by (simp add: h)
  show "fst (handle_unowned_fill e client server account ours px q t) \<noteq> GUARDS_RUN" by (simp add: h)
qed

lemma unowned_step_idle:
  assumes "om_out (x_om x) = []"
  shows "\<exists>ps. unowned_step client server account px q c x = x\<lparr>x_om := (x_om x)\<lparr>om_processed := ps\<rparr>\<rparr>"
proof -
  obtain dup t where d: "unowned_fill_is_duplicate client server q (x_om x) = (dup, t)" by fastforce
  obtain ps where t: "t = (x_om x)\<lparr>om_processed := ps\<rparr>"
    using fill_marks [of "fill_key client server" q "x_om x"] d by (auto simp: unowned_fill_is_duplicate_def)
  define y where "y = x\<lparr>x_om := t\<rparr>"
  obtain qs where qs: "fst (snd (handle_unowned_fill (x_env c y) client server account (hc_account_id (x_cfg x)) px q t)) = (x_om x)\<lparr>om_processed := qs\<rparr>"
    using unowned_never_handled(1) [OF d] by blast
  have "on_om (\<lambda>e. fst \<circ> snd \<circ> handle_unowned_fill e client server account (hc_account_id (x_cfg x)) px q) c y
      = x\<lparr>x_om := (x_om x)\<lparr>om_processed := qs\<rparr>\<rparr>"
    using qs assms by (simp add: on_om_def y_def)
  moreover obtain r s why where h: "handle_unowned_fill (x_env c y) client server account (hc_account_id (x_cfg x)) px q t = (r, s, why)"
    by (metis prod_cases3)
  moreover have "why = None" "r \<noteq> GUARDS_RUN"
    using unowned_never_handled(2,3) [OF d, of "x_env c y" account "hc_account_id (x_cfg x)" px] by (simp_all add: h)
  moreover have "y = x\<lparr>x_om := (x_om x)\<lparr>om_processed := ps\<rparr>\<rparr>" by (simp add: y_def t)
  ultimately show ?thesis
    unfolding unowned_step_def d Let_def by (auto simp: y_def [symmetric])
qed

text \<open>Nothing is traded, halted, guarded or booked between two states.\<close>

definition idle :: "exec \<Rightarrow> exec \<Rightarrow> bool" where
  "idle x y = (x_eng y = x_eng x \<and> om_facts (x_om y) = om_facts (x_om x) \<and> new_orders y = new_orders x)"

lemma idle_refl [simp]: "idle x x" by (simp add: idle_def)

lemma idle_trans: "idle x y \<Longrightarrow> idle y z \<Longrightarrow> idle x z" by (simp add: idle_def)

definition mapped :: "exec \<Rightarrow> exec \<Rightarrow> bool" where
  "mapped x y = (idle x y \<and> om_processed (x_om y) = om_processed (x_om x) \<and> om_out (x_om y) = [])"

lemma mapped_trans: "mapped x y \<Longrightarrow> mapped y z \<Longrightarrow> mapped x z"
  by (simp add: mapped_def idle_def)

lemma map_basket_quiet:
  "om_facts (map_server_basket e i sid s) = om_facts s" "om_processed (map_server_basket e i sid s) = om_processed s"
  "list_all silent_effect (om_out s) \<Longrightarrow> list_all silent_effect (om_out (map_server_basket e i sid s))"
  by (simp_all add: map_server_basket_def om_facts_def Let_def emit_def)

lemma stop_mapped_quiet:
  "om_facts (on_stop_server_mapped e i sid s) = om_facts s" "om_processed (on_stop_server_mapped e i sid s) = om_processed s"
  "list_all silent_effect (om_out s) \<Longrightarrow> list_all silent_effect (om_out (on_stop_server_mapped e i sid s))"
  by (simp_all add: on_stop_server_mapped_def om_facts_def Let_def emit_def emit_server_def)

lemma owns_fill_facts: "om_facts s = om_facts t \<Longrightarrow> owns_fill s i = owns_fill t i"
  by (simp add: om_facts_def owns_fill_def is_entry_basket_def is_stop_basket_def is_exit_basket_def)

lemma facts_idle [simp]: "om_facts (s\<lparr>om_processed := ps\<rparr>) = om_facts s" "om_facts (s\<lparr>om_out := fs\<rparr>) = om_facts s"
  by (simp_all add: om_facts_def)

lemma mapping_quiet:
  assumes "om_out (x_om x) = []"
  shows "mapped x (on_om (\<lambda>e. map_server_basket e i sid) c x)"
    and "mapped x (on_om (\<lambda>e. on_stop_server_mapped e i sid) c x)"
  using assms by (simp_all add: mapped_def idle_def map_basket_quiet stop_mapped_quiet on_om_silent)

lemma unowned_quiet:
  assumes "om_out (x_om x) = []"
  shows "idle x (unowned_step cl sv a px q c x) \<and> om_out (x_om (unowned_step cl sv a px q c x)) = []"
  using unowned_step_idle [OF assms, of cl sv a px q c] assms by (auto simp: new_orders_def idle_def)

text \<open>The order and the cumulative quantity a message reports a fill of.\<close>

fun reports :: "plant_note \<Rightarrow> (string \<times> int) option" where
  "reports (ExchNote n) = (if xn_type n = 5 then Some (xn_tag n, if xn_total n > 0 then xn_total n else xn_size n) else None)"
| "reports (OrderNote n) = (if \<not> on_snap n \<and> on_total n > 0 then Some (on_tag n, on_total n) else None)"
| "reports m = None"

lemma report_step:
  assumes out: "om_out (x_om x) = []" and m: "reports m = Some (i, q)"
  obtains y px where "mapped x y" "owns_fill (x_om x) i \<Longrightarrow> plant_step wr m c x = dedup_fill i px q c y"
    "\<not> owns_fill (x_om x) i \<Longrightarrow> idle y (plant_step wr m c x) \<and> om_out (x_om (plant_step wr m c x)) = []"
proof (cases m)
  case (ExchNote n)
  define y where "y = on_om (\<lambda>e. map_server_basket e i (xn_basket n)) c x"
  have n: "xn_type n = 5" "xn_tag n = i" "q = (if xn_total n > 0 then xn_total n else xn_size n)"
    using m by (simp_all add: ExchNote split: if_splits)
  have y: "mapped x y" using mapping_quiet(1) [OF out] by (simp add: y_def)
  have step: "plant_step wr m c x = (if owns_fill (x_om y) i then dedup_fill i (xn_price n) q c y
      else unowned_step i (xn_basket n) (xn_account n) (xn_price n) (xn_size n) c y)"
    unfolding ExchNote plant_step_def plant_note.case exch_note_step_def exch_fill_def Let_def n(1,2) y_def [symmetric] n(3)
    by (cases "owns_fill (x_om y) i"; cases "0 < xn_total n"; simp only: if_True if_False simp_thms)
  have own: "owns_fill (x_om y) i = owns_fill (x_om x) i" using owns_fill_facts [of "x_om y" "x_om x" i] y by (simp add: mapped_def idle_def)
  show thesis using y unowned_quiet [of y] by (intro that [of y "xn_price n"]) (simp_all add: step own mapped_def)
next
  case (OrderNote k)
  define z where "z = on_om (\<lambda>e. map_server_basket e i (on_basket k)) c x"
  define y where "y = on_om (\<lambda>e. on_stop_server_mapped e i (on_basket k)) c z"
  have k: "\<not> on_snap k" "0 < on_total k" "on_tag k = i" "on_total k = q"
    using m by (simp_all add: OrderNote split: if_splits)
  have z: "mapped x z" using mapping_quiet(1) [OF out] by (simp add: z_def)
  then have "mapped z y" using mapping_quiet(2) [of z] by (simp add: y_def mapped_def)
  then have y: "mapped x y" using z mapped_trans by blast
  have step: "plant_step wr m c x = (if owns_fill (x_om y) i then dedup_fill i (note_price k y) q c y
      else if on_account k = [] \<or> on_account k = hc_account_id (x_cfg y)
      then unowned_step i (on_basket k) (on_account k) (note_price k y) q c y else y)"
    using k by (simp add: OrderNote plant_step_def order_note_step_def note_fill_def Let_def z_def [symmetric] y_def [symmetric] del: on_om_parts)
  have own: "owns_fill (x_om y) i = owns_fill (x_om x) i" using owns_fill_facts [of "x_om y" "x_om x" i] y by (simp add: mapped_def idle_def)
  show thesis using y unowned_quiet [of y] by (intro that [of y "note_price k y"]) (simp_all add: step own mapped_def)
qed (use m in simp_all)

text \<open>
  C9.  A fill of an order the manager does not track does nothing, whichever plant reports it; while no
  trade is open that is every fill.  No guard of a cancelled stop or of a cancelled entry is consulted, no
  unwind is sent, no halt is raised, although such a fill is an orphaned stop or a liquidation: the executor
  asks \<open>unowned_fill_is_duplicate\<close>, which marks the fill, and \<open>handle_unowned_fill\<close> asks it again first.
\<close>

theorem unowned_fill_ignored:
  assumes "om_out (x_om x) = []" and "reports m = Some (i, q)"
    and "om_pos (x_om x) = pos0 \<and> i \<noteq> [] \<or> \<not> owns_fill (x_om x) i"
  shows "idle x (plant_step wr m c x)"
proof -
  have "\<not> owns_fill (x_om x) i"
    using assms(3) by (auto simp: owns_fill_def is_entry_basket_def is_stop_basket_def is_exit_basket_def pos0_def)
  then show ?thesis using report_step [OF assms(1,2), of wr c] by (metis mapped_def idle_trans)
qed

definition orphan_fill :: order_note where
  "orphan_fill = \<lparr>on_basket = ''S9'', on_tag = ''MNQ-stop-7'', on_type = 15, on_status = ''complete'', on_avg = 20010, on_price = 0,
     on_total = 2, on_unfilled = 0, on_snap = False, on_account = ''A1'', on_symbol = ''MNQ''\<rparr>"

theorem unowned_fill_ignored_witness:
  "idle demo_exec (plant_step (True, True) (OrderNote orphan_fill) (6000000000, 6000000000) demo_exec)"
  by (rule unowned_fill_ignored [where i = "''MNQ-stop-7''" and q = 2]) (simp_all add: demo_exec_parts orphan_fill_def)

subsection \<open>A fill reported twice\<close>

lemma emits_marks [simp]:
  "om_processed (emit_persist e i b s) = om_processed s" "om_processed (emit_remove e i s) = om_processed s"
  "om_processed (erase_server_cancel i s) = om_processed s"
  by (simp_all add: emit_def emit_persist_def emit_remove_def erase_server_cancel_def)

lemma send_marks [simp]:
  "om_processed (send_unwind e buy px tag b s) = om_processed s" "om_processed (submit_stop e sl s) = om_processed s"
  by (simp_all add: send_unwind_def submit_stop_def new_basket_id_def send_order_def emit_def Let_def)

lemma entry_marks [simp]: "om_processed (entry_fill e i px q s) = om_processed s"
  by (simp add: entry_fill_def late_entry_fill_def book_entry_fill_def Let_def split: prod.split)

lemma flat_marks [simp]: "om_processed (flat_fill e i px s) = om_processed s"
  by (simp add: flat_fill_def Let_def split: option.split)

lemma accumulate_marks: "accumulate_fill i px q s = (px', t) \<Longrightarrow> om_processed t = om_processed s"
  by (auto simp: accumulate_fill_def Let_def split: if_splits)

lemma prune_pos [simp]: "om_pos (prune_processed s) = om_pos s"
  by (simp add: prune_processed_def)

lemma purge_pos [simp]: "om_pos (purge_guards e s) = om_pos s"
proof -
  have "om_pos (fold (emit_remove e) is t) = om_pos t" for "is" t by (induction "is" arbitrary: t) (simp_all add: emit_remove_def emit_def)
  then show ?thesis by (simp add: purge_guards_def Let_def)
qed

lemma exit_closes: "om_pos (book_exit_fill e i px s) = pos0"
  by (simp add: book_exit_fill_def close_trade_def Let_def split: prod.split)

lemma on_fill_marks:
  "om_processed (on_fill e i px q b s) = om_processed s \<or> om_pos (on_fill e i px q b s) = pos0"
proof -
  obtain px' t where t: "accumulate_fill i px q s = (px', t)" by fastforce
  show ?thesis using accumulate_marks [OF t] exit_closes by (simp add: on_fill_def t exit_fill_def Let_def)
qed

lemma owned_fill_om: "x_om (owned_fill i px q b c x) = (on_fill (x_env c x) i px q b (x_om x))\<lparr>om_out := []\<rparr>"
  by (simp add: owned_fill_def Let_def)

lemma dedup_marks:
  assumes "dedup_fill i px q c x = y" and "i \<noteq> []"
  shows "fst (fill_already_processed i q (x_om y)) \<or> \<not> owns_fill (x_om y) i"
proof -
  define t where "t = snd (fill_already_processed i q (x_om x))"
  have t: "fst (fill_already_processed i q t)" using fill_marked_twice by (simp add: t_def)
  have y: "x_om y = t \<or> (\<exists>e b. x_om y = (on_fill e i px q b t)\<lparr>om_out := []\<rparr>)"
    by (cases "fill_already_processed i q (x_om x)") (auto simp: assms(1) [symmetric] dedup_fill_def owned_fill_om t_def Let_def)
  have cong: "fst (fill_already_processed i q u) = fst (fill_already_processed i q v)" if "om_processed u = om_processed v" for u v
    by (simp add: fill_already_processed_def that Let_def)
  from y show ?thesis
  proof (elim disjE exE)
    fix e b assume u: "x_om y = (on_fill e i px q b t)\<lparr>om_out := []\<rparr>"
    show ?thesis
    proof (cases "om_processed (on_fill e i px q b t) = om_processed t")
      case True
      then show ?thesis using cong [of "x_om y" t] t by (simp add: u)
    next
      case False
      then have "om_pos (x_om y) = pos0" using on_fill_marks [of e i px q b t] by (simp add: u)
      then show ?thesis using assms(2) by (simp add: owns_fill_def is_entry_basket_def is_stop_basket_def is_exit_basket_def pos0_def)
    qed
  qed (use t in simp)
qed

lemma dedup_again:
  assumes "fst (fill_already_processed i q (x_om x))" and "q' \<le> q"
  shows "idle x (dedup_fill i px q' c x)"
proof -
  have "fst (fill_already_processed i q' (x_om x))"
    using assms by (simp add: fill_already_processed_def Let_def split: if_splits)
  moreover obtain ps where "snd (fill_already_processed i q' (x_om x)) = (x_om x)\<lparr>om_processed := ps\<rparr>" using fill_marks by metis
  ultimately have "dedup_fill i px q' c x = x\<lparr>x_om := (x_om x)\<lparr>om_processed := ps\<rparr>\<rparr>"
    by (cases "fill_already_processed i q' (x_om x)") (simp add: dedup_fill_def Let_def)
  then show ?thesis by (simp add: idle_def new_orders_def)
qed

lemma dedup_out: "om_out (x_om x) = [] \<Longrightarrow> om_out (x_om (dedup_fill i px q c x)) = []"
  using fill_marks [of i q "x_om x"]
  by (cases "fill_already_processed i q (x_om x)") (auto simp: dedup_fill_def Let_def owned_fill_om)

lemma processed_cong: "om_processed u = om_processed v \<Longrightarrow> fst (fill_already_processed i q u) = fst (fill_already_processed i q v)"
  by (simp add: fill_already_processed_def Let_def)


definition demo_entering :: exec where
  "demo_entering = demo_exec\<lparr>x_om := (x_om demo_exec)\<lparr>om_pos := pos0\<lparr>p_state := PENDING_ENTRY, p_dir := BUY, p_entry_id := ''MNQ-entry-1''\<rparr>\<rparr>\<rparr>"

definition entry_fill_msg :: order_note where
  "entry_fill_msg = orphan_fill\<lparr>on_basket := ''S1'', on_tag := ''MNQ-entry-1''\<rparr>"


end
