(* ===== verification/Exec_Recon_Props.thy ===== *)
theory Exec_Recon_Props
  imports Exec_Props Notif_Props
begin

section \<open>What the executor does with positions it does not hold\<close>

text \<open>
  The orders sent when the exchange's net disagrees with the order manager, at the start and while running.
\<close>

subsection \<open>Frames\<close>

lemma deliver_up [simp]: "plant_up (x_plant (deliver_effect f x)) = plant_up (x_plant x)"
  by (cases f; simp add: deliver_effect_def Let_def send_new_order_def plant_cancel_def flush_order_notifications_def plant_send_def plant_up_def)

lemma deliver_cfg [simp]: "x_cfg (deliver_effect f x) = x_cfg x"
  by (cases f; simp add: deliver_effect_def Let_def)

lemma on_om_plant [simp]: "plant_up (x_plant (on_om f c x)) = plant_up (x_plant x)" "x_cfg (on_om f c x) = x_cfg x"
proof -
  have "plant_up (x_plant (fold deliver_effect fs y)) = plant_up (x_plant y)" "x_cfg (fold deliver_effect fs y) = x_cfg y" for fs y
    by (induction fs arbitrary: y) simp_all
  then show "plant_up (x_plant (on_om f c x)) = plant_up (x_plant x)" "x_cfg (on_om f c x) = x_cfg x"
    by (simp_all add: on_om_def Let_def)
qed

lemma cancel_parts [simp]:
  "x_om (cancel_at_plant i x) = x_om x" "x_eng (cancel_at_plant i x) = x_eng x" "x_cfg (cancel_at_plant i x) = x_cfg x"
  "plant_up (x_plant (cancel_at_plant i x)) = plant_up (x_plant x)" "new_orders (cancel_at_plant i x) = new_orders x"
  "x_rec (cancel_at_plant i x) = x_rec x"
  by (simp_all add: cancel_at_plant_def plant_cancel_orders)
    (simp add: plant_cancel_def flush_order_notifications_def plant_send_def plant_up_def)

lemma orders_frame [simp]:
  "new_orders (x\<lparr>x_last_unwind := i\<rparr>) = new_orders x" "new_orders (x\<lparr>x_eng := g\<rparr>) = new_orders x" "new_orders (x\<lparr>x_om := s\<rparr>) = new_orders x"
  "new_orders (x\<lparr>x_net_halt := b\<rparr>) = new_orders x" "new_orders (x\<lparr>x_rec := r\<rparr>) = new_orders x"
  "new_orders (x\<lparr>x_defer := b, x_deferred := is\<rparr>) = new_orders x" "new_orders (x\<lparr>x_defer := b\<rparr>) = new_orders x"
  "new_orders (x\<lparr>x_deferred := is\<rparr>) = new_orders x" "new_orders (x\<lparr>x_exch_net := n\<rparr>) = new_orders x"
  by (simp_all add: new_orders_def)

lemma drop_unwind_parts [simp]:
  "x_om (drop_last_unwind x) = x_om x" "x_eng (drop_last_unwind x) = x_eng x" "x_cfg (drop_last_unwind x) = x_cfg x"
  "plant_up (x_plant (drop_last_unwind x)) = plant_up (x_plant x)" "new_orders (drop_last_unwind x) = new_orders x"
  by (simp_all add: drop_last_unwind_def)

lemma cancel_stop_silent: "list_all silent_effect (om_out s) \<Longrightarrow> list_all silent_effect (om_out (cancel_stop e s))"
  by (simp add: cancel_stop_def emit_def emit_persist_def emit_server_def Let_def)

lemma adopt_silent: "list_all silent_effect (om_out s) \<Longrightarrow> list_all silent_effect (om_out (adopt_external_close e px why s))"
  using cancel_stop_silent by (simp add: adopt_external_close_def prune_processed_def Let_def)

lemma adopt_parts:
  assumes "om_out (x_om x) = []"
  shows "new_orders (adopt_close c x) = new_orders x" and "x_eng (adopt_close c x) = x_eng x"
    and "x_om (adopt_close c x) = (adopt_external_close (x_env c x) (en_last (x_eng x)) ''external_close'' (x_om x))\<lparr>om_out := []\<rparr>"
    and "plant_up (x_plant (adopt_close c x)) = plant_up (x_plant x)" and "x_cfg (adopt_close c x) = x_cfg x"
  using assms by (simp_all add: adopt_close_def on_om_silent adopt_silent) (simp add: flush_position_def Let_def)

lemma unwind_sends:
  assumes "q > 0" and "plant_up (x_plant x)"
  shows "exec_unwind True q buy c x = (True, x\<lparr>x_plant := plant_send (NewOrder (unwind_order q buy c x)) (x_plant x),
    x_om := register_unwind_basket (unwind_id c x) (x_om x), x_last_unwind := unwind_id c x\<rparr>)"
  using assms by (simp add: exec_unwind_def Let_def)

lemma new_orders_send [simp]:
  "new_orders (x\<lparr>x_plant := plant_send (NewOrder m) (x_plant x)\<rparr>) = new_orders x @ [m]"
  by (simp add: new_orders_def plant_send_def)

lemma halt_parts [simp]:
  "x_om (halt_engine why x) = x_om x" "x_plant (halt_engine why x) = x_plant x" "x_cfg (halt_engine why x) = x_cfg x"
  "new_orders (halt_engine why x) = new_orders x" "x_eng (halt_engine why x) = en_halt why (x_eng x)"
  "x_rec (halt_engine why x) = x_rec x" "x_defer (halt_engine why x) = x_defer x" "x_deferred (halt_engine why x) = x_deferred x"
  by (simp_all add: halt_engine_def)

lemma en_halt_facts [simp]: "en_halted (en_halt why g)" "en_reason (en_halt why g) = why"
  by (cases g; simp add: en_halted_def en_reason_def en_halt_def halt_trading_def trend_halt_def mtf_halt_def)+

lemma en_unhalt_facts [simp]: "\<not> en_halted (en_unhalt g)"
  by (cases g; simp add: en_halted_def en_unhalt_def unhalt_trading_def trend_unhalt_def mtf_unhalt_def)

subsection \<open>A mismatch that lasts\<close>

definition signed_qty :: "order_msg list \<Rightarrow> int" where
  "signed_qty ms = sum_list (map (\<lambda>m. if pm_buy m then pm_qty m else - pm_qty m) ms)"

lemma consistent_cong: "om_pos t = om_pos s \<Longrightarrow> om_cfg t = om_cfg s \<Longrightarrow> net_qty_consistent net t = net_qty_consistent net s"
  by (simp only: net_qty_consistent_def)

lemma consistent_frame [simp]:
  "net_qty_consistent net (register_unwind_basket i s) = net_qty_consistent net s"
  "net_qty_consistent net (s\<lparr>om_out := fs\<rparr>) = net_qty_consistent net s"
  by (rule consistent_cong; simp add: register_unwind_basket_def)+

text \<open>
  C6.  A net position that disagreed with the order manager for the grace time is repaired at the next
  report: entries are halted, at most one order goes out, and once it is filled the exchange's net agrees
  with what the order manager then holds, with no more exposure than before and never reversed.
\<close>

theorem mismatch_unwound:
  assumes "om_out (x_om x) = []" and pos: "p_state (om_pos (x_om x)) = FLAT \<or> in_trade (x_om x)"
    and cfg: "om_cfg (x_om x) = x_orb x" "0 < c_qty (x_orb x)" and up: "plant_up (x_plant x)"
    and late: "nr_since (x_rec x) \<noteq> 0" "\<not> nr_acted (x_rec x)" "c_net_mismatch_grace_ms (x_orb x) \<le> steady_ms c - nr_since (x_rec x)"
    and y: "y = reconcile_net True net False c x"
  shows "\<exists>ms. new_orders y = new_orders x @ ms \<and> length ms \<le> 1 \<and> net_qty_consistent (net + signed_qty ms) (x_om y)
    \<and> \<bar>net + signed_qty ms\<bar> \<le> \<bar>net\<bar> \<and> 0 \<le> net * (net + signed_qty ms) \<and> en_halted (x_eng y)"
proof -
  define x0 where "x0 = x\<lparr>x_rec := (x_rec x)\<lparr>nr_acted := True, nr_acted_ms := steady_ms c\<rparr>\<rparr>"
  have act: "y = act_on_mismatch True net c x0"
    using late by (simp add: y reconcile_net_def nr_observe_def x0_def)
  define u where "u = plan_unwind net (om_pos (x_om x)) (c_qty (x_orb x))"
  define x1 where "x1 = (halt_engine ''exchange_net_mismatch'' x0)\<lparr>x_net_halt := True\<rparr>"
  define x2 where "x2 = drop_last_unwind (if up_adopt_flat u then adopt_close c x1 else x1)"
  have x0: "x_om x0 = x_om x" "x_plant x0 = x_plant x" "x_cfg x0 = x_cfg x" "new_orders x0 = new_orders x"
    by (simp_all add: x0_def)
  have x1: "om_out (x_om x1) = []" "x_om x1 = x_om x" "plant_up (x_plant x1)" "new_orders x1 = new_orders x"
      "en_halted (x_eng x1)" "en_reason (x_eng x1) = ''exchange_net_mismatch''"
    using assms(1) up x0 by (simp_all add: x1_def)
  have x2: "new_orders x2 = new_orders x" "plant_up (x_plant x2)" "x_eng x2 = x_eng x1"
    using x1 adopt_parts [of x1 c] by (simp_all add: x2_def)
  define e where "e = x_env c x1"
  define px where "px = en_last (x_eng x1)"
  have e: "x_om x2 = (if up_adopt_flat u then (adopt_external_close e px ''external_close'' (x_om x))\<lparr>om_out := []\<rparr> else x_om x)"
    using x1(1,2) adopt_parts(3) [of x1 c] by (simp add: x2_def e_def px_def)
  have y2: "y = (if up_qty u > 0 then snd (exec_unwind True (up_qty u) (up_is_buy u) c x2) else x2)"
    unfolding act act_on_mismatch_def Let_def x2_def x1_def u_def by (simp add: x0 x_orb_def)
  have plan: "net_qty_consistent (net_after net u) (x_om x2)" "\<bar>net_after net u\<bar> \<le> \<bar>net\<bar>"
      "net_after net u = 0 \<or> (0 < net_after net u) = (0 < net)" "0 \<le> up_qty u"
    using unwind_restores_agreement [of "x_om x" u net e px "''external_close''"] pos cfg e by (simp_all add: u_def split: if_splits)
  define ms where "ms = (if up_qty u > 0 then [unwind_order (up_qty u) (up_is_buy u) c x2] else [])"
  have y3: "new_orders y = new_orders x @ ms" "x_eng y = x_eng x1" "net_qty_consistent k (x_om y) = net_qty_consistent k (x_om x2)" for k
    using unwind_sends [OF _ x2(2), of "up_qty u" "up_is_buy u" c] x2 by (simp_all add: y2 ms_def)
  have "net + signed_qty ms = net_after net u"
    using plan(4) by (auto simp: ms_def signed_qty_def net_after_def unwind_order_def Let_def)
  moreover have "0 \<le> net * net_after net u"
    using plan(2,3) by (metis abs_ge_zero linorder_not_less mult_eq_0_iff not_less_iff_gr_or_eq order.refl zero_le_mult_iff)
  moreover have "length ms \<le> 1" by (simp add: ms_def)
  ultimately show ?thesis using y3 plan x1(5) by (intro exI [of _ ms]) simp
qed

lemma mismatch_unwound_witness:
  "\<exists>ms. new_orders (reconcile_net True 2 False (9000000000, 9000000000) (demo_exec\<lparr>x_rec := nr_new\<lparr>nr_since := 1\<rparr>\<rparr>)) = ms \<and> length ms \<le> 1
     \<and> net_qty_consistent (2 + signed_qty ms) (x_om (reconcile_net True 2 False (9000000000, 9000000000) (demo_exec\<lparr>x_rec := nr_new\<lparr>nr_since := 1\<rparr>\<rparr>)))"
  using mismatch_unwound [of "demo_exec\<lparr>x_rec := nr_new\<lparr>nr_since := 1\<rparr>\<rparr>" "(9000000000, 9000000000)" _ 2, OF _ _ _ _ _ _ _ _ refl]
  by (simp add: demo_exec_parts pos0_def x_orb_def demo_host_def default_config_def host_defaults_def demo_plant_def plant_new_def
      plant_up_def nr_new_def steady_ms_def cdiv_def new_orders_def)

subsection \<open>A position found at the start\<close>

text \<open>The limits judged on the broker's numbers trade nothing while no trade is open.\<close>

definition calm :: "exec \<Rightarrow> exec \<Rightarrow> bool" where
  "calm x y = (x_plant y = x_plant x \<and> x_cfg y = x_cfg x \<and> x_rec y = x_rec x \<and> om_pos (x_om y) = om_pos (x_om x)
     \<and> x_defer y = x_defer x \<and> x_deferred y = x_deferred x)"

lemma calm_trans: "calm x y \<Longrightarrow> calm y z \<Longrightarrow> calm x z" by (simp add: calm_def)

lemma calm_limits: "calm x (broker_limits why note x)" "calm x (broker_limits why note (x\<lparr>x_loss_halted := True\<rparr>))"
  "calm x (broker_limits why note (x\<lparr>x_dd_halted := True\<rparr>))"
  by (simp_all add: broker_limits_def calm_def halt_engine_def)

lemma calm_loss: "x_flat x \<Longrightarrow> calm x (broker_loss_step d c x)"
  using calm_limits(2) by (simp add: broker_loss_step_def Let_def x_flat_def is_flat_def calm_def)

lemma calm_drawdown: "calm x (broker_drawdown_step b x)"
proof (cases b)
  case (Some v)
  define y where "y = (if broker_hwm (Some (x_hwm x)) (c_starting_balance (x_orb x)) (Some v) > x_hwm x
    then x\<lparr>x_hwm := broker_hwm (Some (x_hwm x)) (c_starting_balance (x_orb x)) (Some v)\<rparr> else x)"
  have "calm x y" by (simp add: y_def calm_def)
  moreover have "broker_drawdown_step b x = y \<or> (\<exists>why note. broker_drawdown_step b x = broker_limits why note (y\<lparr>x_dd_halted := True\<rparr>))"
    unfolding Some broker_drawdown_step_def Let_def option.case y_def [symmetric] by auto
  ultimately show ?thesis using calm_limits(3) calm_trans by metis
qed (simp add: broker_drawdown_step_def calm_def)

lemma cancel_deferred_parts [simp]:
  "new_orders (cancel_deferred x) = new_orders x" "plant_up (x_plant (cancel_deferred x)) = plant_up (x_plant x)"
  "x_om (cancel_deferred x) = x_om x" "x_deferred (cancel_deferred x) = []" "x_cfg (cancel_deferred x) = x_cfg x"
proof -
  have "new_orders (fold cancel_at_plant is y) = new_orders y \<and> plant_up (x_plant (fold cancel_at_plant is y)) = plant_up (x_plant y)
      \<and> x_om (fold cancel_at_plant is y) = x_om y \<and> x_cfg (fold cancel_at_plant is y) = x_cfg y" for "is" y
    by (induction "is" arbitrary: y) simp_all
  then show "new_orders (cancel_deferred x) = new_orders x" "plant_up (x_plant (cancel_deferred x)) = plant_up (x_plant x)"
    "x_om (cancel_deferred x) = x_om x" "x_deferred (cancel_deferred x) = []" "x_cfg (cancel_deferred x) = x_cfg x"
    by (simp_all add: cancel_deferred_def)
qed


definition ghost_report :: pos_update where
  "ghost_report = \<lparr>pu_account = ''A1'', pu_net = 2, pu_snap = True, pu_balance = [], pu_day = [], pu_day_open = [], pu_day_closed = []\<rparr>"


end
