(* ===== verification/Exec_Halts.thy ===== *)
theory Exec_Halts
  imports Exec_Recon_Props
begin

section \<open>Starts, halts, the feed and the end of a run\<close>

text \<open>
  Which halts are in force when a run starts, how a halt is lost, which rows of the feed are delivered and how long a shutdown waits.
\<close>

subsection \<open>The start\<close>

lemma en_reset_free [simp]: "\<not> en_halted (en_reset g)"
  by (cases g; simp add: en_halted_def en_reset_def reset_session_def trend_reset_session_def mtf_reset_session_def os_new_def Let_def)

lemma en_seed_halted [simp]: "en_halted (en_seed_trades n g) = en_halted g"
  by (cases g; simp add: en_halted_def en_seed_trades_def seed_trades_today_def trend_seed_trades_def mtf_seed_trades_def)

lemma seed_day_halted [simp]: "en_halted (x_eng (seed_day ev x)) = en_halted (x_eng x)"
  by (simp add: seed_day_def en_halted_def trend_day_atr_def split: engine.split)

lemma seed_range_halted [simp]: "en_halted (x_eng (seed_range se x)) = en_halted (x_eng x)"
  by (simp add: seed_range_def en_halted_def seed_orb_range_def split: engine.split option.split)

lemma start_frame [simp]:
  "x_eng (recancel c x) = x_eng x" "x_eng (seed_regime_atr d a x) = x_eng x" "x_eng (reset_risk f x) = x_eng x"
  "x_eng (seed_risk se x) = x_eng x" "x_eng (seed_cancels se x) = x_eng x"
  by (simp_all add: recancel_def seed_regime_atr_def reset_risk_def seed_risk_def seed_cancels_def Let_def)

lemma connect_halted:
  "en_halted (x_eng (connect_plants se x)) =
     (en_halted (x_eng x) \<or> se_plant se \<noteq> None \<and> \<not> c_dry_run (x_orb x) \<and> \<not> se_pnl se)"
  by (simp add: connect_plants_def Let_def split: option.split)

lemma connect_parts [simp]:
  "x_today (connect_plants se x) = x_today x" "x_db (connect_plants se x) = x_db x" "x_cfg (connect_plants se x) = x_cfg x"
  "x_today (seed_risk se x) = x_today x" "x_db (seed_risk se x) = x_db x" "x_cfg (seed_risk se x) = x_cfg x"
  "x_today (halt_engine why x) = x_today x" "x_db (halt_engine why x) = x_db x"
  by (simp_all add: connect_plants_def seed_risk_def reset_risk_def halt_engine_def Let_def split: option.split)

lemma first_day_parts [simp]: "x_db (first_day se x) = x_db x" "x_cfg (first_day se x) = x_cfg x"
  by (simp_all add: first_day_def reset_risk_def Let_def)

lemma first_day_halted: "en_halted (x_eng (first_day se x)) = (x_today x \<noteq> [] \<and> en_halted (x_eng x))"
  by (simp add: first_day_def Let_def)

text \<open>
  C10.  When a run starts, entries are halted exactly in these cases: on the first run, when the database
  shows a position of the previous process; on a reconnect, when the engine was halted before, a position
  is carried over, or the position feed could not be connected.  On the first run a missing position feed
  halts nothing: the halt is set before the engine is reset.
\<close>

theorem start_halts_exactly:
  assumes "run_start h r g today carried se = Some x" and "\<not> c_dry_run (hc_orb h)"
  shows "en_halted (x_eng x) =
    (if today = [] then se_db se \<and> se_prior se \<in> {''LONG'', ''SHORT'', ''PENDING_EXIT''}
     else en_halted g \<or> p_state carried \<noteq> FLAT \<or> \<not> se_pnl se)"
proof -
  define x1 where "x1 = (if p_state carried \<noteq> FLAT then halt_engine ''reconnect_unreconciled_position'' (run_new h r g today se)
      else run_new h r g today se)"
  define x2 where "x2 = (connect_plants se (seed_risk se x1))\<lparr>x_defer := (p_state carried \<noteq> FLAT)\<rparr>"
  define x3 where "x3 = prior_state (today = []) se (first_day se x2)"
  have run: "se_plant se \<noteq> None"
      "x = seed_cancels se (seed_range se (seed_day (se_event se) (seed_regime_atr (x_today x3) (se_atr se) x3)))"
    using assms(1,2) by (simp_all add: run_start_def Let_def x3_def x2_def x1_def split: if_splits)
  have x1: "en_halted (x_eng x1) = (en_halted g \<or> p_state carried \<noteq> FLAT)" "x_today x1 = today" "x_db x1 = se_db se" "x_cfg x1 = h"
    by (simp_all add: x1_def run_new_def Let_def)
  have x2: "en_halted (x_eng x2) = (en_halted g \<or> p_state carried \<noteq> FLAT \<or> \<not> se_pnl se)" "x_today x2 = today" "x_db x2 = se_db se" "x_cfg x2 = h"
    using x1 run(1) assms(2) by (simp_all add: x2_def connect_halted x_orb_def)
  have "en_halted (x_eng x) = en_halted (x_eng x3)" by (simp add: run(2))
  also have "\<dots> = (en_halted (x_eng (first_day se x2)) \<or> today = [] \<and> se_db se \<and> se_prior se \<in> {''LONG'', ''SHORT'', ''PENDING_EXIT''})"
    using x2 assms(2) by (simp add: x3_def prior_state_def x_orb_def) blast
  also have "\<dots> = (if today = [] then se_db se \<and> se_prior se \<in> {''LONG'', ''SHORT'', ''PENDING_EXIT''}
     else en_halted g \<or> p_state carried \<noteq> FLAT \<or> \<not> se_pnl se)"
    using x2 by (simp add: first_day_halted)
  finally show ?thesis .
qed

definition demo_restart :: start_env where
  "demo_restart = demo_start\<lparr>se_prior := ''LONG''\<rparr>"

text \<open>A first run without a position feed trades; after a crash with a position it does not.\<close>

lemma start_halts_exactly_witness:
  "(\<exists>x. run_start demo_host (risk_new (hc_orb demo_host) 50000) (x_eng demo_exec) [] pos0 demo_start = Some x \<and> \<not> en_halted (x_eng x))
   \<and> (\<exists>x. run_start demo_host (risk_new (hc_orb demo_host) 50000) (x_eng demo_exec) [] pos0 demo_restart = Some x \<and> en_halted (x_eng x))"
proof -
  have live: "\<not> c_dry_run (hc_orb demo_host)" by (simp add: demo_host_def)
  obtain x y where xy: "run_start demo_host (risk_new (hc_orb demo_host) 50000) (x_eng demo_exec) [] pos0 demo_start = Some x"
      "run_start demo_host (risk_new (hc_orb demo_host) 50000) (x_eng demo_exec) [] pos0 demo_restart = Some y"
    using live by (simp add: run_start_def Let_def demo_start_def demo_restart_def)
  then show ?thesis
    using start_halts_exactly [OF xy(1) live] start_halts_exactly [OF xy(2) live] by (simp_all add: demo_start_def demo_restart_def)
qed

subsection \<open>Halts that are lost\<close>

lemma en_unhalt_resume [simp]: "x_fresh (halt_engine why x) = x_fresh x" by (simp add: halt_engine_def)

text \<open>
  A stale feed erases every other halt: whatever halted the entries before - the net mismatch of the
  reconciler, the broker's loss limit, a lost position feed - once the watchdog has found the feed stale, the
  first ticks that arrive lift the halt.
\<close>

theorem stale_feed_erases_halt:
  assumes "md_from_pg (x_cfg x)" and "0 < hc_tick_timeout_s (x_cfg x)" and "watched (sd_hour sd) (sd_min sd) x"
    and "hc_tick_timeout_s (x_cfg x) \<le> wall_s (sd_clock sd) - x_last_tick_s x" and "x_fresh x"
  shows "en_halted (x_eng (stale_feed sd x)) \<and> \<not> en_halted (x_eng (feed_resumes c (stale_feed sd x)))"
  using assms by (simp add: stale_feed_def feed_resumes_def unhalt_engine_def Let_def)

definition quiet_second :: second where
  "quiet_second = \<lparr>sd_clock = (100000000000, 100000000000), sd_hour = 10, sd_min = 0, sd_date = ''2026-01-05'', sd_atr = 300,
     sd_event = False, sd_wr = True\<rparr>"

lemma stale_feed_erases_halt_witness:
  "\<not> en_halted (x_eng (feed_resumes (101000000000, 101000000000)
      (stale_feed quiet_second (halt_engine ''exchange_net_mismatch'' (demo_exec\<lparr>x_fresh := True\<rparr>)))))"
  using stale_feed_erases_halt [of "halt_engine ''exchange_net_mismatch'' (demo_exec\<lparr>x_fresh := True\<rparr>)" quiet_second "(101000000000, 101000000000)"]
  by (simp add: halt_engine_def demo_exec_parts demo_host_def host_defaults_def md_from_pg_def quiet_second_def watched_def x_orb_def
      default_config_def wall_s_def cdiv_def)

subsection \<open>The end\<close>

lemma wait_turns_spec:
  "wait_turns most least waiting \<le> most" "min least most \<le> wait_turns most least waiting"
  "wait_turns most least waiting < most \<Longrightarrow> \<not> waiting (wait_turns most least waiting)"
  "least \<le> i \<Longrightarrow> i < wait_turns most least waiting \<Longrightarrow> waiting i"
proof -
  define n where "n = wait_turns most least waiting"
  have "n \<le> most \<and> (n < most \<longrightarrow> least \<le> n \<and> \<not> waiting n) \<and> (\<forall>i. least \<le> i \<and> i < n \<longrightarrow> waiting i)"
    unfolding n_def wait_turns_def
    by (rule while_rule [where P = "\<lambda>k. k \<le> most \<and> (\<forall>i. least \<le> i \<and> i < k \<longrightarrow> waiting i)" and r = "measure (\<lambda>k. most - k)"])
      (auto simp: less_Suc_eq)
  then show "wait_turns most least waiting \<le> most" "min least most \<le> wait_turns most least waiting"
    "wait_turns most least waiting < most \<Longrightarrow> \<not> waiting (wait_turns most least waiting)"
    "least \<le> i \<Longrightarrow> i < wait_turns most least waiting \<Longrightarrow> waiting i"
    by (auto simp: n_def)
qed

text \<open>
  A shutdown ends, whatever the exchange does: the first wait is over within a hundred turns and as
  soon as the position is flat, the second after sixteen to fifty turns and, from the sixteenth, as soon as no
  cancel is unconfirmed and the exchange agrees.
\<close>

theorem shutdown_ends:
  "case drain_turns obs of (n, k) \<Rightarrow>
     n \<le> 100 \<and> 16 \<le> k \<and> k \<le> 50 \<and> (n < 100 \<longrightarrow> x_flat (obs n)) \<and> (k < 50 \<longrightarrow> \<not> unsettled (obs (n + k)))
     \<and> (\<forall>i < n. \<not> x_flat (obs i)) \<and> (\<forall>i. 16 \<le> i \<and> i < k \<longrightarrow> unsettled (obs (n + i)))"
proof -
  define n where "n = wait_turns 100 0 (\<lambda>i. \<not> x_flat (obs i))"
  define k where "k = wait_turns 50 16 (\<lambda>i. unsettled (obs (n + i)))"
  have "drain_turns obs = (n, k)" by (simp add: drain_turns_def n_def k_def Let_def)
  moreover have "n \<le> 100" "n < 100 \<longrightarrow> x_flat (obs n)" "\<forall>i < n. \<not> x_flat (obs i)"
    unfolding n_def using wait_turns_spec(1,3,4) [where most = 100 and least = 0 and waiting = "\<lambda>i. \<not> x_flat (obs i)"] by blast+
  moreover have "16 \<le> k" "k \<le> 50" "k < 50 \<longrightarrow> \<not> unsettled (obs (n + k))" "\<forall>i. 16 \<le> i \<and> i < k \<longrightarrow> unsettled (obs (n + i))"
    unfolding k_def using wait_turns_spec(1,3,4) [where most = 50 and least = 16 and waiting = "\<lambda>i. unsettled (obs (n + i))"]
      wait_turns_spec(2) [where most = 50 and least = 16 and waiting = "\<lambda>i. unsettled (obs (n + i))"] by (simp, blast+)
  ultimately show ?thesis by simp
qed

theorem shutdown_ends_witness: "drain_turns (\<lambda>i. demo_exec) = (0, 16)"
proof -
  have "x_flat demo_exec" "\<not> unsettled demo_exec"
    by (simp_all add: x_flat_def is_flat_def unsettled_def demo_exec_parts pos0_def pending_cancelled_stop_count_def demo_exec_net)
  then show ?thesis using shutdown_ends [of "\<lambda>i. demo_exec"] by (auto split: prod.splits)
qed

subsection \<open>The rows of the feed\<close>


definition demo_ticks :: "orb_tick list" where
  "demo_ticks = map (\<lambda>i. \<lparr>t_ts = i, t_price = 20000, t_size = 1, t_is_buy = True\<rparr>) [1, 2, 2, 5]"


end
