(* ===== verification/Exec_Main.thy ===== *)
theory Exec_Main
  imports Exec_Loop
begin

section \<open>The executor: the process\<close>

text \<open>
  \<open>main\<close> of \<open>src/src/execution/executor_main.cpp\<close>: the checks between the command line and the first
  cycle, the cycles themselves, and the trades of the websocket feed.  The configuration file is read once
  by \<open>from_file\<close> and once more for the parameters of the engine.
\<close>

subsection \<open>From the command line to the engine\<close>

record command_line =
  cl_dry :: bool
  cl_check :: bool
  cl_drill :: string

text \<open>
  A parameter of the scalper that is refused throws, and nothing catches it.  The engines come with the
  signal callback that \<open>run_executor\<close> sets on them.
\<close>

datatype outcome = Exit int | Crash | Session host_config engine

definition host_checked :: "command_line \<Rightarrow> host_config \<Rightarrow> host_config" where
  "host_checked cl h =
     (let k = (if cl_dry cl then (hc_orb h)\<lparr>c_dry_run := True\<rparr> else hc_orb h); k1 = fst (apply_dry_run_label k)
      in h\<lparr>hc_orb := (if c_cycle_mode k1 then k1\<lparr>c_last_entry_hour := 23\<rparr> else k1)\<rparr>)"

definition refused :: "host_config \<Rightarrow> bool" where
  "refused h =
     (let k = hc_orb h
      in hc_user h = [] \<or> hc_password h = [] \<or> c_sl_points k \<le> 0 \<or> c_trailing_drawdown_cap k \<le> 0
         \<or> qs_any_gate k \<and> \<not> md_from_pg h)"

definition start_engine :: "bool \<Rightarrow> host_config \<Rightarrow> string \<Rightarrow> outcome" where
  "start_engine check_only h t =
     (let k = hc_orb h; go = (\<lambda>g. if check_only then Exit 0 else Session h g)
      in if c_engine k = ''trend'' then
           (let c = trend_from_json t
            in if tc_mode c = ''rs_continuation'' \<or> tc_mode c = ''book_imbalance'' \<and> \<not> md_from_pg h then Exit 1
               else go (ETrend (trend_new c k)))
         else if c_engine k = ''mtf_scalper'' then
           (case mtf_from_json_string t of
              Inl e \<Rightarrow> Crash
            | Inr c \<Rightarrow> if mc_trigger_mode c = ''smt'' \<or> mc_allow_flips c then Exit 1
                       else if check_only then Exit 0
                       else (case mtf_new c of None \<Rightarrow> Crash | Some s \<Rightarrow> Session h (EMtf (s\<lparr>mt_cb := True\<rparr>))))
         else go (EOrb (set_signal_callback (st_new k))))"

definition exec_main :: "command_line \<Rightarrow> string option \<Rightarrow> environ \<Rightarrow> string option \<Rightarrow> outcome" where
  "exec_main cl dotenv e file =
     (if cl_drill cl \<noteq> [] \<and> cl_drill cl \<noteq> ''orphan'' then Exit 1
      else (case from_file dotenv e file of
              Inl err \<Rightarrow> Exit 1
            | Inr h \<Rightarrow> (let h1 = host_checked cl h
                       in if refused h1 then Exit 1
                          else start_engine (cl_check cl) h1 (case file of None \<Rightarrow> [] | Some t \<Rightarrow> t))))"

subsection \<open>Cycles\<close>

text \<open>
  What survives a cycle: the risk manager, the engine, the date and the position.
\<close>

record process =
  pc_risk :: risk
  pc_engine :: engine
  pc_today :: string
  pc_carried :: position

definition process_new :: "host_config \<Rightarrow> engine \<Rightarrow> process" where
  "process_new h g = \<lparr>pc_risk = risk_new (hc_orb h) (c_starting_balance (hc_orb h)), pc_engine = g, pc_today = [], pc_carried = pos0\<rparr>"

definition cycle_start :: "host_config \<Rightarrow> process \<Rightarrow> start_env \<Rightarrow> exec option" where
  "cycle_start h p se = run_start h (pc_risk p) (pc_engine p) (pc_today p) (pc_carried p) se"

definition cycle_end :: "exec \<Rightarrow> process" where
  "cycle_end x = \<lparr>pc_risk = om_risk (x_om x), pc_engine = x_eng x, pc_today = x_today x, pc_carried = carried_over x\<rparr>"

text \<open>
  A cycle whose order plant cannot be connected has taken the position over already, halted the engine for
  it, and seeded the risk manager.
\<close>

definition cycle_failed :: "host_config \<Rightarrow> process \<Rightarrow> start_env \<Rightarrow> process" where
  "cycle_failed h p se =
     (let x0 = run_new h (pc_risk p) (pc_engine p) (pc_today p) se;
          x1 = (if p_state (pc_carried p) \<noteq> FLAT then halt_engine ''reconnect_unreconciled_position'' x0 else x0)
      in (cycle_end (seed_risk se x1))\<lparr>pc_carried := pos0\<rparr>)"

subsection \<open>The websocket feed\<close>

text \<open>A last-trade message (template 150) of \<open>md_loop\<close>; the second and the microseconds are separate fields.\<close>

definition last_trade :: "int \<Rightarrow> int \<Rightarrow> real \<Rightarrow> int \<Rightarrow> bool \<Rightarrow> clocks \<Rightarrow> exec \<Rightarrow> exec" where
  "last_trade sec usecs px sz buy c x =
     (if px \<le> 0 \<or> sz \<le> 0 then x
      else process_tick \<lparr>t_ts = sec * 1000000 + usecs, t_price = px, t_size = sz, t_is_buy = buy\<rparr> c
             (x\<lparr>x_last_tick_s := wall_s c\<rparr>))"

end
