(* ===== verification/Fleet_Config.thy ===== *)
theory Fleet_Config
  imports Config Text_Parse
begin

section \<open>The configuration of the paper fleet\<close>

text \<open>
  \<open>src/src/paper/paper_config.hpp\<close>: the fleet file, the raw text of a JSON value, the objects of an
  array, and the \<open>OrbConfig\<close> of one strategy.  The key search is a copy of the one in
  \<open>orb_config.hpp\<close>, \<open>find_top_key\<close> of \<open>Text_Parse\<close>.  Fields no decision reads (\<open>base_id\<close>, \<open>overlay\<close>,
  \<open>max_entry_offset\<close>) are left out.
\<close>

subsection \<open>The text of a value\<close>

text \<open>Where a scan of the text is: outside strings, inside one, or behind a backslash in one.\<close>

datatype scan = Plain | InString | Escaped

definition next_scan :: "scan \<Rightarrow> char \<Rightarrow> scan" where
  "next_scan m c =
     (case m of Plain \<Rightarrow> if c = CHR 0x22 then InString else Plain
      | InString \<Rightarrow> if c = CHR 0x5C then Escaped else if c = CHR 0x22 then Plain else InString
      | Escaped \<Rightarrow> InString)"

definition opens :: "scan \<Rightarrow> char \<Rightarrow> char \<Rightarrow> int" where
  "opens m op c = (if m = Plain \<and> c = op then 1 else 0)"

text \<open>
  The text up to the bracket that closes the first one, strings skipped; brackets of the other kind are not
  counted.  \<open>depth\<close> is the number of open brackets.
\<close>

fun balanced :: "char \<Rightarrow> char \<Rightarrow> int \<Rightarrow> scan \<Rightarrow> string \<Rightarrow> string option" where
  "balanced op cl depth m [] = None"
| "balanced op cl depth m (c # cs) =
     (let d = depth + opens m op c - opens m cl c
      in if opens m cl c = 1 \<and> d = 0 then Some [c] else map_option ((#) c) (balanced op cl d (next_scan m c) cs))"

text \<open>A string behind its opening quote, up to and with the closing one.\<close>

fun quoted_rest :: "string \<Rightarrow> string option" where
  "quoted_rest [] = None"
| "quoted_rest (c # cs) =
     (if c = CHR 0x5C then (case cs of [] \<Rightarrow> None | d # ds \<Rightarrow> map_option (\<lambda>r. c # d # r) (quoted_rest ds))
      else if c = CHR 0x22 then Some [c] else map_option ((#) c) (quoted_rest cs))"

definition scalar_end :: "char \<Rightarrow> bool" where
  "scalar_end c = (c = CHR '','' \<or> is_close c \<or> json_ws c)"

text \<open>Empty when the key is absent or its value does not end.\<close>

definition extract_value :: "string \<Rightarrow> string \<Rightarrow> string" where
  "extract_value s key =
     (case value_text s key of None \<Rightarrow> []
      | Some v \<Rightarrow>
          (let c = hd v; got = (\<lambda>r. case r of None \<Rightarrow> [] | Some t \<Rightarrow> t)
           in if c = CHR 0x7B then got (balanced c CHR 0x7D 0 Plain v)
              else if c = CHR 0x5B then got (balanced c CHR 0x5D 0 Plain v)
              else if c = CHR 0x22 then got (map_option ((#) c) (quoted_rest (tl v)))
              else takeWhile (\<lambda>c. \<not> scalar_end c) v))"

text \<open>The objects directly inside an array; \<open>start\<close> is the text since the brace that opened the current one.\<close>

fun array_objects :: "int \<Rightarrow> scan \<Rightarrow> string option \<Rightarrow> string \<Rightarrow> string list" where
  "array_objects depth m start [] = []"
| "array_objects depth m start (c # cs) =
     (let more = map_option (\<lambda>a. a @ [c]) start;
          d = depth + opens m CHR 0x7B c + opens m CHR 0x5B c - opens m CHR 0x7D c - opens m CHR 0x5D c;
          ms = next_scan m c
      in if opens m CHR 0x7B c = 1 \<and> depth = 1 then array_objects d ms (Some [c]) cs
         else if opens m CHR 0x7D c = 1 \<and> d = 1 \<and> start \<noteq> None then the more # array_objects d ms None cs
         else array_objects d ms more cs)"

subsection \<open>Typed values\<close>

definition fleet_int :: "string \<Rightarrow> string \<Rightarrow> int \<Rightarrow> int" where
  "fleet_int s key def = (let v = extract_value s key in if v = [] then def else case stoi v of None \<Rightarrow> def | Some n \<Rightarrow> n)"

definition fleet_dbl :: "string \<Rightarrow> string \<Rightarrow> real \<Rightarrow> real" where
  "fleet_dbl s key def = (let v = extract_value s key in if v = [] then def else case stod v of None \<Rightarrow> def | Some n \<Rightarrow> n)"

definition fleet_bool :: "string \<Rightarrow> string \<Rightarrow> bool \<Rightarrow> bool" where
  "fleet_bool s key def = (let v = extract_value s key in if v = ''true'' then True else if v = ''false'' then False else def)"

fun unescape :: "string \<Rightarrow> string" where
  "unescape [] = []"
| "unescape (c # cs) = (if c = CHR 0x5C \<and> cs \<noteq> [] then hd cs # unescape (tl cs) else c # unescape cs)"

definition fleet_str :: "string \<Rightarrow> string \<Rightarrow> string \<Rightarrow> string" where
  "fleet_str s key def =
     (let v = extract_value s key in if length v < 2 \<or> hd v \<noteq> CHR 0x22 then def else unescape (butlast (tl v)))"

subsection \<open>The fleet\<close>

record fleet_strategy =
  fs_id :: string
  fs_engine :: string
  fs_enabled :: bool
  fs_params :: string

record fleet_config =
  fc_account_label :: string
  fc_symbol :: string
  fc_exchange :: string
  fc_feed_symbol :: string
  fc_reference_symbol :: string
  fc_point_value :: real
  fc_tick_size :: real
  fc_starting_balance :: real
  fc_daily_loss_limit :: real
  fc_drawdown_cap :: real
  fc_consistency_cap :: real
  fc_commission_rt :: real
  fc_slippage_ticks :: int
  fc_poll_ms :: int
  fc_strategy_loss :: real
  fc_gap_reset_secs :: int
  fc_warmup_bars :: int
  fc_strategies :: "fleet_strategy list"

definition fleet_fields :: "string \<Rightarrow> fleet_config" where
  "fleet_fields t =
     \<lparr>fc_account_label = fleet_str t ''account_label'' ''tradeify'', fc_symbol = fleet_str t ''symbol'' ''MNQ'',
      fc_exchange = fleet_str t ''exchange'' ''CME'', fc_feed_symbol = fleet_str t ''feed_symbol'' [],
      fc_reference_symbol = fleet_str t ''reference_symbol'' [], fc_point_value = fleet_dbl t ''point_value'' 2,
      fc_tick_size = fleet_dbl t ''tick_size'' (1/4), fc_starting_balance = fleet_dbl t ''starting_balance'' 25000,
      fc_daily_loss_limit = fleet_dbl t ''daily_loss_limit'' (-500),
      fc_drawdown_cap = fleet_dbl t ''trailing_drawdown_cap'' 1000,
      fc_consistency_cap = fleet_dbl t ''consistency_cap_pct'' (3/10), fc_commission_rt = fleet_dbl t ''commission_rt'' 1,
      fc_slippage_ticks = fleet_int t ''slippage_ticks'' 1, fc_poll_ms = fleet_int t ''poll_ms'' 100,
      fc_strategy_loss = fleet_dbl t ''strategy_daily_loss_limit'' (-250),
      fc_gap_reset_secs = fleet_int t ''feed_gap_reset_secs'' 300, fc_warmup_bars = fleet_int t ''warmup_bars'' 1600,
      fc_strategies = []\<rparr>"

definition fleet_strategy_of :: "string \<Rightarrow> fleet_strategy" where
  "fleet_strategy_of obj =
     (let p = extract_value obj ''params''
      in \<lparr>fs_id = fleet_str obj ''id'' [], fs_engine = fleet_str obj ''engine'' ''orb'',
          fs_enabled = fleet_bool obj ''enabled'' True, fs_params = (if p = [] then [CHR 0x7B, CHR 0x7D] else p)\<rparr>)"

datatype fleet_error = CannotOpen | NoStrategies | MissingId | ZeroStrategies

text \<open>The file's text, \<open>None\<close> when it cannot be opened.\<close>

definition fleet_from_file :: "string option \<Rightarrow> fleet_error + fleet_config" where
  "fleet_from_file file =
     (case file of None \<Rightarrow> Inl CannotOpen
      | Some t \<Rightarrow>
          (let arr = extract_value t ''strategies'';
               ss = map fleet_strategy_of (array_objects 0 Plain None arr)
           in if arr = [] \<or> hd arr \<noteq> CHR 0x5B then Inl NoStrategies
              else if \<exists>s \<in> set ss. fs_id s = [] then Inl MissingId
              else if ss = [] then Inl ZeroStrategies
              else Inr ((fleet_fields t)\<lparr>fc_strategies := ss\<rparr>)))"

subsection \<open>The parameters of one strategy\<close>

definition fleet_base :: "fleet_config \<Rightarrow> fleet_strategy \<Rightarrow> orb_config" where
  "fleet_base fc s = default_config\<lparr>
       c_orb_minutes := 5, c_sl_points := 15, c_trail_be_trigger := 3, c_trail_step := 10, c_trail_delay_secs := 300,
       c_trail_be_offset := 1, c_max_daily_trades := 3, c_last_entry_hour := 23, c_eod_flatten_hour := 15,
       c_eod_flatten_min := 55, c_stop_cooldown_secs := 5, c_qty := 1, c_session_open_hour := 9,
       c_session_open_min := 30, c_trailing_drawdown_cap := 1000000000, c_consistency_cap_pct := 1,
       c_daily_loss_limit := fc_strategy_loss fc, c_commission_rt := fc_commission_rt fc, c_symbol := fc_symbol fc,
       c_exchange := fc_exchange fc, c_point_value := fc_point_value fc, c_account_label := fc_account_label fc,
       c_strategy := fs_id s, c_starting_balance := fc_starting_balance fc, c_dry_run := True\<rparr>"

definition fleet_orb_config :: "fleet_config \<Rightarrow> fleet_strategy \<Rightarrow> orb_config" where
  "fleet_orb_config fc st =
     (let d = fleet_base fc st; p = fs_params st; i = (\<lambda>k f. fleet_int p k (f d)); r = (\<lambda>k f. fleet_dbl p k (f d));
          b = (\<lambda>k f. fleet_bool p k (f d)); s = (\<lambda>k f. fleet_str p k (f d))
      in d\<lparr>
          c_orb_minutes := i ''orb_minutes'' c_orb_minutes, c_sl_points := r ''sl_points'' c_sl_points,
          c_trail_be_trigger := r ''trail_be_trigger'' c_trail_be_trigger,
          c_trail_step := r ''trail_step'' c_trail_step,
          c_trail_delay_secs := i ''trail_delay_secs'' c_trail_delay_secs,
          c_trail_be_offset := r ''trail_be_offset'' c_trail_be_offset,
          c_breakout_buffer := r ''breakout_buffer'' c_breakout_buffer,
          c_max_daily_trades := i ''max_daily_trades'' c_max_daily_trades,
          c_last_entry_hour := i ''last_entry_hour'' c_last_entry_hour,
          c_eod_flatten_hour := i ''eod_flatten_hour'' c_eod_flatten_hour,
          c_eod_flatten_min := i ''eod_flatten_min'' c_eod_flatten_min,
          c_news_blackout_min := i ''news_blackout_min'' c_news_blackout_min,
          c_stop_cooldown_secs := i ''stop_cooldown_secs'' c_stop_cooldown_secs, c_qty := i ''qty'' c_qty,
          c_session_open_hour := i ''session_open_hour'' c_session_open_hour,
          c_session_open_min := i ''session_open_min'' c_session_open_min,
          c_daily_loss_limit := r ''daily_loss_limit'' c_daily_loss_limit,
          c_fill_model := s ''fill_model'' c_fill_model,
          c_spread_gate_ticks := r ''spread_gate_ticks'' c_spread_gate_ticks,
          c_spread_gate_rel := r ''spread_gate_rel'' c_spread_gate_rel,
          c_imbalance_min := r ''imbalance_min'' c_imbalance_min,
          c_microprice_lead := b ''microprice_lead'' c_microprice_lead,
          c_imbalance_max := r ''imbalance_max'' c_imbalance_max,
          c_book_exit_flip := r ''book_exit_flip'' c_book_exit_flip,
          c_book_be_on_flip := b ''book_be_on_flip'' c_book_be_on_flip,
          c_book_tp_imbalance := r ''book_tp_imbalance'' c_book_tp_imbalance,
          c_book_tp_min_pts := r ''book_tp_min_pts'' c_book_tp_min_pts,
          c_book_size_agree := i ''book_size_agree'' c_book_size_agree,
          c_fill_wait_secs := i ''fill_wait_secs'' c_fill_wait_secs, c_tp_points := r ''tp_points'' c_tp_points,
          c_tp_r := r ''tp_r'' c_tp_r, c_rvol_min := r ''rvol_min'' c_rvol_min,
          c_rvol_max := r ''rvol_max'' c_rvol_max, c_rvol_bars := i ''rvol_bars'' c_rvol_bars,
          c_vt_risk_usd := r ''vt_risk_usd'' c_vt_risk_usd, c_vt_qty_max := i ''vt_qty_max'' c_vt_qty_max,
          c_regime_exit_min_eff := r ''regime_exit_min_eff'' c_regime_exit_min_eff,
          c_trail_step_trend := r ''trail_step_trend'' c_trail_step_trend,
          c_trail_step_range := r ''trail_step_range'' c_trail_step_range,
          c_tp_r_range := r ''tp_r_range'' c_tp_r_range,
          c_regime_min_range_atr := r ''regime_min_range_atr'' c_regime_min_range_atr,
          c_regime_max_range_atr := r ''regime_max_range_atr'' c_regime_max_range_atr,
          c_regime_min_eff := r ''regime_min_eff'' c_regime_min_eff,
          c_regime_max_eff := r ''regime_max_eff'' c_regime_max_eff,
          c_regime_min_move_atr := r ''regime_min_move_atr'' c_regime_min_move_atr,
          c_regime_max_move_atr := r ''regime_max_move_atr'' c_regime_max_move_atr,
          c_regime_with_move := i ''regime_with_move'' c_regime_with_move,
          c_regime_min_minutes := i ''regime_min_minutes'' c_regime_min_minutes\<rparr>)"

subsection \<open>A fleet file that is written is read back\<close>

text \<open>Text whose brackets of either kind close inside it, outside strings.\<close>

fun nested :: "int \<Rightarrow> int \<Rightarrow> scan \<Rightarrow> string \<Rightarrow> bool" where
  "nested k b m [] = (k = 0 \<and> b = 0 \<and> m = Plain)"
| "nested k b m (c # cs) =
     (let k' = k + opens m CHR 0x5B c - opens m CHR 0x5D c; b' = b + opens m CHR 0x7B c - opens m CHR 0x7D c
      in 0 \<le> k' \<and> 0 \<le> b' \<and> nested k' b' (next_scan m c) cs)"

definition object_text :: "string \<Rightarrow> bool" where
  "object_text t = (2 \<le> length t \<and> hd t = CHR 0x7B \<and> last t = CHR 0x7D \<and> nested 0 0 Plain (butlast (tl t)))"

fun commas :: "string list \<Rightarrow> string" where
  "commas [] = []"
| "commas [t] = t"
| "commas (t # u # us) = t @ CHR '','' # commas (u # us)"

lemma opens_bounds: "opens m op c = 0 \<or> opens m op c = 1" "opens m CHR 0x7B c = 1 \<Longrightarrow> opens m CHR 0x7D c = 0"
    "opens m CHR 0x7D c = 1 \<Longrightarrow> opens m CHR 0x5B c = 0" "opens m CHR 0x7D c = 1 \<Longrightarrow> opens m CHR 0x5D c = 0"
    "opens m CHR 0x5D c = 1 \<Longrightarrow> opens m CHR 0x5B c = 0"
  by (auto simp: opens_def)

lemma nested_objects:
  "nested k b m t \<Longrightarrow> 0 \<le> k \<Longrightarrow> 0 \<le> b \<Longrightarrow>
   array_objects (k + b + 2) m (Some a) (t @ r) = array_objects 2 Plain (Some (a @ t)) r"
proof (induction k b m t arbitrary: a rule: nested.induct)
  case (2 k b m c cs)
  define k' where "k' = k + opens m CHR 0x5B c - opens m CHR 0x5D c"
  define b' where "b' = b + opens m CHR 0x7B c - opens m CHR 0x7D c"
  have n: "0 \<le> k'" "0 \<le> b'" "nested k' b' (next_scan m c) cs" using 2(2) by (simp_all add: k'_def b'_def Let_def)
  have d: "k + b + 2 + opens m CHR 0x7B c + opens m CHR 0x5B c - opens m CHR 0x7D c - opens m CHR 0x5D c = k' + b' + 2"
    by (simp add: k'_def b'_def)
  have "array_objects (k + b + 2) m (Some a) ((c # cs) @ r) = array_objects (k' + b' + 2) (next_scan m c) (Some (a @ [c])) (cs @ r)"
    using n(1,2) 2(3,4) unfolding append_Cons array_objects.simps(2) Let_def d by simp
  also have "\<dots> = array_objects 2 Plain (Some ((a @ [c]) @ cs)) r"
    using 2(1) [OF k'_def b'_def, of "a @ [c]"] n by blast
  finally show ?case by simp
qed simp

lemma nested_brackets:
  "nested k b m t \<Longrightarrow> 0 \<le> k \<Longrightarrow>
   balanced CHR 0x5B CHR 0x5D (k + 1) m (t @ r) = map_option ((@) t) (balanced CHR 0x5B CHR 0x5D 1 Plain r)"
proof (induction k b m t rule: nested.induct)
  case (1 k b m)
  then show ?case by (cases "balanced CHR 0x5B CHR 0x5D 1 Plain r") auto
next
  case (2 k b m c cs)
  define k' where "k' = k + opens m CHR 0x5B c - opens m CHR 0x5D c"
  define b' where "b' = b + opens m CHR 0x7B c - opens m CHR 0x7D c"
  have n: "0 \<le> k'" "nested k' b' (next_scan m c) cs" using 2(2) by (simp_all add: k'_def b'_def Let_def)
  have d: "k + 1 + opens m CHR 0x5B c - opens m CHR 0x5D c = k' + 1" by (simp add: k'_def)
  have "balanced CHR 0x5B CHR 0x5D (k + 1) m ((c # cs) @ r) = map_option ((#) c) (balanced CHR 0x5B CHR 0x5D (k' + 1) (next_scan m c) (cs @ r))"
    using n(1) unfolding append_Cons balanced.simps(2) Let_def d by simp
  also have "\<dots> = map_option ((#) c) (map_option ((@) cs) (balanced CHR 0x5B CHR 0x5D 1 Plain r))"
    using 2(1) [OF k'_def b'_def] n by simp
  finally show ?case by (simp add: option.map_comp comp_def)
qed

lemma object_parts:
  assumes "object_text t"
  obtains u where "t = CHR 0x7B # u @ [CHR 0x7D]" "nested 0 0 Plain u"
proof -
  obtain c cs where t: "t = c # cs" using assms by (cases t) (auto simp: object_text_def)
  then have "cs \<noteq> []" using assms by (auto simp: object_text_def)
  then have "cs = butlast cs @ [last cs]" by simp
  with assms show thesis using that [of "butlast cs"] by (auto simp: object_text_def t split: if_splits)
qed

lemma objects_of_array:
  "list_all object_text ts \<Longrightarrow> array_objects 1 Plain None (commas ts @ [CHR 0x5D]) = ts"
proof (induction ts rule: commas.induct)
  case 1 then show ?case by (simp add: opens_def next_scan_def)
next
  case (2 t)
  then obtain u where "t = CHR 0x7B # u @ [CHR 0x7D]" "nested 0 0 Plain u" using object_parts [of t] by auto
  then show ?case using nested_objects [of 0 0 Plain u "[CHR 0x7B]" "[CHR 0x7D, CHR 0x5D]"] by (simp add: Let_def opens_def next_scan_def)
next
  case (3 t t' ts)
  then obtain u where "t = CHR 0x7B # u @ [CHR 0x7D]" "nested 0 0 Plain u" using object_parts [of t] by auto
  then show ?case
    using nested_objects [of 0 0 Plain u "[CHR 0x7B]" "CHR 0x7D # CHR '','' # commas (t' # ts) @ [CHR 0x5D]"] 3 by (simp add: Let_def opens_def next_scan_def)
qed

lemma nested_append: "nested k b m t \<Longrightarrow> nested 0 0 Plain u \<Longrightarrow> nested k b m (t @ u)"
  by (induction k b m t rule: nested.induct) (simp_all add: Let_def)

lemma nested_close: "nested k b m t \<Longrightarrow> nested k (b + 1) m (t @ [CHR 0x7D])"
proof (induction k b m t rule: nested.induct)
  case (2 k b m c cs)
  have b: "b + 1 + opens m CHR 0x7B c - opens m CHR 0x7D c = b + opens m CHR 0x7B c - opens m CHR 0x7D c + 1" by simp
  show ?case using 2 unfolding append_Cons nested.simps(2) Let_def b by simp
qed (simp add: opens_def next_scan_def)

lemma nested_object: "object_text t \<Longrightarrow> nested 0 0 Plain t"
  using nested_close [of 0 0 Plain] by (auto elim!: object_parts simp: opens_def next_scan_def)

lemma nested_commas: "list_all object_text ts \<Longrightarrow> nested 0 0 Plain (commas ts)"
  proof (induction ts rule: commas.induct)
  case (3 t u us)
  then have "nested 0 0 Plain (CHR '','' # commas (u # us))" by (simp add: opens_def next_scan_def)
  with 3 show ?case using nested_append [OF nested_object, of t] by simp
qed (simp_all add: nested_object)


definition demo_strategy_text :: string where
  "demo_strategy_text = CHR 0x7B # quoted ''id'' @ CHR '':'' # quoted ''a'' @ [CHR '','', CHR '' ''] @ quoted ''params'' @
     CHR '':'' # [CHR 0x7B] @ quoted ''qty'' @ '':2'' @ [CHR 0x7D, CHR 0x7D]"


end
