(* ===== verification/Fleet.thy ===== *)
theory Fleet
  imports Exec_Feed Paper_Books Fleet_Config
begin

section \<open>The paper fleet: runners\<close>

text \<open>
  \<open>src/src/paper/paper_main.cpp\<close>.  A runner is one strategy, its engine and the paper broker it trades on.
  A signal an engine sends goes to its broker, which never calls back while it takes one; a trade a broker
  closes is told to the engine, the day's row and the account, and no broker reads those.  So the signals of
  an engine's call are handed over when it is done, the trades of a broker's call likewise.  What is read from
  the database is a record; the rows written are a list.  Log lines are left out.
\<close>

subsection \<open>Rows\<close>

record daily_row =
  dr_id :: string
  dr_date :: string
  dr_trades :: int
  dr_wins :: int
  dr_pnl :: real
  dr_halted :: bool
  dr_reason :: string

record account_row =
  ar_label :: string
  ar_starting :: real
  ar_equity :: real
  ar_peak :: real
  ar_day_pnl :: real
  ar_day_start :: real
  ar_date :: string
  ar_halted :: bool
  ar_reason :: string

datatype fleet_row =
    DailyRow daily_row
  | AccountRow account_row
  | PositionRow position_row
  | ControlDone int

subsection \<open>The broker of a runner\<close>

datatype desk = Simple paper_broker | Bracket bracket_broker

definition desk_out :: "desk \<Rightarrow> paper_out list" where
  "desk_out d = (case d of Simple b \<Rightarrow> bk_out b | Bracket b \<Rightarrow> bk_out b)"

definition desk_risk :: "desk \<Rightarrow> risk" where
  "desk_risk d = (case d of Simple b \<Rightarrow> bk_risk b | Bracket b \<Rightarrow> bk_risk b)"

definition desk_halted :: "desk \<Rightarrow> bool" where
  "desk_halted d = (case d of Simple b \<Rightarrow> bk_halted b | Bracket b \<Rightarrow> bk_halted b)"

definition desk_dir :: "desk \<Rightarrow> int" where
  "desk_dir d = (case d of Simple b \<Rightarrow> bk_dir b | Bracket b \<Rightarrow> bk_dir b)"

definition desk_entry_us :: "desk \<Rightarrow> int" where
  "desk_entry_us d = (case d of Simple b \<Rightarrow> bk_entry_us b | Bracket b \<Rightarrow> bk_entry_us b)"

definition desk_row :: "real \<Rightarrow> desk \<Rightarrow> position_row" where
  "desk_row lp d = (case d of Simple b \<Rightarrow> pb_position_row lp b | Bracket b \<Rightarrow> bb_position_row lp b)"

definition desk_signal :: "regime \<Rightarrow> orb_signal \<times> real \<times> string \<Rightarrow> desk \<Rightarrow> desk" where
  "desk_signal rg s d =
     (let (sig, px, why) = s
      in case d of Simple b \<Rightarrow> Simple (pb_on_signal (Some rg) sig why b) | Bracket b \<Rightarrow> Bracket (bb_on_signal (Some rg) sig why b))"

definition desk_quote :: "quote \<Rightarrow> desk \<Rightarrow> desk" where
  "desk_quote q d = (case d of Simple b \<Rightarrow> Simple (bk_on_quote q b) | Bracket b \<Rightarrow> Bracket (bk_on_quote q b))"

definition desk_flatten :: "string \<Rightarrow> int \<Rightarrow> real \<Rightarrow> desk \<Rightarrow> desk" where
  "desk_flatten why ts px d =
     (case d of Simple b \<Rightarrow> Simple (pb_flatten why ts px b) | Bracket b \<Rightarrow> Bracket (bb_flatten why ts px b))"

definition desk_reset_day :: "desk \<Rightarrow> desk" where
  "desk_reset_day d = (case d of Simple b \<Rightarrow> Simple (pb_reset_day b) | Bracket b \<Rightarrow> Bracket (bb_reset_day b))"

definition desk_warmup :: "bool \<Rightarrow> desk \<Rightarrow> desk" where
  "desk_warmup on d = (case d of Simple b \<Rightarrow> Simple (bk_set_warmup on b) | Bracket b \<Rightarrow> Bracket (bk_set_warmup on b))"

subsection \<open>Runners\<close>

record runner =
  rn_id :: string
  rn_engine :: engine
  rn_desk :: desk
  rn_trades :: int
  rn_wins :: int
  rn_pnl :: real
  rn_seed_total :: real
  rn_seed_day :: real
  rn_startup_halt :: string
  rn_saved :: "(int \<times> int \<times> int \<times> int \<times> int \<times> int \<times> int) option"

text \<open>\<open>row_sig\<close>: the row with its prices in cents and the open P&L in quarters.\<close>

definition row_sig :: "position_row \<Rightarrow> int \<times> int \<times> int \<times> int \<times> int \<times> int \<times> int" where
  "row_sig r =
     (let cents = (\<lambda>x. round_half_even (x * 100))
      in (pr_dir r, pr_qty r, cents (pr_entry r), pr_entry_us r, cents (pr_stop r), cents (pr_target r),
          if pr_dir r \<noteq> 0 then c_round (pr_unreal r * 4) else 0))"

definition rn_last_price :: "runner \<Rightarrow> real" where
  "rn_last_price r = (case rn_desk r of Simple b \<Rightarrow> en_last (rn_engine r) | Bracket b \<Rightarrow> bk_last_price b)"

definition rn_halt :: "string \<Rightarrow> runner \<Rightarrow> runner" where
  "rn_halt why r = r\<lparr>rn_engine := en_halt why (rn_engine r)\<rparr>"

definition rn_reset :: "runner \<Rightarrow> runner" where
  "rn_reset r = r\<lparr>rn_engine := en_reset (rn_engine r)\<rparr>"

text \<open>A call of the engine: its signals go to the broker.\<close>

definition engine_call :: "regime \<Rightarrow> (engine \<Rightarrow> engine) \<Rightarrow> runner \<Rightarrow> runner" where
  "engine_call rg f r =
     (let g = f (rn_engine r) in r\<lparr>rn_engine := en_clear g, rn_desk := fold (desk_signal rg) (en_out g) (rn_desk r)\<rparr>)"

definition rn_quote :: "regime \<Rightarrow> real \<Rightarrow> quote \<Rightarrow> runner \<Rightarrow> runner" where
  "rn_quote rg tick q r =
     (let r1 = r\<lparr>rn_desk := desk_quote q (rn_desk r)\<rparr>
      in case rn_engine r1 of
           ETrend s \<Rightarrow> engine_call rg (\<lambda>g. ETrend (trend_on_quote (q_ts_us q) (q_bid q) (q_bid_sz q) (q_ask q) (q_ask_sz q) tick s)) r1
         | _ \<Rightarrow> r1)"

definition gap_resettable :: "runner \<Rightarrow> bool" where
  "gap_resettable r =
     (case rn_engine r of EMtf s \<Rightarrow> False
      | g \<Rightarrow> desk_dir (rn_desk r) = 0 \<and> \<not> desk_halted (rn_desk r) \<and> \<not> en_halted g)"

definition rn_release :: "runner \<Rightarrow> runner" where
  "rn_release r = r\<lparr>rn_engine := en_closed FLATTEN_EOD 0 (rn_engine r)\<rparr>"

definition reseed_after_warmup :: "runner \<Rightarrow> runner" where
  "reseed_after_warmup r =
     r\<lparr>rn_engine := (case rn_engine r of
        EMtf s \<Rightarrow> EMtf (mtf_seed_state (rn_trades r) (rn_pnl r) (rn_seed_total r + (rn_pnl r - rn_seed_day r)) s)
      | g \<Rightarrow> en_seed_trades (rn_trades r) g)\<rparr>"

definition rn_calendar :: "bool \<Rightarrow> bool \<Rightarrow> real \<Rightarrow> runner \<Rightarrow> runner" where
  "rn_calendar today tomorrow atr r =
     (case rn_engine r of ETrend s \<Rightarrow> r\<lparr>rn_engine := ETrend (trend_day_atr atr (trend_event_days today tomorrow s))\<rparr> | _ \<Rightarrow> r)"

subsection \<open>Closed trades\<close>

text \<open>The accounting of one runner's broker: the runner, the account and the rows written.\<close>

type_synonym accounting = "runner \<times> envelope \<times> fleet_row list"

definition trade_closed :: "string \<Rightarrow> trade_row \<Rightarrow> accounting \<Rightarrow> accounting" where
  "trade_closed date t k =
     (let (r0, a0, rows) = k;
          r = r0\<lparr>rn_trades := rn_trades r0 + 1, rn_wins := (if tr_pnl_usd t > 0 then rn_wins r0 + 1 else rn_wins r0),
                 rn_pnl := rn_pnl r0 + tr_pnl_usd t\<rparr>;
          sig = (if tr_direction t = ''LONG'' then BUY else SELL);
          g = (case rn_engine r of
                 EMtf s \<Rightarrow> if tr_reason t = ''restart_flatten'' then EMtf s else en_closed sig (tr_pnl_usd t) (EMtf s)
               | g \<Rightarrow> en_closed sig (tr_pnl_usd t) g);
          row = \<lparr>dr_id = rn_id r, dr_date = date, dr_trades = rn_trades r, dr_wins = rn_wins r, dr_pnl = rn_pnl r,
                 dr_halted = desk_halted (rn_desk r), dr_reason = rk_reason (desk_risk (rn_desk r))\<rparr>;
          (a, why) = ae_on_trade_close (tr_pnl_usd t) a0
      in (r\<lparr>rn_engine := g\<rparr>, if why \<noteq> [] then ae_set_halt why a else a, rows @ [DailyRow row]))"

text \<open>A call of the broker, and what it tells of.\<close>

definition desk_call :: "string \<Rightarrow> (desk \<Rightarrow> desk) \<Rightarrow> accounting \<Rightarrow> accounting" where
  "desk_call date f k =
     (let (r, a, rows) = k; d = rn_desk r; e = f d
      in fold (trade_closed date) (drop (length (reported (desk_out d))) (reported (desk_out e))) (r\<lparr>rn_desk := e\<rparr>, a, rows))"

subsection \<open>The fleet\<close>

text \<open>
  The bars of the reference symbol, the quotes read ahead, and the state of the loop.  \<open>fl_clock\<close> is the
  last replayed tick, \<open>fl_replay\<close> the end of the replay when there is one.
\<close>

record reference =
  rb_wm :: int
  rb_min :: int
  rb_high :: real
  rb_low :: real
  rb_last :: real

record quote_row =
  br_ts :: int
  br_bid :: "(real \<times> int) option"
  br_ask :: "(real \<times> int) option"

record quote_feed =
  qf_wm :: int
  qf_buf :: "quote list"
  qf_bid :: "real \<times> int"
  qf_ask :: "real \<times> int"

record fleet =
  fl_cfg :: fleet_config
  fl_runners :: "runner list"
  fl_account :: envelope
  fl_regime :: regime
  fl_date :: string
  fl_warm_date :: string
  fl_event :: bool
  fl_event_next :: bool
  fl_warming :: bool
  fl_warm_until :: int
  fl_wm :: int
  fl_quotes :: quote_feed
  fl_ref :: reference
  fl_prev_ts :: int
  fl_eod_min :: int
  fl_last_price :: real
  fl_replay :: "int option"
  fl_clock :: int
  fl_ctl_ms :: int
  fl_flush_ms :: int
  fl_rows :: "fleet_row list"

text \<open>What one round of the loop finds: the time, the tables, the dashboard's orders and the calendar.\<close>

record fleet_env =
  fe_now :: int
  fe_ticks :: "orb_tick list"
  fe_bbo :: "quote_row list"
  fe_ref :: "orb_tick list"
  fe_controls :: "(int \<times> string \<times> string) list"
  fe_atr :: "string \<Rightarrow> real"
  fe_event :: "string \<Rightarrow> bool"
  fe_event_next :: "string \<Rightarrow> bool"

text \<open>In a replay the store writes trades only.\<close>

definition put_rows :: "fleet_row list \<Rightarrow> fleet \<Rightarrow> fleet" where
  "put_rows rows f = (if fl_replay f \<noteq> None then f else f\<lparr>fl_rows := fl_rows f @ rows\<rparr>)"

text \<open>Every runner's accounting in turn, over the one account.\<close>

fun each_runner :: "(accounting \<Rightarrow> accounting) \<Rightarrow> runner list \<Rightarrow> envelope \<Rightarrow> fleet_row list \<Rightarrow> runner list \<times> envelope \<times> fleet_row list" where
  "each_runner h [] a rows = ([], a, rows)"
| "each_runner h (r # rs) a rows =
     (let (r1, a1, rows1) = h (r, a, rows); (rs1, a2, rows2) = each_runner h rs a1 rows1 in (r1 # rs1, a2, rows2))"

definition with_books :: "(accounting \<Rightarrow> accounting) \<Rightarrow> fleet \<Rightarrow> fleet" where
  "with_books h f =
     (let (rs, a, rows) = each_runner h (fl_runners f) (fl_account f) []
      in put_rows rows (f\<lparr>fl_runners := rs, fl_account := a\<rparr>))"

definition with_runners :: "(runner \<Rightarrow> runner) \<Rightarrow> fleet \<Rightarrow> fleet" where
  "with_runners h f = f\<lparr>fl_runners := map h (fl_runners f)\<rparr>"

definition persist_account :: "fleet \<Rightarrow> fleet" where
  "persist_account f =
     (let a = fl_account f
      in put_rows [AccountRow \<lparr>ar_label = fc_account_label (fl_cfg f), ar_starting = ae_start a, ar_equity = ae_equity a,
           ar_peak = ae_peak a, ar_day_pnl = ae_day a,
           ar_day_start = (if ae_day_start a > 0 then ae_day_start a else ae_equity a - ae_day a),
           ar_date = fl_date f, ar_halted = ae_halted a, ar_reason = ae_reason a\<rparr>] f)"

text \<open>Halt-all: every strategy is halted and every position closed.\<close>

definition halt_runner :: "string \<Rightarrow> string \<Rightarrow> int \<Rightarrow> accounting \<Rightarrow> accounting" where
  "halt_runner date why now k =
     (let (r, a, rows) = k; r1 = rn_halt why r
      in desk_call date (desk_flatten ''account_halt'' now (rn_last_price r1)) (r1, a, rows))"

definition halt_all :: "int \<Rightarrow> string \<Rightarrow> fleet \<Rightarrow> fleet" where
  "halt_all now why f =
     persist_account (with_books (halt_runner (fl_date f) why now) (f\<lparr>fl_account := ae_set_halt why (fl_account f)\<rparr>))"

end
