(* ===== verification/Fleet_Loop.thy ===== *)
theory Fleet_Loop
  imports Fleet
begin

section \<open>The paper fleet: the loop\<close>

text \<open>
  The main loop of \<open>src/src/paper/paper_main.cpp\<close>: day rollover, warm-up, the guard against holes in the
  tick stream, one tick, the reference bars, the account's limits, the dashboard's orders and the flush; then
  the start of the process.  Pages of ticks are those of \<open>PaperDb::poll_ticks\<close>, which drops a cut group of one
  microsecond as the executor's feed does.  The clock of a round is read once.
\<close>

subsection \<open>Trading days\<close>

definition set_calendar :: "bool \<Rightarrow> bool \<Rightarrow> fleet \<Rightarrow> fleet" where
  "set_calendar today tomorrow f = with_runners (rn_calendar today tomorrow (rg_atr (fl_regime f))) f"

definition new_day_runner :: "runner \<Rightarrow> runner" where
  "new_day_runner r =
     (let r1 = (rn_reset r)\<lparr>rn_desk := desk_reset_day (rn_desk r), rn_trades := 0, rn_wins := 0, rn_pnl := 0\<rparr>
      in case rn_engine r1 of
           EMtf s \<Rightarrow> if \<not> desk_halted (rn_desk r1) then r1\<lparr>rn_engine := en_unhalt (EMtf s)\<rparr> else r1
         | _ \<Rightarrow> r1)"

definition fleet_roll_day :: "fleet_env \<Rightarrow> int \<Rightarrow> fleet \<Rightarrow> fleet" where
  "fleet_roll_day e now f =
     (let d = et_trade_date now;
          f1 = f\<lparr>fl_date := d, fl_regime := rg_set_atr d (fe_atr e d) (fl_regime f), fl_event := fe_event e d,
                 fl_event_next := fe_event_next e d\<rparr>;
          f2 = with_runners new_day_runner (set_calendar (fl_event f1) (fl_event_next f1) f1);
          f3 = f2\<lparr>fl_account := ae_reset_day (fl_account f2)\<rparr>;
          f4 = (if ae_halted (fl_account f3) then halt_all (fe_now e) (ae_reason (fl_account f3)) f3 else f3)
      in if d = fl_date f then f else persist_account f4)"

text \<open>During the warm-up only the strategies follow the days of the replayed tape.\<close>

definition warm_roll_to :: "fleet_env \<Rightarrow> string \<Rightarrow> fleet \<Rightarrow> fleet" where
  "warm_roll_to e d f =
     (if d = fl_warm_date f then f
      else set_calendar (fe_event e d) (fe_event_next e d)
             (with_runners rn_reset (f\<lparr>fl_warm_date := d, fl_regime := rg_set_atr d (fe_atr e d) (fl_regime f)\<rparr>)))"

definition end_warmup_runner :: "runner \<Rightarrow> runner" where
  "end_warmup_runner r =
     (let r1 = r\<lparr>rn_desk := desk_warmup False (rn_desk r)\<rparr>;
          r2 = (if en_in_pos (rn_engine r1) \<and> desk_dir (rn_desk r1) = 0 then rn_release r1 else r1);
          r3 = reseed_after_warmup r2
      in if rn_startup_halt r3 \<noteq> [] then rn_halt (rn_startup_halt r3) r3 else r3)"

definition fleet_end_warmup :: "fleet_env \<Rightarrow> fleet \<Rightarrow> fleet" where
  "fleet_end_warmup e f =
     (let f0 = f\<lparr>fl_warming := False\<rparr>;
          f1 = (if fl_warm_date f0 \<noteq> fl_date f0 then warm_roll_to e (fl_date f0) f0 else f0);
          f2 = f1\<lparr>fl_regime := rg_set_atr (fl_date f1) (fe_atr e (fl_date f1)) (fl_regime f1)\<rparr>
      in with_runners end_warmup_runner (set_calendar (fl_event f2) (fl_event_next f2) f2))"

subsection \<open>Holes in the tick stream\<close>

lemma usable_subset: "set (usable_rows ts rows) \<subseteq> set rows"
proof -
  have "set (dropWhile P (rev rows)) \<subseteq> set rows" for P using set_dropWhileD [of _ P "rev rows"] by auto
  then show ?thesis by (simp add: usable_rows_def Let_def)
qed

lemma fewer_beyond:
  "x \<in> set table \<Longrightarrow> wm < ts x \<Longrightarrow> length (filter (\<lambda>r. ts x < ts r) table) < length (filter (\<lambda>r. (wm::int) < ts r) table)"
proof (induction table)
  case (Cons t us)
  have le: "length (filter (\<lambda>r. ts x < ts r) vs) \<le> length (filter (\<lambda>r. wm < ts r) vs)" for vs
    using Cons.prems(2) by (induction vs) auto
  show ?case using Cons le [of us] by (cases "x \<in> set us") auto
qed simp

text \<open>The pages of \<open>poll_ticks_until\<close>, one behind the other.\<close>

function pages_until :: "orb_tick list \<Rightarrow> int \<Rightarrow> int \<Rightarrow> orb_tick list" where
  "pages_until table wm til =
     (let page = usable_rows t_ts (query_page t_ts wm (filter (\<lambda>t. t_ts t \<le> til) table))
      in if page = [] then [] else page @ pages_until table (t_ts (last page)) til)"
  by pat_completeness auto

termination
proof (relation "measure (\<lambda>(table, wm, til). length (filter (\<lambda>t. wm < t_ts t) table))")
  fix table wm til page
  assume page: "page = usable_rows t_ts (query_page t_ts wm (filter (\<lambda>t. t_ts t \<le> til) table))" and ne: "page \<noteq> []"
  have "set page \<subseteq> set (query_page t_ts wm (filter (\<lambda>t. t_ts t \<le> til) table))"
    unfolding page by (rule usable_subset)
  also have "\<dots> \<subseteq> {t \<in> set table. wm < t_ts t}"
    unfolding query_page_def by (auto dest: in_set_takeD)
  finally have "last page \<in> set table" "wm < t_ts (last page)" using last_in_set [OF ne] by auto
  then show "((table, t_ts (last page), til), table, wm, til) \<in> measure (\<lambda>(table, wm, til). length (filter (\<lambda>t. wm < t_ts t) table))"
    by (simp only: in_measure prod.case fewer_beyond)
qed (rule wf_measure)

text \<open>The flat ORB strategies get the ticks of the day again, with their entries suppressed.\<close>

definition refeed_target :: "runner \<Rightarrow> bool" where
  "refeed_target r = (is_orb (rn_engine r) \<and> gap_resettable r)"

definition refeed_runner :: "regime \<Rightarrow> orb_tick list \<Rightarrow> runner \<Rightarrow> runner" where
  "refeed_runner rg ticks r =
     (let r1 = r\<lparr>rn_desk := desk_warmup True (rn_desk r)\<rparr>;
          r2 = fold (\<lambda>t. engine_call rg (en_tick t)) ticks r1;
          r3 = r2\<lparr>rn_desk := desk_warmup False (rn_desk r2)\<rparr>;
          r4 = (if en_in_pos (rn_engine r3) \<and> desk_dir (rn_desk r3) = 0 then rn_release r3 else r3)
      in r4\<lparr>rn_engine := en_seed_trades (rn_trades r4) (rn_engine r4)\<rparr>)"

definition refeed_orb :: "fleet_env \<Rightarrow> int \<Rightarrow> int \<Rightarrow> fleet \<Rightarrow> fleet" where
  "refeed_orb e start til f =
     (if start \<ge> til then f
      else with_runners (\<lambda>r. if refeed_target r then refeed_runner (fl_regime f) (pages_until (fe_ticks e) start til) r else r) f)"

definition gap_reset :: "runner \<Rightarrow> runner" where
  "gap_reset r =
     (if gap_resettable r then (let r1 = rn_reset r in r1\<lparr>rn_engine := en_seed_trades (rn_trades r1) (rn_engine r1)\<rparr>) else r)"

definition gap_guard :: "fleet_env \<Rightarrow> int \<Rightarrow> fleet \<Rightarrow> fleet" where
  "gap_guard e ts f =
     (let prev = fl_prev_ts f; f1 = with_runners gap_reset f;
          some = (\<exists>r \<in> set (fl_runners f). gap_resettable r)
      in if prev = 0 \<or> ts - prev \<le> fc_gap_reset_secs (fl_cfg f) * 1000000 then f
         else if \<not> fl_warming f1 \<and> some \<and> et_trade_date prev = et_trade_date ts
         then refeed_orb e (et_day_start_us ts) prev f1 else f1)"

subsection \<open>Quotes\<close>

text \<open>A row without a side keeps the side seen last; quotes with a side not seen yet are left out.\<close>

fun fill_quotes :: "quote_row list \<Rightarrow> real \<times> int \<Rightarrow> real \<times> int \<Rightarrow> quote list \<times> (real \<times> int) \<times> (real \<times> int)" where
  "fill_quotes [] bid ask = ([], bid, ask)"
| "fill_quotes (b # bs) bid0 ask0 =
     (let bid = (case br_bid b of None \<Rightarrow> bid0 | Some x \<Rightarrow> x); ask = (case br_ask b of None \<Rightarrow> ask0 | Some x \<Rightarrow> x);
          (qs, bid1, ask1) = fill_quotes bs bid ask
      in if fst bid \<le> 0 \<or> fst ask \<le> 0 then (qs, bid1, ask1)
         else (\<lparr>q_ts_us = br_ts b, q_bid = fst bid, q_ask = fst ask, q_bid_sz = snd bid, q_ask_sz = snd ask\<rparr> # qs, bid1, ask1))"

definition refill_quotes :: "quote_row list \<Rightarrow> quote_feed \<Rightarrow> quote_feed" where
  "refill_quotes table q =
     (let (qs, bid, ask) = fill_quotes (query_page br_ts (qf_wm q) table) (qf_bid q) (qf_ask q)
      in if qf_buf q \<noteq> [] then q
         else \<lparr>qf_wm = last_ts q_ts_us (qf_wm q) qs, qf_buf = qs, qf_bid = bid, qf_ask = ask\<rparr>)"

definition beyond :: "quote_row list \<Rightarrow> quote_feed \<Rightarrow> nat" where
  "beyond table q = length (filter (\<lambda>r. qf_wm q < br_ts r) table)"

lemma fill_quotes_rows: "set (map q_ts_us (fst (fill_quotes rows bid ask))) \<subseteq> br_ts ` set rows"
proof (induction rows arbitrary: bid ask)
  case (Cons b bs)
  define bid1 where "bid1 = (case br_bid b of None \<Rightarrow> bid | Some x \<Rightarrow> x)"
  define ask1 where "ask1 = (case br_ask b of None \<Rightarrow> ask | Some x \<Rightarrow> x)"
  obtain qs k l where "fill_quotes bs bid1 ask1 = (qs, k, l)" by (metis prod_cases3)
  then show ?case using Cons [of bid1 ask1] by (auto simp: Let_def simp flip: bid1_def ask1_def)
qed simp

lemma refill_progress:
  assumes "qf_buf q = []" and "qf_buf (refill_quotes table q) \<noteq> []"
  shows "beyond table (refill_quotes table q) < beyond table q"
proof -
  obtain qs bid ask where qs: "fill_quotes (query_page br_ts (qf_wm q) table) (qf_bid q) (qf_ask q) = (qs, bid, ask)"
    by (metis prod_cases3)
  have ne: "qs \<noteq> []" and wm: "qf_wm (refill_quotes table q) = q_ts_us (last qs)"
    using assms by (auto simp: refill_quotes_def qs last_ts_def)
  have "q_ts_us (last qs) \<in> br_ts ` set (query_page br_ts (qf_wm q) table)"
    using fill_quotes_rows [of "query_page br_ts (qf_wm q) table" "qf_bid q" "qf_ask q"] ne by (auto simp: qs)
  then obtain r where "r \<in> set table" "qf_wm q < br_ts r" "br_ts r = q_ts_us (last qs)"
    by (auto simp: query_page_def dest!: in_set_takeD)
  then show ?thesis using fewer_beyond [of r table "qf_wm q" br_ts] by (simp add: beyond_def wm)
qed

text \<open>The quotes up to a time, in order, and the stream behind them; a page is read when none is left.\<close>

function quotes_until :: "quote_row list \<Rightarrow> int \<Rightarrow> quote_feed \<Rightarrow> quote list \<times> quote_feed" where
  "quotes_until table ts q =
     (case qf_buf q of
        [] \<Rightarrow> ([], q)
      | c # cs \<Rightarrow> if ts < q_ts_us c then ([], q)
                  else (let q1 = q\<lparr>qf_buf := cs\<rparr>; q2 = (if cs = [] then refill_quotes table q1 else q1);
                            (rest, q3) = quotes_until table ts q2
                        in (c # rest, q3)))"
  by pat_completeness auto

termination
proof (relation "measures [\<lambda>(table, ts, q). beyond table q, \<lambda>(table, ts, q). length (qf_buf q)]")
  fix table ts q c cs q1 q2
  assume "qf_buf q = c # cs" "q1 = q\<lparr>qf_buf := cs\<rparr>" "q2 = (if cs = [] then refill_quotes table q1 else q1)"
  then show "((table, ts, q2), table, ts, q) \<in> measures [\<lambda>(table, ts, q). beyond table q, \<lambda>(table, ts, q). length (qf_buf q)]"
    using refill_progress [of q1 table]
    by (cases "qf_buf (refill_quotes table q1) = []") (auto simp: beyond_def refill_quotes_def last_ts_def split: prod.splits)
qed simp

declare quotes_until.simps [simp del] pages_until.simps [simp del]

definition fleet_quotes :: "fleet_env \<Rightarrow> int \<Rightarrow> fleet \<Rightarrow> fleet" where
  "fleet_quotes e ts f =
     (let (qs, q) = quotes_until (fe_bbo e) ts (refill_quotes (fe_bbo e) (fl_quotes f))
      in with_runners (fold (rn_quote (fl_regime f) (fc_tick_size (fl_cfg f))) qs) (f\<lparr>fl_quotes := q\<rparr>))"

subsection \<open>One tick\<close>

text \<open>A replayed tick older than a resumed position is none of its business.\<close>

definition too_early :: "bool \<Rightarrow> int \<Rightarrow> runner \<Rightarrow> bool" where
  "too_early warming ts r = (warming \<and> desk_dir (rn_desk r) \<noteq> 0 \<and> ts < desk_entry_us (rn_desk r))"

definition minute_check :: "int \<Rightarrow> fleet \<Rightarrow> fleet" where
  "minute_check ts f =
     (let (h, m) = utc_to_et ts
      in if h * 60 + m = fl_eod_min f then f
         else with_runners (\<lambda>r. if too_early (fl_warming f) ts r then r else engine_call (fl_regime f) (en_eod h m) r)
                (f\<lparr>fl_eod_min := h * 60 + m\<rparr>))"

text \<open>The broker first, with the bracket the strategy has left: a signal is filled on the next tick.\<close>

definition desk_tick :: "regime \<Rightarrow> orb_tick \<Rightarrow> engine \<Rightarrow> desk \<Rightarrow> desk" where
  "desk_tick rg t g d =
     (case d of
        Simple b \<Rightarrow> Simple (pb_on_tick (Some rg) t b)
      | Bracket b \<Rightarrow> (case g of
            EMtf s \<Rightarrow> Bracket (bb_on_tick t (ps_stop (mt_pos s)) (ps_tp (mt_pos s))
                        (qty_calc (mt_cfg s) (in_atr (mt_ind s)) (gd_equity (mt_guard s))) b)
          | _ \<Rightarrow> d))"

definition tick_runner :: "bool \<Rightarrow> string \<Rightarrow> regime \<Rightarrow> orb_tick \<Rightarrow> accounting \<Rightarrow> accounting" where
  "tick_runner warming date rg t k =
     (let r0 = fst k; (r, a, rows) = desk_call date (desk_tick rg t (rn_engine r0)) k
      in if too_early warming (t_ts t) r0 then k else (engine_call rg (en_tick t) r, a, rows))"

definition fleet_tick :: "fleet_env \<Rightarrow> orb_tick \<Rightarrow> fleet \<Rightarrow> fleet" where
  "fleet_tick e t f =
     (let ts = t_ts t;
          f1 = (if fl_warming f \<and> ts \<ge> fl_warm_until f then fleet_end_warmup e f else f);
          f2 = (if fl_warming f1 then warm_roll_to e (et_trade_date ts) f1 else fleet_roll_day e ts f1);
          f3 = (gap_guard e ts f2)\<lparr>fl_prev_ts := ts, fl_wm := ts\<rparr>;
          f4 = (if fl_replay f3 \<noteq> None then f3\<lparr>fl_clock := ts\<rparr> else f3);
          f5 = minute_check ts (fleet_quotes e ts f4);
          (h, m) = utc_to_et ts;
          f6 = f5\<lparr>fl_last_price := t_price t,
                  fl_regime := rg_on_tick (if fl_warming f5 then fl_warm_date f5 else fl_date f5) h m ts (t_price t)
                    (of_int (t_size t)) (fl_regime f5)\<rparr>
      in with_books (tick_runner (fl_warming f6) (fl_date f6) (fl_regime f6) t) f6)"

subsection \<open>One round\<close>

text \<open>A tick of the reference symbol; a bar that is complete goes to the strategies.\<close>

definition reference_runner :: "real \<Rightarrow> real \<Rightarrow> real \<Rightarrow> runner \<Rightarrow> runner" where
  "reference_runner high low cls r =
     (case rn_engine r of
        EMtf s \<Rightarrow> if mc_reference_symbol (mt_cfg s) \<noteq> [] then r\<lparr>rn_engine := EMtf (mtf_reference_bar high low cls s)\<rparr> else r
      | ETrend s \<Rightarrow> r\<lparr>rn_engine := ETrend (trend_reference_bar cls s)\<rparr>
      | EOrb s \<Rightarrow> r)"

definition reference_tick :: "orb_tick \<Rightarrow> fleet \<Rightarrow> fleet" where
  "reference_tick t f =
     (let b = (fl_ref f)\<lparr>rb_wm := t_ts t\<rparr>; minute = cdiv (t_ts t) 60000000; px = t_price t
      in if rb_min b < 0 then f\<lparr>fl_ref := b\<lparr>rb_min := minute, rb_high := px, rb_low := px, rb_last := px\<rparr>\<rparr>
         else if minute \<noteq> rb_min b
         then (with_runners (reference_runner (rb_high b) (rb_low b) (rb_last b)) f)
                \<lparr>fl_ref := b\<lparr>rb_min := minute, rb_high := px, rb_low := px, rb_last := px\<rparr>\<rparr>
         else f\<lparr>fl_ref := b\<lparr>rb_high := max (rb_high b) px, rb_low := min (rb_low b) px, rb_last := px\<rparr>\<rparr>)"

definition reference_feed :: "fleet_env \<Rightarrow> fleet \<Rightarrow> fleet" where
  "reference_feed e f =
     (if fc_reference_symbol (fl_cfg f) = [] then f
      else fold reference_tick (usable_rows t_ts (query_page t_ts (rb_wm (fl_ref f)) (fe_ref e))) f)"

text \<open>The account's limits, unless it is halted already.\<close>

definition account_check :: "fleet_env \<Rightarrow> fleet \<Rightarrow> fleet" where
  "account_check e f =
     (let why = ae_check_limits (fl_account f)
      in if \<not> ae_halted (fl_account f) \<and> why \<noteq> [] then halt_all (fe_now e) why f else f)"

text \<open>An order of the dashboard, for the first runner of that name.\<close>

fun first_runner :: "string \<Rightarrow> (accounting \<Rightarrow> accounting) \<Rightarrow> runner list \<Rightarrow> envelope \<Rightarrow> fleet_row list \<Rightarrow> runner list \<times> envelope \<times> fleet_row list" where
  "first_runner i h [] a rows = ([], a, rows)"
| "first_runner i h (r # rs) a rows =
     (if rn_id r = i then (let (r1, a1, rows1) = h (r, a, rows) in (r1 # rs, a1, rows1))
      else (let (rs1, a1, rows1) = first_runner i h rs a rows in (r # rs1, a1, rows1)))"

definition control_runner :: "string \<Rightarrow> int \<Rightarrow> string \<Rightarrow> accounting \<Rightarrow> accounting" where
  "control_runner date now action k =
     (let (r, a, rows) = k
      in if action = ''disable'' then (rn_halt ''manual_disable'' r, a, rows)
         else if action = ''enable''
         then (if desk_halted (rn_desk r) then k else (r\<lparr>rn_engine := en_unhalt (rn_engine r)\<rparr>, a, rows))
         else if action = ''flatten'' then desk_call date (desk_flatten ''manual'' now (rn_last_price r)) k
         else k)"

definition control :: "int \<Rightarrow> int \<times> string \<times> string \<Rightarrow> fleet \<Rightarrow> fleet" where
  "control now c f =
     (let (n, i, action) = c;
          (rs, a, rows) = first_runner i (control_runner (fl_date f) now action) (fl_runners f) (fl_account f) []
      in put_rows (rows @ [ControlDone n]) (f\<lparr>fl_runners := rs, fl_account := a\<rparr>))"

definition controls :: "fleet_env \<Rightarrow> fleet \<Rightarrow> fleet" where
  "controls e f =
     (let ms = cdiv (fe_now e) 1000
      in if fl_replay f \<noteq> None \<or> ms - fl_ctl_ms f < 1000 then f
         else fold (control (fe_now e)) (fe_controls e) (f\<lparr>fl_ctl_ms := ms\<rparr>))"

text \<open>The rows of the positions that changed, and the account's.\<close>

definition flush_runner :: "real \<Rightarrow> runner \<Rightarrow> runner \<times> fleet_row list" where
  "flush_runner lp r =
     (let row = desk_row lp (rn_desk r)
      in if rn_saved r = Some (row_sig row) then (r, []) else (r\<lparr>rn_saved := Some (row_sig row)\<rparr>, [PositionRow row]))"

definition flush :: "fleet_env \<Rightarrow> fleet \<Rightarrow> fleet" where
  "flush e f =
     (let ms = cdiv (fe_now e) 1000; out = map (flush_runner (fl_last_price f)) (fl_runners f)
      in if fl_warming f \<or> ms - fl_flush_ms f < 5000 then f
         else persist_account (put_rows (concat (map snd out)) (f\<lparr>fl_flush_ms := ms, fl_runners := map fst out\<rparr>)))"

text \<open>The page of ticks of a round; \<open>None\<close> when the replay is over.\<close>

definition round_ticks :: "fleet_env \<Rightarrow> fleet \<Rightarrow> orb_tick list option" where
  "round_ticks e f =
     (let page = usable_rows t_ts (query_page t_ts (fl_wm f) (fe_ticks e))
      in case fl_replay f of None \<Rightarrow> Some page
         | Some until \<Rightarrow> if page = [] \<or> t_ts (hd page) > until then None
                         else Some (rev (dropWhile (\<lambda>t. t_ts t > until) (rev page))))"

definition fleet_round :: "fleet_env \<Rightarrow> fleet \<Rightarrow> fleet option" where
  "fleet_round e f =
     (case round_ticks e f of
        None \<Rightarrow> None
      | Some ticks \<Rightarrow>
          (let f1 = fold (fleet_tick e) ticks f;
               f2 = (if fl_warming f1 \<and> (ticks = [] \<or> t_ts (last ticks) + 5000000 \<ge> fl_warm_until f1)
                     then fleet_end_warmup e f1 else f1);
               f3 = account_check e (reference_feed e f2);
               clock = (if fl_replay f3 = None then fe_now e else fl_clock f3);
               (h, m) = utc_to_et clock;
               f4 = (if fl_warming f3 then f3 else with_runners (engine_call (fl_regime f3) (en_eod h m)) f3)
           in Some (flush e (controls e (fleet_roll_day e clock f4)))))"

end
