(* ===== verification/Fleet_Start.thy ===== *)
theory Fleet_Start
  imports Fleet_Loop
begin

section \<open>The paper fleet: start\<close>

text \<open>
  \<open>main\<close> of \<open>src/src/paper/paper_main.cpp\<close> up to its loop: one runner per enabled strategy of a known engine,
  seeded from the database, then the account.  What the database answers is a record.  The lines of the
  registry (\<open>upsert_strategy\<close>) and of the start ledger are left out.
\<close>

subsection \<open>What the database knows\<close>

record strategy_history =
  sh_enabled :: "bool option"
  sh_total :: real
  sh_today :: real
  sh_count :: int
  sh_daily :: "daily_row option"
  sh_position :: "position_row option"

record start_history =
  sx_now_us :: int
  sx_env :: fleet_env
  sx_history :: "string \<Rightarrow> strategy_history"
  sx_peak :: "real option"
  sx_warm_from :: int

subsection \<open>One runner\<close>

text \<open>\<open>None\<close> when the parameters of a scalper are refused: nothing catches that.\<close>

definition seat :: "fleet_config \<Rightarrow> fleet_strategy \<Rightarrow> (engine \<times> desk) option" where
  "seat fc st =
     (let c = fleet_orb_config fc st; i = fs_id st; acct = fc_account_label fc; sym = fc_symbol fc;
          simple = Simple (pb_new i acct sym c (fc_tick_size fc) (fc_slippage_ticks fc) True True)
      in if fs_engine st = ''mtf_scalper'' then
           (case mtf_from_json_string (fs_params st) of
              Inl err \<Rightarrow> None
            | Inr mc \<Rightarrow>
                (case mtf_new (mc\<lparr>mc_point_value := fc_point_value fc, mc_tick_size := fc_tick_size fc,
                                  mc_starting_balance := fc_starting_balance fc\<rparr>) of
                   None \<Rightarrow> None
                 | Some s \<Rightarrow> Some (EMtf (s\<lparr>mt_cb := True\<rparr>),
                               Bracket (bb_new i acct sym c (fc_tick_size fc) (fc_slippage_ticks fc) True True))))
         else if fs_engine st = ''trend'' then Some (ETrend (trend_set_callback (trend_new (trend_from_json (fs_params st)) c)), simple)
         else Some (EOrb (set_signal_callback (st_new c)), simple))"

definition seed_desk :: "strategy_history \<Rightarrow> desk \<Rightarrow> desk" where
  "seed_desk h d =
     (let seed = (\<lambda>k. risk_seed_daily (sh_today h) (risk_seed_total (sh_total h) k))
      in case d of
           Simple b \<Rightarrow> Simple (pb_seed_entries (sh_count h) (b\<lparr>bk_risk := seed (bk_risk b)\<rparr>))
         | Bracket b \<Rightarrow> Bracket (b\<lparr>bk_risk := seed (bk_risk b)\<rparr>))"

definition seed_engine :: "strategy_history \<Rightarrow> engine \<Rightarrow> engine" where
  "seed_engine h g =
     (case g of EMtf s \<Rightarrow> EMtf (mtf_seed_state (sh_count h) (sh_today h) (sh_total h) s) | _ \<Rightarrow> en_seed_trades (sh_count h) g)"

definition startup_halt :: "string \<Rightarrow> runner \<Rightarrow> runner" where
  "startup_halt why r = (rn_halt why r)\<lparr>rn_startup_halt := why\<rparr>"

definition resume_daily :: "strategy_history \<Rightarrow> runner \<Rightarrow> runner" where
  "resume_daily h r =
     (case sh_daily h of None \<Rightarrow> r
      | Some d \<Rightarrow> (let r1 = r\<lparr>rn_trades := dr_trades d, rn_wins := dr_wins d, rn_pnl := dr_pnl d\<rparr>
                  in if dr_halted d then startup_halt (''resumed_daily_halt: '' @ dr_reason d) r1 else r1))"

text \<open>A resumed trend position is told to the strategy; a scalper's is closed later.\<close>

definition resume_position :: "strategy_history \<Rightarrow> runner \<Rightarrow> runner" where
  "resume_position h r =
     (case sh_position h of None \<Rightarrow> r
      | Some p \<Rightarrow>
          (case rn_desk r of
             Simple b \<Rightarrow> r\<lparr>rn_desk := Simple (pb_resume (pr_dir p) (pr_qty p) (pr_entry p) (pr_stop p) (pr_entry_us p) b),
                           rn_engine := (case rn_engine r of
                             ETrend s \<Rightarrow> ETrend (trend_seed_position (if pr_dir p > 0 then BUY else SELL) (pr_entry_us p) s)
                           | g \<Rightarrow> g)\<rparr>
           | Bracket b \<Rightarrow> r\<lparr>rn_desk := Bracket (bb_resume (pr_dir p) (pr_qty p) (pr_entry p) (pr_stop p) (pr_entry_us p) b)\<rparr>))"

definition runner_seeded :: "fleet_strategy \<Rightarrow> strategy_history \<Rightarrow> engine \<times> desk \<Rightarrow> runner" where
  "runner_seeded st h gd =
     (let r0 = \<lparr>rn_id = fs_id st, rn_engine = fst gd, rn_desk = snd gd, rn_trades = 0, rn_wins = 0, rn_pnl = 0,
                rn_seed_total = sh_total h, rn_seed_day = sh_today h, rn_startup_halt = [], rn_saved = None\<rparr>;
          r1 = (if sh_enabled h = Some False then startup_halt ''manual_disabled'' r0 else r0);
          r2 = r1\<lparr>rn_desk := seed_desk h (rn_desk r1), rn_engine := seed_engine h (rn_engine r1)\<rparr>;
          r3 = resume_position h (resume_daily h r2)
      in if desk_halted (rn_desk r3) then startup_halt (''risk_halted_at_seed: '' @ rk_reason (desk_risk (rn_desk r3))) r3 else r3)"

text \<open>The scalper restarts flat: a position it held is closed at its entry.\<close>

definition restart_flatten :: "string \<Rightarrow> int \<Rightarrow> strategy_history \<Rightarrow> accounting \<Rightarrow> accounting" where
  "restart_flatten date now h k =
     (case rn_desk (fst k) of
        Bracket b \<Rightarrow> if sh_position h \<noteq> None then desk_call date (desk_flatten ''restart_flatten'' now 0) k else k
      | Simple b \<Rightarrow> k)"

definition runnable :: "fleet_strategy \<Rightarrow> bool" where
  "runnable st = (fs_enabled st \<and> fs_engine st \<in> {''orb'', ''mtf_scalper'', ''trend''})"

subsection \<open>The fleet\<close>

text \<open>The runners so far, the account, the rows written, and the sums of the P&L.\<close>

fun start_runners :: "fleet_config \<Rightarrow> start_history \<Rightarrow> string \<Rightarrow> real \<Rightarrow> fleet_strategy list \<Rightarrow> envelope \<Rightarrow>
    (runner list \<times> envelope \<times> fleet_row list \<times> real \<times> real) option" where
  "start_runners fc h date atr [] a = Some ([], a, [], 0, 0)"
| "start_runners fc h date atr (st # sts) a =
     (if \<not> runnable st then start_runners fc h date atr sts a
      else case seat fc st of
             None \<Rightarrow> None
           | Some gd \<Rightarrow>
               (let sh = sx_history h (fs_id st); e = sx_env h;
                    (r, a1, rows) = restart_flatten date (sx_now_us h) sh (runner_seeded st sh gd, a, []);
                    r1 = rn_calendar (fe_event e date) (fe_event_next e date) atr r
                in case start_runners fc h date atr sts a1 of
                     None \<Rightarrow> None
                   | Some (rs, a2, rows2, tot, day) \<Rightarrow>
                       Some (r1 # rs, a2, rows @ rows2, sh_total sh + tot, sh_today sh + day)))"

text \<open>\<open>window\<close> is the window of a replay; its trades go to the label \<open>audit\<close> unless one is given.\<close>

definition fleet_start :: "string option \<Rightarrow> (int \<times> int) option \<Rightarrow> string option \<Rightarrow> start_history \<Rightarrow> fleet option" where
  "fleet_start label window file h =
     (case fleet_from_file file of
        Inl err \<Rightarrow> None
      | Inr fc0 \<Rightarrow>
          (let fc = fc0\<lparr>fc_account_label := (case label of Some l \<Rightarrow> l
                        | None \<Rightarrow> if window \<noteq> None then ''audit'' else fc_account_label fc0)\<rparr>;
               clock = (case window of None \<Rightarrow> sx_now_us h | Some (s, til) \<Rightarrow> s);
               date = et_trade_date clock; e = sx_env h; atr = fe_atr e date;
               acct = ae_new (fc_starting_balance fc) (fc_daily_loss_limit fc) (fc_drawdown_cap fc);
               warm = (window = None \<and> fc_warmup_bars fc > 0);
               wm = (if window \<noteq> None then clock else if warm then sx_warm_from h else sx_now_us h - 300000000)
           in case start_runners fc h date atr (fc_strategies fc) acct of
                None \<Rightarrow> None
              | Some (rs, a, rows, tot, day) \<Rightarrow>
                  (let a1 = ae_seed tot day (case sx_peak h of None \<Rightarrow> fc_starting_balance fc | Some p \<Rightarrow> p) a;
                       f = \<lparr>fl_cfg = fc, fl_runners = (if warm then map (\<lambda>r. r\<lparr>rn_desk := desk_warmup True (rn_desk r)\<rparr>) rs else rs),
                            fl_account = a1, fl_regime = rg_set_atr date atr rg_new, fl_date = date, fl_warm_date = date,
                            fl_event = fe_event e date, fl_event_next = fe_event_next e date, fl_warming = warm,
                            fl_warm_until = (if warm then sx_now_us h - 1000000 else 0), fl_wm = wm,
                            fl_quotes = \<lparr>qf_wm = wm, qf_buf = [], qf_bid = (0, 0), qf_ask = (0, 0)\<rparr>,
                            fl_ref = \<lparr>rb_wm = wm, rb_min = -1, rb_high = 0, rb_low = 0, rb_last = 0\<rparr>, fl_prev_ts = 0,
                            fl_eod_min = -1, fl_last_price = 0, fl_replay = map_option snd window, fl_clock = clock,
                            fl_ctl_ms = 0, fl_flush_ms = 0, fl_rows = (if window \<noteq> None then [] else rows)\<rparr>;
                       f1 = persist_account f; why = ae_check_limits (fl_account f1)
                   in Some (if why \<noteq> [] then halt_all (fe_now e) why f1 else f1))))"

text \<open>A shutdown writes every position and the account.\<close>

definition fleet_stop :: "fleet \<Rightarrow> fleet" where
  "fleet_stop f =
     persist_account (put_rows (map (\<lambda>r. PositionRow (desk_row (fl_last_price f) (rn_desk r))) (fl_runners f)) f)"

end
