(* ===== verification/Fleet_Books.thy ===== *)
theory Fleet_Books
  imports Fleet_Start
begin

section \<open>The books of the fleet\<close>

text \<open>
  Every trade a broker closes reaches the account, once.  The locale \<open>conserving\<close> is a machine that keeps a
  quantity; for the fleet it is the account's total less the P&L the brokers have recorded.
\<close>

locale conserving =
  fixes step :: "'s \<Rightarrow> 'e \<Rightarrow> 's" and ok :: "'s \<Rightarrow> bool" and worth :: "'s \<Rightarrow> real"
  assumes ok_step: "ok s \<Longrightarrow> ok (step s e)" and worth_step: "ok s \<Longrightarrow> worth (step s e) = worth s"
begin

lemma ok_run: "ok s \<Longrightarrow> ok (run step s es)"
  by (induction es arbitrary: s) (simp_all add: ok_step)

lemma worth_run: "ok s \<Longrightarrow> worth (run step s es) = worth s"
  by (induction es arbitrary: s) (simp_all add: ok_step worth_step)

end

subsection \<open>What a broker is asked\<close>

definition desk_ok :: "desk \<Rightarrow> bool" where
  "desk_ok d = (case d of Simple b \<Rightarrow> booking (bk_cfg b) b | Bracket b \<Rightarrow> booking (bk_cfg b) b \<and> flip_ok b)"

definition desk_pnl :: "desk \<Rightarrow> real" where
  "desk_pnl d = sum_list (map tr_pnl_usd (recorded (desk_out d)))"

text \<open>A call of the broker, and one that closes no trade.\<close>

definition desk_moves :: "desk \<Rightarrow> desk \<Rightarrow> bool" where
  "desk_moves d e =
     (case d of
        Simple b \<Rightarrow> (\<exists>c. pb_fine c \<and> e = Simple (pb_step b c))
      | Bracket b \<Rightarrow> (\<exists>c. bb_fine c \<and> e = Bracket (bb_step b c)))"

definition desk_quiet :: "desk \<Rightarrow> desk \<Rightarrow> bool" where
  "desk_quiet d e = (desk_ok d \<longrightarrow> desk_ok e \<and> recorded (desk_out e) = recorded (desk_out d) \<and> reported (desk_out e) = reported (desk_out d))"

lemma desk_moves_books:
  assumes "desk_ok d" and "desk_moves d e"
  obtains trs where "desk_ok e" "recorded (desk_out e) = recorded (desk_out d) @ trs" "reported (desk_out e) = reported (desk_out d) @ trs"
proof (cases d)
  case (Simple b)
  with assms obtain c where b: "booking (bk_cfg b) b" "pb_fine c" "e = Simple (pb_step b c)"
    by (auto simp: desk_ok_def desk_moves_def)
  have "booking (bk_cfg b) (pb_step b c)" using pbl.ok_step [OF b(1,2)] .
  then have "desk_ok e" by (simp add: desk_ok_def b(3) booking_def)
  then show thesis using pbl.books_step [OF b(1,2)] that by (auto simp: desk_out_def Simple b(3))
next
  case (Bracket b)
  with assms obtain c where b: "booking (bk_cfg b) b \<and> flip_ok b" "bb_fine c" "e = Bracket (bb_step b c)"
    by (auto simp: desk_ok_def desk_moves_def)
  have "booking (bk_cfg b) (bb_step b c) \<and> flip_ok (bb_step b c)" using bbl.ok_step [OF b(1,2)] .
  then have "desk_ok e" by (simp add: desk_ok_def b(3) booking_def)
  then show thesis using bbl.books_step [OF b(1,2)] that by (auto simp: desk_out_def Bracket b(3))
qed

lemma desk_quiet_refl [simp]: "desk_quiet d d" by (simp add: desk_quiet_def)

lemma desk_quiet_trans: "desk_quiet d e \<Longrightarrow> desk_quiet e f \<Longrightarrow> desk_quiet d f"
  by (simp add: desk_quiet_def)

lemma quiet_desk:
  "bk_quiet b b' \<Longrightarrow> (bk_wf b \<Longrightarrow> bk_wf b') \<Longrightarrow> desk_quiet (Simple b) (Simple b')"
  "bk_quiet c c' \<Longrightarrow> (bk_wf c \<Longrightarrow> bk_wf c') \<Longrightarrow> (flip_ok c \<Longrightarrow> flip_ok c') \<Longrightarrow> desk_quiet (Bracket c) (Bracket c')"
  by (auto simp: desk_quiet_def desk_ok_def desk_out_def booking_def bk_quiet_def bk_fixed_def)

lemma desk_signal_quiet: "desk_quiet d (desk_signal rg s d)"
  by (cases d; cases s) (auto simp: desk_signal_def intro!: quiet_desk pb_signal_quiet bb_signal_quiet)

lemma desk_signals_quiet: "desk_quiet d (fold (desk_signal rg) ss d)"
  by (induction ss arbitrary: d) (auto intro: desk_quiet_trans desk_signal_quiet)

lemma desk_calls_quiet:
  "desk_quiet d (desk_quote q d)" "desk_quiet d (desk_reset_day d)" "desk_quiet d (desk_warmup on d)"
  by (cases d; auto simp: desk_quote_def desk_reset_day_def desk_warmup_def bk_on_quote_def pb_reset_day_def bb_reset_day_def
      bk_set_warmup_def Let_def bk_call_defs risk_simps flip_ok_def intro!: quiet_desk)+

lemma desk_movesI:
  "pb_fine c \<Longrightarrow> desk_moves (Simple b) (Simple (pb_step b c))" "bb_fine d \<Longrightarrow> desk_moves (Bracket b') (Bracket (bb_step b' d))"
  by (auto simp: desk_moves_def simp del: split_paired_Ex)

lemma desk_tick_moves: "desk_quiet d (desk_tick rg t g d) \<or> desk_moves d (desk_tick rg t g d)"
proof (cases d)
  case (Simple b)
  then have "desk_moves d (desk_tick rg t g d)"
    using desk_movesI(1) [of "(Some rg, PbTick t)" b] by (simp add: desk_tick_def)
  then show ?thesis ..
next
  case (Bracket b)
  show ?thesis
  proof (cases g)
    case (EMtf s)
    then have "desk_moves d (desk_tick rg t g d)"
      using desk_movesI(2) [of "(Some rg, BbTick t (ps_stop (mt_pos s)) (ps_tp (mt_pos s))
        (qty_calc (mt_cfg s) (in_atr (mt_ind s)) (gd_equity (mt_guard s))))" b] by (simp add: Bracket desk_tick_def)
    then show ?thesis ..
  qed (simp_all add: Bracket desk_tick_def)
qed

lemma desk_flatten_moves: "desk_moves d (desk_flatten why ts px d)"
proof (cases d)
  case (Simple b)
  then show ?thesis using desk_movesI(1) [of "(None, PbFlatten why ts px)" b] by (simp add: desk_flatten_def)
next
  case (Bracket b)
  then show ?thesis using desk_movesI(2) [of "(None, BbFlatten why ts px)" b] by (simp add: desk_flatten_def)
qed

subsection \<open>The accounting of one runner\<close>

text \<open>A halted account, or one within its limits.\<close>

definition latched :: "envelope \<Rightarrow> bool" where
  "latched a = (ae_check_limits a \<noteq> [] \<longrightarrow> ae_halted a)"

definition books_keep :: "accounting \<Rightarrow> accounting \<Rightarrow> bool" where
  "books_keep k l =
     (case k of (r, a, rows) \<Rightarrow> case l of (s, b, rows') \<Rightarrow>
        desk_ok (rn_desk r) \<longrightarrow>
          desk_ok (rn_desk s) \<and> ae_total b - desk_pnl (rn_desk s) = ae_total a - desk_pnl (rn_desk r) \<and> (latched a \<longrightarrow> latched b))"

lemma limits_check_halt: "ae_check_limits (ae_set_halt why a) = ae_check_limits a" "ae_total (ae_set_halt why a) = ae_total a"
  "ae_halted (ae_set_halt why a) = (why \<noteq> [])"
  by (simp_all add: ae_check_limits_def ae_set_halt_def ae_equity_def ae_halted_def)

lemma trade_closed_account:
  assumes "trade_closed date t (r, a, rows) = (r', a', rows')"
  shows "rn_desk r' = rn_desk r" and "ae_total a' = ae_total a + tr_pnl_usd t" and "latched a'"
proof -
  define a1 where "a1 = ae_book (tr_pnl_usd t) a"
  have a': "a' = (if ae_check_limits a1 \<noteq> [] then ae_set_halt (ae_check_limits a1) a1 else a1)" and "rn_desk r' = rn_desk r"
    using assms by (auto simp: trade_closed_def Let_def ae_on_trade_close_def a1_def)
  then show "rn_desk r' = rn_desk r" "latched a'" by (auto simp: latched_def limits_check_halt)
  have "ae_total a1 = ae_total a + tr_pnl_usd t" by (simp add: a1_def ae_book_def Let_def)
  then show "ae_total a' = ae_total a + tr_pnl_usd t" by (simp add: a' limits_check_halt)
qed

lemma trades_closed_account:
  "fold (trade_closed date) trs (r, a, rows) = (r', a', rows') \<Longrightarrow>
     rn_desk r' = rn_desk r \<and> ae_total a' = ae_total a + sum_list (map tr_pnl_usd trs) \<and> (latched a \<longrightarrow> latched a')"
proof (induction trs arbitrary: r a rows)
  case (Cons t ts)
  obtain r1 a1 rows1 where one: "trade_closed date t (r, a, rows) = (r1, a1, rows1)" by (metis prod_cases3)
  from Cons.IH [of r1 a1 rows1] Cons.prems trade_closed_account [OF one] show ?case by (simp add: one)
qed simp

lemma desk_call_keeps:
  assumes "desk_quiet (rn_desk (fst k)) (f (rn_desk (fst k))) \<or> desk_moves (rn_desk (fst k)) (f (rn_desk (fst k)))"
  shows "books_keep k (desk_call date f k)"
proof -
  obtain r a rows where k: "k = (r, a, rows)" by (metis prod_cases3)
  define e where "e = f (rn_desk r)"
  obtain r' a' rows' where l: "desk_call date f k = (r', a', rows')" by (metis prod_cases3)
  have fold: "fold (trade_closed date) (drop (length (reported (desk_out (rn_desk r)))) (reported (desk_out e))) (r\<lparr>rn_desk := e\<rparr>, a, rows) = (r', a', rows')"
    using l by (simp add: k desk_call_def Let_def e_def)
  show ?thesis
  proof (cases "desk_ok (rn_desk r)")
    case True
    then obtain trs where trs: "desk_ok e" "recorded (desk_out e) = recorded (desk_out (rn_desk r)) @ trs"
        "reported (desk_out e) = reported (desk_out (rn_desk r)) @ trs"
      using assms desk_moves_books [OF True, of e] by (auto simp: k e_def desk_quiet_def)
    then show ?thesis
      using trades_closed_account [of date trs "r\<lparr>rn_desk := e\<rparr>" a rows r' a' rows'] fold
      by (simp add: books_keep_def k l [unfolded k] desk_pnl_def)
  qed (simp add: books_keep_def k l [unfolded k])
qed

lemma books_keep_trans: "books_keep k l \<Longrightarrow> books_keep l m \<Longrightarrow> books_keep k m"
  by (auto simp: books_keep_def split: prod.splits)

lemma engine_call_quiet: "desk_quiet (rn_desk r) (rn_desk (engine_call rg f r))"
  by (simp add: engine_call_def Let_def desk_signals_quiet)

lemma quiet_books: "desk_quiet (rn_desk r) (rn_desk s) \<Longrightarrow> books_keep (r, a, rows) (s, a, rows')"
  by (auto simp: books_keep_def desk_quiet_def desk_pnl_def)

lemma tick_runner_keeps: "books_keep k (tick_runner warming date rg t k)"
proof -
  obtain r a rows where c: "desk_call date (desk_tick rg t (rn_engine (fst k))) k = (r, a, rows)" by (metis prod_cases3)
  have "books_keep k (r, a, rows)" using desk_call_keeps [of k "desk_tick rg t (rn_engine (fst k))" date] desk_tick_moves c by metis
  then have "books_keep k (engine_call rg (en_tick t) r, a, rows)"
    by (rule books_keep_trans) (rule quiet_books, rule engine_call_quiet)
  moreover have "books_keep k k" by (simp add: books_keep_def split: prod.split)
  ultimately show ?thesis by (simp add: tick_runner_def c Let_def)
qed

lemma halt_runner_keeps: "books_keep k (halt_runner date why now k)"
proof -
  obtain r a rows where k: "k = (r, a, rows)" by (metis prod_cases3)
  have "books_keep k (rn_halt why r, a, rows)" unfolding k by (rule quiet_books) (simp add: rn_halt_def)
  then show ?thesis
    by (rule books_keep_trans) (simp add: k halt_runner_def Let_def desk_call_keeps desk_flatten_moves)
qed

lemma control_runner_keeps: "books_keep k (control_runner date now action k)"
proof -
  obtain r a rows where k: "k = (r, a, rows)" by (metis prod_cases3)
  have "books_keep k (rn_halt ''manual_disable'' r, a, rows)" "books_keep k (r\<lparr>rn_engine := g\<rparr>, a, rows)" "books_keep k k" for g
    unfolding k by (rule quiet_books; simp add: rn_halt_def)+
  moreover have "books_keep k (desk_call date (desk_flatten ''manual'' now px) k)" for px
    by (rule desk_call_keeps) (simp add: desk_flatten_moves)
  ultimately show ?thesis by (simp add: k control_runner_def)
qed

subsection \<open>The whole fleet\<close>

definition fleet_ok :: "fleet \<Rightarrow> bool" where
  "fleet_ok f = list_all (\<lambda>r. desk_ok (rn_desk r)) (fl_runners f)"

definition runners_pnl :: "runner list \<Rightarrow> real" where
  "runners_pnl rs = sum_list (map (\<lambda>r. desk_pnl (rn_desk r)) rs)"

definition fleet_worth :: "fleet \<Rightarrow> real" where
  "fleet_worth f = ae_total (fl_account f) - runners_pnl (fl_runners f)"

definition fleet_keeps :: "fleet \<Rightarrow> fleet \<Rightarrow> bool" where
  "fleet_keeps f g = (fleet_ok f \<longrightarrow> fleet_ok g \<and> fleet_worth g = fleet_worth f)"

text \<open>A part of a round that does not end the day or the warm-up.\<close>

definition fleet_steady :: "fleet \<Rightarrow> fleet \<Rightarrow> bool" where
  "fleet_steady f g =
     (fleet_keeps f g \<and> (fleet_ok f \<and> latched (fl_account f) \<longrightarrow> latched (fl_account g)) \<and>
      fl_date g = fl_date f \<and> fl_warming g = fl_warming f \<and> fl_replay g = fl_replay f)"

lemma keeps_refl [simp]: "fleet_keeps f f" by (simp add: fleet_keeps_def)

lemma keeps_trans: "fleet_keeps f g \<Longrightarrow> fleet_keeps g h \<Longrightarrow> fleet_keeps f h" by (simp add: fleet_keeps_def)

lemma fleet_steady_refl [simp]: "fleet_steady f f" by (simp add: fleet_steady_def)

lemma fleet_steady_trans: "fleet_steady f g \<Longrightarrow> fleet_steady g h \<Longrightarrow> fleet_steady f h"
  by (auto simp: fleet_steady_def fleet_keeps_def)

lemma steady_keeps: "fleet_steady f g \<Longrightarrow> fleet_keeps f g" by (simp add: fleet_steady_def)

lemma steady_fold: "(\<And>x g. fleet_steady g (h x g)) \<Longrightarrow> fleet_steady f (fold h xs f)"
  by (induction xs arbitrary: f) (auto intro: fleet_steady_trans)

lemma keeps_fold: "(\<And>x g. fleet_keeps g (h x g)) \<Longrightarrow> fleet_keeps f (fold h xs f)"
  by (induction xs arbitrary: f) (auto intro: keeps_trans)

lemma put_rows_fields [simp]:
  "fl_runners (put_rows rows f) = fl_runners f" "fl_account (put_rows rows f) = fl_account f"
  "fl_date (put_rows rows f) = fl_date f" "fl_warming (put_rows rows f) = fl_warming f" "fl_replay (put_rows rows f) = fl_replay f"
  by (simp_all add: put_rows_def)

lemma persist_fields [simp]:
  "fl_runners (persist_account f) = fl_runners f" "fl_account (persist_account f) = fl_account f"
  "fl_date (persist_account f) = fl_date f" "fl_warming (persist_account f) = fl_warming f" "fl_replay (persist_account f) = fl_replay f"
  by (simp_all add: persist_account_def Let_def)

lemma each_runner_keeps:
  assumes "\<And>k. books_keep k (h k)"
  shows "each_runner h rs a rows = (rs', a', rows') \<Longrightarrow> list_all (\<lambda>r. desk_ok (rn_desk r)) rs \<Longrightarrow>
    list_all (\<lambda>r. desk_ok (rn_desk r)) rs' \<and> ae_total a' - runners_pnl rs' = ae_total a - runners_pnl rs \<and> (latched a \<longrightarrow> latched a')"
proof (induction rs arbitrary: a rows rs' a' rows')
  case (Cons r rs)
  obtain r1 a1 rows1 where one: "h (r, a, rows) = (r1, a1, rows1)" by (metis prod_cases3)
  obtain rs2 a2 rows2 where rest: "each_runner h rs a1 rows1 = (rs2, a2, rows2)" by (metis prod_cases3)
  have "books_keep (r, a, rows) (r1, a1, rows1)" using assms [of "(r, a, rows)"] one by simp
  with Cons.IH [OF rest] Cons.prems show ?case by (auto simp: one rest books_keep_def runners_pnl_def)
qed (simp add: runners_pnl_def)

lemma first_runner_keeps:
  assumes "\<And>k. books_keep k (h k)"
  shows "first_runner i h rs a rows = (rs', a', rows') \<Longrightarrow> list_all (\<lambda>r. desk_ok (rn_desk r)) rs \<Longrightarrow>
    list_all (\<lambda>r. desk_ok (rn_desk r)) rs' \<and> ae_total a' - runners_pnl rs' = ae_total a - runners_pnl rs \<and> (latched a \<longrightarrow> latched a')"
proof (induction rs arbitrary: rs' a' rows')
  case (Cons r rs)
  obtain r1 a1 rows1 where one: "h (r, a, rows) = (r1, a1, rows1)" by (metis prod_cases3)
  obtain rs2 a2 rows2 where rest: "first_runner i h rs a rows = (rs2, a2, rows2)" by (metis prod_cases3)
  have "books_keep (r, a, rows) (r1, a1, rows1)" using assms [of "(r, a, rows)"] one by simp
  with Cons.IH [OF rest] Cons.prems show ?case by (auto simp: one rest books_keep_def runners_pnl_def split: if_splits)
qed (simp add: runners_pnl_def)

lemma with_books_steady: "(\<And>k. books_keep k (h k)) \<Longrightarrow> fleet_steady f (with_books h f)"
proof -
  assume h: "\<And>k. books_keep k (h k)"
  obtain rs a rows where e: "each_runner h (fl_runners f) (fl_account f) [] = (rs, a, rows)" by (metis prod_cases3)
  from each_runner_keeps [OF h e] show ?thesis
    by (simp add: fleet_steady_def fleet_keeps_def fleet_ok_def fleet_worth_def with_books_def e)
qed

lemma with_runners_steady: "(\<And>r. desk_quiet (rn_desk r) (rn_desk (h r))) \<Longrightarrow> fleet_steady f (with_runners h f)"
proof -
  assume h: "\<And>r. desk_quiet (rn_desk r) (rn_desk (h r))"
  have "list_all (\<lambda>r. desk_ok (rn_desk r)) rs \<Longrightarrow> list_all (\<lambda>r. desk_ok (rn_desk r)) (map h rs) \<and> runners_pnl (map h rs) = runners_pnl rs" for rs
    using h by (induction rs) (simp_all add: runners_pnl_def desk_quiet_def desk_pnl_def)
  then show ?thesis by (simp add: fleet_steady_def fleet_keeps_def fleet_ok_def fleet_worth_def with_runners_def)
qed

text \<open>Changes of the loop's own variables.\<close>

lemma steady_updates:
  "fleet_steady f (f\<lparr>fl_regime := rg\<rparr>)" "fleet_steady f (f\<lparr>fl_warm_date := d\<rparr>)" "fleet_steady f (f\<lparr>fl_quotes := q\<rparr>)"
  "fleet_steady f (f\<lparr>fl_prev_ts := n\<rparr>)" "fleet_steady f (f\<lparr>fl_wm := n\<rparr>)" "fleet_steady f (f\<lparr>fl_eod_min := n\<rparr>)"
  "fleet_steady f (f\<lparr>fl_clock := n\<rparr>)" "fleet_steady f (f\<lparr>fl_last_price := x\<rparr>)" "fleet_steady f (f\<lparr>fl_ref := b\<rparr>)"
  "fleet_steady f (f\<lparr>fl_ctl_ms := n\<rparr>)" "fleet_steady f (put_rows rows f)" "fleet_steady f (persist_account f)"
  by (simp_all add: fleet_steady_def fleet_keeps_def fleet_ok_def fleet_worth_def)

subsection \<open>The parts of a round\<close>

lemma desk_same:
  "rn_desk (rn_halt why r) = rn_desk r" "rn_desk (rn_reset r) = rn_desk r" "rn_desk (rn_release r) = rn_desk r"
  "rn_desk (reseed_after_warmup r) = rn_desk r" "rn_desk (rn_calendar t n atr r) = rn_desk r"
  "rn_desk (reference_runner x y z r) = rn_desk r" "rn_desk (gap_reset r) = rn_desk r"
  by (simp_all add: rn_halt_def rn_reset_def rn_release_def reseed_after_warmup_def rn_calendar_def reference_runner_def
      gap_reset_def Let_def split: engine.split)

lemma quiet_runners:
  "desk_quiet (rn_desk r) (rn_desk (new_day_runner r))" "desk_quiet (rn_desk r) (rn_desk (end_warmup_runner r))"
  "desk_quiet (rn_desk r) (rn_desk (rn_quote rg tick q r))"
proof -
  show "desk_quiet (rn_desk r) (rn_desk (new_day_runner r))"
    by (simp add: new_day_runner_def Let_def desk_calls_quiet split: engine.split)
  show "desk_quiet (rn_desk r) (rn_desk (end_warmup_runner r))"
    by (simp add: end_warmup_runner_def Let_def desk_same desk_calls_quiet)
  define r1 where "r1 = r\<lparr>rn_desk := desk_quote q (rn_desk r)\<rparr>"
  have "desk_quiet (rn_desk r) (rn_desk r1)" by (simp add: r1_def desk_calls_quiet)
  then have "desk_quiet (rn_desk r) (rn_desk r1)" "desk_quiet (rn_desk r) (rn_desk (engine_call rg g r1))" for g
    by (auto intro: desk_quiet_trans engine_call_quiet)
  then show "desk_quiet (rn_desk r) (rn_desk (rn_quote rg tick q r))"
    by (simp add: rn_quote_def Let_def split: engine.split flip: r1_def)
qed

lemma quiet_fold: "(\<And>x r. desk_quiet (rn_desk r) (rn_desk (h x r))) \<Longrightarrow> desk_quiet (rn_desk r) (rn_desk (fold h xs r))"
  by (induction xs arbitrary: r) (auto intro: desk_quiet_trans)

lemma refeed_runner_quiet: "desk_quiet (rn_desk r) (rn_desk (refeed_runner rg ticks r))"
proof -
  define r1 where "r1 = r\<lparr>rn_desk := desk_warmup True (rn_desk r)\<rparr>"
  define r2 where "r2 = fold (\<lambda>t. engine_call rg (en_tick t)) ticks r1"
  have "desk_quiet (rn_desk r) (rn_desk r1)" by (simp add: r1_def desk_calls_quiet)
  moreover have "desk_quiet (rn_desk r1) (rn_desk r2)" unfolding r2_def by (rule quiet_fold) (rule engine_call_quiet)
  moreover have "desk_quiet (rn_desk r2) (desk_warmup False (rn_desk r2))" by (rule desk_calls_quiet)
  ultimately have "desk_quiet (rn_desk r) (desk_warmup False (rn_desk r2))" by (blast intro: desk_quiet_trans)
  then show ?thesis by (simp add: refeed_runner_def Let_def desk_same flip: r1_def r2_def)
qed

lemma calendar_steady: "fleet_steady f (set_calendar a b f)"
  unfolding set_calendar_def by (rule with_runners_steady) (simp add: desk_same)

lemma halt_all_steady:
  assumes "why \<noteq> []"
  shows "fleet_steady f (halt_all now why f)"
proof -
  have "fleet_steady f (f\<lparr>fl_account := ae_set_halt why (fl_account f)\<rparr>)"
    using assms by (simp add: fleet_steady_def fleet_keeps_def fleet_ok_def fleet_worth_def latched_def limits_check_halt)
  from fleet_steady_trans [OF fleet_steady_trans [OF this with_books_steady [OF halt_runner_keeps]] steady_updates(12)]
  show ?thesis unfolding halt_all_def .
qed

lemma roll_day_keeps: "fleet_keeps f (fleet_roll_day e now f)"
proof -
  define d where "d = et_trade_date now"
  define f1 where "f1 = f\<lparr>fl_date := d, fl_regime := rg_set_atr d (fe_atr e d) (fl_regime f), fl_event := fe_event e d,
      fl_event_next := fe_event_next e d\<rparr>"
  define f2 where "f2 = with_runners new_day_runner (set_calendar (fl_event f1) (fl_event_next f1) f1)"
  define f3 where "f3 = f2\<lparr>fl_account := ae_reset_day (fl_account f2)\<rparr>"
  define f4 where "f4 = (if ae_halted (fl_account f3) then halt_all (fe_now e) (ae_reason (fl_account f3)) f3 else f3)"
  have "fleet_keeps f f1" by (simp add: f1_def fleet_keeps_def fleet_ok_def fleet_worth_def)
  moreover have "fleet_keeps f1 f2" unfolding f2_def
    by (rule keeps_trans [OF steady_keeps [OF calendar_steady] steady_keeps [OF with_runners_steady]]) (rule quiet_runners)
  moreover have "fleet_keeps f2 f3"
    by (simp add: f3_def fleet_keeps_def fleet_ok_def fleet_worth_def ae_reset_day_def Let_def)
  moreover have "fleet_keeps f3 f4" by (auto simp: f4_def ae_halted_def intro: steady_keeps halt_all_steady)
  moreover have "fleet_keeps f4 (persist_account f4)" by (rule steady_keeps [OF steady_updates(12)])
  ultimately have "fleet_keeps f (persist_account f4)" by (blast intro: keeps_trans)
  then show ?thesis
    unfolding fleet_roll_day_def Let_def d_def [symmetric] f1_def [symmetric] f2_def [symmetric] f3_def [symmetric] f4_def [symmetric] by simp
qed

lemma warm_roll_steady: "fleet_steady f (warm_roll_to e d f)"
proof -
  define f1 where "f1 = f\<lparr>fl_warm_date := d, fl_regime := rg_set_atr d (fe_atr e d) (fl_regime f)\<rparr>"
  have "fleet_steady f f1" unfolding f1_def by (simp add: fleet_steady_def fleet_keeps_def fleet_ok_def fleet_worth_def)
  moreover have "fleet_steady f1 (with_runners rn_reset f1)" by (rule with_runners_steady) (simp add: desk_same)
  ultimately have "fleet_steady f (set_calendar (fe_event e d) (fe_event_next e d) (with_runners rn_reset f1))"
    by (blast intro: fleet_steady_trans calendar_steady)
  then show ?thesis by (simp add: warm_roll_to_def flip: f1_def)
qed

lemma end_warmup_keeps: "fleet_keeps f (fleet_end_warmup e f)"
proof -
  define f0 where "f0 = f\<lparr>fl_warming := False\<rparr>"
  define f1 where "f1 = (if fl_warm_date f0 \<noteq> fl_date f0 then warm_roll_to e (fl_date f0) f0 else f0)"
  define f2 where "f2 = f1\<lparr>fl_regime := rg_set_atr (fl_date f1) (fe_atr e (fl_date f1)) (fl_regime f1)\<rparr>"
  have "fleet_keeps f f0" by (simp add: f0_def fleet_keeps_def fleet_ok_def fleet_worth_def)
  moreover have "fleet_keeps f0 f1" by (simp add: f1_def steady_keeps [OF warm_roll_steady])
  moreover have "fleet_keeps f1 f2" unfolding f2_def by (rule steady_keeps [OF steady_updates(1)])
  moreover have "fleet_keeps f2 (with_runners end_warmup_runner (set_calendar (fl_event f2) (fl_event_next f2) f2))"
    by (rule keeps_trans [OF steady_keeps [OF calendar_steady] steady_keeps [OF with_runners_steady]]) (rule quiet_runners)
  ultimately show ?thesis
    unfolding fleet_end_warmup_def Let_def f0_def [symmetric] f1_def [symmetric] f2_def [symmetric] by (blast intro: keeps_trans)
qed

lemma gap_guard_steady: "fleet_steady f (gap_guard e ts f)"
proof -
  have g: "fleet_steady f (with_runners gap_reset f)" by (rule with_runners_steady) (simp add: desk_same)
  have "fleet_steady g (refeed_orb e a b g)" for g a b
    by (auto simp: refeed_orb_def refeed_runner_quiet intro!: with_runners_steady)
  with g show ?thesis unfolding gap_guard_def Let_def by (auto intro: fleet_steady_trans)
qed

lemma quotes_steady: "fleet_steady f (fleet_quotes e ts f)"
proof -
  have "fleet_steady f (with_runners (fold (rn_quote rg tick) qs) (f\<lparr>fl_quotes := q\<rparr>))" for rg tick qs q
    by (rule fleet_steady_trans [OF steady_updates(3) with_runners_steady], rule quiet_fold, rule quiet_runners)
  then show ?thesis by (simp add: fleet_quotes_def Let_def split: prod.split)
qed

lemma minute_steady: "fleet_steady f (minute_check ts f)"
proof -
  have "fleet_steady f (with_runners (\<lambda>r. if too_early w ts r then r else engine_call rg (en_eod h m) r) (f\<lparr>fl_eod_min := n\<rparr>))" for w rg h m n
    by (rule fleet_steady_trans [OF steady_updates(6) with_runners_steady]) (simp add: engine_call_quiet)
  then show ?thesis by (simp add: minute_check_def split: prod.split)
qed

lemma tick_keeps:
  "fleet_keeps f (fleet_tick e t f)"
  "\<not> fl_warming f \<Longrightarrow> et_trade_date (t_ts t) = fl_date f \<Longrightarrow> fleet_steady f (fleet_tick e t f)"
proof -
  define ts where "ts = t_ts t"
  define f1 where "f1 = (if fl_warming f \<and> ts \<ge> fl_warm_until f then fleet_end_warmup e f else f)"
  define f2 where "f2 = (if fl_warming f1 then warm_roll_to e (et_trade_date ts) f1 else fleet_roll_day e ts f1)"
  define f3 where "f3 = (gap_guard e ts f2)\<lparr>fl_prev_ts := ts, fl_wm := ts\<rparr>"
  define f4 where "f4 = (if fl_replay f3 \<noteq> None then f3\<lparr>fl_clock := ts\<rparr> else f3)"
  define f5 where "f5 = minute_check ts (fleet_quotes e ts f4)"
  have "fleet_steady f2 f3"
    using gap_guard_steady [of f2 e ts] by (simp add: f3_def fleet_steady_def fleet_keeps_def fleet_ok_def fleet_worth_def)
  moreover have "fleet_steady f3 f4" by (simp add: f4_def steady_updates)
  moreover have "fleet_steady f4 f5" unfolding f5_def by (blast intro: fleet_steady_trans quotes_steady minute_steady)
  moreover have "fleet_steady f5 (with_books (tick_runner w d rg t) (f5\<lparr>fl_last_price := px, fl_regime := rg\<rparr>))" for w d rg px
    by (rule fleet_steady_trans [of _ "f5\<lparr>fl_last_price := px, fl_regime := rg\<rparr>"])
      (simp add: fleet_steady_def fleet_keeps_def fleet_ok_def fleet_worth_def, rule with_books_steady, rule tick_runner_keeps)
  ultimately have all: "fleet_steady f2 (with_books (tick_runner w d rg t) (f5\<lparr>fl_last_price := px, fl_regime := rg\<rparr>))" for w d rg px
    by (blast intro: fleet_steady_trans)
  have rest: "fleet_steady f2 (fleet_tick e t f)"
    unfolding fleet_tick_def Let_def ts_def [symmetric] f1_def [symmetric] f2_def [symmetric] f3_def [symmetric] f4_def [symmetric] f5_def [symmetric]
    by (simp add: all split: prod.split)
  have "fleet_keeps f f2"
    by (auto simp: f2_def f1_def intro: keeps_trans end_warmup_keeps roll_day_keeps steady_keeps warm_roll_steady)
  with rest show "fleet_keeps f (fleet_tick e t f)" by (blast intro: keeps_trans steady_keeps)
  assume "\<not> fl_warming f" and "et_trade_date (t_ts t) = fl_date f"
  then have "f2 = f" by (simp add: f2_def f1_def fleet_roll_day_def Let_def ts_def)
  with rest show "fleet_steady f (fleet_tick e t f)" by simp
qed

lemma reference_steady: "fleet_steady f (reference_feed e f)"
proof -
  have "fleet_steady g (reference_tick t g)" for g t
    using fleet_steady_trans [OF with_runners_steady [of "reference_runner (rb_high (fl_ref g)) (rb_low (fl_ref g)) (rb_last (fl_ref g))" g] steady_updates(9)]
    by (simp add: reference_tick_def Let_def desk_same steady_updates)
  then show ?thesis unfolding reference_feed_def by (auto intro: steady_fold)
qed

lemma check_steady: "fleet_steady f (account_check e f)"
  by (simp add: account_check_def Let_def halt_all_steady)

lemma control_steady: "fleet_steady f (control now c f)"
proof -
  obtain n i action where c: "c = (n, i, action)" by (metis prod_cases3)
  obtain rs a rows where e: "first_runner i (control_runner (fl_date f) now action) (fl_runners f) (fl_account f) [] = (rs, a, rows)"
    by (metis prod_cases3)
  from first_runner_keeps [OF control_runner_keeps e] show ?thesis
    by (simp add: control_def c e fleet_steady_def fleet_keeps_def fleet_ok_def fleet_worth_def)
qed

lemma controls_steady: "fleet_steady f (controls e f)"
  unfolding controls_def Let_def by (auto intro: fleet_steady_trans steady_updates steady_fold control_steady)

lemma flush_steady: "fleet_steady f (flush e f)"
proof -
  define rs where "rs = map (fst \<circ> flush_runner (fl_last_price f)) (fl_runners f)"
  have by_desk: "list_all (\<lambda>r. desk_ok (rn_desk r)) ss = list_all desk_ok (map rn_desk ss)"
      "runners_pnl ss = sum_list (map desk_pnl (map rn_desk ss))" for ss
    by (simp_all add: list_all_iff runners_pnl_def comp_def)
  have "map rn_desk rs = map rn_desk (fl_runners f)"
    by (simp add: rs_def flush_runner_def Let_def)
  then have "list_all (\<lambda>r. desk_ok (rn_desk r)) rs = list_all (\<lambda>r. desk_ok (rn_desk r)) (fl_runners f)" "runners_pnl rs = runners_pnl (fl_runners f)"
    unfolding by_desk by simp_all
  then show ?thesis
    by (simp add: flush_def Let_def fleet_steady_def fleet_keeps_def fleet_ok_def fleet_worth_def flip: rs_def)
qed

lemma eod_steady: "fleet_steady f (if fl_warming f then f else with_runners (engine_call (fl_regime f) (en_eod h m)) f)"
  by (auto intro: with_runners_steady engine_call_quiet)

subsection \<open>The round\<close>

text \<open>A round that does nothing about the account's limits.\<close>

definition unlimited_round :: "fleet_env \<Rightarrow> fleet \<Rightarrow> fleet option" where
  "unlimited_round e f =
     (case round_ticks e f of
        None \<Rightarrow> None
      | Some ticks \<Rightarrow>
          (let f1 = fold (fleet_tick e) ticks f;
               f2 = (if fl_warming f1 \<and> (ticks = [] \<or> t_ts (last ticks) + 5000000 \<ge> fl_warm_until f1)
                     then fleet_end_warmup e f1 else f1);
               f3 = reference_feed e f2;
               clock = (if fl_replay f3 = None then fe_now e else fl_clock f3);
               (h, m) = utc_to_et clock;
               f4 = (if fl_warming f3 then f3 else with_runners (engine_call (fl_regime f3) (en_eod h m)) f3)
           in Some (flush e (controls e (fleet_roll_day e clock f4)))))"

definition fleet_step :: "fleet \<Rightarrow> fleet_env \<Rightarrow> fleet" where
  "fleet_step f e = (case fleet_round e f of None \<Rightarrow> f | Some g \<Rightarrow> g)"

lemma round_keeps: "fleet_keeps f (fleet_step f e)"
proof (cases "round_ticks e f")
  case (Some ticks)
  define f1 where "f1 = fold (fleet_tick e) ticks f"
  define f2 where "f2 = (if fl_warming f1 \<and> (ticks = [] \<or> t_ts (last ticks) + 5000000 \<ge> fl_warm_until f1) then fleet_end_warmup e f1 else f1)"
  define f3 where "f3 = account_check e (reference_feed e f2)"
  define clock where "clock = (if fl_replay f3 = None then fe_now e else fl_clock f3)"
  obtain h m where hm: "utc_to_et clock = (h, m)" by (cases "utc_to_et clock")
  define f4 where "f4 = (if fl_warming f3 then f3 else with_runners (engine_call (fl_regime f3) (en_eod h m)) f3)"
  have "fleet_keeps f f1" unfolding f1_def by (rule keeps_fold) (rule tick_keeps)
  moreover have "fleet_keeps f1 f2" by (simp add: f2_def end_warmup_keeps)
  moreover have "fleet_keeps f2 f3" unfolding f3_def by (rule steady_keeps [OF fleet_steady_trans [OF reference_steady check_steady]])
  moreover have "fleet_keeps f3 f4" unfolding f4_def by (rule steady_keeps [OF eod_steady])
  moreover have "fleet_keeps f4 (fleet_roll_day e clock f4)" by (rule roll_day_keeps)
  moreover have "fleet_keeps g (flush e (controls e g))" for g by (rule steady_keeps [OF fleet_steady_trans [OF controls_steady flush_steady]])
  ultimately have "fleet_keeps f (flush e (controls e (fleet_roll_day e clock f4)))" by (blast intro: keeps_trans)
  moreover have "fleet_step f e = flush e (controls e (fleet_roll_day e clock f4))"
    unfolding fleet_step_def fleet_round_def Some option.case Let_def f1_def [symmetric] f2_def [symmetric] f3_def [symmetric] clock_def [symmetric] hm prod.case
      f4_def [symmetric] ..
  ultimately show ?thesis by simp
qed (simp add: fleet_step_def fleet_round_def)

interpretation fleet: conserving fleet_step fleet_ok fleet_worth
  by unfold_locales (use round_keeps in \<open>simp_all add: fleet_keeps_def\<close>)

lemma page_subset: "set (query_page ts wm table) \<subseteq> set table"
  by (auto simp: query_page_def dest: in_set_takeD)

text \<open>A round of a day on which the account is halted or within its limits when it begins.\<close>

lemma round_unlimited:
  assumes f: "fleet_ok f" "latched (fl_account f)" "\<not> fl_warming f" "fl_replay f = None"
    and day: "\<forall>t \<in> set (fe_ticks e). et_trade_date (t_ts t) = fl_date f" "et_trade_date (fe_now e) = fl_date f"
  shows "\<exists>g. fleet_round e f = Some g \<and> unlimited_round e f = Some g \<and> fleet_steady f g"
proof -
  define ticks where "ticks = usable_rows t_ts (query_page t_ts (fl_wm f) (fe_ticks e))"
  have some: "round_ticks e f = Some ticks" using f(4) by (simp add: round_ticks_def ticks_def Let_def)
  have sub: "set ticks \<subseteq> set (fe_ticks e)"
    unfolding ticks_def using usable_subset page_subset by (rule subset_trans)
  define f1 where "f1 = fold (fleet_tick e) ticks f"
  have "\<forall>t \<in> set ts. et_trade_date (t_ts t) = fl_date g \<Longrightarrow> \<not> fl_warming g \<Longrightarrow> fleet_steady g (fold (fleet_tick e) ts g)" for ts g
  proof (induction ts arbitrary: g)
    case (Cons t ts)
    then have "fleet_steady g (fleet_tick e t g)" by (simp add: tick_keeps)
    moreover from this have "fl_date (fleet_tick e t g) = fl_date g" "\<not> fl_warming (fleet_tick e t g)"
      using Cons.prems by (simp_all add: fleet_steady_def)
    ultimately show ?case using Cons by (auto intro: fleet_steady_trans)
  qed simp
  then have s1: "fleet_steady f f1" unfolding f1_def using day(1) sub f(3) by blast
  then have w1: "\<not> fl_warming f1" using f(3) by (simp add: fleet_steady_def)
  define f3 where "f3 = reference_feed e f1"
  have s3: "fleet_steady f f3" unfolding f3_def by (rule fleet_steady_trans [OF s1 reference_steady])
  then have l3: "latched (fl_account f3)" "fl_date f3 = fl_date f" "\<not> fl_warming f3" "fl_replay f3 = None"
    using f by (simp_all add: fleet_steady_def)
  then have check: "account_check e f3 = f3" by (auto simp: account_check_def latched_def Let_def)
  obtain h m where hm: "utc_to_et (fe_now e) = (h, m)" by (cases "utc_to_et (fe_now e)")
  define f4 where "f4 = with_runners (engine_call (fl_regime f3) (en_eod h m)) f3"
  have s4: "fleet_steady f f4" unfolding f4_def by (rule fleet_steady_trans [OF s3 with_runners_steady]) (rule engine_call_quiet)
  then have "fl_date f4 = fl_date f" by (simp add: fleet_steady_def)
  then have roll: "fleet_roll_day e (fe_now e) f4 = f4" using day(2) by (simp add: fleet_roll_day_def Let_def)
  have "fleet_round e f = Some (flush e (controls e f4))" "unlimited_round e f = Some (flush e (controls e f4))"
    using w1 l3 by (simp_all add: fleet_round_def unlimited_round_def some check hm roll flip: f1_def f3_def f4_def)
  moreover have "fleet_steady f (flush e (controls e f4))"
    by (rule fleet_steady_trans [OF s4 fleet_steady_trans [OF controls_steady flush_steady]])
  ultimately show ?thesis by blast
qed

end
