(* ===== verification/Strategy_Host.thy ===== *)
theory Strategy_Host
  imports Exec_State Orb_Props Trend_Props Mtf_Props
begin

section \<open>The contract of a strategy and its host\<close>

text \<open>
  What the executor and the paper fleet rely on in any of the three engines: a halt is in force until it is
  lifted or the session is reset, whatever the engine hears meanwhile, and a halted engine sends no entry.
  The locale is interpreted on each engine and on the sum of the three that the hosts dispatch on.
\<close>

locale strategy_host =
  fixes hear :: "'s \<Rightarrow> 'e \<Rightarrow> 's" and halt :: "string \<Rightarrow> 's \<Rightarrow> 's" and unhalt :: "'s \<Rightarrow> 's" and reset :: "'s \<Rightarrow> 's"
    and halted :: "'s \<Rightarrow> bool" and sent :: "'s \<Rightarrow> (orb_signal \<times> real \<times> string) list"
  assumes halts: "halted (halt why s)" and lifts: "\<not> halted (unhalt s)" and resets: "\<not> halted (reset s)"
    and silent: "sent (halt why s) = sent s" "sent (unhalt s) = sent s" "sent (reset s) = sent s"
    and appends: "\<exists>new. sent (hear s e) = sent s @ new"
    and stays: "halted s \<Longrightarrow> halted (hear s e)"
    and quiet: "halted s \<Longrightarrow> entry_signals (sent (hear s e)) = entry_signals (sent s)"
begin

lemma halted_run: "halted s \<Longrightarrow> halted (run hear s es)"
  by (induction es arbitrary: s) (simp_all add: stays)

lemma quiet_run: "halted s \<Longrightarrow> entry_signals (sent (run hear s es)) = entry_signals (sent s)"
  by (induction es arbitrary: s) (simp_all add: stays quiet)

lemma appends_run: "\<exists>new. sent (run hear s es) = sent s @ new"
proof (induction es arbitrary: s)
  case (Cons e es)
  from appends [of s e] Cons.IH [of "hear s e"] show ?case by auto
qed simp

lemma entry_signals_new: "entry_signals (xs @ new) = entry_signals xs \<Longrightarrow> entry_signals new = []"
  by (simp add: entry_signals_def)

lemma halt_in_force:
  "halted (run hear (halt why s) es) \<and>
   (\<exists>new. sent (run hear (halt why s) es) = sent s @ new \<and> entry_signals new = [])"
proof -
  obtain new where new: "sent (run hear (halt why s) es) = sent s @ new" using appends_run [of "halt why s" es] by (auto simp: silent)
  have "entry_signals (sent (run hear (halt why s) es)) = entry_signals (sent s)" by (simp add: quiet_run halts silent)
  then show ?thesis using new entry_signals_new halted_run [OF halts] by metis
qed

end

subsection \<open>What a host tells an engine\<close>

text \<open>Everything but halts and resets: ticks, quotes, the clock, fills and the counts of a restart.\<close>

datatype host_event =
    HearTick orb_tick
  | HearQuote int real int real int real
  | HearClock int int
  | HearClose orb_signal real
  | HearFill orb_signal real
  | HearTrades int

fun orb_hears :: "strategy \<Rightarrow> host_event \<Rightarrow> strategy" where
  "orb_hears s (HearTick t) = on_tick t s"
| "orb_hears s (HearClock h m) = check_eod h m s"
| "orb_hears s (HearClose sig pnl) = notify_trade_filled s"
| "orb_hears s (HearTrades n) = seed_trades_today n s"
| "orb_hears s _ = s"

fun trend_hears :: "trend \<Rightarrow> host_event \<Rightarrow> trend" where
  "trend_hears s (HearTick t) = trend_on_tick t s"
| "trend_hears s (HearQuote ts bid bsz ask asz tick) = trend_on_quote ts bid bsz ask asz tick s"
| "trend_hears s (HearClock h m) = trend_check_eod h m s"
| "trend_hears s (HearClose sig pnl) = trend_trade_filled s"
| "trend_hears s (HearTrades n) = trend_seed_trades n s"
| "trend_hears s _ = s"

fun mtf_hears :: "mtf \<Rightarrow> host_event \<Rightarrow> mtf" where
  "mtf_hears s (HearTick t) = mtf_tick t s"
| "mtf_hears s (HearClock h m) = check_time_flatten h m s"
| "mtf_hears s (HearClose sig pnl) = mtf_notify_trade_filled sig pnl s"
| "mtf_hears s (HearFill sig px) = mtf_notify_entry_filled sig px s"
| "mtf_hears s (HearTrades n) = mtf_seed_trades n s"
| "mtf_hears s _ = s"

fun engine_hears :: "engine \<Rightarrow> host_event \<Rightarrow> engine" where
  "engine_hears g (HearTick t) = en_tick t g"
| "engine_hears g (HearQuote ts bid bsz ask asz tick) =
     (case g of ETrend s \<Rightarrow> ETrend (trend_on_quote ts bid bsz ask asz tick s) | _ \<Rightarrow> g)"
| "engine_hears g (HearClock h m) = en_eod h m g"
| "engine_hears g (HearClose sig pnl) = en_closed sig pnl g"
| "engine_hears g (HearFill sig px) = en_entry_filled sig px g"
| "engine_hears g (HearTrades n) = en_seed_trades n g"

lemma engine_hears_cases:
  "engine_hears (EOrb s) e = EOrb (orb_hears s e)" "engine_hears (ETrend t) e = ETrend (trend_hears t e)"
  "engine_hears (EMtf u) e = EMtf (mtf_hears u e)"
  by (cases e; simp add: en_tick_def en_eod_def en_closed_def en_entry_filled_def en_seed_trades_def)+

subsection \<open>The opening-range engine\<close>

lemma orb_hears_sends:
  "\<exists>new. st_out (orb_hears s e) = st_out s @ new \<and>
     (os_halted (st_session s) \<longrightarrow> entry_signals new = [] \<and> os_halted (st_session (orb_hears s e)))"
proof (cases e)
  case (HearTick t)
  then show ?thesis using on_tick_cases [of t s] by (auto simp: on_tick_def)
next
  case (HearClock h m)
  then show ?thesis
    by (simp add: check_eod_def emit_eod_flatten_def send_signal_def Let_def)
qed (simp_all add: notify_trade_filled_def seed_trades_today_def Let_def)

interpretation orb_host: strategy_host orb_hears halt_trading unhalt_trading reset_session "\<lambda>s. os_halted (st_session s)" st_out
proof unfold_locales
  fix s e
  from orb_hears_sends [of s e] show "\<exists>new. st_out (orb_hears s e) = st_out s @ new" by blast
  assume "os_halted (st_session s)"
  with orb_hears_sends [of s e] show "os_halted (st_session (orb_hears s e))" "entry_signals (st_out (orb_hears s e)) = entry_signals (st_out s)"
    by (auto simp: entry_signals_def)
qed (simp_all add: halt_trading_def unhalt_trading_def reset_session_def os_new_def)

subsection \<open>The trend engine\<close>

lemma gated_sends: "gated k s t \<Longrightarrow> \<exists>new. tn_out t = tn_out s @ new \<and> (ss_halted (tn_ss s) \<longrightarrow> entry_signals new = [] \<and> ss_halted (tn_ss t))"
  by (cases rule: gated.cases) (auto simp: frame_def may_enter_def Let_def)

lemma trend_hears_sends:
  "\<exists>new. tn_out (trend_hears s e) = tn_out s @ new \<and>
     (ss_halted (tn_ss s) \<longrightarrow> entry_signals new = [] \<and> ss_halted (tn_ss (trend_hears s e)))"
proof (cases e)
  case (HearTick t)
  then show ?thesis using gated_sends [OF gated_tick] by simp
next
  case (HearQuote ts bid bsz ask asz tick)
  then show ?thesis using gated_sends [OF gated_quote] by simp
next
  case (HearClock h m)
  then show ?thesis by (simp add: trend_check_eod_def trend_flatten_def trend_emit_def Let_def)
qed (simp_all add: trend_trade_filled_def trend_seed_trades_def)

lemma trend_reset_out: "tn_out (trend_reset_session s) = tn_out s"
  by (simp add: trend_reset_session_def reset_2809_modes_def arm_def Let_def)

interpretation trend_host: strategy_host trend_hears trend_halt trend_unhalt trend_reset_session "\<lambda>s. ss_halted (tn_ss s)" tn_out
proof unfold_locales
  fix s e
  from trend_hears_sends [of s e] show "\<exists>new. tn_out (trend_hears s e) = tn_out s @ new" by blast
  assume "ss_halted (tn_ss s)"
  with trend_hears_sends [of s e] show "ss_halted (tn_ss (trend_hears s e))" "entry_signals (tn_out (trend_hears s e)) = entry_signals (tn_out s)"
    by (auto simp: entry_signals_def)
qed (simp_all add: trend_halt_def trend_unhalt_def trend_reset_out, simp add: trend_reset_session_def Let_def)

subsection \<open>The scalper\<close>

lemma mtf_bar_appends: "\<exists>new. mt_out (mtf_bar bar s) = mt_out s @ new"
proof -
  obtain rolled t where t: "run_engines bar (begin_bar bar s) = (rolled, t)" by (metis surj_pair)
  define v where "v = confirmation rolled (signal_gates bar t)"
  have out: "mt_out v = mt_out s" "mt_out (signal_gates bar t) = mt_out s" "mt_out t = mt_out s" using run_engines_frame [OF t] by (simp_all add: v_def mtf_frame)
  obtain en where en: "mt_out (take_entry bar v) = mt_out v @ en" using take_entry_cases [of bar v] by (metis append.right_neutral)
  obtain fl where fl: "mt_out (session_exit bar (bar_exits bar (take_entry bar v))) = mt_out (take_entry bar v) @ fl" using exits_out by blast
  show ?thesis by (auto simp: mtf_bar_def t mtf_frame out fl en Let_def simp flip: v_def)
qed

lemma mtf_tick_appends: "\<exists>new. mt_out (mtf_tick t s) = mt_out s @ new"
proof -
  have "\<exists>new. mt_out (mtf_bar bar (s\<lparr>mt_cur := c\<rparr>)) = mt_out s @ new" for bar c using mtf_bar_appends [of bar "s\<lparr>mt_cur := c\<rparr>"] by simp
  then show ?thesis using mtf_bar_appends [of _ s] by (simp add: mtf_tick_def Let_def)
qed

lemma mtf_hears_sends:
  "(\<exists>new. mt_out (mtf_hears s e) = mt_out s @ new) \<and>
   (mt_halted s \<longrightarrow> mt_halted (mtf_hears s e) \<and> entry_signals (mt_out (mtf_hears s e)) = entry_signals (mt_out s))"
proof (cases e)
  case (HearTick t)
  then show ?thesis using mtf_tick_appends [of t s] by (simp add: mtf_tick_def)
next
  case (HearClock h m)
  then show ?thesis by (simp add: check_time_flatten_def mtf_send_def Let_def entry_signals_def)
qed (simp_all add: mtf_notify_trade_filled_def mtf_notify_entry_filled_def mtf_seed_trades_def Let_def)

interpretation mtf_host: strategy_host mtf_hears mtf_halt mtf_unhalt mtf_reset_session mt_halted mt_out
  by unfold_locales (use mtf_hears_sends in \<open>auto simp: mtf_halt_def mtf_unhalt_def mtf_reset_session_def\<close>)

subsection \<open>The engine of a host\<close>

interpretation host: strategy_host engine_hears en_halt en_unhalt en_reset en_halted en_out
proof unfold_locales
  fix g e why
  show "en_halted (en_halt why g)" "\<not> en_halted (en_unhalt g)" "\<not> en_halted (en_reset g)"
    "en_out (en_halt why g) = en_out g" "en_out (en_unhalt g) = en_out g" "en_out (en_reset g) = en_out g"
    by (cases g; simp add: en_halted_def en_halt_def en_unhalt_def en_reset_def en_out_def orb_host.halts orb_host.lifts orb_host.resets
      orb_host.silent trend_host.halts trend_host.lifts trend_host.resets trend_host.silent mtf_host.halts mtf_host.lifts mtf_host.resets
      mtf_host.silent)+
  show "\<exists>new. en_out (engine_hears g e) = en_out g @ new"
    by (cases g; simp add: engine_hears_cases en_out_def orb_host.appends trend_host.appends mtf_host.appends)
  assume "en_halted g"
  then show "en_halted (engine_hears g e)" "entry_signals (en_out (engine_hears g e)) = entry_signals (en_out g)"
    by (cases g; simp add: engine_hears_cases en_halted_def en_out_def orb_host.stays trend_host.stays mtf_host.stays
      orb_host.quiet trend_host.quiet mtf_host.quiet)+
qed

text \<open>
  C17. A halt of any of the three engines is in force until the host lifts it or resets the session: whatever
  ticks, quotes, end-of-day checks, fills and counts the engine hears meanwhile, it stays halted and sends
  nothing but flattens.
\<close>

theorem halt_stops_entries:
  "en_halted (run engine_hears (en_halt why g) es) \<and>
   (\<exists>new. en_out (run engine_hears (en_halt why g) es) = en_out g @ new \<and> entry_signals new = [])"
  by (rule host.halt_in_force)

end
