(* ===== verification/Fleet_Props.thy ===== *)
theory Fleet_Props
  imports Fleet_Books Strategy_Host
begin

section \<open>Properties of the paper fleet\<close>

text \<open>
  The account's books, the account's limits, and what a rollover does to a halted strategy.
\<close>

subsection \<open>A runner at the start\<close>

text \<open>
  A runner is in order when its quantity is positive and the position it resumes is one.  Neither is checked
  by the fleet's configuration reader or by the resume.
\<close>

definition position_ok :: "strategy_history \<Rightarrow> bool" where
  "position_ok h = (case sh_position h of None \<Rightarrow> True | Some p \<Rightarrow> (pr_dir p = 1 \<or> pr_dir p = -1) \<and> 1 \<le> pr_qty p)"

lemma new_desk_ok:
  assumes "1 \<le> c_qty c"
  shows "desk_ok (Simple (pb_new i acct symbol c tick slip True True))" "desk_ok (Bracket (bb_new i acct symbol c tick slip True True))"
  using assms by (simp_all add: desk_ok_def booking_def bk_wf_def flip_ok_def pb_new_def bb_new_def)

lemma seat_ok: "seat fc st = Some (g, d) \<Longrightarrow> 1 \<le> c_qty (fleet_orb_config fc st) \<Longrightarrow> desk_ok d"
  by (auto simp: seat_def Let_def new_desk_ok split: if_splits sum.splits option.splits)

lemma seed_desk_ok: "desk_ok d \<Longrightarrow> desk_ok (seed_desk h d)"
  by (cases d) (simp_all add: seed_desk_def pb_seed_entries_def desk_ok_def booking_def bk_wf_def flip_ok_def Let_def)

lemma resumed_desk_ok:
  assumes "dir = 1 \<or> dir = -1" and "1 \<le> q"
  shows "desk_ok (Simple b) \<Longrightarrow> desk_ok (Simple (pb_resume dir q px stop us b))"
    and "desk_ok (Bracket d) \<Longrightarrow> desk_ok (Bracket (bb_resume dir q px stop us d))"
  using assms pbl.ok_step [of "bk_cfg b" b "(None, PbResume dir q px stop us)"]
    bbl.ok_step [of "bk_cfg d" d "(None, BbResume dir q px stop us)"]
  by (simp_all add: desk_ok_def booking_def)

lemma resume_position_ok:
  assumes "desk_ok (rn_desk r)" and "position_ok h"
  shows "desk_ok (rn_desk (resume_position h r))"
proof (cases "sh_position h")
  case (Some p)
  then have p: "pr_dir p = 1 \<or> pr_dir p = -1" "1 \<le> pr_qty p" using assms(2) by (simp_all add: position_ok_def)
  show ?thesis
    using assms(1) resumed_desk_ok [OF p] by (cases "rn_desk r") (simp_all add: resume_position_def Some)
qed (use assms(1) in \<open>simp add: resume_position_def\<close>)

lemma startup_halt_desk [simp]: "rn_desk (startup_halt why r) = rn_desk r" "rn_desk (resume_daily h r) = rn_desk r"
  by (simp_all add: startup_halt_def rn_halt_def resume_daily_def Let_def split: option.split)

lemma runner_seeded_ok:
  "seat fc st = Some gd \<Longrightarrow> 1 \<le> c_qty (fleet_orb_config fc st) \<Longrightarrow> position_ok h \<Longrightarrow> desk_ok (rn_desk (runner_seeded st h gd))"
  using seat_ok [of fc st "fst gd" "snd gd"] by (simp add: runner_seeded_def Let_def resume_position_ok seed_desk_ok)

subsection \<open>The books\<close>

text \<open>
  C23. The paper account misses no trade and counts none twice: over any rounds of the loop - ticks, quotes,
  day rollovers, warm-up, halts, manual orders, in any order - its total changes by exactly the P&L of the
  trades its brokers recorded.
\<close>

theorem account_books_every_trade:
  assumes "fleet_ok f"
  shows "ae_total (fl_account (run fleet_step f es)) - ae_total (fl_account f) =
    runners_pnl (fl_runners (run fleet_step f es)) - runners_pnl (fl_runners f)"
  using fleet.worth_run [OF assms, of es] by (simp add: fleet_worth_def)

text \<open>One ORB strategy with a long position resumed at 100, stop at 90, on an account that may lose ten.\<close>

definition demo_fleet_config :: fleet_config where
  "demo_fleet_config = (fleet_fields [])\<lparr>fc_daily_loss_limit := -10, fc_warmup_bars := 0,
     fc_strategies := [\<lparr>fs_id = ''a'', fs_engine = ''orb'', fs_enabled = True, fs_params = []\<rparr>]\<rparr>"

definition demo_history :: strategy_history where
  "demo_history = \<lparr>sh_enabled = None, sh_total = 0, sh_today = 0, sh_count = 0, sh_daily = None,
     sh_position = Some \<lparr>pr_id = ''a'', pr_dir = 1, pr_qty = 1, pr_entry = 100, pr_entry_us = 1748871000000000, pr_stop = 90,
       pr_target = 0, pr_unreal = 0\<rparr>\<rparr>"

definition demo_fleet_env :: "orb_tick list \<Rightarrow> fleet_env" where
  "demo_fleet_env ticks = \<lparr>fe_now = 1748871963000000, fe_ticks = ticks, fe_bbo = [], fe_ref = [], fe_controls = [],
     fe_atr = (\<lambda>d. 0), fe_event = (\<lambda>d. False), fe_event_next = (\<lambda>d. False)\<rparr>"

definition demo_runner :: runner where
  "demo_runner = runner_seeded (hd (fc_strategies demo_fleet_config)) demo_history
     (the (seat demo_fleet_config (hd (fc_strategies demo_fleet_config))))"

definition demo_fleet :: fleet where
  "demo_fleet = \<lparr>fl_cfg = demo_fleet_config, fl_runners = [demo_runner], fl_account = ae_new 25000 (-10) 1000,
     fl_regime = rg_new, fl_date = et_trade_date 1748871963000000, fl_warm_date = [], fl_event = False, fl_event_next = False,
     fl_warming = False, fl_warm_until = 0, fl_wm = 1748871000000000,
     fl_quotes = \<lparr>qf_wm = 1748871000000000, qf_buf = [], qf_bid = (0, 0), qf_ask = (0, 0)\<rparr>,
     fl_ref = \<lparr>rb_wm = 0, rb_min = -1, rb_high = 0, rb_low = 0, rb_last = 0\<rparr>, fl_prev_ts = 0, fl_eod_min = -1,
     fl_last_price = 0, fl_replay = None, fl_clock = 0, fl_ctl_ms = 0, fl_flush_ms = 0, fl_rows = []\<rparr>"

definition demo_crash :: fleet_env where
  "demo_crash = demo_fleet_env [\<lparr>t_ts = 1748871963000000, t_price = 80, t_size = 1, t_is_buy = False\<rparr>]"

lemma demo_seat:
  "seat demo_fleet_config (hd (fc_strategies demo_fleet_config)) =
     Some (EOrb (set_signal_callback (st_new (fleet_orb_config demo_fleet_config (hd (fc_strategies demo_fleet_config))))),
       Simple (pb_new ''a'' (fc_account_label demo_fleet_config) (fc_symbol demo_fleet_config)
         (fleet_orb_config demo_fleet_config (hd (fc_strategies demo_fleet_config)))
         (fc_tick_size demo_fleet_config) (fc_slippage_ticks demo_fleet_config) True True))"
  by (simp add: seat_def demo_fleet_config_def Let_def)

lemma extract_nil: "extract_value [] key = []"
  by (simp add: extract_value_def value_text_def find_top_key_def)

lemma demo_qty: "c_qty (fleet_orb_config demo_fleet_config (hd (fc_strategies demo_fleet_config))) = 1"
  by (simp add: fleet_orb_config_def fleet_base_def demo_fleet_config_def Let_def fleet_int_def extract_nil)

lemma demo_desk_ok: "position_ok h \<Longrightarrow> desk_ok (rn_desk (runner_seeded (hd (fc_strategies demo_fleet_config)) h
    (the (seat demo_fleet_config (hd (fc_strategies demo_fleet_config))))))"
  using runner_seeded_ok [OF demo_seat, of h] by (simp add: demo_seat demo_qty)

lemma demo_fleet_ok: "fleet_ok demo_fleet"
  by (simp add: fleet_ok_def demo_fleet_def demo_runner_def demo_desk_ok position_ok_def demo_history_def)

lemma demo_recorded: "recorded (desk_out (rn_desk demo_runner)) = []"
  by (simp add: demo_runner_def demo_seat runner_seeded_def seed_desk_def resume_position_def demo_history_def desk_out_def
      pb_resume_def pb_seed_entries_def pb_new_def Let_def)

lemma account_books_every_trade_witness:
  "ae_total (fl_account (run fleet_step demo_fleet [demo_crash, demo_crash])) =
   runners_pnl (fl_runners (run fleet_step demo_fleet [demo_crash, demo_crash]))"
proof -
  have "ae_total (fl_account demo_fleet) = 0" "runners_pnl (fl_runners demo_fleet) = 0"
    by (simp_all add: demo_fleet_def ae_new_def runners_pnl_def desk_pnl_def demo_recorded)
  then show ?thesis using account_books_every_trade [OF demo_fleet_ok, of "[demo_crash, demo_crash]"] by simp
qed

subsection \<open>The limits of the account\<close>

definition live_rounds :: "(fleet_env \<Rightarrow> fleet \<Rightarrow> fleet option) \<Rightarrow> fleet_env list \<Rightarrow> fleet \<Rightarrow> fleet option" where
  "live_rounds rnd es f = fold (\<lambda>e x. case x of None \<Rightarrow> None | Some g \<Rightarrow> rnd e g) es (Some f)"

lemma live_rounds_Cons: "rnd e f = Some g \<Longrightarrow> live_rounds rnd (e # es) f = live_rounds rnd es g"
  by (simp add: live_rounds_def)

text \<open>
  C25. The limits of the account stop nothing during a day: a live fleet whose account begins a day within its
  limits, or halted, goes through the day exactly as if the loop never looked at them.  A trade that breaches
  a limit marks the account as halted, and the loop, which is to halt the strategies and close their
  positions, looks only at accounts that are not marked.
\<close>

theorem account_limits_stop_nothing:
  assumes "fleet_ok f" and "latched (fl_account f)" and "\<not> fl_warming f" and "fl_replay f = None"
    and "\<forall>e \<in> set es. et_trade_date (fe_now e) = fl_date f \<and> (\<forall>t \<in> set (fe_ticks e). et_trade_date (t_ts t) = fl_date f)"
  shows "live_rounds fleet_round es f = live_rounds unlimited_round es f \<and> live_rounds unlimited_round es f \<noteq> None"
  using assms
proof (induction es arbitrary: f)
  case (Cons e es)
  then obtain g where g: "fleet_round e f = Some g" "unlimited_round e f = Some g" "fleet_steady f g"
    using round_unlimited [of f e] by auto
  then have "fleet_ok g" "latched (fl_account g)" "\<not> fl_warming g" "fl_replay g = None" "fl_date g = fl_date f"
    using Cons.prems by (auto simp: fleet_steady_def fleet_keeps_def)
  with Cons.IH [of g] Cons.prems(5)
  have "live_rounds fleet_round es g = live_rounds unlimited_round es g" "live_rounds unlimited_round es g \<noteq> None" by simp_all
  then show ?case unfolding live_rounds_Cons [of fleet_round, OF g(1)] live_rounds_Cons [of unlimited_round, OF g(2)] by metis
qed (simp add: live_rounds_def)

lemma account_limits_stop_nothing_witness:
  "live_rounds fleet_round [demo_crash, demo_crash] demo_fleet = live_rounds unlimited_round [demo_crash, demo_crash] demo_fleet"
proof -
  have "latched (fl_account demo_fleet)" "\<not> fl_warming demo_fleet" "fl_replay demo_fleet = None"
    "\<forall>e \<in> set [demo_crash, demo_crash]. et_trade_date (fe_now e) = fl_date demo_fleet \<and>
       (\<forall>t \<in> set (fe_ticks e). et_trade_date (t_ts t) = fl_date demo_fleet)"
    by (simp_all add: demo_fleet_def demo_crash_def demo_fleet_env_def latched_def ae_check_limits_def ae_new_def ae_equity_def)
  then show ?thesis using account_limits_stop_nothing [OF demo_fleet_ok] by blast
qed

subsection \<open>Trading days\<close>

text \<open>
  A strategy that was switched off is on again after the next rollover: unless the account itself is still
  halted, no strategy is halted after one.  A manual disable, a halt taken over from the day's row, a halt at
  the start and one of the strategy's own limits are all forgotten.
\<close>

theorem rollover_lifts_halts:
  fixes e :: fleet_env and f :: fleet
  assumes "et_trade_date now \<noteq> fl_date f" and "\<not> ae_halted (ae_reset_day (fl_account f))"
  shows "\<forall>r \<in> set (fl_runners (fleet_roll_day e now f)). \<not> en_halted (rn_engine r)"
proof
  fix r assume r: "r \<in> set (fl_runners (fleet_roll_day e now f))"
  define d where "d = et_trade_date now"
  define f1 where "f1 = f\<lparr>fl_date := d, fl_regime := rg_set_atr d (fe_atr e d) (fl_regime f), fl_event := fe_event e d,
      fl_event_next := fe_event_next e d\<rparr>"
  define f2 where "f2 = with_runners new_day_runner (set_calendar (fl_event f1) (fl_event_next f1) f1)"
  have "fl_account f2 = fl_account f" by (simp add: f2_def f1_def with_runners_def set_calendar_def)
  then have "fl_runners (fleet_roll_day e now f) = fl_runners f2"
    unfolding fleet_roll_day_def Let_def d_def [symmetric] f1_def [symmetric] f2_def [symmetric] using assms by (simp add: d_def)
  then obtain r0 where "r = new_day_runner r0" using r by (auto simp: f2_def with_runners_def)
  then show "\<not> en_halted (rn_engine r)"
    using host.resets [of "rn_engine r0"] host.lifts
    by (cases "en_reset (rn_engine r0)") (simp_all add: new_day_runner_def Let_def rn_reset_def)
qed

end
