(* ===== verification/Fleet_Warmup.thy ===== *)
theory Fleet_Warmup
  imports Fleet_Props
begin

section \<open>The warm-up of the paper fleet\<close>

text \<open>
  The replayed history leaves a flat strategy flat: its entries are dropped while its bars are built, and a
  position it believes in is taken from it when the warm-up ends.
\<close>

subsection \<open>A broker in warm-up\<close>

definition calm_desk :: "desk \<Rightarrow> bool" where
  "calm_desk d =
     (case d of Simple b \<Rightarrow> bk_warmup b \<and> bk_pending b = 0
      | Bracket b \<Rightarrow> bk_warmup b \<and> bk_pending b = 0 \<and> bb_flip b = 0)"

definition rests :: "desk \<Rightarrow> desk \<Rightarrow> bool" where
  "rests d e =
     (calm_desk d \<longrightarrow> calm_desk e \<and> (desk_dir d = 0 \<longrightarrow> desk_dir e = 0 \<and> recorded (desk_out e) = recorded (desk_out d)))"

lemma rests_refl [simp]: "rests d d" by (simp add: rests_def)

lemma rests_trans: "rests d e \<Longrightarrow> rests e f \<Longrightarrow> rests d f" by (simp add: rests_def)

lemma exit_keeps [simp]:
  "bk_warmup (pb_exit fill ts why b) = bk_warmup b" "bk_pending (pb_exit fill ts why b) = bk_pending b"
  "bk_warmup (pb_market_exit t why b) = bk_warmup b" "bk_pending (pb_market_exit t why b) = bk_pending b"
  "bk_warmup (bb_exit fill ts why c) = bk_warmup c" "bk_pending (bb_exit fill ts why c) = bk_pending c"
  "bk_warmup (bb_market_exit t why c) = bk_warmup c" "bk_pending (bb_market_exit t why c) = bk_pending c"
  by (simp_all add: pb_market_exit_def pb_exit_def pb_persist_def bb_market_exit_def bb_exit_def bb_persist_def bk_push_def
      bk_go_flat_def bk_excursion_def Let_def)

lemma ratchet_keeps [simp]:
  "bk_warmup (pb_sync ro x b) = bk_warmup b" "bk_pending (pb_sync ro x b) = bk_pending b"
  "bk_warmup (pb_book_be ro t b) = bk_warmup b" "bk_pending (pb_book_be ro t b) = bk_pending b"
  "bk_warmup (pb_break_even ro b) = bk_warmup b" "bk_pending (pb_break_even ro b) = bk_pending b"
  "bk_warmup (pb_arm_trail n b) = bk_warmup b" "bk_pending (pb_arm_trail n b) = bk_pending b"
  "bk_warmup (pb_trail_step ro px b) = bk_warmup b" "bk_pending (pb_trail_step ro px b) = bk_pending b"
  "bk_warmup (bk_excursion px b) = bk_warmup b"
  by (simp_all add: pb_sync_def pb_book_be_def pb_break_even_def pb_arm_trail_def pb_trail_step_def bk_excursion_def Let_def)

lemma manage_keeps:
  "bk_warmup (pb_manage ro t b) = bk_warmup b" "bk_pending (pb_manage ro t b) = bk_pending b"
  by (simp_all add: pb_manage_def pb_manage_open_def pb_ratchet_def pb_persist_def bk_push_def Let_def)

lemma bracket_keeps [simp]:
  "bk_warmup (bb_update_bracket s tp c) = bk_warmup c" "bk_pending (bb_update_bracket s tp c) = bk_pending c"
  "bk_warmup (bb_book_be t c) = bk_warmup c" "bk_pending (bb_book_be t c) = bk_pending c"
  "bk_warmup (bb_close_out t c) = bk_warmup c" "bk_pending (bb_close_out t c) = bk_pending c"
  "bk_warmup (bk_excursion px c) = bk_warmup c"
  by (simp_all add: bb_update_bracket_def bb_book_be_def bb_close_out_def bk_excursion_def Let_def)

lemma bracket_manage_keeps:
  "bk_warmup (bb_manage t s tp c) = bk_warmup c" "bk_pending (bb_manage t s tp c) = bk_pending c"
  by (simp_all add: bb_manage_def Let_def)

lemma clock_keeps [simp]:
  "bk_warmup (bk_clock t b) = bk_warmup b" "bk_pending (bk_clock t b) = bk_pending b" "bk_dir (bk_clock t b) = bk_dir b"
  "bk_out (bk_clock t b) = bk_out b"
  by (simp_all add: bk_clock_def split: prod.split)

lemma tick_rests: "rests d (desk_tick rg t g d)"
proof (cases d)
  case (Simple b)
  have "pb_fill_pending (Some rg) t (bk_clock t b) = bk_clock t b" if "bk_pending b = 0"
    using that by (simp add: pb_fill_pending_def bk_fill_due_def)
  moreover have "bk_dir (pb_manage (Some rg) t c) = 0 \<and> bk_out (pb_manage (Some rg) t c) = bk_out c" if "bk_dir c = 0" for c
    using that by (simp add: pb_manage_def)
  ultimately show ?thesis
    by (auto simp: Simple rests_def calm_desk_def desk_dir_def desk_out_def desk_tick_def pb_on_tick_def Let_def manage_keeps)
next
  case (Bracket b)
  have "bb_fill_pending t s tp q (bk_clock t b) = bk_clock t b" if "bk_pending b = 0" for s tp q
    using that by (simp add: bb_fill_pending_def bk_fill_due_def)
  moreover have "bb_manage t s tp c = c" if "bk_dir c = 0" for s tp c using that by (simp add: bb_manage_def)
  moreover have "bb_flip (bk_clock t b) = bb_flip b" by (simp add: bk_clock_def split: prod.split)
  ultimately show ?thesis
    by (auto simp: Bracket rests_def calm_desk_def desk_dir_def desk_out_def desk_tick_def bb_on_tick_def Let_def bracket_manage_keeps
        bb_manage_flip split: engine.split)
qed

lemma signal_rests: "rests d (desk_signal rg s d)"
  by (cases d; cases s) (auto simp: rests_def calm_desk_def desk_dir_def desk_out_def desk_signal_def pb_on_signal_def pb_flatten_signal_def
      bb_on_signal_def)

lemma signals_rest: "rests d (fold (desk_signal rg) ss d)"
  by (induction ss arbitrary: d) (auto intro: rests_trans signal_rests)

lemma quote_rests: "rests d (desk_quote q d)"
  by (cases d) (auto simp: rests_def calm_desk_def desk_dir_def desk_out_def desk_quote_def bk_on_quote_def)

subsection \<open>A runner in warm-up\<close>

lemma engine_call_rests: "rests (rn_desk r) (rn_desk (engine_call rg f r))"
  by (simp add: engine_call_def Let_def signals_rest)

lemma rn_quote_rests: "rests (rn_desk r) (rn_desk (rn_quote rg tick q r))"
proof -
  define r1 where "r1 = r\<lparr>rn_desk := desk_quote q (rn_desk r)\<rparr>"
  have "rests (rn_desk r) (rn_desk r1)" by (simp add: r1_def quote_rests)
  then have "rests (rn_desk r) (rn_desk r1)" "rests (rn_desk r) (rn_desk (engine_call rg g r1))" for g
    by (auto intro: rests_trans engine_call_rests)
  then show ?thesis by (simp add: rn_quote_def Let_def split: engine.split flip: r1_def)
qed

lemma rn_quotes_rest: "rests (rn_desk r) (rn_desk (fold (rn_quote rg tick) qs r))"
  by (induction qs arbitrary: r) (auto intro: rests_trans rn_quote_rests)

lemma trades_closed_desk: "rn_desk (fst (fold (trade_closed date) trs k)) = rn_desk (fst k)"
proof (induction trs arbitrary: k)
  case (Cons t ts)
  obtain r a rows where k: "k = (r, a, rows)" by (metis prod_cases3)
  obtain r1 a1 rows1 where one: "trade_closed date t k = (r1, a1, rows1)" by (metis prod_cases3)
  show ?case using Cons trade_closed_account(1) [of date t r a rows r1 a1 rows1] by (simp add: k one [unfolded k])
qed simp

lemma tick_runner_rests: "rests (rn_desk (fst k)) (rn_desk (fst (tick_runner w date rg t k)))"
proof -
  obtain r a rows where k: "k = (r, a, rows)" by (metis prod_cases3)
  have "rn_desk (fst (desk_call date f k)) = f (rn_desk r)" for f
    by (simp add: k desk_call_def Let_def trades_closed_desk)
  then have "rests (rn_desk r) (rn_desk (fst (desk_call date (desk_tick rg t (rn_engine r)) k)))" by (simp add: tick_rests)
  then show ?thesis by (auto simp: k tick_runner_def Let_def split: prod.split intro: rests_trans engine_call_rests)
qed

subsection \<open>The fleet in warm-up\<close>

definition fleet_rests :: "fleet \<Rightarrow> fleet \<Rightarrow> bool" where
  "fleet_rests f g =
     (list_all2 (\<lambda>r s. rests (rn_desk r) (rn_desk s)) (fl_runners f) (fl_runners g) \<and> fl_warming g = fl_warming f \<and>
      fl_warm_until g = fl_warm_until f)"

lemma fleet_rests_refl [simp]: "fleet_rests f f" by (simp add: fleet_rests_def list_all2_refl)

lemma fleet_rests_trans: "fleet_rests f g \<Longrightarrow> fleet_rests g h \<Longrightarrow> fleet_rests f h"
  unfolding fleet_rests_def using list_all2_trans [of "\<lambda>r s. rests (rn_desk r) (rn_desk s)" _ "\<lambda>r s. rests (rn_desk r) (rn_desk s)"] rests_trans
  by (smt (verit))

lemma with_runners_rests: "(\<And>r. rests (rn_desk r) (rn_desk (h r))) \<Longrightarrow> fleet_rests f (with_runners h f)"
  by (simp add: fleet_rests_def with_runners_def list_all2_conv_all_nth)

lemma with_books_rests: "(\<And>k. rests (rn_desk (fst k)) (rn_desk (fst (h k)))) \<Longrightarrow> fleet_rests f (with_books h f)"
proof -
  assume h: "\<And>k. rests (rn_desk (fst k)) (rn_desk (fst (h k)))"
  have each: "each_runner h rs a rows = (rs', a', rows') \<Longrightarrow> list_all2 (\<lambda>r s. rests (rn_desk r) (rn_desk s)) rs rs'" for rs a rows rs' a' rows'
  proof (induction rs arbitrary: a rows rs' a' rows')
    case (Cons r rs)
    obtain r1 a1 rows1 where one: "h (r, a, rows) = (r1, a1, rows1)" by (metis prod_cases3)
    obtain rs2 a2 rows2 where rest: "each_runner h rs a1 rows1 = (rs2, a2, rows2)" by (metis prod_cases3)
    from h [of "(r, a, rows)"] Cons.IH [OF rest] Cons.prems show ?case by (auto simp: one rest)
  qed simp
  obtain rs a rows where e: "each_runner h (fl_runners f) (fl_account f) [] = (rs, a, rows)" by (metis prod_cases3)
  from each [OF e] show ?thesis by (simp add: fleet_rests_def with_books_def e put_rows_def)
qed

lemma rests_updates:
  "fleet_rests f (f\<lparr>fl_quotes := q\<rparr>)" "fleet_rests f (f\<lparr>fl_eod_min := n\<rparr>)" "fleet_rests f (f\<lparr>fl_prev_ts := n, fl_wm := m\<rparr>)"
  "fleet_rests f (f\<lparr>fl_clock := n\<rparr>)" "fleet_rests f (f\<lparr>fl_last_price := px, fl_regime := rg\<rparr>)"
  "fleet_rests f (f\<lparr>fl_warm_date := d, fl_regime := rg\<rparr>)"
  by (simp_all add: fleet_rests_def list_all2_refl)

lemma warm_roll_rests: "fleet_rests f (warm_roll_to e d f)"
proof -
  have "fleet_rests f (set_calendar a b (with_runners rn_reset (f\<lparr>fl_warm_date := d, fl_regime := rg\<rparr>)))" for a b rg
    unfolding set_calendar_def
    by (rule fleet_rests_trans [OF fleet_rests_trans [OF rests_updates(6) with_runners_rests] with_runners_rests]) (simp_all add: desk_same)
  then show ?thesis by (simp add: warm_roll_to_def)
qed

lemma warm_tick_rests:
  assumes "fl_warming f" and "t_ts t < fl_warm_until f"
  shows "fleet_rests f (fleet_tick e t f)"
proof -
  define ts where "ts = t_ts t"
  define f2 where "f2 = warm_roll_to e (et_trade_date ts) f"
  have s2: "fleet_rests f f2" unfolding f2_def by (rule warm_roll_rests)
  then have w2: "fl_warming f2" using assms(1) by (simp add: fleet_rests_def)
  define f3 where "f3 = (gap_guard e ts f2)\<lparr>fl_prev_ts := ts, fl_wm := ts\<rparr>"
  define f4 where "f4 = (if fl_replay f3 \<noteq> None then f3\<lparr>fl_clock := ts\<rparr> else f3)"
  define f5 where "f5 = minute_check ts (fleet_quotes e ts f4)"
  have "fleet_rests f2 (with_runners gap_reset f2)" by (rule with_runners_rests) (simp add: desk_same)
  then have "fleet_rests f2 (gap_guard e ts f2)" using w2 by (simp add: gap_guard_def Let_def with_runners_def)
  then have "fleet_rests f2 f3" unfolding f3_def by (rule fleet_rests_trans) (rule rests_updates)
  moreover have "fleet_rests f3 f4" by (simp add: f4_def rests_updates)
  moreover have "fleet_rests f4 (fleet_quotes e ts f4)"
  proof -
    have "fleet_rests f4 (with_runners (fold (rn_quote rg tick) qs) (f4\<lparr>fl_quotes := q\<rparr>))" for rg tick qs q
      by (rule fleet_rests_trans [OF rests_updates(1) with_runners_rests]) (rule rn_quotes_rest)
    then show ?thesis by (simp add: fleet_quotes_def Let_def split: prod.split)
  qed
  moreover have "fleet_rests g (minute_check ts g)" for g
  proof -
    have "fleet_rests g (with_runners (\<lambda>r. if too_early w ts r then r else engine_call rg (en_eod h m) r) (g\<lparr>fl_eod_min := n\<rparr>))" for w rg h m n
      by (rule fleet_rests_trans [OF rests_updates(2) with_runners_rests]) (simp add: engine_call_rests)
    then show ?thesis by (simp add: minute_check_def split: prod.split)
  qed
  moreover have "fleet_rests f5 (with_books (tick_runner w d rg t) (f5\<lparr>fl_last_price := px, fl_regime := rg\<rparr>))" for w d rg px
    by (rule fleet_rests_trans [OF rests_updates(5) with_books_rests]) (rule tick_runner_rests)
  ultimately have all: "fleet_rests f (with_books (tick_runner w d rg t) (f5\<lparr>fl_last_price := px, fl_regime := rg\<rparr>))" for w d rg px
    unfolding f5_def using s2 by (blast intro: fleet_rests_trans)
  have now: "(if fl_warming f \<and> ts \<ge> fl_warm_until f then fleet_end_warmup e f else f) = f" using assms(2) by (simp add: ts_def)
  have roll: "(if fl_warming f then warm_roll_to e (et_trade_date ts) f else fleet_roll_day e ts f) = f2" using assms(1) by (simp add: f2_def)
  show ?thesis
    unfolding fleet_tick_def Let_def ts_def [symmetric] now roll f3_def [symmetric] f4_def [symmetric] f5_def [symmetric]
    by (simp add: all split: prod.split)
qed

lemma warm_ticks_rest:
  "\<forall>t \<in> set ts. t_ts t < fl_warm_until f \<Longrightarrow> fl_warming f \<Longrightarrow> fleet_rests f (fold (fleet_tick e) ts f)"
proof (induction ts arbitrary: f)
  case (Cons t ts)
  then have "fleet_rests f (fleet_tick e t f)" by (simp add: warm_tick_rests)
  moreover from this have "fl_warming (fleet_tick e t f)" "fl_warm_until (fleet_tick e t f) = fl_warm_until f"
    using Cons.prems by (simp_all add: fleet_rests_def)
  ultimately show ?case using Cons by (auto intro: fleet_rests_trans)
qed simp

subsection \<open>The end of the warm-up\<close>

lemma desk_warmup_same: "desk_dir (desk_warmup on d) = desk_dir d" "desk_out (desk_warmup on d) = desk_out d"
  by (cases d; simp add: desk_dir_def desk_out_def desk_warmup_def bk_set_warmup_def Let_def)+

lemma release_flat: "\<not> en_in_pos (rn_engine (rn_release r))"
  by (simp add: rn_release_def en_in_pos_def en_closed_def notify_trade_filled_def trend_trade_filled_def mtf_notify_trade_filled_def
      sig_dir_def clear_position_def flat_def Let_def split: engine.split)

lemma reseed_same: "en_in_pos (rn_engine (reseed_after_warmup r)) = en_in_pos (rn_engine r)"
    "en_in_pos (rn_engine (rn_halt why r)) = en_in_pos (rn_engine r)"
  by (simp_all add: reseed_after_warmup_def en_in_pos_def en_seed_trades_def seed_trades_today_def trend_seed_trades_def mtf_seed_state_def
      mtf_seed_trades_def rn_halt_def en_halt_def halt_trading_def trend_halt_def mtf_halt_def split: engine.split)

lemma end_warmup_runner_agrees:
  assumes "desk_dir (rn_desk r) = 0"
  shows "\<not> en_in_pos (rn_engine (end_warmup_runner r)) \<and> desk_dir (rn_desk (end_warmup_runner r)) = 0 \<and>
    desk_out (rn_desk (end_warmup_runner r)) = desk_out (rn_desk r)"
  using assms by (simp add: end_warmup_runner_def Let_def reseed_same release_flat desk_same desk_warmup_same)

lemma end_warmup_runners:
  "\<exists>rs. map rn_desk rs = map rn_desk (fl_runners f) \<and> fl_runners (fleet_end_warmup e f) = map end_warmup_runner rs"
proof -
  define f0 where "f0 = f\<lparr>fl_warming := False\<rparr>"
  define f1 where "f1 = (if fl_warm_date f0 \<noteq> fl_date f0 then warm_roll_to e (fl_date f0) f0 else f0)"
  define f2 where "f2 = f1\<lparr>fl_regime := rg_set_atr (fl_date f1) (fe_atr e (fl_date f1)) (fl_regime f1)\<rparr>"
  have cal: "map rn_desk (fl_runners (set_calendar a b g)) = map rn_desk (fl_runners g)" for a b g
    by (simp add: set_calendar_def with_runners_def desk_same)
  have "map rn_desk (fl_runners f2) = map rn_desk (fl_runners f)"
    by (simp add: f2_def f1_def f0_def warm_roll_to_def cal) (simp add: with_runners_def desk_same)
  then have "map rn_desk (fl_runners (set_calendar (fl_event f2) (fl_event_next f2) f2)) = map rn_desk (fl_runners f)" by (simp add: cal)
  moreover have "fl_runners (fleet_end_warmup e f) = map end_warmup_runner (fl_runners (set_calendar (fl_event f2) (fl_event_next f2) f2))"
    unfolding fleet_end_warmup_def Let_def f0_def [symmetric] f1_def [symmetric] f2_def [symmetric] by (simp add: with_runners_def)
  ultimately show ?thesis by blast
qed

text \<open>
  C24. The warm-up trades nothing: whatever history is replayed, a strategy whose broker was flat when the
  fleet started is flat when the warm-up ends, its broker has recorded no trade, and the strategy does not
  believe it holds a position.
\<close>

theorem warmup_trades_nothing:
  assumes "fl_warming f" and "list_all (\<lambda>r. calm_desk (rn_desk r)) (fl_runners f)" and "\<forall>t \<in> set ts. t_ts t < fl_warm_until f"
  shows "list_all2 (\<lambda>r s. desk_dir (rn_desk r) = 0 \<longrightarrow>
      desk_dir (rn_desk s) = 0 \<and> recorded (desk_out (rn_desk s)) = recorded (desk_out (rn_desk r)) \<and> \<not> en_in_pos (rn_engine s))
    (fl_runners f) (fl_runners (fleet_end_warmup e (fold (fleet_tick e) ts f)))"
proof -
  define g where "g = fold (fleet_tick e) ts f"
  have "fleet_rests f g" unfolding g_def by (rule warm_ticks_rest [OF assms(3,1)])
  then have g: "list_all2 (\<lambda>r s. rests (rn_desk r) (rn_desk s)) (fl_runners f) (fl_runners g)" by (simp add: fleet_rests_def)
  obtain rs where rs: "map rn_desk rs = map rn_desk (fl_runners g)" "fl_runners (fleet_end_warmup e g) = map end_warmup_runner rs"
    using end_warmup_runners by blast
  have desk: "rn_desk (rs ! i) = rn_desk (fl_runners g ! i)" if "i < length (fl_runners g)" for i
    using that rs(1) by (metis length_map nth_map)
  have len: "length rs = length (fl_runners g)" using rs(1) by (metis length_map)
  show ?thesis unfolding g_def [symmetric] rs(2)
  proof (rule list_all2_all_nthI)
    show "length (fl_runners f) = length (map end_warmup_runner rs)" using g len by (simp add: list_all2_lengthD)
  next
    fix i assume i: "i < length (fl_runners f)"
    then have i': "i < length rs" "i < length (fl_runners g)" using g len by (simp_all add: list_all2_lengthD)
    have "rests (rn_desk (fl_runners f ! i)) (rn_desk (rs ! i))" using list_all2_nthD [OF g i] desk i' by simp
    moreover have "calm_desk (rn_desk (fl_runners f ! i))" using assms(2) i by (simp add: list_all_length)
    ultimately show "desk_dir (rn_desk (fl_runners f ! i)) = 0 \<longrightarrow>
        desk_dir (rn_desk (map end_warmup_runner rs ! i)) = 0 \<and>
        recorded (desk_out (rn_desk (map end_warmup_runner rs ! i))) = recorded (desk_out (rn_desk (fl_runners f ! i))) \<and>
        \<not> en_in_pos (rn_engine (map end_warmup_runner rs ! i))"
      using end_warmup_runner_agrees [of "rs ! i"] i' by (auto simp: rests_def)
  qed
qed

definition demo_warming :: fleet where
  "demo_warming = demo_fleet\<lparr>fl_warming := True, fl_warm_until := 1748871964000000,
     fl_runners := map (\<lambda>r. r\<lparr>rn_desk := desk_warmup True (rn_desk r)\<rparr>)
       [runner_seeded (hd (fc_strategies demo_fleet_config)) (demo_history\<lparr>sh_position := None\<rparr>)
         (the (seat demo_fleet_config (hd (fc_strategies demo_fleet_config))))]\<rparr>"

lemma demo_idle:
  "\<exists>b. desk_warmup True (rn_desk (runner_seeded (hd (fc_strategies demo_fleet_config)) (demo_history\<lparr>sh_position := None\<rparr>)
     (the (seat demo_fleet_config (hd (fc_strategies demo_fleet_config)))))) = Simple b \<and> bk_warmup b \<and> bk_pending b = 0 \<and> bk_dir b = 0"
  by (simp add: demo_seat runner_seeded_def seed_desk_def resume_position_def demo_history_def desk_warmup_def
      bk_set_warmup_def pb_seed_entries_def pb_new_def Let_def)

lemma warmup_trades_nothing_witness:
  "\<exists>r. fl_runners (fleet_end_warmup demo_crash (fold (fleet_tick demo_crash) (fe_ticks demo_crash) demo_warming)) = [r] \<and>
     desk_dir (rn_desk r) = 0 \<and> \<not> en_in_pos (rn_engine r)"
proof -
  obtain q b where q: "fl_runners demo_warming = [q]" and b: "rn_desk q = Simple b" "bk_warmup b" "bk_pending b = 0" "bk_dir b = 0"
    using demo_idle by (auto simp: demo_warming_def)
  have "fl_warming demo_warming" "list_all (\<lambda>r. calm_desk (rn_desk r)) (fl_runners demo_warming)"
    "\<forall>t \<in> set (fe_ticks demo_crash). t_ts t < fl_warm_until demo_warming"
    by (simp_all add: q calm_desk_def b) (simp_all add: demo_warming_def demo_crash_def demo_fleet_env_def)
  from warmup_trades_nothing [OF this, of demo_crash]
  have "list_all2 (\<lambda>r s. desk_dir (rn_desk r) = 0 \<longrightarrow> desk_dir (rn_desk s) = 0 \<and> \<not> en_in_pos (rn_engine s)) [q]
      (fl_runners (fleet_end_warmup demo_crash (fold (fleet_tick demo_crash) (fe_ticks demo_crash) demo_warming)))"
    unfolding q by (rule list_all2_mono) simp
  moreover have "desk_dir (rn_desk q) = 0"
    by (simp add: b desk_dir_def)
  ultimately show ?thesis by (auto simp: list_all2_Cons1)
qed

end
