(* ===== verification/Spec2Isabelle.thy ===== *)
theory Spec2Isabelle
  imports Text_Parse Civil_Time Risk_Props Order_Rules Notif_Props Orb_Props Paper_Fills Paper_Parity Collection Mtf_Props
    Trend_Props Trend_Area Orb_File Exec_Queue Exec_Halts Exec_Main Fleet_Warmup
begin

text \<open>
  Verification development of the Rithmic data engine: a market-data collector, a live executor of intraday
  futures strategies and a paper-trading engine that runs the same strategies without orders.

  THE PROGRAM AND ITS PARTS.  The collector (\<open>collector.cpp\<close>) receives trades, quotes and depth from the
  exchange client, checks them (\<open>validator.hpp\<close>), keeps them in write-ahead logs (\<open>wal.hpp\<close>) and writes them
  to PostgreSQL (\<open>db.cpp\<close>, \<open>audit.cpp\<close>).  The executor (\<open>execution/executor_main.cpp\<close>) reads those rows back
  or subscribes itself, drives one of three strategies (\<open>orb_strategy.hpp\<close>, \<open>trend_strategy.hpp\<close>,
  \<open>mtf_scalper_strategy.hpp\<close>), passes their signals through the gates of \<open>paper/paper_quote.hpp\<close> to the order
  manager (\<open>order_manager.hpp\<close>), which asks the risk manager (\<open>risk_manager.hpp\<close>) and talks to the order
  plant; the fills and position reports that come back pass \<open>notification_router.hpp\<close>.  The paper brokers
  (\<open>paper/paper_broker.hpp\<close>, \<open>paper/paper_bracket_broker.hpp\<close>) stand in for order manager and exchange, with
  the account's books in \<open>paper/paper_engine.hpp\<close>; the fleet (\<open>paper/paper_main.cpp\<close>) runs many strategies on one
  account from the recorded ticks.  All paths here are below \<open>src/src/\<close>.

  THEORIES.  Shared: \<open>Prelude\<close> (C++ division, rounding and number text, maps, runs of a machine),
  \<open>Text_Parse\<close> (standard-library conversions and the JSON helpers of \<open>execution/orb_config.hpp\<close>), \<open>Config\<close>
  and \<open>Orb_File\<close> (\<open>OrbConfig\<close>, its validation, \<open>from_file\<close>), \<open>Civil_Time\<close> (US Eastern time and trading dates).
  Risk and market: \<open>Risk\<close>, \<open>Risk_Props\<close> (\<open>RiskManager\<close>, \<open>AccountEnvelope\<close>), \<open>Quote\<close> (quotes, book gates,
  regime), \<open>Latency\<close>.
  Orders: \<open>Order_State\<close>, \<open>Order_Fill\<close>, \<open>Order_Ops\<close> (every method of \<open>OrderManager\<close>), \<open>Order_Steps\<close> (its calls as
  one datatype and one step), \<open>Order_Cover\<close>, \<open>Order_Inv\<close>, \<open>Order_Props\<close>, \<open>Order_Books\<close>, \<open>Order_Rules\<close> (its
  invariants and properties); \<open>Notif\<close>, \<open>Notif_Props\<close> (\<open>notification_router.hpp\<close> and \<open>NetReconciler\<close>).
  Strategies: \<open>Orb_Strategy\<close>, \<open>Orb_Props\<close>; \<open>Trend_Config\<close>, \<open>Trend_State\<close>, \<open>Trend_Modes\<close>, \<open>Trend_Profile\<close>,
  \<open>Trend_Strategy\<close>, \<open>Trend_Props\<close>, \<open>Trend_Area\<close>; \<open>Mtf_Config\<close>, \<open>Mtf_Series\<close>, \<open>Mtf_Patterns\<close>, \<open>Mtf_Zones\<close>,
  \<open>Mtf_Strategy\<close>, \<open>Mtf_Props\<close>; \<open>Strategy_Host\<close> (what a host relies on in any of the three).
  Paper: \<open>Paper_Core\<close>, \<open>Paper_Broker\<close>, \<open>Bracket_Broker\<close>, and \<open>Paper_Books\<close>, \<open>Paper_Props\<close>, \<open>Paper_Stops\<close>,
  \<open>Paper_Fills\<close>, \<open>Paper_Parity\<close>.
  Paper fleet: \<open>Fleet_Config\<close> (\<open>paper/paper_config.hpp\<close>), \<open>Fleet\<close> (a runner: engine, broker and its accounting),
  \<open>Fleet_Loop\<close> (one round of the loop), \<open>Fleet_Start\<close>, and \<open>Fleet_Books\<close>, \<open>Fleet_Props\<close>, \<open>Fleet_Warmup\<close>.
  Collector: \<open>Wal\<close>, \<open>Codecs\<close>, \<open>Validator\<close>, \<open>Engine_Config\<close> (\<open>config.hpp\<close>), \<open>Tick_Store\<close> (\<open>db.cpp\<close>), \<open>Audit_Log\<close>,
  \<open>Collector\<close>, \<open>Collector_Props\<close>, \<open>Collection\<close>.
  Executor (all of \<open>execution/executor_main.cpp\<close>): \<open>Exec_Queue\<close> (\<open>WsWriteQueue\<close>), \<open>Exec_State\<close> (the order plant,
  the shared variables, the callbacks of the order manager), \<open>Exec_Signal\<close> (the signal callback, one tick, one
  quote), \<open>Exec_Recon\<close> (unwinds, the net reconciler, position reports), \<open>Exec_Notify\<close> (order and exchange
  notifications), \<open>Exec_Feed\<close> (the database feed), \<open>Exec_Loop\<close> (the loop of every second, start and shutdown),
  \<open>Exec_Main\<close> (command line and cycles), and \<open>Exec_Frame\<close>, \<open>Exec_Props\<close>, \<open>Exec_Recon_Props\<close>, \<open>Exec_Halts\<close>.

  HOW THE CODE IS MODELLED.  A class is a record of its members, a method a function on it; what a method calls
  out to (an order, a row, a callback) is appended to a list in the state, in order, or is an argument when the
  caller provides it.  Outcomes of the file system, the database, the network and the clocks are arguments.
  An exception or refusal is \<open>None\<close> or the left side of a sum.  A method that holds its mutex throughout, or a
  handler of the executor's single thread that does not wait in between, is one atomic step; the collector's and
  the audit log's two threads are interleavings of such steps.  In the executor a signal of an engine is
  handled when the engine's call is done, the one change the callback makes inside it being made there.  Doubles
  are real numbers, with \<open>None\<close> or a datatype where the code tests for NaN or infinity; rounding of single
  operations is not modelled.  Integers are \<open>int\<close> where the code stays in range.  Some lists in the state are
  kept for the statements only; the theory that has them says which.

  WHAT THE LEMMAS SHOW.  Order manager: over any run no accepted protective stop is forgotten, a late stop fill is
  reversed, the books move exactly with the trades, the stop only tightens and a breached one gets out; entries
  pass every gate.  Executor: a net position that disagrees with the exchange is repaired without adding
  exposure, a position found at the start is closed once, fills are booked once, fills of unknown orders do
  nothing, which halts are in force after a start, every row of the feed is delivered once,
  the write queue answers in order, a shutdown ends, a loaded configuration is well formed.  Risk: the equity
  is the sum of what was booked, a hard halt survives the daily reset unless a later loss hides it, the paper
  envelope is refined by the manager.  Strategies: caps, filters, halts and stops of the three engines, the opening
  range, the value area.  Paper: the books of both brokers, fills never better than the market, the refinement of the
  live stop management.  Fleet: the account's total moves exactly with the trades of its brokers, the warm-up
  trades nothing, the account's limits have no effect within a day, a fleet file is read back.
  Collector: rows are conserved in every interleaving and delivered at a
  shutdown, acknowledged rows are recovered after a crash, and the two cases in which rows are lost.
  The interfaces are locales, each interpreted on the model beside its provider: \<open>line_codec\<close> for the
  line formats of the write-ahead log, \<open>pnl_ledger\<close> for the risk manager and the account envelope, \<open>trade_ledger\<close>
  for the two paper brokers, \<open>strategy_host\<close> for each engine and for the sum of the three,
  \<open>conserving\<close> for the fleet, which rests on the facts of \<open>trade_ledger\<close>.

  BOUNDS.  No fuel is used: every loop is a recursion on a list, a function with a termination proof
  (the value area, array literals of the database, the fleet's pages of ticks and quotes) or a \<open>while\<close> whose end
  is proved (the waits of a shutdown).  A query returns 5000 rows, the audit
  buffer holds 10000 events and the collector's queue the number of batches of the code.

  NOT MODELLED.  Exchange client, login, heartbeats and TLS streams, protobuf encoding, and the vendor's price feed
  (\<open>client.cpp\<close>, \<open>execution/sdk_md_feed.hpp\<close>): input and output over a network, with classes that the build
  generates.  The text of SQL statements, libpq and the schema (\<open>execution/orb_db.hpp\<close>, most of
  \<open>paper/paper_db.cpp\<close> and of \<open>db.cpp\<close>): what they return is an argument.  Log lines, alerts, reports and rows that only record history,
  in every component.  In the executor: the order drill, the alarm for unconfirmed cancels, the
  disabled best-price loop and the reconnects of the price feed.  The processes around the modelled parts:
  \<open>main.cpp\<close>, \<open>audit_daemon_main.cpp\<close>, \<open>orb_strategy_main.cpp\<close> and the tools.  In the paper fleet:
  the registry of strategies and the ledger of starts.
\<close>

end
